(* ===== verification/Prelude.thy ===== *)
theory Prelude
  imports Main
begin

text \<open>
  Shared vocabulary of the development: Go error values, the outcome of a Go call
  (\<open>value, nil\<close> / \<open>_, err\<close> / panic), computations that thread an explicit world and may
  stop early, and the lemmas and theorem collections by which the component proofs take
  such computations apart.
\<close>

named_theorems act_simps \<open>unfolding the sequencing of computations\<close>
named_theorems keeps_rules \<open>computations that leave an observation of the world alone\<close>

section \<open>Error values\<close>

text \<open>
  \<open>KErr code reason cause\<close> is a kratos error (HTTP code and reason string, with the cause
  attached by \<open>WithCause\<close>); \<open>Wrap msg e\<close> is \<open>fmt.Errorf("msg: %w", e)\<close> and
  \<open>Wraps\<close> the same with several verbs; the constants are the sentinel errors of gorm, go-redis,
  \<open>context\<close> and asynq. \<open>MySQLDuplicateEntry\<close> is the driver's own error 1062, whose text contains
  \<open>Duplicate entry\<close>.
\<close>

datatype gerr =
    KErr nat string "gerr option"
  | Wrap string gerr
  | Wraps string "gerr list"
  | GormRecordNotFound
  | GormDuplicatedKey
  | MySQLDuplicateEntry
  | RedisNil
  | CtxCanceled
  | CtxDeadlineExceeded
  | SkipRetry
  | GoErr string

text \<open>\<open>errors.Is\<close>: kratos errors match on code and reason, the others on identity, and the
  chain of causes is followed.\<close>

fun errors_Is :: "gerr \<Rightarrow> gerr \<Rightarrow> bool" where
  "errors_Is (KErr c r cause) target =
     ((case target of KErr c' r' _ \<Rightarrow> c = c' \<and> r = r' | _ \<Rightarrow> False) \<or>
      (case cause of None \<Rightarrow> False | Some e \<Rightarrow> errors_Is e target))"
| "errors_Is (Wrap m e) target = (target = Wrap m e \<or> errors_Is e target)"
| "errors_Is (Wraps m es) target = (target = Wraps m es \<or> (\<exists>e \<in> set es. errors_Is e target))"
| "errors_Is e target = (e = target)"

text \<open>\<open>strings.Contains(err.Error(), "Duplicate entry")\<close> on the errors a statement can return.\<close>

fun is_duplicate_text :: "gerr \<Rightarrow> bool" where
  "is_duplicate_text MySQLDuplicateEntry = True"
| "is_duplicate_text _ = False"

section \<open>Outcomes and computations\<close>

datatype 'a res = Ok 'a | Err gerr | Panic string

type_synonym ('a, 'w) act = "'w \<Rightarrow> 'a res \<times> 'w"

definition ret :: "'a \<Rightarrow> ('a, 'w) act" where
  "ret x w = (Ok x, w)"

definition fail :: "gerr \<Rightarrow> ('a, 'w) act" where
  "fail e w = (Err e, w)"

definition panic :: "string \<Rightarrow> ('a, 'w) act" where
  "panic s w = (Panic s, w)"

text \<open>\<open>x, err := m; if err != nil { return err }; f x\<close>\<close>

definition bindE :: "('a, 'w) act \<Rightarrow> ('a \<Rightarrow> ('b, 'w) act) \<Rightarrow> ('b, 'w) act" where
  "bindE m f w =
     (case m w of
        (Ok x, w') \<Rightarrow> f x w'
      | (Err e, w') \<Rightarrow> (Err e, w')
      | (Panic s, w') \<Rightarrow> (Panic s, w'))"

text \<open>\<open>x, err := m; if err != nil { h err } else { f x }\<close>\<close>

definition caseE :: "('a, 'w) act \<Rightarrow> (gerr \<Rightarrow> ('b, 'w) act) \<Rightarrow> ('a \<Rightarrow> ('b, 'w) act) \<Rightarrow> ('b, 'w) act" where
  "caseE m h f w =
     (case m w of
        (Ok x, w') \<Rightarrow> f x w'
      | (Err e, w') \<Rightarrow> h e w'
      | (Panic s, w') \<Rightarrow> (Panic s, w'))"

text \<open>\<open>_ = m\<close>: the error is dropped, a panic is not.\<close>

definition ignoreE :: "('a, 'w) act \<Rightarrow> (unit, 'w) act" where
  "ignoreE m = caseE m (\<lambda>_. ret ()) (\<lambda>_. ret ())"

text \<open>\<open>for _, x := range xs { acc, err = f x acc; if err != nil { return err } }\<close>\<close>

fun foldE :: "('x \<Rightarrow> 'a \<Rightarrow> ('a, 'w) act) \<Rightarrow> 'x list \<Rightarrow> 'a \<Rightarrow> ('a, 'w) act" where
  "foldE f [] a = ret a"
| "foldE f (x # xs) a = bindE (f x a) (foldE f xs)"

definition forE :: "'x list \<Rightarrow> ('x \<Rightarrow> (unit, 'w) act) \<Rightarrow> (unit, 'w) act" where
  "forE xs f = foldE (\<lambda>x _. f x) xs ()"

definition liftR :: "'a res \<Rightarrow> ('a, 'w) act" where
  "liftR r w = (r, w)"

text \<open>The same sequencing for code that touches no state.\<close>

fun bindR :: "'a res \<Rightarrow> ('a \<Rightarrow> 'b res) \<Rightarrow> 'b res" where
  "bindR (Ok x) f = f x"
| "bindR (Err e) f = Err e"
| "bindR (Panic s) f = Panic s"

text \<open>A computation keeps an observation of the world, whatever its outcome.\<close>

definition keeps :: "('w \<Rightarrow> 'o) \<Rightarrow> ('a, 'w) act \<Rightarrow> bool" where
  "keeps obs m \<longleftrightarrow> (\<forall>w. obs (snd (m w)) = obs w)"

section \<open>Lemmas\<close>

lemma ret_app [simp]: "ret x w = (Ok x, w)"
  by (simp add: ret_def)

lemma fail_app [simp]: "fail e w = (Err e, w)"
  by (simp add: fail_def)

lemma panic_app [simp]: "panic s w = (Panic s, w)"
  by (simp add: panic_def)

lemma liftR_app [simp]: "liftR r w = (r, w)"
  by (simp add: liftR_def)

lemma bindE_ret [simp]: "bindE (ret x) f = f x"
  by (rule ext) (simp add: bindE_def)

lemma bindE_fail [simp]: "bindE (fail e) f = fail e"
  by (rule ext) (simp add: bindE_def)

lemma bindE_panic [simp]: "bindE (panic s) f = panic s"
  by (rule ext) (simp add: bindE_def)

lemma bindE_assoc: "bindE (bindE m f) g = bindE m (\<lambda>x. bindE (f x) g)"
  by (rule ext) (simp add: bindE_def split: prod.split res.split)

lemma bindE_eval [act_simps]: "m w = (Ok x, w') \<Longrightarrow> bindE m f w = f x w'"
  by (simp add: bindE_def)

lemma bindE_eval_Err: "m w = (Err e, w') \<Longrightarrow> bindE m f w = (Err e, w')"
  by (simp add: bindE_def)

lemma bindE_eval_Panic: "m w = (Panic s, w') \<Longrightarrow> bindE m f w = (Panic s, w')"
  by (simp add: bindE_def)

lemma bindE_Ok_iff:
  "bindE m f w = (Ok y, w'') \<longleftrightarrow> (\<exists>x w'. m w = (Ok x, w') \<and> f x w' = (Ok y, w''))"
  by (auto simp: bindE_def split: prod.splits res.splits)

lemma bindE_OkE [elim!]:
  assumes "bindE m f w = (Ok y, w'')"
  obtains x w' where "m w = (Ok x, w')" and "f x w' = (Ok y, w'')"
  using assms by (auto simp: bindE_Ok_iff)

lemma bindE_ErrE:
  assumes "bindE m f w = (Err e, w'')"
  obtains (stop) "m w = (Err e, w'')"
    | (later) x w' where "m w = (Ok x, w')" and "f x w' = (Err e, w'')"
  using assms by (auto simp: bindE_def split: prod.splits res.splits)

lemma caseE_eval: "m w = (Ok x, w') \<Longrightarrow> caseE m h f w = f x w'"
  by (simp add: caseE_def)

lemma caseE_eval_Err: "m w = (Err e, w') \<Longrightarrow> caseE m h f w = h e w'"
  by (simp add: caseE_def)

lemma caseE_ret [simp]: "caseE (ret x) h f = f x"
  by (rule ext) (simp add: caseE_def)

lemma caseE_fail [simp]: "caseE (fail e) h f = h e"
  by (rule ext) (simp add: caseE_def)

lemma caseE_liftR:
  "caseE (liftR r) h f = (case r of Ok x \<Rightarrow> f x | Err e \<Rightarrow> h e | Panic s \<Rightarrow> panic s)"
  by (rule ext) (simp add: caseE_def split: res.split)

lemma caseE_fail_is_bindE: "caseE m fail f = bindE m f"
  by (rule ext) (simp add: caseE_def bindE_def split: prod.split res.split)

lemma ignoreE_Ok_iff:
  "ignoreE m w = (Ok u, w') \<longleftrightarrow> (\<exists>x. m w = (Ok x, w')) \<or> (\<exists>e. m w = (Err e, w'))"
  by (auto simp: ignoreE_def caseE_def split: prod.splits res.splits)

lemma ignoreE_no_Err [simp]: "ignoreE m w \<noteq> (Err e, w')"
  by (auto simp: ignoreE_def caseE_def split: prod.splits res.splits)

text \<open>An invariant of the world that every call of a loop body keeps is kept by the loop,
  whatever its outcome.\<close>

lemma foldE_world_inv:
  assumes step: "\<And>x a w. x \<in> set xs \<Longrightarrow> I w \<Longrightarrow> I (snd (f x a w))"
    and "I w"
  shows "I (snd (foldE f xs a w))"
  using assms
proof (induction xs arbitrary: a w)
  case Nil
  then show ?case by simp
next
  case (Cons x xs)
  obtain r w' where fx: "f x a w = (r, w')" by fastforce
  with Cons.prems have "I w'" by (metis list.set_intros(1) snd_conv)
  with Cons fx show ?case by (cases r) (auto simp: bindE_def)
qed

lemma bindE_world_inv:
  assumes "I (snd (m w))"
    and "\<And>x w'. m w = (Ok x, w') \<Longrightarrow> I (snd (f x w'))"
  shows "I (snd (bindE m f w))"
  using assms by (auto simp: bindE_def split: prod.split res.split)

lemma errors_Is_refl_KErr [simp]: "errors_Is (KErr c r cause) (KErr c r cause')"
  by simp

subsection \<open>Kept observations\<close>

lemma keepsD: "keeps obs m \<Longrightarrow> m w = (r, w') \<Longrightarrow> obs w' = obs w"
  by (metis keeps_def snd_conv)

lemma keeps_ret [keeps_rules]: "keeps obs (ret x)"
  by (simp add: keeps_def)

lemma keeps_fail [keeps_rules]: "keeps obs (fail e)"
  by (simp add: keeps_def)

lemma keeps_panic [keeps_rules]: "keeps obs (panic s)"
  by (simp add: keeps_def)

lemma keeps_liftR [keeps_rules]: "keeps obs (liftR r)"
  by (simp add: keeps_def)

lemma keeps_bindE [keeps_rules]: "keeps obs m \<Longrightarrow> (\<And>x. keeps obs (f x)) \<Longrightarrow> keeps obs (bindE m f)"
  by (auto simp: keeps_def bindE_def split: prod.split res.split) (metis snd_conv)+

lemma keeps_caseE [keeps_rules]:
  "keeps obs m \<Longrightarrow> (\<And>e. keeps obs (h e)) \<Longrightarrow> (\<And>x. keeps obs (f x)) \<Longrightarrow> keeps obs (caseE m h f)"
  by (auto simp: keeps_def caseE_def split: prod.split res.split) (metis snd_conv)+

lemma keeps_ignoreE [keeps_rules]: "keeps obs m \<Longrightarrow> keeps obs (ignoreE m)"
  by (simp add: ignoreE_def keeps_rules)

lemma keeps_if [keeps_rules]: "keeps obs m \<Longrightarrow> keeps obs n \<Longrightarrow> keeps obs (if b then m else n)"
  by simp

lemma keeps_option [keeps_rules]:
  "keeps obs m \<Longrightarrow> (\<And>x. keeps obs (f x)) \<Longrightarrow> keeps obs (case v of None \<Rightarrow> m | Some x \<Rightarrow> f x)"
  by (simp split: option.split)

lemma keeps_prod [keeps_rules]: "(\<And>x y. keeps obs (f x y)) \<Longrightarrow> keeps obs (case v of (x, y) \<Rightarrow> f x y)"
  by (simp split: prod.split)

lemma keeps_foldE [keeps_rules]: "(\<And>x a. keeps obs (f x a)) \<Longrightarrow> keeps obs (foldE f xs a)"
  by (induction xs arbitrary: a) (auto intro: keeps_rules)

end
