(* ===== verification/Go_Text.thy ===== *)
theory Go_Text
  imports Prelude
begin

text \<open>
  The part of Go's string handling the program uses, on byte strings: \<open>strings.Split\<close>
  with a one-byte separator, \<open>strings.Join\<close>, \<open>strings.Contains\<close>, iteration over runes, \<open>strings.TrimSpace\<close>, \<open>strings.ToLower\<close>,
  \<open>strconv.FormatInt/Itoa\<close>, \<open>strconv.ParseInt/Atoi\<close> in base 10 and 64 bits, the
  zero-padding verbs \<open>%0wd\<close> of \<open>fmt.Sprintf\<close>, and the date layouts
  \<open>2006-01-02\<close> and \<open>2006-01\<close>; with the round trips the components rely on.
\<close>

section \<open>Definitions\<close>

subsection \<open>Splitting and joining\<close>

fun split :: "char \<Rightarrow> string \<Rightarrow> string list" where
  "split c [] = [[]]"
| "split c (x # xs) =
     (if x = c then [] # split c xs
      else (case split c xs of [] \<Rightarrow> [[x]] | p # ps \<Rightarrow> (x # p) # ps))"

fun join :: "string \<Rightarrow> string list \<Rightarrow> string" where
  "join sep [] = []"
| "join sep [p] = p"
| "join sep (p # q # ps) = p @ sep @ join sep (q # ps)"

fun has_prefix :: "string \<Rightarrow> string \<Rightarrow> bool" where
  "has_prefix [] s = True"
| "has_prefix (p # ps) [] = False"
| "has_prefix (p # ps) (x # xs) = (p = x \<and> has_prefix ps xs)"

text \<open>\<open>strings.Contains\<close>\<close>

fun contains :: "string \<Rightarrow> string \<Rightarrow> bool" where
  "contains [] p = (p = [])"
| "contains (x # xs) p = (has_prefix p (x # xs) \<or> contains xs p)"

text \<open>
  \<open>for _, c := range s\<close>: the code points of a byte string; a byte that starts no valid UTF-8
  sequence is U+FFFD and one byte wide. \<open>rune_width\<close> is the length of the sequence at the front.
\<close>

definition rune_width :: "int list \<Rightarrow> nat option" where
  "rune_width s =
     (let cont = (\<lambda>b lo hi. lo \<le> b \<and> b \<le> hi)
      in case s of
           [] \<Rightarrow> None
         | b0 # r \<Rightarrow>
             if b0 < 128 then Some 1
             else if 194 \<le> b0 \<and> b0 \<le> 223 then
               (case r of b1 # _ \<Rightarrow> if cont b1 128 191 then Some 2 else None | _ \<Rightarrow> None)
             else if 224 \<le> b0 \<and> b0 \<le> 239 then
               (case r of
                  b1 # b2 # _ \<Rightarrow>
                    if cont b1 (if b0 = 224 then 160 else 128) (if b0 = 237 then 159 else 191) \<and> cont b2 128 191
                    then Some 3 else None
                | _ \<Rightarrow> None)
             else if 240 \<le> b0 \<and> b0 \<le> 244 then
               (case r of
                  b1 # b2 # b3 # _ \<Rightarrow>
                    if cont b1 (if b0 = 240 then 144 else 128) (if b0 = 244 then 143 else 191) \<and>
                       cont b2 128 191 \<and> cont b3 128 191
                    then Some 4 else None
                | _ \<Rightarrow> None)
             else None)"

definition rune_value :: "int list \<Rightarrow> int" where
  "rune_value s =
     (case s of
        [b0] \<Rightarrow> b0
      | [b0, b1] \<Rightarrow> (b0 - 192) * 64 + (b1 - 128)
      | [b0, b1, b2] \<Rightarrow> (b0 - 224) * 4096 + (b1 - 128) * 64 + (b2 - 128)
      | [b0, b1, b2, b3] \<Rightarrow> (b0 - 240) * 262144 + (b1 - 128) * 4096 + (b2 - 128) * 64 + (b3 - 128)
      | _ \<Rightarrow> 65533)"

function rune_list :: "int list \<Rightarrow> int list" where
  "rune_list [] = []"
| "rune_list (b # bs) =
     (case rune_width (b # bs) of
        None \<Rightarrow> 65533 # rune_list bs
      | Some n \<Rightarrow> if n = 0 then [] else rune_value (take n (b # bs)) # rune_list (drop n (b # bs)))"
  by pat_completeness auto
termination
  by (relation "measure length") auto

definition runes :: "string \<Rightarrow> int list" where
  "runes s = rune_list (map (\<lambda>c. int (of_char c)) s)"

text \<open>The UTF-8 encodings of the code points for which \<open>unicode.IsSpace\<close> holds.\<close>

definition space_encodings :: "string list" where
  "space_encodings =
     [[CHR 0x09], [CHR 0x0A], [CHR 0x0B], [CHR 0x0C], [CHR 0x0D], [CHR 0x20],
      [CHR 0xC2, CHR 0x85], [CHR 0xC2, CHR 0xA0], [CHR 0xE1, CHR 0x9A, CHR 0x80],
      [CHR 0xE2, CHR 0x80, CHR 0x80], [CHR 0xE2, CHR 0x80, CHR 0x81],
      [CHR 0xE2, CHR 0x80, CHR 0x82], [CHR 0xE2, CHR 0x80, CHR 0x83],
      [CHR 0xE2, CHR 0x80, CHR 0x84], [CHR 0xE2, CHR 0x80, CHR 0x85],
      [CHR 0xE2, CHR 0x80, CHR 0x86], [CHR 0xE2, CHR 0x80, CHR 0x87],
      [CHR 0xE2, CHR 0x80, CHR 0x88], [CHR 0xE2, CHR 0x80, CHR 0x89],
      [CHR 0xE2, CHR 0x80, CHR 0x8A], [CHR 0xE2, CHR 0x80, CHR 0xA8],
      [CHR 0xE2, CHR 0x80, CHR 0xA9], [CHR 0xE2, CHR 0x80, CHR 0xAF],
      [CHR 0xE2, CHR 0x81, CHR 0x9F], [CHR 0xE3, CHR 0x80, CHR 0x80]]"

text \<open>Strip a space encoding from the front, as long as there is one: \<open>pats\<close> are the
  encodings (reversed for the right end).\<close>

function strip :: "string list \<Rightarrow> string \<Rightarrow> string" where
  "strip pats s =
     (case find (\<lambda>p. p \<noteq> [] \<and> has_prefix p s) pats of
        None \<Rightarrow> s
      | Some p \<Rightarrow> if s = [] then s else strip pats (drop (length p) s))"
  by pat_completeness auto
termination
  by (relation "measure (\<lambda>(pats, s). length s)") (auto simp: find_Some_iff)

declare strip.simps [simp del]

definition TrimSpace :: "string \<Rightarrow> string" where
  "TrimSpace s = rev (strip (map rev space_encodings) (rev (strip space_encodings s)))"

text \<open>\<open>strings.ToLower\<close> on ASCII letters.\<close>

definition lower_char :: "char \<Rightarrow> char" where
  "lower_char c =
     (let n = of_char c :: nat in if 65 \<le> n \<and> n \<le> 90 then char_of (n + 32) else c)"

definition ToLower :: "string \<Rightarrow> string" where
  "ToLower = map lower_char"

subsection \<open>Decimal numbers\<close>

definition digit_char :: "int \<Rightarrow> char" where
  "digit_char d = char_of (48 + d)"

text \<open>The decimal digits of a number that is not negative.\<close>

function digits :: "int \<Rightarrow> string" where
  "digits n = (if n < 10 then [digit_char n] else digits (n div 10) @ [digit_char (n mod 10)])"
  by pat_completeness auto
termination
  by (relation "measure nat") auto

declare digits.simps [simp del]

definition FormatInt :: "int \<Rightarrow> string" where
  "FormatInt n = (if n < 0 then CHR ''-'' # digits (- n) else digits n)"

definition digit_val :: "char \<Rightarrow> int option" where
  "digit_val c = (let n = of_char c :: int in if 48 \<le> n \<and> n \<le> 57 then Some (n - 48) else None)"

fun digits_val :: "int \<Rightarrow> string \<Rightarrow> int option" where
  "digits_val acc [] = Some acc"
| "digits_val acc (c # cs) =
     (case digit_val c of None \<Rightarrow> None | Some d \<Rightarrow> digits_val (10 * acc + d) cs)"

definition unsigned_val :: "string \<Rightarrow> int option" where
  "unsigned_val s = (if s = [] then None else digits_val 0 s)"

definition int64_min :: int where "int64_min = - (2 ^ 63)"

definition int64_max :: int where "int64_max = 2 ^ 63 - 1"

definition is_int64 :: "int \<Rightarrow> bool" where
  "is_int64 n \<longleftrightarrow> int64_min \<le> n \<and> n \<le> int64_max"

abbreviation ErrSyntax :: gerr where "ErrSyntax \<equiv> GoErr ''strconv: invalid syntax''"

abbreviation ErrRange :: gerr where "ErrRange \<equiv> GoErr ''strconv: value out of range''"

text \<open>\<open>strconv.ParseInt(s, 10, 64)\<close>, which is also \<open>strconv.Atoi\<close> on a 64-bit platform.\<close>

definition ParseInt :: "string \<Rightarrow> int res" where
  "ParseInt s =
     (let (neg, body) =
        (case s of
           [] \<Rightarrow> (False, [])
         | c # cs \<Rightarrow> if c = CHR ''-'' then (True, cs) else if c = CHR ''+'' then (False, cs) else (False, s))
      in case unsigned_val body of
           None \<Rightarrow> Err ErrSyntax
         | Some n \<Rightarrow>
             let v = (if neg then - n else n)
             in if is_int64 v then Ok v else Err ErrRange)"

abbreviation Atoi :: "string \<Rightarrow> int res" where "Atoi \<equiv> ParseInt"

text \<open>\<open>fmt.Sprintf("%0wd", n)\<close>\<close>

definition pad0 :: "nat \<Rightarrow> string \<Rightarrow> string" where
  "pad0 w s = replicate (w - length s) (CHR ''0'') @ s"

definition fmt0 :: "nat \<Rightarrow> int \<Rightarrow> string" where
  "fmt0 w n = (if n < 0 then CHR ''-'' # pad0 (w - 1) (digits (- n)) else pad0 w (digits n))"

subsection \<open>Instants and the date layouts\<close>

text \<open>
  A \<open>time.Time\<close> is its instant in nanoseconds since the Unix epoch; the zone offset of the
  process (\<open>time.Local\<close>) is a parameter of the layouts. The civil date of a day number
  is the proleptic Gregorian calendar.
\<close>

type_synonym time = int

definition second :: int where "second = 1000000000"

text \<open>The zero \<open>time.Time\<close>: January 1, year 1, 00:00:00 UTC.\<close>

definition zero_time :: time where
  "zero_time = - 62135596800 * second"

definition civil :: "int \<Rightarrow> int \<times> int \<times> int" where
  "civil d =
     (let z = d + 719468;
          era = z div 146097;
          doe = z - era * 146097;
          yoe = (doe - doe div 1460 + doe div 36524 - doe div 146096) div 365;
          y = yoe + era * 400;
          doy = doe - (365 * yoe + yoe div 4 - yoe div 100);
          mp = (5 * doy + 2) div 153;
          dd = doy - (153 * mp + 2) div 5 + 1;
          mm = (if mp < 10 then mp + 3 else mp - 9)
      in (if mm \<le> 2 then y + 1 else y, mm, dd))"

definition day_number :: "int \<Rightarrow> time \<Rightarrow> int" where
  "day_number zone t = (t div second + zone) div 86400"

text \<open>\<open>t.Format("2006-01")\<close>, \<open>t.Format("2006-01-02")\<close> and \<open>t.Format("20060102")\<close>\<close>

definition fmt_month :: "int \<Rightarrow> time \<Rightarrow> string" where
  "fmt_month zone t =
     (let (y, m, d) = civil (day_number zone t) in fmt0 4 y @ ''-'' @ fmt0 2 m)"

definition fmt_day :: "int \<Rightarrow> time \<Rightarrow> string" where
  "fmt_day zone t =
     (let (y, m, d) = civil (day_number zone t) in fmt0 4 y @ ''-'' @ fmt0 2 m @ ''-'' @ fmt0 2 d)"

definition fmt_compact_day :: "int \<Rightarrow> time \<Rightarrow> string" where
  "fmt_compact_day zone t =
     (let (y, m, d) = civil (day_number zone t) in fmt0 4 y @ fmt0 2 m @ fmt0 2 d)"

section \<open>Lemmas\<close>

lemma split_ne [simp]: "split c s \<noteq> []"
  by (induction s) (auto split: list.splits)

lemma split_no_sep: "p \<in> set (split c s) \<Longrightarrow> c \<notin> set p"
  by (induction s arbitrary: p) (auto split: list.splits if_splits)

lemma split_Cons_sep: "split c (c # s) = [] # split c s"
  by simp

lemma split_id: "c \<notin> set s \<Longrightarrow> split c s = [s]"
  by (induction s) auto

text \<open>Splitting at the first separator: what \<open>strings.Split\<close> returns on a joined string.\<close>

lemma split_append_sep: "c \<notin> set p \<Longrightarrow> split c (p @ c # s) = p # split c s"
  by (induction p) auto

lemma join_split: "join [c] (split c s) = s"
proof (induction s)
  case Nil
  then show ?case by simp
next
  case (Cons x s)
  obtain p ps where sp: "split c s = p # ps" by (cases "split c s") auto
  show ?case
  proof (cases "x = c")
    case True
    with Cons sp show ?thesis by simp
  next
    case False
    with Cons sp show ?thesis by (cases ps) auto
  qed
qed

lemma split_join:
  assumes "ps \<noteq> []" and "\<forall>p \<in> set ps. c \<notin> set p"
  shows "split c (join [c] ps) = ps"
  using assms
proof (induction "[c]" ps rule: join.induct)
  case (3 p q ps)
  then show ?case by (simp add: split_append_sep)
qed (simp_all add: split_id)

lemma has_prefix_append [simp]: "has_prefix p (p @ s)"
  by (induction p) auto

lemma has_prefix_iff: "has_prefix p s \<longleftrightarrow> (\<exists>t. s = p @ t)"
  by (induction p s rule: has_prefix.induct) auto

lemma digit_val_digit_char [simp]: "0 \<le> d \<Longrightarrow> d < 10 \<Longrightarrow> digit_val (digit_char d) = Some d"
  by (simp add: digit_val_def digit_char_def of_char_of)

lemma digits_val_append:
  "digits_val a (s @ t) = (case digits_val a s of None \<Rightarrow> None | Some b \<Rightarrow> digits_val b t)"
  by (induction s arbitrary: a) (auto split: option.splits)

lemma digits_ne [simp]: "digits n \<noteq> []"
  by (subst digits.simps) simp

lemma digits_val_digits: "0 \<le> n \<Longrightarrow> digits_val 0 (digits n) = Some n"
proof (induction n rule: digits.induct)
  case (1 n)
  show ?case
  proof (cases "n < 10")
    case True
    with "1.prems" show ?thesis by (simp add: digits.simps [of n])
  next
    case False
    with 1 have "digits_val 0 (digits (n div 10)) = Some (n div 10)" by simp
    with False show ?thesis by (simp add: digits.simps [of n] digits_val_append)
  qed
qed

lemma set_digits: "0 \<le> n \<Longrightarrow> set (digits n) \<subseteq> digit_char ` {0..<10}"
proof (induction n rule: digits.induct)
  case (1 n)
  show ?case
  proof (cases "n < 10")
    case True
    with "1.prems" show ?thesis by (auto simp: digits.simps [of n])
  next
    case False
    with 1 have "set (digits (n div 10)) \<subseteq> digit_char ` {0..<10}" by simp
    with False show ?thesis by (auto simp: digits.simps [of n])
  qed
qed

lemma digit_val_digits: "0 \<le> n \<Longrightarrow> c \<in> set (digits n) \<Longrightarrow> digit_val c \<noteq> None"
  using set_digits [of n] by auto

lemma digits_hd: "0 \<le> n \<Longrightarrow> digits n = c # cs \<Longrightarrow> digit_val c \<noteq> None"
  using digit_val_digits [of n c] by simp

text \<open>Printing a 64-bit integer and parsing it back.\<close>

lemma ParseInt_FormatInt_iff: "ParseInt (FormatInt n) = (if is_int64 n then Ok n else Err ErrRange)"
proof (cases "n < 0")
  case True
  then show ?thesis
    by (simp add: ParseInt_def FormatInt_def unsigned_val_def digits_val_digits)
next
  case False
  obtain c cs where dg: "digits n = c # cs" by (cases "digits n") auto
  from digits_hd [OF _ dg] False have "digit_val c \<noteq> None" by simp
  then have "c \<noteq> CHR ''-''" "c \<noteq> CHR ''+''" by (auto simp: digit_val_def)
  with False dg digits_val_digits [of n] show ?thesis
    by (simp add: ParseInt_def FormatInt_def unsigned_val_def)
qed

lemma ParseInt_FormatInt: "is_int64 n \<Longrightarrow> ParseInt (FormatInt n) = Ok n"
  by (simp add: ParseInt_FormatInt_iff)

lemma digits_inj: "0 \<le> m \<Longrightarrow> 0 \<le> n \<Longrightarrow> digits m = digits n \<Longrightarrow> m = n"
  by (metis digits_val_digits option.inject)

lemma digits_no_minus: "0 \<le> n \<Longrightarrow> CHR ''-'' \<notin> set (digits n)"
  using digit_val_digits [of n "CHR ''-''"] by (auto simp: digit_val_def)

lemma FormatInt_inj:
  assumes "FormatInt m = FormatInt n"
  shows "m = n"
proof -
  have mixed: "digits a \<noteq> CHR ''-'' # digits b" if "0 \<le> a" for a b
    using digits_no_minus [OF that] by (metis list.set_intros(1))
  show ?thesis
    using assms mixed [of n "- m"] mixed [of m "- n"] digits_inj [of m n] digits_inj [of "- m" "- n"]
    by (auto simp: FormatInt_def split: if_splits)
qed

lemma FormatInt_chars:
  assumes "c \<in> set (FormatInt n)"
  shows "c = CHR ''-'' \<or> digit_val c \<noteq> None"
  using assms digit_val_digits [of n c] digit_val_digits [of "- n" c]
  by (auto simp: FormatInt_def split: if_splits)

lemma FormatInt_ne [simp]: "FormatInt n \<noteq> []"
  by (simp add: FormatInt_def)

lemma is_int64_small: "\<bar>n\<bar> < 2 ^ 62 \<Longrightarrow> is_int64 n"
  by (auto simp: is_int64_def int64_min_def int64_max_def)

text \<open>The month layout is a prefix of the day layout, so equal days have equal months.\<close>

lemma fmt_day_month: "fmt_day zone t = fmt_month zone t @ ''-'' @ drop (length (fmt_month zone t) + 1) (fmt_day zone t)"
  by (simp add: fmt_day_def fmt_month_def split: prod.split)

end
