(* ===== verification/Activity_Model.thy ===== *)
theory Activity_Model
  imports Go_Text
begin

text \<open>
  The entities of \<open>internal/biz/activity/model.go\<close> and the errors of
  \<open>internal/biz/activity/error.go\<close>. A pointer field that may be nil is an option; the
  string enums stay strings, since the database can hold any value.
\<close>

record ActivityCount =
  ac_ActivityCountID :: int
  ac_TotalCount :: int
  ac_DayCount :: int
  ac_MonthCount :: int

record ActivityAccount =
  aa_UserID :: string
  aa_ActivityID :: int
  aa_TotalCount :: int
  aa_TotalCountSurplus :: int
  aa_DayCount :: int
  aa_DayCountSurplus :: int
  aa_MonthCount :: int
  aa_MonthCountSurplus :: int

record ActivityAccountMonth =
  am_UserID :: string
  am_ActivityID :: int
  am_Month :: string
  am_MonthCount :: int
  am_MonthCountSurplus :: int

record ActivityAccountDay =
  ad_UserID :: string
  ad_ActivityID :: int
  ad_Day :: string
  ad_DayCount :: int
  ad_DayCountSurplus :: int

record ActivityOrder =
  ao_UserID :: string
  ao_Sku :: int
  ao_ActivityID :: int
  ao_ActivityName :: string
  ao_StrategyID :: int
  ao_OrderID :: string
  ao_OrderTime :: time
  ao_TotalCount :: int
  ao_DayCount :: int
  ao_MonthCount :: int
  ao_State :: string
  ao_OutBusinessNo :: string

record PartakeRaffleActivity =
  pr_UserID :: string
  pr_ActivityID :: int

record UserRaffleOrder =
  ur_UserID :: string
  ur_ActivityID :: int
  ur_ActivityName :: string
  ur_StrategyID :: int
  ur_OrderID :: string
  ur_OrderTime :: time
  ur_OrderState :: string

record ActivitySku =
  as_Sku :: int
  as_ActivityID :: int
  as_ActivityCountID :: int
  as_StockCount :: int
  as_StockCountSurplus :: int

record Activity =
  av_ActivityID :: int
  av_ActivityName :: string
  av_ActivityDesc :: string
  av_BeginDateTime :: time
  av_EndDateTime :: time
  av_StrategyID :: int
  av_State :: string

record CreateQuotaOrder =
  cq_UserID :: string
  cq_ActivityID :: int
  cq_TotalCount :: int
  cq_DayCount :: int
  cq_MonthCount :: int
  cq_ActivityOrder :: ActivityOrder

record CreatePartakeOrder =
  cp_UserID :: string
  cp_ActivityID :: int
  cp_ActivityAccount :: "ActivityAccount option"
  cp_IsExistAccountMonth :: bool
  cp_ActivityAccountMonth :: "ActivityAccountMonth option"
  cp_IsExistAccountDay :: bool
  cp_ActivityAccountDay :: "ActivityAccountDay option"
  cp_UserRaffleOrder :: "UserRaffleOrder option"

record SaveOrderTaskMessage =
  so_UserID :: string
  so_OrderID :: string

record SkuRecharge =
  sk_UserID :: string
  sk_Sku :: int
  sk_OutBusinessNo :: string

record ActivitySkuStockKey =
  ssk_Sku :: int
  ssk_ActivityID :: int

record ActivityResult =
  res_UserID :: string
  res_Status :: int
  res_Result :: string
  res_Timestamp :: int

section \<open>Constants\<close>

definition TaskTypeActivitySkuStockConsume :: string where
  "TaskTypeActivitySkuStockConsume = ''activity:sku_stock_consume''"

definition TaskTypeActivityStateSync :: string where
  "TaskTypeActivityStateSync = ''activity:state_sync''"

definition ActivitySkuStockZeroTopic :: string where
  "ActivitySkuStockZeroTopic = ''activity_sku_stock_zero_topic''"

definition ActivityAwardSendTopic :: string where
  "ActivityAwardSendTopic = ''activity_award_send_topic''"

definition SaveOrderRecordTopic :: string where
  "SaveOrderRecordTopic = ''save_order_record''"

definition QueueNameSkuStock :: string where
  "QueueNameSkuStock = ''queue:activity_sku_stock''"

definition ActivityStateOpen :: string where
  "ActivityStateOpen = ''open''"

definition UserRaffleOrderStateCreate :: string where
  "UserRaffleOrderStateCreate = ''create''"

definition UserRaffleOrderStateUsed :: string where
  "UserRaffleOrderStateUsed = ''used''"

definition AccountSyncStateCreate :: string where
  "AccountSyncStateCreate = ''create''"

definition AccountSyncStateCompleted :: string where
  "AccountSyncStateCompleted = ''completed''"

definition ActivityOrderStateCompleted :: string where
  "ActivityOrderStateCompleted = ''completed''"

definition ActivityResultStatusSuccess :: int where
  "ActivityResultStatusSuccess = 1"

definition ActivityResultStatusCredit :: int where
  "ActivityResultStatusCredit = 2"

definition ActivityResultPointsPrefix :: string where
  "ActivityResultPointsPrefix = ''POINTS''"

section \<open>Errors\<close>

definition ErrActivityStateError :: gerr where
  "ErrActivityStateError = KErr 400 ''ACTIVITY_STATE_ERROR'' None"

definition ErrActivityTimeError :: gerr where
  "ErrActivityTimeError = KErr 400 ''ACTIVITY_TIME_ERROR'' None"

definition ErrActivityQuotaError :: gerr where
  "ErrActivityQuotaError = KErr 400 ''ACTIVITY_QUOTA_ERROR'' None"

definition ErrActivityAccountDayCountSurplusNotEnough :: gerr where
  "ErrActivityAccountDayCountSurplusNotEnough = KErr 400 ''ACTIVITY_ACCOUNT_DAY_QUOTA_ERROR'' None"

definition ErrActivityAccountMonthCountSurplusNotEnough :: gerr where
  "ErrActivityAccountMonthCountSurplusNotEnough = KErr 400 ''ACTIVITY_ACCOUNT_MONTH_QUOTA_ERROR'' None"

definition ErrActivityStockError :: gerr where
  "ErrActivityStockError = KErr 400 ''ACTIVITY_STOCK_ERROR'' None"

definition ErrActivitySkuStockError :: gerr where
  "ErrActivitySkuStockError = KErr 400 ''ACTIVITY_SKU_STOCK_ERROR'' None"

definition ErrInvalidParams :: gerr where
  "ErrInvalidParams = KErr 400 ''INVALID_PARAMS'' None"

definition ErrDBRouterError :: gerr where
  "ErrDBRouterError = KErr 400 ''DB_ROUTER_ERROR'' None"

definition ErrDBIndexDuplicate :: gerr where
  "ErrDBIndexDuplicate = KErr 400 ''DB_INDEX_DUPLICATE'' None"

definition ErrRecordNotFound :: gerr where
  "ErrRecordNotFound = KErr 404 ''RECORD_NOT_FOUND'' None"

definition ErrClearActivitySkuStockError :: gerr where
  "ErrClearActivitySkuStockError = KErr 400 ''CLEAR_ACTIVITY_SKU_STOCK_ERROR'' None"

definition ErrActivitySkuStockKeyUnmarshal :: gerr where
  "ErrActivitySkuStockKeyUnmarshal = KErr 400 ''ACTIVITY_SKU_STOCK_KEY_UNMARSHAL_ERROR'' None"

lemmas activity_errors =
  ErrActivityStateError_def ErrActivityTimeError_def ErrActivityQuotaError_def
  ErrActivityAccountDayCountSurplusNotEnough_def ErrActivityAccountMonthCountSurplusNotEnough_def
  ErrActivityStockError_def ErrActivitySkuStockError_def ErrInvalidParams_def
  ErrDBRouterError_def ErrDBIndexDuplicate_def ErrRecordNotFound_def
  ErrClearActivitySkuStockError_def

section \<open>Operations of the entities\<close>

definition ToCreatePartakeOrder :: "SaveOrderTaskMessage \<Rightarrow> CreatePartakeOrder" where
  "ToCreatePartakeOrder m =
     \<lparr>cp_UserID = so_UserID m, cp_ActivityID = 0, cp_ActivityAccount = None,
      cp_IsExistAccountMonth = False, cp_ActivityAccountMonth = None,
      cp_IsExistAccountDay = False, cp_ActivityAccountDay = None,
      cp_UserRaffleOrder = Some
        \<lparr>ur_UserID = so_UserID m, ur_ActivityID = 0, ur_ActivityName = '''',
         ur_StrategyID = 0, ur_OrderID = so_OrderID m, ur_OrderTime = zero_time, ur_OrderState = ''''\<rparr>\<rparr>"

text \<open>The zero values that a decoder leaves untouched.\<close>

definition zero_ActivityAccount :: ActivityAccount where
  "zero_ActivityAccount =
     \<lparr>aa_UserID = '''', aa_ActivityID = 0, aa_TotalCount = 0, aa_TotalCountSurplus = 0,
      aa_DayCount = 0, aa_DayCountSurplus = 0, aa_MonthCount = 0, aa_MonthCountSurplus = 0\<rparr>"

definition zero_Activity :: Activity where
  "zero_Activity =
     \<lparr>av_ActivityID = 0, av_ActivityName = '''', av_ActivityDesc = '''', av_BeginDateTime = zero_time,
      av_EndDateTime = zero_time, av_StrategyID = 0, av_State = ''''\<rparr>"

definition zero_ActivitySku :: ActivitySku where
  "zero_ActivitySku =
     \<lparr>as_Sku = 0, as_ActivityID = 0, as_ActivityCountID = 0, as_StockCount = 0,
      as_StockCountSurplus = 0\<rparr>"

definition zero_ActivityCount :: ActivityCount where
  "zero_ActivityCount =
     \<lparr>ac_ActivityCountID = 0, ac_TotalCount = 0, ac_DayCount = 0, ac_MonthCount = 0\<rparr>"

definition zero_UserRaffleOrder :: UserRaffleOrder where
  "zero_UserRaffleOrder =
     \<lparr>ur_UserID = '''', ur_ActivityID = 0, ur_ActivityName = '''', ur_StrategyID = 0,
      ur_OrderID = '''', ur_OrderTime = zero_time, ur_OrderState = ''''\<rparr>"

definition zero_CreatePartakeOrder :: CreatePartakeOrder where
  "zero_CreatePartakeOrder =
     \<lparr>cp_UserID = '''', cp_ActivityID = 0, cp_ActivityAccount = None, cp_IsExistAccountMonth = False,
      cp_ActivityAccountMonth = None, cp_IsExistAccountDay = False, cp_ActivityAccountDay = None,
      cp_UserRaffleOrder = None\<rparr>"

end
