(* ===== verification/Float64.thy ===== *)
theory Float64
  imports Complex_Main "HOL-Library.Log_Nat"
begin

text \<open>
  The part of Go's \<open>float64\<close> that the armory of \<open>biz/strategy/raffle_support.go\<close> uses: IEEE 754
  binary64 with rounding to nearest even, on exact rational values. \<open>rnd\<close> rounds the exact result
  of an operation. There is one zero: the only division of the program is by a sum that starts
  from \<open>+0\<close> and therefore is never \<open>-0\<close>. \<open>math.Pow\<close> follows the loop of the Go library,
  \<open>decimal_len\<close> is the number of digits after the point in \<open>strconv.FormatFloat(x, 'f', -1, 64)\<close>
  (the shortest decimal that reads back as the same value), and \<open>to_int\<close> is the conversion
  \<open>int(x)\<close> as amd64 performs it.
\<close>

datatype float64 = NaN | PInf | NInf | Fin (fval: rat)

section \<open>Rounding\<close>

text \<open>The exponent of the leading binary digit of a positive number.\<close>

definition ilog2 :: "rat \<Rightarrow> int" where
  "ilog2 q = (case quotient_of q of (n, d) \<Rightarrow>
     let k = bitlen n - bitlen d in if 2 powi k \<le> q then k else k - 1)"

definition round_half_even :: "rat \<Rightarrow> int" where
  "round_half_even x =
     (let f = \<lfloor>x\<rfloor>; r = x - of_int f
      in if r < 1 / 2 then f else if 1 / 2 < r then f + 1 else if even f then f else f + 1)"

text \<open>The exponent of the last place: 53 significant bits, none below \<open>2^-1074\<close>.\<close>

definition ulp_exp :: "rat \<Rightarrow> int" where
  "ulp_exp q = max (ilog2 \<bar>q\<bar> - 52) (- 1074)"

definition rnd :: "rat \<Rightarrow> float64" where
  "rnd q =
     (if q = 0 then Fin 0
      else let u = 2 powi ulp_exp q; v = of_int (round_half_even (q / u)) * u
           in if 2 powi 1024 \<le> v then PInf else if v \<le> - (2 powi 1024) then NInf else Fin v)"

section \<open>Operations\<close>

fun fadd :: "float64 \<Rightarrow> float64 \<Rightarrow> float64" where
  "fadd (Fin a) (Fin b) = rnd (a + b)"
| "fadd NaN _ = NaN"
| "fadd _ NaN = NaN"
| "fadd PInf NInf = NaN"
| "fadd NInf PInf = NaN"
| "fadd PInf _ = PInf"
| "fadd NInf _ = NInf"
| "fadd _ PInf = PInf"
| "fadd _ NInf = NInf"

definition signed_inf :: "rat \<Rightarrow> float64" where
  "signed_inf s = (if s = 0 then NaN else if 0 < s then PInf else NInf)"

definition inf_sign :: "float64 \<Rightarrow> rat" where
  "inf_sign x = (case x of PInf \<Rightarrow> 1 | NInf \<Rightarrow> - 1 | Fin a \<Rightarrow> a | NaN \<Rightarrow> 0)"

definition fmul :: "float64 \<Rightarrow> float64 \<Rightarrow> float64" where
  "fmul x y =
     (case (x, y) of
        (Fin a, Fin b) \<Rightarrow> rnd (a * b)
      | (NaN, _) \<Rightarrow> NaN
      | (_, NaN) \<Rightarrow> NaN
      | _ \<Rightarrow> signed_inf (inf_sign x * inf_sign y))"

text \<open>Division by zero gives an infinity, or not a number for \<open>0/0\<close>.\<close>

definition fdiv :: "float64 \<Rightarrow> float64 \<Rightarrow> float64" where
  "fdiv x y =
     (case (x, y) of
        (Fin a, Fin b) \<Rightarrow> if b = 0 then signed_inf a else rnd (a / b)
      | (NaN, _) \<Rightarrow> NaN
      | (_, NaN) \<Rightarrow> NaN
      | (Fin _, _) \<Rightarrow> Fin 0
      | (_, Fin b) \<Rightarrow> if b < 0 then signed_inf (- inf_sign x) else x
      | _ \<Rightarrow> NaN)"

text \<open>\<open>math.Round\<close>: half away from zero.\<close>

definition fround :: "float64 \<Rightarrow> float64" where
  "fround x = (case x of Fin a \<Rightarrow> Fin (of_int (if 0 \<le> a then \<lfloor>a + 1 / 2\<rfloor> else - \<lfloor>1 / 2 - a\<rfloor>)) | _ \<Rightarrow> x)"

text \<open>Truncation towards zero; what does not fit in 64 bits gives the smallest integer.\<close>

definition to_int :: "float64 \<Rightarrow> int" where
  "to_int x =
     (case x of
        Fin a \<Rightarrow> (let n = (if 0 \<le> a then \<lfloor>a\<rfloor> else \<lceil>a\<rceil>) in if - (2 ^ 63) \<le> n \<and> n < 2 ^ 63 then n else - (2 ^ 63))
      | _ \<Rightarrow> - (2 ^ 63))"

section \<open>Powers of ten\<close>

text \<open>
  The loop of \<open>math.Pow(x, y)\<close> for a positive \<open>x = x1 * 2^xe\<close> and a natural \<open>y\<close>: square and
  multiply on the mantissa, \<open>0.5 <= x1 < 1\<close>, with the exponents kept apart.
\<close>

fun pow_loop :: "nat \<Rightarrow> float64 \<Rightarrow> int \<Rightarrow> float64 \<Rightarrow> int \<Rightarrow> float64 \<times> int" where
  "pow_loop i x1 xe a1 ae =
     (if i = 0 then (a1, ae)
      else if xe < - 4096 \<or> 4096 < xe then (a1, ae + xe)
      else let (a1, ae) = (if odd i then (fmul a1 x1, ae + xe) else (a1, ae));
               x2 = fmul x1 x1; xe2 = 2 * xe;
               (x2, xe2) = (if fval x2 < 1 / 2 then (fadd x2 x2, xe2 - 1) else (x2, xe2))
           in pow_loop (i div 2) x2 xe2 a1 ae)"

declare pow_loop.simps [simp del]

definition pow10 :: "nat \<Rightarrow> float64" where
  "pow10 n =
     (if n = 0 then Fin 1 else if n = 1 then Fin 10
      else case pow_loop n (Fin (5 / 8)) 4 (Fin 1) 0 of
             (Fin a, e) \<Rightarrow> rnd (a * 2 powi e) | (x, _) \<Rightarrow> x)"

section \<open>Decimal digits\<close>

definition reads_back :: "rat \<Rightarrow> nat \<Rightarrow> bool" where
  "reads_back q k \<longleftrightarrow>
     rnd (of_int \<lfloor>q * 10 ^ k\<rfloor> / 10 ^ k) = Fin q \<or> rnd (of_int \<lceil>q * 10 ^ k\<rceil> / 10 ^ k) = Fin q"

text \<open>A finite value has at most 1074 binary digits after the point, hence at most 1074 decimal ones.\<close>

fun search_decimals :: "rat \<Rightarrow> nat \<Rightarrow> nat \<Rightarrow> nat" where
  "search_decimals q k 0 = k"
| "search_decimals q k (Suc n) = (if reads_back q k then k else search_decimals q (Suc k) n)"

definition decimal_len :: "float64 \<Rightarrow> nat" where
  "decimal_len x = (case x of Fin q \<Rightarrow> search_decimals q 0 1074 | _ \<Rightarrow> 0)"

section \<open>Lemmas\<close>

lemma ilog2_bounds:
  assumes "0 < q"
  shows "2 powi ilog2 q \<le> q" and "q < 2 powi (ilog2 q + 1)"
proof -
  obtain n d where nd: "quotient_of q = (n, d)" by fastforce
  have d: "0 < d" and q: "q = of_int n / of_int d"
    using nd quotient_of_denom_pos quotient_of_div by blast+
  have n: "0 < n" using assms q d by (simp add: zero_less_divide_iff)
  let ?a = "bitlen n" and ?b = "bitlen d"
  have pos: "0 < ?a" "0 < ?b" using n d bitlen_eq_zero_iff [of n] bitlen_eq_zero_iff [of d] bitlen_nonneg [of n] bitlen_nonneg [of d]
    by linarith+
  have pw: "2 powi ?a = (2 ^ nat ?a :: rat)" "2 powi (?a - 1) = (2 ^ nat (?a - 1) :: rat)"
      "2 powi ?b = (2 ^ nat ?b :: rat)" "2 powi (?b - 1) = (2 ^ nat (?b - 1) :: rat)"
    using pos by (simp_all add: power_int_def)
  have n2: "2 powi (?a - 1) \<le> (of_int n :: rat)" "(of_int n :: rat) < 2 powi ?a"
    using bitlen_bounds [OF n] unfolding pw
    by (metis of_int_le_iff of_int_less_iff of_int_numeral of_int_power)+
  have d2: "2 powi (?b - 1) \<le> (of_int d :: rat)" "(of_int d :: rat) < 2 powi ?b"
    using bitlen_bounds [OF d] unfolding pw
    by (metis of_int_le_iff of_int_less_iff of_int_numeral of_int_power)+
  have lo: "2 powi (?a - ?b - 1) < q"
  proof -
    have "2 powi (?a - ?b - 1) = 2 powi (?a - 1) / (2 powi ?b :: rat)"
      by (simp add: power_int_diff power_int_add)
    also have "\<dots> < q" unfolding q using n2 d2 d n
      by (intro frac_less2) simp_all
    finally show ?thesis .
  qed
  have hi: "q < 2 powi (?a - ?b + 1)"
  proof -
    have "q < 2 powi ?a / 2 powi (?b - 1)" unfolding q using n2 d2 d n
      by (intro frac_less) simp_all
    also have "\<dots> = 2 powi (?a - ?b + 1)"
      by (simp add: power_int_diff power_int_add)
    finally show ?thesis .
  qed
  show "2 powi ilog2 q \<le> q" "q < 2 powi (ilog2 q + 1)"
    using lo hi by (auto simp: ilog2_def nd Let_def algebra_simps)
qed

lemma powi2_less_iff [simp]: "(2::rat) powi a < 2 powi b \<longleftrightarrow> a < b"
  using power_int_strict_increasing [of a b "2::rat"] power_int_increasing [of b a "2::rat"]
  by (cases "a < b") auto

lemma powi2_le_iff [simp]: "(2::rat) powi a \<le> 2 powi b \<longleftrightarrow> a \<le> b"
  by (simp flip: not_less)

lemma round_half_even_error: "\<bar>of_int (round_half_even x) - x\<bar> \<le> 1 / 2"
proof -
  define f where "f = (of_int \<lfloor>x\<rfloor> :: rat)"
  have "f \<le> x" "x < f + 1" unfolding f_def by linarith+
  then show ?thesis by (simp add: round_half_even_def Let_def abs_le_iff flip: f_def)
qed

lemma round_half_even_int [simp]: "round_half_even (of_int n) = n"
  by (simp add: round_half_even_def)

lemma rnd_finite:
  assumes "of_int (round_half_even (q / 2 powi ulp_exp q)) * 2 powi ulp_exp q = v" and "\<bar>v\<bar> < 2 powi 1024"
    and "q \<noteq> 0"
  shows "rnd q = Fin v"
proof -
  have "- (2 powi 1024) < v" "v < 2 powi 1024" using assms(2) by linarith+
  then show ?thesis using assms(3) by (simp only: rnd_def Let_def assms(1) if_False not_le [symmetric])
qed

text \<open>The result of an operation is within half a unit in the last place, and finite unless it is
  far too large.\<close>

lemma rnd_half_ulp:
  assumes "\<bar>q\<bar> \<le> 2 powi 1023"
  shows "\<exists>v. rnd q = Fin v \<and> \<bar>v - q\<bar> \<le> 2 powi ulp_exp q / 2"
proof (cases "q = 0")
  case False
  let ?u = "2 powi ulp_exp q :: rat"
  let ?v = "of_int (round_half_even (q / ?u)) * ?u"
  have u: "0 < ?u" by simp
  have "\<bar>of_int (round_half_even (q / ?u)) - q / ?u\<bar> * ?u \<le> 1 / 2 * ?u"
    using round_half_even_error by (intro mult_right_mono) auto
  then have "\<bar>(of_int (round_half_even (q / ?u)) - q / ?u) * ?u\<bar> \<le> ?u / 2"
    by (simp add: abs_mult)
  then have err: "\<bar>?v - q\<bar> \<le> ?u / 2" by (simp add: left_diff_distrib)
  have "2 powi ilog2 \<bar>q\<bar> \<le> \<bar>q\<bar>" using False ilog2_bounds by simp
  then have "ilog2 \<bar>q\<bar> \<le> 1023" using assms powi2_le_iff order_trans by blast
  then have "ulp_exp q \<le> 1023" by (simp add: ulp_exp_def)
  then have "?u \<le> 2 powi 1023" by (rule powi2_le_iff [THEN iffD2])
  then have "\<bar>?v\<bar> < 2 powi 1023 * 2"
    using err assms by (simp add: abs_if split: if_splits)
  also have "\<dots> = 2 powi 1024" by (simp add: power_int_def)
  finally have "\<bar>?v\<bar> < 2 powi 1024" .
  then have "rnd q = Fin ?v" using False by (rule rnd_finite [OF refl])
  with err show ?thesis by blast
qed (simp add: rnd_def)

lemma rnd_abs_error:
  assumes "\<bar>q\<bar> \<le> 2 powi p" and "- 1000 \<le> p" and "p \<le> 1023"
  shows "\<exists>v. rnd q = Fin v \<and> \<bar>v - q\<bar> \<le> 2 powi (p - 53)"
proof (cases "q = 0")
  case False
  have "\<bar>q\<bar> \<le> 2 powi 1023" using assms powi2_le_iff order_trans by blast
  then obtain v where v: "rnd q = Fin v" "\<bar>v - q\<bar> \<le> 2 powi ulp_exp q / 2"
    using rnd_half_ulp by blast
  have "2 powi ilog2 \<bar>q\<bar> \<le> \<bar>q\<bar>" using False ilog2_bounds by simp
  then have "ilog2 \<bar>q\<bar> \<le> p" using assms(1) powi2_le_iff order_trans by blast
  then have "ulp_exp q - 1 \<le> p - 53" using assms(2) by (simp add: ulp_exp_def)
  then have "2 powi (ulp_exp q - 1) \<le> (2 powi (p - 53) :: rat)" by (simp del: power_int_diff)
  moreover have "2 powi (ulp_exp q - 1) = (2 powi ulp_exp q / 2 :: rat)" by (simp add: power_int_diff)
  ultimately show ?thesis using v by auto
qed (simp add: rnd_def)

text \<open>Numbers of at most 53 binary digits are exact.\<close>

lemma rnd_dyadic:
  assumes "\<bar>m\<bar> < 2 ^ 53" and "j \<le> 1074"
  shows "rnd (of_int m / 2 ^ j) = Fin (of_int m / 2 ^ j)"
proof (cases "m = 0")
  case False
  let ?q = "of_int m / 2 ^ j :: rat"
  let ?u = "2 powi ulp_exp ?q :: rat"
  have qp: "?q = of_int m * 2 powi (- int j)" by (simp add: power_int_minus divide_inverse)
  have "(of_int \<bar>m\<bar> :: rat) < of_int (2 ^ 53)" using assms(1) by (simp only: of_int_less_iff)
  then have "\<bar>?q\<bar> < 2 powi 53 * 2 powi (- int j)" by (simp add: qp abs_mult)
  also have "\<dots> = 2 powi (53 - int j)" using power_int_add [of "2::rat" 53 "- int j"] by simp
  finally have lt: "\<bar>?q\<bar> < 2 powi (53 - int j)" .
  have q0: "0 < \<bar>?q\<bar>" using False by simp
  have "2 powi ilog2 \<bar>?q\<bar> < (2 powi (53 - int j) :: rat)"
    using ilog2_bounds(1) [OF q0] lt by linarith
  then have "ilog2 \<bar>?q\<bar> < 53 - int j" by simp
  then have k: "ulp_exp ?q \<le> - int j" using assms(2) by (simp add: ulp_exp_def)
  obtain n where n: "- int j - ulp_exp ?q = int n" using k zero_le_imp_eq_int by force
  have "?q / ?u = of_int m * 2 powi (- int j - ulp_exp ?q)" by (simp add: qp power_int_diff)
  also have "\<dots> = of_int (m * 2 ^ n)" by (simp add: n)
  finally have quo: "?q / ?u = of_int (m * 2 ^ n)" .
  then have v: "of_int (round_half_even (?q / ?u)) * ?u = ?q"
    unfolding quo round_half_even_int by (metis nonzero_eq_divide_eq power_int_not_zero quo zero_neq_numeral)
  have "\<bar>?q\<bar> < 2 powi 1024" using lt powi2_le_iff [of "53 - int j" 1024] by linarith
  with v show ?thesis by (rule rnd_finite) (use False in simp)
qed (simp add: rnd_def)

lemma dvd_power2: "(b::nat) dvd 2 ^ n \<Longrightarrow> \<exists>j\<le>n. b = 2 ^ j"
proof (induction n arbitrary: b)
  case (Suc n)
  show ?case
  proof (cases "even b")
    case True
    then obtain c where "b = 2 * c" by (rule evenE)
    with Suc show ?thesis by (metis Suc_le_mono dvd_mult_cancel1 nat_mult_dvd_cancel_disj power_Suc zero_neq_numeral)
  next
    case False
    then have "coprime b 2" by simp
    with Suc show ?thesis by (metis coprime_dvd_mult_right_iff le_Suc_eq power_Suc)
  qed
qed simp

lemma rnd_dyadic_numeral:
  assumes "(numeral a :: int) < 2 ^ 53" and "(2::nat) ^ 60 mod numeral b = 0"
  shows "rnd (numeral a / numeral b) = Fin (numeral a / numeral b)"
proof -
  have "(numeral b :: nat) dvd 2 ^ 60" using assms(2) by (rule mod_0_imp_dvd)
  then obtain j where j: "j \<le> 60" "(numeral b :: nat) = 2 ^ j"
    using dvd_power2 by blast
  then have "(numeral b :: rat) = 2 ^ j" by (metis of_nat_numeral of_nat_power)
  then show ?thesis using rnd_dyadic [of "numeral a" j] assms(1) j(1) by simp
qed

lemma rnd_int_numeral: "(numeral a :: int) < 2 ^ 53 \<Longrightarrow> rnd (numeral a) = Fin (numeral a)"
  using rnd_dyadic [of "numeral a" 0] by simp

text \<open>\<open>math.Pow(10, n)\<close> is exact for the exponents of realistic rates.\<close>

lemma pow10_exact:
  assumes "n \<le> 9"
  shows "pow10 n = Fin (10 ^ n)"
proof -
  have "n \<in> {0, 1, 2, 3, 4, 5, 6, 7, 8, 9}" using assms by auto
  then show ?thesis
    by (auto simp: pow10_def pow_loop.simps fmul_def rnd_dyadic_numeral rnd_int_numeral power_int_def)
qed

subsection \<open>Decimal rates\<close>

text \<open>The \<open>float64\<close> nearest to the decimal number with \<open>k\<close> digits after the point.\<close>

definition decimal :: "nat \<Rightarrow> int \<Rightarrow> float64" where
  "decimal k d = rnd (of_int d / 10 ^ k)"

lemma rnd_close:
  assumes "\<bar>q\<bar> \<le> 2 ^ p" and "p \<le> 53"
  obtains v where "rnd q = Fin v" and "\<bar>v - q\<bar> \<le> 2 ^ p / 2 ^ 53"
proof -
  have "2 powi (int p - 53) = (2 ^ p / 2 ^ 53 :: rat)" by (simp add: power_int_diff)
  then show thesis using that assms rnd_abs_error [of q "int p"] by auto
qed

lemma decimal_close:
  assumes "0 \<le> d" and "d \<le> 10 ^ k"
  obtains q where "decimal k d = Fin q" and "\<bar>q - of_int d / 10 ^ k\<bar> \<le> 1 / 2 ^ 53"
proof -
  have "(of_int d :: rat) \<le> of_int (10 ^ k)" using assms(2) by (simp only: of_int_le_iff)
  then have "\<bar>of_int d / 10 ^ k :: rat\<bar> \<le> 2 ^ 0" using assms(1) by (simp add: divide_simps)
  then obtain v where "rnd (of_int d / 10 ^ k) = Fin v" "\<bar>v - of_int d / 10 ^ k\<bar> \<le> 2 ^ 0 / 2 ^ 53"
    by (rule rnd_close) simp
  then show thesis by (intro that) (simp_all add: decimal_def)
qed

lemma search_decimals_reads:
  "reads_back q j \<Longrightarrow> k \<le> j \<Longrightarrow> j < k + n \<Longrightarrow>
   search_decimals q k n \<le> j \<and> reads_back q (search_decimals q k n)"
proof (induction q k n rule: search_decimals.induct)
  case (2 q k n)
  then show ?case by (cases "k = j") auto
qed simp

lemma small_powers: "k \<le> 9 \<Longrightarrow> (10 ^ k :: rat) \<le> 10 ^ 9" "(1 :: rat) \<le> 10 ^ k"
  by (rule power_increasing) simp_all

lemma floor_ceiling_close: "\<bar>of_int \<lfloor>x\<rfloor> - x\<bar> \<le> (1::rat)" "\<bar>of_int \<lceil>x\<rceil> - x\<bar> \<le> (1::rat)"
  by linarith+

lemma abs_scale: "0 < c \<Longrightarrow> \<bar>a - b\<bar> * c = \<bar>a * c - b * (c::rat)\<bar>"
  by (metis abs_mult abs_of_pos left_diff_distrib)

lemma close_trans: "\<bar>x - y\<bar> \<le> a \<Longrightarrow> \<bar>y - z\<bar> \<le> b \<Longrightarrow> a + b \<le> c \<Longrightarrow> \<bar>x - z\<bar> \<le> (c::rat)"
  by linarith

lemma close_bound: "\<bar>x - y\<bar> \<le> a \<Longrightarrow> 0 \<le> y \<Longrightarrow> y \<le> b \<Longrightarrow> a + b \<le> c \<Longrightarrow> \<bar>x\<bar> \<le> (c::rat)"
  by linarith

lemma near_integer:
  assumes "\<bar>x - of_int d\<bar> < 1"
  shows "\<lfloor>x\<rfloor> = d \<or> \<lceil>x\<rceil> = d"
  using assms by (cases "of_int d \<le> x") (auto simp: floor_eq_iff ceiling_eq_iff abs_less_iff)

text \<open>Printing a decimal rate gives back its digits, and no fewer when the last is not 0.\<close>

lemma decimal_len_decimal:
  assumes k: "k \<le> 9" and d: "0 \<le> d" "d \<le> 10 ^ k"
  shows "decimal_len (decimal k d) \<le> k"
    and "k = 0 \<or> \<not> 10 dvd d \<Longrightarrow> decimal_len (decimal k d) = k"
proof -
  obtain q where q: "decimal k d = Fin q" "\<bar>q - of_int d / 10 ^ k\<bar> \<le> 1 / 2 ^ 53"
    using decimal_close [OF d] .
  have p: "(10 ^ k :: rat) \<le> 10 ^ 9" "(1::rat) \<le> 10 ^ k" using small_powers k by simp_all
  have "q * 10 ^ k - of_int d = (q - of_int d / 10 ^ k) * 10 ^ k" by (simp add: left_diff_distrib)
  then have "\<bar>q * 10 ^ k - of_int d\<bar> = \<bar>q - of_int d / 10 ^ k\<bar> * 10 ^ k" by (simp add: abs_mult)
  also have "\<dots> \<le> 1 / 2 ^ 53 * 10 ^ 9" using q(2) p by (intro mult_mono) simp_all
  finally have "\<bar>q * 10 ^ k - of_int d\<bar> < 1" by simp
  then have "reads_back q k"
    using near_integer q(1) by (auto simp: reads_back_def decimal_def)
  then have j: "decimal_len (decimal k d) \<le> k" "reads_back q (decimal_len (decimal k d))"
    using search_decimals_reads [of q k 0 1074] k q(1) by (simp_all add: decimal_len_def)
  show "decimal_len (decimal k d) \<le> k" by (rule j)
  let ?j = "decimal_len (decimal k d)"
  assume last: "k = 0 \<or> \<not> 10 dvd d"
  show "?j = k"
  proof (rule ccontr)
    assume "?j \<noteq> k"
    then have "?j < k" using j by simp
    have dk: "0 \<le> (of_int d / 10 ^ k :: rat)" "of_int d / 10 ^ k \<le> (1::rat)"
    proof -
      have "(of_int d :: rat) \<le> of_int (10 ^ k)" using d(2) by (simp only: of_int_le_iff)
      then show "0 \<le> (of_int d / 10 ^ k :: rat)" "of_int d / 10 ^ k \<le> (1::rat)"
        using d(1) by (simp_all add: divide_simps)
    qed
    obtain m where m: "rnd (of_int m / 10 ^ ?j) = Fin q" "\<bar>of_int m - q * 10 ^ ?j\<bar> \<le> 1"
      using j(2) floor_ceiling_close [of "q * 10 ^ ?j"] unfolding reads_back_def by auto
    let ?x = "of_int m / 10 ^ ?j :: rat"
    have "\<bar>?x - q\<bar> * 10 ^ ?j = \<bar>of_int m - q * 10 ^ ?j\<bar>" by (subst abs_scale) simp_all
    moreover have "\<bar>?x - q\<bar> * 1 \<le> \<bar>?x - q\<bar> * 10 ^ ?j" by (intro mult_left_mono) simp_all
    ultimately have "\<bar>?x - q\<bar> \<le> 1" using m(2) by simp
    then have "\<bar>?x - of_int d / 10 ^ k\<bar> \<le> 2" by (rule close_trans [OF _ q(2)]) simp
    then have "\<bar>?x\<bar> \<le> 2 ^ 2" using dk by (rule close_bound) simp
    then have "\<bar>q - ?x\<bar> \<le> 2 ^ 2 / 2 ^ 53" by (rule rnd_close) (use m(1) in simp_all)
    then have "\<bar>?x - of_int d / 10 ^ k\<bar> \<le> 5 / 2 ^ 53"
      unfolding abs_minus_commute [of q] by (rule close_trans [OF _ q(2)]) simp
    then have "\<bar>?x - of_int d / 10 ^ k\<bar> * 10 ^ k \<le> 5 / 2 ^ 53 * 10 ^ 9" using p by (intro mult_mono) simp_all
    moreover have "?x * 10 ^ k = of_int (m * 10 ^ (k - ?j))"
      using \<open>?j < k\<close> by (simp only: of_int_mult of_int_power of_int_numeral)
        (simp add: power_diff [symmetric] field_simps flip: power_add)
    moreover have "\<bar>?x - of_int d / 10 ^ k\<bar> * 10 ^ k = \<bar>?x * 10 ^ k - of_int d\<bar>" by (simp add: abs_scale)
    ultimately have "\<bar>of_int (m * 10 ^ (k - ?j)) - of_int d :: rat\<bar> \<le> 5 / 2 ^ 53 * 10 ^ 9" by (simp only:)
    then have "\<bar>of_int (m * 10 ^ (k - ?j)) - of_int d :: rat\<bar> < 1" by (rule order.strict_trans1) simp
    then have "m * 10 ^ (k - ?j) = d" by linarith
    then have "10 dvd d" using \<open>?j < k\<close> by (metis dvd_mult dvd_power zero_less_diff)
    with last \<open>?j < k\<close> show False by simp
  qed
qed
text \<open>The sum of the rates is off by at most \<open>2^-51\<close> per addition.\<close>

lemma sum_of_decimals:
  assumes "\<bar>s - of_int a / 10 ^ k\<bar> \<le> of_nat c / 2 ^ 51" and "0 \<le> a" and "\<forall>d \<in> set ds. 0 \<le> d"
    and "a + sum_list ds \<le> 10 ^ k" and "c + length ds \<le> 2 ^ 11"
  shows "\<exists>t. foldl fadd (Fin s) (map (decimal k) ds) = Fin t \<and>
           \<bar>t - of_int (a + sum_list ds) / 10 ^ k\<bar> \<le> of_nat (c + length ds) / 2 ^ 51"
  using assms
proof (induction ds arbitrary: s a c)
  case (Cons d ds)
  have nn: "0 \<le> d" "0 \<le> sum_list ds" using Cons.prems(3) by (auto intro: sum_list_nonneg)
  have le: "a + d \<le> 10 ^ k" using Cons.prems(4) nn by simp
  obtain q where q: "decimal k d = Fin q" "\<bar>q - of_int d / 10 ^ k\<bar> \<le> 1 / 2 ^ 53"
    using decimal_close [of d k] nn(1) le Cons.prems(2) by auto
  let ?e = "of_int (a + d) / 10 ^ k :: rat"
  have e: "0 \<le> ?e" "?e \<le> 1"
  proof -
    have "(of_int (a + d) :: rat) \<le> of_int (10 ^ k)" using le by (simp only: of_int_le_iff)
    then show "0 \<le> ?e" "?e \<le> 1" using nn(1) Cons.prems(2) by (simp_all add: divide_simps)
  qed
  have c: "(of_nat c :: rat) \<le> 2 ^ 11"
  proof -
    have "(of_nat c :: rat) \<le> of_nat (2 ^ 11)" using Cons.prems(5) by (simp only: of_nat_le_iff)
    then show ?thesis by simp
  qed
  have split: "?e = of_int a / 10 ^ k + of_int d / 10 ^ k" by (simp add: add_divide_distrib)
  have near: "\<bar>s + q - ?e\<bar> \<le> of_nat c / 2 ^ 51 + 1 / 2 ^ 53"
    using Cons.prems(1) q(2) unfolding split by linarith
  then have "\<bar>s + q\<bar> \<le> 2 ^ 1" by (rule close_bound [OF _ e]) (use c in simp)
  then obtain v where v: "rnd (s + q) = Fin v" "\<bar>v - (s + q)\<bar> \<le> 2 ^ 1 / 2 ^ 53"
    by (rule rnd_close) simp
  have "\<bar>v - ?e\<bar> \<le> of_nat (Suc c) / 2 ^ 51"
    by (rule close_trans [OF v(2) near]) (simp add: add_divide_distrib)
  then have "\<exists>t. foldl fadd (Fin v) (map (decimal k) ds) = Fin t \<and>
      \<bar>t - of_int ((a + d) + sum_list ds) / 10 ^ k\<bar> \<le> of_nat (Suc c + length ds) / 2 ^ 51"
    using Cons.prems nn by (intro Cons.IH) (simp_all add: add.assoc)
  then show ?case using q(1) v(1) by (simp add: add.assoc)
qed simp

text \<open>Normalising and scaling: for decimal rates that add up to 1, the rounding at the end undoes
  all the rounding before it.\<close>

lemma fround_near:
  assumes "\<bar>y - of_int d\<bar> < 1 / 2" and "0 \<le> d" and "d < 2 ^ 63"
  shows "to_int (fround (Fin y)) = d"
proof -
  have "(if 0 \<le> y then \<lfloor>y + 1 / 2\<rfloor> else - \<lfloor>1 / 2 - y\<rfloor>) = d"
  proof (cases "0 \<le> y")
    case True
    moreover have "\<lfloor>y + 1 / 2\<rfloor> = d" using assms(1) by (intro floor_unique) linarith+
    ultimately show ?thesis by simp
  next
    case False
    then have "(of_int d :: rat) < 1 / 2" using assms(1) by linarith
    then have "d = 0" using assms(2) by linarith
    moreover have "\<lfloor>1 / 2 - y\<rfloor> = 0"
      using False assms(1) \<open>d = 0\<close> by (intro floor_unique) (simp_all add: abs_if)
    ultimately show ?thesis using False by simp
  qed
  then show ?thesis using assms(2,3) by (simp add: fround_def to_int_def)
qed

lemma slots_of_decimal:
  assumes k: "k \<le> 9" and d: "0 \<le> d" "d \<le> 10 ^ k" and t: "\<bar>t - 1\<bar> \<le> 1 / 2 ^ 40"
  shows "to_int (fround (fmul (fdiv (decimal k d) (Fin t)) (Fin (10 ^ k)))) = d"
proof -
  obtain q where q: "decimal k d = Fin q" "\<bar>q - of_int d / 10 ^ k\<bar> \<le> 1 / 2 ^ 53"
    using decimal_close [OF d] .
  let ?e = "of_int d / 10 ^ k :: rat"
  have p: "(10 ^ k :: rat) \<le> 10 ^ 9" "(1::rat) \<le> 10 ^ k" using small_powers k by simp_all
  have e: "0 \<le> ?e" "?e \<le> 1"
  proof -
    have "(of_int d :: rat) \<le> of_int (10 ^ k)" using d(2) by (simp only: of_int_le_iff)
    then show "0 \<le> ?e" "?e \<le> 1" using d(1) by (simp_all add: divide_simps)
  qed
  have "\<bar>t - 1\<bar> \<le> 1 / 2" using t by simp
  then have t1: "1 / 2 \<le> t" by linarith
  have qt: "\<bar>q - ?e * t\<bar> \<le> 1 / 2 ^ 39"
  proof (rule close_trans [OF q(2)])
    have "?e - ?e * t = ?e * (1 - t)" by (simp add: right_diff_distrib)
    then have "\<bar>?e - ?e * t\<bar> = ?e * \<bar>t - 1\<bar>" using e(1)
      by (simp only: abs_mult abs_of_nonneg abs_minus_commute)
    also have "\<dots> \<le> 1 * (1 / 2 ^ 40)" using e t by (intro mult_mono) simp_all
    finally show "\<bar>?e - ?e * t\<bar> \<le> 1 / 2 ^ 40" by simp
  qed simp
  have "\<bar>q / t - ?e\<bar> * t = \<bar>q - ?e * t\<bar>" using t1 by (subst abs_scale) simp_all
  moreover have "\<bar>q / t - ?e\<bar> * (1 / 2) \<le> \<bar>q / t - ?e\<bar> * t" using t1 by (intro mult_left_mono) simp_all
  ultimately have x: "\<bar>q / t - ?e\<bar> \<le> 1 / 2 ^ 38" using qt by simp
  then have "\<bar>q / t\<bar> \<le> 2 ^ 1" by (rule close_bound [OF _ e]) simp
  then obtain v where v: "rnd (q / t) = Fin v" "\<bar>v - q / t\<bar> \<le> 2 ^ 1 / 2 ^ 53" by (rule rnd_close) simp
  have ve: "\<bar>v - ?e\<bar> \<le> 1 / 2 ^ 37" by (rule close_trans [OF v(2) x]) simp
  have "\<bar>v - ?e\<bar> * 10 ^ k \<le> 1 / 2 ^ 37 * 10 ^ 9" using ve p by (intro mult_mono) simp_all
  then have vk: "\<bar>v * 10 ^ k - of_int d\<bar> \<le> 1 / 2 ^ 37 * 10 ^ 9" by (simp add: abs_scale)
  have "(of_int d :: rat) \<le> 10 ^ 9"
  proof -
    have "(of_int d :: rat) \<le> of_int (10 ^ k)" using d(2) by (simp only: of_int_le_iff)
    then show ?thesis using p(1) by (simp only: of_int_power of_int_numeral)
  qed
  then have "\<bar>v * 10 ^ k\<bar> \<le> 2 ^ 31" using d(1) by (intro close_bound [OF vk, of "10 ^ 9"]) simp_all
  then obtain y where y: "rnd (v * 10 ^ k) = Fin y" "\<bar>y - v * 10 ^ k\<bar> \<le> 2 ^ 31 / 2 ^ 53"
    by (rule rnd_close) simp
  have "\<bar>y - of_int d\<bar> \<le> 1 / 4" by (rule close_trans [OF y(2) vk]) simp
  moreover have "d < 2 ^ 63"
  proof -
    have "(10::int) ^ k \<le> 10 ^ 9" using k by (intro power_increasing) simp_all
    then show ?thesis using d(2) by simp
  qed
  ultimately have "to_int (fround (Fin y)) = d" using d(1) by (intro fround_near) simp_all
  moreover have "t \<noteq> 0" using t1 by auto
  ultimately show ?thesis by (simp add: q v y fdiv_def fmul_def)
qed

end
