(* ===== verification/Market_Models.thy ===== *)
theory Market_Models
  imports Go_Text Float64 "HOL-Library.Word"
begin

text \<open>
  The entities of the award, rebate and task packages (\<open>internal/biz/award/model.go\<close>,
  \<open>internal/biz/rebate/model.go\<close>, \<open>internal/biz/task/model.go\<close>) and those of
  \<open>internal/biz/strategy/model.go\<close> with that file's parsing functions.
\<close>

section \<open>Award\<close>

record SendAwardMessage =
  sm_UserID :: string
  sm_AwardID :: int
  sm_AwardTitle :: string

record UserAwardRecord =
  ua_UserID :: string
  ua_ActivityID :: int
  ua_StrategyID :: int
  ua_OrderID :: string
  ua_AwardID :: int
  ua_AwardTitle :: string
  ua_AwardTime :: time
  ua_AwardState :: string

record AwardTask =
  at_UserID :: string
  at_Topic :: string
  at_MessageID :: string
  at_Message :: SendAwardMessage
  at_State :: string

record UserAwardTaskInfo =
  ti_UserAwardRecord :: UserAwardRecord
  ti_Task :: AwardTask

definition SendAwardTopic :: string where
  "SendAwardTopic = ''send_award''"

definition AwardStateCreate :: string where
  "AwardStateCreate = ''create''"

definition TaskStateCreate :: string where
  "TaskStateCreate = ''create''"

section \<open>Rebate\<close>

record Behavior =
  bh_UserID :: string
  bh_BehaviorType :: string
  bh_OutBusinessNo :: string

record BehaviorRebateOrder =
  bo_UserID :: string
  bo_OrderID :: string
  bo_BehaviorType :: string
  bo_RebateDesc :: string
  bo_RebateType :: string
  bo_OutBusinessNo :: string
  bo_RebateConfig :: string
  bo_BizID :: string

record BehaviorRebate =
  br_UserID :: string
  br_Behavior :: Behavior
  br_BehaviorRebateOrders :: "BehaviorRebateOrder list"

record DailyBehaviorRebate =
  db_BehaviorType :: string
  db_RebateDesc :: string
  db_RebateType :: string
  db_RebateConfig :: string

record RebateMessage =
  rm_UserID :: string
  rm_RebateDesc :: string
  rm_RebateType :: string
  rm_RebateConfig :: string
  rm_BizID :: string

definition BehaviorSign :: string where
  "BehaviorSign = ''sign''"

definition RebateTypeSku :: string where
  "RebateTypeSku = ''sku''"

definition RebateTypeIntegral :: string where
  "RebateTypeIntegral = ''integral''"

section \<open>Task\<close>

record Task =
  tk_ID :: int
  tk_UserID :: string
  tk_Topic :: string
  tk_MessageID :: string
  tk_Message :: string
  tk_State :: string
  tk_CreateTime :: time
  tk_UpdateTime :: time

record AwardStockConsumeMessage =
  asm_StrategyID :: int
  asm_AwardID :: int

definition TaskTypeStrategyAwardStockConsume :: string where
  "TaskTypeStrategyAwardStockConsume = ''strategy:award_stock_consume''"

section \<open>Strategy\<close>

type_synonym RuleTreeName = string
type_synonym RuleChainName = string

definition RuleBlacklist :: RuleChainName where "RuleBlacklist = ''rule_blacklist''"
definition RuleWeight :: RuleChainName where "RuleWeight = ''rule_weight''"
definition RuleDefault :: RuleChainName where "RuleDefault = ''rule_default''"
definition RuleLock :: RuleTreeName where "RuleLock = ''rule_lock''"
definition RuleLuckAward :: RuleTreeName where "RuleLuckAward = ''rule_luck_award''"
definition RuleStock :: RuleTreeName where "RuleStock = ''rule_stock''"

lemmas rule_names =
  RuleBlacklist_def RuleWeight_def RuleDefault_def RuleLock_def RuleLuckAward_def RuleStock_def

datatype RuleLimitType = EQUAL | GT | LT | GE | LE

datatype RuleLogicCheckType = RuleCheckAllow | RuleCheckTakeOver

record Strategy =
  st_StrategyID :: int
  st_StrategyDesc :: string
  st_RuleModels :: string

record StrategyRule =
  sr_StrategyID :: int
  sr_AwardID :: int
  sr_RuleType :: int
  sr_RuleModel :: string
  sr_RuleValue :: string
  sr_RuleDesc :: string

record StrategyAward =
  sa_StrategyID :: int
  sa_AwardID :: int
  sa_AwardTitle :: string
  sa_AwardSubtitle :: string
  sa_AwardCount :: int
  sa_AwardCountSurplus :: int
  sa_AwardRate :: float64
  sa_Sort :: int
  sa_RuleModels :: string

record RaffleAward =
  ra_AwardID :: int
  ra_AwardTitle :: string
  ra_Sort :: int

record RuleTreeNodeLine =
  nl_TreeID :: string
  nl_RuleNodeFrom :: string
  nl_RuleNodeTo :: string
  nl_RuleLimitType :: RuleLimitType
  nl_RuleLimitValue :: RuleLogicCheckType

record RuleTreeNode =
  rn_TreeID :: string
  rn_RuleKey :: RuleTreeName
  rn_RuleDesc :: string
  rn_RuleValue :: string
  rn_TreeNodeLine :: "RuleTreeNodeLine list"

record RuleTree =
  rt_TreeID :: string
  rt_TreeName :: string
  rt_TreeDesc :: string
  rt_TreeRootRuleNode :: RuleTreeName
  rt_NodeMap :: "RuleTreeName \<rightharpoonup> RuleTreeNode"

record Award =
  aw_AwardId :: int
  aw_AwardTitle :: string

record WeightBucket =
  wb_RuleValue :: string
  wb_Weight :: int
  wb_AwardIds :: "int list"
  wb_AwardList :: "Award list"

record RaffleFactor =
  rf_ActivityID :: int
  rf_UserID :: string
  rf_StrategyID :: int

definition SPLIT :: char where "SPLIT = CHR '',''"
definition SPACE :: char where "SPACE = CHR '' ''"
definition COLON :: char where "COLON = CHR '':''"
definition UNDERLINE :: string where "UNDERLINE = ''_''"

lemmas separators = SPLIT_def SPACE_def COLON_def UNDERLINE_def

definition ErrRuleTreeInvalid :: gerr where
  "ErrRuleTreeInvalid = KErr 400 ''RULE_TREE_INVALID'' None"

definition ErrBlackListUser :: gerr where
  "ErrBlackListUser = KErr 403 ''USER_IN_BLACKLIST'' None"

definition ErrStrategyRateRangeFailed :: "gerr \<Rightarrow> gerr" where
  "ErrStrategyRateRangeFailed cause = KErr 500 ''STRATEGY_RATE_RANGE_FAILED'' (Some cause)"

definition ErrStrategyRateRangeInvalid :: gerr where
  "ErrStrategyRateRangeInvalid = KErr 500 ''STRATEGY_RATE_RANGE_INVALID'' None"

definition ErrStrategyRandomValGenFailed :: "gerr \<Rightarrow> gerr" where
  "ErrStrategyRandomValGenFailed cause = KErr 500 ''STRATEGY_RANDOM_VAL_GEN_FAILED'' (Some cause)"

definition ErrStrategyAwardAssembleFailed :: "gerr \<Rightarrow> gerr" where
  "ErrStrategyAwardAssembleFailed cause = KErr 500 ''STRATEGY_AWARD_ASSEMBLE_FAILED'' (Some cause)"

definition ErrBlackListConfigInvalid :: gerr where
  "ErrBlackListConfigInvalid = KErr 500 ''BLACK_LIST_CONFIG_INVALID'' None"

definition ErrBlackListConfigParseFailed :: "gerr \<Rightarrow> gerr" where
  "ErrBlackListConfigParseFailed cause = KErr 500 ''BLACK_LIST_CONFIG_PARSE_FAILED'' (Some cause)"

definition ErrRuleWeightConfigInvalid :: gerr where
  "ErrRuleWeightConfigInvalid = KErr 500 ''RULE_WEIGHT_CONFIG_INVALID'' None"

definition ErrRuleWeightValueInvalidFormat :: "gerr \<Rightarrow> gerr" where
  "ErrRuleWeightValueInvalidFormat cause = KErr 500 ''RULE_WEIGHT_VALUE_INVALID_FORMAT'' (Some cause)"

subsection \<open>Rule strings\<close>

definition GetRuleModels :: "Strategy \<Rightarrow> RuleChainName list" where
  "GetRuleModels s = (if st_RuleModels s = '''' then [] else split SPLIT (st_RuleModels s))"

definition GetRuleWeight :: "Strategy \<Rightarrow> string" where
  "GetRuleWeight s =
     (if st_RuleModels s = '''' then ''''
      else if ''rule_weight'' \<in> set (split SPLIT (st_RuleModels s)) then ''rule_weight'' else '''')"

definition GetRuleBlackList :: "Strategy \<Rightarrow> string" where
  "GetRuleBlackList s =
     (if st_RuleModels s = '''' then ''''
      else if ''rule_blacklist'' \<in> set (split SPLIT (st_RuleModels s)) then ''rule_blacklist'' else '''')"

text \<open>The inner loop of \<open>GetRuleWeightValues\<close>: the award numbers of one group.\<close>

fun parse_award_ids :: "string list \<Rightarrow> int list res" where
  "parse_award_ids [] = Ok []"
| "parse_award_ids (v # vs) =
     (if v = '''' then parse_award_ids vs
      else case ParseInt v of
             Ok n \<Rightarrow> bindR (parse_award_ids vs) (\<lambda>ns. Ok (n # ns))
           | Err e \<Rightarrow> Err (ErrRuleWeightValueInvalidFormat e)
           | Panic s \<Rightarrow> Panic s)"

text \<open>A Go map is an association list with distinct keys; storing a key replaces its value.\<close>

definition put :: "'k \<Rightarrow> 'v \<Rightarrow> ('k \<times> 'v) list \<Rightarrow> ('k \<times> 'v) list" where
  "put k v m = (k, v) # filter (\<lambda>(k', _). k' \<noteq> k) m"

text \<open>\<open>parts[1]\<close> of a group without a colon is an index out of range: a panic.\<close>

fun rule_weight_groups :: "string list \<Rightarrow> (string \<times> int list) list \<Rightarrow> (string \<times> int list) list res" where
  "rule_weight_groups [] m = Ok m"
| "rule_weight_groups (g # gs) m =
     (if g = '''' then rule_weight_groups gs m
      else case split COLON g of
             key # valueString # _ \<Rightarrow>
               bindR (parse_award_ids (split SPLIT valueString))
                 (\<lambda>values. rule_weight_groups gs (put key values m))
           | _ \<Rightarrow> Panic ''index out of range'')"

text \<open>The result is nil for a rule of another model.\<close>

definition GetRuleWeightValues :: "StrategyRule \<Rightarrow> (string \<times> int list) list res" where
  "GetRuleWeightValues sr =
     (if sr_RuleModel sr \<noteq> ''rule_weight'' then Ok []
      else rule_weight_groups (split SPACE (sr_RuleValue sr)) [])"

section \<open>Lemmas\<close>

lemma GetRuleModels_join:
  assumes "ms \<noteq> []" and "\<forall>m \<in> set ms. CHR '','' \<notin> set m" and "join '','' ms \<noteq> ''''"
  shows "GetRuleModels \<lparr>st_StrategyID = i, st_StrategyDesc = d, st_RuleModels = join '','' ms\<rparr> = ms"
  using assms split_join [of ms "CHR '',''"] by (simp add: GetRuleModels_def separators)

lemma GetRuleWeight_iff:
  "GetRuleWeight s \<noteq> '''' \<longleftrightarrow> RuleWeight \<in> set (GetRuleModels s)"
  by (simp add: GetRuleWeight_def GetRuleModels_def rule_names)

lemma GetRuleBlackList_iff:
  "GetRuleBlackList s \<noteq> '''' \<longleftrightarrow> RuleBlacklist \<in> set (GetRuleModels s)"
  by (simp add: GetRuleBlackList_def GetRuleModels_def rule_names)

lemma parse_award_ids_FormatInt:
  "\<forall>n \<in> set ns. is_int64 n \<Longrightarrow> parse_award_ids (map FormatInt ns) = Ok ns"
  by (induction ns) (auto simp: ParseInt_FormatInt)

lemma map_of_put [simp]: "map_of (put k v m) = (map_of m)(k \<mapsto> v)"
proof -
  have "map_of (filter (\<lambda>(k', _). k' \<noteq> k) m) x = (if x = k then None else map_of m x)" for x
    by (induction m) auto
  then show ?thesis by (auto simp: put_def fun_eq_iff)
qed

lemma distinct_put [simp]: "distinct (map fst m) \<Longrightarrow> distinct (map fst (put k v m))"
  by (auto simp: put_def distinct_map_filter split: prod.splits)

lemma set_put_keys: "fst ` set (put k v m) = insert k (fst ` set m)"
  by (force simp: put_def)

end
