(* ===== verification/Tables.thy ===== *)
theory Tables
  imports Activity_Model Market_Models
begin

text \<open>
  The rows of \<open>internal/data/po\<close>, one record per gorm model, with the \<open>ToEntity\<close>
  conversions and the two string parsers of \<open>po/strategy.go\<close>. A physical table is
  named by its database and its table name and holds rows of any of these shapes:
  \<open>row\<close> is their union. The equations say that the conversions lose nothing but the
  primary key and the timestamps.
\<close>

section \<open>po/activity.go\<close>

record po_RaffleActivity =
  ra_ID :: int
  ra_ActivityID :: int
  ra_ActivityName :: string
  ra_ActivityDesc :: string
  ra_BeginDateTime :: time
  ra_EndDateTime :: time
  ra_StrategyID :: int
  ra_State :: string
  ra_CreateTime :: time
  ra_UpdateTime :: time

record po_RaffleActivityCount =
  rc_ID :: int
  rc_ActivityCountID :: int
  rc_TotalCount :: int
  rc_DayCount :: int
  rc_MonthCount :: int
  rc_CreateTime :: time
  rc_UpdateTime :: time

record po_RaffleActivitySku =
  rs_ID :: int
  rs_Sku :: int
  rs_ActivityID :: int
  rs_ActivityCountID :: int
  rs_StockCount :: int
  rs_StockCountSurplus :: int
  rs_CreateTime :: time
  rs_UpdateTime :: time

record po_RaffleActivityAccount =
  acc_ID :: int
  acc_UserID :: string
  acc_ActivityID :: int
  acc_TotalCount :: int
  acc_TotalCountSurplus :: int
  acc_DayCount :: int
  acc_DayCountSurplus :: int
  acc_MonthCount :: int
  acc_MonthCountSurplus :: int
  acc_CreateTime :: time
  acc_UpdateTime :: time

record po_RaffleActivityOrder =
  ro_ID :: int
  ro_UserID :: string
  ro_Sku :: int
  ro_ActivityID :: int
  ro_ActivityName :: string
  ro_StrategyID :: int
  ro_OrderID :: string
  ro_OrderTime :: time
  ro_TotalCount :: int
  ro_DayCount :: int
  ro_MonthCount :: int
  ro_State :: string
  ro_OutBusinessNo :: string
  ro_CreateTime :: time
  ro_UpdateTime :: time

record po_RaffleActivityAccountDay =
  day_ID :: int
  day_UserID :: string
  day_ActivityID :: int
  day_Day :: string
  day_DayCount :: int
  day_DayCountSurplus :: int
  day_CreateTime :: time
  day_UpdateTime :: time

record po_RaffleActivityAccountMonth =
  mon_ID :: int
  mon_UserID :: string
  mon_ActivityID :: int
  mon_Month :: string
  mon_MonthCount :: int
  mon_MonthCountSurplus :: int
  mon_CreateTime :: time
  mon_UpdateTime :: time

record po_UserRaffleOrder =
  uo_ID :: int
  uo_UserID :: string
  uo_ActivityID :: int
  uo_ActivityName :: string
  uo_StrategyID :: int
  uo_OrderID :: string
  uo_OrderTime :: time
  uo_OrderState :: string
  uo_AccountSyncState :: string
  uo_CreateTime :: time
  uo_UpdateTime :: time

definition RaffleActivity_ToEntity :: "po_RaffleActivity \<Rightarrow> Activity" where
  "RaffleActivity_ToEntity p =
     \<lparr>av_ActivityID = ra_ActivityID p, av_ActivityName = ra_ActivityName p,
      av_ActivityDesc = ra_ActivityDesc p, av_BeginDateTime = ra_BeginDateTime p,
      av_EndDateTime = ra_EndDateTime p, av_StrategyID = ra_StrategyID p, av_State = ra_State p\<rparr>"

definition RaffleActivityCount_ToEntity :: "po_RaffleActivityCount \<Rightarrow> ActivityCount" where
  "RaffleActivityCount_ToEntity p =
     \<lparr>ac_ActivityCountID = rc_ActivityCountID p, ac_TotalCount = rc_TotalCount p,
      ac_DayCount = rc_DayCount p, ac_MonthCount = rc_MonthCount p\<rparr>"

definition RaffleActivitySku_ToEntity :: "po_RaffleActivitySku \<Rightarrow> ActivitySku" where
  "RaffleActivitySku_ToEntity p =
     \<lparr>as_Sku = rs_Sku p, as_ActivityID = rs_ActivityID p,
      as_ActivityCountID = rs_ActivityCountID p, as_StockCount = rs_StockCount p,
      as_StockCountSurplus = rs_StockCountSurplus p\<rparr>"

definition RaffleActivityAccount_ToEntity :: "po_RaffleActivityAccount \<Rightarrow> ActivityAccount" where
  "RaffleActivityAccount_ToEntity p =
     \<lparr>aa_UserID = acc_UserID p, aa_ActivityID = acc_ActivityID p,
      aa_TotalCount = acc_TotalCount p, aa_TotalCountSurplus = acc_TotalCountSurplus p,
      aa_DayCount = acc_DayCount p, aa_DayCountSurplus = acc_DayCountSurplus p,
      aa_MonthCount = acc_MonthCount p, aa_MonthCountSurplus = acc_MonthCountSurplus p\<rparr>"

definition RaffleActivityOrder_ToEntity :: "po_RaffleActivityOrder \<Rightarrow> ActivityOrder" where
  "RaffleActivityOrder_ToEntity p =
     \<lparr>ao_UserID = ro_UserID p, ao_Sku = ro_Sku p, ao_ActivityID = ro_ActivityID p,
      ao_ActivityName = ro_ActivityName p, ao_StrategyID = ro_StrategyID p,
      ao_OrderID = ro_OrderID p, ao_OrderTime = ro_OrderTime p, ao_TotalCount = ro_TotalCount p,
      ao_DayCount = ro_DayCount p, ao_MonthCount = ro_MonthCount p, ao_State = ro_State p,
      ao_OutBusinessNo = ro_OutBusinessNo p\<rparr>"

definition RaffleActivityAccountDay_ToEntity :: "po_RaffleActivityAccountDay \<Rightarrow> ActivityAccountDay" where
  "RaffleActivityAccountDay_ToEntity p =
     \<lparr>ad_UserID = day_UserID p, ad_ActivityID = day_ActivityID p, ad_Day = day_Day p,
      ad_DayCount = day_DayCount p, ad_DayCountSurplus = day_DayCountSurplus p\<rparr>"

definition RaffleActivityAccountMonth_ToEntity :: "po_RaffleActivityAccountMonth \<Rightarrow> ActivityAccountMonth" where
  "RaffleActivityAccountMonth_ToEntity p =
     \<lparr>am_UserID = mon_UserID p, am_ActivityID = mon_ActivityID p, am_Month = mon_Month p,
      am_MonthCount = mon_MonthCount p, am_MonthCountSurplus = mon_MonthCountSurplus p\<rparr>"

definition UserRaffleOrder_ToEntity :: "po_UserRaffleOrder \<Rightarrow> UserRaffleOrder" where
  "UserRaffleOrder_ToEntity p =
     \<lparr>ur_UserID = uo_UserID p, ur_ActivityID = uo_ActivityID p,
      ur_ActivityName = uo_ActivityName p, ur_StrategyID = uo_StrategyID p,
      ur_OrderID = uo_OrderID p, ur_OrderTime = uo_OrderTime p, ur_OrderState = uo_OrderState p\<rparr>"

section \<open>po/award.go, po/rebate.go, po/task.go\<close>

record po_UserAwardRecord =
  uar_ID :: int
  uar_UserID :: string
  uar_ActivityID :: int
  uar_StrategyID :: int
  uar_OrderID :: string
  uar_AwardID :: int
  uar_AwardTitle :: string
  uar_AwardTime :: time
  uar_AwardState :: string
  uar_CreateTime :: time
  uar_UpdateTime :: time

record po_DailyBehaviorRebate =
  dbr_ID :: int
  dbr_BehaviorType :: string
  dbr_RebateDesc :: string
  dbr_RebateType :: string
  dbr_RebateConfig :: string
  dbr_State :: string
  dbr_CreateTime :: time
  dbr_UpdateTime :: time

record po_UserBehaviorRebateOrder =
  ubr_ID :: int
  ubr_UserID :: string
  ubr_OrderID :: string
  ubr_BehaviorType :: string
  ubr_OutBusinessNo :: string
  ubr_RebateDesc :: string
  ubr_RebateType :: string
  ubr_RebateConfig :: string
  ubr_BizID :: string
  ubr_CreateTime :: time
  ubr_UpdateTime :: time

record po_Task =
  pt_ID :: int
  pt_UserID :: string
  pt_Topic :: string
  pt_MessageID :: string
  pt_Message :: string
  pt_State :: string
  pt_CreateTime :: time
  pt_UpdateTime :: time

definition UserAwardRecord_ToEntity :: "po_UserAwardRecord \<Rightarrow> UserAwardRecord" where
  "UserAwardRecord_ToEntity p =
     \<lparr>ua_UserID = uar_UserID p, ua_ActivityID = uar_ActivityID p,
      ua_StrategyID = uar_StrategyID p, ua_OrderID = uar_OrderID p, ua_AwardID = uar_AwardID p,
      ua_AwardTitle = uar_AwardTitle p, ua_AwardTime = uar_AwardTime p,
      ua_AwardState = uar_AwardState p\<rparr>"

definition DailyBehaviorRebate_ToEntity :: "po_DailyBehaviorRebate \<Rightarrow> DailyBehaviorRebate" where
  "DailyBehaviorRebate_ToEntity p =
     \<lparr>db_BehaviorType = dbr_BehaviorType p, db_RebateDesc = dbr_RebateDesc p,
      db_RebateType = dbr_RebateType p, db_RebateConfig = dbr_RebateConfig p\<rparr>"

definition UserBehaviorRebateOrder_ToEntity :: "po_UserBehaviorRebateOrder \<Rightarrow> BehaviorRebateOrder" where
  "UserBehaviorRebateOrder_ToEntity p =
     \<lparr>bo_UserID = ubr_UserID p, bo_OrderID = ubr_OrderID p,
      bo_BehaviorType = ubr_BehaviorType p, bo_RebateDesc = ubr_RebateDesc p,
      bo_RebateType = ubr_RebateType p, bo_OutBusinessNo = ubr_OutBusinessNo p,
      bo_RebateConfig = ubr_RebateConfig p, bo_BizID = ubr_BizID p\<rparr>"

definition Task_ToEntity :: "po_Task \<Rightarrow> Task" where
  "Task_ToEntity p =
     \<lparr>tk_ID = pt_ID p, tk_UserID = pt_UserID p, tk_Topic = pt_Topic p,
      tk_MessageID = pt_MessageID p, tk_Message = pt_Message p, tk_State = pt_State p,
      tk_CreateTime = pt_CreateTime p, tk_UpdateTime = pt_UpdateTime p\<rparr>"

section \<open>po/strategy.go\<close>

record po_Strategy =
  pst_ID :: int
  pst_StrategyID :: int
  pst_StrategyDesc :: string
  pst_RuleModels :: string
  pst_CreateTime :: time
  pst_UpdateTime :: time

record po_StrategyAward =
  psa_ID :: int
  psa_StrategyID :: int
  psa_AwardID :: int
  psa_AwardTitle :: string
  psa_AwardSubtitle :: string
  psa_AwardCount :: int
  psa_AwardCountSurplus :: int
  psa_AwardRate :: float64
  psa_RuleModels :: string
  psa_Sort :: int
  psa_CreateTime :: time
  psa_UpdateTime :: time

record po_StrategyRule =
  psr_ID :: int
  psr_StrategyID :: int
  psr_AwardID :: int
  psr_RuleType :: int
  psr_RuleModel :: string
  psr_RuleValue :: string
  psr_RuleDesc :: string
  psr_CreateTime :: time
  psr_UpdateTime :: time

record po_RuleTree =
  ptr_ID :: int
  ptr_TreeID :: string
  ptr_TreeName :: string
  ptr_TreeDesc :: string
  ptr_TreeNodeRuleKey :: string
  ptr_CreateTime :: time
  ptr_UpdateTime :: time

record po_RuleTreeNode =
  ptn_ID :: int
  ptn_TreeID :: string
  ptn_RuleKey :: string
  ptn_RuleDesc :: string
  ptn_RuleValue :: string
  ptn_CreateTime :: time
  ptn_UpdateTime :: time

record po_RuleTreeNodeLine =
  ptl_ID :: int
  ptl_TreeID :: string
  ptl_RuleNodeFrom :: string
  ptl_RuleNodeTo :: string
  ptl_RuleLimitType :: string
  ptl_RuleLimitValue :: string
  ptl_CreateTime :: time
  ptl_UpdateTime :: time

definition Strategy_ToEntity :: "po_Strategy \<Rightarrow> Strategy" where
  "Strategy_ToEntity p =
     \<lparr>st_StrategyID = pst_StrategyID p, st_StrategyDesc = pst_StrategyDesc p,
      st_RuleModels = pst_RuleModels p\<rparr>"

definition StrategyAward_ToEntity :: "po_StrategyAward \<Rightarrow> StrategyAward" where
  "StrategyAward_ToEntity p =
     \<lparr>sa_StrategyID = psa_StrategyID p, sa_AwardID = psa_AwardID p,
      sa_AwardTitle = psa_AwardTitle p, sa_AwardSubtitle = psa_AwardSubtitle p,
      sa_AwardCount = psa_AwardCount p, sa_AwardCountSurplus = psa_AwardCountSurplus p,
      sa_AwardRate = psa_AwardRate p, sa_Sort = psa_Sort p, sa_RuleModels = psa_RuleModels p\<rparr>"

definition StrategyRule_ToEntity :: "po_StrategyRule \<Rightarrow> StrategyRule" where
  "StrategyRule_ToEntity p =
     \<lparr>sr_StrategyID = psr_StrategyID p, sr_AwardID = psr_AwardID p,
      sr_RuleType = psr_RuleType p, sr_RuleModel = psr_RuleModel p,
      sr_RuleValue = psr_RuleValue p, sr_RuleDesc = psr_RuleDesc p\<rparr>"

definition RuleTree_ToEntity :: "po_RuleTree \<Rightarrow> RuleTree" where
  "RuleTree_ToEntity p =
     \<lparr>rt_TreeID = ptr_TreeID p, rt_TreeName = ptr_TreeName p, rt_TreeDesc = ptr_TreeDesc p,
      rt_TreeRootRuleNode = ptr_TreeNodeRuleKey p, rt_NodeMap = Map.empty\<rparr>"

definition RuleTreeNode_ToEntity :: "po_RuleTreeNode \<Rightarrow> RuleTreeNode" where
  "RuleTreeNode_ToEntity p =
     \<lparr>rn_TreeID = ptn_TreeID p, rn_RuleKey = ptn_RuleKey p, rn_RuleDesc = ptn_RuleDesc p,
      rn_RuleValue = ptn_RuleValue p, rn_TreeNodeLine = []\<rparr>"

definition parseRuleLimitType :: "string \<Rightarrow> RuleLimitType" where
  "parseRuleLimitType v =
     (if v \<in> {''EQUAL'', ''equal'', ''=''} then EQUAL
      else if v \<in> {''GT'', ''gt'', ''>''} then GT
      else if v \<in> {''LT'', ''lt'', ''<''} then LT
      else if v \<in> {''GE'', ''ge'', ''>=''} then GE
      else if v \<in> {''LE'', ''le'', ''<=''} then LE
      else EQUAL)"

definition parseRuleLogicCheckType :: "string \<Rightarrow> RuleLogicCheckType" where
  "parseRuleLogicCheckType v =
     (if v \<in> {''allow'', ''ALLOW''} then RuleCheckAllow
      else if v \<in> {''take_over'', ''TAKE_OVER''} then RuleCheckTakeOver
      else RuleCheckAllow)"

definition RuleTreeNodeLine_ToEntity :: "po_RuleTreeNodeLine \<Rightarrow> RuleTreeNodeLine" where
  "RuleTreeNodeLine_ToEntity p =
     \<lparr>nl_TreeID = ptl_TreeID p, nl_RuleNodeFrom = ptl_RuleNodeFrom p,
      nl_RuleNodeTo = ptl_RuleNodeTo p, nl_RuleLimitType = parseRuleLimitType (ptl_RuleLimitType p),
      nl_RuleLimitValue = parseRuleLogicCheckType (ptl_RuleLimitValue p)\<rparr>"

section \<open>Rows\<close>

datatype row =
    RActivity (the_activity: po_RaffleActivity)
  | RCount (the_count: po_RaffleActivityCount)
  | RSku (the_sku: po_RaffleActivitySku)
  | RAccount (the_account: po_RaffleActivityAccount)
  | RQuotaOrder (the_quota_order: po_RaffleActivityOrder)
  | RDay (the_day: po_RaffleActivityAccountDay)
  | RMonth (the_month: po_RaffleActivityAccountMonth)
  | RRaffleOrder (the_raffle_order: po_UserRaffleOrder)
  | RAward (the_award: po_UserAwardRecord)
  | RRebateConf (the_rebate_conf: po_DailyBehaviorRebate)
  | RRebateOrder (the_rebate_order: po_UserBehaviorRebateOrder)
  | RTask (the_task: po_Task)
  | RStrategy (the_strategy: po_Strategy)
  | RStrategyAward (the_strategy_award: po_StrategyAward)
  | RStrategyRule (the_strategy_rule: po_StrategyRule)
  | RTree (the_tree: po_RuleTree)
  | RTreeNode (the_tree_node: po_RuleTreeNode)
  | RTreeLine (the_tree_line: po_RuleTreeNodeLine)

text \<open>The row as stored by an insert: AUTO_INCREMENT assigns the primary key.\<close>

fun with_id :: "int \<Rightarrow> row \<Rightarrow> row" where
  "with_id i (RActivity x) = RActivity (x\<lparr>ra_ID := i\<rparr>)"
| "with_id i (RCount x) = RCount (x\<lparr>rc_ID := i\<rparr>)"
| "with_id i (RSku x) = RSku (x\<lparr>rs_ID := i\<rparr>)"
| "with_id i (RAccount x) = RAccount (x\<lparr>acc_ID := i\<rparr>)"
| "with_id i (RQuotaOrder x) = RQuotaOrder (x\<lparr>ro_ID := i\<rparr>)"
| "with_id i (RDay x) = RDay (x\<lparr>day_ID := i\<rparr>)"
| "with_id i (RMonth x) = RMonth (x\<lparr>mon_ID := i\<rparr>)"
| "with_id i (RRaffleOrder x) = RRaffleOrder (x\<lparr>uo_ID := i\<rparr>)"
| "with_id i (RAward x) = RAward (x\<lparr>uar_ID := i\<rparr>)"
| "with_id i (RRebateConf x) = RRebateConf (x\<lparr>dbr_ID := i\<rparr>)"
| "with_id i (RRebateOrder x) = RRebateOrder (x\<lparr>ubr_ID := i\<rparr>)"
| "with_id i (RTask x) = RTask (x\<lparr>pt_ID := i\<rparr>)"
| "with_id i (RStrategy x) = RStrategy (x\<lparr>pst_ID := i\<rparr>)"
| "with_id i (RStrategyAward x) = RStrategyAward (x\<lparr>psa_ID := i\<rparr>)"
| "with_id i (RStrategyRule x) = RStrategyRule (x\<lparr>psr_ID := i\<rparr>)"
| "with_id i (RTree x) = RTree (x\<lparr>ptr_ID := i\<rparr>)"
| "with_id i (RTreeNode x) = RTreeNode (x\<lparr>ptn_ID := i\<rparr>)"
| "with_id i (RTreeLine x) = RTreeLine (x\<lparr>ptl_ID := i\<rparr>)"

lemmas activity_ToEntity =
  RaffleActivity_ToEntity_def RaffleActivityCount_ToEntity_def RaffleActivitySku_ToEntity_def
  RaffleActivityAccount_ToEntity_def RaffleActivityOrder_ToEntity_def
  RaffleActivityAccountDay_ToEntity_def RaffleActivityAccountMonth_ToEntity_def
  UserRaffleOrder_ToEntity_def

lemmas strategy_ToEntity =
  Strategy_ToEntity_def StrategyAward_ToEntity_def StrategyRule_ToEntity_def RuleTree_ToEntity_def
  RuleTreeNode_ToEntity_def RuleTreeNodeLine_ToEntity_def

end
