(* ===== verification/Services.thy ===== *)
theory Services
  imports Tables
begin

text \<open>
  What the program calls and does not contain: the Redis server, MySQL through gorm, the
  message broker, the task queue, the clock, the random sources and the JSON codecs. They
  are fields of the record \<open>services\<close>, which every definition that uses them takes as its
  first argument. The documented behaviour of Redis commands and of SQL statements is
  written down as \<open>redis_doc\<close> and \<open>sql_doc\<close>, and \<open>redis_ok\<close>,
  \<open>mysql_ok\<close>, \<open>codec_ok\<close> are the hypotheses that a service behaves as documented. Any call
  over the network may fail before or after it took effect: \<open>svc_fault\<close> decides, call by
  call, and no theorem restricts it unless it says so.

  The world holds the state those services keep for the program. \<open>tick\<close> numbers the
  external calls, so that each of them sees its own instant, fault and random value.
\<close>

section \<open>Redis\<close>

datatype rval = RStr string | RHash "string \<rightharpoonup> string" | RList "string list"

text \<open>A key holds a value and, when it expires, the instant at which it does.\<close>

type_synonym keyspace = "string \<rightharpoonup> rval \<times> time option"

datatype rcmd =
    GET string
  | SET string string "int option"
  | SETNX string string "int option"
  | SETXX string string "int option"
  | INCRBY string int
  | DEL string
  | HSET string "(string \<times> string) list"
  | HGET string string
  | HMGET string "string list"
  | EXPIRE string int
  | RPUSH string "string list"

datatype rreply =
    RNil
  | ROk
  | RInt int
  | RBulk string
  | RArr "string option list"
  | RErr gerr

abbreviation WrongType :: gerr where
  "WrongType \<equiv> GoErr ''WRONGTYPE Operation against a key holding the wrong kind of value''"

abbreviation NotAnInteger :: gerr where
  "NotAnInteger \<equiv> GoErr ''ERR value is not an integer or out of range''"

abbreviation WrongArity :: gerr where
  "WrongArity \<equiv> GoErr ''ERR wrong number of arguments''"

text \<open>The keys that have not expired at an instant.\<close>

definition live :: "time \<Rightarrow> keyspace \<Rightarrow> keyspace" where
  "live t ks k =
     (case ks k of
        None \<Rightarrow> None
      | Some (v, None) \<Rightarrow> Some (v, None)
      | Some (v, Some d) \<Rightarrow> if t < d then Some (v, Some d) else None)"

definition deadline :: "time \<Rightarrow> int option \<Rightarrow> time option" where
  "deadline t ttl = map_option (\<lambda>d. t + d) ttl"

text \<open>The integers Redis reads from a string value: canonical decimal 64-bit numbers.\<close>

definition redis_int :: "string \<Rightarrow> int option" where
  "redis_int s = (case ParseInt s of Ok n \<Rightarrow> if FormatInt n = s then Some n else None | _ \<Rightarrow> None)"

definition incr_value :: "rval \<Rightarrow> int \<Rightarrow> int option" where
  "incr_value v d =
     (case v of
        RStr s \<Rightarrow> (case redis_int s of
                     Some n \<Rightarrow> if is_int64 (n + d) then Some (n + d) else None
                   | None \<Rightarrow> None)
      | _ \<Rightarrow> None)"

fun redis_step :: "time \<Rightarrow> rcmd \<Rightarrow> keyspace \<Rightarrow> rreply \<times> keyspace" where
  "redis_step t (GET k) ks =
     (case ks k of
        None \<Rightarrow> (RNil, ks)
      | Some (RStr s, _) \<Rightarrow> (RBulk s, ks)
      | Some _ \<Rightarrow> (RErr WrongType, ks))"
| "redis_step t (SET k v ttl) ks = (ROk, ks(k \<mapsto> (RStr v, deadline t ttl)))"
| "redis_step t (SETNX k v ttl) ks =
     (if ks k = None then (RInt 1, ks(k \<mapsto> (RStr v, deadline t ttl))) else (RInt 0, ks))"
| "redis_step t (SETXX k v ttl) ks =
     (if ks k = None then (RInt 0, ks) else (RInt 1, ks(k \<mapsto> (RStr v, deadline t ttl))))"
| "redis_step t (INCRBY k d) ks =
     (case ks k of
        None \<Rightarrow> (RInt d, ks(k \<mapsto> (RStr (FormatInt d), None)))
      | Some (RStr s, dl) \<Rightarrow>
          (case incr_value (RStr s) d of
             Some n \<Rightarrow> (RInt n, ks(k \<mapsto> (RStr (FormatInt n), dl)))
           | None \<Rightarrow> (RErr NotAnInteger, ks))
      | Some _ \<Rightarrow> (RErr WrongType, ks))"
| "redis_step t (DEL k) ks = (if ks k = None then (RInt 0, ks) else (RInt 1, ks(k := None)))"
| "redis_step t (HSET k fvs) ks =
     (if fvs = [] then (RErr WrongArity, ks)
      else case ks k of
             None \<Rightarrow> (RInt (int (length fvs)), ks(k \<mapsto> (RHash (map_of (rev fvs)), None)))
           | Some (RHash h, dl) \<Rightarrow>
               (RInt (int (length (filter (\<lambda>(f, _). h f = None) fvs))),
                ks(k \<mapsto> (RHash (h ++ map_of (rev fvs)), dl)))
           | Some _ \<Rightarrow> (RErr WrongType, ks))"
| "redis_step t (HGET k f) ks =
     (case ks k of
        None \<Rightarrow> (RNil, ks)
      | Some (RHash h, _) \<Rightarrow> (case h f of None \<Rightarrow> (RNil, ks) | Some v \<Rightarrow> (RBulk v, ks))
      | Some _ \<Rightarrow> (RErr WrongType, ks))"
| "redis_step t (HMGET k fs) ks =
     (case ks k of
        None \<Rightarrow> (RArr (map (\<lambda>_. None) fs), ks)
      | Some (RHash h, _) \<Rightarrow> (RArr (map h fs), ks)
      | Some _ \<Rightarrow> (RErr WrongType, ks))"
| "redis_step t (EXPIRE k ttl) ks =
     (case ks k of
        None \<Rightarrow> (RInt 0, ks)
      | Some (v, _) \<Rightarrow> (RInt 1, if ttl \<le> 0 then ks(k := None) else ks(k \<mapsto> (v, Some (t + ttl)))))"
| "redis_step t (RPUSH k vs) ks =
     (case ks k of
        None \<Rightarrow> (RInt (int (length vs)), ks(k \<mapsto> (RList vs, None)))
      | Some (RList xs, dl) \<Rightarrow> (RInt (int (length (xs @ vs))), ks(k \<mapsto> (RList (xs @ vs), dl)))
      | Some _ \<Rightarrow> (RErr WrongType, ks))"

definition redis_doc :: "time \<Rightarrow> rcmd \<Rightarrow> keyspace \<Rightarrow> rreply \<times> keyspace" where
  "redis_doc t c ks = redis_step t c (live t ks)"

section \<open>MySQL\<close>

text \<open>
  A statement names a table and carries its predicate, assignment or row as a function on
  rows. The rows of a table are kept in the order of their primary key, the order in which
  \<open>First\<close> looks for one.
\<close>

datatype stmt =
    First string "row \<Rightarrow> bool"
  | Find string "row \<Rightarrow> bool"
  | FindBy string "row \<Rightarrow> bool" "row \<Rightarrow> int" nat
  | Updates string "row \<Rightarrow> bool" "row \<Rightarrow> row"
  | Create string row

datatype sreply = SRow row | SRows "row list" | SAffected nat | SFail gerr

record store =
  tbls :: "string \<times> string \<Rightarrow> row list"
  next_id :: int

text \<open>
  \<open>uniq t r r'\<close>: the schema of table \<open>t\<close> does not allow \<open>r'\<close> beside \<open>r\<close>. An update
  reports the rows whose contents changed. The errors are those of a gorm connection
  without \<open>TranslateError\<close>, which is how \<open>openMySQLDB\<close> opens it.
\<close>

fun sql_doc :: "(string \<Rightarrow> row \<Rightarrow> row \<Rightarrow> bool) \<Rightarrow> string \<Rightarrow> stmt \<Rightarrow> store \<Rightarrow> sreply \<times> store" where
  "sql_doc uniq db (First t p) st =
     (case find p (tbls st (db, t)) of None \<Rightarrow> (SFail GormRecordNotFound, st) | Some r \<Rightarrow> (SRow r, st))"
| "sql_doc uniq db (Find t p) st = (SRows (filter p (tbls st (db, t))), st)"
| "sql_doc uniq db (FindBy t p key n) st =
     (SRows (take n (sort_key key (filter p (tbls st (db, t))))), st)"
| "sql_doc uniq db (Updates t p f) st =
     (let rows = tbls st (db, t)
      in (SAffected (length (filter (\<lambda>r. p r \<and> f r \<noteq> r) rows)),
          st\<lparr>tbls := (tbls st)((db, t) := map (\<lambda>r. if p r then f r else r) rows)\<rparr>))"
| "sql_doc uniq db (Create t row) st =
     (if \<exists>r \<in> set (tbls st (db, t)). uniq t r row then (SFail MySQLDuplicateEntry, st)
      else let row' = with_id (next_id st) row
           in (SRow row', st\<lparr>tbls := (tbls st)((db, t) := tbls st (db, t) @ [row']),
                             next_id := next_id st + 1\<rparr>))"

section \<open>Events and codecs\<close>

text \<open>What \<open>json.Unmarshal\<close> stores in an \<open>interface{}\<close>.\<close>

datatype json_value =
    JNull
  | JBool bool
  | JNumber float64
  | JString string
  | JArray "json_value list"
  | JObject "(string \<times> json_value) list"

text \<open>The \<open>Data\<close> of a \<open>BaseEvent\<close>, by the static type it has where the event is built; a decoded
  event holds an \<open>interface{}\<close>.\<close>

datatype event_data =
    EInt int
  | EJson json_value
  | EPartake CreatePartakeOrder
  | ERebate RebateMessage
  | ESaveOrder SaveOrderTaskMessage
  | EAward SendAwardMessage

record BaseEvent =
  ev_ID :: string
  ev_Timestamp :: time
  ev_Data :: event_data

text \<open>
  \<open>json.Marshal\<close> and \<open>json.Unmarshal\<close> at one type; the target of the decoder is a fresh
  zero value, which decoding \<open>null\<close> leaves as it is.
\<close>

record 'a codec =
  enc :: "'a \<Rightarrow> string res"
  dec :: "string \<Rightarrow> 'a res"
  zero :: 'a

definition codec_ok :: "'a codec \<Rightarrow> bool" where
  "codec_ok c \<longleftrightarrow>
     (\<forall>v b. enc c v = Ok b \<longrightarrow> dec c b = Ok v \<and> b \<noteq> '''') \<and>
     (\<forall>v. \<not> (\<exists>s. enc c v = Panic s)) \<and> (\<forall>b. \<not> (\<exists>s. dec c b = Panic s)) \<and>
     dec c ''null'' = Ok (zero c)"

text \<open>\<open>json\<close> at the 64-bit integer types is the decimal representation.\<close>

definition int_codec :: "int codec" where
  "int_codec =
     \<lparr>enc = \<lambda>n. if is_int64 n then Ok (FormatInt n) else Err (GoErr ''integer out of range''),
      dec = \<lambda>b. if b = ''null'' then Ok 0
                else (case redis_int b of Some n \<Rightarrow> Ok n | None \<Rightarrow> Err (GoErr ''json: invalid number'')),
      zero = 0\<rparr>"

section \<open>The services and the world\<close>

datatype fault = NoFault | FailBefore gerr | FailAfter gerr

record services =
  svc_fault :: "nat \<Rightarrow> fault"
  svc_clock :: "nat \<Rightarrow> time"
  svc_zone :: int
  svc_depth :: nat
  svc_rtime :: "nat \<Rightarrow> time"
  svc_rcall :: "time \<Rightarrow> rcmd \<Rightarrow> keyspace \<Rightarrow> rreply \<times> keyspace"
  svc_lua_le0 :: "string \<Rightarrow> bool option"
  svc_sql :: "string \<Rightarrow> stmt \<Rightarrow> store \<Rightarrow> sreply \<times> store"
  svc_secure_int :: "nat \<Rightarrow> int \<Rightarrow> int res"
  svc_int63n :: "time \<Rightarrow> int \<Rightarrow> int"
  svc_read_id :: "nat \<Rightarrow> string option"
  svc_shuffle :: "nat \<Rightarrow> nat \<Rightarrow> nat"
  svc_tbcount :: int
  svc_dbcount :: int
  svc_delete_queue :: "string \<Rightarrow> (string \<times> string \<times> string \<times> int) list \<Rightarrow> unit res \<times> (string \<times> string \<times> string \<times> int) list"
  js_Activity :: "Activity codec"
  js_ActivityAccount :: "ActivityAccount codec"
  js_ActivitySku :: "ActivitySku codec"
  js_ActivityCount :: "ActivityCount codec"
  js_UserRaffleOrder :: "UserRaffleOrder codec"
  js_ActivityResult :: "ActivityResult codec"
  js_SkuStockKey :: "ActivitySkuStockKey codec"
  js_SaveOrder :: "SaveOrderTaskMessage codec"
  js_SendAward :: "SendAwardMessage codec"
  js_Rebate :: "RebateMessage codec"
  js_StockConsume :: "AwardStockConsumeMessage codec"
  js_Strategy :: "Strategy codec"
  js_StrategyAward :: "StrategyAward codec"
  js_StrategyAwards :: "StrategyAward list codec"
  js_RuleTree :: "RuleTree codec"
  js_WeightBuckets :: "WeightBucket list codec"
  js_RaffleActivity :: "po_RaffleActivity codec"
  js_string :: "string codec"
  js_Partake :: "CreatePartakeOrder codec"
  js_Any :: "json_value codec"
  js_Event :: "BaseEvent \<Rightarrow> string res"
  js_Event_dec :: "string \<Rightarrow> BaseEvent res"
  js_RebateEvent_dec :: "string \<Rightarrow> RebateMessage res"

record world =
  rkeys :: keyspace
  store :: store
  mq :: "(string \<times> string) list"
  declared :: "string set"
  queue :: "(string \<times> string \<times> string \<times> int) list"
  tick :: nat
  metrics :: "string list list"
  lcache :: "string \<rightharpoonup> string \<times> time"
  hits :: "64 word"
  misses :: "64 word"

type_synonym 'a M = "(world) \<Rightarrow> 'a res \<times> world"

definition redis_ok :: "services \<Rightarrow> bool" where
  "redis_ok svc \<longleftrightarrow> svc_rcall svc = redis_doc \<and>
     (\<forall>n. is_int64 n \<longrightarrow> svc_lua_le0 svc (FormatInt n) = Some (n \<le> 0))"

definition mysql_ok :: "services \<Rightarrow> (string \<Rightarrow> row \<Rightarrow> row \<Rightarrow> bool) \<Rightarrow> bool" where
  "mysql_ok svc uniq \<longleftrightarrow> svc_sql svc = sql_doc uniq"

text \<open>The errors of the transport are never the sentinels that the statements and commands
  themselves return.\<close>

definition fault_error :: "fault \<Rightarrow> gerr option" where
  "fault_error f = (case f of NoFault \<Rightarrow> None | FailBefore e \<Rightarrow> Some e | FailAfter e \<Rightarrow> Some e)"

definition faults_ok :: "services \<Rightarrow> bool" where
  "faults_ok svc \<longleftrightarrow>
     (\<forall>n e. fault_error (svc_fault svc n) = Some e \<longrightarrow>
        (\<forall>c \<in> {GormRecordNotFound, GormDuplicatedKey, MySQLDuplicateEntry, RedisNil}. \<not> errors_Is e c))"

definition no_faults :: "services \<Rightarrow> bool" where
  "no_faults svc \<longleftrightarrow> (\<forall>n. svc_fault svc n = NoFault)"

section \<open>Calls\<close>

definition bump :: "world \<Rightarrow> world" where
  "bump w = w\<lparr>tick := Suc (tick w)\<rparr>"

text \<open>One call over the network: \<open>m\<close> is what the service does when the request arrives.\<close>

definition remote :: "services \<Rightarrow> 'a M \<Rightarrow> 'a M" where
  "remote svc m w =
     (case svc_fault svc (tick w) of
        NoFault \<Rightarrow> m (bump w)
      | FailBefore e \<Rightarrow> (Err e, bump w)
      | FailAfter e \<Rightarrow> (Err e, snd (m (bump w))))"

definition now :: "services \<Rightarrow> time M" where
  "now svc w = (Ok (svc_clock svc (tick w)), bump w)"

definition metric :: "string list \<Rightarrow> unit M" where
  "metric ls w = (Ok (), w\<lparr>metrics := metrics w @ [ls]\<rparr>)"

text \<open>A Redis command sent by the client.\<close>

definition server_call :: "services \<Rightarrow> rcmd \<Rightarrow> rreply M" where
  "server_call svc c w =
     (let (r, ks) = svc_rcall svc (svc_rtime svc (tick w)) c (rkeys w);
          w' = w\<lparr>rkeys := ks\<rparr>
      in case r of RErr e \<Rightarrow> (Err e, w') | _ \<Rightarrow> (Ok r, w'))"

definition redis :: "services \<Rightarrow> rcmd \<Rightarrow> rreply M" where
  "redis svc c = remote svc (server_call svc c)"

text \<open>\<open>EVAL\<close>: the commands of a script run one after the other at one instant, with nothing
  in between; an error reply ends the script and keeps what it wrote before.\<close>

type_synonym 'a script = "(rcmd \<Rightarrow> (rreply, keyspace) act) \<Rightarrow> ('a, keyspace) act"

definition rcall :: "services \<Rightarrow> time \<Rightarrow> rcmd \<Rightarrow> (rreply, keyspace) act" where
  "rcall svc t c ks =
     (case svc_rcall svc t c ks of (RErr e, ks') \<Rightarrow> (Err e, ks') | (r, ks') \<Rightarrow> (Ok r, ks'))"

definition run_script :: "services \<Rightarrow> 'a script \<Rightarrow> 'a M" where
  "run_script svc scr w =
     (let (r, ks) = scr (rcall svc (svc_rtime svc (tick w))) (rkeys w) in (r, w\<lparr>rkeys := ks\<rparr>))"

definition redis_eval :: "services \<Rightarrow> 'a script \<Rightarrow> 'a M" where
  "redis_eval svc scr = remote svc (run_script svc scr)"

text \<open>One SQL statement.\<close>

definition sql_run :: "services \<Rightarrow> string \<Rightarrow> stmt \<Rightarrow> sreply M" where
  "sql_run svc db s w =
     (let (r, st) = svc_sql svc db s (store w); w' = w\<lparr>store := st\<rparr>
      in case r of SFail e \<Rightarrow> (Err e, w') | _ \<Rightarrow> (Ok r, w'))"

definition sql :: "services \<Rightarrow> string \<Rightarrow> stmt \<Rightarrow> sreply M" where
  "sql svc db s = remote svc (sql_run svc db s)"

definition gorm_First :: "services \<Rightarrow> string \<Rightarrow> string \<Rightarrow> (row \<Rightarrow> bool) \<Rightarrow> row M" where
  "gorm_First svc db t p =
     bindE (sql svc db (First t p)) (\<lambda>r. case r of SRow x \<Rightarrow> ret x | _ \<Rightarrow> fail GormRecordNotFound)"

definition gorm_Find :: "services \<Rightarrow> string \<Rightarrow> string \<Rightarrow> (row \<Rightarrow> bool) \<Rightarrow> row list M" where
  "gorm_Find svc db t p =
     bindE (sql svc db (Find t p)) (\<lambda>r. case r of SRows xs \<Rightarrow> ret xs | _ \<Rightarrow> ret [])"

definition gorm_FindBy ::
    "services \<Rightarrow> string \<Rightarrow> string \<Rightarrow> (row \<Rightarrow> bool) \<Rightarrow> (row \<Rightarrow> int) \<Rightarrow> nat \<Rightarrow> row list M" where
  "gorm_FindBy svc db t p key n =
     bindE (sql svc db (FindBy t p key n)) (\<lambda>r. case r of SRows xs \<Rightarrow> ret xs | _ \<Rightarrow> ret [])"

text \<open>The result is \<open>RowsAffected\<close>.\<close>

definition gorm_Updates ::
    "services \<Rightarrow> string \<Rightarrow> string \<Rightarrow> (row \<Rightarrow> bool) \<Rightarrow> (row \<Rightarrow> row) \<Rightarrow> nat M" where
  "gorm_Updates svc db t p f =
     bindE (sql svc db (Updates t p f)) (\<lambda>r. case r of SAffected n \<Rightarrow> ret n | _ \<Rightarrow> ret 0)"

text \<open>The result is the row with the primary key that gorm writes back into the struct.\<close>

definition gorm_Create :: "services \<Rightarrow> string \<Rightarrow> string \<Rightarrow> row \<Rightarrow> row M" where
  "gorm_Create svc db t r =
     bindE (sql svc db (Create t r)) (\<lambda>x. case x of SRow r' \<Rightarrow> ret r' | _ \<Rightarrow> ret r)"

text \<open>
  \<open>db.Transaction(fn)\<close>: the writes of \<open>fn\<close> become permanent when it returns nil and the
  commit arrives; when it returns an error or panics the tables are what they were
  (AUTO_INCREMENT does not go back).
\<close>

definition rollback :: "world \<Rightarrow> world \<Rightarrow> world" where
  "rollback w w' = w'\<lparr>store := (store w)\<lparr>next_id := next_id (store w')\<rparr>\<rparr>"

definition transaction :: "services \<Rightarrow> 'a M \<Rightarrow> 'a M" where
  "transaction svc body w =
     (case body w of
        (Ok x, w') \<Rightarrow>
          (case svc_fault svc (tick w') of
             NoFault \<Rightarrow> (Ok x, bump w')
           | FailBefore e \<Rightarrow> (Err e, bump (rollback w w'))
           | FailAfter e \<Rightarrow> (Err e, bump w'))
      | (Err e, w') \<Rightarrow> (Err e, rollback w w')
      | (Panic s, w') \<Rightarrow> (Panic s, rollback w w'))"

section \<open>Lemmas\<close>

lemma bump_simps [simp]:
  "rkeys (bump w) = rkeys w" "store (bump w) = store w" "mq (bump w) = mq w"
  "queue (bump w) = queue w" "metrics (bump w) = metrics w" "tick (bump w) = Suc (tick w)"
  "declared (bump w) = declared w" "lcache (bump w) = lcache w" "hits (bump w) = hits w"
  "misses (bump w) = misses w"
  by (simp_all add: bump_def)

lemma rollback_simps [simp]:
  "rkeys (rollback w w') = rkeys w'" "tbls (store (rollback w w')) = tbls (store w)"
  "mq (rollback w w') = mq w'" "queue (rollback w w') = queue w'"
  "metrics (rollback w w') = metrics w'" "tick (rollback w w') = tick w'"
  by (simp_all add: rollback_def)

lemma now_Ok [simp]: "now svc w = (Ok (svc_clock svc (tick w)), bump w)"
  by (simp add: now_def)

lemma metric_Ok [simp]: "metric ls w = (Ok (), w\<lparr>metrics := metrics w @ [ls]\<rparr>)"
  by (simp add: metric_def)

lemma bindE_now [simp]: "bindE (now svc) f w = f (svc_clock svc (tick w)) (bump w)"
  by (simp add: bindE_def)

lemma bindE_metric [simp]: "bindE (metric ls) f w = f () (w\<lparr>metrics := metrics w @ [ls]\<rparr>)"
  by (simp add: bindE_def)

lemma remote_Ok_iff:
  "remote svc m w = (Ok x, w') \<longleftrightarrow> svc_fault svc (tick w) = NoFault \<and> m (bump w) = (Ok x, w')"
  by (auto simp: remote_def split: fault.splits)

lemma remote_no_fault: "svc_fault svc (tick w) = NoFault \<Longrightarrow> remote svc m w = m (bump w)"
  by (simp add: remote_def)

text \<open>Whatever the network does to a call, the world after it is one the service can leave.\<close>

lemma remote_world:
  "snd (remote svc m w) = bump w \<or> snd (remote svc m w) = snd (m (bump w))"
  by (auto simp: remote_def split: fault.splits)

lemma remote_ErrE:
  assumes "remote svc m w = (Err e, w')"
  obtains (before) "svc_fault svc (tick w) = FailBefore e" "w' = bump w"
    | (after) "svc_fault svc (tick w) = FailAfter e" "w' = snd (m (bump w))"
    | (served) "svc_fault svc (tick w) = NoFault" "m (bump w) = (Err e, w')"
  using assms by (auto simp: remote_def split: fault.splits)

lemma live_live [simp]: "live t (live t ks) = live t ks"
  by (rule ext) (auto simp: live_def split: option.splits)

lemma live_later: "t0 \<le> t \<Longrightarrow> live t (live t0 ks) = live t ks"
  by (rule ext) (auto simp: live_def split: option.splits)

lemma live_upd:
  "live t (ks(k := x)) = (live t ks)(k := (case x of Some (v, Some d) \<Rightarrow> if t < d then x else None | _ \<Rightarrow> x))"
  by (rule ext) (auto simp: live_def split: option.splits prod.splits)

lemma live_None_iff:
  "live t ks k = None \<longleftrightarrow> ks k = None \<or> (\<exists>v d. ks k = Some (v, Some d) \<and> d \<le> t)"
  by (auto simp: live_def split: option.splits if_splits)

lemma live_SomeD: "live t ks k = Some x \<Longrightarrow> ks k = Some x"
  by (auto simp: live_def split: option.splits if_splits)

lemma live_alive: "live t ks k = Some (v, Some d) \<Longrightarrow> t < d"
  by (auto simp: live_def split: option.splits if_splits)

lemma redis_int_FormatInt [simp]: "is_int64 n \<Longrightarrow> redis_int (FormatInt n) = Some n"
  by (simp add: redis_int_def ParseInt_FormatInt)

lemma redis_int_SomeD: "redis_int s = Some n \<Longrightarrow> s = FormatInt n \<and> is_int64 n"
  by (auto simp: redis_int_def ParseInt_def Let_def split: res.splits if_splits option.splits prod.splits)

lemma int_codec_enc [simp]: "is_int64 n \<Longrightarrow> enc int_codec n = Ok (FormatInt n)"
  by (simp add: int_codec_def)

lemma transaction_Ok_iff:
  "transaction svc body w = (Ok x, w'') \<longleftrightarrow>
     (\<exists>w'. body w = (Ok x, w') \<and> svc_fault svc (tick w') = NoFault \<and> w'' = bump w')"
  by (auto simp: transaction_def split: prod.splits res.splits fault.splits)

text \<open>A transaction that reports an error left the tables as they were, unless the body
  succeeded and only the reply to the commit was lost.\<close>

lemma transaction_atomic:
  assumes "transaction svc body w = (r, w'')"
  shows "tbls (store w'') = tbls (store w) \<or>
         (\<exists>x w'. body w = (Ok x, w') \<and> store w'' = store w' \<and>
            (r = Ok x \<or> (\<exists>e. r = Err e \<and> svc_fault svc (tick w') = FailAfter e)))"
  using assms by (auto simp: transaction_def split: prod.splits res.splits fault.splits)

subsection \<open>Statements under the documented behaviour\<close>

lemma gorm_First_Ok_iff:
  "mysql_ok svc uniq \<Longrightarrow>
   gorm_First svc db t p w = (Ok r, w') \<longleftrightarrow>
     svc_fault svc (tick w) = NoFault \<and> find p (tbls (store w) (db, t)) = Some r \<and> w' = bump w"
  by (auto simp: gorm_First_def sql_def sql_run_def remote_def mysql_ok_def bindE_def
      split: fault.splits option.splits)

lemma gorm_First_not_found:
  "mysql_ok svc uniq \<Longrightarrow> svc_fault svc (tick w) = NoFault \<Longrightarrow>
   find p (tbls (store w) (db, t)) = None \<Longrightarrow>
   gorm_First svc db t p w = (Err GormRecordNotFound, bump w)"
  by (simp add: gorm_First_def sql_def sql_run_def remote_def mysql_ok_def bindE_def)

lemma gorm_First_found:
  "mysql_ok svc uniq \<Longrightarrow> svc_fault svc (tick w) = NoFault \<Longrightarrow>
   find p (tbls (store w) (db, t)) = Some r \<Longrightarrow>
   gorm_First svc db t p w = (Ok r, bump w)"
  by (simp add: gorm_First_Ok_iff)

text \<open>With faults that do not imitate sentinels, \<open>ErrRecordNotFound\<close> means that no row matches.\<close>

lemma gorm_First_NotFound_iff:
  assumes "mysql_ok svc uniq" and "faults_ok svc"
  shows "gorm_First svc db t p w = (Err e, w') \<and> errors_Is e GormRecordNotFound \<longleftrightarrow>
     svc_fault svc (tick w) = NoFault \<and> find p (tbls (store w) (db, t)) = None \<and>
     e = GormRecordNotFound \<and> w' = bump w"
proof -
  have "fault_error (svc_fault svc (tick w)) = Some e \<Longrightarrow> \<not> errors_Is e GormRecordNotFound"
    using assms(2) by (auto simp: faults_ok_def)
  then show ?thesis
    using assms(1)
    by (auto simp: gorm_First_def sql_def sql_run_def remote_def mysql_ok_def bindE_def fault_error_def
        split: fault.splits option.splits)
qed

lemma gorm_First_world:
  "mysql_ok svc uniq \<Longrightarrow> snd (gorm_First svc db t p w) = bump w"
  by (auto simp: gorm_First_def sql_def sql_run_def remote_def mysql_ok_def bindE_def
      split: fault.splits option.splits)

lemma gorm_First_Panic:
  "mysql_ok svc uniq \<Longrightarrow> gorm_First svc db t p w \<noteq> (Panic s, w')"
  by (auto simp: gorm_First_def sql_def sql_run_def remote_def mysql_ok_def bindE_def
      split: fault.splits option.splits)

lemma gorm_Find_Ok_iff:
  "mysql_ok svc uniq \<Longrightarrow>
   gorm_Find svc db t p w = (Ok rs, w') \<longleftrightarrow>
     svc_fault svc (tick w) = NoFault \<and> rs = filter p (tbls (store w) (db, t)) \<and> w' = bump w"
  by (auto simp: gorm_Find_def sql_def sql_run_def remote_def mysql_ok_def bindE_def
      split: fault.splits)

lemma gorm_FindBy_Ok_iff:
  "mysql_ok svc uniq \<Longrightarrow>
   gorm_FindBy svc db t p key n w = (Ok rs, w') \<longleftrightarrow>
     svc_fault svc (tick w) = NoFault \<and>
     rs = take n (sort_key key (filter p (tbls (store w) (db, t)))) \<and> w' = bump w"
  by (auto simp: gorm_FindBy_def sql_def sql_run_def remote_def mysql_ok_def bindE_def
      split: fault.splits)

definition update_rows :: "string \<times> string \<Rightarrow> (row \<Rightarrow> bool) \<Rightarrow> (row \<Rightarrow> row) \<Rightarrow> world \<Rightarrow> world" where
  "update_rows dt p f w =
     w\<lparr>store := (store w)\<lparr>tbls := (tbls (store w))(dt := map (\<lambda>r. if p r then f r else r) (tbls (store w) dt))\<rparr>\<rparr>"

definition insert_row :: "string \<times> string \<Rightarrow> row \<Rightarrow> world \<Rightarrow> world" where
  "insert_row dt r w =
     w\<lparr>store := (store w)\<lparr>tbls := (tbls (store w))(dt := tbls (store w) dt @ [r]),
                          next_id := next_id (store w) + 1\<rparr>\<rparr>"

lemma update_rows_simps [simp]:
  "tbls (store (update_rows dt p f w)) =
     (tbls (store w))(dt := map (\<lambda>r. if p r then f r else r) (tbls (store w) dt))"
  "rkeys (update_rows dt p f w) = rkeys w" "tick (update_rows dt p f w) = tick w"
  "mq (update_rows dt p f w) = mq w" "queue (update_rows dt p f w) = queue w"
  "next_id (store (update_rows dt p f w)) = next_id (store w)"
  by (simp_all add: update_rows_def)

lemma insert_row_simps [simp]:
  "tbls (store (insert_row dt r w)) = (tbls (store w))(dt := tbls (store w) dt @ [r])"
  "rkeys (insert_row dt r w) = rkeys w" "tick (insert_row dt r w) = tick w"
  "mq (insert_row dt r w) = mq w" "queue (insert_row dt r w) = queue w"
  "next_id (store (insert_row dt r w)) = next_id (store w) + 1"
  by (simp_all add: insert_row_def)

lemma gorm_Updates_Ok_iff:
  "mysql_ok svc uniq \<Longrightarrow>
   gorm_Updates svc db t p f w = (Ok n, w') \<longleftrightarrow>
     svc_fault svc (tick w) = NoFault \<and>
     n = length (filter (\<lambda>r. p r \<and> f r \<noteq> r) (tbls (store w) (db, t))) \<and>
     w' = update_rows (db, t) p f (bump w)"
  by (auto simp: gorm_Updates_def sql_def sql_run_def remote_def mysql_ok_def bindE_def Let_def
      update_rows_def split: fault.splits)

lemma gorm_Create_Ok_iff:
  "mysql_ok svc uniq \<Longrightarrow>
   gorm_Create svc db t r w = (Ok r', w') \<longleftrightarrow>
     svc_fault svc (tick w) = NoFault \<and> \<not> (\<exists>x \<in> set (tbls (store w) (db, t)). uniq t x r) \<and>
     r' = with_id (next_id (store w)) r \<and> w' = insert_row (db, t) r' (bump w)"
  by (auto simp: gorm_Create_def sql_def sql_run_def remote_def mysql_ok_def bindE_def Let_def
      insert_row_def split: fault.splits if_splits)

lemma gorm_Create_duplicate:
  "mysql_ok svc uniq \<Longrightarrow> svc_fault svc (tick w) = NoFault \<Longrightarrow>
   x \<in> set (tbls (store w) (db, t)) \<Longrightarrow> uniq t x r \<Longrightarrow>
   gorm_Create svc db t r w = (Err MySQLDuplicateEntry, bump w)"
  by (auto simp: gorm_Create_def sql_def sql_run_def remote_def mysql_ok_def bindE_def)

lemmas gorm_Ok_iffs =
  gorm_First_Ok_iff gorm_Find_Ok_iff gorm_FindBy_Ok_iff gorm_Updates_Ok_iff gorm_Create_Ok_iff

subsection \<open>Redis commands under the documented behaviour\<close>

definition set_keys :: "keyspace \<Rightarrow> world \<Rightarrow> world" where
  "set_keys ks w = w\<lparr>rkeys := ks\<rparr>"

lemma set_keys_simps [simp]:
  "rkeys (set_keys ks w) = ks" "store (set_keys ks w) = store w" "mq (set_keys ks w) = mq w"
  "queue (set_keys ks w) = queue w" "tick (set_keys ks w) = tick w"
  "metrics (set_keys ks w) = metrics w"
  by (simp_all add: set_keys_def)

lemma redis_served:
  assumes "redis_ok svc" and "svc_fault svc (tick w) = NoFault"
  shows "redis svc c w =
     (case redis_step (svc_rtime svc (Suc (tick w))) c (live (svc_rtime svc (Suc (tick w))) (rkeys w)) of
        (RErr e, ks) \<Rightarrow> (Err e, set_keys ks (bump w))
      | (r, ks) \<Rightarrow> (Ok r, set_keys ks (bump w)))"
  using assms
  by (simp add: redis_def server_call_def remote_def redis_ok_def redis_doc_def Let_def set_keys_def
      split: rreply.splits prod.splits)

lemma rcall_doc:
  "redis_ok svc \<Longrightarrow>
   rcall svc t c ks =
     (case redis_step t c (live t ks) of (RErr e, ks') \<Rightarrow> (Err e, ks') | (r, ks') \<Rightarrow> (Ok r, ks'))"
  by (simp add: rcall_def redis_ok_def redis_doc_def)

lemma redis_eval_served:
  "svc_fault svc (tick w) = NoFault \<Longrightarrow>
   redis_eval svc scr w =
     (let (r, ks) = scr (rcall svc (svc_rtime svc (Suc (tick w)))) (rkeys w)
      in (r, set_keys ks (bump w)))"
  by (simp add: redis_eval_def run_script_def remote_def set_keys_def)

subsection \<open>What the calls leave alone\<close>

abbreviation tables :: "world \<Rightarrow> string \<times> string \<Rightarrow> row list" where
  "tables w \<equiv> tbls (store w)"

lemma keeps_remote: "(\<And>w. obs (bump w) = obs w) \<Longrightarrow> keeps obs m \<Longrightarrow> keeps obs (remote svc m)"
  by (auto simp: keeps_def remote_def split: fault.split)

lemma keeps_now: "(\<And>w. obs (bump w) = obs w) \<Longrightarrow> keeps obs (now svc)"
  by (simp add: keeps_def)

lemma tables_now [keeps_rules]: "keeps tables (now svc)" "keeps rkeys (now svc)"
  by (simp_all add: keeps_now)

lemma tables_metric [keeps_rules]: "keeps tables (metric ls)" "keeps rkeys (metric ls)"
  by (simp_all add: keeps_def)

lemma tables_server_call [keeps_rules]: "keeps tables (server_call svc c)"
  by (auto simp: keeps_def server_call_def Let_def split: prod.split rreply.split)

lemma tables_redis [keeps_rules]: "keeps tables (redis svc c)"
  unfolding redis_def by (intro keeps_remote keeps_rules) simp

lemma tables_redis_eval [keeps_rules]: "keeps tables (redis_eval svc scr)"
  unfolding redis_eval_def
  by (rule keeps_remote) (auto simp: keeps_def run_script_def Let_def split: prod.split)

lemma rkeys_sql: "keeps rkeys (sql svc db s)"
  unfolding sql_def
  by (rule keeps_remote) (auto simp: keeps_def sql_run_def Let_def split: prod.split sreply.split)

lemma rkeys_gorm [keeps_rules]:
  "keeps rkeys (gorm_First svc db t p)" "keeps rkeys (gorm_Find svc db t p)"
  "keeps rkeys (gorm_FindBy svc db t p key n)" "keeps rkeys (gorm_Updates svc db t p f)"
  "keeps rkeys (gorm_Create svc db t r)"
  unfolding gorm_First_def gorm_Find_def gorm_FindBy_def gorm_Updates_def gorm_Create_def
  by (auto intro!: keeps_bindE rkeys_sql keeps_ret keeps_fail split: sreply.split)

lemma rkeys_transaction [keeps_rules]: "keeps rkeys body \<Longrightarrow> keeps rkeys (transaction svc body)"
  by (auto simp: keeps_def transaction_def split: prod.split res.split fault.split) (metis snd_conv)+

text \<open>Queries do not write.\<close>

lemma tables_gorm_query:
  assumes "mysql_ok svc uniq"
  shows "keeps tables (gorm_First svc db t p)" "keeps tables (gorm_Find svc db t p)"
    "keeps tables (gorm_FindBy svc db t p key n)"
  using assms
  by (auto simp: keeps_def gorm_First_def gorm_Find_def gorm_FindBy_def sql_def sql_run_def remote_def
      mysql_ok_def bindE_def split: fault.split option.split)

section \<open>A concrete instance\<close>

text \<open>
  Services that behave as documented and never fail, for evaluating the operations on concrete
  inputs. \<open>single_codec\<close> encodes one value.
\<close>

definition single_codec :: "'a \<Rightarrow> 'a \<Rightarrow> 'a codec" where
  "single_codec v z =
     \<lparr>enc = \<lambda>x. if x = v then Ok ''{}'' else Err (GoErr ''json: unsupported value''),
      dec = \<lambda>b. if b = ''{}'' then Ok v else if b = ''null'' then Ok z
                else Err (GoErr ''json: invalid character''),
      zero = z\<rparr>"

lemma codec_ok_single: "codec_ok (single_codec v z)"
  by (auto simp: codec_ok_def single_codec_def split: if_splits)

lemma FormatInt_not_null: "FormatInt n \<noteq> ''null''"
  using FormatInt_chars [of "CHR ''n''" n] by (auto simp: digit_val_def)

lemma codec_ok_int: "codec_ok int_codec"
  by (auto simp: codec_ok_def int_codec_def FormatInt_not_null split: if_splits option.splits)

definition sample_svc :: "(string \<Rightarrow> row \<Rightarrow> row \<Rightarrow> bool) \<Rightarrow> services" where
  "sample_svc uniq =
     \<lparr>svc_fault = \<lambda>_. NoFault, svc_clock = \<lambda>_. 1700000000 * second, svc_zone = 0, svc_depth = 2,
      svc_rtime = \<lambda>_. 1700000000 * second, svc_rcall = redis_doc,
      svc_lua_le0 = \<lambda>s. map_option (\<lambda>n. n \<le> 0) (redis_int s),
      svc_sql = sql_doc uniq, svc_secure_int = \<lambda>_ m. Ok 0, svc_int63n = \<lambda>_ m. 7,
      svc_read_id = \<lambda>_. Some ''0011223344'', svc_shuffle = \<lambda>_ i. i, svc_tbcount = 4, svc_dbcount = 2,
      svc_delete_queue = \<lambda>q ts. (Ok (), filter (\<lambda>(_, _, q', _). q' \<noteq> q) ts),
      js_Activity = single_codec zero_Activity zero_Activity,
      js_ActivityAccount = single_codec zero_ActivityAccount zero_ActivityAccount,
      js_ActivitySku = single_codec zero_ActivitySku zero_ActivitySku,
      js_ActivityCount = single_codec zero_ActivityCount zero_ActivityCount,
      js_UserRaffleOrder = single_codec zero_UserRaffleOrder zero_UserRaffleOrder,
      js_ActivityResult =
        single_codec \<lparr>res_UserID = '''', res_Status = 0, res_Result = '''', res_Timestamp = 0\<rparr>
          \<lparr>res_UserID = '''', res_Status = 0, res_Result = '''', res_Timestamp = 0\<rparr>,
      js_SkuStockKey = single_codec \<lparr>ssk_Sku = 0, ssk_ActivityID = 0\<rparr> \<lparr>ssk_Sku = 0, ssk_ActivityID = 0\<rparr>,
      js_SaveOrder = single_codec \<lparr>so_UserID = '''', so_OrderID = ''''\<rparr> \<lparr>so_UserID = '''', so_OrderID = ''''\<rparr>,
      js_SendAward =
        single_codec \<lparr>sm_UserID = '''', sm_AwardID = 0, sm_AwardTitle = ''''\<rparr>
          \<lparr>sm_UserID = '''', sm_AwardID = 0, sm_AwardTitle = ''''\<rparr>,
      js_Rebate =
        single_codec
          \<lparr>rm_UserID = '''', rm_RebateDesc = '''', rm_RebateType = '''', rm_RebateConfig = '''', rm_BizID = ''''\<rparr>
          \<lparr>rm_UserID = '''', rm_RebateDesc = '''', rm_RebateType = '''', rm_RebateConfig = '''', rm_BizID = ''''\<rparr>,
      js_StockConsume =
        single_codec \<lparr>asm_StrategyID = 0, asm_AwardID = 0\<rparr> \<lparr>asm_StrategyID = 0, asm_AwardID = 0\<rparr>,
      js_Strategy =
        single_codec \<lparr>st_StrategyID = 0, st_StrategyDesc = '''', st_RuleModels = ''''\<rparr>
          \<lparr>st_StrategyID = 0, st_StrategyDesc = '''', st_RuleModels = ''''\<rparr>,
      js_StrategyAward =
        single_codec
          \<lparr>sa_StrategyID = 0, sa_AwardID = 0, sa_AwardTitle = '''', sa_AwardSubtitle = '''', sa_AwardCount = 0,
           sa_AwardCountSurplus = 0, sa_AwardRate = Fin 0, sa_Sort = 0, sa_RuleModels = ''''\<rparr>
          \<lparr>sa_StrategyID = 0, sa_AwardID = 0, sa_AwardTitle = '''', sa_AwardSubtitle = '''', sa_AwardCount = 0,
           sa_AwardCountSurplus = 0, sa_AwardRate = Fin 0, sa_Sort = 0, sa_RuleModels = ''''\<rparr>,
      js_StrategyAwards = single_codec [] [],
      js_RuleTree =
        single_codec
          \<lparr>rt_TreeID = '''', rt_TreeName = '''', rt_TreeDesc = '''', rt_TreeRootRuleNode = '''', rt_NodeMap = Map.empty\<rparr>
          \<lparr>rt_TreeID = '''', rt_TreeName = '''', rt_TreeDesc = '''', rt_TreeRootRuleNode = '''', rt_NodeMap = Map.empty\<rparr>,
      js_WeightBuckets = single_codec [] [],
      js_RaffleActivity =
        single_codec
          \<lparr>ra_ID = 0, ra_ActivityID = 0, ra_ActivityName = '''', ra_ActivityDesc = '''', ra_BeginDateTime = 0,
           ra_EndDateTime = 0, ra_StrategyID = 0, ra_State = '''', ra_CreateTime = 0, ra_UpdateTime = 0\<rparr>
          \<lparr>ra_ID = 0, ra_ActivityID = 0, ra_ActivityName = '''', ra_ActivityDesc = '''', ra_BeginDateTime = 0,
           ra_EndDateTime = 0, ra_StrategyID = 0, ra_State = '''', ra_CreateTime = 0, ra_UpdateTime = 0\<rparr>,
      js_string = single_codec '''' '''',
      js_Partake = single_codec zero_CreatePartakeOrder zero_CreatePartakeOrder,
      js_Any = single_codec (JObject []) JNull,
      js_Event = \<lambda>_. Ok ''{}'',
      js_Event_dec = \<lambda>_. Err (GoErr ''json: invalid character''),
      js_RebateEvent_dec = \<lambda>_. Err (GoErr ''json: invalid character'')\<rparr>"

definition empty_store :: store where
  "empty_store = \<lparr>tbls = \<lambda>_. [], next_id = 1\<rparr>"

definition empty_world :: world where
  "empty_world =
     \<lparr>rkeys = Map.empty, store = empty_store, mq = [], declared = {}, queue = [], tick = 0,
      metrics = [], lcache = Map.empty, hits = 0, misses = 0\<rparr>"

lemma redis_ok_sample [simp]: "redis_ok (sample_svc uniq)"
  by (simp add: redis_ok_def sample_svc_def)

lemma mysql_ok_sample [simp]: "mysql_ok (sample_svc uniq) uniq"
  by (simp add: mysql_ok_def sample_svc_def)

lemma faults_ok_sample [simp]: "faults_ok (sample_svc uniq)"
  by (simp add: faults_ok_def sample_svc_def fault_error_def)

lemma no_faults_sample [simp]: "svc_fault (sample_svc uniq) n = NoFault"
  by (simp add: sample_svc_def)

lemma sample_svc_simps [simp]:
  "svc_depth (sample_svc uniq) = 2" "svc_zone (sample_svc uniq) = 0"
  "svc_rtime (sample_svc uniq) n = 1700000000 * second"
  "svc_clock (sample_svc uniq) n = 1700000000 * second"
  by (simp_all add: sample_svc_def)

lemma empty_world_simps [simp]:
  "rkeys empty_world = Map.empty" "store empty_world = empty_store" "mq empty_world = []"
  "queue empty_world = []" "tick empty_world = 0" "metrics empty_world = []"
  "tbls empty_store dt = []" "next_id empty_store = 1"
  by (simp_all add: empty_world_def empty_store_def)

text \<open>Statements of the concrete instance as equations.\<close>

lemma sample_First [simp]:
  "gorm_First (sample_svc uniq) db t p w =
     (case find p (tbls (store w) (db, t)) of None \<Rightarrow> (Err GormRecordNotFound, bump w) | Some r \<Rightarrow> (Ok r, bump w))"
  by (simp add: gorm_First_not_found [OF mysql_ok_sample] gorm_First_found [OF mysql_ok_sample]
      split: option.split)

lemma sample_Updates [simp]:
  "gorm_Updates (sample_svc uniq) db t p f w =
     (Ok (length (filter (\<lambda>r. p r \<and> f r \<noteq> r) (tbls (store w) (db, t)))), update_rows (db, t) p f (bump w))"
  by (simp add: gorm_Updates_Ok_iff [OF mysql_ok_sample])

lemma sample_Create [simp]:
  "\<not> (\<exists>x \<in> set (tbls (store w) (db, t)). uniq t x r) \<Longrightarrow>
   gorm_Create (sample_svc uniq) db t r w =
     (Ok (with_id (next_id (store w)) r), insert_row (db, t) (with_id (next_id (store w)) r) (bump w))"
  by (simp add: gorm_Create_Ok_iff [OF mysql_ok_sample])

lemma sample_transaction:
  "transaction (sample_svc uniq) body w =
     (case body w of
        (Ok x, w') \<Rightarrow> (Ok x, bump w') | (Err e, w') \<Rightarrow> (Err e, rollback w w') | (Panic s, w') \<Rightarrow> (Panic s, rollback w w'))"
  by (simp add: transaction_def split: prod.split res.split)

text \<open>The same for any services that behave as documented and never fail.\<close>

lemma served:
  assumes "mysql_ok svc uniq" and "no_faults svc"
  shows served_First: "gorm_First svc db t p w =
      (case find p (tbls (store w) (db, t)) of None \<Rightarrow> (Err GormRecordNotFound, bump w) | Some r \<Rightarrow> (Ok r, bump w))"
    and served_Find: "gorm_Find svc db t p w = (Ok (filter p (tbls (store w) (db, t))), bump w)"
    and served_FindBy: "gorm_FindBy svc db t p key n w =
      (Ok (take n (sort_key key (filter p (tbls (store w) (db, t))))), bump w)"
    and served_Updates: "gorm_Updates svc db t p f w =
      (Ok (length (filter (\<lambda>r. p r \<and> f r \<noteq> r) (tbls (store w) (db, t)))), update_rows (db, t) p f (bump w))"
    and served_Create: "gorm_Create svc db t row w =
      (if \<exists>x \<in> set (tbls (store w) (db, t)). uniq t x row then (Err MySQLDuplicateEntry, bump w)
       else (Ok (with_id (next_id (store w)) row), insert_row (db, t) (with_id (next_id (store w)) row) (bump w)))"
    and served_transaction: "transaction svc body w =
      (case body w of
         (Ok x, w') \<Rightarrow> (Ok x, bump w') | (Err e, w') \<Rightarrow> (Err e, rollback w w') | (Panic s, w') \<Rightarrow> (Panic s, rollback w w'))"
proof -
  have n: "svc_fault svc k = NoFault" for k using assms(2) by (simp add: no_faults_def)
  show "gorm_First svc db t p w =
      (case find p (tbls (store w) (db, t)) of None \<Rightarrow> (Err GormRecordNotFound, bump w) | Some r \<Rightarrow> (Ok r, bump w))"
    by (simp add: gorm_First_not_found [OF assms(1)] gorm_First_found [OF assms(1)] n split: option.split)
  show "gorm_Find svc db t p w = (Ok (filter p (tbls (store w) (db, t))), bump w)"
    by (simp add: gorm_Find_Ok_iff [OF assms(1)] n)
  show "gorm_FindBy svc db t p key n w = (Ok (take n (sort_key key (filter p (tbls (store w) (db, t))))), bump w)"
    for n by (simp add: gorm_FindBy_Ok_iff [OF assms(1)] n)
  show "gorm_Updates svc db t p f w =
      (Ok (length (filter (\<lambda>r. p r \<and> f r \<noteq> r) (tbls (store w) (db, t)))), update_rows (db, t) p f (bump w))"
    by (simp add: gorm_Updates_Ok_iff [OF assms(1)] n)
  show "gorm_Create svc db t row w =
      (if \<exists>x \<in> set (tbls (store w) (db, t)). uniq t x row then (Err MySQLDuplicateEntry, bump w)
       else (Ok (with_id (next_id (store w)) row), insert_row (db, t) (with_id (next_id (store w)) row) (bump w)))"
    using gorm_Create_duplicate [OF assms(1) n, of _ w db t row]
    by (auto simp: gorm_Create_Ok_iff [OF assms(1)] n)
  show "transaction svc body w =
      (case body w of
         (Ok x, w') \<Rightarrow> (Ok x, bump w') | (Err e, w') \<Rightarrow> (Err e, rollback w w') | (Panic s, w') \<Rightarrow> (Panic s, rollback w w'))"
    by (simp add: transaction_def n split: prod.split res.split)
qed

end
