(* ===== verification/Metrics.thy ===== *)
theory Metrics
  imports Services
begin

text \<open>
  \<open>internal/metrics\<close>: the Prometheus collectors of \<open>metrics.go\<close> with their registration at the start
  of the process, and the functions of \<open>business.go\<close> that feed them. The world keeps every call of a
  collector: its full name, the label values and, for a histogram or a gauge, the value. What the
  library demands of a call is that it passes as many label values as the collector declares; a call
  that does not panics. That is shown of every function of \<open>business.go\<close>. Durations are recorded in
  nanoseconds, before their conversion to seconds.
\<close>

section \<open>Collectors\<close>

text \<open>The three constructors of the library the file uses; every histogram has the default buckets.\<close>

datatype collector_kind = CounterVec | HistogramVec | GaugeVec

record collector =
  co_kind :: collector_kind
  co_Namespace :: string
  co_Subsystem :: string
  co_Name :: string
  co_Help :: string
  co_labels :: "string list"

definition HTTPRequestsTotal :: collector where
  "HTTPRequestsTotal =
     \<lparr>co_kind = CounterVec, co_Namespace = ''bigmarket'', co_Subsystem = ''http'', co_Name = ''requests_total'',
      co_Help = ''Total number of HTTP requests.'',
      co_labels = [''method'', ''path'', ''code'']\<rparr>"

definition HTTPRequestDuration :: collector where
  "HTTPRequestDuration =
     \<lparr>co_kind = HistogramVec, co_Namespace = ''bigmarket'', co_Subsystem = ''http'', co_Name = ''request_duration_seconds'',
      co_Help = ''HTTP request latency.'',
      co_labels = [''method'', ''path'']\<rparr>"

definition ActivityQuotaTotal :: collector where
  "ActivityQuotaTotal =
     \<lparr>co_kind = CounterVec, co_Namespace = ''bigmarket'', co_Subsystem = ''activity'', co_Name = ''quota_total'',
      co_Help = ''Total activity quota check results.'',
      co_labels = [''activity_id'', ''result'']\<rparr>"

definition RaffleTotal :: collector where
  "RaffleTotal =
     \<lparr>co_kind = CounterVec, co_Namespace = ''bigmarket'', co_Subsystem = ''raffle'', co_Name = ''total'',
      co_Help = ''Total raffle attempts.'',
      co_labels = [''activity_id'', ''strategy_id'', ''result'']\<rparr>"

definition RaffleDuration :: collector where
  "RaffleDuration =
     \<lparr>co_kind = HistogramVec, co_Namespace = ''bigmarket'', co_Subsystem = ''raffle'', co_Name = ''duration_seconds'',
      co_Help = ''Raffle execution latency.'',
      co_labels = [''activity_id'', ''strategy_id'']\<rparr>"

definition AwardTotal :: collector where
  "AwardTotal =
     \<lparr>co_kind = CounterVec, co_Namespace = ''bigmarket'', co_Subsystem = ''award'', co_Name = ''total'',
      co_Help = ''Total award dispatch results.'',
      co_labels = [''award_id'', ''result'']\<rparr>"

definition StockConsumeTotal :: collector where
  "StockConsumeTotal =
     \<lparr>co_kind = CounterVec, co_Namespace = ''bigmarket'', co_Subsystem = ''stock'', co_Name = ''consume_total'',
      co_Help = ''Stock consume results.'',
      co_labels = [''activity_id'', ''sku_id'', ''result'']\<rparr>"

definition RabbitMQPublishTotal :: collector where
  "RabbitMQPublishTotal =
     \<lparr>co_kind = CounterVec, co_Namespace = ''bigmarket'', co_Subsystem = ''rabbitmq'', co_Name = ''publish_total'',
      co_Help = ''Total RabbitMQ publish results.'',
      co_labels = [''topic'', ''result'']\<rparr>"

definition RedisOpsTotal :: collector where
  "RedisOpsTotal =
     \<lparr>co_kind = CounterVec, co_Namespace = ''bigmarket'', co_Subsystem = ''redis'', co_Name = ''ops_total'',
      co_Help = ''Total Redis operations.'',
      co_labels = [''cmd'', ''result'']\<rparr>"

definition RedisOpDuration :: collector where
  "RedisOpDuration =
     \<lparr>co_kind = HistogramVec, co_Namespace = ''bigmarket'', co_Subsystem = ''redis'', co_Name = ''op_duration_seconds'',
      co_Help = ''Redis operation latency.'',
      co_labels = [''cmd'']\<rparr>"

definition AsynqTaskTotal :: collector where
  "AsynqTaskTotal =
     \<lparr>co_kind = CounterVec, co_Namespace = ''bigmarket'', co_Subsystem = ''asynq'', co_Name = ''task_total'',
      co_Help = ''Total Asynq task execution results.'',
      co_labels = [''task_type'', ''result'']\<rparr>"

definition AsynqTaskDuration :: collector where
  "AsynqTaskDuration =
     \<lparr>co_kind = HistogramVec, co_Namespace = ''bigmarket'', co_Subsystem = ''asynq'', co_Name = ''task_duration_seconds'',
      co_Help = ''Asynq task execution latency.'',
      co_labels = [''task_type'']\<rparr>"

definition AsynqQueueSize :: collector where
  "AsynqQueueSize =
     \<lparr>co_kind = GaugeVec, co_Namespace = ''bigmarket'', co_Subsystem = ''asynq'', co_Name = ''queue_size'',
      co_Help = ''Current total Asynq queue size.'',
      co_labels = [''queue'']\<rparr>"

definition AsynqRetrySize :: collector where
  "AsynqRetrySize =
     \<lparr>co_kind = GaugeVec, co_Namespace = ''bigmarket'', co_Subsystem = ''asynq'', co_Name = ''retry_size'',
      co_Help = ''Current Asynq retry queue size.'',
      co_labels = [''queue'']\<rparr>"

definition AsynqScheduledSize :: collector where
  "AsynqScheduledSize =
     \<lparr>co_kind = GaugeVec, co_Namespace = ''bigmarket'', co_Subsystem = ''asynq'', co_Name = ''scheduled_size'',
      co_Help = ''Current Asynq scheduled queue size.'',
      co_labels = [''queue'']\<rparr>"

definition MySQLOpenConnections :: collector where
  "MySQLOpenConnections =
     \<lparr>co_kind = GaugeVec, co_Namespace = ''bigmarket'', co_Subsystem = ''mysql'', co_Name = ''open_connections'',
      co_Help = ''Current number of open MySQL connections.'',
      co_labels = [''db_name'', ''role'']\<rparr>"

definition MySQLInUse :: collector where
  "MySQLInUse =
     \<lparr>co_kind = GaugeVec, co_Namespace = ''bigmarket'', co_Subsystem = ''mysql'', co_Name = ''in_use'',
      co_Help = ''Current number of in-use MySQL connections.'',
      co_labels = [''db_name'', ''role'']\<rparr>"

definition MySQLIdle :: collector where
  "MySQLIdle =
     \<lparr>co_kind = GaugeVec, co_Namespace = ''bigmarket'', co_Subsystem = ''mysql'', co_Name = ''idle'',
      co_Help = ''Current number of idle MySQL connections.'',
      co_labels = [''db_name'', ''role'']\<rparr>"

definition MySQLWaitCount :: collector where
  "MySQLWaitCount =
     \<lparr>co_kind = GaugeVec, co_Namespace = ''bigmarket'', co_Subsystem = ''mysql'', co_Name = ''wait_count'',
      co_Help = ''Current sampled MySQL wait count.'',
      co_labels = [''db_name'', ''role'']\<rparr>"

definition MySQLWaitDurationSeconds :: collector where
  "MySQLWaitDurationSeconds =
     \<lparr>co_kind = GaugeVec, co_Namespace = ''bigmarket'', co_Subsystem = ''mysql'', co_Name = ''wait_duration_seconds'',
      co_Help = ''Current sampled MySQL wait duration in seconds.'',
      co_labels = [''db_name'', ''role'']\<rparr>"

definition MySQLMaxIdleClosedTotal :: collector where
  "MySQLMaxIdleClosedTotal =
     \<lparr>co_kind = GaugeVec, co_Namespace = ''bigmarket'', co_Subsystem = ''mysql'', co_Name = ''max_idle_closed_total'',
      co_Help = ''Current sampled MySQL max idle closed total.'',
      co_labels = [''db_name'', ''role'']\<rparr>"

definition MySQLMaxLifetimeClosedTotal :: collector where
  "MySQLMaxLifetimeClosedTotal =
     \<lparr>co_kind = GaugeVec, co_Namespace = ''bigmarket'', co_Subsystem = ''mysql'', co_Name = ''max_lifetime_closed_total'',
      co_Help = ''Current sampled MySQL max lifetime closed total.'',
      co_labels = [''db_name'', ''role'']\<rparr>"

text \<open>The full name of a collector, its three parts joined by underscores.\<close>

definition fqName :: "collector \<Rightarrow> string" where
  "fqName c = co_Namespace c @ ''_'' @ co_Subsystem c @ ''_'' @ co_Name c"

section \<open>Registration\<close>

text \<open>
  \<open>register\<close> is the library's \<open>Register\<close>: given the collectors that are registered already, an error
  or nil. \<open>MustRegister\<close> panics at the first error.
\<close>

fun MustRegister ::
  "(collector list \<Rightarrow> collector \<Rightarrow> gerr option) \<Rightarrow> collector list \<Rightarrow> collector list \<Rightarrow> collector list res" where
  "MustRegister register registered [] = Ok registered"
| "MustRegister register registered (c # cs) =
     (case register registered c of
        Some e \<Rightarrow> Panic ''MustRegister''
      | None \<Rightarrow> MustRegister register (registered @ [c]) cs)"

definition metrics_init :: "(collector list \<Rightarrow> collector \<Rightarrow> gerr option) \<Rightarrow> collector list res" where
  "metrics_init register = MustRegister register []
     [HTTPRequestsTotal, HTTPRequestDuration, ActivityQuotaTotal, RaffleTotal,
      RaffleDuration, AwardTotal, StockConsumeTotal, RabbitMQPublishTotal,
      RedisOpsTotal, RedisOpDuration, AsynqTaskTotal, AsynqTaskDuration,
      AsynqQueueSize, AsynqRetrySize, AsynqScheduledSize, MySQLOpenConnections,
      MySQLInUse, MySQLIdle, MySQLWaitCount, MySQLWaitDurationSeconds,
      MySQLMaxIdleClosedTotal, MySQLMaxLifetimeClosedTotal]"

text \<open>
  What the library documents of \<open>Register\<close>: a collector is accepted if its full name is new, its
  name and labels are legal (letters, digits and underscores, no digit in front; a label does not
  begin with two underscores) and its labels are distinct.
\<close>

definition name_char :: "char \<Rightarrow> bool" where
  "name_char c \<longleftrightarrow> (let n = of_char c :: nat
     in 97 \<le> n \<and> n \<le> 122 \<or> 65 \<le> n \<and> n \<le> 90 \<or> 48 \<le> n \<and> n \<le> 57 \<or> n = 95)"

definition legal_name :: "string \<Rightarrow> bool" where
  "legal_name s \<longleftrightarrow> s \<noteq> '''' \<and> list_all name_char s \<and> (let n = of_char (hd s) :: nat in \<not> (48 \<le> n \<and> n \<le> 57))"

definition legal_collector :: "collector \<Rightarrow> bool" where
  "legal_collector c \<longleftrightarrow>
     legal_name (fqName c) \<and> distinct (co_labels c) \<and>
     list_all (\<lambda>l. legal_name l \<and> \<not> has_prefix ''__'' l) (co_labels c)"

definition prometheus_ok :: "(collector list \<Rightarrow> collector \<Rightarrow> gerr option) \<Rightarrow> bool" where
  "prometheus_ok register \<longleftrightarrow>
     (\<forall>registered c. legal_collector c \<longrightarrow> fqName c \<notin> fqName ` set registered \<longrightarrow> register registered c = None)"

section \<open>Calls\<close>

text \<open>\<open>WithLabelValues(...).Inc()\<close>, \<open>.Observe(v)\<close> and \<open>.Set(v)\<close>.\<close>

definition Inc :: "collector \<Rightarrow> string list \<Rightarrow> unit M" where
  "Inc c vs = metric (fqName c # vs)"

definition Observe :: "collector \<Rightarrow> string list \<Rightarrow> int \<Rightarrow> unit M" where
  "Observe c vs v = metric (fqName c # vs @ [FormatInt v])"

definition SetGauge :: "collector \<Rightarrow> string list \<Rightarrow> int \<Rightarrow> unit M" where
  "SetGauge c vs v = metric (fqName c # vs @ [FormatInt v])"

text \<open>A recorded call has the labels its collector declares.\<close>

definition typed_call :: "collector \<Rightarrow> string list \<Rightarrow> bool" where
  "typed_call c call \<longleftrightarrow>
     (case call of
        [] \<Rightarrow> False
      | n # vs \<Rightarrow> n = fqName c \<and> length vs = length (co_labels c) + (if co_kind c = CounterVec then 0 else 1))"

definition int64Label :: "int \<Rightarrow> string" where
  "int64Label v = (if v \<le> 0 then ''unknown'' else FormatInt v)"

definition intLabel :: "int \<Rightarrow> string" where
  "intLabel v = (if v \<le> 0 then ''unknown'' else FormatInt v)"

definition normalizeLabel :: "string \<Rightarrow> string" where
  "normalizeLabel v = (if v = '''' then ''unknown'' else v)"

definition IncActivityQuota :: "int \<Rightarrow> string \<Rightarrow> unit M" where
  "IncActivityQuota aid result = Inc ActivityQuotaTotal [int64Label aid, normalizeLabel result]"

definition IncRaffle :: "int \<Rightarrow> int \<Rightarrow> string \<Rightarrow> unit M" where
  "IncRaffle aid sid result = Inc RaffleTotal [int64Label aid, int64Label sid, normalizeLabel result]"

definition ObserveRaffleDuration :: "int \<Rightarrow> int \<Rightarrow> int \<Rightarrow> unit M" where
  "ObserveRaffleDuration aid sid d = Observe RaffleDuration [int64Label aid, int64Label sid] d"

definition IncStockConsume :: "int \<Rightarrow> int \<Rightarrow> string \<Rightarrow> unit M" where
  "IncStockConsume aid sku result = Inc StockConsumeTotal [int64Label aid, int64Label sku, normalizeLabel result]"

definition IncAward :: "int \<Rightarrow> string \<Rightarrow> unit M" where
  "IncAward aid result = Inc AwardTotal [intLabel aid, normalizeLabel result]"

definition IncRabbitMQPublish :: "string \<Rightarrow> string \<Rightarrow> unit M" where
  "IncRabbitMQPublish topic result = Inc RabbitMQPublishTotal [normalizeLabel topic, normalizeLabel result]"

definition IncRedisOp :: "string \<Rightarrow> string \<Rightarrow> unit M" where
  "IncRedisOp cmd result = Inc RedisOpsTotal [normalizeLabel cmd, normalizeLabel result]"

definition ObserveRedisOpDuration :: "string \<Rightarrow> int \<Rightarrow> unit M" where
  "ObserveRedisOpDuration cmd d = Observe RedisOpDuration [normalizeLabel cmd] d"

definition IncAsynqTask :: "string \<Rightarrow> string \<Rightarrow> unit M" where
  "IncAsynqTask taskType result = Inc AsynqTaskTotal [normalizeLabel taskType, normalizeLabel result]"

definition ObserveAsynqTaskDuration :: "string \<Rightarrow> int \<Rightarrow> unit M" where
  "ObserveAsynqTaskDuration taskType d = Observe AsynqTaskDuration [normalizeLabel taskType] d"

definition SetAsynqQueueStats :: "string \<Rightarrow> int \<Rightarrow> int \<Rightarrow> int \<Rightarrow> unit M" where
  "SetAsynqQueueStats queue0 size0 retry scheduled =
     (let q = normalizeLabel queue0
      in bindE (SetGauge AsynqQueueSize [q] size0) (\<lambda>_.
         bindE (SetGauge AsynqRetrySize [q] retry) (\<lambda>_.
         SetGauge AsynqScheduledSize [q] scheduled)))"

record DBStats =
  st_OpenConnections :: int
  st_InUse :: int
  st_Idle :: int
  st_WaitCount :: int
  st_WaitDuration :: int
  st_MaxIdleClosed :: int
  st_MaxLifetimeClosed :: int

definition SetMySQLStats :: "string \<Rightarrow> string \<Rightarrow> DBStats \<Rightarrow> unit M" where
  "SetMySQLStats dbName0 role0 stats =
     (let dbName = normalizeLabel dbName0; role = normalizeLabel role0
      in bindE (SetGauge MySQLOpenConnections [dbName, role] (st_OpenConnections stats)) (\<lambda>_.
         bindE (SetGauge MySQLInUse [dbName, role] (st_InUse stats)) (\<lambda>_.
         bindE (SetGauge MySQLIdle [dbName, role] (st_Idle stats)) (\<lambda>_.
         bindE (SetGauge MySQLWaitCount [dbName, role] (st_WaitCount stats)) (\<lambda>_.
         bindE (SetGauge MySQLWaitDurationSeconds [dbName, role] (st_WaitDuration stats)) (\<lambda>_.
         bindE (SetGauge MySQLMaxIdleClosedTotal [dbName, role] (st_MaxIdleClosed stats)) (\<lambda>_.
         SetGauge MySQLMaxLifetimeClosedTotal [dbName, role] (st_MaxLifetimeClosed stats))))))))"

lemma collector_calls [simp]:
  "Inc c vs = metric (fqName c # vs)"
  "Observe c vs v = metric (fqName c # vs @ [FormatInt v])"
  "SetGauge c vs v = metric (fqName c # vs @ [FormatInt v])"
  by (simp_all add: Inc_def Observe_def SetGauge_def)

lemmas metric_defs =
  IncActivityQuota_def IncRaffle_def ObserveRaffleDuration_def IncStockConsume_def IncAward_def
  IncRabbitMQPublish_def

lemmas all_metric_defs =
  metric_defs IncRedisOp_def ObserveRedisOpDuration_def IncAsynqTask_def ObserveAsynqTaskDuration_def
  SetAsynqQueueStats_def SetMySQLStats_def

section \<open>Every call is well typed\<close>

lemmas collector_defs =
  HTTPRequestsTotal_def HTTPRequestDuration_def ActivityQuotaTotal_def RaffleTotal_def
  RaffleDuration_def AwardTotal_def StockConsumeTotal_def RabbitMQPublishTotal_def
  RedisOpsTotal_def RedisOpDuration_def AsynqTaskTotal_def AsynqTaskDuration_def
  AsynqQueueSize_def AsynqRetrySize_def AsynqScheduledSize_def MySQLOpenConnections_def
  MySQLInUse_def MySQLIdle_def MySQLWaitCount_def MySQLWaitDurationSeconds_def
  MySQLMaxIdleClosedTotal_def MySQLMaxLifetimeClosedTotal_def

definition all_collectors :: "collector list" where
  "all_collectors =
     [HTTPRequestsTotal, HTTPRequestDuration, ActivityQuotaTotal, RaffleTotal,
      RaffleDuration, AwardTotal, StockConsumeTotal, RabbitMQPublishTotal,
      RedisOpsTotal, RedisOpDuration, AsynqTaskTotal, AsynqTaskDuration,
      AsynqQueueSize, AsynqRetrySize, AsynqScheduledSize, MySQLOpenConnections,
      MySQLInUse, MySQLIdle, MySQLWaitCount, MySQLWaitDurationSeconds,
      MySQLMaxIdleClosedTotal, MySQLMaxLifetimeClosedTotal]"

lemma all_collectors_legal: "list_all legal_collector all_collectors"
  by code_simp

lemma all_collectors_distinct: "distinct (map fqName all_collectors)"
  by code_simp

text \<open>Collectors with legal and pairwise different names are all accepted.\<close>

lemma MustRegister_all:
  assumes "prometheus_ok register" and "list_all legal_collector cs" and "distinct (map fqName (registered @ cs))"
  shows "MustRegister register registered cs = Ok (registered @ cs)"
  using assms(2,3)
proof (induction cs arbitrary: registered)
  case (Cons c cs)
  then have "register registered c = None"
    using assms(1) by (fastforce simp: prometheus_ok_def)
  with Cons.IH [of "registered @ [c]"] Cons.prems show ?case by simp
qed simp

lemma metrics_init_all: "prometheus_ok register \<Longrightarrow> metrics_init register = Ok all_collectors"
  using MustRegister_all [of register all_collectors "[]"] all_collectors_legal all_collectors_distinct
  by (simp add: metrics_init_def all_collectors_def)

text \<open>A computation that only calls collectors, each of them among \<open>cs\<close> and with its own labels.\<close>

definition calls_typed :: "collector list \<Rightarrow> unit M \<Rightarrow> bool" where
  "calls_typed cs m \<longleftrightarrow>
     (\<forall>w. \<exists>calls. m w = (Ok (), w\<lparr>metrics := metrics w @ calls\<rparr>) \<and>
        (\<forall>call \<in> set calls. \<exists>c \<in> set cs. typed_call c call))"

lemma calls_typed_metric: "c \<in> set cs \<Longrightarrow> typed_call c call \<Longrightarrow> calls_typed cs (metric call)"
  by (force simp: calls_typed_def)

lemma calls_typed_bindE:
  assumes "calls_typed cs m" and "calls_typed cs n"
  shows "calls_typed cs (bindE m (\<lambda>_. n))"
  unfolding calls_typed_def
proof
  fix w
  obtain k1 where k1: "m w = (Ok (), w\<lparr>metrics := metrics w @ k1\<rparr>)" "\<forall>k \<in> set k1. \<exists>c \<in> set cs. typed_call c k"
    using assms(1) unfolding calls_typed_def by blast
  obtain k2 where k2: "n (w\<lparr>metrics := metrics w @ k1\<rparr>) = (Ok (), w\<lparr>metrics := metrics w @ k1 @ k2\<rparr>)"
      "\<forall>k \<in> set k2. \<exists>c \<in> set cs. typed_call c k"
    using assms(2) [unfolded calls_typed_def, rule_format, of "w\<lparr>metrics := metrics w @ k1\<rparr>"] by auto
  show "\<exists>calls. bindE m (\<lambda>_. n) w = (Ok (), w\<lparr>metrics := metrics w @ calls\<rparr>) \<and>
      (\<forall>call \<in> set calls. \<exists>c \<in> set cs. typed_call c call)"
    using k1 k2 by (intro exI [of _ "k1 @ k2"]) (auto simp: bindE_def)
qed

lemma typed_call_own: "length call = length (co_labels c) + (if co_kind c = CounterVec then 0 else 1) \<Longrightarrow>
    c \<in> set cs \<Longrightarrow> calls_typed cs (metric (fqName c # call))"
  by (rule calls_typed_metric) (simp_all add: typed_call_def)

lemma calls_typed_ret: "calls_typed cs (ret ())"
  by (auto simp: calls_typed_def intro: exI [of _ "[]"])

lemma business_calls_typed:
  "list_all (calls_typed all_collectors)
         [IncActivityQuota aid result, IncRaffle aid sid result, ObserveRaffleDuration aid sid d,
          IncStockConsume aid sku result, IncAward aid result, IncRabbitMQPublish topic result,
          IncRedisOp cmd result, ObserveRedisOpDuration cmd d, IncAsynqTask task result,
          ObserveAsynqTaskDuration task d, SetAsynqQueueStats queue0 size0 retry scheduled,
          SetMySQLStats db role stats]"
  by (simp only: list.pred_inject all_metric_defs collector_calls Let_def append.simps HOL.simp_thms,
      intro conjI; intro calls_typed_bindE typed_call_own; simp add: all_collectors_def; simp add: collector_defs)

text \<open>The names of the database gauges are the ones \<open>internal/data/spec.md\<close> asks for.\<close>

lemma mysql_gauge_names:
  "map fqName [MySQLOpenConnections, MySQLInUse, MySQLIdle, MySQLWaitCount, MySQLWaitDurationSeconds,
     MySQLMaxIdleClosedTotal, MySQLMaxLifetimeClosedTotal] =
   map (append ''bigmarket_mysql_'') [''open_connections'', ''in_use'', ''idle'', ''wait_count'',
     ''wait_duration_seconds'', ''max_idle_closed_total'', ''max_lifetime_closed_total'']"
  by code_simp

text \<open>
  C38. Metrics are well typed: at the start of the process all collectors are registered (their full
  names are legal and pairwise different, so that \<open>MustRegister\<close> does not panic), and every call the
  functions of \<open>business.go\<close> make, whatever their arguments, is a call of a registered collector with
  exactly the labels it declares, so that \<open>WithLabelValues\<close> does not panic on any of them; nothing
  but the metrics changes.
\<close>

theorem metrics_well_typed:
  assumes "prometheus_ok register"
  shows "\<exists>cs. metrics_init register = Ok cs \<and> length cs = 22 \<and> distinct (map fqName cs) \<and>
    (\<forall>aid sid sku topic cmd task queue0 db role result d size0 retry scheduled stats.
       list_all (calls_typed cs)
         [IncActivityQuota aid result, IncRaffle aid sid result, ObserveRaffleDuration aid sid d,
          IncStockConsume aid sku result, IncAward aid result, IncRabbitMQPublish topic result,
          IncRedisOp cmd result, ObserveRedisOpDuration cmd d, IncAsynqTask task result,
          ObserveAsynqTaskDuration task d, SetAsynqQueueStats queue0 size0 retry scheduled,
          SetMySQLStats db role stats])"
  using metrics_init_all [OF assms] all_collectors_distinct business_calls_typed
  by (intro exI [of _ all_collectors]) (simp add: all_collectors_def)

text \<open>A registry that refuses duplicates and illegal collectors.\<close>

definition demo_register :: "collector list \<Rightarrow> collector \<Rightarrow> gerr option" where
  "demo_register registered c =
     (if legal_collector c \<and> fqName c \<notin> fqName ` set registered then None else Some (GoErr ''duplicate metrics''))"

theorem metrics_well_typed_witness:
  "prometheus_ok demo_register \<and>
   (\<exists>cs. metrics_init demo_register = Ok cs \<and> length cs = 22 \<and> distinct (map fqName cs) \<and>
      calls_typed cs (IncAward 0 ''success''))"
proof -
  have ok: "prometheus_ok demo_register" by (simp add: prometheus_ok_def demo_register_def)
  then show ?thesis using metrics_well_typed [OF ok] by (fastforce simp: list_all_iff)
qed

end
