(* ===== verification/Router.thy ===== *)
theory Router
  imports Go_Text "HOL-Library.Word"
begin

text \<open>
  \<open>DBRouter\<close> of \<open>internal/data/data.go\<close>: a user id is hashed with CRC-32 (IEEE) into one of
  \<open>dbCount * tbCount\<close> slots; the slot number is the suffix of the user's tables and its
  quotient by \<open>tbCount\<close> selects the database. \<open>crc32\<close> is the table-driven algorithm of
  the standard library on 32-bit words.
\<close>

unbundle bit_operations_syntax

section \<open>hash/crc32\<close>

definition IEEE :: "32 word" where
  "IEEE = 0xedb88320"

fun crc_bits :: "nat \<Rightarrow> 32 word \<Rightarrow> 32 word" where
  "crc_bits 0 crc = crc"
| "crc_bits (Suc n) crc =
     crc_bits n (if crc AND 1 = 1 then drop_bit 1 crc XOR IEEE else drop_bit 1 crc)"

definition crc_table :: "8 word \<Rightarrow> 32 word" where
  "crc_table i = crc_bits 8 (ucast i)"

definition crc_byte :: "32 word \<Rightarrow> char \<Rightarrow> 32 word" where
  "crc_byte crc c = crc_table (ucast crc XOR of_char c) XOR drop_bit 8 crc"

definition Checksum :: "string \<Rightarrow> 32 word" where
  "Checksum s = NOT (foldl crc_byte (NOT 0) s)"

section \<open>The router\<close>

text \<open>A connection is identified by the key under which the router stores it.\<close>

record DBRouter =
  dbMap :: "string \<rightharpoonup> string"
  dbCount :: int
  tbCount :: int

text \<open>Go's integer division truncates.\<close>

definition go_quot :: "int \<Rightarrow> int \<Rightarrow> int" where
  "go_quot a b = sgn a * sgn b * (\<bar>a\<bar> div \<bar>b\<bar>)"

definition go_rem :: "int \<Rightarrow> int \<Rightarrow> int" where
  "go_rem a b = a - b * go_quot a b"

fun open_dbs :: "int list \<Rightarrow> (string \<rightharpoonup> string) \<Rightarrow> (string \<rightharpoonup> string)" where
  "open_dbs [] m = m"
| "open_dbs (i # is) m = open_dbs is (m(fmt0 2 i \<mapsto> fmt0 2 i))"

definition NewDBRouter :: "int \<Rightarrow> int \<Rightarrow> DBRouter" where
  "NewDBRouter dbs tbs =
     \<lparr>dbMap = open_dbs [1..dbs] Map.empty, dbCount = dbs, tbCount = tbs\<rparr>"

text \<open>\<open>DBStrategy\<close>: the connection (nil when the map has none) and the table suffix; a modulus
  of zero panics.\<close>

definition DBStrategy :: "DBRouter \<Rightarrow> string \<Rightarrow> (string option \<times> string) res" where
  "DBStrategy r shardKey =
     (let hashVal = uint (Checksum shardKey);
          size = dbCount r * tbCount r
      in if size = 0 then Panic ''runtime error: integer divide by zero''
         else let idx = go_rem hashVal size;
                  dbIdx = go_quot idx (tbCount r) + 1
              in case dbMap r (fmt0 2 dbIdx) of
                   None \<Rightarrow> Ok (None, '''')
                 | Some db \<Rightarrow> Ok (Some db, fmt0 3 idx))"

definition GetDB :: "DBRouter \<Rightarrow> int \<Rightarrow> string option" where
  "GetDB r dbIdx = dbMap r (fmt0 2 dbIdx)"

definition GetDBCount :: "DBRouter \<Rightarrow> int" where
  "GetDBCount r = dbCount r"

section \<open>Lemmas\<close>

lemma digits_val_zeros: "digits_val 0 (replicate k (CHR ''0'') @ s) = digits_val 0 s"
  by (induction k) (simp_all add: digit_val_def)

lemma digits_val_fmt0: "0 \<le> n \<Longrightarrow> digits_val 0 (fmt0 w n) = Some n"
  by (simp add: fmt0_def pad0_def digits_val_zeros digits_val_digits)

text \<open>Zero padding loses nothing.\<close>

lemma fmt0_inj: "0 \<le> m \<Longrightarrow> 0 \<le> n \<Longrightarrow> fmt0 w m = fmt0 w n \<longleftrightarrow> m = n"
  by (metis digits_val_fmt0 option.inject)

lemma fmt0_ne [simp]: "fmt0 w n \<noteq> ''''"
  by (simp add: fmt0_def pad0_def)

lemma go_quot_nonneg: "0 \<le> a \<Longrightarrow> 0 < b \<Longrightarrow> go_quot a b = a div b"
  by (cases "a = 0") (simp_all add: go_quot_def)

lemma go_rem_nonneg: "0 \<le> a \<Longrightarrow> 0 < b \<Longrightarrow> go_rem a b = a mod b"
  by (simp add: go_rem_def go_quot_nonneg minus_mult_div_eq_mod)

lemma open_dbs_lookup:
  "open_dbs is m k = (if k \<in> fmt0 2 ` set is then Some k else m k)"
  by (induction "is" arbitrary: m) auto

lemma NewDBRouter_GetDB:
  "GetDB (NewDBRouter dbs tbs) i = (if 1 \<le> i \<and> i \<le> dbs then Some (fmt0 2 i) else GetDB (NewDBRouter dbs tbs) i)"
  by (auto simp: GetDB_def NewDBRouter_def open_dbs_lookup)

definition slot :: "int \<Rightarrow> int \<Rightarrow> string \<Rightarrow> int" where
  "slot dbs tbs key = uint (Checksum key) mod (dbs * tbs)"

lemma slot_bounds:
  assumes "0 < dbs" and "0 < tbs"
  shows "0 \<le> slot dbs tbs key" and "slot dbs tbs key < dbs * tbs"
  using assms by (simp_all add: slot_def)

lemma slot_div_bounds:
  assumes "0 < dbs" and "0 < tbs"
  shows "0 \<le> slot dbs tbs key div tbs" and "slot dbs tbs key div tbs < dbs"
proof -
  show "0 \<le> slot dbs tbs key div tbs"
    using slot_bounds [OF assms] assms by (simp add: pos_imp_zdiv_nonneg_iff)
  have "slot dbs tbs key div tbs * tbs \<le> slot dbs tbs key"
    using assms(2) by (metis div_mult_mod_eq le_add_same_cancel1 pos_mod_sign)
  also have "\<dots> < dbs * tbs" by (rule slot_bounds [OF assms])
  finally show "slot dbs tbs key div tbs < dbs" using assms(2) by simp
qed

lemma DBStrategy_slot:
  assumes "0 < dbs" and "0 < tbs"
  shows "DBStrategy (NewDBRouter dbs tbs) key =
           Ok (Some (fmt0 2 (slot dbs tbs key div tbs + 1)), fmt0 3 (slot dbs tbs key))"
proof -
  let ?i = "slot dbs tbs key"
  have i: "0 \<le> ?i" "?i < dbs * tbs" using slot_bounds assms by auto
  have "0 \<le> ?i div tbs" "?i div tbs < dbs" using slot_div_bounds [OF assms] by auto
  then have "fmt0 2 (?i div tbs + 1) \<in> fmt0 2 ` set [1..dbs]" by auto
  moreover have "go_rem (uint (Checksum key)) (dbs * tbs) = ?i"
    using assms by (simp add: go_rem_nonneg slot_def)
  ultimately show ?thesis
    using assms i by (simp add: DBStrategy_def Let_def NewDBRouter_def open_dbs_lookup go_quot_nonneg)
qed

text \<open>
  C39. Routing is total and in range: with positive counts every shard key gets a live
  connection \<open>NN\<close> between 01 and \<open>dbCount\<close> and a table suffix \<open>NNN\<close> below
  \<open>dbCount * tbCount\<close>, and the database is the one that owns the suffix
  (\<open>suffix div tbCount + 1\<close>).
\<close>

theorem DBStrategy_in_range:
  assumes "0 < dbs" and "0 < tbs"
  shows "\<exists>idx. 0 \<le> idx \<and> idx < dbs * tbs \<and>
           DBStrategy (NewDBRouter dbs tbs) key = Ok (GetDB (NewDBRouter dbs tbs) (idx div tbs + 1), fmt0 3 idx) \<and>
           GetDB (NewDBRouter dbs tbs) (idx div tbs + 1) = Some (fmt0 2 (idx div tbs + 1)) \<and>
           1 \<le> idx div tbs + 1 \<and> idx div tbs + 1 \<le> dbs"
proof -
  let ?i = "slot dbs tbs key"
  have i: "0 \<le> ?i" "?i < dbs * tbs" using slot_bounds assms by auto
  have "0 \<le> ?i div tbs" "?i div tbs < dbs" using slot_div_bounds [OF assms] by auto
  with i assms DBStrategy_slot [OF assms] show ?thesis
    by (intro exI [of _ ?i]) (simp add: NewDBRouter_GetDB)
qed

theorem DBStrategy_in_range_witness:
  "\<exists>idx. 0 \<le> idx \<and> idx < 2 * 4 \<and>
     DBStrategy (NewDBRouter 2 4) ''xiaofuge'' = Ok (GetDB (NewDBRouter 2 4) (idx div 4 + 1), fmt0 3 idx) \<and>
     GetDB (NewDBRouter 2 4) (idx div 4 + 1) = Some (fmt0 2 (idx div 4 + 1)) \<and>
     1 \<le> idx div 4 + 1 \<and> idx div 4 + 1 \<le> 2"
  by (rule DBStrategy_in_range) simp_all

text \<open>
  Two shard keys with the same table suffix are in the same database: a physical table
  name never exists in two shards for the same router.
\<close>

theorem DBStrategy_suffix_determines_db:
  assumes "0 < dbs" and "0 < tbs"
    and "DBStrategy (NewDBRouter dbs tbs) k = Ok (db, suffix)"
    and "DBStrategy (NewDBRouter dbs tbs) k' = Ok (db', suffix)"
  shows "db = db'"
proof -
  from assms have "fmt0 3 (slot dbs tbs k) = fmt0 3 (slot dbs tbs k')"
    by (simp add: DBStrategy_slot)
  then have "slot dbs tbs k = slot dbs tbs k'"
    using slot_bounds assms(1,2) by (simp add: fmt0_inj)
  with assms show ?thesis by (simp add: DBStrategy_slot)
qed

theorem DBStrategy_suffix_determines_db_witness:
  "DBStrategy (NewDBRouter 2 4) ''e'' = Ok (Some ''01'', ''002'') \<and>
   DBStrategy (NewDBRouter 2 4) ''n'' = Ok (Some ''01'', ''002'') \<and>
   Some ''01'' = Some ''01''"
proof -
  have e: "DBStrategy (NewDBRouter 2 4) ''e'' = Ok (Some ''01'', ''002'')" by code_simp
  have x: "DBStrategy (NewDBRouter 2 4) ''n'' = Ok (Some ''01'', ''002'')" by code_simp
  have "Some ''01'' = Some ''01''"
    by (rule DBStrategy_suffix_determines_db [OF _ _ e x]) simp_all
  with e x show ?thesis by simp
qed

text \<open>A known value of the checksum.\<close>

lemma Checksum_check: "Checksum ''abc'' = 0x352441C2"
  by code_simp

end
