(* ===== verification/Messaging.thy ===== *)
theory Messaging
  imports Metrics Router
begin

text \<open>
  \<open>pkg/rabbitmq/event.go\<close>
  (the event envelope), \<open>pkg/xrand\<close> and \<open>internal/data/rabbitmq_publisher.go\<close>. A
  published message is the pair of its exchange and its body, appended to the world's
  \<open>mq\<close>.
\<close>

section \<open>Random values\<close>

text \<open>\<open>GetSecureRandomInt\<close>: \<open>rand.Int\<close> panics when \<open>max\<close> is not positive.\<close>

definition GetSecureRandomInt :: "services \<Rightarrow> int \<Rightarrow> int M" where
  "GetSecureRandomInt svc m w =
     (if m \<le> 0 then (Panic ''crypto/rand: argument to Int is <= 0'', w)
      else (svc_secure_int svc (tick w) m, bump w))"

definition secure_int_ok :: "services \<Rightarrow> bool" where
  "secure_int_ok svc \<longleftrightarrow>
     (\<forall>n m x. svc_secure_int svc n m = Ok x \<longrightarrow> 0 < m \<longrightarrow> 0 \<le> x \<and> x < m) \<and>
     (\<forall>n m s. svc_secure_int svc n m \<noteq> Panic s)"

text \<open>\<open>rand.New(rand.NewSource(time.Now().UnixNano())).Int63n(1000000000000)\<close>, printed with
  \<open>%012d\<close>: the order numbers.\<close>

definition random_order_id :: "services \<Rightarrow> string M" where
  "random_order_id svc =
     bindE (now svc) (\<lambda>seed. ret (fmt0 12 (svc_int63n svc seed 1000000000000)))"

section \<open>pkg/rabbitmq/event.go\<close>

text \<open>\<open>Format("0601021504")\<close>: the last two digits of the year, month, day, hour and minute.\<close>

definition fmt_minute :: "int \<Rightarrow> time \<Rightarrow> string" where
  "fmt_minute zone t =
     (let (y, m, d) = civil (day_number zone t);
          secs = (t div second + zone) mod 86400
      in fmt0 2 (y mod 100) @ fmt0 2 m @ fmt0 2 d @ fmt0 2 (secs div 3600) @ fmt0 2 (secs div 60 mod 60))"

definition generateShortID :: "services \<Rightarrow> string M" where
  "generateShortID svc w =
     (case svc_read_id svc (tick w) of
        None \<Rightarrow> bindE (now svc) (\<lambda>t. ret (fmt_minute (svc_zone svc) t)) (bump w)
      | Some s \<Rightarrow> (Ok s, bump w))"

definition NewBaseEvent :: "services \<Rightarrow> event_data \<Rightarrow> BaseEvent M" where
  "NewBaseEvent svc d =
     bindE (generateShortID svc) (\<lambda>i.
     bindE (now svc) (\<lambda>t.
     ret \<lparr>ev_ID = i, ev_Timestamp = t, ev_Data = d\<rparr>))"

section \<open>rabbitmq_publisher.go\<close>

definition ExchangeDeclare :: "services \<Rightarrow> string \<Rightarrow> unit M" where
  "ExchangeDeclare svc topic = remote svc (ret ())"

definition channel_publish :: "services \<Rightarrow> string \<Rightarrow> string \<Rightarrow> unit M" where
  "channel_publish svc topic body = remote svc (\<lambda>w. (Ok (), w\<lparr>mq := mq w @ [(topic, body)]\<rparr>))"

definition mark_declared :: "string \<Rightarrow> unit M" where
  "mark_declared topic w = (Ok (), w\<lparr>declared := insert topic (declared w)\<rparr>)"

definition declare_exchange :: "services \<Rightarrow> string \<Rightarrow> unit M" where
  "declare_exchange svc topic w =
     (if topic \<in> declared w then (Ok (), w)
      else caseE (ExchangeDeclare svc topic)
             (\<lambda>e. bindE (IncRabbitMQPublish topic ''exchange_declare_error'')
                    (\<lambda>_. fail (Wrap ''exchange declare error'' e)))
             (\<lambda>_. mark_declared topic) w)"

definition Publish :: "services \<Rightarrow> string \<Rightarrow> BaseEvent \<Rightarrow> unit M" where
  "Publish svc topic ev =
     bindE (declare_exchange svc topic) (\<lambda>_.
     caseE (liftR (js_Event svc ev))
       (\<lambda>e. bindE (IncRabbitMQPublish topic ''marshal_error'') (\<lambda>_. fail (Wrap ''marshal event error'' e)))
       (\<lambda>body.
     bindE (now svc) (\<lambda>_.
     caseE (channel_publish svc topic body)
       (\<lambda>e. bindE (IncRabbitMQPublish topic ''publish_error'') (\<lambda>_. fail e))
       (\<lambda>_. IncRabbitMQPublish topic ''success''))))"

text \<open>The topics of the configuration (\<open>conf.RabbitMQ_Topic\<close>).\<close>

record topics =
  ActivitySkuStockZero :: string
  SendRebate :: string
  SendAward :: string

definition PublishStockZero :: "services \<Rightarrow> topics \<Rightarrow> BaseEvent \<Rightarrow> unit M" where
  "PublishStockZero svc tp ev = Publish svc (ActivitySkuStockZero tp) ev"

definition PublishSendRebate :: "services \<Rightarrow> topics \<Rightarrow> BaseEvent \<Rightarrow> unit M" where
  "PublishSendRebate svc tp ev = Publish svc (SendRebate tp) ev"

definition PublishSendAward :: "services \<Rightarrow> topics \<Rightarrow> BaseEvent \<Rightarrow> unit M" where
  "PublishSendAward svc tp ev = Publish svc (SendAward tp) ev"

definition PublishTopic :: "services \<Rightarrow> string \<Rightarrow> BaseEvent \<Rightarrow> unit M" where
  "PublishTopic svc topic ev = Publish svc topic ev"

definition PublishSaveOrder :: "services \<Rightarrow> BaseEvent \<Rightarrow> unit M" where
  "PublishSaveOrder svc ev = Publish svc SaveOrderRecordTopic ev"

section \<open>Sharded connections\<close>

text \<open>\<open>db, suffix := r.routerDB.DBStrategy(userID)\<close> where the code goes on to use \<open>db\<close>: a nil
  connection is a nil pointer dereference.\<close>

definition shard :: "DBRouter \<Rightarrow> string \<Rightarrow> (string option \<times> string) M" where
  "shard r uid = liftR (DBStrategy r uid)"

definition deref :: "'a option \<Rightarrow> 'a M" where
  "deref x = (case x of None \<Rightarrow> panic ''runtime error: nil pointer dereference'' | Some v \<Rightarrow> ret v)"

lemma deref_simps [simp]:
  "deref (Some v) = ret v"
  "deref None = panic ''runtime error: nil pointer dereference''"
  by (simp_all add: deref_def)

section \<open>Lemmas\<close>

lemma shard_Ok_iff:
  "0 < dbs \<Longrightarrow> 0 < tbs \<Longrightarrow>
   shard (NewDBRouter dbs tbs) uid w = (Ok x, w') \<longleftrightarrow>
     w' = w \<and> x = (Some (fmt0 2 (slot dbs tbs uid div tbs + 1)), fmt0 3 (slot dbs tbs uid))"
  by (auto simp: shard_def DBStrategy_slot)

lemma bindE_shard:
  "0 < dbs \<Longrightarrow> 0 < tbs \<Longrightarrow>
   bindE (shard (NewDBRouter dbs tbs) uid) f =
     f (Some (fmt0 2 (slot dbs tbs uid div tbs + 1)), fmt0 3 (slot dbs tbs uid))"
  by (rule ext) (simp add: shard_def DBStrategy_slot bindE_def)

text \<open>Publishing touches nothing but the broker, the declared exchanges, the clock and the
  metrics, and adds at most one message, on the given topic.\<close>

lemma Publish_frame:
  assumes "Publish svc topic ev w = (r, w')"
  shows "rkeys w' = rkeys w \<and> store w' = store w \<and> queue w' = queue w \<and>
         (mq w' = mq w \<or> (\<exists>body. js_Event svc ev = Ok body \<and> mq w' = mq w @ [(topic, body)]))"
  using assms
  by (auto simp: Publish_def declare_exchange_def ExchangeDeclare_def channel_publish_def remote_def
      mark_declared_def metric_defs bindE_def caseE_def
      split: fault.splits res.splits if_splits prod.splits)

lemma Publish_success:
  assumes "Publish svc topic ev w = (Ok u, w')"
  shows "\<exists>body. js_Event svc ev = Ok body \<and> mq w' = mq w @ [(topic, body)]"
  using assms
  by (auto simp: Publish_def declare_exchange_def ExchangeDeclare_def channel_publish_def remote_def
      mark_declared_def metric_defs bindE_def caseE_def
      split: fault.splits res.splits if_splits prod.splits)

end
