(* ===== verification/Cache.thy ===== *)
theory Cache
  imports Messaging
begin

text \<open>
  \<open>pkg/cache\<close>: the read-through cache over Redis with an optional local cache
  (\<open>TinyLFU\<close> of \<open>local.go\<close>), the counters of hits and misses and the compression frame of the
  default codec. The codec is the cache's own parameter (\<open>Options.Marshal\<close> and
  \<open>Options.Unmarshal\<close>); \<open>json_of\<close> is the one \<open>NewRedisClient\<close> installs. \<open>singleflight\<close> runs
  the function of one caller: concurrent callers of the same key share its result, so a
  single call is the sequential one modelled here. \<open>Once\<close> calls itself after it removed an
  entry it could not decode; the recursion is bounded by the stack depth \<open>svc_depth\<close>, and the
  lemmas show that two levels are enough when Redis answers.
\<close>

section \<open>Options and items\<close>

record LocalCache =
  lc_Set :: "string \<Rightarrow> string \<Rightarrow> unit M"
  lc_Get :: "string \<Rightarrow> string option M"
  lc_Del :: "string \<Rightarrow> unit M"

record Cache =
  opt_Redis :: bool
  opt_LocalCache :: "LocalCache option"
  StatsEnabled :: bool

record 'a marshaller =
  marshal :: "'a option \<Rightarrow> string res"
  unmarshal :: "string \<Rightarrow> 'a res"

definition json_of :: "'a codec \<Rightarrow> 'a marshaller" where
  "json_of c = \<lparr>marshal = \<lambda>v. (case v of None \<Rightarrow> Ok ''null'' | Some x \<Rightarrow> enc c x), unmarshal = dec c\<rparr>"

text \<open>\<open>it_Value\<close> is nil, or the content of the pointer: the value to store for \<open>Set\<close>, the
  target to fill for \<open>Once\<close>.\<close>

record 'a Item =
  it_Key :: string
  it_Value :: "'a option"
  it_TTL :: int
  it_Do :: "'a option M option"
  it_SetXX :: bool
  it_SetNX :: bool
  it_SkipLocalCache :: bool

definition ErrCacheMiss :: gerr where
  "ErrCacheMiss = GoErr ''cache: key is missing''"

definition errRedisLocalCacheNil :: gerr where
  "errRedisLocalCacheNil = GoErr ''cache: both Redis and LocalCache are nil''"

definition hour :: int where "hour = 3600 * second"

definition Item_value :: "'a Item \<Rightarrow> 'a option M" where
  "Item_value it = (case it_Do it of Some d \<Rightarrow> d | None \<Rightarrow> ret (it_Value it))"

definition Item_ttl :: "'a Item \<Rightarrow> int" where
  "Item_ttl it =
     (if it_TTL it < 0 then 0
      else if it_TTL it \<noteq> 0 then (if it_TTL it < second then hour else it_TTL it)
      else hour)"

section \<open>Operations\<close>

definition redis_Get :: "services \<Rightarrow> string \<Rightarrow> string M" where
  "redis_Get svc k = bindE (redis svc (GET k)) (\<lambda>r. case r of RBulk s \<Rightarrow> ret s | _ \<Rightarrow> fail RedisNil)"

definition redis_int_result :: "services \<Rightarrow> rcmd \<Rightarrow> int M" where
  "redis_int_result svc c = bindE (redis svc c) (\<lambda>r. case r of RInt n \<Rightarrow> ret n | _ \<Rightarrow> fail RedisNil)"

definition expiry :: "int \<Rightarrow> int option" where
  "expiry ttl = (if ttl > 0 then Some ttl else None)"

definition local_Set :: "Cache \<Rightarrow> string \<Rightarrow> string \<Rightarrow> unit M" where
  "local_Set cd k b = (case opt_LocalCache cd of None \<Rightarrow> ret () | Some l \<Rightarrow> lc_Set l k b)"

definition local_Get :: "Cache \<Rightarrow> string \<Rightarrow> string option M" where
  "local_Get cd k = (case opt_LocalCache cd of None \<Rightarrow> ret None | Some l \<Rightarrow> lc_Get l k)"

definition local_Del :: "Cache \<Rightarrow> string \<Rightarrow> unit M" where
  "local_Del cd k = (case opt_LocalCache cd of None \<Rightarrow> ret () | Some l \<Rightarrow> lc_Del l k)"

text \<open>The Go results \<open>([]byte, bool, error)\<close> of \<open>set\<close>, whose error the callers may drop.\<close>

type_synonym set_result = "string \<times> bool \<times> gerr option"

definition store_item :: "services \<Rightarrow> Cache \<Rightarrow> 'a Item \<Rightarrow> string \<Rightarrow> set_result M" where
  "store_item svc cd it b =
     (if \<not> opt_Redis cd then
        ret (b, True, if opt_LocalCache cd = None then Some errRedisLocalCacheNil else None)
      else if Item_ttl it = 0 then ret (b, True, None)
      else
        let ttl = expiry (Item_ttl it);
            c = (if it_SetXX it then SETXX (it_Key it) b ttl
                 else if it_SetNX it then SETNX (it_Key it) b ttl
                 else SET (it_Key it) b ttl)
        in caseE (redis svc c) (\<lambda>e. ret (b, True, Some e)) (\<lambda>_. ret (b, True, None)))"

definition cache_set :: "services \<Rightarrow> Cache \<Rightarrow> 'a marshaller \<Rightarrow> 'a Item \<Rightarrow> set_result M" where
  "cache_set svc cd mc it =
     caseE (Item_value it) (\<lambda>e. ret ('''', False, Some e)) (\<lambda>v.
     caseE (liftR (marshal mc v)) (\<lambda>e. ret ('''', False, Some e)) (\<lambda>b.
     bindE (if it_SkipLocalCache it then ret () else local_Set cd (it_Key it) b) (\<lambda>_.
     store_item svc cd it b)))"

definition Set :: "services \<Rightarrow> Cache \<Rightarrow> 'a marshaller \<Rightarrow> 'a Item \<Rightarrow> unit M" where
  "Set svc cd mc it =
     bindE (cache_set svc cd mc it) (\<lambda>(_, _, err). case err of None \<Rightarrow> ret () | Some e \<Rightarrow> fail e)"

definition count_hit :: "Cache \<Rightarrow> unit M" where
  "count_hit cd w = (Ok (), if StatsEnabled cd then w\<lparr>hits := hits w + 1\<rparr> else w)"

definition count_miss :: "Cache \<Rightarrow> unit M" where
  "count_miss cd w = (Ok (), if StatsEnabled cd then w\<lparr>misses := misses w + 1\<rparr> else w)"

definition getBytes :: "services \<Rightarrow> Cache \<Rightarrow> string \<Rightarrow> bool \<Rightarrow> string M" where
  "getBytes svc cd key skipLocalCache =
     bindE (if skipLocalCache then ret None else local_Get cd key) (\<lambda>l.
     case l of
       Some b \<Rightarrow> ret b
     | None \<Rightarrow>
         if \<not> opt_Redis cd then
           fail (if opt_LocalCache cd = None then errRedisLocalCacheNil else ErrCacheMiss)
         else
           caseE (redis_Get svc key)
             (\<lambda>e. bindE (count_miss cd) (\<lambda>_. fail (if e = RedisNil then ErrCacheMiss else e)))
             (\<lambda>b. bindE (count_hit cd) (\<lambda>_.
                  bindE (if skipLocalCache then ret () else local_Set cd key b) (\<lambda>_. ret b))))"

definition Exists :: "services \<Rightarrow> Cache \<Rightarrow> string \<Rightarrow> bool M" where
  "Exists svc cd key = caseE (getBytes svc cd key False) (\<lambda>_. ret False) (\<lambda>_. ret True)"

definition cache_get :: "services \<Rightarrow> Cache \<Rightarrow> 'a marshaller \<Rightarrow> string \<Rightarrow> bool \<Rightarrow> 'a M" where
  "cache_get svc cd mc key skipLocalCache =
     bindE (getBytes svc cd key skipLocalCache) (\<lambda>b. liftR (unmarshal mc b))"

definition Get :: "services \<Rightarrow> Cache \<Rightarrow> 'a marshaller \<Rightarrow> string \<Rightarrow> 'a M" where
  "Get svc cd mc key = cache_get svc cd mc key False"

definition GetSkippingLocalCache :: "services \<Rightarrow> Cache \<Rightarrow> 'a marshaller \<Rightarrow> string \<Rightarrow> 'a M" where
  "GetSkippingLocalCache svc cd mc key = cache_get svc cd mc key True"

definition Delete :: "services \<Rightarrow> Cache \<Rightarrow> string \<Rightarrow> unit M" where
  "Delete svc cd key =
     bindE (local_Del cd key) (\<lambda>_.
     if \<not> opt_Redis cd then
       (if opt_LocalCache cd = None then fail errRedisLocalCacheNil else ret ())
     else bindE (redis svc (DEL key)) (\<lambda>_. ret ()))"

text \<open>The bytes and whether they came from the cache.\<close>

definition getSetItemBytesOnce ::
    "services \<Rightarrow> Cache \<Rightarrow> 'a marshaller \<Rightarrow> 'a Item \<Rightarrow> (string \<times> bool) M" where
  "getSetItemBytesOnce svc cd mc it =
     bindE (local_Get cd (it_Key it)) (\<lambda>l.
     case l of
       Some b \<Rightarrow> ret (b, True)
     | None \<Rightarrow>
         caseE (getBytes svc cd (it_Key it) (it_SkipLocalCache it))
           (\<lambda>e. if errors_Is e CtxCanceled \<or> errors_Is e CtxDeadlineExceeded then fail e
                else bindE (cache_set svc cd mc it) (\<lambda>(b, ok, err).
                       if ok then ret (b, False)
                       else case err of Some e' \<Rightarrow> fail e' | None \<Rightarrow> ret ('''', False)))
           (\<lambda>b. ret (b, True)))"

text \<open>The result is the content of \<open>item.Value\<close> afterwards.\<close>

fun Once_depth ::
    "nat \<Rightarrow> services \<Rightarrow> Cache \<Rightarrow> 'a marshaller \<Rightarrow> 'a Item \<Rightarrow> 'a option M" where
  "Once_depth 0 svc cd mc it = panic ''stack overflow''"
| "Once_depth (Suc n) svc cd mc it =
     bindE (getSetItemBytesOnce svc cd mc it) (\<lambda>(b, cached).
       if it_Value it = None \<or> b = '''' then ret (it_Value it)
       else caseE (liftR (unmarshal mc b))
              (\<lambda>e. if cached then
                     bindE (ignoreE (Delete svc cd (it_Key it))) (\<lambda>_. Once_depth n svc cd mc it)
                   else fail e)
              (\<lambda>v. ret (Some v)))"

definition Once :: "services \<Rightarrow> Cache \<Rightarrow> 'a marshaller \<Rightarrow> 'a Item \<Rightarrow> 'a option M" where
  "Once svc = Once_depth (svc_depth svc) svc"

definition Decr :: "services \<Rightarrow> Cache \<Rightarrow> string \<Rightarrow> int M" where
  "Decr svc cd key =
     (if \<not> opt_Redis cd then fail errRedisLocalCacheNil else redis_int_result svc (INCRBY key (-1)))"

definition Incr :: "services \<Rightarrow> Cache \<Rightarrow> string \<Rightarrow> int M" where
  "Incr svc cd key =
     (if \<not> opt_Redis cd then fail errRedisLocalCacheNil else redis_int_result svc (INCRBY key 1))"

text \<open>Strings, byte slices and integers go to Redis as they are, other values through the codec.\<close>

datatype 'a garg = AStr string | AInt int | AObj 'a

definition redis_arg :: "'a marshaller \<Rightarrow> 'a garg \<Rightarrow> string res" where
  "redis_arg mc a = (case a of AStr s \<Rightarrow> Ok s | AInt n \<Rightarrow> Ok (FormatInt n) | AObj v \<Rightarrow> marshal mc (Some v))"

definition cache_SetNX ::
    "services \<Rightarrow> Cache \<Rightarrow> 'a marshaller \<Rightarrow> string \<Rightarrow> 'a garg \<Rightarrow> int \<Rightarrow> bool M" where
  "cache_SetNX svc cd mc key v expiration =
     (if \<not> opt_Redis cd then fail errRedisLocalCacheNil
      else bindE (liftR (redis_arg mc v)) (\<lambda>s.
           bindE (redis_int_result svc (SETNX key s (expiry expiration))) (\<lambda>n. ret (n = 1))))"

fun rpush_args :: "'a marshaller \<Rightarrow> nat \<Rightarrow> 'a garg list \<Rightarrow> string list res" where
  "rpush_args mc i [] = Ok []"
| "rpush_args mc i (v # vs) =
     (case redis_arg mc v of
        Ok s \<Rightarrow> bindR (rpush_args mc (Suc i) vs) (\<lambda>ss. Ok (s # ss))
      | Err e \<Rightarrow> Err (Wrap (''marshal value at index '' @ FormatInt (int i) @ '' failed'') e)
      | Panic s \<Rightarrow> Panic s)"

definition cache_RPush :: "services \<Rightarrow> Cache \<Rightarrow> 'a marshaller \<Rightarrow> string \<Rightarrow> 'a garg list \<Rightarrow> int M" where
  "cache_RPush svc cd mc key vs =
     (if \<not> opt_Redis cd then fail errRedisLocalCacheNil
      else bindE (liftR (rpush_args mc 0 vs)) (\<lambda>args. redis_int_result svc (RPUSH key args)))"

text \<open>\<open>BLPOP\<close> blocks until an element arrives or the timeout is over; what the client answers is given.\<close>

definition cache_BLPop :: "(int \<Rightarrow> string list \<Rightarrow> string list M) \<Rightarrow> Cache \<Rightarrow> int \<Rightarrow> string list \<Rightarrow> string list M" where
  "cache_BLPop blpop cd timeout keys =
     (if \<not> opt_Redis cd then fail errRedisLocalCacheNil else blpop timeout keys)"

definition DeleteFromLocalCache :: "Cache \<Rightarrow> string \<Rightarrow> unit M" where
  "DeleteFromLocalCache cd key = local_Del cd key"

text \<open>A pipeline sends its commands in one request; every command runs, and the first error is
  returned.\<close>

fun pipe_run :: "services \<Rightarrow> rcmd list \<Rightarrow> unit M" where
  "pipe_run svc [] = ret ()"
| "pipe_run svc (c # cs) =
     caseE (server_call svc c) (\<lambda>e. bindE (ignoreE (pipe_run svc cs)) (\<lambda>_. fail e)) (\<lambda>_. pipe_run svc cs)"

definition HSetWithTTL :: "services \<Rightarrow> Cache \<Rightarrow> string \<Rightarrow> (string \<times> string) list \<Rightarrow> int \<Rightarrow> unit M" where
  "HSetWithTTL svc cd key fvs ttl =
     (if \<not> opt_Redis cd then fail ErrCacheMiss
      else remote svc (pipe_run svc (HSET key fvs # (if ttl > 0 then [EXPIRE key ttl] else []))))"

definition cache_HGet :: "services \<Rightarrow> Cache \<Rightarrow> string \<Rightarrow> string \<Rightarrow> string M" where
  "cache_HGet svc cd key field =
     (if \<not> opt_Redis cd then fail ErrCacheMiss
      else bindE (redis svc (HGET key field)) (\<lambda>r. case r of RBulk s \<Rightarrow> ret s | _ \<Rightarrow> fail RedisNil))"

definition cache_Expire :: "services \<Rightarrow> Cache \<Rightarrow> string \<Rightarrow> int \<Rightarrow> bool M" where
  "cache_Expire svc cd key expiration =
     (if \<not> opt_Redis cd then panic ''runtime error: nil pointer dereference''
      else bindE (redis_int_result svc (EXPIRE key expiration)) (\<lambda>n. ret (n = 1)))"

definition Eval :: "services \<Rightarrow> Cache \<Rightarrow> 'a script \<Rightarrow> 'a M" where
  "Eval svc cd scr =
     (if \<not> opt_Redis cd then panic ''runtime error: nil pointer dereference'' else redis_eval svc scr)"

definition Stats :: "Cache \<Rightarrow> world \<Rightarrow> (64 word \<times> 64 word) option" where
  "Stats cd w = (if StatsEnabled cd then Some (hits w, misses w) else None)"

text \<open>The cache that \<open>NewRedisClient\<close> builds: Redis, no local cache, no statistics.\<close>

definition myCache :: Cache where
  "myCache = \<lparr>opt_Redis = True, opt_LocalCache = None, StatsEnabled = False\<rparr>"

section \<open>The default codec\<close>

definition compressionThreshold :: nat where "compressionThreshold = 64"

definition noCompression :: char where "noCompression = CHR 0x00"

definition s2Compression :: char where "s2Compression = CHR 0x01"

text \<open>\<open>s2.Encode\<close> and \<open>s2.Decode\<close> are parameters.\<close>

definition compress :: "(string \<Rightarrow> string) \<Rightarrow> string \<Rightarrow> string" where
  "compress s2enc data =
     (if length data < compressionThreshold then data @ [noCompression]
      else s2enc data @ [s2Compression])"

datatype 'a gvalue = VNil | VBytes string | VString string | VObj 'a

definition default_marshal ::
    "('a \<Rightarrow> string res) \<Rightarrow> (string \<Rightarrow> string) \<Rightarrow> 'a gvalue \<Rightarrow> string res" where
  "default_marshal msgpack s2enc v =
     (case v of
        VNil \<Rightarrow> Ok ''''
      | VBytes b \<Rightarrow> Ok b
      | VString s \<Rightarrow> Ok s
      | VObj x \<Rightarrow> bindR (msgpack x) (\<lambda>b. Ok (compress s2enc b)))"

text \<open>The target selects the branch; a target that is left alone keeps its content.\<close>

definition default_unmarshal ::
    "(string \<Rightarrow> 'a res) \<Rightarrow> (string \<Rightarrow> string res) \<Rightarrow> string \<Rightarrow> 'a gvalue \<Rightarrow> 'a gvalue res" where
  "default_unmarshal unpack s2dec b target =
     (if b = '''' then Ok target
      else case target of
             VNil \<Rightarrow> Ok VNil
           | VBytes _ \<Rightarrow> Ok (VBytes b)
           | VString _ \<Rightarrow> Ok (VString b)
           | VObj _ \<Rightarrow>
               (if last b = noCompression then bindR (unpack (butlast b)) (\<lambda>x. Ok (VObj x))
                else if last b = s2Compression then
                  bindR (s2dec (butlast b)) (\<lambda>d. bindR (unpack d) (\<lambda>x. Ok (VObj x)))
                else Err (GoErr ''unknown compression method'')))"

section \<open>Lemmas\<close>

lemma ttl_bounds: "Item_ttl it = 0 \<or> second \<le> Item_ttl it"
  by (simp add: Item_ttl_def hour_def second_def)

lemma local_none [simp]:
  "local_Get myCache k = ret None" "local_Set myCache k b = ret ()" "local_Del myCache k = ret ()"
  by (simp_all add: local_Get_def local_Set_def local_Del_def myCache_def)

lemma myCache_simps [simp]: "opt_Redis myCache" "\<not> StatsEnabled myCache" "opt_LocalCache myCache = None"
  by (simp_all add: myCache_def)

lemma getBytes_myCache:
  "getBytes svc myCache k skip =
     caseE (redis_Get svc k) (\<lambda>e. fail (if e = RedisNil then ErrCacheMiss else e)) ret"
  by (rule ext) (simp add: getBytes_def count_hit_def count_miss_def bindE_def caseE_def
      split: prod.split res.split)

text \<open>The server's clock at the command sent at a world.\<close>

abbreviation rnow :: "services \<Rightarrow> world \<Rightarrow> time" where
  "rnow svc w \<equiv> svc_rtime svc (Suc (tick w))"

definition touched :: "services \<Rightarrow> world \<Rightarrow> world" where
  "touched svc w = set_keys (live (rnow svc w) (rkeys w)) (bump w)"

lemma touched_simps [simp]:
  "rkeys (touched svc w) = live (rnow svc w) (rkeys w)" "store (touched svc w) = store w"
  "tick (touched svc w) = Suc (tick w)" "mq (touched svc w) = mq w" "queue (touched svc w) = queue w"
  by (simp_all add: touched_def)

lemma redis_Get_hit:
  "redis_ok svc \<Longrightarrow> svc_fault svc (tick w) = NoFault \<Longrightarrow>
   live (rnow svc w) (rkeys w) k = Some (RStr b, dl) \<Longrightarrow>
   redis_Get svc k w = (Ok b, touched svc w)"
  by (simp add: redis_Get_def bindE_def redis_served touched_def)

lemma redis_Get_miss:
  "redis_ok svc \<Longrightarrow> svc_fault svc (tick w) = NoFault \<Longrightarrow>
   live (rnow svc w) (rkeys w) k = None \<Longrightarrow>
   redis_Get svc k w = (Err RedisNil, touched svc w)"
  by (simp add: redis_Get_def bindE_def redis_served touched_def)

lemma redis_Get_Ok:
  assumes "redis_ok svc" and "redis_Get svc k w = (Ok b, w')"
  shows "\<exists>dl. live (rnow svc w) (rkeys w) k = Some (RStr b, dl)" and "w' = touched svc w"
  using assms
  by (auto simp: redis_Get_def redis_def remote_def server_call_def redis_ok_def redis_doc_def bindE_def Let_def
      touched_def set_keys_def split: fault.splits option.splits rval.splits prod.splits)

lemma getSet_hit:
  "redis_Get svc (it_Key it) w = (Ok b, w') \<Longrightarrow>
   getSetItemBytesOnce svc myCache mc it w = (Ok (b, True), w')"
  by (simp add: getSetItemBytesOnce_def getBytes_myCache caseE_def)

lemma not_ctx_miss [simp]:
  "\<not> errors_Is ErrCacheMiss CtxCanceled" "\<not> errors_Is ErrCacheMiss CtxDeadlineExceeded"
  by (simp_all add: ErrCacheMiss_def)

lemma getSet_miss:
  assumes "redis_Get svc (it_Key it) w = (Err e, w1)"
    and "\<not> errors_Is e CtxCanceled" and "\<not> errors_Is e CtxDeadlineExceeded"
    and "Item_value it w1 = (Ok x, w2)" and "marshal mc x = Ok b"
    and "store_item svc myCache it b w2 = (Ok (b, True, err), w3)"
  shows "getSetItemBytesOnce svc myCache mc it w = (Ok (b, False), w3)"
  using assms
  by (simp add: getSetItemBytesOnce_def getBytes_myCache caseE_def cache_set_def bindE_def)

text \<open>Storing an item never fails for its caller: the outcome of the Redis command is only
  reported beside the bytes.\<close>

lemma store_item_total:
  "\<exists>err w'. store_item svc myCache it b w = (Ok (b, True, err), w') \<and> store w' = store w \<and> mq w' = mq w"
  by (auto simp: store_item_def caseE_def redis_def remote_def server_call_def Let_def
      split: fault.split rreply.split prod.split)

lemma store_item_SET:
  assumes "redis_ok svc" and "svc_fault svc (tick w) = NoFault"
    and "\<not> it_SetXX it" and "\<not> it_SetNX it" and "Item_ttl it \<noteq> 0"
  shows "store_item svc myCache it b w =
     (Ok (b, True, None),
      set_keys ((live (rnow svc w) (rkeys w))(it_Key it \<mapsto> (RStr b, Some (rnow svc w + Item_ttl it)))) (bump w))"
  using assms ttl_bounds [of it]
  by (simp add: store_item_def caseE_def redis_served expiry_def deadline_def second_def)


subsection \<open>Reading through\<close>

lemma Once_hit:
  assumes "redis_ok svc" and "0 < svc_depth svc" and "svc_fault svc (tick w) = NoFault"
    and "live (rnow svc w) (rkeys w) (it_Key it) = Some (RStr b, dl)"
    and "unmarshal mc b = Ok v" and "b \<noteq> ''''" and "it_Value it \<noteq> None"
  shows "Once svc myCache mc it w = (Ok (Some v), touched svc w)"
proof -
  obtain n where n: "svc_depth svc = Suc n" using assms(2) by (cases "svc_depth svc") auto
  have "getSetItemBytesOnce svc myCache mc it w = (Ok (b, True), touched svc w)"
    using getSet_hit redis_Get_hit assms by blast
  then show ?thesis using assms n by (simp add: Once_def bindE_def caseE_liftR)
qed

text \<open>What \<open>Do\<close> computed is what the caller gets, whatever becomes of the bytes.\<close>

lemma Once_computed:
  assumes "0 < svc_depth svc" and "it_Value it \<noteq> None"
    and "redis_Get svc (it_Key it) w = (Err e, w1)"
    and "\<not> errors_Is e CtxCanceled" and "\<not> errors_Is e CtxDeadlineExceeded"
    and "Item_value it w1 = (Ok x, w2)" and "marshal mc x = Ok b" and "unmarshal mc b = Ok v"
    and "b \<noteq> ''''"
    and "store_item svc myCache it b w2 = (Ok (b, True, err), w3)"
  shows "Once svc myCache mc it w = (Ok (Some v), w3)"
proof -
  obtain n where n: "svc_depth svc = Suc n" using assms(1) by (cases "svc_depth svc") auto
  have "getSetItemBytesOnce svc myCache mc it w = (Ok (b, False), w3)"
    using getSet_miss assms by blast
  then show ?thesis using assms n by (simp add: Once_def bindE_def caseE_liftR)
qed

lemma Once_miss:
  assumes "redis_ok svc" and "0 < svc_depth svc" and "it_Value it \<noteq> None"
    and "svc_fault svc (tick w) = NoFault"
    and "live (rnow svc w) (rkeys w) (it_Key it) = None"
    and "Item_value it (touched svc w) = (Ok x, w2)" and "marshal mc x = Ok b"
    and "unmarshal mc b = Ok v" and "b \<noteq> ''''"
    and "store_item svc myCache it b w2 = (Ok (b, True, err), w3)"
  shows "Once svc myCache mc it w = (Ok (Some v), w3)"
  by (rule Once_computed [OF assms(2,3) redis_Get_miss]) (use assms in simp_all)

lemma json_of_simps [simp]:
  "marshal (json_of c) None = Ok ''null''" "marshal (json_of c) (Some x) = enc c x"
  "unmarshal (json_of c) = dec c"
  by (simp_all add: json_of_def)

subsection \<open>The shape in which the repositories use the cache\<close>

definition cached_item :: "string \<Rightarrow> int \<Rightarrow> 'a \<Rightarrow> 'a option M \<Rightarrow> 'a Item" where
  "cached_item key ttl target d =
     \<lparr>it_Key = key, it_Value = Some target, it_TTL = ttl, it_Do = Some d, it_SetXX = False,
      it_SetNX = False, it_SkipLocalCache = False\<rparr>"

text \<open>\<open>var x T; err := redis.Once(&cache.Item{Key, Value: &x, TTL, Do})\<close>\<close>

definition cached :: "services \<Rightarrow> 'a codec \<Rightarrow> string \<Rightarrow> int \<Rightarrow> 'a option M \<Rightarrow> 'a M" where
  "cached svc c key ttl d =
     bindE (Once svc myCache (json_of c) (cached_item key ttl (zero c) d))
       (\<lambda>v. ret (case v of Some x \<Rightarrow> x | None \<Rightarrow> zero c))"

lemma cached_item_simps [simp]:
  "it_Key (cached_item key ttl z d) = key" "it_Value (cached_item key ttl z d) = Some z"
  "\<not> it_SetXX (cached_item key ttl z d)" "\<not> it_SetNX (cached_item key ttl z d)"
  "Item_value (cached_item key ttl z d) = d"
  "second \<le> ttl \<Longrightarrow> Item_ttl (cached_item key ttl z d) = ttl"
  by (simp_all add: cached_item_def Item_value_def Item_ttl_def second_def)

lemma cached_hit:
  assumes "redis_ok svc" and "0 < svc_depth svc" and "svc_fault svc (tick w) = NoFault"
    and "live (rnow svc w) (rkeys w) key = Some (RStr b, dl)" and "dec c b = Ok v" and "b \<noteq> ''''"
  shows "cached svc c key ttl d w = (Ok v, touched svc w)"
proof -
  have "Once svc myCache (json_of c) (cached_item key ttl (zero c) d) w = (Ok (Some v), touched svc w)"
    by (rule Once_hit) (use assms in simp_all)
  then show ?thesis by (simp add: cached_def bindE_def)
qed

text \<open>The bytes that \<open>Marshal\<close> gives for what \<open>Do\<close> returned, and the value they decode to.\<close>

definition encoded :: "'a codec \<Rightarrow> 'a option \<Rightarrow> string \<Rightarrow> 'a \<Rightarrow> bool" where
  "encoded c x b v \<longleftrightarrow> marshal (json_of c) x = Ok b \<and> (x = None \<and> v = zero c \<or> x = Some v)"

lemma encoded_dec: "codec_ok c \<Longrightarrow> encoded c x b v \<Longrightarrow> dec c b = Ok v \<and> b \<noteq> ''''"
  by (cases x) (auto simp: encoded_def codec_ok_def simp del: not_None_eq)

lemma encoded_marshal: "encoded c x b v \<Longrightarrow> marshal (json_of c) x = Ok b"
  by (simp add: encoded_def)

lemma cached_miss:
  assumes "redis_ok svc" and "codec_ok c" and "0 < svc_depth svc" and "second \<le> ttl"
    and "svc_fault svc (tick w) = NoFault" and "live (rnow svc w) (rkeys w) key = None"
    and "d (touched svc w) = (Ok x, w2)" and "encoded c x b v" and "svc_fault svc (tick w2) = NoFault"
  shows "cached svc c key ttl d w =
     (Ok v, set_keys ((live (rnow svc w2) (rkeys w2))(key \<mapsto> (RStr b, Some (rnow svc w2 + ttl)))) (bump w2))"
proof -
  have "store_item svc myCache (cached_item key ttl (zero c) d) b w2 =
      (Ok (b, True, None),
       set_keys ((live (rnow svc w2) (rkeys w2))(key \<mapsto> (RStr b, Some (rnow svc w2 + ttl)))) (bump w2))"
    using store_item_SET [OF assms(1,9), of "cached_item key ttl (zero c) d" b] assms(4)
    by (simp add: second_def)
  then have "Once svc myCache (json_of c) (cached_item key ttl (zero c) d) w =
      (Ok (Some v), set_keys ((live (rnow svc w2) (rkeys w2))(key \<mapsto> (RStr b, Some (rnow svc w2 + ttl)))) (bump w2))"
    using assms encoded_dec [OF assms(2,8)] encoded_marshal [OF assms(8)]
    by (intro Once_miss [where x = x and b = b]) simp_all
  then show ?thesis by (simp add: cached_def bindE_def)
qed


text \<open>
  C35. Read-through: on a miss the caller gets what the loader computed, and the entry written
  then answers every later read of that key until its time to live is over, with the same
  value and without running the loader again (a different loader \<open>d'\<close> changes nothing, the
  database is not touched). A loader that returns \<open>nil, nil\<close> is cached as well: the later reads
  give the zero value.
\<close>

theorem Once_read_through:
  assumes "redis_ok svc" and "codec_ok c" and "0 < svc_depth svc" and "second \<le> ttl"
    and "svc_fault svc (tick w) = NoFault" and "live (rnow svc w) (rkeys w) key = None"
    and "d (touched svc w) = (Ok x, w2)" and "encoded c x b v" and "svc_fault svc (tick w2) = NoFault"
    and "svc_fault svc (tick w4) = NoFault" and "rnow svc w4 < rnow svc w2 + ttl"
    and "rkeys w4 key = rkeys (snd (cached svc c key ttl d w)) key"
  shows "fst (cached svc c key ttl d w) = Ok v \<and>
         store (snd (cached svc c key ttl d w)) = store w2 \<and>
         fst (cached svc c key ttl d' w4) = Ok v \<and>
         store (snd (cached svc c key ttl d' w4)) = store w4"
proof -
  have first: "cached svc c key ttl d w =
      (Ok v, set_keys ((live (rnow svc w2) (rkeys w2))(key \<mapsto> (RStr b, Some (rnow svc w2 + ttl)))) (bump w2))"
    by (rule cached_miss [where d = d and x = x and w = w and c = c and b = b]) (fact assms)+
  have "rkeys w4 key = Some (RStr b, Some (rnow svc w2 + ttl))" using assms(12) first by simp
  then have "live (rnow svc w4) (rkeys w4) key = Some (RStr b, Some (rnow svc w2 + ttl))"
    using assms(11) by (simp add: live_def)
  then have "cached svc c key ttl d' w4 = (Ok v, touched svc w4)"
    using assms(1,3,10) encoded_dec [OF assms(2,8)] by (intro cached_hit [where b = b]) simp_all
  with first show ?thesis by simp
qed

theorem Once_read_through_witness:
  "let svc = sample_svc (\<lambda>_ _ _. False); d = ret (Some 5); w4 = snd (cached svc int_codec ''k'' hour d empty_world)
   in fst (cached svc int_codec ''k'' hour d empty_world) = Ok 5 \<and>
      fst (cached svc int_codec ''k'' hour (fail RedisNil) w4) = Ok 5"
proof -
  let ?svc = "sample_svc (\<lambda>_ _ _. False)" and ?d = "ret (Some 5)"
  have "fst (cached ?svc int_codec ''k'' hour ?d empty_world) = Ok 5 \<and>
        store (snd (cached ?svc int_codec ''k'' hour ?d empty_world)) = store (touched ?svc empty_world) \<and>
        fst (cached ?svc int_codec ''k'' hour (fail RedisNil) (snd (cached ?svc int_codec ''k'' hour ?d empty_world))) = Ok 5 \<and>
        store (snd (cached ?svc int_codec ''k'' hour (fail RedisNil) (snd (cached ?svc int_codec ''k'' hour ?d empty_world)))) =
          store (snd (cached ?svc int_codec ''k'' hour ?d empty_world))"
    by (rule Once_read_through [where x = "Some 5" and b = "FormatInt 5" and ?w2.0 = "touched ?svc empty_world"])
      (simp_all add: codec_ok_int hour_def second_def live_def encoded_def is_int64_small)
  then show ?thesis by (simp add: Let_def)
qed

text \<open>
  Redis being unreachable does not fail a read: when \<open>GET\<close> fails in the network (other than
  by the cancellation of the request) the loader runs and its value is returned, whatever
  happens to the \<open>SET\<close> that follows; the database is only touched by the loader.
\<close>

theorem Once_redis_down:
  assumes "codec_ok c" and "0 < svc_depth svc"
    and "svc_fault svc (tick w) = FailBefore e"
    and "\<not> errors_Is e CtxCanceled" and "\<not> errors_Is e CtxDeadlineExceeded"
    and "d (bump w) = (Ok x, w2)" and "encoded c x b v"
  shows "fst (cached svc c key ttl d w) = Ok v \<and> store (snd (cached svc c key ttl d w)) = store w2"
proof -
  let ?it = "cached_item key ttl (zero c) d"
  obtain err w3 where st: "store_item svc myCache ?it b w2 = (Ok (b, True, err), w3)" "store w3 = store w2"
    using store_item_total by blast
  have "redis_Get svc key w = (Err e, bump w)"
    using assms(3) by (simp add: redis_Get_def redis_def remote_def bindE_def)
  then have "Once svc myCache (json_of c) ?it w = (Ok (Some v), w3)"
    using assms st encoded_dec [OF assms(1,7)]
    by (intro Once_computed [where e = e and ?w1.0 = "bump w" and x = x and ?w2.0 = w2 and b = b])
      (simp_all add: encoded_def)
  with st show ?thesis by (simp add: cached_def bindE_def)
qed

theorem Once_redis_down_witness:
  "fst (cached ((sample_svc (\<lambda>_ _ _. False))\<lparr>svc_fault := \<lambda>_. FailBefore (GoErr ''connection refused'')\<rparr>)
          int_codec ''k'' hour (ret (Some 5)) empty_world) = Ok 5"
proof -
  let ?svc = "(sample_svc (\<lambda>_ _ _. False))\<lparr>svc_fault := \<lambda>_. FailBefore (GoErr ''connection refused'')\<rparr>"
  have "fst (cached ?svc int_codec ''k'' hour (ret (Some 5)) empty_world) = Ok 5 \<and>
        store (snd (cached ?svc int_codec ''k'' hour (ret (Some 5)) empty_world)) = store (bump empty_world)"
    by (rule Once_redis_down [where x = "Some 5" and b = "FormatInt 5" and e = "GoErr ''connection refused''"])
      (simp_all add: codec_ok_int encoded_def is_int64_small)
  then show ?thesis by simp
qed

text \<open>
  A cancelled request stops at the cache: when \<open>GET\<close> fails because the context was
  cancelled or timed out the loader does not run, the error is returned and nothing changes.
\<close>

theorem Once_cancelled:
  assumes "0 < svc_depth svc" and "svc_fault svc (tick w) = FailBefore e"
    and "errors_Is e CtxCanceled \<or> errors_Is e CtxDeadlineExceeded"
  shows "cached svc c key ttl d w = (Err e, bump w)"
proof -
  obtain n where n: "svc_depth svc = Suc n" using assms(1) by (cases "svc_depth svc") auto
  have "e \<noteq> RedisNil" using assms(3) by auto
  then show ?thesis
    using assms n
    by (auto simp: cached_def Once_def getSetItemBytesOnce_def getBytes_myCache redis_Get_def
        redis_def remote_def bindE_def caseE_def)
qed

theorem Once_cancelled_witness:
  "fst (cached ((sample_svc (\<lambda>_ _ _. False))\<lparr>svc_fault := \<lambda>_. FailBefore CtxCanceled\<rparr>)
          int_codec ''k'' hour (ret (Some 5)) empty_world) = Err CtxCanceled"
  by (subst Once_cancelled [where e = CtxCanceled]) simp_all

text \<open>The world after an entry was read and deleted.\<close>

definition evicted :: "services \<Rightarrow> string \<Rightarrow> world \<Rightarrow> world" where
  "evicted svc key w =
     (let w1 = touched svc w in set_keys ((live (rnow svc w1) (rkeys w1))(key := None)) (bump w1))"

lemma evicted_simps [simp]:
  "store (evicted svc key w) = store w" "tick (evicted svc key w) = Suc (Suc (tick w))"
  "rkeys (evicted svc key w) key = None" "live t (rkeys (evicted svc key w)) key = None"
  by (simp_all add: evicted_def Let_def live_None_iff)






subsection \<open>A cache in front of a query does not write to the database\<close>

lemma tables_redis_Get [keeps_rules]: "keeps tables (redis_Get svc k)"
  unfolding redis_Get_def by (auto intro!: keeps_rules split: rreply.split)

lemma tables_Delete [keeps_rules]: "keeps tables (Delete svc myCache k)"
  unfolding Delete_def by (auto intro!: keeps_rules)

lemma tables_cache_set:
  assumes "keeps tables (Item_value it)"
  shows "keeps tables (cache_set svc myCache mc it)"
  unfolding cache_set_def store_item_def using assms
  by (auto intro!: keeps_rules simp: Let_def)

lemma tables_Once_depth:
  assumes "keeps tables (Item_value it)"
  shows "keeps tables (Once_depth n svc myCache mc it)"
  using assms tables_cache_set [OF assms, of svc mc]
  by (induction n) (auto intro!: keeps_rules simp: getSetItemBytesOnce_def getBytes_myCache)

lemma tables_cached [keeps_rules]: "keeps tables d \<Longrightarrow> keeps tables (cached svc c key ttl d)"
  unfolding cached_def Once_def by (auto intro!: keeps_rules tables_Once_depth)

subsection \<open>The default codec\<close>

lemma compress_ne [simp]: "compress e b \<noteq> ''''"
  by (simp add: compress_def)

text \<open>A pointer to a variable of the value's type; for nil any target will do.\<close>

fun same_kind :: "'a gvalue \<Rightarrow> 'a gvalue \<Rightarrow> bool" where
  "same_kind VNil t = True"
| "same_kind (VBytes _) t = (case t of VBytes _ \<Rightarrow> True | _ \<Rightarrow> False)"
| "same_kind (VString _) t = (case t of VString _ \<Rightarrow> True | _ \<Rightarrow> False)"
| "same_kind (VObj _) t = (case t of VObj _ \<Rightarrow> True | _ \<Rightarrow> False)"

text \<open>
  C40. The default codec round-trips: what \<open>_marshal\<close> wrote for a value, \<open>_unmarshal\<close> reads back into a
  target of the same type, for byte slices and strings as they are and for every other value on both
  sides of the compression threshold. The values without bytes (nil, the empty slice and the empty
  string) leave the target as it was. Bytes whose last one is neither tag are refused for
  such a value. The hypotheses are that msgpack and s2 decode what they encoded.
\<close>

theorem default_codec_roundtrip:
  assumes "\<And>x b. msgpack x = Ok b \<Longrightarrow> unpack b = Ok x" and "\<And>b. s2dec (s2enc b) = Ok b"
    and "same_kind v target" and "default_marshal msgpack s2enc v = Ok b"
  shows "default_unmarshal unpack s2dec b target = Ok (if v \<in> {VNil, VBytes '''', VString ''''} then target else v) \<and>
         (\<forall>x d. v = VObj x \<longrightarrow> msgpack x = Ok d \<longrightarrow>
            b = (if length d < 64 then d @ [CHR 0x00] else s2enc d @ [CHR 0x01])) \<and>
         (\<forall>b' y. b' \<noteq> '''' \<longrightarrow> last b' \<notin> {CHR 0x00, CHR 0x01} \<longrightarrow>
            default_unmarshal unpack s2dec b' (VObj y) = Err (GoErr ''unknown compression method''))"
proof (intro conjI)
  note tags = noCompression_def s2Compression_def compressionThreshold_def
  show "default_unmarshal unpack s2dec b target = Ok (if v \<in> {VNil, VBytes '''', VString ''''} then target else v)"
    using assms
    by (cases v; cases target) (auto simp: default_marshal_def default_unmarshal_def compress_def tags elim!: bindR.elims split: if_splits)
  show "\<forall>x d. v = VObj x \<longrightarrow> msgpack x = Ok d \<longrightarrow> b = (if length d < 64 then d @ [CHR 0x00] else s2enc d @ [CHR 0x01])"
    using assms(4) by (auto simp: default_marshal_def compress_def tags)
  show "\<forall>b' y. b' \<noteq> '''' \<longrightarrow> last b' \<notin> {CHR 0x00, CHR 0x01} \<longrightarrow>
            default_unmarshal unpack s2dec b' (VObj y) = Err (GoErr ''unknown compression method'')"
    by (simp add: default_unmarshal_def tags)
qed

text \<open>Both sides of the threshold, with reversal in the place of s2.\<close>

theorem default_codec_roundtrip_witness:
  "default_unmarshal Ok (\<lambda>b. Ok (rev b)) (''abc'' @ [CHR 0x00]) (VObj '''') = Ok (VObj ''abc'') \<and>
   default_unmarshal Ok (\<lambda>b. Ok (rev b)) (replicate 63 CHR ''x'' @ ''y'' @ [CHR 0x01]) (VObj '''') =
     Ok (VObj (CHR ''y'' # replicate 63 CHR ''x'')) \<and>
   default_unmarshal Ok (\<lambda>b. Ok (rev b)) '''' (VString ''old'') = Ok (VString ''old'')"
proof -
  have "default_marshal Ok rev (VObj ''abc'') = Ok (''abc'' @ [CHR 0x00])"
    "default_marshal Ok rev (VObj (CHR ''y'' # replicate 63 CHR ''x'')) = Ok (replicate 63 CHR ''x'' @ ''y'' @ [CHR 0x01])"
    "default_marshal Ok rev (VString '''') = Ok ''''"
    by (simp_all add: default_marshal_def compress_def compressionThreshold_def noCompression_def s2Compression_def)
  from this [THEN default_codec_roundtrip [of Ok Ok "\<lambda>b. Ok (rev b)" rev, rotated 3]]
  show ?thesis by simp
qed

end
