(* ===== verification/Keys.thy ===== *)
theory Keys
  imports Activity_Model
begin

text \<open>
  The key builders of \<open>internal/data/keys.go\<close>. Every Redis key of the program comes from
  one of these formats, so that two different entities share a counter only if two builders
  agree: the lemmas show when they cannot. \<open>num_key_inj\<close> and \<open>num_text_key_inj\<close> carry the proofs:
  a decimal number contains no underscore, so the first underscore after it ends it.
\<close>

definition GetStrategyKey :: "int \<Rightarrow> string" where
  "GetStrategyKey sid = ''big_market_strategy_'' @ FormatInt sid"

definition GetStrategyAwardKey :: "int \<Rightarrow> string" where
  "GetStrategyAwardKey sid = ''big_market_strategy_award_key_'' @ FormatInt sid"

definition GetStrategyRateTableKey :: "string \<Rightarrow> string" where
  "GetStrategyRateTableKey sid = ''big_market_strategy_rate_table_key_'' @ sid"

definition GetStrategyRateRangeKey :: "string \<Rightarrow> string" where
  "GetStrategyRateRangeKey sid = ''big_market_strategy_rate_range_key_'' @ sid"

definition GetStrategyAwardCountKey :: "int \<Rightarrow> int \<Rightarrow> string" where
  "GetStrategyAwardCountKey sid aid =
     ''big_market_strategy_award_count_key_'' @ FormatInt sid @ ''_'' @ FormatInt aid"

definition GetStrategyRuleModelKey :: "int \<Rightarrow> int \<Rightarrow> string" where
  "GetStrategyRuleModelKey sid aid =
     ''big_market_strategy_rule_model_'' @ FormatInt sid @ ''_'' @ FormatInt aid"

definition GetStrategyRuleValueKey :: "int \<Rightarrow> string \<Rightarrow> string" where
  "GetStrategyRuleValueKey sid m =
     ''big_market_strategy_rule_value_key_'' @ FormatInt sid @ ''_'' @ m"

definition GetRuleTreeKey :: "string \<Rightarrow> string" where
  "GetRuleTreeKey tid = ''big_market_rule_tree_'' @ tid"

definition GetStrategyRuleWeightKey :: "int \<Rightarrow> string" where
  "GetStrategyRuleWeightKey sid = ''big_market_strategy_rule_weight_key_'' @ FormatInt sid"

definition GetActivitySkuKey :: "int \<Rightarrow> string" where
  "GetActivitySkuKey sku = ''big_market_activity_sku_'' @ FormatInt sku"

definition GetActivityKey :: "int \<Rightarrow> string" where
  "GetActivityKey aid = ''big_market_activity_'' @ FormatInt aid"

definition GetActivityCountKey :: "int \<Rightarrow> string" where
  "GetActivityCountKey cid = ''big_market_activity_count_'' @ FormatInt cid"

definition GetActivityAccountKey :: "int \<Rightarrow> string \<Rightarrow> string" where
  "GetActivityAccountKey aid uid = ''activity_account_key_'' @ FormatInt aid @ ''_'' @ uid"

definition GetActivityAccountTotalSurplusKey :: "int \<Rightarrow> string \<Rightarrow> string" where
  "GetActivityAccountTotalSurplusKey aid uid =
     ''activity_account_total_surplus_'' @ FormatInt aid @ ''_'' @ uid"

definition GetActivityAccountMonthSurplusKey :: "int \<Rightarrow> string \<Rightarrow> string \<Rightarrow> string" where
  "GetActivityAccountMonthSurplusKey aid uid month =
     ''activity_account_month_surplus_'' @ FormatInt aid @ ''_'' @ uid @ ''_'' @ month"

definition GetActivityAccountDaySurplusKey :: "int \<Rightarrow> string \<Rightarrow> string \<Rightarrow> string" where
  "GetActivityAccountDaySurplusKey aid uid day =
     ''activity_account_day_surplus_'' @ FormatInt aid @ ''_'' @ uid @ ''_'' @ day"

definition GetPendingRaffleOrderKey :: "int \<Rightarrow> string \<Rightarrow> string" where
  "GetPendingRaffleOrderKey aid uid = ''pending_raffle_order_'' @ FormatInt aid @ ''_'' @ uid"

definition GetActivityResultHashKey :: "int \<Rightarrow> int \<Rightarrow> string" where
  "GetActivityResultHashKey aid shard =
     ''activity_result_hash_'' @ FormatInt aid @ ''_'' @ FormatInt shard"

definition GetActivitySkuStockCountKey :: "int \<Rightarrow> string" where
  "GetActivitySkuStockCountKey sku = ''activity_sku_stock_count_key_'' @ FormatInt sku"

text \<open>\<open>getActivitySkuStockCountKey\<close> of \<open>biz/activity/stock.go\<close>, the key the stock is preheated under.\<close>

definition getActivitySkuStockCountKey :: "int \<Rightarrow> string" where
  "getActivitySkuStockCountKey sku = ''activity_sku_stock_count_'' @ FormatInt sku"

lemmas activity_key_defs =
  GetActivityAccountKey_def GetActivityAccountTotalSurplusKey_def
  GetActivityAccountMonthSurplusKey_def GetActivityAccountDaySurplusKey_def
  GetPendingRaffleOrderKey_def GetActivityResultHashKey_def GetActivitySkuStockCountKey_def
  GetActivitySkuKey_def GetActivityKey_def GetActivityCountKey_def

lemmas strategy_key_defs =
  GetStrategyKey_def GetStrategyAwardKey_def GetStrategyRateTableKey_def
  GetStrategyRateRangeKey_def GetStrategyAwardCountKey_def GetStrategyRuleModelKey_def
  GetStrategyRuleValueKey_def GetRuleTreeKey_def GetStrategyRuleWeightKey_def

section \<open>Lemmas\<close>

lemma FormatInt_no_underscore: "CHR ''_'' \<notin> set (FormatInt n)"
  using FormatInt_chars [of "CHR ''_''" n] by (auto simp: digit_val_def)

lemma FormatInt_no_letter:
  assumes "digit_val c = None" and "c \<noteq> CHR ''-''"
  shows "FormatInt n \<noteq> c # s"
  using FormatInt_chars [of c n] assms by (metis list.set_intros(1))

lemma num_text_key_inj:
  assumes "FormatInt a @ ''_'' @ s = FormatInt b @ ''_'' @ t"
  shows "a = b \<and> s = t"
proof -
  have "FormatInt a = FormatInt b \<and> s = t"
    using assms split_append_sep [OF FormatInt_no_underscore, of a s]
      split_append_sep [OF FormatInt_no_underscore, of b t]
      append_eq_append_conv2 FormatInt_no_underscore
    by (metis append.assoc append_Cons append_Nil append_same_eq list.inject same_append_eq)
  then show ?thesis using FormatInt_inj by blast
qed

lemma num_key_inj [simp]: "FormatInt a = FormatInt b \<longleftrightarrow> a = b"
  using FormatInt_inj by blast

lemma num_text_key_iff [simp]:
  "FormatInt a @ CHR ''_'' # s = FormatInt b @ CHR ''_'' # t \<longleftrightarrow> a = b \<and> s = t"
  using num_text_key_inj [of a s b t] by auto

lemma two_num_key_iff:
  "FormatInt a @ CHR ''_'' # FormatInt x = FormatInt b @ CHR ''_'' # FormatInt y \<longleftrightarrow> a = b \<and> x = y"
  by simp

text \<open>A user id may contain underscores; a date of fixed length after it still ends the key
  unambiguously.\<close>

lemma user_date_key_iff:
  "length d = length d' \<Longrightarrow>
   FormatInt a @ CHR ''_'' # u @ CHR ''_'' # d = FormatInt a' @ CHR ''_'' # u' @ CHR ''_'' # d' \<longleftrightarrow>
     a = a' \<and> u = u' \<and> d = d'"
  by auto

text \<open>The four keys of one participation, in the order in which the scripts take them.\<close>

definition quota_keys :: "int \<Rightarrow> string \<Rightarrow> string \<Rightarrow> string \<Rightarrow> string list" where
  "quota_keys aid uid day month =
     [GetActivityAccountTotalSurplusKey aid uid, GetActivityAccountDaySurplusKey aid uid day,
      GetActivityAccountMonthSurplusKey aid uid month, GetPendingRaffleOrderKey aid uid]"

lemma quota_keys_distinct [simp]: "distinct (quota_keys aid uid day month)"
  by (simp add: quota_keys_def activity_key_defs)

lemma quota_keys_neqs [simp]:
  "GetActivityAccountTotalSurplusKey a u \<noteq> GetActivityAccountDaySurplusKey a' u' d"
  "GetActivityAccountTotalSurplusKey a u \<noteq> GetActivityAccountMonthSurplusKey a' u' m"
  "GetActivityAccountTotalSurplusKey a u \<noteq> GetPendingRaffleOrderKey a' u'"
  "GetActivityAccountDaySurplusKey a u d \<noteq> GetActivityAccountMonthSurplusKey a' u' m"
  "GetActivityAccountDaySurplusKey a u d \<noteq> GetPendingRaffleOrderKey a' u'"
  "GetActivityAccountMonthSurplusKey a u m \<noteq> GetPendingRaffleOrderKey a' u'"
  by (simp_all add: activity_key_defs)

lemmas quota_keys_neqs_sym [simp] = quota_keys_neqs [symmetric]

text \<open>
  The Redis counters of two participants never share a key: for different
  (activity, user) pairs the total, day, month and pending-order keys built by
  \<open>data/keys.go\<close> are four disjoint families, whatever characters the user ids contain, as
  long as the date suffixes have the same length.
\<close>

theorem quota_keys_separate:
  assumes "(aid, uid) \<noteq> (aid', uid')"
    and "length day = length day'" and "length month = length month'"
  shows "set (quota_keys aid uid day month) \<inter> set (quota_keys aid' uid' day' month') = {}"
  using assms
  by (auto simp: quota_keys_def GetActivityAccountTotalSurplusKey_def
      GetActivityAccountDaySurplusKey_def GetActivityAccountMonthSurplusKey_def
      GetPendingRaffleOrderKey_def user_date_key_iff)

theorem quota_keys_separate_witness:
  "set (quota_keys 1 ''u_1'' ''2024-01-31'' ''2024-01'') \<inter>
   set (quota_keys 1 ''u'' ''2024-01-31'' ''2024-01'') = {}"
  by (rule quota_keys_separate) simp_all

end
