(* ===== verification/Partake_Repo.thy ===== *)
theory Partake_Repo
  imports Cache Keys
begin

text \<open>
  \<open>internal/data/activity_partake.go\<close>: the repository side of taking part in an activity. The
  two Lua scripts run as one atomic step each on the Redis keyspace; the two transactions run
  as one atomic step each on the tables of the user's shard.
\<close>

section \<open>Rows\<close>

definition account_row :: "string \<Rightarrow> int \<Rightarrow> row \<Rightarrow> bool" where
  "account_row uid aid r \<longleftrightarrow>
     is_RAccount r \<and> acc_UserID (the_account r) = uid \<and> acc_ActivityID (the_account r) = aid"

definition day_row :: "string \<Rightarrow> int \<Rightarrow> string \<Rightarrow> row \<Rightarrow> bool" where
  "day_row uid aid d r \<longleftrightarrow>
     is_RDay r \<and> day_UserID (the_day r) = uid \<and> day_ActivityID (the_day r) = aid \<and> day_Day (the_day r) = d"

definition month_row :: "string \<Rightarrow> int \<Rightarrow> string \<Rightarrow> row \<Rightarrow> bool" where
  "month_row uid aid m r \<longleftrightarrow>
     is_RMonth r \<and> mon_UserID (the_month r) = uid \<and> mon_ActivityID (the_month r) = aid \<and> mon_Month (the_month r) = m"

definition order_row :: "string \<Rightarrow> string \<Rightarrow> row \<Rightarrow> bool" where
  "order_row uid oid r \<longleftrightarrow>
     is_RRaffleOrder r \<and> uo_UserID (the_raffle_order r) = uid \<and> uo_OrderID (the_raffle_order r) = oid"

definition on_account :: "(po_RaffleActivityAccount \<Rightarrow> po_RaffleActivityAccount) \<Rightarrow> row \<Rightarrow> row" where
  "on_account f r = (case r of RAccount a \<Rightarrow> RAccount (f a) | _ \<Rightarrow> r)"

definition on_day :: "(po_RaffleActivityAccountDay \<Rightarrow> po_RaffleActivityAccountDay) \<Rightarrow> row \<Rightarrow> row" where
  "on_day f r = (case r of RDay a \<Rightarrow> RDay (f a) | _ \<Rightarrow> r)"

definition on_month :: "(po_RaffleActivityAccountMonth \<Rightarrow> po_RaffleActivityAccountMonth) \<Rightarrow> row \<Rightarrow> row" where
  "on_month f r = (case r of RMonth a \<Rightarrow> RMonth (f a) | _ \<Rightarrow> r)"

definition on_order :: "(po_UserRaffleOrder \<Rightarrow> po_UserRaffleOrder) \<Rightarrow> row \<Rightarrow> row" where
  "on_order f r = (case r of RRaffleOrder a \<Rightarrow> RRaffleOrder (f a) | _ \<Rightarrow> r)"

text \<open>\<open>"user_raffle_order_" + tableSuffix\<close>\<close>

definition order_table :: "string \<Rightarrow> string" where
  "order_table suffix = ''user_raffle_order_'' @ suffix"

lemma order_table_neqs [simp]:
  "order_table s \<noteq> ''raffle_activity_account''" "order_table s \<noteq> ''raffle_activity_account_month''"
  "order_table s \<noteq> ''raffle_activity_account_day''" "order_table s \<noteq> ''task''"
  by (simp_all add: order_table_def)

lemmas order_table_neqs_sym [simp] = order_table_neqs [symmetric]

section \<open>Queries\<close>

definition days10 :: int where "days10 = 10 * 24 * hour"

text \<open>\<open>if errors.Is(err, gorm.ErrRecordNotFound) { return nil, nil }; return nil, err\<close>\<close>

definition or_nil :: "gerr \<Rightarrow> 'a option M" where
  "or_nil e = (if errors_Is e GormRecordNotFound then ret None else fail e)"

definition QueryRaffleActivity :: "services \<Rightarrow> int \<Rightarrow> Activity M" where
  "QueryRaffleActivity svc aid =
     cached svc (js_Activity svc) (GetActivityKey aid) days10
       (caseE (gorm_First svc ''default'' ''raffle_activity''
                 (\<lambda>r. is_RActivity r \<and> ra_ActivityID (the_activity r) = aid))
          or_nil (\<lambda>r. ret (Some (RaffleActivity_ToEntity (the_activity r)))))"

definition QueryActivityAccount :: "services \<Rightarrow> DBRouter \<Rightarrow> string \<Rightarrow> int \<Rightarrow> ActivityAccount M" where
  "QueryActivityAccount svc rt uid aid =
     cached svc (js_ActivityAccount svc) (GetActivityAccountKey aid uid) days10
       (bindE (shard rt uid) (\<lambda>(db, _).
        bindE (deref db) (\<lambda>db.
        caseE (gorm_First svc db ''raffle_activity_account'' (account_row uid aid))
          or_nil (\<lambda>r. ret (Some (RaffleActivityAccount_ToEntity (the_account r)))))))"

definition QueryNoUsedRaffleOrder ::
    "services \<Rightarrow> DBRouter \<Rightarrow> string \<Rightarrow> int \<Rightarrow> UserRaffleOrder option M" where
  "QueryNoUsedRaffleOrder svc rt uid aid =
     bindE
       (cached svc (js_UserRaffleOrder svc)
          (''no_used_raffle_order_'' @ FormatInt aid @ ''_'' @ uid) (5 * second)
          (bindE (shard rt uid) (\<lambda>(db, suffix).
           case db of
             None \<Rightarrow> fail ErrDBRouterError
           | Some db \<Rightarrow>
               caseE (gorm_First svc db (order_table suffix)
                        (\<lambda>r. is_RRaffleOrder r \<and> uo_UserID (the_raffle_order r) = uid \<and>
                             uo_ActivityID (the_raffle_order r) = aid \<and>
                             uo_OrderState (the_raffle_order r) = UserRaffleOrderStateCreate))
                 or_nil (\<lambda>r. ret (Some (UserRaffleOrder_ToEntity (the_raffle_order r)))))))
       (\<lambda>order. ret (if ur_OrderID order = '''' then None else Some order))"

definition QueryActivityAccountDay ::
    "services \<Rightarrow> DBRouter \<Rightarrow> string \<Rightarrow> int \<Rightarrow> string \<Rightarrow> ActivityAccountDay option M" where
  "QueryActivityAccountDay svc rt uid aid d =
     bindE (shard rt uid) (\<lambda>(db, _). bindE (deref db) (\<lambda>db.
     caseE (gorm_First svc db ''raffle_activity_account_day'' (day_row uid aid d))
       or_nil (\<lambda>r. ret (Some (RaffleActivityAccountDay_ToEntity (the_day r))))))"

definition QueryActivityAccountMonth ::
    "services \<Rightarrow> DBRouter \<Rightarrow> string \<Rightarrow> int \<Rightarrow> string \<Rightarrow> ActivityAccountMonth option M" where
  "QueryActivityAccountMonth svc rt uid aid m =
     bindE (shard rt uid) (\<lambda>(db, _). bindE (deref db) (\<lambda>db.
     caseE (gorm_First svc db ''raffle_activity_account_month'' (month_row uid aid m))
       or_nil (\<lambda>r. ret (Some (RaffleActivityAccountMonth_ToEntity (the_month r))))))"

definition QueryRaffleActivityAccountPartakeCount ::
    "services \<Rightarrow> DBRouter \<Rightarrow> string \<Rightarrow> int \<Rightarrow> int M" where
  "QueryRaffleActivityAccountPartakeCount svc rt uid aid =
     bindE (shard rt uid) (\<lambda>(db, _). bindE (deref db) (\<lambda>db.
     caseE (gorm_First svc db ''raffle_activity_account'' (account_row uid aid))
       (\<lambda>e. if errors_Is e GormRecordNotFound then ret 0 else fail e)
       (\<lambda>r. ret (acc_TotalCount (the_account r) - acc_TotalCountSurplus (the_account r)))))"

definition QueryRaffleActivityAccountDayPartakeCount ::
    "services \<Rightarrow> DBRouter \<Rightarrow> string \<Rightarrow> int \<Rightarrow> int M" where
  "QueryRaffleActivityAccountDayPartakeCount svc rt uid aid =
     bindE (shard rt uid) (\<lambda>(db, _).
     bindE (now svc) (\<lambda>t. bindE (deref db) (\<lambda>db.
     caseE (gorm_First svc db ''raffle_activity_account_day'' (day_row uid aid (fmt_day (svc_zone svc) t)))
       (\<lambda>e. if errors_Is e GormRecordNotFound then ret 0 else fail e)
       (\<lambda>r. ret (day_DayCount (the_day r) - day_DayCountSurplus (the_day r))))))"

section \<open>The quota script\<close>

text \<open>Values of a script's result table.\<close>

datatype lval = LInt int | LStr string

definition bulk :: "rreply \<Rightarrow> string option" where
  "bulk r = (case r of RBulk s \<Rightarrow> Some s | _ \<Rightarrow> None)"

definition arr :: "rreply \<Rightarrow> string option list" where
  "arr r = (case r of RArr xs \<Rightarrow> xs | _ \<Rightarrow> [])"

text \<open>\<open>tonumber(x) <= 0\<close>; comparing nil is a run-time error of the script.\<close>

definition lua_le0 :: "services \<Rightarrow> string \<Rightarrow> (bool, keyspace) act" where
  "lua_le0 svc s =
     (case svc_lua_le0 svc s of
        Some b \<Rightarrow> ret b
      | None \<Rightarrow> fail (GoErr ''ERR attempt to compare nil with number''))"

definition pendingRaffleOrderTTL :: int where
  "pendingRaffleOrderTTL = 30 * 60 * second"

text \<open>\<open>EXPIRE key ARGV[4]\<close>: the argument is a number of seconds in text.\<close>

definition expire_arg :: "(rcmd \<Rightarrow> (rreply, keyspace) act) \<Rightarrow> string \<Rightarrow> string \<Rightarrow> (rreply, keyspace) act" where
  "expire_arg call k a =
     (case redis_int a of Some n \<Rightarrow> call (EXPIRE k (n * second)) | None \<Rightarrow> fail NotAnInteger)"

text \<open>The part of the script after the pending order was found missing or spent.\<close>

definition take_quota ::
    "services \<Rightarrow> string \<Rightarrow> string \<Rightarrow> string \<Rightarrow> string \<Rightarrow> string \<Rightarrow> string \<Rightarrow> string \<Rightarrow> string \<Rightarrow> lval list script" where
  "take_quota svc k1 k2 k3 k4 a1 a2 a3 a4 call =
     bindE (call (GET k1)) (\<lambda>r1.
     bindE (call (GET k2)) (\<lambda>r2.
     bindE (call (GET k3)) (\<lambda>r3.
     case (bulk r1, bulk r2, bulk r3) of
       (Some tot, Some day, Some month) \<Rightarrow>
         bindE (lua_le0 svc tot) (\<lambda>t0. if t0 then ret [LInt (-2)] else
         bindE (lua_le0 svc day) (\<lambda>d0. if d0 then ret [LInt (-3)] else
         bindE (lua_le0 svc month) (\<lambda>m0. if m0 then ret [LInt (-4)] else
         bindE (call (INCRBY k1 (-1))) (\<lambda>_.
         bindE (call (INCRBY k2 (-1))) (\<lambda>_.
         bindE (call (INCRBY k3 (-1))) (\<lambda>_.
         bindE (call (HSET k4 [(''oid'', a1), (''sid'', a2), (''st'', a3)])) (\<lambda>_.
         bindE (expire_arg call k4 a4) (\<lambda>_.
         ret [LInt 1, LStr a1, LStr a2, LStr a3]))))))))
     | _ \<Rightarrow> ret [LInt (-1)])))"

definition get_or_create_script ::
    "services \<Rightarrow> string \<Rightarrow> string \<Rightarrow> string \<Rightarrow> string \<Rightarrow> string \<Rightarrow> string \<Rightarrow> string \<Rightarrow> string \<Rightarrow> lval list script" where
  "get_or_create_script svc k1 k2 k3 k4 a1 a2 a3 a4 call =
     bindE (call (HMGET k4 [''oid'', ''sid'', ''st''])) (\<lambda>r.
     case arr r of
       [Some p1, Some p2, Some p3] \<Rightarrow>
         if p3 = ''0'' then ret [LInt 2, LStr p1, LStr p2, LStr p3]
         else bindE (call (DEL k4)) (\<lambda>_. take_quota svc k1 k2 k3 k4 a1 a2 a3 a4 call)
     | _ \<Rightarrow> take_quota svc k1 k2 k3 k4 a1 a2 a3 a4 call)"

text \<open>\<open>fmt.Sprint\<close> of a result value.\<close>

definition Sprint :: "lval \<Rightarrow> string" where
  "Sprint v = (case v of LInt n \<Rightarrow> FormatInt n | LStr s \<Rightarrow> s)"

definition order_from_result ::
    "UserRaffleOrder \<Rightarrow> lval list \<Rightarrow> (UserRaffleOrder \<times> bool) res" where
  "order_from_result order result =
     (case result of
        [] \<Rightarrow> Err (GoErr ''unexpected redis eval result'')
      | LStr _ # _ \<Rightarrow> Err (GoErr ''unexpected redis eval status type'')
      | LInt status # rest \<Rightarrow>
          if status = -1 \<or> status = -2 then Err ErrActivityQuotaError
          else if status = -3 then Err ErrActivityAccountDayCountSurplusNotEnough
          else if status = -4 then Err ErrActivityAccountMonthCountSurplusNotEnough
          else if status = 1 \<or> status = 2 then
            (case rest of
               oid # sid # _ # _ \<Rightarrow>
                 bindR (ParseInt (Sprint sid)) (\<lambda>strategyID.
                   Ok (\<lparr>ur_UserID = ur_UserID order, ur_ActivityID = ur_ActivityID order,
                        ur_ActivityName = ur_ActivityName order, ur_StrategyID = strategyID,
                        ur_OrderID = Sprint oid, ur_OrderTime = ur_OrderTime order,
                        ur_OrderState = UserRaffleOrderStateCreate\<rparr>, status = 2))
             | _ \<Rightarrow> Err (GoErr ''unexpected redis eval payload length''))
          else Err (GoErr ''unexpected redis eval status''))"

definition CacheGetOrCreateNoUsedRaffleOrder ::
    "services \<Rightarrow> UserRaffleOrder \<Rightarrow> (UserRaffleOrder \<times> bool) M" where
  "CacheGetOrCreateNoUsedRaffleOrder svc order =
     bindE (now svc) (\<lambda>t1. bindE (now svc) (\<lambda>t2.
     let aid = ur_ActivityID order; uid = ur_UserID order;
         totalKey = GetActivityAccountTotalSurplusKey aid uid;
         dayKey = GetActivityAccountDaySurplusKey aid uid (fmt_day (svc_zone svc) t1);
         monthKey = GetActivityAccountMonthSurplusKey aid uid (fmt_month (svc_zone svc) t2);
         pendingOrderKey = GetPendingRaffleOrderKey aid uid
     in bindE (Eval svc myCache
                (get_or_create_script svc totalKey dayKey monthKey pendingOrderKey
                   (ur_OrderID order) (FormatInt (ur_StrategyID order)) ''0''
                   (FormatInt (pendingRaffleOrderTTL div second))))
          (\<lambda>result. liftR (order_from_result order result))))"

section \<open>The compensation script\<close>

definition compensate_script ::
    "string \<Rightarrow> string \<Rightarrow> string \<Rightarrow> string \<Rightarrow> string \<Rightarrow> int script" where
  "compensate_script k1 k2 k3 k4 a1 call =
     bindE (call (HMGET k4 [''oid'', ''st''])) (\<lambda>r.
     case arr r of
       [Some p1, p2] \<Rightarrow>
         if p1 \<noteq> a1 then ret 0
         else if p2 \<noteq> Some ''0'' then ret 0
         else
           bindE (call (INCRBY k1 1)) (\<lambda>_.
           bindE (call (INCRBY k2 1)) (\<lambda>_.
           bindE (call (INCRBY k3 1)) (\<lambda>_.
           bindE (call (DEL k4)) (\<lambda>_. ret 1))))
     | _ \<Rightarrow> ret 0)"

definition compensatePendingRaffleOrder :: "services \<Rightarrow> UserRaffleOrder \<Rightarrow> unit M" where
  "compensatePendingRaffleOrder svc order =
     (let aid = ur_ActivityID order; uid = ur_UserID order
      in bindE (Eval svc myCache
           (compensate_script (GetActivityAccountTotalSurplusKey aid uid)
              (GetActivityAccountDaySurplusKey aid uid (fmt_day (svc_zone svc) (ur_OrderTime order)))
              (GetActivityAccountMonthSurplusKey aid uid (fmt_month (svc_zone svc) (ur_OrderTime order)))
              (GetPendingRaffleOrderKey aid uid) (ur_OrderID order)))
           (\<lambda>_. ret ()))"

section \<open>The order and its outbox task\<close>

definition buildSaveOrderTaskPO :: "services \<Rightarrow> string \<Rightarrow> string \<Rightarrow> CreatePartakeOrder \<Rightarrow> po_Task M" where
  "buildSaveOrderTaskPO svc uid messageID aggregate =
     bindE (deref (cp_UserRaffleOrder aggregate)) (\<lambda>order.
     bindE (liftR (enc (js_SaveOrder svc)
                     \<lparr>so_UserID = cp_UserID aggregate, so_OrderID = ur_OrderID order\<rparr>)) (\<lambda>messageBytes.
     bindE (now svc) (\<lambda>t1. bindE (now svc) (\<lambda>t2.
     ret \<lparr>pt_ID = 0, pt_UserID = uid, pt_Topic = SaveOrderRecordTopic, pt_MessageID = messageID,
          pt_Message = messageBytes, pt_State = ''create'', pt_CreateTime = t1, pt_UpdateTime = t2\<rparr>))))"

text \<open>A failed save gives the reserved quota back before the error is returned.\<close>

definition compensate_and_fail :: "services \<Rightarrow> UserRaffleOrder \<Rightarrow> gerr \<Rightarrow> 'a M" where
  "compensate_and_fail svc order e =
     bindE (ignoreE (compensatePendingRaffleOrder svc order)) (\<lambda>_. fail e)"

definition new_order_row :: "UserRaffleOrder \<Rightarrow> time \<Rightarrow> row" where
  "new_order_row order t =
     RRaffleOrder
       \<lparr>uo_ID = 0, uo_UserID = ur_UserID order, uo_ActivityID = ur_ActivityID order,
        uo_ActivityName = ur_ActivityName order, uo_StrategyID = ur_StrategyID order,
        uo_OrderID = ur_OrderID order, uo_OrderTime = ur_OrderTime order,
        uo_OrderState = ur_OrderState order, uo_AccountSyncState = AccountSyncStateCreate,
        uo_CreateTime = t, uo_UpdateTime = t\<rparr>"

definition SaveLiteUserRaffleOrder :: "services \<Rightarrow> DBRouter \<Rightarrow> CreatePartakeOrder \<Rightarrow> unit M" where
  "SaveLiteUserRaffleOrder svc rt aggregate =
     bindE (deref (cp_UserRaffleOrder aggregate)) (\<lambda>order.
     bindE (shard rt (ur_UserID order)) (\<lambda>(db, suffix).
     case db of
       None \<Rightarrow> compensate_and_fail svc order ErrDBRouterError
     | Some db \<Rightarrow>
         bindE (NewBaseEvent svc (EPartake aggregate)) (\<lambda>baseEvent.
         caseE (buildSaveOrderTaskPO svc (cp_UserID aggregate) (ev_ID baseEvent) aggregate)
           (compensate_and_fail svc order)
           (\<lambda>taskPO.
         caseE (transaction svc
                 (bindE (now svc) (\<lambda>t.
                  bindE (gorm_Create svc db (order_table suffix) (new_order_row order t)) (\<lambda>_.
                  bindE (gorm_Create svc db ''task'' (RTask taskPO)) (\<lambda>_. ret ())))))
           (\<lambda>e. if errors_Is e GormDuplicatedKey \<or> is_duplicate_text e then ret ()
                else compensate_and_fail svc order e)
           ret))))"

definition AsyncSaveCreatePartakeOrderAggregate :: "services \<Rightarrow> CreatePartakeOrder \<Rightarrow> unit M" where
  "AsyncSaveCreatePartakeOrderAggregate svc aggregate =
     bindE (NewBaseEvent svc (EPartake aggregate)) (PublishSaveOrder svc)"

section \<open>Settling an order against the accounts\<close>

definition debit_account :: "time \<Rightarrow> po_RaffleActivityAccount \<Rightarrow> po_RaffleActivityAccount" where
  "debit_account t a =
     a\<lparr>acc_TotalCountSurplus := acc_TotalCountSurplus a - 1,
       acc_DayCountSurplus := acc_DayCountSurplus a - 1,
       acc_MonthCountSurplus := acc_MonthCountSurplus a - 1, acc_UpdateTime := t\<rparr>"

definition debit_month :: "time \<Rightarrow> po_RaffleActivityAccountMonth \<Rightarrow> po_RaffleActivityAccountMonth" where
  "debit_month t a = a\<lparr>mon_MonthCountSurplus := mon_MonthCountSurplus a - 1, mon_UpdateTime := t\<rparr>"

definition debit_day :: "time \<Rightarrow> po_RaffleActivityAccountDay \<Rightarrow> po_RaffleActivityAccountDay" where
  "debit_day t a = a\<lparr>day_DayCountSurplus := day_DayCountSurplus a - 1, day_UpdateTime := t\<rparr>"

definition complete_order :: "time \<Rightarrow> po_UserRaffleOrder \<Rightarrow> po_UserRaffleOrder" where
  "complete_order t a = a\<lparr>uo_AccountSyncState := AccountSyncStateCompleted, uo_UpdateTime := t\<rparr>"

text \<open>The new month and day rows; gorm fills in the timestamps.\<close>

definition new_month_row :: "string \<Rightarrow> int \<Rightarrow> string \<Rightarrow> int \<Rightarrow> int \<Rightarrow> time \<Rightarrow> row" where
  "new_month_row uid aid m count surplus t =
     RMonth \<lparr>mon_ID = 0, mon_UserID = uid, mon_ActivityID = aid, mon_Month = m, mon_MonthCount = count,
             mon_MonthCountSurplus = surplus, mon_CreateTime = t, mon_UpdateTime = t\<rparr>"

definition new_day_row :: "string \<Rightarrow> int \<Rightarrow> string \<Rightarrow> int \<Rightarrow> int \<Rightarrow> time \<Rightarrow> row" where
  "new_day_row uid aid d count surplus t =
     RDay \<lparr>day_ID = 0, day_UserID = uid, day_ActivityID = aid, day_Day = d, day_DayCount = count,
           day_DayCountSurplus = surplus, day_CreateTime = t, day_UpdateTime = t\<rparr>"

text \<open>\<open>if errors.Is(err, gorm.ErrDuplicatedKey) { return activity.ErrDBIndexDuplicate }; return err\<close>\<close>

definition dup_index :: "gerr \<Rightarrow> 'a M" where
  "dup_index e = (if errors_Is e GormDuplicatedKey then fail ErrDBIndexDuplicate else fail e)"

text \<open>Step 2.2: create or update the month account.\<close>

definition settle_month ::
    "services \<Rightarrow> string \<Rightarrow> string \<Rightarrow> int \<Rightarrow> string \<Rightarrow> time \<Rightarrow> po_RaffleActivityAccount \<Rightarrow> unit M" where
  "settle_month svc db uid aid m t a =
     caseE (gorm_First svc db ''raffle_activity_account_month'' (month_row uid aid m))
       (\<lambda>e. if errors_Is e GormRecordNotFound then
              bindE (now svc) (\<lambda>t'.
              caseE (gorm_Create svc db ''raffle_activity_account_month''
                       (new_month_row uid aid m (acc_MonthCount a) (acc_MonthCountSurplus a - 1) t'))
                dup_index (\<lambda>_. ret ()))
            else fail e)
       (\<lambda>r. if mon_MonthCountSurplus (the_month r) \<le> 0
            then fail ErrActivityAccountMonthCountSurplusNotEnough
            else bindE (gorm_Updates svc db ''raffle_activity_account_month'' (month_row uid aid m)
                          (on_month (debit_month t)))
                   (\<lambda>n. if n = 0 then fail ErrActivityAccountMonthCountSurplusNotEnough else ret ()))"

text \<open>Step 2.3: create or update the day account.\<close>

definition settle_day ::
    "services \<Rightarrow> string \<Rightarrow> string \<Rightarrow> int \<Rightarrow> string \<Rightarrow> time \<Rightarrow> po_RaffleActivityAccount \<Rightarrow> unit M" where
  "settle_day svc db uid aid d t a =
     caseE (gorm_First svc db ''raffle_activity_account_day'' (day_row uid aid d))
       (\<lambda>e. if errors_Is e GormRecordNotFound then
              bindE (now svc) (\<lambda>t'.
              caseE (gorm_Create svc db ''raffle_activity_account_day''
                       (new_day_row uid aid d (acc_DayCount a) (acc_DayCountSurplus a - 1) t'))
                dup_index (\<lambda>_. ret ()))
            else fail e)
       (\<lambda>r. if day_DayCountSurplus (the_day r) \<le> 0
            then fail ErrActivityAccountDayCountSurplusNotEnough
            else bindE (gorm_Updates svc db ''raffle_activity_account_day'' (day_row uid aid d)
                          (on_day (debit_day t)))
                   (\<lambda>n. if n = 0 then fail ErrActivityAccountDayCountSurplusNotEnough else ret ()))"

definition not_found :: "gerr \<Rightarrow> 'a M" where
  "not_found e = (if errors_Is e GormRecordNotFound then fail ErrRecordNotFound else fail e)"

text \<open>The body of the transaction of \<open>SaveCreatePartakeOrderAggregate\<close>.\<close>

definition settle_order :: "services \<Rightarrow> string \<Rightarrow> string \<Rightarrow> string \<Rightarrow> string \<Rightarrow> unit M" where
  "settle_order svc db suffix uid oid =
     caseE (gorm_First svc db (order_table suffix) (order_row uid oid)) not_found (\<lambda>r.
     let orderPO = the_raffle_order r in
     if uo_AccountSyncState orderPO = AccountSyncStateCompleted then ret ()
     else
       let aid = uo_ActivityID orderPO;
           orderMonth = fmt_month (svc_zone svc) (uo_OrderTime orderPO);
           orderDay = fmt_day (svc_zone svc) (uo_OrderTime orderPO)
       in bindE (now svc) (\<lambda>t.
          caseE (gorm_First svc db ''raffle_activity_account'' (account_row uid aid)) not_found (\<lambda>ar.
          let accountPO = the_account ar in
          if acc_TotalCountSurplus accountPO \<le> 0 then fail ErrActivityQuotaError
          else if acc_MonthCountSurplus accountPO \<le> 0 then fail ErrActivityAccountMonthCountSurplusNotEnough
          else if acc_DayCountSurplus accountPO \<le> 0 then fail ErrActivityAccountDayCountSurplusNotEnough
          else
            bindE (gorm_Updates svc db ''raffle_activity_account'' (account_row uid aid)
                     (on_account (debit_account t))) (\<lambda>_.
            bindE (settle_month svc db uid aid orderMonth t accountPO) (\<lambda>_.
            bindE (settle_day svc db uid aid orderDay t accountPO) (\<lambda>_.
            bindE (gorm_Updates svc db (order_table suffix) (order_row uid oid)
                     (on_order (complete_order t))) (\<lambda>_.
            ret ())))))))"

definition SaveCreatePartakeOrderAggregate :: "services \<Rightarrow> DBRouter \<Rightarrow> CreatePartakeOrder \<Rightarrow> unit M" where
  "SaveCreatePartakeOrderAggregate svc rt aggregate =
     (case cp_UserRaffleOrder aggregate of
        None \<Rightarrow> fail ErrInvalidParams
      | Some order \<Rightarrow>
          if ur_OrderID order = '''' then fail ErrInvalidParams
          else bindE (shard rt (cp_UserID aggregate)) (\<lambda>(db, suffix).
               case db of
                 None \<Rightarrow> fail ErrDBRouterError
               | Some db \<Rightarrow>
                   transaction svc (settle_order svc db suffix (cp_UserID aggregate) (ur_OrderID order))))"

end
