(* ===== verification/Quota_Spec.thy ===== *)
theory Quota_Spec
  imports Partake_Repo
begin

text \<open>
  What the two quota scripts promise, as operations on the four values they work on: the
  total, day and month surplus of a participant and the pending order. \<open>quota_abs\<close> reads these
  values out of a Redis keyspace; the scripts are shown to implement \<open>take_part\<close> and
  \<open>give_back\<close>. Because a script is one atomic step of the server, every interleaving of the
  participant's concurrent requests is a sequence of such steps: \<open>quota_step\<close> is that
  transition system, \<open>server_step\<close> the one that runs the scripts on a keyspace, and the second is
  simulated by the first.
\<close>

section \<open>Abstract quota\<close>

record quota =
  q_total :: "int option"
  q_day :: "int option"
  q_month :: "int option"
  q_pending :: "(string \<rightharpoonup> string) option"

datatype outcome = Reused string string | NotLoaded | NoTotal | NoDay | NoMonth | Created

text \<open>The complete pending order, when there is one.\<close>

definition pending_of :: "(string \<rightharpoonup> string) option \<Rightarrow> (string \<times> string \<times> string) option" where
  "pending_of p =
     (case p of
        None \<Rightarrow> None
      | Some h \<Rightarrow> (case (h ''oid'', h ''sid'', h ''st'') of
                    (Some a, Some b, Some c) \<Rightarrow> Some (a, b, c)
                  | _ \<Rightarrow> None))"

definition new_pending :: "(string \<rightharpoonup> string) option \<Rightarrow> string \<Rightarrow> string \<Rightarrow> (string \<rightharpoonup> string)" where
  "new_pending p oid sid =
     (case p of None \<Rightarrow> Map.empty | Some h \<Rightarrow> h)(''oid'' \<mapsto> oid, ''sid'' \<mapsto> sid, ''st'' \<mapsto> ''0'')"

definition draw_quota :: "quota \<Rightarrow> string \<Rightarrow> string \<Rightarrow> outcome \<times> quota" where
  "draw_quota q oid sid =
     (case (q_total q, q_day q, q_month q) of
        (Some a, Some b, Some c) \<Rightarrow>
          if a \<le> 0 then (NoTotal, q)
          else if b \<le> 0 then (NoDay, q)
          else if c \<le> 0 then (NoMonth, q)
          else (Created, \<lparr>q_total = Some (a - 1), q_day = Some (b - 1), q_month = Some (c - 1),
                          q_pending = Some (new_pending (q_pending q) oid sid)\<rparr>)
      | _ \<Rightarrow> (NotLoaded, q))"

definition take_part :: "quota \<Rightarrow> string \<Rightarrow> string \<Rightarrow> outcome \<times> quota" where
  "take_part q oid sid =
     (case pending_of (q_pending q) of
        Some (a, b, c) \<Rightarrow>
          if c = ''0'' then (Reused a b, q) else draw_quota (q\<lparr>q_pending := None\<rparr>) oid sid
      | None \<Rightarrow> draw_quota q oid sid)"

definition plus1 :: "int option \<Rightarrow> int option" where
  "plus1 x = (case x of None \<Rightarrow> Some 1 | Some n \<Rightarrow> Some (n + 1))"

definition give_back :: "quota \<Rightarrow> string \<Rightarrow> int \<times> quota" where
  "give_back q oid =
     (case q_pending q of
        None \<Rightarrow> (0, q)
      | Some h \<Rightarrow>
          if h ''oid'' = Some oid \<and> h ''st'' = Some ''0'' then
            (1, \<lparr>q_total = plus1 (q_total q), q_day = plus1 (q_day q), q_month = plus1 (q_month q),
                 q_pending = None\<rparr>)
          else (0, q))"

section \<open>Reading a keyspace\<close>

definition int_at :: "keyspace \<Rightarrow> string \<Rightarrow> int option option" where
  "int_at ks k =
     (case ks k of
        None \<Rightarrow> Some None
      | Some (RStr s, _) \<Rightarrow> map_option Some (redis_int s)
      | Some _ \<Rightarrow> None)"

definition hash_at :: "keyspace \<Rightarrow> string \<Rightarrow> (string \<rightharpoonup> string) option option" where
  "hash_at ks k =
     (case ks k of None \<Rightarrow> Some None | Some (RHash h, _) \<Rightarrow> Some (Some h) | Some _ \<Rightarrow> None)"

text \<open>\<open>None\<close> when a key holds something the program never writes there.\<close>

definition quota_abs :: "string \<Rightarrow> string \<Rightarrow> string \<Rightarrow> string \<Rightarrow> time \<Rightarrow> keyspace \<Rightarrow> quota option" where
  "quota_abs k1 k2 k3 k4 t ks =
     (let ks = live t ks in
      case (int_at ks k1, int_at ks k2, int_at ks k3, hash_at ks k4) of
        (Some a, Some b, Some c, Some h) \<Rightarrow> Some \<lparr>q_total = a, q_day = b, q_month = c, q_pending = h\<rparr>
      | _ \<Rightarrow> None)"

definition render :: "outcome \<Rightarrow> string \<Rightarrow> string \<Rightarrow> lval list" where
  "render oc oid sid =
     (case oc of
        Reused a b \<Rightarrow> [LInt 2, LStr a, LStr b, LStr ''0'']
      | NotLoaded \<Rightarrow> [LInt (-1)]
      | NoTotal \<Rightarrow> [LInt (-2)]
      | NoDay \<Rightarrow> [LInt (-3)]
      | NoMonth \<Rightarrow> [LInt (-4)]
      | Created \<Rightarrow> [LInt 1, LStr oid, LStr sid, LStr ''0''])"

section \<open>The scripts implement the operations\<close>

definition ok_dl :: "time \<Rightarrow> time option \<Rightarrow> bool" where
  "ok_dl t dl = (case dl of None \<Rightarrow> True | Some d \<Rightarrow> t < d)"

lemma live_upd_ok [simp]: "ok_dl t dl \<Longrightarrow> live t (ks(k \<mapsto> (v, dl))) = (live t ks)(k \<mapsto> (v, dl))"
  by (auto simp: live_upd ok_dl_def split: option.splits)

lemma live_upd_None [simp]: "live t (ks(k := None)) = (live t ks)(k := None)"
  by (simp add: live_upd)

lemma ok_dl_None [simp]: "ok_dl t None" by (simp add: ok_dl_def)

lemma ok_dl_later [simp]: "0 < d \<Longrightarrow> ok_dl t (Some (t + d))" by (simp add: ok_dl_def)

lemma live_ok_dl: "live t ks k = Some (v, dl) \<Longrightarrow> ok_dl t dl"
  by (auto simp: live_def ok_dl_def split: option.splits if_splits)

lemma int_atE:
  assumes "int_at (live t ks) k = Some x"
  obtains (absent) "x = None" "live t ks k = None"
    | (present) n dl where "x = Some n" "live t ks k = Some (RStr (FormatInt n), dl)" "is_int64 n" "ok_dl t dl"
proof (cases "live t ks k")
  case None
  with assms absent show thesis by (simp add: int_at_def)
next
  case (Some y)
  obtain v dl where y: "y = (v, dl)" by (cases y)
  with Some assms obtain s n where "v = RStr s" "redis_int s = Some n" "x = Some n"
    by (cases v) (auto simp: int_at_def split: option.splits)
  with y Some present show thesis using redis_int_SomeD live_ok_dl by blast
qed

lemma hash_atE:
  assumes "hash_at (live t ks) k = Some x"
  obtains (absent) "x = None" "live t ks k = None"
    | (present) h dl where "x = Some h" "live t ks k = Some (RHash h, dl)" "ok_dl t dl"
  using assms live_ok_dl [of t ks k]
  by (auto simp: hash_at_def split: option.splits rval.splits prod.splits)

lemma quota_absE:
  assumes "quota_abs k1 k2 k3 k4 t ks = Some q"
  shows "int_at (live t ks) k1 = Some (q_total q)" "int_at (live t ks) k2 = Some (q_day q)"
    "int_at (live t ks) k3 = Some (q_month q)" "hash_at (live t ks) k4 = Some (q_pending q)"
  using assms by (auto simp: quota_abs_def Let_def split: option.splits)

lemma is_int64_dec: "is_int64 n \<Longrightarrow> 0 < n \<Longrightarrow> is_int64 (n - 1)"
  by (simp add: is_int64_def int64_min_def)

text \<open>One call of a script on live keys.\<close>

lemma rcall_live:
  "redis_ok svc \<Longrightarrow>
   rcall svc t c ks =
     (case redis_step t c (live t ks) of (RErr e, ks') \<Rightarrow> (Err e, ks') | (r, ks') \<Rightarrow> (Ok r, ks'))"
  by (rule rcall_doc)

lemma lua_le0_int: "redis_ok svc \<Longrightarrow> is_int64 n \<Longrightarrow> lua_le0 svc (FormatInt n) ks = (Ok (n \<le> 0), ks)"
  by (simp add: lua_le0_def redis_ok_def)

lemma incr_value_int [simp]:
  "is_int64 n \<Longrightarrow> incr_value (RStr (FormatInt n)) d = (if is_int64 (n + d) then Some (n + d) else None)"
  by (simp add: incr_value_def)

lemmas script_steps =
  bindE_def rcall_live lua_le0_int bulk_def arr_def expire_arg_def deadline_def

lemma int_at_upd:
  "int_at (ks(k \<mapsto> (RStr (FormatInt n), dl))) k' =
     (if k' = k then (if is_int64 n then Some (Some n) else int_at (ks(k \<mapsto> (RStr (FormatInt n), dl))) k) else int_at ks k')"
  by (auto simp: int_at_def)

lemma int_at_upd_other: "k' \<noteq> k \<Longrightarrow> int_at (ks(k := x)) k' = int_at ks k'"
  by (simp add: int_at_def)

lemma hash_at_upd_other: "k' \<noteq> k \<Longrightarrow> hash_at (ks(k := x)) k' = hash_at ks k'"
  by (simp add: hash_at_def)

lemma quota_abs_intro:
  assumes "int_at (live t ks) k1 = Some a" "int_at (live t ks) k2 = Some b"
    "int_at (live t ks) k3 = Some c" "hash_at (live t ks) k4 = Some h"
  shows "quota_abs k1 k2 k3 k4 t ks = Some \<lparr>q_total = a, q_day = b, q_month = c, q_pending = h\<rparr>"
  using assms by (simp add: quota_abs_def)

lemma ttl_arg: "redis_int (FormatInt (pendingRaffleOrderTTL div second)) = Some 1800"
  by (simp add: pendingRaffleOrderTTL_def second_def is_int64_small)

lemma map_of_pending:
  "map_of (rev [(''oid'', a), (''sid'', b), (''st'', c)]) = [''oid'' \<mapsto> a, ''sid'' \<mapsto> b, ''st'' \<mapsto> c]"
  by (simp add: fun_upd_twist)

lemma rcall_GET_int:
  "redis_ok svc \<Longrightarrow> int_at (live t ks) k = Some x \<Longrightarrow>
   \<exists>r. rcall svc t (GET k) ks = (Ok r, live t ks) \<and> bulk r = map_option FormatInt x"
  by (auto simp: rcall_live bulk_def elim!: int_atE)

lemma rcall_INCRBY_int:
  assumes "redis_ok svc" and "int_at (live t ks) k = Some x"
    and "is_int64 ((case x of None \<Rightarrow> 0 | Some n \<Rightarrow> n) + d)"
  shows "\<exists>r dl. rcall svc t (INCRBY k d) ks =
       (Ok r, (live t ks)(k \<mapsto> (RStr (FormatInt ((case x of None \<Rightarrow> 0 | Some n \<Rightarrow> n) + d)), dl))) \<and> ok_dl t dl"
  using assms(2)
proof (cases rule: int_atE)
  case absent
  then show ?thesis using assms by (intro exI [of _ "RInt d"] exI [of _ None]) (simp add: rcall_live)
next
  case (present n dl)
  then show ?thesis using assms by (intro exI [of _ "RInt (n + d)"] exI [of _ dl]) (simp add: rcall_live)
qed

lemma rcall_pending:
  assumes "redis_ok svc" and "hash_at (live t ks) k = Some p"
  shows "\<exists>r dl. rcall svc t (HSET k [(''oid'', a), (''sid'', b), (''st'', ''0'')]) ks =
           (Ok r, (live t ks)(k \<mapsto> (RHash (new_pending p a b), dl))) \<and> ok_dl t dl"
  using assms(2)
proof (cases rule: hash_atE)
  case absent
  then show ?thesis using assms
    by (intro exI [of _ "RInt 3"] exI [of _ None]) (simp add: rcall_live new_pending_def map_of_pending)
next
  case (present h dl)
  then show ?thesis using assms
    by (auto simp: rcall_live new_pending_def map_of_pending fun_upd_def map_add_def fun_eq_iff)
qed

lemma expire_pending:
  assumes "redis_ok svc" and "live t ks k = Some (v, dl)"
  shows "\<exists>r. expire_arg (rcall svc t) k (FormatInt (pendingRaffleOrderTTL div second)) ks =
           (Ok r, (live t ks)(k \<mapsto> (v, Some (t + 1800 * second))))"
proof -
  have "0 < second" by (simp add: second_def)
  then show ?thesis using assms by (simp add: expire_arg_def ttl_arg rcall_live)
qed

lemma take_quota_refines:
  assumes ok: "redis_ok svc" and d: "distinct [k1, k2, k3, k4]"
    and abs: "quota_abs k1 k2 k3 k4 t ks = Some q"
  shows "\<exists>ks'. take_quota svc k1 k2 k3 k4 oid sid ''0'' (FormatInt (pendingRaffleOrderTTL div second)) (rcall svc t) ks =
             (Ok (render (fst (draw_quota q oid sid)) oid sid), ks') \<and>
           quota_abs k1 k2 k3 k4 t ks' = Some (snd (draw_quota q oid sid)) \<and>
           (\<forall>k. k \<notin> {k1, k2, k3, k4} \<longrightarrow> live t ks' k = live t ks k)"
proof -
  note at = quota_absE [OF abs]
  have q: "q = \<lparr>q_total = q_total q, q_day = q_day q, q_month = q_month q, q_pending = q_pending q\<rparr>" by simp
  let ?l = "live t ks"
  obtain r1 where g1: "rcall svc t (GET k1) ks = (Ok r1, ?l)" "bulk r1 = map_option FormatInt (q_total q)"
    using rcall_GET_int [OF ok at(1)] by blast
  obtain r2 where g2: "rcall svc t (GET k2) ?l = (Ok r2, ?l)" "bulk r2 = map_option FormatInt (q_day q)"
    using rcall_GET_int [OF ok, of t ?l] at(2) by auto
  obtain r3 where g3: "rcall svc t (GET k3) ?l = (Ok r3, ?l)" "bulk r3 = map_option FormatInt (q_month q)"
    using rcall_GET_int [OF ok, of t ?l] at(3) by auto
  show ?thesis
  proof (cases "q_total q = None \<or> q_day q = None \<or> q_month q = None")
    case True
    then show ?thesis
      using g1 g2 g3 abs
      by (intro exI [of _ ?l])
        (auto simp: take_quota_def bindE_def draw_quota_def render_def quota_abs_def split: option.splits)
  next
    case False
    then obtain n1 n2 n3 where n: "q_total q = Some n1" "q_day q = Some n2" "q_month q = Some n3" by auto
    have i: "is_int64 n1" "is_int64 n2" "is_int64 n3"
      using at(1-3) n by (auto elim!: int_atE)
    show ?thesis
    proof (cases "n1 \<le> 0 \<or> n2 \<le> 0 \<or> n3 \<le> 0")
      case True
      then show ?thesis
        using g1 g2 g3 n i ok abs
        by (intro exI [of _ ?l])
          (auto simp: take_quota_def bindE_def draw_quota_def render_def quota_abs_def lua_le0_int)
    next
      case False
      then have pos: "0 < n1" "0 < n2" "0 < n3" by auto
      have k: "k2 \<noteq> k1" "k3 \<noteq> k1" "k3 \<noteq> k2" "k4 \<noteq> k1" "k4 \<noteq> k2" "k4 \<noteq> k3" using d by auto
      obtain x1 d1 where c1: "rcall svc t (INCRBY k1 (-1)) ?l = (Ok x1, ?l(k1 \<mapsto> (RStr (FormatInt (n1 - 1)), d1)))" "ok_dl t d1"
        using rcall_INCRBY_int [OF ok, of t ?l k1 "Some n1" "-1"] at(1) n i pos is_int64_dec by auto
      let ?l1 = "?l(k1 \<mapsto> (RStr (FormatInt (n1 - 1)), d1))"
      obtain x2 d2 where c2: "rcall svc t (INCRBY k2 (-1)) ?l1 = (Ok x2, ?l1(k2 \<mapsto> (RStr (FormatInt (n2 - 1)), d2)))" "ok_dl t d2"
        using rcall_INCRBY_int [OF ok, of t ?l1 k2 "Some n2" "-1"] at(2) n i pos is_int64_dec c1 k
        by (auto simp: int_at_upd_other)
      let ?l2 = "?l1(k2 \<mapsto> (RStr (FormatInt (n2 - 1)), d2))"
      obtain x3 d3 where c3: "rcall svc t (INCRBY k3 (-1)) ?l2 = (Ok x3, ?l2(k3 \<mapsto> (RStr (FormatInt (n3 - 1)), d3)))" "ok_dl t d3"
        using rcall_INCRBY_int [OF ok, of t ?l2 k3 "Some n3" "-1"] at(3) n i pos is_int64_dec c1 c2 k
        by (auto simp: int_at_upd_other)
      let ?l3 = "?l2(k3 \<mapsto> (RStr (FormatInt (n3 - 1)), d3))"
      obtain x4 d4 where c4: "rcall svc t (HSET k4 [(''oid'', oid), (''sid'', sid), (''st'', ''0'')]) ?l3 =
          (Ok x4, ?l3(k4 \<mapsto> (RHash (new_pending (q_pending q) oid sid), d4)))" "ok_dl t d4"
        using rcall_pending [OF ok, of t ?l3 k4 "q_pending q" oid sid] at(4) c1 c2 c3 k
        by (auto simp: hash_at_upd_other)
      let ?l4 = "?l3(k4 \<mapsto> (RHash (new_pending (q_pending q) oid sid), d4))"
      let ?l5 = "?l4(k4 \<mapsto> (RHash (new_pending (q_pending q) oid sid), Some (t + 1800 * second)))"
      have l5: "live t ?l5 = ?l5" using c1 c2 c3 c4 by (simp add: second_def)
      obtain x5 where c5: "expire_arg (rcall svc t) k4 (FormatInt (pendingRaffleOrderTTL div second)) ?l4 = (Ok x5, ?l5)"
        using expire_pending [OF ok, of t ?l4 k4] c1 c2 c3 c4 by auto
      have "take_quota svc k1 k2 k3 k4 oid sid ''0'' (FormatInt (pendingRaffleOrderTTL div second)) (rcall svc t) ks =
          (Ok [LInt 1, LStr oid, LStr sid, LStr ''0''], ?l5)"
        using g1 g2 g3 n i ok pos c1 c2 c3 c4 c5 by (simp add: take_quota_def bindE_def lua_le0_int)
      moreover have "quota_abs k1 k2 k3 k4 t ?l5 = Some (snd (draw_quota q oid sid))"
        using n pos i k l5
        by (subst quota_abs_intro [of t ?l5 k1 "Some (n1 - 1)" k2 "Some (n2 - 1)" k3 "Some (n3 - 1)" k4])
          (auto simp: draw_quota_def int_at_def hash_at_def is_int64_dec simp del: live_upd_ok)
      moreover have "\<forall>k. k \<notin> {k1, k2, k3, k4} \<longrightarrow> live t ?l5 k = live t ks k"
        unfolding l5 by simp
      ultimately show ?thesis using n pos by (auto simp: draw_quota_def render_def)
    qed
  qed
qed

lemma rcall_HMGET:
  assumes "redis_ok svc" and "hash_at (live t ks) k = Some p"
  shows "\<exists>r. rcall svc t (HMGET k fs) ks = (Ok r, live t ks) \<and>
           arr r = map (case p of None \<Rightarrow> Map.empty | Some h \<Rightarrow> h) fs"
  using assms by (auto simp: rcall_live arr_def elim!: hash_atE)

lemma get_or_create_step:
  assumes "redis_ok svc" and "distinct [k1, k2, k3, k4]"
    and "quota_abs k1 k2 k3 k4 t ks = Some q"
  shows "\<exists>ks'. get_or_create_script svc k1 k2 k3 k4 oid sid ''0''
               (FormatInt (pendingRaffleOrderTTL div second)) (rcall svc t) ks =
             (Ok (render (fst (take_part q oid sid)) oid sid), ks') \<and>
           quota_abs k1 k2 k3 k4 t ks' = Some (snd (take_part q oid sid)) \<and>
           (\<forall>k. k \<notin> {k1, k2, k3, k4} \<longrightarrow> live t ks' k = live t ks k)"
proof -
  note at = quota_absE [OF assms(3)]
  let ?h = "case q_pending q of None \<Rightarrow> Map.empty | Some h \<Rightarrow> h"
  obtain r where r: "rcall svc t (HMGET k4 [''oid'', ''sid'', ''st'']) ks = (Ok r, live t ks)"
      "arr r = [?h ''oid'', ?h ''sid'', ?h ''st'']"
    using rcall_HMGET [OF assms(1) at(4), of "[''oid'', ''sid'', ''st'']"] by auto
  have live_q: "quota_abs k1 k2 k3 k4 t (live t ks) = Some q" using assms(3) by (simp add: quota_abs_def)
  show ?thesis
  proof (cases "pending_of (q_pending q)")
    case None
    then have "get_or_create_script svc k1 k2 k3 k4 oid sid ''0'' (FormatInt (pendingRaffleOrderTTL div second)) (rcall svc t) ks =
        take_quota svc k1 k2 k3 k4 oid sid ''0'' (FormatInt (pendingRaffleOrderTTL div second)) (rcall svc t) (live t ks)"
      using r by (auto simp: get_or_create_script_def bindE_def pending_of_def split: option.splits)
    with take_quota_refines [OF assms(1,2) live_q] None show ?thesis by (simp add: take_part_def)
  next
    case (Some p)
    obtain a b c where p: "p = (a, b, c)" by (cases p)
    then have h: "?h ''oid'' = Some a" "?h ''sid'' = Some b" "?h ''st'' = Some c"
      using Some by (auto simp: pending_of_def split: option.splits)
    show ?thesis
    proof (cases "c = ''0''")
      case True
      then show ?thesis
        using r h Some p live_q
        by (intro exI [of _ "live t ks"]) (simp add: get_or_create_script_def bindE_def take_part_def render_def)
    next
      case False
      let ?ks = "(live t ks)(k4 := None)"
      have "live t ks k4 \<noteq> None"
        using at(4) Some by (auto simp: pending_of_def elim!: hash_atE)
      then obtain x where del: "rcall svc t (DEL k4) (live t ks) = (Ok x, ?ks)"
        using assms(1) by (simp add: rcall_live)
      have q0: "quota_abs k1 k2 k3 k4 t ?ks = Some (q\<lparr>q_pending := None\<rparr>)"
        using at assms(2) by (auto simp: quota_abs_def int_at_upd_other hash_at_def)
      have "get_or_create_script svc k1 k2 k3 k4 oid sid ''0'' (FormatInt (pendingRaffleOrderTTL div second)) (rcall svc t) ks =
          take_quota svc k1 k2 k3 k4 oid sid ''0'' (FormatInt (pendingRaffleOrderTTL div second)) (rcall svc t) ?ks"
        using r h False del by (simp add: get_or_create_script_def bindE_def)
      then show ?thesis
        using take_quota_refines [OF assms(1,2) q0, of oid sid] False Some p by (simp add: take_part_def)
    qed
  qed
qed

text \<open>
  C2. The quota script of \<open>CacheGetOrCreateNoUsedRaffleOrder\<close> implements the abstract operation
  \<open>take_part\<close>: on every keyspace whose four keys hold what the program writes there it ends
  without an error, returns the encoding of the abstract outcome, leaves the four values as
  \<open>take_part\<close> says and every other key alone. So a pending order is handed out again without
  touching the quota, a missing counter or an exhausted one is reported in the order total,
  day, month with nothing changed, and otherwise the three counters go down by exactly one.
\<close>

theorem get_or_create_script_refines:
  assumes "redis_ok svc" and "distinct [k1, k2, k3, k4]"
    and "quota_abs k1 k2 k3 k4 t ks = Some q"
  shows "\<exists>ks'. get_or_create_script svc k1 k2 k3 k4 oid sid ''0''
               (FormatInt (pendingRaffleOrderTTL div second)) (rcall svc t) ks =
             (Ok (render (fst (take_part q oid sid)) oid sid), ks') \<and>
           quota_abs k1 k2 k3 k4 t ks' = Some (snd (take_part q oid sid)) \<and>
           (\<forall>k. k \<notin> {k1, k2, k3, k4} \<longrightarrow> live t ks' k = live t ks k)"
  by (rule get_or_create_step [OF assms])

definition sample_keys :: keyspace where
  "sample_keys =
     [''t'' \<mapsto> (RStr (FormatInt 2), None), ''d'' \<mapsto> (RStr (FormatInt 1), None), ''m'' \<mapsto> (RStr (FormatInt 3), None)]"

lemma sample_quota:
  "quota_abs ''t'' ''d'' ''m'' ''p'' t sample_keys =
     Some \<lparr>q_total = Some 2, q_day = Some 1, q_month = Some 3, q_pending = None\<rparr>"
  by (simp add: quota_abs_def sample_keys_def live_def int_at_def hash_at_def is_int64_small)

theorem get_or_create_script_refines_witness:
  "\<exists>ks'. get_or_create_script (sample_svc (\<lambda>_ _ _. False)) ''t'' ''d'' ''m'' ''p'' ''order'' ''100'' ''0''
           (FormatInt (pendingRaffleOrderTTL div second)) (rcall (sample_svc (\<lambda>_ _ _. False)) 0) sample_keys =
         (Ok [LInt 1, LStr ''order'', LStr ''100'', LStr ''0''], ks') \<and>
       quota_abs ''t'' ''d'' ''m'' ''p'' 0 ks' =
         Some \<lparr>q_total = Some 1, q_day = Some 0, q_month = Some 2,
               q_pending = Some [''oid'' \<mapsto> ''order'', ''sid'' \<mapsto> ''100'', ''st'' \<mapsto> ''0'']\<rparr>"
  using get_or_create_script_refines
    [OF redis_ok_sample [of "\<lambda>_ _ _. False"] _ sample_quota [of 0], of "''order''" "''100''"]
  by (auto simp: take_part_def pending_of_def draw_quota_def render_def new_pending_def)

text \<open>Counters that can be incremented once more.\<close>

definition roomy :: "quota \<Rightarrow> bool" where
  "roomy q \<longleftrightarrow> (\<forall>x \<in> {q_total q, q_day q, q_month q}. \<forall>n. x = Some n \<longrightarrow> n < int64_max)"

lemma roomy_inc: "is_int64 n \<Longrightarrow> n < int64_max \<Longrightarrow> is_int64 (n + 1)"
  by (simp add: is_int64_def)

lemma incr_counter:
  assumes "redis_ok svc" and "int_at (live t ks) k = Some x" and "\<forall>n. x = Some n \<longrightarrow> n < int64_max"
  shows "\<exists>r dl m. rcall svc t (INCRBY k 1) ks = (Ok r, (live t ks)(k \<mapsto> (RStr (FormatInt m), dl))) \<and>
           ok_dl t dl \<and> is_int64 m \<and> plus1 x = Some m"
proof (cases x)
  case None
  have "is_int64 1" by (simp add: is_int64_small)
  then show ?thesis using rcall_INCRBY_int [OF assms(1,2), of 1] None by (auto simp: plus1_def)
next
  case (Some n)
  then have "is_int64 n" using assms(2) by (auto elim!: int_atE)
  then have "is_int64 (n + 1)" using assms(3) Some roomy_inc by simp
  then show ?thesis using rcall_INCRBY_int [OF assms(1,2), of 1] Some by (auto simp: plus1_def)
qed

lemma compensate_step:
  assumes "redis_ok svc" and "distinct [k1, k2, k3, k4]"
    and "quota_abs k1 k2 k3 k4 t ks = Some q" and "roomy q"
  shows "\<exists>ks'. compensate_script k1 k2 k3 k4 oid (rcall svc t) ks = (Ok (fst (give_back q oid)), ks') \<and>
           quota_abs k1 k2 k3 k4 t ks' = Some (snd (give_back q oid)) \<and>
           (\<forall>k. k \<notin> {k1, k2, k3, k4} \<longrightarrow> live t ks' k = live t ks k) \<and>
           give_back (snd (give_back q oid)) oid = (0, snd (give_back q oid))"
proof -
  note at = quota_absE [OF assms(3)]
  let ?l = "live t ks"
  let ?h = "case q_pending q of None \<Rightarrow> Map.empty | Some h \<Rightarrow> h"
  obtain r where r: "rcall svc t (HMGET k4 [''oid'', ''st'']) ks = (Ok r, ?l)" "arr r = [?h ''oid'', ?h ''st'']"
    using rcall_HMGET [OF assms(1) at(4), of "[''oid'', ''st'']"] by auto
  have live_q: "quota_abs k1 k2 k3 k4 t ?l = Some q" using assms(3) by (simp add: quota_abs_def)
  show ?thesis
  proof (cases "?h ''oid'' = Some oid \<and> ?h ''st'' = Some ''0''")
    case False
    then show ?thesis
      using r live_q
      by (intro exI [of _ ?l])
        (auto simp: compensate_script_def bindE_def give_back_def split: option.splits)
  next
    case True
    then obtain h where h: "q_pending q = Some h" "h ''oid'' = Some oid" "h ''st'' = Some ''0''"
      by (auto split: option.splits)
    have k: "k2 \<noteq> k1" "k3 \<noteq> k1" "k3 \<noteq> k2" "k4 \<noteq> k1" "k4 \<noteq> k2" "k4 \<noteq> k3" using assms(2) by auto
    obtain x1 d1 m1 where c1: "rcall svc t (INCRBY k1 1) ?l = (Ok x1, ?l(k1 \<mapsto> (RStr (FormatInt m1), d1)))"
        "ok_dl t d1" "is_int64 m1" "plus1 (q_total q) = Some m1"
      using incr_counter [OF assms(1), of t ?l k1 "q_total q"] at(1) assms(4) by (auto simp: roomy_def)
    let ?l1 = "?l(k1 \<mapsto> (RStr (FormatInt m1), d1))"
    obtain x2 d2 m2 where c2: "rcall svc t (INCRBY k2 1) ?l1 = (Ok x2, ?l1(k2 \<mapsto> (RStr (FormatInt m2), d2)))"
        "ok_dl t d2" "is_int64 m2" "plus1 (q_day q) = Some m2"
      using incr_counter [OF assms(1), of t ?l1 k2 "q_day q"] at(2) assms(4) c1 k
      by (auto simp: roomy_def int_at_upd_other)
    let ?l2 = "?l1(k2 \<mapsto> (RStr (FormatInt m2), d2))"
    obtain x3 d3 m3 where c3: "rcall svc t (INCRBY k3 1) ?l2 = (Ok x3, ?l2(k3 \<mapsto> (RStr (FormatInt m3), d3)))"
        "ok_dl t d3" "is_int64 m3" "plus1 (q_month q) = Some m3"
      using incr_counter [OF assms(1), of t ?l2 k3 "q_month q"] at(3) assms(4) c1 c2 k
      by (auto simp: roomy_def int_at_upd_other)
    let ?l3 = "?l2(k3 \<mapsto> (RStr (FormatInt m3), d3))"
    let ?l4 = "?l3(k4 := None)"
    have "?l k4 \<noteq> None" using at(4) h by (auto elim!: hash_atE)
    then have c4: "rcall svc t (DEL k4) ?l3 = (Ok (RInt 1), ?l4)"
      using assms(1) c1 c2 c3 k by (simp add: rcall_live)
    have "compensate_script k1 k2 k3 k4 oid (rcall svc t) ks = (Ok 1, ?l4)"
      using r h c1 c2 c3 c4 by (simp add: compensate_script_def bindE_def)
    moreover have "live t ?l4 = ?l4" using c1 c2 c3 by simp
    moreover from this have "quota_abs k1 k2 k3 k4 t ?l4 = Some (snd (give_back q oid))"
      using h k c1 c2 c3
      by (subst quota_abs_intro [of t ?l4 k1 "Some m1" k2 "Some m2" k3 "Some m3" k4 None])
        (auto simp: give_back_def int_at_def hash_at_def simp del: live_upd_ok live_upd_None)
    ultimately show ?thesis using h by (intro exI [of _ ?l4]) (simp add: give_back_def)
  qed
qed

text \<open>
  C3. The compensation script of \<open>compensatePendingRaffleOrder\<close> implements \<open>give_back\<close>: it puts
  one unit back on each counter and removes the pending order exactly when that order is the
  caller's own and still unused; otherwise it changes nothing. Running it twice therefore
  refunds once.
\<close>

theorem compensate_script_refines:
  assumes "redis_ok svc" and "distinct [k1, k2, k3, k4]"
    and "quota_abs k1 k2 k3 k4 t ks = Some q" and "roomy q"
  shows "\<exists>ks'. compensate_script k1 k2 k3 k4 oid (rcall svc t) ks = (Ok (fst (give_back q oid)), ks') \<and>
           quota_abs k1 k2 k3 k4 t ks' = Some (snd (give_back q oid)) \<and>
           (\<forall>k. k \<notin> {k1, k2, k3, k4} \<longrightarrow> live t ks' k = live t ks k) \<and>
           give_back (snd (give_back q oid)) oid = (0, snd (give_back q oid))"
  by (rule compensate_step [OF assms])

theorem compensate_script_refines_witness:
  "\<exists>ks'. compensate_script ''t'' ''d'' ''m'' ''p'' ''order'' (rcall (sample_svc (\<lambda>_ _ _. False)) 0)
           (sample_keys(''p'' \<mapsto> (RHash [''oid'' \<mapsto> ''order'', ''sid'' \<mapsto> ''1'', ''st'' \<mapsto> ''0''], None))) = (Ok 1, ks') \<and>
       quota_abs ''t'' ''d'' ''m'' ''p'' 0 ks' =
         Some \<lparr>q_total = Some 3, q_day = Some 2, q_month = Some 4, q_pending = None\<rparr>"
proof -
  let ?ks = "sample_keys(''p'' \<mapsto> (RHash [''oid'' \<mapsto> ''order'', ''sid'' \<mapsto> ''1'', ''st'' \<mapsto> ''0''], None))"
  let ?q = "\<lparr>q_total = Some 2, q_day = Some 1, q_month = Some 3,
             q_pending = Some [''oid'' \<mapsto> ''order'', ''sid'' \<mapsto> ''1'', ''st'' \<mapsto> ''0'']\<rparr>"
  have "quota_abs ''t'' ''d'' ''m'' ''p'' 0 ?ks = Some ?q"
    by (simp add: quota_abs_def sample_keys_def int_at_def hash_at_def is_int64_small live_def)
  moreover have "roomy ?q" by (simp add: roomy_def int64_max_def)
  ultimately show ?thesis
    using compensate_script_refines
      [OF redis_ok_sample [of "\<lambda>_ _ _. False"], of "''t''" "''d''" "''m''" "''p''" 0 ?ks ?q "''order''"]
    by (auto simp: give_back_def plus1_def)
qed

section \<open>Interleavings\<close>

text \<open>
  The participant's requests between two loads of the counters: any number of concurrent
  draws, compensations of failed saves, spent orders (\<open>SaveUserAwardRecord\<close> deletes the
  pending key) and pending orders that expire. \<open>created\<close> and \<open>refunded\<close> count what
  happened.
\<close>

record ledger =
  l_quota :: quota
  created :: int
  refunded :: int

inductive quota_step :: "ledger \<Rightarrow> ledger \<Rightarrow> bool" where
  Take: "take_part (l_quota s) oid sid = (oc, q') \<Longrightarrow>
     quota_step s (s\<lparr>l_quota := q', created := created s + (if oc = Created then 1 else 0)\<rparr>)"
| Refund: "give_back (l_quota s) oid = (n, q') \<Longrightarrow>
     quota_step s (s\<lparr>l_quota := q', refunded := refunded s + n\<rparr>)"
| Drop_pending: "quota_step s (s\<lparr>l_quota := (l_quota s)\<lparr>q_pending := None\<rparr>\<rparr>)"

inductive_cases quota_stepE: "quota_step s s'"

definition loaded :: "int \<Rightarrow> int \<Rightarrow> int \<Rightarrow> ledger" where
  "loaded a b c =
     \<lparr>l_quota = \<lparr>q_total = Some a, q_day = Some b, q_month = Some c, q_pending = None\<rparr>,
      created = 0, refunded = 0\<rparr>"

definition balanced :: "int \<Rightarrow> int \<Rightarrow> int \<Rightarrow> ledger \<Rightarrow> bool" where
  "balanced a b c s \<longleftrightarrow>
     (let used = created s - refunded s; q = l_quota s in
      0 \<le> used \<and> used \<le> a \<and> used \<le> b \<and> used \<le> c \<and>
      q_total q = Some (a - used) \<and> q_day q = Some (b - used) \<and> q_month q = Some (c - used) \<and>
      (\<forall>h. q_pending q = Some h \<longrightarrow>
         0 < used \<and> h ''st'' = Some ''0'' \<and> h ''oid'' \<noteq> None \<and> h ''sid'' \<noteq> None))"

lemma balanced_loaded: "0 \<le> a \<Longrightarrow> 0 \<le> b \<Longrightarrow> 0 \<le> c \<Longrightarrow> balanced a b c (loaded a b c)"
  by (simp add: balanced_def loaded_def)

lemma balanced_draw:
  assumes "balanced a b c s" and "q_pending (l_quota s) = None"
    and "draw_quota (l_quota s) oid sid = (oc, q')"
  shows "balanced a b c (s\<lparr>l_quota := q', created := created s + (if oc = Created then 1 else 0)\<rparr>)"
  using assms
  by (auto simp: balanced_def Let_def draw_quota_def new_pending_def split: if_splits)

lemma balanced_take:
  assumes "balanced a b c s" and "take_part (l_quota s) oid sid = (oc, q')"
  shows "balanced a b c (s\<lparr>l_quota := q', created := created s + (if oc = Created then 1 else 0)\<rparr>)"
proof (cases "q_pending (l_quota s)")
  case None
  then show ?thesis using assms balanced_draw by (simp add: take_part_def pending_of_def)
next
  case (Some h)
  then have "oc \<noteq> Created \<and> q' = l_quota s"
    using assms by (auto simp: balanced_def Let_def take_part_def pending_of_def split: option.splits if_splits)
  with assms(1) show ?thesis by (simp add: balanced_def)
qed

lemma balanced_refund:
  assumes "balanced a b c s" and "give_back (l_quota s) oid = (n, q')"
  shows "balanced a b c (s\<lparr>l_quota := q', refunded := refunded s + n\<rparr>)"
  using assms
  by (auto simp: balanced_def Let_def give_back_def plus1_def split: option.splits if_splits)

lemma balanced_step: "quota_step s s' \<Longrightarrow> balanced a b c s \<Longrightarrow> balanced a b c s'"
proof (erule quota_stepE)
  assume "balanced a b c s" and "s' = s\<lparr>l_quota := (l_quota s)\<lparr>q_pending := None\<rparr>\<rparr>"
  then show "balanced a b c s'" by (simp add: balanced_def Let_def)
qed (use balanced_take balanced_refund in blast)+

text \<open>
  The Redis server as the participant's requests see it: the instant, the keyspace, and how many
  draws reported a new order and how many compensations reported a refund. \<open>Draw\<close> and
  \<open>Compensate\<close> run the two scripts, whoever sent them; \<open>Spent\<close> is the deletion of the pending key by
  \<open>SaveUserAwardRecord\<close>; \<open>Advance\<close> lets time pass while the three counters live (a pending
  order may expire).
\<close>

record server =
  s_time :: time
  s_keys :: keyspace
  s_created :: int
  s_refunded :: int

inductive server_step :: "services \<Rightarrow> string \<Rightarrow> string \<Rightarrow> string \<Rightarrow> string \<Rightarrow> server \<Rightarrow> server \<Rightarrow> bool"
  for svc k1 k2 k3 k4 where
  Draw: "get_or_create_script svc k1 k2 k3 k4 oid sid ''0'' (FormatInt (pendingRaffleOrderTTL div second))
           (rcall svc (s_time s)) (s_keys s) = (r, ks') \<Longrightarrow>
     server_step svc k1 k2 k3 k4 s
       (s\<lparr>s_keys := ks', s_created := s_created s + (case r of Ok (LInt n # _) \<Rightarrow> if n = 1 then 1 else 0 | _ \<Rightarrow> 0)\<rparr>)"
| Compensate: "compensate_script k1 k2 k3 k4 oid (rcall svc (s_time s)) (s_keys s) = (r, ks') \<Longrightarrow>
     server_step svc k1 k2 k3 k4 s
       (s\<lparr>s_keys := ks', s_refunded := s_refunded s + (case r of Ok n \<Rightarrow> n | _ \<Rightarrow> 0)\<rparr>)"
| Spent: "rcall svc (s_time s) (DEL k4) (s_keys s) = (r, ks') \<Longrightarrow>
     server_step svc k1 k2 k3 k4 s (s\<lparr>s_keys := ks'\<rparr>)"
| Advance: "s_time s \<le> t \<Longrightarrow> (\<forall>k \<in> {k1, k2, k3}. live t (s_keys s) k = live (s_time s) (s_keys s) k) \<Longrightarrow>
     server_step svc k1 k2 k3 k4 s (s\<lparr>s_time := t\<rparr>)"

inductive_cases server_stepE: "server_step svc k1 k2 k3 k4 s s'"

definition ledger_of :: "quota \<Rightarrow> server \<Rightarrow> ledger" where
  "ledger_of q s = \<lparr>l_quota = q, created = s_created s, refunded = s_refunded s\<rparr>"

text \<open>Every step of the server is a step of the abstract quota, or changes nothing of it.\<close>

lemma live_expire: "t \<le> t' \<Longrightarrow> live t' ks k = live t ks k \<or> live t' ks k = None"
  by (auto simp: live_def split: option.splits)

lemma ledger_of_simps [simp]:
  "l_quota (ledger_of q s) = q" "created (ledger_of q s) = s_created s" "refunded (ledger_of q s) = s_refunded s"
  by (simp_all add: ledger_of_def)

lemma render_created:
  "(case render oc oid sid of LInt n # _ \<Rightarrow> if n = 1 then 1 else 0 | _ \<Rightarrow> (0::int)) = (if oc = Created then 1 else 0)"
  by (cases oc) (simp_all add: render_def)

lemma server_step_simulates:
  assumes "redis_ok svc" and "distinct [k1, k2, k3, k4]" and "server_step svc k1 k2 k3 k4 s s'"
    and "quota_abs k1 k2 k3 k4 (s_time s) (s_keys s) = Some q" and "roomy q"
  shows "\<exists>q'. quota_abs k1 k2 k3 k4 (s_time s') (s_keys s') = Some q' \<and>
           (ledger_of q' s' = ledger_of q s \<or> quota_step (ledger_of q s) (ledger_of q' s'))"
  using assms(3)
proof cases
  case (Draw oid sid r ks')
  obtain oc q' where tp: "take_part q oid sid = (oc, q')" by fastforce
  from get_or_create_step [OF assms(1,2,4), of oid sid] Draw tp
  have r: "r = Ok (render oc oid sid)" and q': "quota_abs k1 k2 k3 k4 (s_time s) ks' = Some q'" by auto
  have "quota_step (ledger_of q s) ((ledger_of q s)\<lparr>l_quota := q', created := created (ledger_of q s) + (if oc = Created then 1 else 0)\<rparr>)"
    by (rule Take [where oid = oid and sid = sid]) (simp add: tp)
  then show ?thesis using Draw(1) q' by (simp add: r render_created ledger_of_def)
next
  case (Compensate oid r ks')
  obtain n q' where gb: "give_back q oid = (n, q')" by fastforce
  from compensate_step [OF assms(1,2,4,5), of oid] Compensate gb
  have r: "r = Ok n" and q': "quota_abs k1 k2 k3 k4 (s_time s) ks' = Some q'" by auto
  have "quota_step (ledger_of q s) ((ledger_of q s)\<lparr>l_quota := q', refunded := refunded (ledger_of q s) + n\<rparr>)"
    by (rule Refund [where oid = oid]) (simp add: gb)
  then show ?thesis using Compensate(1) q' by (simp add: r ledger_of_def)
next
  case (Spent r ks')
  have at: "int_at (live (s_time s) (s_keys s)) k1 = Some (q_total q)" "int_at (live (s_time s) (s_keys s)) k2 = Some (q_day q)"
    "int_at (live (s_time s) (s_keys s)) k3 = Some (q_month q)"
    using quota_absE [OF assms(4)] by simp_all
  have "ks' = (live (s_time s) (s_keys s))(k4 := None)"
    using Spent(2) assms(1) by (auto simp: rcall_live fun_upd_idem split: if_splits)
  then have "quota_abs k1 k2 k3 k4 (s_time s) ks' = Some (q\<lparr>q_pending := None\<rparr>)"
    using at assms(2) by (auto simp: quota_abs_def int_at_def hash_at_def)
  moreover have "quota_step (ledger_of q s) ((ledger_of q s)\<lparr>l_quota := (l_quota (ledger_of q s))\<lparr>q_pending := None\<rparr>\<rparr>)"
    by (rule Drop_pending)
  ultimately show ?thesis using Spent(1) by (simp add: ledger_of_def)
next
  case (Advance t)
  have at: "int_at (live t (s_keys s)) k1 = Some (q_total q)" "int_at (live t (s_keys s)) k2 = Some (q_day q)"
    "int_at (live t (s_keys s)) k3 = Some (q_month q)"
    using quota_absE [OF assms(4)] Advance(3) by (simp_all add: int_at_def)
  show ?thesis
  proof (cases "live t (s_keys s) k4 = None")
    case True
    then have "quota_abs k1 k2 k3 k4 t (s_keys s) = Some (q\<lparr>q_pending := None\<rparr>)"
      using at by (simp add: quota_abs_def hash_at_def)
    moreover have "quota_step (ledger_of q s) ((ledger_of q s)\<lparr>l_quota := (l_quota (ledger_of q s))\<lparr>q_pending := None\<rparr>\<rparr>)"
      by (rule Drop_pending)
    ultimately show ?thesis using Advance(1) by (simp add: ledger_of_def)
  next
    case False
    then have "live t (s_keys s) k4 = live (s_time s) (s_keys s) k4"
      using live_expire [OF Advance(2), of "s_keys s" k4] by (elim disjE) simp_all
    then have "hash_at (live t (s_keys s)) k4 = Some (q_pending q)"
      using quota_absE(4) [OF assms(4)] by (simp add: hash_at_def)
    then have "quota_abs k1 k2 k3 k4 t (s_keys s) = Some q" using at by (simp add: quota_abs_def)
    then show ?thesis using Advance(1) by (simp add: ledger_of_def)
  qed
qed

lemma balanced_roomy:
  "balanced a b c l \<Longrightarrow> a < int64_max \<Longrightarrow> b < int64_max \<Longrightarrow> c < int64_max \<Longrightarrow> roomy (l_quota l)"
  by (auto simp: balanced_def roomy_def Let_def)

definition opened :: "string \<Rightarrow> string \<Rightarrow> string \<Rightarrow> string \<Rightarrow> int \<Rightarrow> int \<Rightarrow> int \<Rightarrow> server \<Rightarrow> bool" where
  "opened k1 k2 k3 k4 a b c s \<longleftrightarrow>
     quota_abs k1 k2 k3 k4 (s_time s) (s_keys s) =
       Some \<lparr>q_total = Some a, q_day = Some b, q_month = Some c, q_pending = None\<rparr> \<and>
     s_created s = 0 \<and> s_refunded s = 0 \<and> 0 \<le> a \<and> 0 \<le> b \<and> 0 \<le> c \<and> a < int64_max \<and> b < int64_max \<and> c < int64_max"

lemma server_balanced:
  assumes "redis_ok svc" and "distinct [k1, k2, k3, k4]" and "opened k1 k2 k3 k4 a b c s0"
    and "(server_step svc k1 k2 k3 k4)\<^sup>*\<^sup>* s0 s"
  shows "\<exists>q. quota_abs k1 k2 k3 k4 (s_time s) (s_keys s) = Some q \<and> balanced a b c (ledger_of q s)"
  using assms(4)
proof (induction rule: rtranclp_induct)
  case base
  then show ?case using assms(3) balanced_loaded [of a b c] by (auto simp: opened_def ledger_of_def loaded_def)
next
  case (step s1 s2)
  then obtain q where q: "quota_abs k1 k2 k3 k4 (s_time s1) (s_keys s1) = Some q" "balanced a b c (ledger_of q s1)" by blast
  have "roomy q" using balanced_roomy [OF q(2)] assms(3) by (simp add: opened_def)
  from server_step_simulates [OF assms(1,2) step(2) q(1) this] balanced_step q(2) show ?case by metis
qed

text \<open>
  C1. No interleaving of the two quota scripts oversells a participant: from counters loaded with
  \<open>a\<close>, \<open>b\<close> and \<open>c\<close>, in every state the server reaches while they live, the orders created and not
  refunded are at most \<open>min a b c\<close>, each counter is exactly its loaded value less those orders (never
  negative), and a pending order is one of them.
\<close>

theorem quota_never_oversold:
  assumes "redis_ok svc" and "distinct [k1, k2, k3, k4]" and "opened k1 k2 k3 k4 a b c s0"
    and "(server_step svc k1 k2 k3 k4)\<^sup>*\<^sup>* s0 s"
  shows "\<exists>q. quota_abs k1 k2 k3 k4 (s_time s) (s_keys s) = Some q \<and>
           0 \<le> s_created s - s_refunded s \<and> s_created s - s_refunded s \<le> min a (min b c) \<and>
           q_total q = Some (a - (s_created s - s_refunded s)) \<and>
           q_day q = Some (b - (s_created s - s_refunded s)) \<and>
           q_month q = Some (c - (s_created s - s_refunded s)) \<and>
           (q_pending q \<noteq> None \<longrightarrow> 0 < s_created s - s_refunded s)"
  using server_balanced [OF assms] by (auto simp: balanced_def Let_def)

theorem quota_never_oversold_witness:
  "\<exists>s q. (server_step (sample_svc (\<lambda>_ _ _. False)) ''t'' ''d'' ''m'' ''p'')\<^sup>*\<^sup>*
       \<lparr>s_time = 0, s_keys = sample_keys, s_created = 0, s_refunded = 0\<rparr> s \<and> s_created s = 1 \<and>
     quota_abs ''t'' ''d'' ''m'' ''p'' (s_time s) (s_keys s) = Some q \<and> q_day q = Some 0"
proof -
  let ?svc = "sample_svc (\<lambda>_ _ _. False)" and ?init = "\<lparr>s_time = 0, s_keys = sample_keys, s_created = 0, s_refunded = 0\<rparr>"
  have o: "opened ''t'' ''d'' ''m'' ''p'' 2 1 3 ?init"
    by (simp add: opened_def sample_quota int64_max_def)
  obtain ks' where scr: "get_or_create_script ?svc ''t'' ''d'' ''m'' ''p'' ''o'' ''1'' ''0''
      (FormatInt (pendingRaffleOrderTTL div second)) (rcall ?svc 0) sample_keys = (Ok [LInt 1, LStr ''o'', LStr ''1'', LStr ''0''], ks')"
    using get_or_create_step [OF redis_ok_sample [of "\<lambda>_ _ _. False"] _ sample_quota [of 0], of "''o''" "''1''"]
    by (auto simp: take_part_def pending_of_def draw_quota_def render_def)
  let ?s = "\<lparr>s_time = 0, s_keys = ks', s_created = 1, s_refunded = 0\<rparr>"
  have "server_step ?svc ''t'' ''d'' ''m'' ''p'' ?init ?s"
    using server_step.Draw [where s = ?init and svc = ?svc and r = "Ok [LInt 1, LStr ''o'', LStr ''1'', LStr ''0'']" and ks' = ks'] scr
    by simp
  then have r: "(server_step ?svc ''t'' ''d'' ''m'' ''p'')\<^sup>*\<^sup>* ?init ?s" by (rule r_into_rtranclp)
  from quota_never_oversold [OF redis_ok_sample _ o r] r show ?thesis by auto
qed

section \<open>The repository operation\<close>

text \<open>What \<open>CacheGetOrCreateNoUsedRaffleOrder\<close> returns for an abstract outcome.\<close>

definition with_order :: "UserRaffleOrder \<Rightarrow> string \<Rightarrow> int \<Rightarrow> UserRaffleOrder" where
  "with_order order oid sid =
     order\<lparr>ur_OrderID := oid, ur_StrategyID := sid, ur_OrderState := UserRaffleOrderStateCreate\<rparr>"

definition outcome_result :: "UserRaffleOrder \<Rightarrow> outcome \<Rightarrow> (UserRaffleOrder \<times> bool) res" where
  "outcome_result order oc =
     (case oc of
        Created \<Rightarrow> Ok (with_order order (ur_OrderID order) (ur_StrategyID order), False)
      | Reused oid sid \<Rightarrow> bindR (ParseInt sid) (\<lambda>n. Ok (with_order order oid n, True))
      | NotLoaded \<Rightarrow> Err ErrActivityQuotaError
      | NoTotal \<Rightarrow> Err ErrActivityQuotaError
      | NoDay \<Rightarrow> Err ErrActivityAccountDayCountSurplusNotEnough
      | NoMonth \<Rightarrow> Err ErrActivityAccountMonthCountSurplusNotEnough)"

lemma order_from_render:
  assumes "is_int64 (ur_StrategyID order)"
  shows "order_from_result order (render oc (ur_OrderID order) (FormatInt (ur_StrategyID order))) =
           outcome_result order oc"
  using assms
  by (cases order; cases oc) (simp_all add: order_from_result_def render_def outcome_result_def Sprint_def
      with_order_def ParseInt_FormatInt)

lemma CacheGetOrCreate_run:
  assumes "redis_ok svc" and "is_int64 (ur_StrategyID order)"
    and "svc_fault svc (Suc (Suc (tick w))) = NoFault"
    and "k1 = GetActivityAccountTotalSurplusKey (ur_ActivityID order) (ur_UserID order)"
    and "k2 = GetActivityAccountDaySurplusKey (ur_ActivityID order) (ur_UserID order)
                (fmt_day (svc_zone svc) (svc_clock svc (tick w)))"
    and "k3 = GetActivityAccountMonthSurplusKey (ur_ActivityID order) (ur_UserID order)
                (fmt_month (svc_zone svc) (svc_clock svc (Suc (tick w))))"
    and "k4 = GetPendingRaffleOrderKey (ur_ActivityID order) (ur_UserID order)"
    and "t = svc_rtime svc (Suc (Suc (Suc (tick w))))"
    and "quota_abs k1 k2 k3 k4 t (rkeys w) = Some q"
    and "take_part q (ur_OrderID order) (FormatInt (ur_StrategyID order)) = (oc, q')"
  shows "\<exists>w'. CacheGetOrCreateNoUsedRaffleOrder svc order w = (outcome_result order oc, w') \<and>
           quota_abs k1 k2 k3 k4 t (rkeys w') = Some q' \<and>
           (\<forall>k. k \<notin> {k1, k2, k3, k4} \<longrightarrow> live t (rkeys w') k = live t (rkeys w) k) \<and>
           store w' = store w \<and> mq w' = mq w \<and> queue w' = queue w"
proof -
  have d: "distinct [k1, k2, k3, k4]" using assms(4-7) by simp
  obtain ks' where ks': "get_or_create_script svc k1 k2 k3 k4 (ur_OrderID order) (FormatInt (ur_StrategyID order)) ''0''
        (FormatInt (pendingRaffleOrderTTL div second)) (rcall svc t) (rkeys w) =
      (Ok (render oc (ur_OrderID order) (FormatInt (ur_StrategyID order))), ks')"
      "quota_abs k1 k2 k3 k4 t ks' = Some q'"
      "\<forall>k. k \<notin> {k1, k2, k3, k4} \<longrightarrow> live t ks' k = live t (rkeys w) k"
    using get_or_create_step [OF assms(1) d assms(9), of "ur_OrderID order" "FormatInt (ur_StrategyID order)"]
      assms(10) by auto
  have "CacheGetOrCreateNoUsedRaffleOrder svc order w = (outcome_result order oc, set_keys ks' (bump (bump (bump w))))"
    using ks'(1) assms(2-8)
    by (simp add: CacheGetOrCreateNoUsedRaffleOrder_def Let_def Eval_def redis_eval_served bindE_def
        order_from_render)
  with ks' show ?thesis by simp
qed

text \<open>
  C4. Taking part through the repository: when the script call arrives,
  \<open>CacheGetOrCreateNoUsedRaffleOrder\<close> returns a fresh order (\<open>reused = false\<close>) exactly when the
  abstract quota grants one, the pending order (\<open>reused = true\<close>) when there is one, and the
  matching quota error otherwise; the database, the broker and all other keys are untouched.
\<close>

theorem CacheGetOrCreate_correct:
  assumes "redis_ok svc" and "is_int64 (ur_StrategyID order)"
    and "svc_fault svc (Suc (Suc (tick w))) = NoFault"
    and "k1 = GetActivityAccountTotalSurplusKey (ur_ActivityID order) (ur_UserID order)"
    and "k2 = GetActivityAccountDaySurplusKey (ur_ActivityID order) (ur_UserID order)
                (fmt_day (svc_zone svc) (svc_clock svc (tick w)))"
    and "k3 = GetActivityAccountMonthSurplusKey (ur_ActivityID order) (ur_UserID order)
                (fmt_month (svc_zone svc) (svc_clock svc (Suc (tick w))))"
    and "k4 = GetPendingRaffleOrderKey (ur_ActivityID order) (ur_UserID order)"
    and "t = svc_rtime svc (Suc (Suc (Suc (tick w))))"
    and "quota_abs k1 k2 k3 k4 t (rkeys w) = Some q"
    and "take_part q (ur_OrderID order) (FormatInt (ur_StrategyID order)) = (oc, q')"
  shows "\<exists>w'. CacheGetOrCreateNoUsedRaffleOrder svc order w = (outcome_result order oc, w') \<and>
           quota_abs k1 k2 k3 k4 t (rkeys w') = Some q' \<and>
           (\<forall>k. k \<notin> {k1, k2, k3, k4} \<longrightarrow> live t (rkeys w') k = live t (rkeys w) k) \<and>
           store w' = store w \<and> mq w' = mq w \<and> queue w' = queue w"
  by (rule CacheGetOrCreate_run [OF assms])

theorem CacheGetOrCreate_correct_witness:
  "\<exists>w'. CacheGetOrCreateNoUsedRaffleOrder (sample_svc (\<lambda>_ _ _. False)) zero_UserRaffleOrder empty_world =
      (Err ErrActivityQuotaError, w')"
proof -
  have "quota_abs k1 k2 k3 k4 t (rkeys empty_world) = Some \<lparr>q_total = None, q_day = None, q_month = None, q_pending = None\<rparr>"
    for k1 k2 k3 k4 t
    by (simp add: quota_abs_def live_def int_at_def hash_at_def)
  from CacheGetOrCreate_correct [OF redis_ok_sample [of "\<lambda>_ _ _. False"] _ _ refl refl refl refl refl this,
      where order = zero_UserRaffleOrder and oc = NotLoaded
        and q' = "\<lparr>q_total = None, q_day = None, q_month = None, q_pending = None\<rparr>"]
  show ?thesis
    by (auto simp: zero_UserRaffleOrder_def is_int64_small take_part_def pending_of_def draw_quota_def outcome_result_def)
qed

end
