(* ===== verification/Settlement.thy ===== *)
theory Settlement
  imports Quota_Spec
begin

text \<open>
  What the two transactions of \<open>activity_partake.go\<close> do to the tables:
  \<open>SaveLiteUserRaffleOrder\<close> adds the order and its outbox task together or not at all, and
  \<open>SaveCreatePartakeOrderAggregate\<close> settles an order against the total, month and day accounts
  exactly once.
\<close>

lemma caseE_Ok_iff:
  "caseE m h f w = (Ok y, w'') \<longleftrightarrow>
     (\<exists>x w'. m w = (Ok x, w') \<and> f x w' = (Ok y, w'')) \<or>
     (\<exists>e w'. m w = (Err e, w') \<and> h e w' = (Ok y, w''))"
  by (auto simp: caseE_def split: prod.splits res.splits)

lemma faults_okD:
  "faults_ok svc \<Longrightarrow> fault_error (svc_fault svc n) = Some e \<Longrightarrow>
   \<not> errors_Is e GormRecordNotFound \<and> \<not> errors_Is e GormDuplicatedKey \<and>
   \<not> errors_Is e MySQLDuplicateEntry \<and> \<not> errors_Is e RedisNil"
  by (auto simp: faults_ok_def)

text \<open>A query that treats \<open>ErrRecordNotFound\<close> apart succeeds along one of two branches, which the
  table decides.\<close>

lemma caseE_First_Ok_iff:
  assumes "mysql_ok svc uniq" and "faults_ok svc"
    and "\<And>e w1 x w2. \<not> errors_Is e GormRecordNotFound \<Longrightarrow> h e w1 \<noteq> (Ok x, w2)"
  shows "caseE (gorm_First svc db t p) h f w = (Ok y, w'') \<longleftrightarrow>
     svc_fault svc (tick w) = NoFault \<and>
     (case find p (tbls (store w) (db, t)) of
        None \<Rightarrow> h GormRecordNotFound (bump w) = (Ok y, w'')
      | Some r \<Rightarrow> f r (bump w) = (Ok y, w''))"
proof (cases "svc_fault svc (tick w)")
  case NoFault
  then show ?thesis
    using assms(1)
    by (cases "find p (tbls (store w) (db, t))")
      (simp_all add: caseE_def gorm_First_not_found gorm_First_found)
next
  case (FailBefore e)
  then have "\<not> errors_Is e GormRecordNotFound" 
    using faults_okD [OF assms(2), of "tick w" e] by (simp add: fault_error_def)
  then show ?thesis
    using assms(3) FailBefore by (simp add: caseE_def gorm_First_def sql_def remote_def bindE_def)
next
  case (FailAfter e)
  then have "\<not> errors_Is e GormRecordNotFound" 
    using faults_okD [OF assms(2), of "tick w" e] by (simp add: fault_error_def)
  then show ?thesis
    using assms(3) FailAfter by (simp add: caseE_def gorm_First_def sql_def remote_def bindE_def)
qed

lemma not_found_not_Ok [simp]: "not_found e w \<noteq> (Ok x, w')"
  by (simp add: not_found_def)

lemma dup_index_not_Ok [simp]: "dup_index e w \<noteq> (Ok x, w')"
  by (simp add: dup_index_def)

lemma find_map_if:
  "(\<And>r. p r \<Longrightarrow> p (f r)) \<Longrightarrow> find p (map (\<lambda>r. if p r then f r else r) xs) = map_option f (find p xs)"
  by (induction xs) auto

lemma find_snoc: "find p (xs @ [y]) = (case find p xs of Some x \<Rightarrow> Some x | None \<Rightarrow> if p y then Some y else None)"
  by (induction xs) auto

lemma find_SomeD: "find p xs = Some r \<Longrightarrow> p r"
  by (auto simp: find_Some_iff)

lemma on_row_simps [simp]:
  "on_account f (RAccount a) = RAccount (f a)" "on_month g (RMonth m) = RMonth (g m)"
  "on_day h (RDay d) = RDay (h d)" "on_order k (RRaffleOrder o1) = RRaffleOrder (k o1)"
  by (simp_all add: on_account_def on_month_def on_day_def on_order_def)

text \<open>The order stays the user's order under the update.\<close>

lemma order_row_complete: "order_row uid oid r \<Longrightarrow> order_row uid oid (on_order (complete_order t) r)"
  by (cases r) (simp_all add: order_row_def on_order_def complete_order_def)

abbreviation accT :: string where "accT \<equiv> ''raffle_activity_account''"
abbreviation monT :: string where "monT \<equiv> ''raffle_activity_account_month''"
abbreviation dayT :: string where "dayT \<equiv> ''raffle_activity_account_day''"

text \<open>
  What a settlement is meant to change, written over the columns of the tables: which rows belong to the
  user's account, month, day and order, and what each of them is afterwards.
\<close>

definition is_account :: "string \<Rightarrow> int \<Rightarrow> row \<Rightarrow> bool" where
  "is_account uid aid r = (case r of RAccount a \<Rightarrow> acc_UserID a = uid \<and> acc_ActivityID a = aid | _ \<Rightarrow> False)"

definition is_month :: "string \<Rightarrow> int \<Rightarrow> string \<Rightarrow> row \<Rightarrow> bool" where
  "is_month uid aid m r =
     (case r of RMonth x \<Rightarrow> mon_UserID x = uid \<and> mon_ActivityID x = aid \<and> mon_Month x = m | _ \<Rightarrow> False)"

definition is_day :: "string \<Rightarrow> int \<Rightarrow> string \<Rightarrow> row \<Rightarrow> bool" where
  "is_day uid aid d r =
     (case r of RDay x \<Rightarrow> day_UserID x = uid \<and> day_ActivityID x = aid \<and> day_Day x = d | _ \<Rightarrow> False)"

definition is_order :: "string \<Rightarrow> string \<Rightarrow> row \<Rightarrow> bool" where
  "is_order uid oid r = (case r of RRaffleOrder x \<Rightarrow> uo_UserID x = uid \<and> uo_OrderID x = oid | _ \<Rightarrow> False)"

definition account_after :: "string \<Rightarrow> int \<Rightarrow> time \<Rightarrow> row \<Rightarrow> row" where
  "account_after uid aid t r =
     (if is_account uid aid r
      then RAccount ((the_account r)\<lparr>acc_TotalCountSurplus := acc_TotalCountSurplus (the_account r) - 1,
             acc_DayCountSurplus := acc_DayCountSurplus (the_account r) - 1,
             acc_MonthCountSurplus := acc_MonthCountSurplus (the_account r) - 1, acc_UpdateTime := t\<rparr>)
      else r)"

definition month_after :: "string \<Rightarrow> int \<Rightarrow> string \<Rightarrow> time \<Rightarrow> row \<Rightarrow> row" where
  "month_after uid aid m t r =
     (if is_month uid aid m r
      then RMonth ((the_month r)\<lparr>mon_MonthCountSurplus := mon_MonthCountSurplus (the_month r) - 1, mon_UpdateTime := t\<rparr>)
      else r)"

definition day_after :: "string \<Rightarrow> int \<Rightarrow> string \<Rightarrow> time \<Rightarrow> row \<Rightarrow> row" where
  "day_after uid aid d t r =
     (if is_day uid aid d r
      then RDay ((the_day r)\<lparr>day_DayCountSurplus := day_DayCountSurplus (the_day r) - 1, day_UpdateTime := t\<rparr>)
      else r)"

definition order_after :: "string \<Rightarrow> string \<Rightarrow> time \<Rightarrow> row \<Rightarrow> row" where
  "order_after uid oid t r =
     (if is_order uid oid r
      then RRaffleOrder ((the_raffle_order r)\<lparr>uo_AccountSyncState := ''completed'', uo_UpdateTime := t\<rparr>)
      else r)"

text \<open>The whole month and day tables after the settlement of an order against account \<open>a\<close>: the row of the
  period is one less, or it is opened from the account with one less.\<close>

definition month_settled ::
    "string \<Rightarrow> int \<Rightarrow> string \<Rightarrow> time \<Rightarrow> po_RaffleActivityAccount \<Rightarrow> row list \<Rightarrow> row list \<Rightarrow> bool" where
  "month_settled uid aid m t a rows rows' \<longleftrightarrow>
     (case find (is_month uid aid m) rows of
        Some r \<Rightarrow> 0 < mon_MonthCountSurplus (the_month r) \<and> rows' = map (month_after uid aid m t) rows
      | None \<Rightarrow> \<exists>i t'. rows' = rows @
          [RMonth \<lparr>mon_ID = i, mon_UserID = uid, mon_ActivityID = aid, mon_Month = m, mon_MonthCount = acc_MonthCount a,
                   mon_MonthCountSurplus = acc_MonthCountSurplus a - 1, mon_CreateTime = t', mon_UpdateTime = t'\<rparr>])"

definition day_settled ::
    "string \<Rightarrow> int \<Rightarrow> string \<Rightarrow> time \<Rightarrow> po_RaffleActivityAccount \<Rightarrow> row list \<Rightarrow> row list \<Rightarrow> bool" where
  "day_settled uid aid d t a rows rows' \<longleftrightarrow>
     (case find (is_day uid aid d) rows of
        Some r \<Rightarrow> 0 < day_DayCountSurplus (the_day r) \<and> rows' = map (day_after uid aid d t) rows
      | None \<Rightarrow> \<exists>i t'. rows' = rows @
          [RDay \<lparr>day_ID = i, day_UserID = uid, day_ActivityID = aid, day_Day = d, day_DayCount = acc_DayCount a,
                 day_DayCountSurplus = acc_DayCountSurplus a - 1, day_CreateTime = t', day_UpdateTime = t'\<rparr>])"

text \<open>The \<open>WHERE\<close> clauses and the \<open>SET\<close> lists of the code are these.\<close>

lemma where_clauses:
  "account_row uid aid = is_account uid aid" "month_row uid aid m = is_month uid aid m"
  "day_row uid aid d = is_day uid aid d" "order_row uid oid = is_order uid oid"
  by (rule ext; auto simp: account_row_def is_account_def month_row_def is_month_def day_row_def is_day_def
      order_row_def is_order_def split: row.split)+

lemma set_lists:
  "(if account_row uid aid r then on_account (debit_account t) r else r) = account_after uid aid t r"
  "(if month_row uid aid m r then on_month (debit_month t) r else r) = month_after uid aid m t r"
  "(if day_row uid aid d r then on_day (debit_day t) r else r) = day_after uid aid d t r"
  "(if order_row uid oid r then on_order (complete_order t) r else r) = order_after uid oid t r"
  unfolding where_clauses
  by (cases r; simp add: account_after_def is_account_def month_after_def is_month_def day_after_def is_day_def
      order_after_def is_order_def on_account_def on_month_def on_day_def on_order_def debit_account_def
      debit_month_def debit_day_def complete_order_def AccountSyncStateCompleted_def)+

lemma settle_month_Ok:
  assumes "mysql_ok svc uniq" and "faults_ok svc"
    and "settle_month svc db uid aid m t a w = (Ok u, w')"
  shows "month_settled uid aid m t a (tbls (store w) (db, monT)) (tbls (store w') (db, monT)) \<and>
         (\<forall>dt. dt \<noteq> (db, monT) \<longrightarrow> tbls (store w') dt = tbls (store w) dt) \<and> rkeys w' = rkeys w"
  using assms(3) unfolding settle_month_def
  by (subst (asm) caseE_First_Ok_iff [OF assms(1,2)])
    (auto simp: caseE_Ok_iff gorm_Create_Ok_iff [OF assms(1)] gorm_Updates_Ok_iff [OF assms(1)]
      bindE_Ok_iff month_settled_def set_lists where_clauses [symmetric]
      new_month_row_def split: option.splits if_splits)

lemma settle_day_Ok:
  assumes "mysql_ok svc uniq" and "faults_ok svc"
    and "settle_day svc db uid aid d t a w = (Ok u, w')"
  shows "day_settled uid aid d t a (tbls (store w) (db, dayT)) (tbls (store w') (db, dayT)) \<and>
         (\<forall>dt. dt \<noteq> (db, dayT) \<longrightarrow> tbls (store w') dt = tbls (store w) dt) \<and> rkeys w' = rkeys w"
  using assms(3) unfolding settle_day_def
  by (subst (asm) caseE_First_Ok_iff [OF assms(1,2)])
    (auto simp: caseE_Ok_iff gorm_Create_Ok_iff [OF assms(1)] gorm_Updates_Ok_iff [OF assms(1)]
      bindE_Ok_iff day_settled_def set_lists where_clauses [symmetric]
      new_day_row_def split: option.splits if_splits)


text \<open>The effect of the settlement transaction's body on an order that is not settled yet.\<close>

lemma settle_order_effect:
  assumes "mysql_ok svc uniq" and "faults_ok svc"
    and "settle_order svc db suffix uid oid w = (Ok u, w1)"
    and "find (order_row uid oid) (tbls (store w) (db, order_table suffix)) = Some (RRaffleOrder ord)"
    and "uo_AccountSyncState ord \<noteq> AccountSyncStateCompleted" and "aid = uo_ActivityID ord"
  shows "\<exists>a t.
     find (account_row uid aid) (tbls (store w) (db, accT)) = Some (RAccount a) \<and>
     0 < acc_TotalCountSurplus a \<and> 0 < acc_MonthCountSurplus a \<and> 0 < acc_DayCountSurplus a \<and>
     tbls (store w1) (db, accT) = map (account_after uid aid t) (tbls (store w) (db, accT)) \<and>
     month_settled uid aid (fmt_month (svc_zone svc) (uo_OrderTime ord)) t a
       (tbls (store w) (db, monT)) (tbls (store w1) (db, monT)) \<and>
     day_settled uid aid (fmt_day (svc_zone svc) (uo_OrderTime ord)) t a
       (tbls (store w) (db, dayT)) (tbls (store w1) (db, dayT)) \<and>
     find (order_row uid oid) (tbls (store w1) (db, order_table suffix)) =
       Some (RRaffleOrder (complete_order t ord)) \<and>
     (\<forall>dt. dt \<notin> {(db, accT), (db, monT), (db, dayT), (db, order_table suffix)} \<longrightarrow>
        tbls (store w1) dt = tbls (store w) dt) \<and>
     rkeys w1 = rkeys w \<and>
     tbls (store w1) (db, order_table suffix) =
       map (\<lambda>r. if order_row uid oid r then on_order (complete_order t) r else r) (tbls (store w) (db, order_table suffix))"
proof -
  let ?t = "svc_clock svc (Suc (tick w))"
  let ?m = "fmt_month (svc_zone svc) (uo_OrderTime ord)" and ?d = "fmt_day (svc_zone svc) (uo_OrderTime ord)"
  from assms(3-6) obtain ar where ar:
      "find (account_row uid aid) (tbls (store w) (db, accT)) = Some ar"
      "0 < acc_TotalCountSurplus (the_account ar)" "0 < acc_MonthCountSurplus (the_account ar)"
      "0 < acc_DayCountSurplus (the_account ar)"
    and rest: "bindE (gorm_Updates svc db accT (account_row uid aid) (on_account (debit_account ?t))) (\<lambda>_.
        bindE (settle_month svc db uid aid ?m ?t (the_account ar)) (\<lambda>_.
        bindE (settle_day svc db uid aid ?d ?t (the_account ar)) (\<lambda>_.
        bindE (gorm_Updates svc db (order_table suffix) (order_row uid oid) (on_order (complete_order ?t))) (\<lambda>_.
        ret ())))) (bump (bump (bump w))) = (Ok u, w1)"
    unfolding settle_order_def
    by (auto simp: caseE_First_Ok_iff [OF assms(1,2)] not_found_def Let_def not_le split: option.splits if_splits)
  let ?w2 = "update_rows (db, accT) (account_row uid aid) (on_account (debit_account ?t)) (bump (bump (bump (bump w))))"
  from rest obtain w3 w4 where
      m: "settle_month svc db uid aid ?m ?t (the_account ar) ?w2 = (Ok (), w3)"
    and d: "settle_day svc db uid aid ?d ?t (the_account ar) w3 = (Ok (), w4)"
    and o: "w1 = update_rows (db, order_table suffix) (order_row uid oid) (on_order (complete_order ?t)) (bump w4)"
    by (auto simp: bindE_Ok_iff gorm_Updates_Ok_iff [OF assms(1)])
  note m = settle_month_Ok [OF assms(1,2) m] and d = settle_day_Ok [OF assms(1,2) d]
  obtain a where a: "ar = RAccount a" using find_SomeD [OF ar(1)] by (cases ar) (simp_all add: account_row_def)
  have acc: "tbls (store w1) (db, accT) = tbls (store ?w2) (db, accT)" using m d o by simp
  have ord: "tbls (store w1) (db, order_table suffix) =
      map (\<lambda>r. if order_row uid oid r then on_order (complete_order ?t) r else r) (tbls (store w) (db, order_table suffix))"
    using m d o by simp
  show ?thesis
    using ar a m d o acc ord assms(4)
    by (intro exI [of _ a] exI [of _ ?t])
      (auto simp: find_map_if order_row_complete set_lists(1))
qed

lemma Save_settles:
  assumes "DBStrategy rt (cp_UserID agg) = Ok (Some db, suffix)"
    and "cp_UserRaffleOrder agg = Some order"
    and "SaveCreatePartakeOrderAggregate svc rt agg w = (Ok u, w')"
  shows "\<exists>w1. settle_order svc db suffix (cp_UserID agg) (ur_OrderID order) w = (Ok u, w1) \<and> w' = bump w1"
  using assms
  by (auto simp: SaveCreatePartakeOrderAggregate_def bindE_def shard_def transaction_Ok_iff split: if_splits)

text \<open>
  C17. Settling an order is exact: when \<open>SaveCreatePartakeOrderAggregate\<close> succeeds on an order
  that was not settled yet, the account of the user and the activity had a positive total, month and
  day surplus, and afterwards every table is known row by row: in the account table the three surpluses of
  that account are one less and every other row is as it was; in the month and the day table the same
  holds of the row of the order's date (or it was added, opened from the account with one less); in
  the order table that order is marked completed and no other row changed; no other table and no
  Redis key changed.
\<close>

theorem settle_exact:
  assumes "mysql_ok svc uniq" and "faults_ok svc" and "0 < dbs" and "0 < tbs"
    and "SaveCreatePartakeOrderAggregate svc (NewDBRouter dbs tbs) agg w = (Ok u, w')"
    and "DBStrategy (NewDBRouter dbs tbs) (cp_UserID agg) = Ok (Some db, suffix)"
    and "cp_UserRaffleOrder agg = Some order" and "uid = cp_UserID agg" and "oid = ur_OrderID order"
    and "find (is_order uid oid) (tables w (db, order_table suffix)) = Some (RRaffleOrder ord)"
    and "uo_AccountSyncState ord \<noteq> ''completed''" and "aid = uo_ActivityID ord"
  shows "\<exists>a t.
     find (is_account uid aid) (tables w (db, accT)) = Some (RAccount a) \<and>
     0 < acc_TotalCountSurplus a \<and> 0 < acc_MonthCountSurplus a \<and> 0 < acc_DayCountSurplus a \<and>
     tables w' (db, accT) = map (account_after uid aid t) (tables w (db, accT)) \<and>
     month_settled uid aid (fmt_month (svc_zone svc) (uo_OrderTime ord)) t a (tables w (db, monT)) (tables w' (db, monT)) \<and>
     day_settled uid aid (fmt_day (svc_zone svc) (uo_OrderTime ord)) t a (tables w (db, dayT)) (tables w' (db, dayT)) \<and>
     tables w' (db, order_table suffix) = map (order_after uid oid t) (tables w (db, order_table suffix)) \<and>
     (\<forall>dt. dt \<notin> {(db, accT), (db, monT), (db, dayT), (db, order_table suffix)} \<longrightarrow> tables w' dt = tables w dt) \<and>
     rkeys w' = rkeys w"
proof -
  obtain w1 where w1: "settle_order svc db suffix uid oid w = (Ok u, w1)" "w' = bump w1"
    using Save_settles [OF assms(6,7,5)] assms(8,9) by blast
  have "uo_AccountSyncState ord \<noteq> AccountSyncStateCompleted"
    using assms(11) by (simp add: AccountSyncStateCompleted_def)
  from settle_order_effect [OF assms(1,2) w1(1) assms(10) [folded where_clauses] this assms(12)] w1(2)
  show ?thesis by (auto simp: set_lists where_clauses(1))
qed

text \<open>The first row of an order that a settlement completed is completed, so the next run of the
  same message finds nothing to do.\<close>

lemma settle_done:
  assumes "mysql_ok svc uniq" and "svc_fault svc (tick w) = NoFault" and "svc_fault svc (Suc (tick w)) = NoFault"
    and "DBStrategy rt (cp_UserID agg) = Ok (Some db, suffix)"
    and "cp_UserRaffleOrder agg = Some order" and "ur_OrderID order \<noteq> ''''"
    and "find (order_row (cp_UserID agg) (ur_OrderID order)) (tbls (store w) (db, order_table suffix)) = Some (RRaffleOrder ord)"
    and "uo_AccountSyncState ord = AccountSyncStateCompleted"
  shows "SaveCreatePartakeOrderAggregate svc rt agg w = (Ok (), bump (bump w))"
  using assms gorm_First_found [OF assms(1,2) assms(7)]
  by (simp add: SaveCreatePartakeOrderAggregate_def shard_def bindE_def transaction_def settle_order_def
      caseE_def Let_def)

text \<open>
  C18. A message delivered again settles nothing twice: after a successful settlement, running
  \<open>SaveCreatePartakeOrderAggregate\<close> on the same order again (with the database answering) succeeds
  and changes no table.
\<close>

theorem settle_idempotent:
  assumes "mysql_ok svc uniq" and "faults_ok svc" and "0 < dbs" and "0 < tbs"
    and "SaveCreatePartakeOrderAggregate svc (NewDBRouter dbs tbs) agg w = (Ok u, w')"
    and "svc_fault svc (tick w') = NoFault" and "svc_fault svc (Suc (tick w')) = NoFault"
  shows "\<exists>w''. SaveCreatePartakeOrderAggregate svc (NewDBRouter dbs tbs) agg w' = (Ok (), w'') \<and>
           tbls (store w'') = tbls (store w') \<and> rkeys w'' = rkeys w'"
proof -
  obtain db suffix where sh: "DBStrategy (NewDBRouter dbs tbs) (cp_UserID agg) = Ok (Some db, suffix)"
    using DBStrategy_slot [OF assms(3,4)] by blast
  obtain order where ord: "cp_UserRaffleOrder agg = Some order" "ur_OrderID order \<noteq> ''''"
    using assms(5)
    by (auto simp: SaveCreatePartakeOrderAggregate_def split: option.splits if_splits)
  let ?p = "order_row (cp_UserID agg) (ur_OrderID order)"
  obtain w1 where w1: "settle_order svc db suffix (cp_UserID agg) (ur_OrderID order) w = (Ok u, w1)" "w' = bump w1"
    using Save_settles [OF sh ord(1) assms(5)] by blast
  from w1(1) obtain r where r: "find ?p (tbls (store w) (db, order_table suffix)) = Some r"
    unfolding settle_order_def
    by (auto simp: caseE_First_Ok_iff [OF assms(1,2)] not_found_def Let_def split: option.splits)
  obtain o' where o': "r = RRaffleOrder o'" using find_SomeD [OF r] by (cases r) (simp_all add: order_row_def)
  have "\<exists>o''. find ?p (tbls (store w') (db, order_table suffix)) = Some (RRaffleOrder o'') \<and>
          uo_AccountSyncState o'' = AccountSyncStateCompleted"
  proof (cases "uo_AccountSyncState o' = AccountSyncStateCompleted")
    case True
    then have "w1 = bump w"
      using w1(1) r o' unfolding settle_order_def
      by (auto simp: caseE_First_Ok_iff [OF assms(1,2)] not_found_def Let_def split: option.splits)
    then show ?thesis using w1(2) r o' True by simp
  next
    case False
    with settle_order_effect [OF assms(1,2) w1(1) r [unfolded o'] False refl] w1(2)
    show ?thesis by (auto simp: complete_order_def)
  qed
  then show ?thesis
    using settle_done [OF assms(1,6,7) sh ord] by (intro exI [of _ "bump (bump w')"]) auto
qed

section \<open>Saving the order with its outbox task\<close>

text \<open>The keys of Redis are all a script can change.\<close>

lemma Eval_frame:
  "store (snd (Eval svc cd scr w)) = store w \<and> mq (snd (Eval svc cd scr w)) = mq w"
  by (auto simp: Eval_def redis_eval_def run_script_def remote_def split: fault.split prod.split)

lemma compensate_frame: "store (snd (compensatePendingRaffleOrder svc order w)) = store w"
proof -
  have "store (snd (bindE (Eval svc cd scr) (\<lambda>_. ret ()) w)) = store w" for cd and scr :: "int script"
    using Eval_frame [of svc cd scr w] by (auto simp: bindE_def split: prod.split res.split)
  then show ?thesis by (simp add: compensatePendingRaffleOrder_def Let_def)
qed

lemma compensate_and_fail_frame:
  "compensate_and_fail svc order e w = (r, w') \<Longrightarrow> store w' = store w \<and> (\<forall>x. r \<noteq> Ok x)"
  using compensate_frame [of svc order w]
  by (auto simp: compensate_and_fail_def bindE_def ignoreE_def caseE_def split: prod.splits res.splits)

lemma NewBaseEvent_Ok:
  "\<exists>ev w'. NewBaseEvent svc d w = (Ok ev, w') \<and> store w' = store w \<and> rkeys w' = rkeys w \<and> mq w' = mq w"
  by (auto simp: NewBaseEvent_def generateShortID_def bindE_def split: option.split)

text \<open>The number of the event that would be made for some data.\<close>

definition event_id :: "services \<Rightarrow> event_data \<Rightarrow> world \<Rightarrow> string" where
  "event_id svc d w = (case fst (NewBaseEvent svc d w) of Ok ev \<Rightarrow> ev_ID ev | _ \<Rightarrow> '''')"

text \<open>The row of the outbox task: it carries the number of the event and names the order.\<close>

definition save_order_task :: "services \<Rightarrow> CreatePartakeOrder \<Rightarrow> UserRaffleOrder \<Rightarrow> string \<Rightarrow> po_Task \<Rightarrow> bool" where
  "save_order_task svc agg order mid tk \<longleftrightarrow>
     pt_UserID tk = cp_UserID agg \<and> pt_Topic tk = SaveOrderRecordTopic \<and> pt_MessageID tk = mid \<and> pt_State tk = ''create'' \<and>
     enc (js_SaveOrder svc) \<lparr>so_UserID = cp_UserID agg, so_OrderID = ur_OrderID order\<rparr> = Ok (pt_Message tk)"

lemma buildSaveOrderTaskPO_frame:
  assumes "buildSaveOrderTaskPO svc uid mid agg w = (r, w')"
  shows "store w' = store w \<and>
         (\<forall>tk order. r = Ok tk \<longrightarrow> cp_UserRaffleOrder agg = Some order \<longrightarrow> uid = cp_UserID agg \<longrightarrow>
            save_order_task svc agg order mid tk)"
  using assms
  by (cases "cp_UserRaffleOrder agg")
    (auto simp: buildSaveOrderTaskPO_def save_order_task_def bindE_def split: res.splits)

text \<open>The row of the order, column by column.\<close>

definition order_columns :: "UserRaffleOrder \<Rightarrow> int \<Rightarrow> time \<Rightarrow> row" where
  "order_columns order i t =
     RRaffleOrder
       \<lparr>uo_ID = i, uo_UserID = ur_UserID order, uo_ActivityID = ur_ActivityID order,
        uo_ActivityName = ur_ActivityName order, uo_StrategyID = ur_StrategyID order, uo_OrderID = ur_OrderID order,
        uo_OrderTime = ur_OrderTime order, uo_OrderState = ur_OrderState order, uo_AccountSyncState = ''create'',
        uo_CreateTime = t, uo_UpdateTime = t\<rparr>"

lemma order_columns: "with_id i (new_order_row order t) = order_columns order i t"
  by (simp add: new_order_row_def order_columns_def AccountSyncStateCreate_def)

definition order_and_task_added ::
    "services \<Rightarrow> string \<Rightarrow> string \<Rightarrow> CreatePartakeOrder \<Rightarrow> UserRaffleOrder \<Rightarrow> string \<Rightarrow> world \<Rightarrow> world \<Rightarrow> bool" where
  "order_and_task_added svc db suffix agg order mid w w' \<longleftrightarrow>
     (\<exists>t i j tk. save_order_task svc agg order mid tk \<and>
        tbls (store w') =
          (tbls (store w))((db, order_table suffix) := tbls (store w) (db, order_table suffix) @ [order_columns order i t],
                           (db, ''task'') := tbls (store w) (db, ''task'') @ [RTask (tk\<lparr>pt_ID := j\<rparr>)]))"

lemma order_and_task_added_bump [simp]:
  "order_and_task_added svc db suffix agg order mid w (bump w') = order_and_task_added svc db suffix agg order mid w w'"
  by (simp add: order_and_task_added_def)

text \<open>A unique index of the order table or of the task table holds one of the two rows already.\<close>

definition rejected_duplicate ::
    "services \<Rightarrow> (string \<Rightarrow> row \<Rightarrow> row \<Rightarrow> bool) \<Rightarrow> string \<Rightarrow> string \<Rightarrow> CreatePartakeOrder \<Rightarrow> UserRaffleOrder \<Rightarrow> string \<Rightarrow> world \<Rightarrow> bool" where
  "rejected_duplicate svc uniq db suffix agg order mid w \<longleftrightarrow>
     (\<exists>x \<in> set (tbls (store w) (db, order_table suffix)). \<exists>t. uniq (order_table suffix) x (order_columns order 0 t)) \<or>
     (\<exists>x \<in> set (tbls (store w) (db, ''task'')). \<exists>tk. save_order_task svc agg order mid tk \<and> uniq ''task'' x (RTask tk))"

lemma Create_Err:
  assumes "mysql_ok svc uniq" and "gorm_Create svc db t r w = (Err e, w')"
  shows "(\<exists>x \<in> set (tbls (store w) (db, t)). uniq t x r) \<and> e = MySQLDuplicateEntry \<or>
         fault_error (svc_fault svc (tick w)) = Some e"
  using assms
  by (auto simp: gorm_Create_def sql_def sql_run_def remote_def mysql_ok_def bindE_def Let_def fault_error_def
      split: fault.splits if_splits)

lemma Create_no_Panic: "mysql_ok svc uniq \<Longrightarrow> gorm_Create svc db t r w \<noteq> (Panic s, w')"
  by (auto simp: gorm_Create_def sql_def sql_run_def remote_def mysql_ok_def bindE_def Let_def
      split: fault.splits if_splits)

text \<open>\<open>errors.Is(err, ErrDuplicatedKey) || strings.Contains(err.Error(), "Duplicate entry")\<close> on an
  error of the transport.\<close>

lemma fault_not_duplicate:
  "faults_ok svc \<Longrightarrow> fault_error (svc_fault svc n) = Some e \<Longrightarrow>
   \<not> errors_Is e GormDuplicatedKey \<and> \<not> is_duplicate_text e"
  using faults_okD [of svc n e] by (cases e) auto

lemma Create_dup:
  assumes "mysql_ok svc uniq" and "faults_ok svc" and "gorm_Create svc db t r w = (Err e, w')"
    and "errors_Is e GormDuplicatedKey \<or> is_duplicate_text e"
  shows "\<exists>x \<in> set (tbls (store w) (db, t)). uniq t x r"
  using Create_Err [OF assms(1,3)] fault_not_duplicate [OF assms(2)] assms(4) by blast

lemma save_lite_transaction:
  assumes "mysql_ok svc uniq" and "faults_ok svc" and "save_order_task svc agg order mid tk"
    and "transaction svc
           (bindE (now svc) (\<lambda>t.
            bindE (gorm_Create svc db (order_table suffix) (new_order_row order t)) (\<lambda>_.
            bindE (gorm_Create svc db ''task'' (RTask tk)) (\<lambda>_. ret ())))) w = (r, w')"
  shows "(tbls (store w') = tbls (store w) \<or> order_and_task_added svc db suffix agg order mid w w') \<and>
         (r = Ok () \<longrightarrow> order_and_task_added svc db suffix agg order mid w w') \<and>
         (\<forall>e. r = Err e \<longrightarrow> errors_Is e GormDuplicatedKey \<or> is_duplicate_text e \<longrightarrow>
            tbls (store w') = tbls (store w) \<and> rejected_duplicate svc uniq db suffix agg order mid w)"
proof -
  let ?body = "bindE (now svc) (\<lambda>t.
            bindE (gorm_Create svc db (order_table suffix) (new_order_row order t)) (\<lambda>_.
            bindE (gorm_Create svc db ''task'' (RTask tk)) (\<lambda>_. ret ())))"
  obtain rb wb where body: "?body w = (rb, wb)" by fastforce
  have ok: "order_and_task_added svc db suffix agg order mid w wb" if "rb = Ok ()"
    unfolding order_and_task_added_def
    using body that assms(3)
    by (intro exI [of _ "svc_clock svc (tick w)"] exI [of _ "next_id (store w)"]
        exI [of _ "next_id (store w) + 1"] exI [of _ tk])
      (auto simp: bindE_Ok_iff gorm_Create_Ok_iff [OF assms(1)] order_columns)
  have zero: "new_order_row order t = order_columns order 0 t" for t
    by (simp add: new_order_row_def order_columns_def AccountSyncStateCreate_def)
  have dup: "rejected_duplicate svc uniq db suffix agg order mid w" if "rb = Err e" "errors_Is e GormDuplicatedKey \<or> is_duplicate_text e" for e
  proof -
    let ?row = "new_order_row order (svc_clock svc (tick w))"
    from body that(1) consider w1 where "gorm_Create svc db (order_table suffix) ?row (bump w) = (Err e, w1)"
      | x w1 w2 where "gorm_Create svc db (order_table suffix) ?row (bump w) = (Ok x, w1)"
          "gorm_Create svc db ''task'' (RTask tk) w1 = (Err e, w2)"
      by (auto elim!: bindE_ErrE)
    then show ?thesis
    proof cases
      case 1
      from Create_dup [OF assms(1,2) 1 that(2)] show ?thesis by (auto simp: rejected_duplicate_def zero)
    next
      case 2
      from Create_dup [OF assms(1,2) 2(2) that(2)] 2(1) show ?thesis
        using assms(3) by (auto simp: rejected_duplicate_def gorm_Create_Ok_iff [OF assms(1)])
    qed
  qed
  show ?thesis
  proof (cases rb)
    case (Ok x)
    then show ?thesis
      using assms(4) body ok fault_not_duplicate [OF assms(2), of "tick wb"]
      by (auto simp: transaction_def fault_error_def simp del: bindE_now split: fault.splits)
  next
    case (Err e)
    then show ?thesis using assms(4) body dup by (auto simp: transaction_def)
  next
    case (Panic s)
    then show ?thesis using assms(4) body by (auto simp: transaction_def)
  qed
qed


lemma SaveLite_effect:
  assumes "mysql_ok svc uniq" and "faults_ok svc"
    and "DBStrategy rt (ur_UserID order) = Ok (Some db, suffix)"
    and "cp_UserRaffleOrder agg = Some order"
    and "SaveLiteUserRaffleOrder svc rt agg w = (r, w')" and "mid = event_id svc (EPartake agg) w"
  shows "(tbls (store w') = tbls (store w) \<or> order_and_task_added svc db suffix agg order mid w w') \<and>
         (r = Ok () \<longrightarrow> order_and_task_added svc db suffix agg order mid w w' \<or>
            tbls (store w') = tbls (store w) \<and> rejected_duplicate svc uniq db suffix agg order mid w)"
proof -
  obtain ev w1 where ev: "NewBaseEvent svc (EPartake agg) w = (Ok ev, w1)" "store w1 = store w"
    using NewBaseEvent_Ok by blast
  obtain rb w2 where b: "buildSaveOrderTaskPO svc (cp_UserID agg) (ev_ID ev) agg w1 = (rb, w2)" by fastforce
  have mid: "mid = ev_ID ev" using assms(6) ev(1) by (simp add: event_id_def)
  note bf = buildSaveOrderTaskPO_frame [OF b, folded mid]
  show ?thesis
  proof (cases rb)
    case (Ok tk)
    let ?txn = "transaction svc
                 (bindE (now svc) (\<lambda>t.
                  bindE (gorm_Create svc db (order_table suffix) (new_order_row order t)) (\<lambda>_.
                  bindE (gorm_Create svc db ''task'' (RTask tk)) (\<lambda>_. ret ()))))"
    obtain rt2 w3 where t: "?txn w2 = (rt2, w3)" by fastforce
    have "save_order_task svc agg order mid tk" using bf Ok assms(4) by blast
    from save_lite_transaction [OF assms(1,2) this t] ev(2) bf have tr:
      "(tbls (store w3) = tbls (store w) \<or> order_and_task_added svc db suffix agg order mid w w3) \<and>
       (rt2 = res.Ok () \<longrightarrow> order_and_task_added svc db suffix agg order mid w w3) \<and>
       (\<forall>e. rt2 = Err e \<longrightarrow> errors_Is e GormDuplicatedKey \<or> is_duplicate_text e \<longrightarrow>
          tbls (store w3) = tbls (store w) \<and> rejected_duplicate svc uniq db suffix agg order mid w)"
      by (simp add: order_and_task_added_def rejected_duplicate_def)
    have "store w' = store w3 \<and> (r = res.Ok () \<longrightarrow> rt2 = res.Ok () \<or>
        (\<exists>e. rt2 = Err e \<and> (errors_Is e GormDuplicatedKey \<or> is_duplicate_text e)))"
      using assms(3-5) ev(1) b Ok t compensate_and_fail_frame
      by (auto simp: SaveLiteUserRaffleOrder_def shard_def bindE_def caseE_def
          split: res.splits if_splits) blast+
    with tr show ?thesis by (auto simp: order_and_task_added_def)
  next
    case (Err e)
    then have "compensate_and_fail svc order e w2 = (r, w')"
      using assms(3-5) ev(1) b by (simp add: SaveLiteUserRaffleOrder_def shard_def bindE_def caseE_def)
    then show ?thesis using compensate_and_fail_frame ev(2) bf by fastforce
  next
    case (Panic s)
    then show ?thesis
      using assms(3-5) ev b bf by (auto simp: SaveLiteUserRaffleOrder_def shard_def bindE_def caseE_def)
  qed
qed

text \<open>
  The order and its outbox task are one unit: whatever \<open>SaveLiteUserRaffleOrder\<close> returns, the
  tables are either as before or have gained exactly the order row (not yet settled) and the task
  row that will settle it. It reports success only in the second case, or when the schema
  rejected the insert as a duplicate.
\<close>

theorem SaveLite_atomic:
  assumes "mysql_ok svc uniq" and "faults_ok svc" and "0 < dbs" and "0 < tbs"
    and "cp_UserRaffleOrder agg = Some order"
    and "SaveLiteUserRaffleOrder svc (NewDBRouter dbs tbs) agg w = (r, w')" and "mid = event_id svc (EPartake agg) w"
  shows "\<exists>db suffix. DBStrategy (NewDBRouter dbs tbs) (ur_UserID order) = Ok (Some db, suffix) \<and>
         (tbls (store w') = tbls (store w) \<or> order_and_task_added svc db suffix agg order mid w w') \<and>
         (r = Ok () \<longrightarrow> order_and_task_added svc db suffix agg order mid w w' \<or>
            tbls (store w') = tbls (store w) \<and> rejected_duplicate svc uniq db suffix agg order mid w)"
  using SaveLite_effect [OF assms(1,2) _ assms(5,6,7)] DBStrategy_slot [OF assms(3,4)] by blast

section \<open>Concrete runs\<close>


definition sample_order :: po_UserRaffleOrder where
  "sample_order =
     \<lparr>uo_ID = 1, uo_UserID = ''e'', uo_ActivityID = 100301, uo_ActivityName = ''a'', uo_StrategyID = 100006,
      uo_OrderID = ''7'', uo_OrderTime = 0, uo_OrderState = ''create'', uo_AccountSyncState = ''create'',
      uo_CreateTime = 0, uo_UpdateTime = 0\<rparr>"

definition sample_account :: po_RaffleActivityAccount where
  "sample_account =
     \<lparr>acc_ID = 1, acc_UserID = ''e'', acc_ActivityID = 100301, acc_TotalCount = 10, acc_TotalCountSurplus = 5,
      acc_DayCount = 3, acc_DayCountSurplus = 2, acc_MonthCount = 6, acc_MonthCountSurplus = 4,
      acc_CreateTime = 0, acc_UpdateTime = 0\<rparr>"

definition sample_world :: world where
  "sample_world =
     empty_world\<lparr>store := \<lparr>tbls = (\<lambda>_. [])((''01'', order_table ''002'') := [RRaffleOrder sample_order],
                                            (''01'', accT) := [RAccount sample_account]),
                          next_id = 2\<rparr>\<rparr>"

definition sample_aggregate :: CreatePartakeOrder where
  "sample_aggregate = ToCreatePartakeOrder \<lparr>so_UserID = ''e'', so_OrderID = ''7''\<rparr>"

lemma sample_shard: "DBStrategy (NewDBRouter 2 4) ''e'' = Ok (Some ''01'', ''002'')"
  by code_simp

lemma sample_world_simps [simp]:
  "tbls (store sample_world) (''01'', order_table ''002'') = [RRaffleOrder sample_order]"
  "tbls (store sample_world) (''01'', accT) = [RAccount sample_account]"
  "tbls (store sample_world) (''01'', monT) = []" "tbls (store sample_world) (''01'', dayT) = []"
  "tick sample_world = 0" "rkeys sample_world = Map.empty"
  by (simp_all add: sample_world_def)

lemma sample_rows [simp]:
  "order_row ''e'' ''7'' (RRaffleOrder sample_order)"
  "account_row ''e'' 100301 (RAccount sample_account)"
  by (simp_all add: order_row_def account_row_def sample_order_def sample_account_def)

lemma sample_settles:
  "\<exists>w'. SaveCreatePartakeOrderAggregate (sample_svc (\<lambda>_ _ _. False)) (NewDBRouter 2 4) sample_aggregate sample_world = (Ok (), w')"
  by (simp add: SaveCreatePartakeOrderAggregate_def sample_aggregate_def ToCreatePartakeOrder_def shard_def sample_shard
      bindE_def sample_transaction settle_order_def caseE_def Let_def sample_order_def sample_account_def
      order_row_def account_row_def
      settle_month_def settle_day_def AccountSyncStateCompleted_def new_month_row_def new_day_row_def)

theorem settle_exact_witness:
  "\<exists>w' t. SaveCreatePartakeOrderAggregate (sample_svc (\<lambda>_ _ _. False)) (NewDBRouter 2 4) sample_aggregate sample_world = (Ok (), w') \<and>
     tables w' (''01'', accT) = [RAccount (sample_account\<lparr>acc_TotalCountSurplus := 4, acc_DayCountSurplus := 1,
       acc_MonthCountSurplus := 3, acc_UpdateTime := t\<rparr>)] \<and>
     tables w' (''01'', order_table ''002'') = [RRaffleOrder (sample_order\<lparr>uo_AccountSyncState := ''completed'', uo_UpdateTime := t\<rparr>)]"
proof -
  obtain w' where w': "SaveCreatePartakeOrderAggregate (sample_svc (\<lambda>_ _ _. False)) (NewDBRouter 2 4) sample_aggregate sample_world = (Ok (), w')"
    using sample_settles by blast
  have agg: "cp_UserID sample_aggregate = ''e''" "\<exists>order. cp_UserRaffleOrder sample_aggregate = Some order \<and> ur_OrderID order = ''7''"
    by (simp_all add: sample_aggregate_def ToCreatePartakeOrder_def)
  then obtain order where ord: "cp_UserRaffleOrder sample_aggregate = Some order" "''7'' = ur_OrderID order" by auto
  have sh: "DBStrategy (NewDBRouter 2 4) (cp_UserID sample_aggregate) = Ok (Some ''01'', ''002'')"
    using sample_shard agg by simp
  have rows: "find (is_order ''e'' ''7'') (tables sample_world (''01'', order_table ''002'')) = Some (RRaffleOrder sample_order)"
    "uo_AccountSyncState sample_order \<noteq> ''completed''"
    by (simp_all add: where_clauses [symmetric]) (simp add: sample_order_def)
  obtain a t where
    "tables w' (''01'', accT) = map (account_after ''e'' 100301 t) (tables sample_world (''01'', accT))"
    "tables w' (''01'', order_table ''002'') = map (order_after ''e'' ''7'' t) (tables sample_world (''01'', order_table ''002''))"
    using settle_exact [OF mysql_ok_sample faults_ok_sample _ _ w' sh ord(1) agg(1) [symmetric] ord(2) rows refl]
    by (auto simp: sample_order_def)
  then show ?thesis using w'
    by (auto simp: account_after_def order_after_def is_account_def is_order_def sample_account_def sample_order_def)
qed

theorem settle_idempotent_witness:
  "\<exists>w' w''. SaveCreatePartakeOrderAggregate (sample_svc (\<lambda>_ _ _. False)) (NewDBRouter 2 4) sample_aggregate sample_world = (Ok (), w') \<and>
     SaveCreatePartakeOrderAggregate (sample_svc (\<lambda>_ _ _. False)) (NewDBRouter 2 4) sample_aggregate w' = (Ok (), w'') \<and>
     tbls (store w'') = tbls (store w')"
proof -
  obtain w' where w': "SaveCreatePartakeOrderAggregate (sample_svc (\<lambda>_ _ _. False)) (NewDBRouter 2 4) sample_aggregate sample_world = (Ok (), w')"
    using sample_settles by blast
  with settle_idempotent [OF mysql_ok_sample faults_ok_sample _ _ w'] show ?thesis by auto
qed

theorem SaveLite_atomic_witness:
  "\<exists>r w'. SaveLiteUserRaffleOrder (sample_svc (\<lambda>_ _ _. True)) (NewDBRouter 2 4) sample_aggregate sample_world = (r, w') \<and>
     (r = Ok () \<longrightarrow> order_and_task_added (sample_svc (\<lambda>_ _ _. True)) ''01'' ''002'' sample_aggregate
        (the (cp_UserRaffleOrder sample_aggregate)) (event_id (sample_svc (\<lambda>_ _ _. True)) (EPartake sample_aggregate) sample_world)
        sample_world w' \<or> tbls (store w') = tbls (store sample_world))"
proof -
  obtain r w' where run: "SaveLiteUserRaffleOrder (sample_svc (\<lambda>_ _ _. True)) (NewDBRouter 2 4) sample_aggregate sample_world = (r, w')"
    by fastforce
  have o: "cp_UserRaffleOrder sample_aggregate = Some (the (cp_UserRaffleOrder sample_aggregate))"
    and u: "ur_UserID (the (cp_UserRaffleOrder sample_aggregate)) = ''e''"
    by (simp_all add: sample_aggregate_def ToCreatePartakeOrder_def)
  from SaveLite_atomic [OF mysql_ok_sample faults_ok_sample _ _ o run refl] run sample_shard u
  show ?thesis by auto
qed

end
