(* ===== verification/Partake_Usecase.thy ===== *)
theory Partake_Usecase
  imports Settlement
begin

text \<open>
  \<open>internal/biz/activity/pertake.go\<close>: \<open>ActivityPartakeUsecase\<close> over its \<open>Repo\<close> interface. The
  interface is a record of operations; \<open>activity_repo\<close> is the one \<open>NewActivityRepository\<close>
  provides for it.
\<close>

record partake_repo =
  r_QueryRaffleActivity :: "int \<Rightarrow> Activity M"
  r_QueryActivityAccount :: "string \<Rightarrow> int \<Rightarrow> ActivityAccount option M"
  r_QueryActivityAccountDay :: "string \<Rightarrow> int \<Rightarrow> string \<Rightarrow> ActivityAccountDay option M"
  r_QueryActivityAccountMonth :: "string \<Rightarrow> int \<Rightarrow> string \<Rightarrow> ActivityAccountMonth option M"
  r_CacheGetOrCreate :: "UserRaffleOrder \<Rightarrow> (UserRaffleOrder \<times> bool) M"
  r_SaveLite :: "CreatePartakeOrder \<Rightarrow> unit M"
  r_SaveCreatePartakeOrder :: "CreatePartakeOrder \<Rightarrow> unit M"

definition activity_repo :: "services \<Rightarrow> DBRouter \<Rightarrow> partake_repo" where
  "activity_repo svc rt =
     \<lparr>r_QueryRaffleActivity = QueryRaffleActivity svc,
      r_QueryActivityAccount = \<lambda>uid aid. bindE (QueryActivityAccount svc rt uid aid) (\<lambda>a. ret (Some a)),
      r_QueryActivityAccountDay = QueryActivityAccountDay svc rt,
      r_QueryActivityAccountMonth = QueryActivityAccountMonth svc rt,
      r_CacheGetOrCreate = CacheGetOrCreateNoUsedRaffleOrder svc,
      r_SaveLite = SaveLiteUserRaffleOrder svc rt,
      r_SaveCreatePartakeOrder = SaveCreatePartakeOrderAggregate svc rt\<rparr>"

definition quotaCheckResultFromErr :: "gerr option \<Rightarrow> string" where
  "quotaCheckResultFromErr err =
     (case err of
        None \<Rightarrow> ''success''
      | Some e \<Rightarrow>
          if errors_Is e ErrActivityQuotaError then ''total_quota_exhausted''
          else if errors_Is e ErrActivityAccountDayCountSurplusNotEnough then ''day_quota_exhausted''
          else if errors_Is e ErrActivityAccountMonthCountSurplusNotEnough then ''month_quota_exhausted''
          else ''error'')"

text \<open>\<open>defer\<close>: the metric is counted for a return and for a panic alike.\<close>

definition defer_quota_metric :: "int \<Rightarrow> 'a M \<Rightarrow> 'a M" where
  "defer_quota_metric aid m w =
     (case m w of
        (Ok x, w') \<Rightarrow> (Ok x, snd (IncActivityQuota aid (quotaCheckResultFromErr None) w'))
      | (Err e, w') \<Rightarrow> (Err e, snd (IncActivityQuota aid (quotaCheckResultFromErr (Some e)) w'))
      | (Panic s, w') \<Rightarrow> (Panic s, snd (IncActivityQuota aid (quotaCheckResultFromErr None) w')))"

definition check_account ::
    "services \<Rightarrow> partake_repo \<Rightarrow> string \<Rightarrow> int \<Rightarrow> time \<Rightarrow> CreatePartakeOrder M" where
  "check_account svc repo uid aid currentTime =
     bindE (r_QueryActivityAccount repo uid aid) (\<lambda>acc.
     case acc of
       None \<Rightarrow> fail ErrActivityQuotaError
     | Some account \<Rightarrow>
         if aa_TotalCountSurplus account \<le> 0 then fail ErrActivityQuotaError
         else
           let day = fmt_day (svc_zone svc) currentTime; month = fmt_month (svc_zone svc) currentTime in
           bindE (r_QueryActivityAccountDay repo uid aid day) (\<lambda>dayAccount.
           if (case dayAccount of Some d \<Rightarrow> ad_DayCountSurplus d \<le> 0 | None \<Rightarrow> False)
           then fail ErrActivityAccountDayCountSurplusNotEnough
           else
             bindE (r_QueryActivityAccountMonth repo uid aid month) (\<lambda>monthAccount.
             if (case monthAccount of Some m \<Rightarrow> am_MonthCountSurplus m \<le> 0 | None \<Rightarrow> False)
             then fail ErrActivityAccountMonthCountSurplusNotEnough
             else
               ret \<lparr>cp_UserID = uid, cp_ActivityID = aid, cp_ActivityAccount = Some account,
                    cp_IsExistAccountMonth = (monthAccount \<noteq> None),
                    cp_ActivityAccountMonth =
                      Some (case monthAccount of
                              Some m \<Rightarrow> m
                            | None \<Rightarrow> \<lparr>am_UserID = uid, am_ActivityID = aid, am_Month = month,
                                       am_MonthCount = aa_MonthCount account,
                                       am_MonthCountSurplus = aa_MonthCountSurplus account\<rparr>),
                    cp_IsExistAccountDay = (dayAccount \<noteq> None),
                    cp_ActivityAccountDay =
                      Some (case dayAccount of
                              Some d \<Rightarrow> d
                            | None \<Rightarrow> \<lparr>ad_UserID = uid, ad_ActivityID = aid, ad_Day = day,
                                       ad_DayCount = aa_DayCount account,
                                       ad_DayCountSurplus = aa_DayCountSurplus account\<rparr>),
                    cp_UserRaffleOrder = None\<rparr>)))"

definition doFilterAccount ::
    "services \<Rightarrow> partake_repo \<Rightarrow> string \<Rightarrow> int \<Rightarrow> time \<Rightarrow> CreatePartakeOrder M" where
  "doFilterAccount svc repo uid aid currentTime =
     defer_quota_metric aid (check_account svc repo uid aid currentTime)"

definition buildUserRaffleOrder :: "services \<Rightarrow> string \<Rightarrow> Activity \<Rightarrow> time \<Rightarrow> UserRaffleOrder M" where
  "buildUserRaffleOrder svc uid act currentTime =
     bindE (random_order_id svc) (\<lambda>oid.
     ret \<lparr>ur_UserID = uid, ur_ActivityID = av_ActivityID act, ur_ActivityName = av_ActivityName act,
          ur_StrategyID = av_StrategyID act, ur_OrderID = oid, ur_OrderTime = currentTime,
          ur_OrderState = UserRaffleOrderStateCreate\<rparr>)"

definition bare_partake_order :: "string \<Rightarrow> int \<Rightarrow> UserRaffleOrder \<Rightarrow> CreatePartakeOrder" where
  "bare_partake_order uid aid order =
     \<lparr>cp_UserID = uid, cp_ActivityID = aid, cp_ActivityAccount = None, cp_IsExistAccountMonth = False,
      cp_ActivityAccountMonth = None, cp_IsExistAccountDay = False, cp_ActivityAccountDay = None,
      cp_UserRaffleOrder = Some order\<rparr>"

definition CreateOrder ::
    "services \<Rightarrow> partake_repo \<Rightarrow> PartakeRaffleActivity \<Rightarrow> CreatePartakeOrder M" where
  "CreateOrder svc repo partake =
     (let uid = pr_UserID partake; aid = pr_ActivityID partake in
      bindE (now svc) (\<lambda>currentTime.
      bindE (r_QueryRaffleActivity repo aid) (\<lambda>act.
      if av_State act \<noteq> ActivityStateOpen then fail ErrActivityStateError
      else if currentTime < av_BeginDateTime act \<or> av_EndDateTime act < currentTime
      then fail ErrActivityTimeError
      else
        bindE (doFilterAccount svc repo uid aid currentTime) (\<lambda>aggregate.
        bindE (buildUserRaffleOrder svc uid act currentTime) (\<lambda>newOrder.
        bindE (r_CacheGetOrCreate repo newOrder) (\<lambda>(order, reused).
        if reused then ret (bare_partake_order uid aid order)
        else
          let aggregate = aggregate\<lparr>cp_UserRaffleOrder := Some order\<rparr> in
          bindE (r_SaveLite repo aggregate) (\<lambda>_. ret aggregate)))))))"

definition SaveOrderRecord :: "partake_repo \<Rightarrow> CreatePartakeOrder \<Rightarrow> unit M" where
  "SaveOrderRecord repo aggregate = r_SaveCreatePartakeOrder repo aggregate"

section \<open>The reservation and the save\<close>

text \<open>
  \<open>CreateOrder\<close> up to the save: the aggregate, and whether its order is a fresh one that still has to be
  saved.
\<close>

definition reserve_order :: "services \<Rightarrow> partake_repo \<Rightarrow> PartakeRaffleActivity \<Rightarrow> (CreatePartakeOrder \<times> bool) M" where
  "reserve_order svc repo p =
     bindE (now svc) (\<lambda>t.
     bindE (r_QueryRaffleActivity repo (pr_ActivityID p)) (\<lambda>act.
     if av_State act \<noteq> ActivityStateOpen then fail ErrActivityStateError
     else if t < av_BeginDateTime act \<or> av_EndDateTime act < t then fail ErrActivityTimeError
     else
       bindE (doFilterAccount svc repo (pr_UserID p) (pr_ActivityID p) t) (\<lambda>agg.
       bindE (buildUserRaffleOrder svc (pr_UserID p) act t) (\<lambda>new.
       bindE (r_CacheGetOrCreate repo new) (\<lambda>(order, reused).
       ret (if reused then (bare_partake_order (pr_UserID p) (pr_ActivityID p) order, False)
            else (agg\<lparr>cp_UserRaffleOrder := Some order\<rparr>, True)))))))"

lemma CreateOrder_reserve:
  "CreateOrder svc repo p =
     bindE (reserve_order svc repo p) (\<lambda>(agg, fresh).
       if fresh then bindE (r_SaveLite repo agg) (\<lambda>_. ret agg) else ret agg)"
  by (rule ext)
    (simp add: CreateOrder_def reserve_order_def Let_def bindE_assoc if_distrib [of "\<lambda>m. bindE m f w" for f w]
      bindE_def split: prod.split res.split)

section \<open>The contract of the repository\<close>

text \<open>
  What \<open>CreateOrder\<close> relies on: queries and the reservation leave the tables alone, a reservation
  hands out an unused order of the user that asked, and saving is all or nothing. \<open>ok\<close> says for
  which configurations a provider promises it.
\<close>

locale partake_contract =
  fixes repo :: "'c \<Rightarrow> partake_repo"
    and ok :: "'c \<Rightarrow> bool"
    and saved :: "'c \<Rightarrow> CreatePartakeOrder \<Rightarrow> world \<Rightarrow> world \<Rightarrow> bool"
    and duplicate :: "'c \<Rightarrow> CreatePartakeOrder \<Rightarrow> world \<Rightarrow> bool"
  assumes query_activity: "ok c \<Longrightarrow> keeps tables (r_QueryRaffleActivity (repo c) aid)"
    and query_account: "ok c \<Longrightarrow> keeps tables (r_QueryActivityAccount (repo c) uid aid)"
    and query_day: "ok c \<Longrightarrow> keeps tables (r_QueryActivityAccountDay (repo c) uid aid d)"
    and query_month: "ok c \<Longrightarrow> keeps tables (r_QueryActivityAccountMonth (repo c) uid aid m)"
    and reserve: "ok c \<Longrightarrow> keeps tables (r_CacheGetOrCreate (repo c) o1)"
    and reserve_owner: "r_CacheGetOrCreate (repo c) o1 w = (Ok (o2, reused), w') \<Longrightarrow>
          ur_UserID o2 = ur_UserID o1 \<and> ur_ActivityID o2 = ur_ActivityID o1 \<and>
          ur_OrderState o2 = UserRaffleOrderStateCreate"
    and save_atomic: "ok c \<Longrightarrow> r_SaveLite (repo c) agg w = (r, w') \<Longrightarrow>
          (tables w' = tables w \<or> saved c agg w w') \<and>
          (r = Ok () \<longrightarrow> saved c agg w w' \<or> tables w' = tables w \<and> duplicate c agg w)"
begin

text \<open>Everything before the save.\<close>

lemma filter_tables: "ok c \<Longrightarrow> keeps tables (doFilterAccount svc (repo c) uid aid t)"
proof -
  assume "ok c"
  then have k: "keeps tables (check_account svc (repo c) uid aid t)"
    unfolding check_account_def Let_def
    by (intro keeps_rules query_account query_day query_month)
  show ?thesis
    unfolding doFilterAccount_def keeps_def defer_quota_metric_def
    using keepsD [OF k] by (auto simp: IncActivityQuota_def split: prod.split res.split)
qed

lemma build_tables: "keeps tables (buildUserRaffleOrder svc uid act t)"
  unfolding buildUserRaffleOrder_def random_order_id_def by (intro keeps_rules)

lemma filter_result:
  "doFilterAccount svc (repo c) uid aid t w = (Ok agg, w') \<Longrightarrow> cp_UserID agg = uid"
  by (auto simp: doFilterAccount_def defer_quota_metric_def check_account_def Let_def bindE_def
      split: prod.splits res.splits option.splits if_splits)

lemma build_owner:
  "buildUserRaffleOrder svc uid act t w = (Ok order, w') \<Longrightarrow> ur_UserID order = uid"
  by (auto simp: buildUserRaffleOrder_def)

lemma reserve_order_owner:
  assumes "reserve_order svc (repo c) p w = (Ok (agg, fresh), w')"
  shows "\<exists>order. cp_UserRaffleOrder agg = Some order \<and> ur_UserID order = pr_UserID p \<and>
           ur_OrderState order = UserRaffleOrderStateCreate \<and> cp_UserID agg = pr_UserID p"
  using assms
  by (auto simp: reserve_order_def bare_partake_order_def split: if_splits prod.splits
      dest!: reserve_owner build_owner filter_result)

lemma CreateOrder_owner:
  assumes "CreateOrder svc (repo c) p w = (Ok agg, w')"
  shows "\<exists>order. cp_UserRaffleOrder agg = Some order \<and> ur_UserID order = pr_UserID p \<and>
           ur_OrderState order = UserRaffleOrderStateCreate \<and> cp_UserID agg = pr_UserID p"
proof -
  from assms obtain fresh w1 where "reserve_order svc (repo c) p w = (Ok (agg, fresh), w1)"
    by (auto simp: CreateOrder_reserve split: if_splits)
  then show ?thesis by (rule reserve_order_owner)
qed

lemma reserve_order_tables: "ok c \<Longrightarrow> keeps tables (reserve_order svc (repo c) p)"
  unfolding reserve_order_def
  by (intro keeps_rules query_activity filter_tables build_tables reserve)

lemma CreateOrder_tables:
  assumes "ok c" and "CreateOrder svc (repo c) p w = (r, w')" and "reserve_order svc (repo c) p w = (rp, w1)"
  shows "tables w1 = tables w \<and>
         (case rp of
            Ok (agg, fresh) \<Rightarrow>
              if fresh then (tables w' = tables w1 \<or> saved c agg w1 w') \<and>
                (\<forall>agg'. r = Ok agg' \<longrightarrow> agg' = agg \<and> (saved c agg w1 w' \<or> tables w' = tables w1 \<and> duplicate c agg w1))
              else r = Ok agg \<and> w' = w1
          | Err e \<Rightarrow> r = Err e \<and> w' = w1 | Panic s \<Rightarrow> r = Panic s \<and> w' = w1)"
proof -
  have t: "tables w1 = tables w" using keepsD [OF reserve_order_tables [OF assms(1)] assms(3)] .
  show ?thesis
  proof (cases rp)
    case (Ok x)
    obtain agg fresh where x: "x = (agg, fresh)" by (cases x)
    show ?thesis
    proof (cases fresh)
      case True
      obtain rs w2 where s: "r_SaveLite (repo c) agg w1 = (rs, w2)" by fastforce
      from save_atomic [OF assms(1) s] show ?thesis
        using assms(2,3) Ok x True s t
        by (cases rs) (auto simp: CreateOrder_reserve bindE_def)
    next
      case False
      then show ?thesis using assms(2,3) Ok x t by (auto simp: CreateOrder_reserve bindE_def)
    qed
  qed (use assms(2,3) t in \<open>auto simp: CreateOrder_reserve bindE_def\<close>)
qed

end

section \<open>The activity repository keeps the contract\<close>

type_synonym deployment = "services \<times> int \<times> int \<times> (string \<Rightarrow> row \<Rightarrow> row \<Rightarrow> bool)"

definition deployed_repo :: "deployment \<Rightarrow> partake_repo" where
  "deployed_repo = (\<lambda>(svc, dbs, tbs, uniq). activity_repo svc (NewDBRouter dbs tbs))"

definition deployment_ok :: "deployment \<Rightarrow> bool" where
  "deployment_ok = (\<lambda>(svc, dbs, tbs, uniq). mysql_ok svc uniq \<and> faults_ok svc \<and> 0 < dbs \<and> 0 < tbs)"

definition order_saved :: "deployment \<Rightarrow> CreatePartakeOrder \<Rightarrow> world \<Rightarrow> world \<Rightarrow> bool" where
  "order_saved = (\<lambda>(svc, dbs, tbs, uniq) agg w w'.
     \<exists>order db suffix. cp_UserRaffleOrder agg = Some order \<and>
       DBStrategy (NewDBRouter dbs tbs) (ur_UserID order) = Ok (Some db, suffix) \<and>
       order_and_task_added svc db suffix agg order (event_id svc (EPartake agg) w) w w')"

definition order_rejected :: "deployment \<Rightarrow> CreatePartakeOrder \<Rightarrow> world \<Rightarrow> bool" where
  "order_rejected = (\<lambda>(svc, dbs, tbs, uniq) agg w.
     \<exists>order db suffix. cp_UserRaffleOrder agg = Some order \<and>
       DBStrategy (NewDBRouter dbs tbs) (ur_UserID order) = Ok (Some db, suffix) \<and>
       rejected_duplicate svc uniq db suffix agg order (event_id svc (EPartake agg) w) w)"

lemma tables_shard [keeps_rules]: "keeps tables (shard rt uid)"
  unfolding shard_def by (rule keeps_rules)

lemma tables_deref [keeps_rules]: "keeps tables (deref x)"
  unfolding deref_def by (intro keeps_rules)

lemma tables_or_nil [keeps_rules]: "keeps tables (or_nil e)"
  unfolding or_nil_def by (intro keeps_rules)

lemma tables_Eval [keeps_rules]: "keeps tables (Eval svc cd scr)"
  unfolding Eval_def by (intro keeps_rules)

lemma query_frames:
  assumes "mysql_ok svc uniq"
  shows "keeps tables (QueryRaffleActivity svc aid)" "keeps tables (QueryActivityAccount svc rt uid aid)"
    "keeps tables (QueryActivityAccountDay svc rt uid aid d)"
    "keeps tables (QueryActivityAccountMonth svc rt uid aid m)"
  unfolding QueryRaffleActivity_def QueryActivityAccount_def QueryActivityAccountDay_def
    QueryActivityAccountMonth_def
  by (intro keeps_rules tables_gorm_query [OF assms])+

lemma reserve_frame: "keeps tables (CacheGetOrCreateNoUsedRaffleOrder svc order)"
  unfolding CacheGetOrCreateNoUsedRaffleOrder_def Let_def by (intro keeps_rules)

lemma order_from_result_owner:
  "order_from_result o1 res = Ok (o2, reused) \<Longrightarrow>
   ur_UserID o2 = ur_UserID o1 \<and> ur_ActivityID o2 = ur_ActivityID o1 \<and> ur_OrderState o2 = UserRaffleOrderStateCreate"
  by (auto simp: order_from_result_def elim!: bindR.elims split: list.splits lval.splits if_splits)

lemma SaveLite_contract:
  assumes "deployment_ok (svc, dbs, tbs, uniq)"
    and "SaveLiteUserRaffleOrder svc (NewDBRouter dbs tbs) agg w = (r, w')"
  shows "(tables w' = tables w \<or> order_saved (svc, dbs, tbs, uniq) agg w w') \<and>
         (r = Ok () \<longrightarrow> order_saved (svc, dbs, tbs, uniq) agg w w' \<or>
            tables w' = tables w \<and> order_rejected (svc, dbs, tbs, uniq) agg w)"
proof (cases "cp_UserRaffleOrder agg")
  case None
  then show ?thesis using assms(2) by (auto simp: SaveLiteUserRaffleOrder_def)
next
  case (Some order)
  obtain db suffix where "DBStrategy (NewDBRouter dbs tbs) (ur_UserID order) = Ok (Some db, suffix)"
    using DBStrategy_slot assms(1) by (fastforce simp: deployment_ok_def)
  with SaveLite_effect [OF _ _ this Some assms(2) refl] Some assms(1) show ?thesis
    by (auto simp: deployment_ok_def order_saved_def order_rejected_def)
qed

interpretation ar: partake_contract deployed_repo deployment_ok order_saved order_rejected
proof (unfold_locales, goal_cases)
  case (6 c o1 w o2 reused w')
  then show ?case
    by (auto simp: deployed_repo_def activity_repo_def CacheGetOrCreateNoUsedRaffleOrder_def Let_def
        dest!: order_from_result_owner split: prod.splits)
next
  case (7 c agg w r w')
  then show ?case using SaveLite_contract by (cases c) (simp add: deployed_repo_def activity_repo_def)
qed (auto simp: deployed_repo_def activity_repo_def deployment_ok_def
      intro!: query_frames reserve_frame keeps_bindE keeps_ret)

section \<open>A concrete run\<close>

definition sample_activity :: Activity where
  "sample_activity =
     \<lparr>av_ActivityID = 1, av_ActivityName = ''a'', av_ActivityDesc = ''d'', av_BeginDateTime = 0,
      av_EndDateTime = 2000000000 * second, av_StrategyID = 5, av_State = ''open''\<rparr>"

definition sample_entity :: ActivityAccount where
  "sample_entity =
     \<lparr>aa_UserID = ''e'', aa_ActivityID = 1, aa_TotalCount = 10, aa_TotalCountSurplus = 5, aa_DayCount = 3,
      aa_DayCountSurplus = 2, aa_MonthCount = 6, aa_MonthCountSurplus = 4\<rparr>"

definition warm_svc :: services where
  "warm_svc = (sample_svc (\<lambda>_ _ _. False))
     \<lparr>js_Activity := single_codec sample_activity zero_Activity,
      js_ActivityAccount := single_codec sample_entity zero_ActivityAccount\<rparr>"

definition warm_world :: world where
  "warm_world = empty_world
     \<lparr>rkeys := [GetActivityKey 1 \<mapsto> (RStr ''{}'', None), GetActivityAccountKey 1 ''e'' \<mapsto> (RStr ''{}'', None),
               GetPendingRaffleOrderKey 1 ''e'' \<mapsto> (RHash [''oid'' \<mapsto> ''9'', ''sid'' \<mapsto> ''5'', ''st'' \<mapsto> ''0''], None)]\<rparr>"

lemma warm_keys [simp]:
  "GetActivityKey a \<noteq> GetActivityAccountKey b u" "GetActivityKey a \<noteq> GetPendingRaffleOrderKey b u"
  "GetActivityAccountKey a u \<noteq> GetPendingRaffleOrderKey b v"
  by (simp_all add: activity_key_defs)

text \<open>Services and keys with the activity and the account in the cache.\<close>

definition warm :: "services \<Rightarrow> bool" where
  "warm svc \<longleftrightarrow> redis_ok svc \<and> (\<exists>uniq. mysql_ok svc uniq) \<and> svc_fault svc = (\<lambda>_. NoFault) \<and> svc_depth svc = 2 \<and>
     svc_clock svc = (\<lambda>_. 1700000000 * second) \<and> svc_int63n svc = (\<lambda>_ m. 7) \<and>
     js_Activity svc = single_codec sample_activity zero_Activity \<and>
     js_ActivityAccount svc = single_codec sample_entity zero_ActivityAccount"

definition warm_cache :: "keyspace \<Rightarrow> bool" where
  "warm_cache ks \<longleftrightarrow> (\<forall>t. live t ks = ks) \<and> ks (GetActivityKey 1) = Some (RStr ''{}'', None) \<and>
     ks (GetActivityAccountKey 1 ''e'') = Some (RStr ''{}'', None)"

lemma warm_svc_ok [simp]:
  "redis_ok warm_svc" "mysql_ok warm_svc (\<lambda>_ _ _. False)" "svc_fault warm_svc n = NoFault"
  "svc_depth warm_svc = 2" "svc_clock warm_svc n = 1700000000 * second"
  by (simp_all add: warm_svc_def redis_ok_def mysql_ok_def sample_svc_def)

lemma warm_warm_svc: "warm warm_svc"
  unfolding warm_def by (auto simp: warm_svc_def redis_ok_def mysql_ok_def sample_svc_def)

lemma warm_live: "live t (rkeys warm_world) = rkeys warm_world"
  by (rule ext) (simp add: live_def warm_world_def split: option.split)

lemma warm_cache_world: "warm_cache (rkeys warm_world)"
  using warm_live by (auto simp: warm_cache_def) (simp_all add: warm_world_def)

lemma warm_activity:
  "warm svc \<Longrightarrow> warm_cache (rkeys w) \<Longrightarrow> QueryRaffleActivity svc 1 w = (Ok sample_activity, touched svc w)"
  unfolding QueryRaffleActivity_def
  by (rule cached_hit [where b = "''{}''" and dl = None]) (simp_all add: warm_def warm_cache_def single_codec_def)

lemma warm_account:
  "warm svc \<Longrightarrow> warm_cache (rkeys w) \<Longrightarrow>
   QueryActivityAccount svc (NewDBRouter 2 4) ''e'' 1 w = (Ok sample_entity, touched svc w)"
  unfolding QueryActivityAccount_def
  by (rule cached_hit [where b = "''{}''" and dl = None]) (simp_all add: warm_def warm_cache_def single_codec_def)

lemma warm_no_rows:
  "warm svc \<Longrightarrow> tables w (db, t) = [] \<Longrightarrow> gorm_First svc db t p w = (Err GormRecordNotFound, bump w)"
  by (auto simp: warm_def gorm_First_not_found)

lemma warm_filter:
  assumes "warm svc" and "warm_cache (rkeys w)" and "tables w = (\<lambda>_. [])"
  shows "\<exists>agg w'. doFilterAccount svc (activity_repo svc (NewDBRouter 2 4)) ''e'' 1 t w = (Ok agg, w') \<and>
           rkeys w' = rkeys w \<and> tables w' = tables w \<and> cp_UserID agg = ''e''"
  using assms
  by (simp add: doFilterAccount_def defer_quota_metric_def check_account_def activity_repo_def Let_def
      bindE_def warm_account QueryActivityAccountDay_def QueryActivityAccountMonth_def shard_def sample_shard
      caseE_def warm_no_rows or_nil_def IncActivityQuota_def warm_cache_def)
    (simp add: sample_entity_def)

text \<open>The order that \<open>buildUserRaffleOrder\<close> draws there, and the reservation up to the script.\<close>

definition warm_order :: UserRaffleOrder where
  "warm_order = \<lparr>ur_UserID = ''e'', ur_ActivityID = 1, ur_ActivityName = ''a'', ur_StrategyID = 5, ur_OrderID = fmt0 12 7,
     ur_OrderTime = 1700000000 * second, ur_OrderState = UserRaffleOrderStateCreate\<rparr>"

lemma warm_reserve:
  assumes "warm svc" and "warm_cache (rkeys w)" and "tables w = (\<lambda>_. [])"
  shows "\<exists>agg w3. rkeys w3 = rkeys w \<and> tables w3 = tables w \<and> cp_UserID agg = ''e'' \<and>
     reserve_order svc (activity_repo svc (NewDBRouter 2 4)) \<lparr>pr_UserID = ''e'', pr_ActivityID = 1\<rparr> w =
       bindE (CacheGetOrCreateNoUsedRaffleOrder svc warm_order) (\<lambda>(order, reused).
         ret (if reused then (bare_partake_order ''e'' 1 order, False) else (agg\<lparr>cp_UserRaffleOrder := Some order\<rparr>, True))) w3"
proof -
  let ?r = "activity_repo svc (NewDBRouter 2 4)" and ?w = "touched svc (bump w)"
  have k: "rkeys ?w = rkeys w" using assms(2) by (simp add: warm_cache_def)
  obtain agg w3 where f: "doFilterAccount svc ?r ''e'' 1 (1700000000 * second) ?w = (Ok agg, w3)" "rkeys w3 = rkeys w"
      "tables w3 = tables w" "cp_UserID agg = ''e''"
    using warm_filter [OF assms(1), of ?w "1700000000 * second"] k assms(2,3) by auto
  have a: "av_State sample_activity = ActivityStateOpen" "av_ActivityID sample_activity = 1" "av_StrategyID sample_activity = 5"
    "av_ActivityName sample_activity = ''a''" "\<not> 1700000000 * second < av_BeginDateTime sample_activity"
    "\<not> av_EndDateTime sample_activity < 1700000000 * second"
    by (simp_all add: sample_activity_def ActivityStateOpen_def second_def)
  have q: "r_QueryRaffleActivity ?r 1 (bump w) = (Ok sample_activity, ?w)"
      "r_CacheGetOrCreate ?r = CacheGetOrCreateNoUsedRaffleOrder svc"
    using warm_activity [OF assms(1), of "bump w"] assms(2) by (simp_all add: activity_repo_def)
  have c: "svc_clock svc n = 1700000000 * second" "svc_int63n svc t m = 7" for n t m
    using assms(1) by (simp_all add: warm_def)
  show ?thesis
    using f q a by (intro exI [of _ agg] exI [of _ "bump w3"])
      (simp add: reserve_order_def bindE_def c buildUserRaffleOrder_def random_order_id_def warm_order_def
        split: prod.split res.split)
qed

lemma warm_pending:
  assumes "rkeys w = rkeys warm_world" "ur_ActivityID order = 1" "ur_UserID order = ''e''"
  shows "\<exists>o2 w'. CacheGetOrCreateNoUsedRaffleOrder warm_svc order w = (Ok (o2, True), w')"
proof -
  have "ParseInt ''5'' = Ok 5" by code_simp
  then show ?thesis
    using assms
    by (simp add: CacheGetOrCreateNoUsedRaffleOrder_def Let_def Eval_def redis_eval_served bindE_def
        get_or_create_script_def rcall_doc warm_live arr_def order_from_result_def Sprint_def)
      (simp add: warm_world_def Sprint_def order_from_result_def)
qed

lemma warm_run:
  "\<exists>agg w'. CreateOrder warm_svc (activity_repo warm_svc (NewDBRouter 2 4))
      \<lparr>pr_UserID = ''e'', pr_ActivityID = 1\<rparr> warm_world = (Ok agg, w')"
proof -
  have "tables warm_world = (\<lambda>_. [])" by (simp add: warm_world_def empty_store_def)
  from warm_reserve [OF warm_warm_svc warm_cache_world this] obtain agg w3 where
    w3: "rkeys w3 = rkeys warm_world" and
    r: "reserve_order warm_svc (activity_repo warm_svc (NewDBRouter 2 4)) \<lparr>pr_UserID = ''e'', pr_ActivityID = 1\<rparr> warm_world =
       bindE (CacheGetOrCreateNoUsedRaffleOrder warm_svc warm_order) (\<lambda>(order, reused).
         ret (if reused then (bare_partake_order ''e'' 1 order, False) else (agg\<lparr>cp_UserRaffleOrder := Some order\<rparr>, True))) w3"
    by blast
  obtain o2 w4 where "CacheGetOrCreateNoUsedRaffleOrder warm_svc warm_order w3 = (Ok (o2, True), w4)"
    using warm_pending [OF w3, of warm_order] by (auto simp: warm_order_def)
  with r show ?thesis by (simp add: CreateOrder_reserve bindE_def)
qed

text \<open>
  An order handed out by \<open>CreateOrder\<close> is always an unused order of the user that asked for it.
\<close>

theorem CreateOrder_order:
  assumes "CreateOrder svc (activity_repo svc (NewDBRouter dbs tbs)) p w = (Ok agg, w')"
  shows "\<exists>order. cp_UserRaffleOrder agg = Some order \<and> ur_UserID order = pr_UserID p \<and>
           ur_OrderState order = UserRaffleOrderStateCreate \<and> cp_UserID agg = pr_UserID p"
  using ar.CreateOrder_owner [of svc "(svc, dbs, tbs, \<lambda>_ _ _. False)" p w agg w'] assms
  by (simp add: deployed_repo_def)

theorem CreateOrder_order_witness:
  "\<exists>agg w' order. CreateOrder warm_svc (activity_repo warm_svc (NewDBRouter 2 4))
      \<lparr>pr_UserID = ''e'', pr_ActivityID = 1\<rparr> warm_world = (Ok agg, w') \<and>
     cp_UserRaffleOrder agg = Some order \<and> ur_UserID order = ''e''"
proof -
  obtain agg w' where run: "CreateOrder warm_svc (activity_repo warm_svc (NewDBRouter 2 4))
      \<lparr>pr_UserID = ''e'', pr_ActivityID = 1\<rparr> warm_world = (Ok agg, w')"
    using warm_run by blast
  from CreateOrder_order [OF run] run show ?thesis by auto
qed

text \<open>
  The unique indexes of the two tables beside the primary key, as far as the schema has any: orders clash
  only on the order number and tasks only on the message number.
\<close>

definition partake_indexes :: "(string \<Rightarrow> row \<Rightarrow> row \<Rightarrow> bool) \<Rightarrow> bool" where
  "partake_indexes uniq \<longleftrightarrow>
     (\<forall>s x y. uniq (order_table s) x y \<longrightarrow>
        (\<exists>a b. x = RRaffleOrder a \<and> y = RRaffleOrder b \<and> uo_OrderID a = uo_OrderID b)) \<and>
     (\<forall>x y. uniq ''task'' x y \<longrightarrow> (\<exists>a b. x = RTask a \<and> y = RTask b \<and> pt_MessageID a = pt_MessageID b))"

lemma rejected_duplicate_ids:
  assumes "partake_indexes uniq" and "rejected_duplicate svc uniq db suffix agg order mid w"
  shows "(\<exists>a. RRaffleOrder a \<in> set (tables w (db, order_table suffix)) \<and> uo_OrderID a = ur_OrderID order) \<or>
         (\<exists>k. RTask k \<in> set (tables w (db, ''task'')) \<and> pt_MessageID k = mid)"
  using assms unfolding partake_indexes_def rejected_duplicate_def
  by (fastforce simp: order_columns_def save_order_task_def)

text \<open>
  C5. Taking part never leaves half an order. Let \<open>reserve_order\<close>, the steps of \<open>CreateOrder\<close> up to the
  save, end in \<open>rp\<close> and \<open>w1\<close>; they write no table. If they failed, or found an unused order of the
  user, that is the result and nothing is written. If they reserved a fresh order, it is an unused order
  of the user that asked, and the tables are as before or have gained exactly the row of this order,
  not yet settled, and the outbox task that names it, in the user's shard. \<open>CreateOrder\<close> returns the fresh
  order only if these rows were added, or if the user's order table already held an order
  with its number, or the task table a task with the number of the new message.
\<close>

theorem CreateOrder_atomic:
  assumes "mysql_ok svc uniq" and "faults_ok svc" and "0 < dbs" and "0 < tbs" and "partake_indexes uniq"
    and "DBStrategy (NewDBRouter dbs tbs) (pr_UserID p) = Ok (Some db, suffix)"
    and "CreateOrder svc (activity_repo svc (NewDBRouter dbs tbs)) p w = (r, w')"
    and "reserve_order svc (activity_repo svc (NewDBRouter dbs tbs)) p w = (rp, w1)"
  shows "tables w1 = tables w \<and>
         (case rp of
            Ok (agg, True) \<Rightarrow>
              (\<exists>order mid. cp_UserRaffleOrder agg = Some order \<and> ur_UserID order = pr_UserID p \<and> cp_UserID agg = pr_UserID p \<and>
                 ur_OrderState order = UserRaffleOrderStateCreate \<and> mid = event_id svc (EPartake agg) w1 \<and>
                 (tables w' = tables w \<or> order_and_task_added svc db suffix agg order mid w w') \<and>
                 (\<forall>agg'. r = Ok agg' \<longrightarrow> agg' = agg \<and>
                    (order_and_task_added svc db suffix agg order mid w w' \<or>
                     tables w' = tables w \<and>
                       ((\<exists>a. RRaffleOrder a \<in> set (tables w (db, order_table suffix)) \<and> uo_OrderID a = ur_OrderID order) \<or>
                        (\<exists>k. RTask k \<in> set (tables w (db, ''task'')) \<and> pt_MessageID k = mid)))))
          | Ok (agg, False) \<Rightarrow> r = Ok agg \<and> w' = w1
          | Err e \<Rightarrow> r = Err e \<and> w' = w1
          | Panic s \<Rightarrow> r = Panic s \<and> w' = w1)"
proof -
  let ?c = "(svc, dbs, tbs, uniq)"
  have c: "deployment_ok ?c" "deployed_repo ?c = activity_repo svc (NewDBRouter dbs tbs)"
    using assms(1-4) by (simp_all add: deployment_ok_def deployed_repo_def)
  note T = ar.CreateOrder_tables [OF c(1), unfolded c(2), OF assms(7,8)]
  show ?thesis
  proof (cases rp)
    case (Ok x)
    obtain agg fresh where x: "x = (agg, fresh)" by (cases x)
    show ?thesis
    proof (cases fresh)
      case True
      let ?mid = "event_id svc (EPartake agg) w1"
      have t: "tables w1 = tables w" using T by blast
      obtain order where o: "cp_UserRaffleOrder agg = Some order" "ur_UserID order = pr_UserID p"
          "ur_OrderState order = UserRaffleOrderStateCreate" "cp_UserID agg = pr_UserID p"
        using ar.reserve_order_owner [of svc ?c p w agg fresh w1] assms(8) Ok x c(2) by auto
      have sv: "order_saved ?c agg w1 w' \<longleftrightarrow> order_and_task_added svc db suffix agg order ?mid w w'"
        using o assms(6) t by (auto simp: order_saved_def order_and_task_added_def)
      have rj: "order_rejected ?c agg w1 \<Longrightarrow>
          (\<exists>a. RRaffleOrder a \<in> set (tables w (db, order_table suffix)) \<and> uo_OrderID a = ur_OrderID order) \<or>
          (\<exists>k. RTask k \<in> set (tables w (db, ''task'')) \<and> pt_MessageID k = ?mid)"
        using o assms(6) rejected_duplicate_ids [OF assms(5), of svc db suffix agg order ?mid w1] t
        by (auto simp: order_rejected_def)
      show ?thesis using T Ok x True o sv rj t by auto
    qed (use T Ok x in auto)
  qed (use T in auto)
qed

section \<open>A fresh order\<close>

definition partake_uniq :: "string \<Rightarrow> row \<Rightarrow> row \<Rightarrow> bool" where
  "partake_uniq t x y =
     (case (x, y) of (RRaffleOrder a, RRaffleOrder b) \<Rightarrow> t \<noteq> ''task'' \<and> uo_OrderID a = uo_OrderID b
      | (RTask a, RTask b) \<Rightarrow> t = ''task'' \<and> pt_MessageID a = pt_MessageID b | _ \<Rightarrow> False)"

definition fresh_svc :: services where
  "fresh_svc = warm_svc\<lparr>svc_sql := sql_doc partake_uniq,
     js_SaveOrder := single_codec \<lparr>so_UserID = ''e'', so_OrderID = fmt0 12 7\<rparr> \<lparr>so_UserID = '''', so_OrderID = ''''\<rparr>\<rparr>"

definition fresh_world :: world where
  "fresh_world = empty_world
     \<lparr>rkeys := [GetActivityKey 1 \<mapsto> (RStr ''{}'', None), GetActivityAccountKey 1 ''e'' \<mapsto> (RStr ''{}'', None),
       GetActivityAccountTotalSurplusKey 1 ''e'' \<mapsto> (RStr (FormatInt 5), None),
       GetActivityAccountDaySurplusKey 1 ''e'' (fmt_day 0 (1700000000 * second)) \<mapsto> (RStr (FormatInt 2), None),
       GetActivityAccountMonthSurplusKey 1 ''e'' (fmt_month 0 (1700000000 * second)) \<mapsto> (RStr (FormatInt 4), None)]\<rparr>"

lemma fresh_svc_ok [simp]:
  "redis_ok fresh_svc" "mysql_ok fresh_svc partake_uniq" "svc_fault fresh_svc n = NoFault" "warm fresh_svc"
  "svc_clock fresh_svc n = 1700000000 * second" "svc_rtime fresh_svc n = 1700000000 * second" "svc_zone fresh_svc = 0"
  using warm_warm_svc
  by (auto simp: fresh_svc_def warm_def redis_ok_def mysql_ok_def warm_svc_def sample_svc_def)

lemma partake_indexes_uniq: "partake_indexes partake_uniq"
  by (auto simp: partake_indexes_def partake_uniq_def order_table_def split: row.splits)

lemma fresh_live: "live t (rkeys fresh_world) = rkeys fresh_world"
  by (rule ext) (simp add: live_def fresh_world_def split: option.split)

lemma fresh_cache: "warm_cache (rkeys fresh_world)"
  using fresh_live by (auto simp: warm_cache_def) (simp_all add: fresh_world_def activity_key_defs)

lemma fresh_quota:
  "quota_abs (GetActivityAccountTotalSurplusKey 1 ''e'') (GetActivityAccountDaySurplusKey 1 ''e'' (fmt_day 0 (1700000000 * second)))
     (GetActivityAccountMonthSurplusKey 1 ''e'' (fmt_month 0 (1700000000 * second))) (GetPendingRaffleOrderKey 1 ''e'')
     (1700000000 * second) (rkeys fresh_world) = Some \<lparr>q_total = Some 5, q_day = Some 2, q_month = Some 4, q_pending = None\<rparr>"
  unfolding quota_abs_def Let_def fresh_live
  by (simp add: fresh_world_def activity_key_defs int_at_def hash_at_def is_int64_small)

lemma fresh_reserved:
  assumes "rkeys w = rkeys fresh_world"
  shows "\<exists>w'. CacheGetOrCreateNoUsedRaffleOrder fresh_svc warm_order w = (Ok (warm_order, False), w') \<and> store w' = store w"
proof -
  obtain q where q: "take_part \<lparr>q_total = Some 5, q_day = Some 2, q_month = Some 4, q_pending = None\<rparr> (ur_OrderID warm_order)
      (FormatInt (ur_StrategyID warm_order)) = (Created, q)"
    by (simp add: take_part_def pending_of_def draw_quota_def)
  have o: "ur_ActivityID warm_order = 1" "ur_UserID warm_order = ''e''" "ur_StrategyID warm_order = 5"
      "with_order warm_order (ur_OrderID warm_order) 5 = warm_order"
    by (simp_all add: warm_order_def with_order_def)
  have "quota_abs (GetActivityAccountTotalSurplusKey (ur_ActivityID warm_order) (ur_UserID warm_order))
     (GetActivityAccountDaySurplusKey (ur_ActivityID warm_order) (ur_UserID warm_order) (fmt_day (svc_zone fresh_svc) (svc_clock fresh_svc (tick w))))
     (GetActivityAccountMonthSurplusKey (ur_ActivityID warm_order) (ur_UserID warm_order) (fmt_month (svc_zone fresh_svc) (svc_clock fresh_svc (Suc (tick w)))))
     (GetPendingRaffleOrderKey (ur_ActivityID warm_order) (ur_UserID warm_order)) (svc_rtime fresh_svc (Suc (Suc (Suc (tick w))))) (rkeys w) =
     Some \<lparr>q_total = Some 5, q_day = Some 2, q_month = Some 4, q_pending = None\<rparr>"
    using fresh_quota assms by (simp add: o)
  from CacheGetOrCreate_run [OF _ _ _ refl refl refl refl refl this q] show ?thesis
    by (auto simp: o is_int64_small outcome_result_def)
qed

lemma fresh_saved:
  assumes "tables w = (\<lambda>_. [])" and "cp_UserID agg = ''e''" and "cp_UserRaffleOrder agg = Some warm_order"
  shows "\<exists>w'. SaveLiteUserRaffleOrder fresh_svc (NewDBRouter 2 4) agg w = (Ok (), w')"
proof -
  have nf: "no_faults fresh_svc" by (simp add: no_faults_def)
  obtain ev w1 where ev: "NewBaseEvent fresh_svc (EPartake agg) w = (Ok ev, w1)" "store w1 = store w"
    using NewBaseEvent_Ok by blast
  have o: "ur_UserID warm_order = ''e''" "ur_OrderID warm_order = fmt0 12 7" by (simp_all add: warm_order_def)
  have e: "enc (js_SaveOrder fresh_svc) \<lparr>so_UserID = ''e'', so_OrderID = fmt0 12 7\<rparr> = Ok ''{}''"
    by (simp add: fresh_svc_def single_codec_def)
  show ?thesis
    using assms ev e
    by (simp add: SaveLiteUserRaffleOrder_def shard_def o sample_shard bindE_def caseE_def buildSaveOrderTaskPO_def
        transaction_def served [OF fresh_svc_ok(2) nf] order_table_def)
qed

theorem CreateOrder_atomic_witness:
  "\<exists>agg w' mid. CreateOrder fresh_svc (activity_repo fresh_svc (NewDBRouter 2 4))
      \<lparr>pr_UserID = ''e'', pr_ActivityID = 1\<rparr> fresh_world = (Ok agg, w') \<and> cp_UserRaffleOrder agg = Some warm_order \<and>
     order_and_task_added fresh_svc ''01'' ''002'' agg warm_order mid fresh_world w'"
proof -
  let ?rp = "activity_repo fresh_svc (NewDBRouter 2 4)" and ?p = "\<lparr>pr_UserID = ''e'', pr_ActivityID = 1\<rparr>"
  have t: "tables fresh_world = (\<lambda>_. [])" by (simp add: fresh_world_def empty_store_def)
  obtain agg w3 where w3: "rkeys w3 = rkeys fresh_world" "tables w3 = tables fresh_world" "cp_UserID agg = ''e''" and
    r: "reserve_order fresh_svc ?rp ?p fresh_world =
       bindE (CacheGetOrCreateNoUsedRaffleOrder fresh_svc warm_order) (\<lambda>(order, reused).
         ret (if reused then (bare_partake_order ''e'' 1 order, False) else (agg\<lparr>cp_UserRaffleOrder := Some order\<rparr>, True))) w3"
    using warm_reserve [OF fresh_svc_ok(4) fresh_cache t] by blast
  define agg' where "agg' = agg\<lparr>cp_UserRaffleOrder := Some warm_order\<rparr>"
  obtain w1 where w1: "reserve_order fresh_svc ?rp ?p fresh_world = (Ok (agg', True), w1)" "store w1 = store w3"
    using fresh_reserved [OF w3(1)] r by (auto simp: bindE_def agg'_def)
  obtain w' where "SaveLiteUserRaffleOrder fresh_svc (NewDBRouter 2 4) agg' w1 = (Ok (), w')"
    using fresh_saved [of w1 agg'] w1(2) w3 t by (auto simp: agg'_def)
  then have run: "CreateOrder fresh_svc ?rp ?p fresh_world = (Ok agg', w')"
    using w1(1) by (simp add: CreateOrder_reserve bindE_def activity_repo_def)
  have sh: "DBStrategy (NewDBRouter 2 4) (pr_UserID ?p) = Ok (Some ''01'', ''002'')" using sample_shard by simp
  have f: "faults_ok fresh_svc" by (simp add: faults_ok_def fault_error_def)
  from CreateOrder_atomic [OF fresh_svc_ok(2) f _ _ partake_indexes_uniq sh run w1(1)] run t show ?thesis
    by (auto simp: agg'_def)
qed

end
