(* ===== verification/Activity_Quota.thy ===== *)
theory Activity_Quota
  imports Partake_Usecase
begin

text \<open>
  \<open>internal/data/activity_quota.go\<close>: the repository side of recharging an account and of the
  stock of activity goods: the cached configuration queries, the transaction that books a recharge
  order, the account snapshot that loads the quota counters into Redis, and the stock script.
\<close>

section \<open>Configuration queries\<close>

definition sku_row :: "int \<Rightarrow> row \<Rightarrow> bool" where
  "sku_row sku r \<longleftrightarrow> is_RSku r \<and> rs_Sku (the_sku r) = sku"

definition QueryActivitySkuByActivityID :: "services \<Rightarrow> int \<Rightarrow> ActivitySku list M" where
  "QueryActivitySkuByActivityID svc aid =
     bindE (gorm_Find svc ''default'' ''raffle_activity_sku'' (\<lambda>r. is_RSku r \<and> rs_ActivityID (the_sku r) = aid))
       (\<lambda>rs. ret (map (\<lambda>r. RaffleActivitySku_ToEntity (the_sku r)) rs))"

definition QueryActivitySku :: "services \<Rightarrow> int \<Rightarrow> ActivitySku option M" where
  "QueryActivitySku svc sku =
     bindE (cached svc (js_ActivitySku svc) (GetActivitySkuKey sku) days10
       (caseE (gorm_First svc ''default'' ''raffle_activity_sku'' (sku_row sku))
          or_nil (\<lambda>r. ret (Some (RaffleActivitySku_ToEntity (the_sku r))))))
     (\<lambda>x. ret (if as_Sku x = 0 then None else Some x))"

definition QueryRaffleActivityByActivityId :: "services \<Rightarrow> int \<Rightarrow> Activity option M" where
  "QueryRaffleActivityByActivityId svc aid =
     bindE (cached svc (js_Activity svc) (GetActivityKey aid) days10
       (caseE (gorm_First svc ''default'' ''raffle_activity''
                 (\<lambda>r. is_RActivity r \<and> ra_ActivityID (the_activity r) = aid))
          or_nil (\<lambda>r. ret (Some (RaffleActivity_ToEntity (the_activity r))))))
     (\<lambda>x. ret (if av_ActivityID x = 0 then None else Some x))"

definition QueryRaffleActivityCountByActivityCountId :: "services \<Rightarrow> int \<Rightarrow> ActivityCount option M" where
  "QueryRaffleActivityCountByActivityCountId svc cid =
     bindE (cached svc (js_ActivityCount svc) (GetActivityCountKey cid) days10
       (caseE (gorm_First svc ''default'' ''raffle_activity_count''
                 (\<lambda>r. is_RCount r \<and> rc_ActivityCountID (the_count r) = cid))
          or_nil (\<lambda>r. ret (Some (RaffleActivityCount_ToEntity (the_count r))))))
     (\<lambda>x. ret (if ac_ActivityCountID x = 0 then None else Some x))"

section \<open>Booking a recharge order\<close>

definition quota_order_table :: "string \<Rightarrow> string" where
  "quota_order_table suffix = ''raffle_activity_order_'' @ suffix"

definition quota_order_row :: "ActivityOrder \<Rightarrow> time \<Rightarrow> row" where
  "quota_order_row o1 t =
     RQuotaOrder
       \<lparr>ro_ID = 0, ro_UserID = ao_UserID o1, ro_Sku = ao_Sku o1, ro_ActivityID = ao_ActivityID o1,
        ro_ActivityName = ao_ActivityName o1, ro_StrategyID = ao_StrategyID o1, ro_OrderID = ao_OrderID o1,
        ro_OrderTime = ao_OrderTime o1, ro_TotalCount = ao_TotalCount o1, ro_DayCount = ao_DayCount o1,
        ro_MonthCount = ao_MonthCount o1, ro_State = ao_State o1, ro_OutBusinessNo = ao_OutBusinessNo o1,
        ro_CreateTime = t, ro_UpdateTime = t\<rparr>"

definition new_account_row :: "CreateQuotaOrder \<Rightarrow> time \<Rightarrow> row" where
  "new_account_row q t =
     RAccount
       \<lparr>acc_ID = 0, acc_UserID = cq_UserID q, acc_ActivityID = cq_ActivityID q,
        acc_TotalCount = cq_TotalCount q, acc_TotalCountSurplus = cq_TotalCount q,
        acc_DayCount = cq_DayCount q, acc_DayCountSurplus = cq_DayCount q,
        acc_MonthCount = cq_MonthCount q, acc_MonthCountSurplus = cq_MonthCount q,
        acc_CreateTime = t, acc_UpdateTime = t\<rparr>"

definition credit_account :: "CreateQuotaOrder \<Rightarrow> time \<Rightarrow> po_RaffleActivityAccount \<Rightarrow> po_RaffleActivityAccount" where
  "credit_account q t a =
     a\<lparr>acc_TotalCount := acc_TotalCount a + cq_TotalCount q,
       acc_TotalCountSurplus := acc_TotalCountSurplus a + cq_TotalCount q,
       acc_DayCount := acc_DayCount a + cq_DayCount q,
       acc_DayCountSurplus := acc_DayCountSurplus a + cq_DayCount q,
       acc_MonthCount := acc_MonthCount a + cq_MonthCount q,
       acc_MonthCountSurplus := acc_MonthCountSurplus a + cq_MonthCount q, acc_UpdateTime := t\<rparr>"

definition credit_day :: "int \<Rightarrow> time \<Rightarrow> po_RaffleActivityAccountDay \<Rightarrow> po_RaffleActivityAccountDay" where
  "credit_day n t a =
     a\<lparr>day_DayCount := day_DayCount a + n, day_DayCountSurplus := day_DayCountSurplus a + n, day_UpdateTime := t\<rparr>"

definition credit_month :: "int \<Rightarrow> time \<Rightarrow> po_RaffleActivityAccountMonth \<Rightarrow> po_RaffleActivityAccountMonth" where
  "credit_month n t a =
     a\<lparr>mon_MonthCount := mon_MonthCount a + n, mon_MonthCountSurplus := mon_MonthCountSurplus a + n,
       mon_UpdateTime := t\<rparr>"

text \<open>\<open>res := tx.Table(t).Where(p).Updates(f)\<close>, and \<open>Create(new)\<close> when no row was affected.\<close>

definition update_or_create ::
    "services \<Rightarrow> string \<Rightarrow> string \<Rightarrow> (row \<Rightarrow> bool) \<Rightarrow> (time \<Rightarrow> row \<Rightarrow> row) \<Rightarrow> (time \<Rightarrow> row) \<Rightarrow> unit M" where
  "update_or_create svc db t p f new =
     bindE (now svc) (\<lambda>t1.
     bindE (gorm_Updates svc db t p (f t1)) (\<lambda>n.
     if n = 0 then bindE (now svc) (\<lambda>t2. caseE (gorm_Create svc db t (new t2)) dup_index (\<lambda>_. ret ()))
     else ret ()))"

text \<open>The body of the transaction.\<close>

definition book_order :: "services \<Rightarrow> string \<Rightarrow> string \<Rightarrow> CreateQuotaOrder \<Rightarrow> unit M" where
  "book_order svc db suffix q =
     (let o1 = cq_ActivityOrder q; uid = cq_UserID q; aid = cq_ActivityID q;
          day = fmt_day (svc_zone svc) (ao_OrderTime o1);
          month = fmt_month (svc_zone svc) (ao_OrderTime o1)
      in bindE (now svc) (\<lambda>t.
         caseE (gorm_Create svc db (quota_order_table suffix) (quota_order_row o1 t)) dup_index (\<lambda>_.
         bindE (update_or_create svc db ''raffle_activity_account'' (account_row uid aid)
                  (\<lambda>t. on_account (credit_account q t)) (new_account_row q)) (\<lambda>_.
         bindE (if cq_DayCount q \<noteq> 0 then
                  update_or_create svc db ''raffle_activity_account_day'' (day_row uid aid day)
                    (\<lambda>t. on_day (credit_day (cq_DayCount q) t))
                    (new_day_row uid aid day (cq_DayCount q) (cq_DayCount q))
                else ret ()) (\<lambda>_.
         if cq_MonthCount q \<noteq> 0 then
           update_or_create svc db ''raffle_activity_account_month'' (month_row uid aid month)
             (\<lambda>t. on_month (credit_month (cq_MonthCount q) t))
             (new_month_row uid aid month (cq_MonthCount q) (cq_MonthCount q))
         else ret ())))))"

definition SaveOrder :: "services \<Rightarrow> DBRouter \<Rightarrow> CreateQuotaOrder \<Rightarrow> unit M" where
  "SaveOrder svc rt q =
     bindE (shard rt (cq_UserID q)) (\<lambda>(db, suffix).
     case db of
       None \<Rightarrow> fail ErrDBRouterError
     | Some db \<Rightarrow> transaction svc (book_order svc db suffix q))"

section \<open>The account snapshot\<close>

text \<open>\<open>redis.Set(&cache.Item{Ctx, Key, Value, TTL})\<close>\<close>

definition plain_item :: "string \<Rightarrow> 'a \<Rightarrow> int \<Rightarrow> 'a Item" where
  "plain_item key v ttl =
     \<lparr>it_Key = key, it_Value = Some v, it_TTL = ttl, it_Do = None, it_SetXX = False, it_SetNX = False,
      it_SkipLocalCache = False\<rparr>"

definition cache_put :: "services \<Rightarrow> 'a codec \<Rightarrow> string \<Rightarrow> 'a \<Rightarrow> int \<Rightarrow> unit M" where
  "cache_put svc c key v ttl = Set svc myCache (json_of c) (plain_item key v ttl)"

definition cacheActivityAccountSnapshot :: "services \<Rightarrow> ActivityAccount \<Rightarrow> unit M" where
  "cacheActivityAccountSnapshot svc a =
     bindE (now svc) (\<lambda>tm. bindE (now svc) (\<lambda>td.
     let month = fmt_month (svc_zone svc) tm; day = fmt_day (svc_zone svc) td;
         aid = aa_ActivityID a; uid = aa_UserID a
     in bindE (cache_put svc (js_ActivityAccount svc) (GetActivityAccountKey aid uid) a hour) (\<lambda>_.
        bindE (cache_put svc int_codec (GetActivityAccountTotalSurplusKey aid uid) (aa_TotalCountSurplus a) hour) (\<lambda>_.
        bindE (cache_put svc int_codec (GetActivityAccountMonthSurplusKey aid uid month) (aa_MonthCountSurplus a) hour) (\<lambda>_.
        cache_put svc int_codec (GetActivityAccountDaySurplusKey aid uid day) (aa_DayCountSurplus a) hour)))))"

text \<open>The month account of the current month, created from the total account when it is missing;
  a concurrent creation is read back.\<close>

definition load_or_init ::
    "services \<Rightarrow> string \<Rightarrow> string \<Rightarrow> (row \<Rightarrow> bool) \<Rightarrow> (time \<Rightarrow> row) \<Rightarrow> row M" where
  "load_or_init svc db t p new =
     caseE (gorm_First svc db t p)
       (\<lambda>e. if \<not> errors_Is e GormRecordNotFound then fail e
            else bindE (now svc) (\<lambda>t'.
              caseE (gorm_Create svc db t (new t'))
                (\<lambda>e'. if \<not> errors_Is e' GormDuplicatedKey \<and> \<not> is_duplicate_text e' then fail e'
                     else gorm_First svc db t p)
                ret))
       ret"

definition QueryActivityAccountEntity :: "services \<Rightarrow> DBRouter \<Rightarrow> string \<Rightarrow> int \<Rightarrow> ActivityAccount M" where
  "QueryActivityAccountEntity svc rt uid aid =
     bindE (shard rt uid) (\<lambda>(db, _). bindE (deref db) (\<lambda>db.
     caseE (gorm_First svc db ''raffle_activity_account'' (account_row uid aid)) not_found (\<lambda>r.
     let acc = the_account r in
     bindE (now svc) (\<lambda>tm.
     let month = fmt_month (svc_zone svc) tm in
     bindE (load_or_init svc db ''raffle_activity_account_month'' (month_row uid aid month)
              (new_month_row (acc_UserID acc) (acc_ActivityID acc) month (acc_MonthCount acc) (acc_MonthCountSurplus acc)))
       (\<lambda>mr.
     bindE (now svc) (\<lambda>td.
     let day = fmt_day (svc_zone svc) td in
     bindE (load_or_init svc db ''raffle_activity_account_day'' (day_row uid aid day)
              (new_day_row (acc_UserID acc) (acc_ActivityID acc) day (acc_DayCount acc) (acc_DayCountSurplus acc)))
       (\<lambda>dr.
     let a = \<lparr>aa_UserID = acc_UserID acc, aa_ActivityID = acc_ActivityID acc,
              aa_TotalCount = acc_TotalCount acc, aa_TotalCountSurplus = acc_TotalCountSurplus acc,
              aa_DayCount = acc_DayCount acc, aa_DayCountSurplus = acc_DayCount acc,
              aa_MonthCount = acc_MonthCount acc, aa_MonthCountSurplus = acc_MonthCount acc\<rparr>;
         a = (if mon_ID (the_month mr) > 0
              then a\<lparr>aa_MonthCount := mon_MonthCount (the_month mr),
                     aa_MonthCountSurplus := mon_MonthCountSurplus (the_month mr)\<rparr> else a);
         a = (if day_ID (the_day dr) > 0
              then a\<lparr>aa_DayCount := day_DayCount (the_day dr),
                     aa_DayCountSurplus := day_DayCountSurplus (the_day dr)\<rparr> else a)
     in ret a)))))))"

definition AssembleActivityAccountByUserId :: "services \<Rightarrow> DBRouter \<Rightarrow> string \<Rightarrow> int \<Rightarrow> unit M" where
  "AssembleActivityAccountByUserId svc rt uid aid =
     bindE (QueryActivityAccountEntity svc rt uid aid) (cacheActivityAccountSnapshot svc)"

text \<open>The error of a query is dropped and the zero value kept, whose primary key is 0.\<close>

definition first_or_none :: "row M \<Rightarrow> row option M" where
  "first_or_none m = caseE m (\<lambda>_. ret None) (\<lambda>r. ret (Some r))"

definition assemble_account :: "services \<Rightarrow> string \<Rightarrow> int \<Rightarrow> po_RaffleActivityAccount \<Rightarrow> unit M" where
  "assemble_account svc db aid acc =
     bindE (now svc) (\<lambda>tm.
     bindE (first_or_none (gorm_First svc db ''raffle_activity_account_month''
              (month_row (acc_UserID acc) aid (fmt_month (svc_zone svc) tm)))) (\<lambda>mr.
     bindE (now svc) (\<lambda>td.
     bindE (first_or_none (gorm_First svc db ''raffle_activity_account_day''
              (day_row (acc_UserID acc) aid (fmt_day (svc_zone svc) td)))) (\<lambda>dr.
     let a = RaffleActivityAccount_ToEntity acc;
         a = (case mr of
                Some r \<Rightarrow> if mon_ID (the_month r) > 0
                          then a\<lparr>aa_MonthCount := mon_MonthCount (the_month r),
                                 aa_MonthCountSurplus := mon_MonthCountSurplus (the_month r)\<rparr> else a
              | None \<Rightarrow> a);
         a = (case dr of
                Some r \<Rightarrow> if day_ID (the_day r) > 0
                          then a\<lparr>aa_DayCount := day_DayCount (the_day r),
                                 aa_DayCountSurplus := day_DayCountSurplus (the_day r)\<rparr> else a
              | None \<Rightarrow> a)
     in ignoreE (cacheActivityAccountSnapshot svc a)))))"

definition AssembleActivityAccountByActivityId :: "services \<Rightarrow> DBRouter \<Rightarrow> int \<Rightarrow> unit M" where
  "AssembleActivityAccountByActivityId svc rt aid =
     forE [1..GetDBCount rt] (\<lambda>i.
       case GetDB rt i of
         None \<Rightarrow> ret ()
       | Some db \<Rightarrow>
           caseE (gorm_Find svc db ''raffle_activity_account''
                    (\<lambda>r. is_RAccount r \<and> acc_ActivityID (the_account r) = aid))
             (\<lambda>_. ret ())
             (\<lambda>rs. forE rs (\<lambda>r. assemble_account svc db aid (the_account r))))"

section \<open>The stock of activity goods\<close>

definition CacheActivitySkuStockCount :: "services \<Rightarrow> string \<Rightarrow> int \<Rightarrow> unit M" where
  "CacheActivitySkuStockCount svc cacheKey stockCount =
     bindE (cache_SetNX svc myCache (json_of int_codec) cacheKey (AInt stockCount) 0) (\<lambda>_. ret ())"

text \<open>
  The result of \<open>Update\<close> is a \<open>*gorm.DB\<close>, never nil, so the error branch is always taken. A map
  update on a table without a model sets only the named column; the table of this name holds no
  rows of the schema, so the assignment is stated on any row that has the column.
\<close>

definition ClearActivitySkuStock :: "services \<Rightarrow> int \<Rightarrow> unit M" where
  "ClearActivitySkuStock svc sku =
     bindE (ignoreE (gorm_Updates svc ''default'' ''raffle_activity_sku_stock'' (sku_row sku)
              (\<lambda>r. case r of RSku s \<Rightarrow> RSku (s\<lparr>rs_StockCountSurplus := 0\<rparr>) | _ \<Rightarrow> r)))
       (\<lambda>_. fail ErrClearActivitySkuStockError)"

text \<open>\<open>inspector.DeleteQueue\<close>; the text of an error is searched.\<close>

fun error_mentions :: "string \<Rightarrow> gerr \<Rightarrow> bool" where
  "error_mentions p (GoErr s) = contains s p"
| "error_mentions p (Wrap m e) = (contains m p \<or> error_mentions p e)"
| "error_mentions p _ = False"

definition delete_queue :: "services \<Rightarrow> string \<Rightarrow> unit M" where
  "delete_queue svc q = remote svc (\<lambda>w. let (r, ts) = svc_delete_queue svc q (queue w) in (r, w\<lparr>queue := ts\<rparr>))"

definition ClearQueueValue :: "services \<Rightarrow> bool \<Rightarrow> unit M" where
  "ClearQueueValue svc has_inspector =
     (if \<not> has_inspector then ret ()
      else caseE (delete_queue svc QueueNameSkuStock)
             (\<lambda>e. if error_mentions ''queue not found'' e then ret () else fail e) ret)"

definition stock_not_initialized :: string where
  "stock_not_initialized =
     [CHR 0xE5, CHR 0xBA, CHR 0x93, CHR 0xE5, CHR 0xAD, CHR 0x98, CHR 0xE6, CHR 0x9C, CHR 0xAA,
      CHR 0xE5, CHR 0x88, CHR 0x9D, CHR 0xE5, CHR 0xA7, CHR 0x8B, CHR 0xE5, CHR 0x8C, CHR 0x96]"

definition unknown_result :: string where
  "unknown_result =
     [CHR 0xE6, CHR 0x9C, CHR 0xAA, CHR 0xE7, CHR 0x9F, CHR 0xA5, CHR 0xE7, CHR 0xBB, CHR 0x93, CHR 0xE6, CHR 0x9E, CHR 0x9C]"

text \<open>\<open>string.format('{"u":"%s","s":1,"r":"%s","t":%s}', ...)\<close>\<close>

definition result_json :: "string \<Rightarrow> string \<Rightarrow> string \<Rightarrow> string \<Rightarrow> string" where
  "result_json uid s r t =
     ''{\"u\":\"'' @ uid @ ''\",\"s\":'' @ s @ '',\"r\":\"'' @ r @ ''\",\"t\":'' @ t @ ''}''"

definition stock_script ::
    "services \<Rightarrow> string \<Rightarrow> string \<Rightarrow> string \<Rightarrow> string \<Rightarrow> string \<Rightarrow> string \<Rightarrow> lval list script" where
  "stock_script svc stock_key result_key user_id sku_id current_time points_result call =
     bindE (call (GET stock_key)) (\<lambda>r.
     case bulk r of
       None \<Rightarrow> ret [LInt (-1), LStr stock_not_initialized]
     | Some current_stock \<Rightarrow>
         bindE (lua_le0 svc current_stock) (\<lambda>empty.
         if empty then
           let json = result_json user_id ''2'' points_result current_time in
           bindE (call (HSET result_key [(user_id, json)])) (\<lambda>_. ret [LInt 2, LStr json])
         else
           bindE (call (INCRBY stock_key (-1))) (\<lambda>new_stock.
           let json = result_json user_id ''1'' (''SKU_'' @ sku_id) current_time in
           bindE (call (HSET result_key [(user_id, json)])) (\<lambda>_.
           ret [LInt (if new_stock = RInt 0 then 0 else 1), LStr json]))))"

definition result_shard :: "string \<Rightarrow> int" where
  "result_shard uid = fold (\<lambda>c shard. (shard * 31 + c) mod 100) (runes uid) 0"

definition stock_outcome ::
    "services \<Rightarrow> topics \<Rightarrow> int \<Rightarrow> int \<Rightarrow> int \<Rightarrow> ActivityResult \<Rightarrow> ActivityResult M" where
  "stock_outcome svc tp skuID aid status res =
     (if status = -1 then
        bindE (IncStockConsume aid skuID ''not_initialized'') (\<lambda>_. fail (GoErr stock_not_initialized))
      else if status = 0 then
        bindE (NewBaseEvent svc (EInt skuID)) (\<lambda>ev.
        bindE (ignoreE (PublishStockZero svc tp ev)) (\<lambda>_.
        bindE (IncStockConsume aid skuID ''success'') (\<lambda>_. ret res)))
      else if status = 1 then bindE (IncStockConsume aid skuID ''success'') (\<lambda>_. ret res)
      else if status = 2 then bindE (IncStockConsume aid skuID ''credit'') (\<lambda>_. ret res)
      else bindE (IncStockConsume aid skuID ''unknown'') (\<lambda>_. fail (GoErr unknown_result)))"

definition SubtractionActivitySkuStock ::
    "services \<Rightarrow> topics \<Rightarrow> int \<Rightarrow> int \<Rightarrow> string \<Rightarrow> ActivityResult M" where
  "SubtractionActivitySkuStock svc tp skuID aid uid =
     bindE (now svc) (\<lambda>t.
     caseE (Eval svc myCache
              (stock_script svc (GetActivitySkuStockCountKey skuID)
                 (GetActivityResultHashKey aid (result_shard uid)) uid (FormatInt skuID)
                 (FormatInt (t div second)) (ActivityResultPointsPrefix @ ''_100'')))
       (\<lambda>e. bindE (IncStockConsume aid skuID ''error'') (\<lambda>_. fail e))
       (\<lambda>result.
     case result of
       LInt status # LStr json # _ \<Rightarrow>
         caseE (liftR (dec (js_ActivityResult svc) json))
           (\<lambda>e. bindE (IncStockConsume aid skuID ''error'') (\<lambda>_. fail e))
           (stock_outcome svc tp skuID aid status)
     | _ \<Rightarrow> panic ''interface conversion or index out of range''))"

definition enqueue :: "services \<Rightarrow> string \<times> string \<times> string \<times> int \<Rightarrow> unit M" where
  "enqueue svc tsk = remote svc (\<lambda>w. (Ok (), w\<lparr>queue := queue w @ [tsk]\<rparr>))"

definition ActivitySkuStockConsumeSendQueue :: "services \<Rightarrow> ActivitySkuStockKey \<Rightarrow> unit M" where
  "ActivitySkuStockConsumeSendQueue svc k =
     bindE (liftR (enc (js_SkuStockKey svc) k)) (\<lambda>payload.
     enqueue svc (TaskTypeActivitySkuStockConsume, payload, QueueNameSkuStock, 3 * second))"

definition TakeQueueValue :: "services \<Rightarrow> string \<Rightarrow> ActivitySkuStockKey M" where
  "TakeQueueValue svc payload =
     caseE (liftR (dec (js_SkuStockKey svc) payload))
       (\<lambda>e. fail (Wraps ''json.Unmarshal failed'' [e, ErrActivitySkuStockKeyUnmarshal, SkipRetry])) ret"

definition take_one :: "time \<Rightarrow> row \<Rightarrow> row" where
  "take_one t r =
     (case r of
        RSku s \<Rightarrow> RSku (s\<lparr>rs_StockCountSurplus := rs_StockCountSurplus s - 1, rs_UpdateTime := t\<rparr>)
      | _ \<Rightarrow> r)"

definition UpdateActivitySkuStock :: "services \<Rightarrow> int \<Rightarrow> unit M" where
  "UpdateActivitySkuStock svc sku =
     bindE (now svc) (\<lambda>t.
     bindE (gorm_Updates svc ''default'' ''raffle_activity_sku''
              (\<lambda>r. sku_row sku r \<and> 0 < rs_StockCountSurplus (the_sku r)) (take_one t)) (\<lambda>_. ret ()))"

end
