(* ===== verification/Activity_Usecase.thy ===== *)
theory Activity_Usecase
  imports Activity_Quota
begin

text \<open>
  \<open>internal/biz/activity/quota.go\<close>, \<open>stock.go\<close> and \<open>sku_chain.go\<close>: the use cases that recharge an
  account, preheat the stock of activity goods and take from it, over the operations of the \<open>Repo\<close>
  interface they call. \<open>quota_repo_of\<close> is what \<open>NewActivityRepository\<close> provides for it.
\<close>

record quota_repo =
  q_QueryActivitySkuByActivityID :: "int \<Rightarrow> ActivitySku list M"
  q_QueryActivitySku :: "int \<Rightarrow> ActivitySku option M"
  q_QueryRaffleActivityByActivityId :: "int \<Rightarrow> Activity option M"
  q_QueryRaffleActivityCount :: "int \<Rightarrow> ActivityCount option M"
  q_SaveOrder :: "CreateQuotaOrder \<Rightarrow> unit M"
  q_CacheActivitySkuStockCount :: "string \<Rightarrow> int \<Rightarrow> unit M"
  q_SubtractionActivitySkuStock :: "int \<Rightarrow> int \<Rightarrow> string \<Rightarrow> ActivityResult M"
  q_StockConsumeSendQueue :: "ActivitySkuStockKey \<Rightarrow> unit M"
  q_ClearActivitySkuStock :: "int \<Rightarrow> unit M"
  q_ClearQueueValue :: "unit M"
  q_UpdateActivitySkuStock :: "int \<Rightarrow> unit M"
  q_QueryActivityAccountEntity :: "string \<Rightarrow> int \<Rightarrow> ActivityAccount M"
  q_QueryPartakeCount :: "string \<Rightarrow> int \<Rightarrow> int M"
  q_QueryDayPartakeCount :: "string \<Rightarrow> int \<Rightarrow> int M"
  q_AssembleAccountByActivityId :: "int \<Rightarrow> unit M"
  q_AssembleAccountByUserId :: "string \<Rightarrow> int \<Rightarrow> unit M"

text \<open>\<open>NewAsynqInspector\<close> never returns nil.\<close>

definition quota_repo_of :: "services \<Rightarrow> topics \<Rightarrow> DBRouter \<Rightarrow> quota_repo" where
  "quota_repo_of svc tp rt =
     \<lparr>q_QueryActivitySkuByActivityID = QueryActivitySkuByActivityID svc,
      q_QueryActivitySku = QueryActivitySku svc,
      q_QueryRaffleActivityByActivityId = QueryRaffleActivityByActivityId svc,
      q_QueryRaffleActivityCount = QueryRaffleActivityCountByActivityCountId svc,
      q_SaveOrder = SaveOrder svc rt,
      q_CacheActivitySkuStockCount = CacheActivitySkuStockCount svc,
      q_SubtractionActivitySkuStock = SubtractionActivitySkuStock svc tp,
      q_StockConsumeSendQueue = ActivitySkuStockConsumeSendQueue svc,
      q_ClearActivitySkuStock = ClearActivitySkuStock svc,
      q_ClearQueueValue = ClearQueueValue svc True,
      q_UpdateActivitySkuStock = UpdateActivitySkuStock svc,
      q_QueryActivityAccountEntity = QueryActivityAccountEntity svc rt,
      q_QueryPartakeCount = QueryRaffleActivityAccountPartakeCount svc rt,
      q_QueryDayPartakeCount = QueryRaffleActivityAccountDayPartakeCount svc rt,
      q_AssembleAccountByActivityId = AssembleActivityAccountByActivityId svc rt,
      q_AssembleAccountByUserId = AssembleActivityAccountByUserId svc rt\<rparr>"

section \<open>quota.go\<close>

definition buildOrderAggregate ::
    "services \<Rightarrow> SkuRecharge \<Rightarrow> ActivitySku \<Rightarrow> Activity option \<Rightarrow> ActivityCount option \<Rightarrow> CreateQuotaOrder M" where
  "buildOrderAggregate svc rech sku act count =
     bindE (deref act) (\<lambda>act.
     bindE (random_order_id svc) (\<lambda>oid.
     bindE (now svc) (\<lambda>t.
     bindE (deref count) (\<lambda>count.
     ret \<lparr>cq_UserID = sk_UserID rech, cq_ActivityID = as_ActivityID sku, cq_TotalCount = ac_TotalCount count,
          cq_DayCount = ac_DayCount count, cq_MonthCount = ac_MonthCount count,
          cq_ActivityOrder =
            \<lparr>ao_UserID = sk_UserID rech, ao_Sku = sk_Sku rech, ao_ActivityID = av_ActivityID act,
             ao_ActivityName = av_ActivityName act, ao_StrategyID = av_StrategyID act, ao_OrderID = oid,
             ao_OrderTime = t, ao_TotalCount = ac_TotalCount count, ao_DayCount = ac_DayCount count,
             ao_MonthCount = ac_MonthCount count, ao_State = ActivityOrderStateCompleted,
             ao_OutBusinessNo = sk_OutBusinessNo rech\<rparr>\<rparr>))))"

definition CreateRaffleActivityOrder :: "services \<Rightarrow> quota_repo \<Rightarrow> SkuRecharge \<Rightarrow> string M" where
  "CreateRaffleActivityOrder svc repo rech =
     (if sk_UserID rech = '''' \<or> sk_OutBusinessNo rech = '''' then fail ErrInvalidParams
      else
        bindE (q_QueryActivitySku repo (sk_Sku rech)) (\<lambda>sku.
        bindE (deref sku) (\<lambda>sku.
        bindE (q_QueryRaffleActivityByActivityId repo (as_ActivityID sku)) (\<lambda>act.
        bindE (q_QueryRaffleActivityCount repo (as_ActivityCountID sku)) (\<lambda>count.
        bindE (buildOrderAggregate svc rech sku act count) (\<lambda>q.
        bindE (q_SaveOrder repo q) (\<lambda>_.
        ret (ao_OrderID (cq_ActivityOrder q)))))))))"

text \<open>The other operations of the use case pass their arguments on.\<close>

definition Quota_ClearActivitySkuStock :: "quota_repo \<Rightarrow> int \<Rightarrow> unit M" where
  "Quota_ClearActivitySkuStock repo sku = q_ClearActivitySkuStock repo sku"

definition Quota_ClearQueueValue :: "quota_repo \<Rightarrow> unit M" where
  "Quota_ClearQueueValue repo = q_ClearQueueValue repo"

definition Quota_UpdateActivitySkuStock :: "quota_repo \<Rightarrow> int \<Rightarrow> unit M" where
  "Quota_UpdateActivitySkuStock repo sku = q_UpdateActivitySkuStock repo sku"

definition Quota_QueryActivityAccountEntity :: "quota_repo \<Rightarrow> string \<Rightarrow> int \<Rightarrow> ActivityAccount M" where
  "Quota_QueryActivityAccountEntity repo uid aid = q_QueryActivityAccountEntity repo uid aid"

definition Quota_QueryPartakeCount :: "quota_repo \<Rightarrow> string \<Rightarrow> int \<Rightarrow> int M" where
  "Quota_QueryPartakeCount repo uid aid = q_QueryPartakeCount repo uid aid"

definition Quota_QueryDayPartakeCount :: "quota_repo \<Rightarrow> string \<Rightarrow> int \<Rightarrow> int M" where
  "Quota_QueryDayPartakeCount repo uid aid = q_QueryDayPartakeCount repo uid aid"

definition Quota_AssembleAccountByActivityId :: "quota_repo \<Rightarrow> int \<Rightarrow> unit M" where
  "Quota_AssembleAccountByActivityId repo aid = q_AssembleAccountByActivityId repo aid"

definition Quota_AssembleAccountByUserId :: "quota_repo \<Rightarrow> string \<Rightarrow> int \<Rightarrow> unit M" where
  "Quota_AssembleAccountByUserId repo uid aid = q_AssembleAccountByUserId repo uid aid"

section \<open>stock.go\<close>


definition cacheActivitySkuStockCount :: "quota_repo \<Rightarrow> int \<Rightarrow> int \<Rightarrow> unit M" where
  "cacheActivitySkuStockCount repo sku stockCount =
     q_CacheActivitySkuStockCount repo (getActivitySkuStockCountKey sku) stockCount"

text \<open>\<open>False\<close>: the loop returned early with \<open>false, nil\<close>.\<close>

fun preheat_skus :: "quota_repo \<Rightarrow> ActivitySku list \<Rightarrow> bool M" where
  "preheat_skus repo [] = ret True"
| "preheat_skus repo (s # ss) =
     bindE (ignoreE (cacheActivitySkuStockCount repo (as_Sku s) (as_StockCount s))) (\<lambda>_.
     bindE (q_QueryRaffleActivityCount repo (as_ActivityCountID s)) (\<lambda>count.
     case count of None \<Rightarrow> ret False | Some _ \<Rightarrow> preheat_skus repo ss))"

definition assembleActivitySkuByActivityId :: "quota_repo \<Rightarrow> int \<Rightarrow> bool M" where
  "assembleActivitySkuByActivityId repo aid =
     bindE (q_QueryActivitySkuByActivityID repo aid) (\<lambda>skus.
     if skus = [] then ret False
     else bindE (preheat_skus repo skus) (\<lambda>ok.
          if \<not> ok then ret False
          else bindE (q_QueryRaffleActivityByActivityId repo aid) (\<lambda>act. ret (act \<noteq> None))))"

definition assembleActivitySku :: "quota_repo \<Rightarrow> int \<Rightarrow> bool M" where
  "assembleActivitySku repo skuID =
     bindE (q_QueryActivitySku repo skuID) (\<lambda>sku.
     case sku of
       None \<Rightarrow> ret False
     | Some s \<Rightarrow>
         bindE (ignoreE (cacheActivitySkuStockCount repo skuID (as_StockCount s))) (\<lambda>_.
         bindE (q_QueryRaffleActivityByActivityId repo (as_ActivityID s)) (\<lambda>act.
         case act of
           None \<Rightarrow> ret False
         | Some _ \<Rightarrow> bindE (q_QueryRaffleActivityCount repo (as_ActivityCountID s)) (\<lambda>count. ret (count \<noteq> None)))))"

definition subtractionActivitySkuStock :: "quota_repo \<Rightarrow> int \<Rightarrow> int \<Rightarrow> string \<Rightarrow> ActivityResult M" where
  "subtractionActivitySkuStock repo skuID aid uid = q_SubtractionActivitySkuStock repo skuID aid uid"

section \<open>sku_chain.go\<close>

text \<open>A chain is the list of its nodes; \<open>appendNext\<close> links the next one.\<close>

datatype action_node = BaseActionChain | SkuStockActionChain

definition sku_stock_action :: "quota_repo \<Rightarrow> ActivitySku \<Rightarrow> Activity \<Rightarrow> bool M" where
  "sku_stock_action repo sku act =
     bindE (q_SubtractionActivitySkuStock repo (as_Sku sku) (av_ActivityID act) ''user_id'') (\<lambda>result.
     if res_Status result = ActivityResultStatusSuccess then
       bindE (q_StockConsumeSendQueue repo \<lparr>ssk_Sku = as_Sku sku, ssk_ActivityID = av_ActivityID act\<rparr>) (\<lambda>_. ret True)
     else fail ErrActivitySkuStockError)"

text \<open>\<open>activity.BeginDateTime.After(time.Now()) || activity.EndDateTime.Before(time.Now())\<close>\<close>

definition outside_period :: "services \<Rightarrow> Activity \<Rightarrow> bool M" where
  "outside_period svc act =
     bindE (now svc) (\<lambda>t1.
     if t1 < av_BeginDateTime act then ret True
     else bindE (now svc) (\<lambda>t2. ret (av_EndDateTime act < t2)))"

fun Action :: "services \<Rightarrow> quota_repo \<Rightarrow> action_node list \<Rightarrow> ActivitySku \<Rightarrow> Activity \<Rightarrow> bool M" where
  "Action svc repo [] sku act = ret True"
| "Action svc repo (BaseActionChain # rest) sku act =
     (if av_State act \<noteq> ActivityStateOpen then fail ErrActivityStateError
      else bindE (outside_period svc act) (\<lambda>out.
           if out then fail ErrActivityTimeError
           else if as_StockCount sku \<le> 0 then fail ErrActivityStockError
           else if rest = [] then ret True
           else Action svc repo rest sku act))"
| "Action svc repo (SkuStockActionChain # rest) sku act = sku_stock_action repo sku act"

definition OpenLogicChain :: "action_node list" where
  "OpenLogicChain = [BaseActionChain, SkuStockActionChain]"

end
