(* ===== verification/Stock.thy ===== *)
theory Stock
  imports Activity_Usecase Quota_Spec
begin

text \<open>
  The stock of activity goods: what the script of \<open>SubtractionActivitySkuStock\<close> does to the counter
  and to the result hashes, what a sequence of such scripts adds up to, and what the action chain of
  \<open>sku_chain.go\<close> relies on.
\<close>

section \<open>Abstract stock\<close>

text \<open>The status a take reports and the stock after it: 2 nothing left, 0 the last unit, 1 a unit.\<close>

definition take_stock :: "int \<Rightarrow> int \<times> int" where
  "take_stock n = (if n \<le> 0 then (2, n) else (if n = 1 then 0 else 1, n - 1))"

definition stock_json :: "int \<Rightarrow> string \<Rightarrow> string \<Rightarrow> string \<Rightarrow> string \<Rightarrow> string" where
  "stock_json n uid sku ct points =
     (if n \<le> 0 then result_json uid ''2'' points ct else result_json uid ''1'' (''SKU_'' @ sku) ct)"

text \<open>The counter holds \<open>n\<close> and the result keys hold hashes; neither expires.\<close>

definition stock_state :: "string \<Rightarrow> string set \<Rightarrow> keyspace \<Rightarrow> int \<Rightarrow> bool" where
  "stock_state sk RK ks n \<longleftrightarrow>
     ks sk = Some (RStr (FormatInt n), None) \<and> is_int64 n \<and> sk \<notin> RK \<and>
     (\<forall>rk \<in> RK. ks rk = None \<or> (\<exists>h. ks rk = Some (RHash h, None)))"

definition result_at :: "keyspace \<Rightarrow> string \<Rightarrow> string \<Rightarrow> string option" where
  "result_at ks rk uid = (case ks rk of Some (RHash h, _) \<Rightarrow> h uid | _ \<Rightarrow> None)"

lemma live_same: "ks k = Some (v, None) \<Longrightarrow> live t ks k = Some (v, None)"
  by (simp add: live_def)

lemma live_absent: "ks k = None \<Longrightarrow> live t ks k = None"
  by (simp add: live_def)

lemma stock_state_live: "stock_state sk RK ks n \<Longrightarrow> stock_state sk RK (live t ks) n"
  by (auto simp: stock_state_def live_def)

lemma is_int64_pred: "is_int64 n \<Longrightarrow> 0 < n \<Longrightarrow> is_int64 (n - 1)"
  by (auto simp: is_int64_def int64_min_def int64_max_def)

lemma rcall_result:
  assumes "redis_ok svc" and "stock_state sk RK ks n" and "rk \<in> RK"
  shows "\<exists>r ks'. rcall svc t (HSET rk [(uid, j)]) ks = (Ok r, ks') \<and> stock_state sk RK ks' n \<and>
           result_at ks' rk uid = Some j \<and> (\<forall>k. k \<noteq> rk \<longrightarrow> ks' k = live t ks k)"
proof -
  have st: "stock_state sk RK (live t ks) n" using stock_state_live [OF assms(2)] .
  obtain h r where h: "rcall svc t (HSET rk [(uid, j)]) ks = (Ok r, (live t ks)(rk \<mapsto> (RHash (h(uid \<mapsto> j)), None)))"
  proof (cases "ks rk")
    case None
    with assms(1) show thesis by (intro that [of "RInt 1" Map.empty]) (simp add: rcall_doc live_absent)
  next
    case (Some x)
    then obtain h where "ks rk = Some (RHash h, None)" using assms(2,3) unfolding stock_state_def by fastforce
    with assms(1) show thesis
      by (intro that [of "RInt (if h uid = None then 1 else 0)" h]) (simp add: rcall_doc live_same)
  qed
  then show ?thesis using st assms(3) by (auto simp: stock_state_def result_at_def)
qed

lemma stock_script_step:
  assumes "redis_ok svc" and "stock_state sk RK ks n" and "rk \<in> RK"
  shows "\<exists>ks'. stock_script svc sk rk uid sku ct points (rcall svc t) ks =
             (Ok [LInt (fst (take_stock n)), LStr (stock_json n uid sku ct points)], ks') \<and>
           stock_state sk RK ks' (snd (take_stock n)) \<and>
           result_at ks' rk uid = Some (stock_json n uid sku ct points) \<and>
           (\<forall>k. k \<notin> {sk, rk} \<longrightarrow> ks' k = live t ks k)"
proof -
  let ?l = "live t ks"
  have l: "stock_state sk RK ?l n" using stock_state_live [OF assms(2)] .
  have get: "rcall svc t (GET sk) ks = (Ok (RBulk (FormatInt n)), ?l)"
    using assms(1,2) by (simp add: rcall_doc stock_state_def live_same)
  have i: "is_int64 n" using assms(2) by (simp add: stock_state_def)
  show ?thesis
  proof (cases "n \<le> 0")
    case True
    obtain r ks' where "rcall svc t (HSET rk [(uid, stock_json n uid sku ct points)]) ?l = (Ok r, ks')"
        "stock_state sk RK ks' n" "result_at ks' rk uid = Some (stock_json n uid sku ct points)"
        "\<forall>k. k \<noteq> rk \<longrightarrow> ks' k = live t ?l k"
      using rcall_result [OF assms(1) l assms(3)] by blast
    then show ?thesis
      using True get i assms(1)
      by (intro exI [of _ ks'])
        (simp add: stock_script_def bindE_def bulk_def lua_le0_int take_stock_def stock_json_def Let_def)
  next
    case False
    let ?d = "?l(sk \<mapsto> (RStr (FormatInt (n - 1)), None))"
    have dec: "rcall svc t (INCRBY sk (-1)) ?l = (Ok (RInt (n - 1)), ?d)"
      using assms(1,2) False i is_int64_pred [of n] by (simp add: rcall_doc stock_state_def live_same)
    have ld: "live t ?d = ?d" by simp
    have "stock_state sk RK ?d (n - 1)" using l False is_int64_pred [of n] by (auto simp: stock_state_def)
    then obtain r ks' where "rcall svc t (HSET rk [(uid, stock_json n uid sku ct points)]) ?d = (Ok r, ks')"
        "stock_state sk RK ks' (n - 1)" "result_at ks' rk uid = Some (stock_json n uid sku ct points)"
        "\<forall>k. k \<noteq> rk \<longrightarrow> ks' k = live t ?d k"
      using rcall_result [OF assms(1) _ assms(3)] by blast
    then show ?thesis
      using False get dec i assms(1)
      by (intro exI [of _ ks'])
        (simp add: stock_script_def bindE_def bulk_def lua_le0_int take_stock_def stock_json_def Let_def ld)
  qed
qed

section \<open>Sequences of takes\<close>

text \<open>Scripts of the server run one after the other, whichever clients sent them: an instant, the
  result key and the user of each, with the status each of them returned.\<close>

fun stock_calls ::
    "services \<Rightarrow> string \<Rightarrow> string \<Rightarrow> string \<Rightarrow> (time \<times> string \<times> string \<times> string) list \<Rightarrow> keyspace \<Rightarrow> int list \<times> keyspace" where
  "stock_calls svc sk sku points [] ks = ([], ks)"
| "stock_calls svc sk sku points ((t, rk, uid, ct) # cs) ks =
     (case stock_script svc sk rk uid sku ct points (rcall svc t) ks of
        (Ok (LInt s # _), ks') \<Rightarrow> (let (ss, ks'') = stock_calls svc sk sku points cs ks' in (s # ss, ks''))
      | (_, ks') \<Rightarrow> stock_calls svc sk sku points cs ks')"

definition won :: "int list \<Rightarrow> nat" where
  "won ss = length (filter (\<lambda>s. s = 0 \<or> s = 1) ss)"

lemma stock_calls_exact:
  assumes "redis_ok svc" and "stock_state sk RK ks n" and "0 \<le> n" and "\<forall>(t, rk, u) \<in> set cs. rk \<in> RK"
    and "stock_calls svc sk sku points cs ks = (ss, ks')"
  shows "length ss = length cs \<and> won ss = min (nat n) (length cs) \<and>
         length (filter (\<lambda>s. s = 0) ss) = (if 0 < n \<and> n \<le> int (length cs) then 1 else 0) \<and>
         stock_state sk RK ks' (max 0 (n - int (length cs)))"
  using assms(2-)
proof (induction cs arbitrary: ks n ss)
  case Nil
  then show ?case by (auto simp: won_def)
next
  case (Cons c cs)
  obtain t rk uid ct where c: "c = (t, rk, uid, ct)" by (cases c)
  with Cons.prems have rk: "rk \<in> RK" by simp
  obtain ks1 where step: "stock_script svc sk rk uid sku ct points (rcall svc t) ks =
        (Ok [LInt (fst (take_stock n)), LStr (stock_json n uid sku ct points)], ks1)"
      "stock_state sk RK ks1 (snd (take_stock n))"
    using stock_script_step [OF assms(1) Cons.prems(1) rk] by blast
  obtain ss1 where rest: "stock_calls svc sk sku points cs ks1 = (ss1, ks')" "ss = fst (take_stock n) # ss1"
    using Cons.prems(4) c step(1) by (auto split: prod.splits)
  have "0 \<le> snd (take_stock n)" using Cons.prems(2) by (simp add: take_stock_def)
  from Cons.IH [OF step(2) this _ rest(1)] Cons.prems(3)
  have IH: "length ss1 = length cs" "won ss1 = min (nat (snd (take_stock n))) (length cs)"
    "length (filter (\<lambda>s. s = 0) ss1) = (if 0 < snd (take_stock n) \<and> snd (take_stock n) \<le> int (length cs) then 1 else 0)"
    "stock_state sk RK ks' (max 0 (snd (take_stock n) - int (length cs)))" by simp_all
  have "max 0 (snd (take_stock n) - int (length cs)) = max 0 (n - int (length (c # cs)))"
    using Cons.prems(2) by (auto simp: take_stock_def)
  with IH rest(2) Cons.prems(2) show ?case
    by (auto simp: take_stock_def won_def split: if_splits)
qed

text \<open>
  C25. The script of \<open>SubtractionActivitySkuStock\<close> implements the abstract stock: with units left it
  takes exactly one, and tells the last unit apart; with none left it takes nothing; either way the
  user's result is recorded in the result hash, the counter stays an integer and every other key is
  as before.
\<close>

theorem stock_script_refines:
  assumes "redis_ok svc" and "stock_state sk RK ks n" and "rk \<in> RK"
  shows "\<exists>ks'. stock_script svc sk rk uid sku ct points (rcall svc t) ks =
             (Ok [LInt (fst (take_stock n)), LStr (stock_json n uid sku ct points)], ks') \<and>
           stock_state sk RK ks' (snd (take_stock n)) \<and>
           result_at ks' rk uid = Some (stock_json n uid sku ct points) \<and>
           (\<forall>k. k \<notin> {sk, rk} \<longrightarrow> ks' k = live t ks k)"
  by (rule stock_script_step [OF assms])

definition stocked :: keyspace where
  "stocked = [''s'' \<mapsto> (RStr (FormatInt 2), None)]"

lemma stocked_state: "stock_state ''s'' {''r''} stocked 2"
  by (simp add: stock_state_def stocked_def is_int64_small)

theorem stock_script_refines_witness:
  "\<exists>ks'. stock_script (sample_svc (\<lambda>_ _ _. False)) ''s'' ''r'' ''u'' ''9'' ''0'' ''P'' (rcall (sample_svc (\<lambda>_ _ _. False)) 0) stocked =
       (Ok [LInt 1, LStr (result_json ''u'' ''1'' ''SKU_9'' ''0'')], ks') \<and> stock_state ''s'' {''r''} ks' 1"
  using stock_script_refines [OF redis_ok_sample stocked_state, of "''r''" "\<lambda>_ _ _. False" "''u''" "''9''" "''0''" "''P''" 0]
  by (auto simp: take_stock_def stock_json_def)

text \<open>
  C24. Stock is never oversold: of any sequence of takes from a stock of \<open>n\<close>, in whatever order the
  server serves them, exactly \<open>min n\<close> of their number win, exactly one of them is told that it took
  the last unit if that many arrived, and the counter ends at what is left, never below zero.
\<close>

theorem stock_never_oversold:
  assumes "redis_ok svc" and "stock_state sk RK ks n" and "0 \<le> n" and "\<forall>(t, rk, u) \<in> set cs. rk \<in> RK"
    and "stock_calls svc sk sku points cs ks = (ss, ks')"
  shows "won ss = min (nat n) (length cs) \<and>
         length (filter (\<lambda>s. s = 0) ss) = (if 0 < n \<and> n \<le> int (length cs) then 1 else 0) \<and>
         stock_state sk RK ks' (max 0 (n - int (length cs)))"
  using stock_calls_exact [OF assms] by simp

theorem stock_never_oversold_witness:
  "\<exists>ss ks'. stock_calls (sample_svc (\<lambda>_ _ _. False)) ''s'' ''9'' ''P''
       [(0, ''r'', ''a'', ''0''), (1, ''r'', ''b'', ''0''), (2, ''r'', ''c'', ''0'')] stocked = (ss, ks') \<and>
     won ss = 2 \<and> stock_state ''s'' {''r''} ks' 0"
proof -
  let ?cs = "[(0, ''r'', ''a'', ''0''), (1, ''r'', ''b'', ''0''), (2, ''r'', ''c'', ''0'')]"
  obtain ss ks' where run: "stock_calls (sample_svc (\<lambda>_ _ _. False)) ''s'' ''9'' ''P'' ?cs stocked = (ss, ks')"
    by fastforce
  from stock_never_oversold [OF redis_ok_sample stocked_state _ _ run] run show ?thesis by simp
qed

section \<open>The action chain over its repository\<close>

text \<open>Text that needs no escaping inside a JSON string: the script formats user ids unescaped.\<close>

definition json_plain :: "string \<Rightarrow> bool" where
  "json_plain s \<longleftrightarrow> (\<forall>c \<in> set s. c \<noteq> CHR 0x22 \<and> c \<noteq> CHR 0x5C \<and> (of_char c :: nat) \<ge> 32)"

text \<open>What \<open>SkuStockActionChain\<close> relies on: a result with the success status means that one unit was
  taken, and an enqueued message is in the queue.\<close>

lemma user_id_plain: "json_plain ''user_id''"
  by (simp add: json_plain_def)

locale stock_contract =
  fixes repo :: "'c \<Rightarrow> quota_repo"
    and ok :: "'c \<Rightarrow> bool"
    and taken :: "'c \<Rightarrow> int \<Rightarrow> world \<Rightarrow> world \<Rightarrow> bool"
    and queued :: "'c \<Rightarrow> ActivitySkuStockKey \<Rightarrow> world \<Rightarrow> world \<Rightarrow> bool"
  assumes success_taken: "ok c \<Longrightarrow> json_plain uid \<Longrightarrow> q_SubtractionActivitySkuStock (repo c) sku aid uid w = (Ok res, w') \<Longrightarrow>
      res_Status res = ActivityResultStatusSuccess \<Longrightarrow> taken c sku w w'"
    and sent_queued: "ok c \<Longrightarrow> q_StockConsumeSendQueue (repo c) k w = (Ok u, w') \<Longrightarrow> queued c k w w'"
begin

lemma stock_action_taken:
  assumes "ok c" and "sku_stock_action (repo c) sku act w = (Ok b, w')"
  shows "b \<and> (\<exists>w1. taken c (as_Sku sku) w w1 \<and>
                queued c \<lparr>ssk_Sku = as_Sku sku, ssk_ActivityID = av_ActivityID act\<rparr> w1 w')"
  using assms success_taken [OF assms(1) user_id_plain] sent_queued [OF assms(1)]
  by (auto simp: sku_stock_action_def split: if_splits intro!: exI conjI)

lemma chain_taken:
  assumes "ok c" and "Action svc (repo c) OpenLogicChain sku act w = (Ok b, w')"
  shows "b \<and> av_State act = ActivityStateOpen \<and> 0 < as_StockCount sku \<and>
         av_BeginDateTime act \<le> svc_clock svc (tick w) \<and> svc_clock svc (Suc (tick w)) \<le> av_EndDateTime act \<and>
         (\<exists>w1. taken c (as_Sku sku) (bump (bump w)) w1 \<and>
            queued c \<lparr>ssk_Sku = as_Sku sku, ssk_ActivityID = av_ActivityID act\<rparr> w1 w')"
  using assms(2) stock_action_taken [OF assms(1), of sku act "bump (bump w)" b w']
  by (auto simp: OpenLogicChain_def outside_period_def split: if_splits)

end

section \<open>The activity repository keeps the contract\<close>

text \<open>\<open>json.Unmarshal\<close> reads the \<open>s\<close> field of a result document into \<open>Status\<close>.\<close>

definition reads_status :: "ActivityResult codec \<Rightarrow> bool" where
  "reads_status c \<longleftrightarrow>
     (\<forall>uid r t res. json_plain uid \<longrightarrow> dec c (result_json uid ''1'' r t) = Ok res \<longrightarrow> res_Status res = 1) \<and>
     (\<forall>uid r t res. json_plain uid \<longrightarrow> dec c (result_json uid ''2'' r t) = Ok res \<longrightarrow> res_Status res = 2) \<and>
     (\<forall>res. dec c stock_not_initialized \<noteq> Ok res)"

definition stock_deployed :: "services \<times> topics \<times> DBRouter \<Rightarrow> bool" where
  "stock_deployed = (\<lambda>(svc, tp, rt). redis_ok svc \<and> reads_status (js_ActivityResult svc))"

text \<open>
  One unit left the counter of the sku, which held at least one when the script ran (two calls after \<open>w\<close>);
  beside it only result hashes changed, and neither a table nor the queue did.
\<close>

definition unit_taken :: "services \<times> topics \<times> DBRouter \<Rightarrow> int \<Rightarrow> world \<Rightarrow> world \<Rightarrow> bool" where
  "unit_taken c sku w w' \<longleftrightarrow>
     (\<exists>n dl t. t = svc_rtime (fst c) (tick w + 2) \<and> 0 < n \<and>
        live t (rkeys w) (GetActivitySkuStockCountKey sku) = Some (RStr (FormatInt n), dl) \<and>
        rkeys w' (GetActivitySkuStockCountKey sku) = Some (RStr (FormatInt (n - 1)), dl) \<and>
        (\<forall>k. k \<noteq> GetActivitySkuStockCountKey sku \<longrightarrow> (\<forall>aid sh. k \<noteq> GetActivityResultHashKey aid sh) \<longrightarrow>
           rkeys w' k = live t (rkeys w) k)) \<and>
     queue w' = queue w \<and> tables w' = tables w"

definition consume_queued :: "services \<times> topics \<times> DBRouter \<Rightarrow> ActivitySkuStockKey \<Rightarrow> world \<Rightarrow> world \<Rightarrow> bool" where
  "consume_queued c k w w' \<longleftrightarrow>
     (\<exists>payload. enc (js_SkuStockKey (fst c)) k = Ok payload \<and>
        queue w' = queue w @ [(TaskTypeActivitySkuStockConsume, payload, QueueNameSkuStock, 3 * second)]) \<and>
     rkeys w' = rkeys w \<and> tables w' = tables w"

text \<open>The script, on a keyspace of any shape: a reply that is neither \<open>-1\<close> nor \<open>2\<close> is a unit taken.\<close>

lemma stock_script_taken:
  assumes "redis_ok svc" and "sk \<noteq> rk"
    and "stock_script svc sk rk uid sku ct points (rcall svc t) ks = (Ok res, ks')"
  shows "res = [LInt (-1), LStr stock_not_initialized] \<or> res = [LInt 2, LStr (result_json uid ''2'' points ct)] \<or>
         (\<exists>s n dl. s \<in> {0, 1} \<and> res = [LInt s, LStr (result_json uid ''1'' (''SKU_'' @ sku) ct)] \<and> 0 < n \<and>
            live t ks sk = Some (RStr (FormatInt n), dl) \<and> live t ks' sk = Some (RStr (FormatInt (n - 1)), dl) \<and>
            ks' sk = Some (RStr (FormatInt (n - 1)), dl) \<and> (\<forall>k. k \<notin> {sk, rk} \<longrightarrow> ks' k = live t ks k))"
proof (cases "live t ks sk")
  case None
  then show ?thesis using assms by (simp add: stock_script_def bindE_def rcall_doc bulk_def)
next
  case (Some x)
  obtain v dl where x: "x = (v, dl)" by (cases x)
  have dl: "ok_dl t dl" using Some x live_ok_dl by simp
  show ?thesis
  proof (cases v)
    case (RStr str)
    show ?thesis
    proof (cases "svc_lua_le0 svc str = Some True")
      case True
      then show ?thesis using assms Some x RStr
        by (auto simp: stock_script_def rcall_doc bulk_def lua_le0_def Let_def bindE_def split: prod.splits res.splits)
    next
      case False
      then have "svc_lua_le0 svc str = Some False" "redis_int str \<noteq> None"
        using assms Some x RStr
        by (auto simp: stock_script_def rcall_doc bulk_def lua_le0_def bindE_def incr_value_def
            split: option.splits if_splits)
      then obtain n where n: "str = FormatInt n" "is_int64 n" using redis_int_SomeD by blast
      then have pos: "0 < n" using \<open>svc_lua_le0 svc str = Some False\<close> assms(1) by (auto simp: redis_ok_def)
      let ?d = "(live t ks)(sk \<mapsto> (RStr (FormatInt (n - 1)), dl))"
      have dec: "rcall svc t (INCRBY sk (-1)) (live t ks) = (Ok (RInt (n - 1)), ?d)"
        using assms(1) Some x RStr n pos is_int64_pred [of n] by (simp add: rcall_doc)
      have ld: "live t ?d = ?d" using dl by simp
      obtain r where h: "rcall svc t (HSET rk [(uid, result_json uid ''1'' (''SKU_'' @ sku) ct)]) ?d = (Ok r, ks')"
          "res = [LInt (if n = 1 then 0 else 1), LStr (result_json uid ''1'' (''SKU_'' @ sku) ct)]"
        using assms(1,3) Some x RStr n \<open>svc_lua_le0 svc str = Some False\<close> dec
        by (auto simp: stock_script_def bindE_def rcall_doc [of svc t "GET sk"] bulk_def lua_le0_def Let_def
            split: prod.splits res.splits)
      have "ks' sk = Some (RStr (FormatInt (n - 1)), dl)"
        using h(1) assms(1,2) ld
        by (auto simp: rcall_doc split: option.splits prod.splits rval.splits)
      moreover have "\<forall>k. k \<notin> {sk, rk} \<longrightarrow> ks' k = live t ks k"
        using h(1) assms(1) ld by (auto simp: rcall_doc split: option.splits prod.splits rval.splits)
      ultimately have "\<forall>k. k \<notin> {sk, rk} \<longrightarrow> ks' k = live t ks k" "ks' sk = Some (RStr (FormatInt (n - 1)), dl)" "live t ks' sk = Some (RStr (FormatInt (n - 1)), dl)"
        using dl by (simp_all add: live_def ok_dl_def split: option.splits)
      then show ?thesis using h(2) pos Some x RStr n by auto
    qed
  qed (use assms Some x in \<open>auto simp: stock_script_def bindE_def rcall_doc\<close>)
qed

lemma stock_key_neq [simp]: "GetActivitySkuStockCountKey sku \<noteq> GetActivityResultHashKey aid sh"
  by (simp add: activity_key_defs)

lemma stock_outcome_keys:
  assumes "stock_outcome svc tp sku aid s res w = (r, w')"
  shows "rkeys w' = rkeys w \<and> store w' = store w \<and> queue w' = queue w \<and> (\<forall>x. r = Ok x \<longrightarrow> x = res \<and> s \<in> {0, 1, 2}) \<and>
         (s \<noteq> 0 \<longrightarrow> mq w' = mq w) \<and> (s = 0 \<longrightarrow> mq w' = mq w \<or> (\<exists>body. mq w' = mq w @ [(ActivitySkuStockZero tp, body)]))"
proof (cases "s = 0")
  case True
  have "\<exists>ev w1. NewBaseEvent svc (EInt sku) w = (Ok ev, w1) \<and> store w1 = store w \<and> rkeys w1 = rkeys w \<and>
      mq w1 = mq w \<and> queue w1 = queue w"
    by (auto simp: NewBaseEvent_def generateShortID_def bindE_def split: option.split)
  then obtain ev w1 where ev: "NewBaseEvent svc (EInt sku) w = (Ok ev, w1)" "store w1 = store w" "rkeys w1 = rkeys w"
      "mq w1 = mq w" "queue w1 = queue w" by blast
  obtain rp w2 where p: "PublishStockZero svc tp ev w1 = (rp, w2)" by fastforce
  note fr = Publish_frame [OF p [unfolded PublishStockZero_def]]
  show ?thesis using assms True ev p fr
    by (cases rp) (auto simp: stock_outcome_def bindE_def ignoreE_def caseE_def IncStockConsume_def)
next
  case False
  then show ?thesis using assms by (auto simp: stock_outcome_def IncStockConsume_def split: if_splits)
qed

lemma Subtraction_taken:
  assumes "redis_ok svc" and "reads_status (js_ActivityResult svc)"
    and "SubtractionActivitySkuStock svc tp sku aid uid w = (Ok res, w')" and "json_plain uid"
  shows "queue w' = queue w \<and> store w' = store w \<and> res_Status res \<in> {1, 2} \<and>
         (res_Status res = 1 \<longrightarrow> unit_taken (svc, tp, rt) sku w w')"
proof -
  let ?sk = "GetActivitySkuStockCountKey sku" and ?rk = "GetActivityResultHashKey aid (result_shard uid)"
  let ?t = "svc_rtime svc (Suc (Suc (tick w)))" and ?ct = "FormatInt (svc_clock svc (tick w) div second)"
  let ?scr = "stock_script svc ?sk ?rk uid (FormatInt sku) ?ct (ActivityResultPointsPrefix @ ''_100'')"
  obtain e w1 where ev: "redis_eval svc ?scr (bump w) = (Ok e, w1)"
    using assms(3) by (auto simp: SubtractionActivitySkuStock_def Eval_def caseE_Ok_iff)
  then have nf: "svc_fault svc (Suc (tick w)) = NoFault" by (simp add: redis_eval_def remote_Ok_iff)
  obtain ks' where scr: "?scr (rcall svc ?t) (rkeys w) = (Ok e, ks')" and w1: "w1 = set_keys ks' (bump (bump w))"
    using ev nf by (auto simp: redis_eval_served Let_def split: prod.splits)
  note cases = stock_script_taken [OF assms(1) stock_key_neq scr]
  obtain s j where sj: "e = [LInt s, LStr j]" using cases by auto
  have "caseE (redis_eval svc ?scr) h f (bump w) = f e w1" for h and f :: "lval list \<Rightarrow> ActivityResult M"
    by (simp add: caseE_def ev)
  then have "caseE (liftR (dec (js_ActivityResult svc) j))
      (\<lambda>e. bindE (IncStockConsume aid sku ''error'') (\<lambda>_. fail e)) (stock_outcome svc tp sku aid s) w1 = (Ok res, w')"
    using assms(3) by (simp add: SubtractionActivitySkuStock_def Eval_def sj)
  then obtain res0 where "dec (js_ActivityResult svc) j = Ok res0" "stock_outcome svc tp sku aid s res0 w1 = (Ok res, w')"
    by (auto simp: caseE_liftR IncStockConsume_def split: res.splits)
  moreover from this have "res = res0" using stock_outcome_keys by blast
  ultimately have d: "dec (js_ActivityResult svc) j = Ok res" and o1: "stock_outcome svc tp sku aid s res w1 = (Ok res, w')"
    by simp_all
  note o2 = stock_outcome_keys [OF o1]
  have fr: "rkeys w' = ks'" "queue w' = queue w" "store w' = store w" using o2 w1 by simp_all
  from cases sj consider (none) "j = stock_not_initialized"
    | (empty) "j = result_json uid ''2'' (ActivityResultPointsPrefix @ ''_100'') ?ct"
    | (unit) n dl where "j = result_json uid ''1'' (''SKU_'' @ FormatInt sku) ?ct" "0 < n"
        "live ?t (rkeys w) ?sk = Some (RStr (FormatInt n), dl)" "ks' ?sk = Some (RStr (FormatInt (n - 1)), dl)"
        "\<forall>k. k \<notin> {?sk, ?rk} \<longrightarrow> ks' k = live ?t (rkeys w) k"
    by auto
  then show ?thesis
  proof cases
    case none
    then show ?thesis using d assms(2) by (simp add: reads_status_def)
  next
    case empty
    then have "res_Status res = 2" using d assms(2,4) unfolding reads_status_def by blast
    then show ?thesis using fr by simp
  next
    case unit
    then have "res_Status res = 1" using d assms(2,4) unfolding reads_status_def by blast
    moreover have "unit_taken (svc, tp, rt) sku w w'" unfolding unit_taken_def using unit fr by auto
    ultimately show ?thesis using fr by simp
  qed
qed

interpretation sc: stock_contract "\<lambda>(svc, tp, rt). quota_repo_of svc tp rt" stock_deployed unit_taken consume_queued
proof (unfold_locales, goal_cases)
  case (1 c uid sku aid w res w')
  then show ?case
    using Subtraction_taken
    by (cases c) (simp add: stock_deployed_def quota_repo_of_def ActivityResultStatusSuccess_def)
next
  case (2 c k w u w')
  then show ?case
    by (cases c) (auto simp: quota_repo_of_def consume_queued_def ActivitySkuStockConsumeSendQueue_def enqueue_def
        remote_Ok_iff split: prod.splits)
qed

text \<open>
  C26. Passing the chain of \<open>OpenLogicChain\<close> costs one unit of stock: it returns \<open>true\<close> only for an
  open activity within its period, by the two clock readings at the start of this run, and a sku with
  stock. Between the beginning and the end of the run the counter of the sku, which held at least one
  unit, went down by exactly one; the queue gained exactly one consume message, for that sku and
  activity; no table changed, and of the other keys only result hashes did (or keys that had expired).
\<close>

theorem chain_takes_one:
  assumes "redis_ok svc" and "reads_status (js_ActivityResult svc)"
    and "Action svc (quota_repo_of svc tp rt) OpenLogicChain sku act w = (Ok b, w')"
    and "counter = GetActivitySkuStockCountKey (as_Sku sku)" and "t = svc_rtime svc (tick w + 4)"
  shows "b \<and> av_State act = ActivityStateOpen \<and> 0 < as_StockCount sku \<and>
         av_BeginDateTime act \<le> svc_clock svc (tick w) \<and> svc_clock svc (tick w + 1) \<le> av_EndDateTime act \<and>
         (\<exists>n dl. 0 < n \<and> live t (rkeys w) counter = Some (RStr (FormatInt n), dl) \<and>
            rkeys w' counter = Some (RStr (FormatInt (n - 1)), dl)) \<and>
         (\<forall>k. k \<noteq> counter \<longrightarrow> (\<forall>aid sh. k \<noteq> GetActivityResultHashKey aid sh) \<longrightarrow> rkeys w' k = live t (rkeys w) k) \<and>
         (\<exists>payload. enc (js_SkuStockKey svc) \<lparr>ssk_Sku = as_Sku sku, ssk_ActivityID = av_ActivityID act\<rparr> = Ok payload \<and>
            queue w' = queue w @ [(TaskTypeActivitySkuStockConsume, payload, QueueNameSkuStock, 3 * second)]) \<and>
         tables w' = tables w"
  using sc.chain_taken [of "(svc, tp, rt)" svc sku act w b w'] assms(1-3) unfolding assms(4,5)
  by (auto simp: stock_deployed_def unit_taken_def consume_queued_def add.commute numeral_eq_Suc)

section \<open>A concrete take\<close>

definition one_result :: "ActivityResult codec" where
  "one_result =
     \<lparr>enc = \<lambda>_. Err (GoErr ''json: unsupported value''),
      dec = \<lambda>b. if b = result_json ''user_id'' ''1'' (''SKU_'' @ FormatInt 9) (FormatInt 1700000000)
                then Ok \<lparr>res_UserID = ''user_id'', res_Status = 1, res_Result = ''SKU_9'', res_Timestamp = 1700000000\<rparr>
                else Err (GoErr ''json: invalid character''),
      zero = \<lparr>res_UserID = '''', res_Status = 0, res_Result = '''', res_Timestamp = 0\<rparr>\<rparr>"

lemma result_json_status:
  assumes "json_plain uid" and "json_plain uid'" and "result_json uid s r t = result_json uid' s' r' t'"
  shows "uid = uid' \<and> s @ '',\"r\":\"'' @ r @ ''\",\"t\":'' @ t = s' @ '',\"r\":\"'' @ r' @ ''\",\"t\":'' @ t'"
proof -
  have q: "CHR 0x22 \<notin> set uid" "CHR 0x22 \<notin> set uid'" using assms(1,2) by (auto simp: json_plain_def)
  have e: "uid @ CHR 0x22 # '',\"s\":'' @ s @ '',\"r\":\"'' @ r @ ''\",\"t\":'' @ t @ ''}'' =
           uid' @ CHR 0x22 # '',\"s\":'' @ s' @ '',\"r\":\"'' @ r' @ ''\",\"t\":'' @ t' @ ''}''"
    using assms(3) by (simp add: result_json_def)
  then have "uid = uid'" using split_append_sep [OF q(1)] split_append_sep [OF q(2)] by (metis list.inject)
  with e show ?thesis by (simp flip: append_assoc)
qed

lemma one_result_reads: "reads_status one_result"
proof -
  let ?j = "result_json ''user_id'' ''1'' (''SKU_'' @ FormatInt 9) (FormatInt 1700000000)"
  have "result_json uid ''2'' r t \<noteq> ?j" if "json_plain uid" for uid r t
    using result_json_status [OF that user_id_plain, of "''2''" r t "''1''"] by auto
  moreover have "stock_not_initialized \<noteq> ?j"
    by (simp add: stock_not_initialized_def result_json_def)
  ultimately show ?thesis by (auto simp: reads_status_def one_result_def split: if_splits)
qed

definition stock_svc :: services where
  "stock_svc = (sample_svc (\<lambda>_ _ _. False))
     \<lparr>js_ActivityResult := one_result,
      js_SkuStockKey := single_codec \<lparr>ssk_Sku = 9, ssk_ActivityID = 1\<rparr> \<lparr>ssk_Sku = 0, ssk_ActivityID = 0\<rparr>\<rparr>"

definition stock_world :: world where
  "stock_world = empty_world\<lparr>rkeys := [GetActivitySkuStockCountKey 9 \<mapsto> (RStr (FormatInt 5), None)]\<rparr>"

lemma stock_svc_ok [simp]:
  "redis_ok stock_svc" "svc_fault stock_svc n = NoFault" "svc_clock stock_svc n = 1700000000 * second"
  "js_ActivityResult stock_svc = one_result" "svc_rtime stock_svc n = 1700000000 * second"
  by (simp_all add: stock_svc_def redis_ok_def sample_svc_def)

lemma stock_run:
  assumes "rkeys w = rkeys stock_world"
  shows "\<exists>res w'. SubtractionActivitySkuStock stock_svc tp 9 1 ''user_id'' w = (Ok res, w') \<and> res_Status res = 1"
proof -
  let ?sk = "GetActivitySkuStockCountKey 9" and ?rk = "GetActivityResultHashKey 1 (result_shard ''user_id'')"
  have st: "stock_state ?sk {?rk} (rkeys stock_world) 5"
    by (auto simp: stock_state_def stock_world_def is_int64_small stock_key_neq [symmetric])
  obtain ks' where "stock_script stock_svc ?sk ?rk ''user_id'' (FormatInt 9) (FormatInt 1700000000)
      (ActivityResultPointsPrefix @ ''_100'') (rcall stock_svc (1700000000 * second)) (rkeys w) =
      (Ok [LInt 1, LStr (result_json ''user_id'' ''1'' (''SKU_'' @ FormatInt 9) (FormatInt 1700000000))], ks')"
    using stock_script_step [OF stock_svc_ok(1) st, of ?rk "''user_id''" "FormatInt 9" "FormatInt 1700000000"
        "ActivityResultPointsPrefix @ ''_100''" "1700000000 * second"] assms
    by (auto simp: take_stock_def stock_json_def)
  moreover have "1700000000 * second div second = 1700000000" by (simp add: second_def)
  ultimately show ?thesis
    by (simp add: SubtractionActivitySkuStock_def Eval_def caseE_def bindE_def redis_eval_served
        one_result_def stock_outcome_def IncStockConsume_def)
qed

lemma stock_chain_run:
  "\<exists>w'. Action stock_svc (quota_repo_of stock_svc tp rt) OpenLogicChain
      \<lparr>as_Sku = 9, as_ActivityID = 1, as_ActivityCountID = 7, as_StockCount = 5, as_StockCountSurplus = 5\<rparr>
      sample_activity stock_world = (Ok True, w')"
proof -
  obtain res w1 where r: "SubtractionActivitySkuStock stock_svc tp 9 1 ''user_id'' (bump (bump stock_world)) = (Ok res, w1)"
      "res_Status res = 1"
    using stock_run [of "bump (bump stock_world)" tp] by auto
  have q: "\<exists>w'. ActivitySkuStockConsumeSendQueue stock_svc \<lparr>ssk_Sku = 9, ssk_ActivityID = 1\<rparr> w = (Ok (), w')" for w
  proof -
    have "enc (js_SkuStockKey stock_svc) \<lparr>ssk_Sku = 9, ssk_ActivityID = 1\<rparr> = Ok ''{}''"
      by (simp add: stock_svc_def single_codec_def)
    then show ?thesis
      by (simp add: ActivitySkuStockConsumeSendQueue_def enqueue_def bindE_def remote_no_fault)
  qed
  have a: "av_State sample_activity = ActivityStateOpen" "av_ActivityID sample_activity = 1"
    "\<not> 1700000000 * second < av_BeginDateTime sample_activity" "\<not> av_EndDateTime sample_activity < 1700000000 * second"
    by (simp_all add: sample_activity_def ActivityStateOpen_def second_def)
  obtain w2 where "ActivitySkuStockConsumeSendQueue stock_svc \<lparr>ssk_Sku = 9, ssk_ActivityID = 1\<rparr> w1 = (Ok (), w2)"
    using q by blast
  with r a show ?thesis
    by (simp add: OpenLogicChain_def outside_period_def sku_stock_action_def quota_repo_of_def bindE_def
        ActivityResultStatusSuccess_def)
qed

theorem chain_takes_one_witness:
  "\<exists>b w' dl payload. Action stock_svc (quota_repo_of stock_svc \<lparr>ActivitySkuStockZero = ''z'', SendRebate = ''r'', SendAward = ''a''\<rparr>
        (NewDBRouter 2 4)) OpenLogicChain
      \<lparr>as_Sku = 9, as_ActivityID = 1, as_ActivityCountID = 7, as_StockCount = 5, as_StockCountSurplus = 5\<rparr>
      sample_activity stock_world = (Ok b, w') \<and> b \<and>
     rkeys w' (GetActivitySkuStockCountKey 9) = Some (RStr (FormatInt 4), dl) \<and>
     queue w' = [(TaskTypeActivitySkuStockConsume, payload, QueueNameSkuStock, 3 * second)]"
proof -
  let ?tp = "\<lparr>ActivitySkuStockZero = ''z'', SendRebate = ''r'', SendAward = ''a''\<rparr>"
  obtain w' where run: "Action stock_svc (quota_repo_of stock_svc ?tp (NewDBRouter 2 4)) OpenLogicChain
      \<lparr>as_Sku = 9, as_ActivityID = 1, as_ActivityCountID = 7, as_StockCount = 5, as_StockCountSurplus = 5\<rparr>
      sample_activity stock_world = (Ok True, w')"
    using stock_chain_run by blast
  have "reads_status (js_ActivityResult stock_svc)" using one_result_reads by simp
  from chain_takes_one [OF stock_svc_ok(1) this run refl refl] obtain n dl payload where
    n: "live (svc_rtime stock_svc (tick stock_world + 4)) (rkeys stock_world) (GetActivitySkuStockCountKey 9) = Some (RStr (FormatInt n), dl)"
      "rkeys w' (GetActivitySkuStockCountKey 9) = Some (RStr (FormatInt (n - 1)), dl)"
    and q: "queue w' = queue stock_world @ [(TaskTypeActivitySkuStockConsume, payload, QueueNameSkuStock, 3 * second)]"
    by auto
  have "FormatInt n = FormatInt 5" using n(1) by (simp add: stock_world_def live_def)
  then have "n = 5" by simp
  with n q run show ?thesis by (auto simp: stock_world_def)
qed

section \<open>Preheating and writing back\<close>

lemma preheat_key_neq: "GetActivitySkuStockCountKey sku \<noteq> getActivitySkuStockCountKey sku'"
proof -
  have "FormatInt sku' \<noteq> CHR ''k'' # s" for s by (rule FormatInt_no_letter) (simp_all add: digit_val_def)
  from this [symmetric] show ?thesis by (simp add: GetActivitySkuStockCountKey_def getActivitySkuStockCountKey_def)
qed

lemma redis_SETNX_other:
  assumes "redis_ok svc" and "redis svc (SETNX k v ttl) w = (r, w')" and "k' \<noteq> k"
  shows "rkeys w' k' = rkeys w k' \<or> (\<exists>t. rkeys w' k' = live t (rkeys w) k')"
  using assms
  by (auto simp: redis_def remote_def server_call_def redis_ok_def redis_doc_def Let_def
      split: fault.splits if_splits rreply.splits)

text \<open>
  Preheating the stock of a sku never touches the counter that taking stock reads: the counter
  under \<open>GetActivitySkuStockCountKey\<close> is what it was (or has meanwhile expired), because
  \<open>stock.go\<close> preheats another key.
\<close>

theorem preheat_misses_counter:
  assumes "redis_ok svc" and "cacheActivitySkuStockCount (quota_repo_of svc tp rt) sku n w = (r, w')"
  shows "rkeys w' (GetActivitySkuStockCountKey sku') = rkeys w (GetActivitySkuStockCountKey sku') \<or>
         (\<exists>t. rkeys w' (GetActivitySkuStockCountKey sku') = live t (rkeys w) (GetActivitySkuStockCountKey sku'))"
proof -
  obtain rr w1 where s: "redis svc (SETNX (getActivitySkuStockCountKey sku) (FormatInt n) None) w = (rr, w1)"
    by fastforce
  then have "w' = w1"
    using assms(2)
    by (cases rr) (auto simp: cacheActivitySkuStockCount_def quota_repo_of_def CacheActivitySkuStockCount_def
        cache_SetNX_def redis_arg_def expiry_def redis_int_result_def bindE_def split: rreply.splits res.splits prod.splits)
  then show ?thesis using redis_SETNX_other [OF assms(1) s preheat_key_neq] by simp
qed

theorem preheat_misses_counter_witness:
  "\<exists>r w'. cacheActivitySkuStockCount (quota_repo_of stock_svc \<lparr>ActivitySkuStockZero = ''z'', SendRebate = ''r'', SendAward = ''a''\<rparr>
        (NewDBRouter 2 4)) 9 7 empty_world = (r, w') \<and> rkeys w' (GetActivitySkuStockCountKey 9) = None"
proof -
  obtain r w' where run: "cacheActivitySkuStockCount (quota_repo_of stock_svc
      \<lparr>ActivitySkuStockZero = ''z'', SendRebate = ''r'', SendAward = ''a''\<rparr> (NewDBRouter 2 4)) 9 7 empty_world = (r, w')"
    by fastforce
  from preheat_misses_counter [OF stock_svc_ok(1) run, of 9] run show ?thesis by (auto simp: live_def)
qed

text \<open>
  Writing a consumed unit back keeps the stock of every sku row within bounds: the surplus of the
  matching rows that had units goes down by one, no surplus becomes negative, and no other row or
  table changes.
\<close>

theorem UpdateActivitySkuStock_bounds:
  assumes "mysql_ok svc uniq" and "UpdateActivitySkuStock svc sku w = (r, w')"
    and "\<forall>s. RSku s \<in> set (tables w (''default'', ''raffle_activity_sku'')) \<longrightarrow> 0 \<le> rs_StockCountSurplus s"
  shows "(\<forall>s. RSku s \<in> set (tables w' (''default'', ''raffle_activity_sku'')) \<longrightarrow> 0 \<le> rs_StockCountSurplus s) \<and>
         (\<forall>dt. dt \<noteq> (''default'', ''raffle_activity_sku'') \<longrightarrow> tables w' dt = tables w dt) \<and>
         (r = Ok () \<longrightarrow> (\<exists>t. tables w' (''default'', ''raffle_activity_sku'') =
            map (\<lambda>x. if sku_row sku x \<and> 0 < rs_StockCountSurplus (the_sku x) then take_one t x else x)
              (tables w (''default'', ''raffle_activity_sku''))))"
proof -
  let ?dt = "(''default'', ''raffle_activity_sku'')"
  let ?m = "\<lambda>t. map (\<lambda>x. if sku_row sku x \<and> 0 < rs_StockCountSurplus (the_sku x) then take_one t x else x) (tables w ?dt)"
  have "\<exists>t. tables w' = tables w \<and> r \<noteq> Ok () \<or> tables w' = (tables w)(?dt := ?m t)"
    using assms(1,2)
    by (auto simp: UpdateActivitySkuStock_def gorm_Updates_def sql_def sql_run_def remote_def mysql_ok_def bindE_def
        Let_def split: fault.splits)
  then obtain t where t: "tables w' = tables w \<and> r \<noteq> Ok () \<or> tables w' = (tables w)(?dt := ?m t)" by blast
  have "0 \<le> rs_StockCountSurplus s" if "RSku s \<in> set (?m t)" for s
    using that assms(3) by (fastforce simp: take_one_def sku_row_def split: if_splits row.splits)
  with t assms(3) show ?thesis by auto
qed

definition sku_world :: world where
  "sku_world = empty_world\<lparr>store := empty_store\<lparr>tbls := (\<lambda>_. [])((''default'', ''raffle_activity_sku'') :=
     [RSku \<lparr>rs_ID = 1, rs_Sku = 9, rs_ActivityID = 1, rs_ActivityCountID = 7, rs_StockCount = 5, rs_StockCountSurplus = 1,
            rs_CreateTime = 0, rs_UpdateTime = 0\<rparr>])\<rparr>\<rparr>"

theorem UpdateActivitySkuStock_bounds_witness:
  "\<exists>w' s. UpdateActivitySkuStock stock_svc 9 sku_world = (Ok (), w') \<and>
     tables w' (''default'', ''raffle_activity_sku'') = [RSku s] \<and> rs_StockCountSurplus s = 0"
proof -
  have ok: "mysql_ok stock_svc (\<lambda>_ _ _. False)" "no_faults stock_svc"
    by (simp_all add: stock_svc_def mysql_ok_def sample_svc_def no_faults_def)
  obtain w' where run: "UpdateActivitySkuStock stock_svc 9 sku_world = (Ok (), w')"
    by (simp add: UpdateActivitySkuStock_def bindE_def served [OF ok])
  from UpdateActivitySkuStock_bounds [OF ok(1) run] run show ?thesis
    by (auto simp: sku_world_def sku_row_def take_one_def)
qed

end
