(* ===== verification/Snapshot.thy ===== *)
theory Snapshot
  imports Activity_Usecase Quota_Spec
begin

text \<open>
  The account snapshot of \<open>activity_quota.go\<close>: \<open>AssembleActivityAccountByUserId\<close> reads the account
  of the user's shard, opens its month and day accounts when they are missing, and loads the three
  quota counters that the scripts of \<open>activity_partake.go\<close> work on.
\<close>

section \<open>Storing counters\<close>

lemma cache_put_Ok:
  assumes "redis_ok svc" and "second \<le> ttl" and "cache_put svc c key v ttl w = (Ok u, w')"
  shows "\<exists>b. enc c v = Ok b \<and> tick w' = Suc (tick w) \<and> store w' = store w \<and>
           rkeys w' = (live (rnow svc w) (rkeys w))(key \<mapsto> (RStr b, Some (rnow svc w + ttl)))"
proof -
  have it: "Item_ttl (plain_item key v ttl) = ttl" "Item_value (plain_item key v ttl) = ret (Some v)"
    "it_Key (plain_item key v ttl) = key" "\<not> it_SetXX (plain_item key v ttl)" "\<not> it_SetNX (plain_item key v ttl)"
    "\<not> it_SkipLocalCache (plain_item key v ttl)"
    using assms(2) by (simp_all add: plain_item_def Item_ttl_def Item_value_def second_def)
  from assms(3) it obtain b where b: "enc c v = Ok b"
    by (auto simp: cache_put_def Set_def cache_set_def caseE_def bindE_def split: prod.splits res.splits option.splits)
  have nf: "svc_fault svc (tick w) = NoFault"
    using assms it b
    by (auto simp: cache_put_def Set_def cache_set_def store_item_def caseE_def bindE_def redis_def remote_def
        second_def split: fault.splits option.splits)
  show ?thesis
    using assms(1,3) it b store_item_SET [OF assms(1) nf, of "plain_item key v ttl" b] assms(2)
    by (auto simp: cache_put_def Set_def cache_set_def bindE_def second_def caseE_liftR)
qed

lemma cache_put_served:
  assumes "redis_ok svc" and "second \<le> ttl" and "svc_fault svc (tick w) = NoFault" and "enc c v = Ok b"
  shows "cache_put svc c key v ttl w =
    (Ok (), set_keys ((live (rnow svc w) (rkeys w))(key \<mapsto> (RStr b, Some (rnow svc w + ttl)))) (bump w))"
proof -
  have it: "Item_ttl (plain_item key v ttl) = ttl" "Item_value (plain_item key v ttl) = ret (Some v)"
    "it_Key (plain_item key v ttl) = key" "\<not> it_SetXX (plain_item key v ttl)" "\<not> it_SetNX (plain_item key v ttl)"
    "\<not> it_SkipLocalCache (plain_item key v ttl)"
    using assms(2) by (simp_all add: plain_item_def Item_ttl_def Item_value_def second_def)
  then show ?thesis
    using assms store_item_SET [OF assms(1,3), of "plain_item key v ttl" b]
    by (simp add: cache_put_def Set_def cache_set_def bindE_def second_def caseE_liftR)
qed

lemma live_put:
  "r \<le> t \<Longrightarrow> t < r + ttl \<Longrightarrow>
   live t ((live r ks)(key \<mapsto> (v, Some (r + ttl)))) = (live t ks)(key \<mapsto> (v, Some (r + ttl)))"
  by (simp add: live_upd live_later)

text \<open>The instants at which Redis serves the four writes of a snapshot.\<close>

definition snapshot_current :: "services \<Rightarrow> nat \<Rightarrow> time \<Rightarrow> bool" where
  "snapshot_current svc n t \<longleftrightarrow>
     (\<forall>k \<in> {3, 4, 5, 6}. svc_rtime svc (k + n) \<le> t \<and> t < svc_rtime svc (k + n) + hour)"

lemma snapshot_keys:
  assumes "redis_ok svc" and "cacheActivityAccountSnapshot svc a w = (Ok u, w')" and "snapshot_current svc (tick w) t"
    and "k1 = GetActivityAccountTotalSurplusKey (aa_ActivityID a) (aa_UserID a)"
    and "k2 = GetActivityAccountDaySurplusKey (aa_ActivityID a) (aa_UserID a)
                (fmt_day (svc_zone svc) (svc_clock svc (Suc (tick w))))"
    and "k3 = GetActivityAccountMonthSurplusKey (aa_ActivityID a) (aa_UserID a)
                (fmt_month (svc_zone svc) (svc_clock svc (tick w)))"
    and "k0 = GetActivityAccountKey (aa_ActivityID a) (aa_UserID a)"
  shows "\<exists>b d0 d1 d2 d3. enc (js_ActivityAccount svc) a = Ok b \<and>
     is_int64 (aa_TotalCountSurplus a) \<and> is_int64 (aa_MonthCountSurplus a) \<and> is_int64 (aa_DayCountSurplus a) \<and>
     store w' = store w \<and>
     live t (rkeys w') = (live t (rkeys w))
       (k0 \<mapsto> (RStr b, d0), k1 \<mapsto> (RStr (FormatInt (aa_TotalCountSurplus a)), d1),
        k3 \<mapsto> (RStr (FormatInt (aa_MonthCountSurplus a)), d3), k2 \<mapsto> (RStr (FormatInt (aa_DayCountSurplus a)), d2))"
proof -
  have h: "second \<le> hour" by (simp add: hour_def second_def)
  let ?put = "\<lambda>c k v. cache_put svc c k v hour"
  obtain w1 w2 w3 where
    p0: "cache_put svc (js_ActivityAccount svc) k0 a hour (bump (bump w)) = (Ok (), w1)" and
    p1: "cache_put svc int_codec k1 (aa_TotalCountSurplus a) hour w1 = (Ok (), w2)" and
    p2: "cache_put svc int_codec k3 (aa_MonthCountSurplus a) hour w2 = (Ok (), w3)" and
    p3: "cache_put svc int_codec k2 (aa_DayCountSurplus a) hour w3 = (Ok (), w')"
    using assms(2) unfolding assms(4-7) cacheActivityAccountSnapshot_def Let_def by auto
  from cache_put_Ok [OF assms(1) h p0] obtain b where b: "enc (js_ActivityAccount svc) a = Ok b"
    and t1: "tick w1 = 3 + tick w" "store w1 = store w"
    and k1': "rkeys w1 = (live (svc_rtime svc (3 + tick w)) (rkeys w))(k0 \<mapsto> (RStr b, Some (svc_rtime svc (3 + tick w) + hour)))"
    by (auto simp: numeral_eq_Suc)
  from cache_put_Ok [OF assms(1) h p1] t1 have i1: "is_int64 (aa_TotalCountSurplus a)"
    and t2: "tick w2 = 4 + tick w" "store w2 = store w"
    and k2': "rkeys w2 = (live (svc_rtime svc (4 + tick w)) (rkeys w1))
      (k1 \<mapsto> (RStr (FormatInt (aa_TotalCountSurplus a)), Some (svc_rtime svc (4 + tick w) + hour)))"
    by (auto simp: int_codec_def split: if_splits)
  from cache_put_Ok [OF assms(1) h p2] t2 have i2: "is_int64 (aa_MonthCountSurplus a)"
    and t3: "tick w3 = 5 + tick w" "store w3 = store w"
    and k3': "rkeys w3 = (live (svc_rtime svc (5 + tick w)) (rkeys w2))
      (k3 \<mapsto> (RStr (FormatInt (aa_MonthCountSurplus a)), Some (svc_rtime svc (5 + tick w) + hour)))"
    by (auto simp: int_codec_def split: if_splits)
  from cache_put_Ok [OF assms(1) h p3] t3 have i3: "is_int64 (aa_DayCountSurplus a)"
    and t4: "store w' = store w"
    and k4': "rkeys w' = (live (svc_rtime svc (6 + tick w)) (rkeys w3))
      (k2 \<mapsto> (RStr (FormatInt (aa_DayCountSurplus a)), Some (svc_rtime svc (6 + tick w) + hour)))"
    by (auto simp: int_codec_def split: if_splits)
  have "live t (rkeys w') = (live t (rkeys w))
       (k0 \<mapsto> (RStr b, Some (svc_rtime svc (3 + tick w) + hour)),
        k1 \<mapsto> (RStr (FormatInt (aa_TotalCountSurplus a)), Some (svc_rtime svc (4 + tick w) + hour)),
        k3 \<mapsto> (RStr (FormatInt (aa_MonthCountSurplus a)), Some (svc_rtime svc (5 + tick w) + hour)),
        k2 \<mapsto> (RStr (FormatInt (aa_DayCountSurplus a)), Some (svc_rtime svc (6 + tick w) + hour)))"
    using assms(3) unfolding snapshot_current_def k4' k3' k2' k1' by (simp add: live_put)
  with b i1 i2 i3 t4 show ?thesis by blast
qed

lemma snapshot_ticks:
  assumes "redis_ok svc" and "cacheActivityAccountSnapshot svc a w = (Ok u, w')"
  shows "tick w' = 6 + tick w"
proof -
  have h: "second \<le> hour" by (simp add: hour_def second_def)
  show ?thesis
    using assms(2) unfolding cacheActivityAccountSnapshot_def Let_def
    by (auto dest!: cache_put_Ok [OF assms(1) h])
qed

section \<open>The account behind the snapshot\<close>

lemma Create_duplicate_world:
  assumes "mysql_ok svc uniq" and "faults_ok svc" and "gorm_Create svc db t r w = (Err e, w')"
    and "errors_Is e GormDuplicatedKey \<or> is_duplicate_text e"
  shows "w' = bump w"
proof -
  have "is_duplicate_text e \<Longrightarrow> errors_Is e MySQLDuplicateEntry" by (cases e) simp_all
  with assms(4) faults_okD [OF assms(2), of "tick w" e] have "fault_error (svc_fault svc (tick w)) \<noteq> Some e" by blast
  with assms(1,3) show ?thesis
    by (auto simp: gorm_Create_def sql_def sql_run_def remote_def mysql_ok_def bindE_def Let_def fault_error_def
        split: fault.splits if_splits)
qed

lemma load_or_init_Ok:
  assumes "mysql_ok svc uniq" and "faults_ok svc" and "\<And>t i. p (with_id i (new t))"
    and "load_or_init svc db tb p new w = (Ok r, w')"
  shows "find p (tables w' (db, tb)) = Some r \<and> rkeys w' = rkeys w \<and>
         (\<forall>dt. dt \<noteq> (db, tb) \<longrightarrow> tables w' dt = tables w dt) \<and>
         (case find p (tables w (db, tb)) of
            Some r0 \<Rightarrow> r = r0 \<and> tables w' = tables w
          | None \<Rightarrow> \<exists>t. r = with_id (next_id (store w)) (new t) \<and>
              tables w' = (tables w)((db, tb) := tables w (db, tb) @ [r]))
         \<and> (next_id (store w') = next_id (store w) \<or> next_id (store w') = next_id (store w) + 1) \<and> tick w < tick w'"
proof -
  have "caseE (gorm_First svc db tb p)
       (\<lambda>e. if \<not> errors_Is e GormRecordNotFound then fail e
            else bindE (now svc) (\<lambda>t'.
              caseE (gorm_Create svc db tb (new t'))
                (\<lambda>e'. if \<not> errors_Is e' GormDuplicatedKey \<and> \<not> is_duplicate_text e' then fail e'
                     else gorm_First svc db tb p)
                ret)) ret w = (Ok r, w')"
    using assms(4) by (simp add: load_or_init_def)
  then show ?thesis
    using assms(3)
    by (subst (asm) caseE_First_Ok_iff [OF assms(1,2)])
      (auto simp: caseE_Ok_iff gorm_Ok_iffs [OF assms(1)] find_snoc dest!: Create_duplicate_world [OF assms(1,2)] split: if_splits option.splits)
qed

text \<open>Primary keys are positive: AUTO_INCREMENT starts at 1.\<close>

definition row_id :: "row \<Rightarrow> int" where
  "row_id r = (case r of RMonth m \<Rightarrow> mon_ID m | RDay d \<Rightarrow> day_ID d | RAccount a \<Rightarrow> acc_ID a | _ \<Rightarrow> 1)"

definition positive_ids :: "store \<Rightarrow> bool" where
  "positive_ids st \<longleftrightarrow> 0 < next_id st \<and> (\<forall>dt. \<forall>r \<in> set (tbls st dt). 0 < row_id r)"

lemma find_mem: "find p xs = Some r \<Longrightarrow> r \<in> set xs \<and> p r"
  by (auto simp: find_Some_iff)

lemma load_or_init_ids:
  assumes "mysql_ok svc uniq" and "faults_ok svc" and "\<And>t i. p (with_id i (new t))"
    and "\<And>t i. row_id (with_id i (new t)) = i" and "positive_ids (store w)"
    and "load_or_init svc db tb p new w = (Ok r, w')"
  shows "0 < row_id r \<and> p r \<and> positive_ids (store w') \<and> rkeys w' = rkeys w \<and> tick w < tick w' \<and>
         (case find p (tables w (db, tb)) of
            Some r0 \<Rightarrow> r = r0 \<and> tables w' = tables w
          | None \<Rightarrow> \<exists>i t. r = with_id i (new t) \<and> tables w' = (tables w)((db, tb) := tables w (db, tb) @ [r]))"
proof -
  note L = load_or_init_Ok [OF assms(1,2) _ assms(6), OF assms(3)]
  have "0 < row_id r \<and> positive_ids (store w')"
  proof (cases "find p (tables w (db, tb))")
    case None
    with L obtain t where "r = with_id (next_id (store w)) (new t)"
      "tables w' = (tables w)((db, tb) := tables w (db, tb) @ [r])" by auto
    with L assms(4,5) show ?thesis by (auto simp: positive_ids_def)
  next
    case (Some r0)
    with L assms(5) find_mem [OF Some] show ?thesis by (auto simp: positive_ids_def)
  qed
  with L find_mem [of p "tables w' (db, tb)" r] show ?thesis by (auto split: option.splits)
qed

text \<open>
  The account of a period in its table: the row that was there, with the table as it was, or a new row, which
  starts with the count and the surplus of the account.
\<close>

definition month_opened ::
    "string \<Rightarrow> int \<Rightarrow> string \<Rightarrow> po_RaffleActivityAccount \<Rightarrow> row list \<Rightarrow> row list \<Rightarrow> po_RaffleActivityAccountMonth \<Rightarrow> bool" where
  "month_opened uid aid month acc rows rows' m \<longleftrightarrow>
     (case find (is_month uid aid month) rows of
        Some r \<Rightarrow> r = RMonth m \<and> rows' = rows
      | None \<Rightarrow> rows' = rows @ [RMonth m] \<and>
          (\<exists>i t. m = \<lparr>mon_ID = i, mon_UserID = uid, mon_ActivityID = aid, mon_Month = month, mon_MonthCount = acc_MonthCount acc,
                    mon_MonthCountSurplus = acc_MonthCountSurplus acc, mon_CreateTime = t, mon_UpdateTime = t\<rparr>))"

definition day_opened ::
    "string \<Rightarrow> int \<Rightarrow> string \<Rightarrow> po_RaffleActivityAccount \<Rightarrow> row list \<Rightarrow> row list \<Rightarrow> po_RaffleActivityAccountDay \<Rightarrow> bool" where
  "day_opened uid aid day acc rows rows' d \<longleftrightarrow>
     (case find (is_day uid aid day) rows of
        Some r \<Rightarrow> r = RDay d \<and> rows' = rows
      | None \<Rightarrow> rows' = rows @ [RDay d] \<and>
          (\<exists>i t. d = \<lparr>day_ID = i, day_UserID = uid, day_ActivityID = aid, day_Day = day, day_DayCount = acc_DayCount acc,
                    day_DayCountSurplus = acc_DayCountSurplus acc, day_CreateTime = t, day_UpdateTime = t\<rparr>))"

lemma load_month:
  assumes "mysql_ok svc uniq" and "faults_ok svc" and "positive_ids (store w)"
    and "load_or_init svc db monT (month_row uid aid m) (new_month_row uid aid m (acc_MonthCount acc) (acc_MonthCountSurplus acc)) w = (Ok r, w')"
  shows "\<exists>x. r = RMonth x \<and> 0 < mon_ID x \<and> month_opened uid aid m acc (tables w (db, monT)) (tables w' (db, monT)) x \<and>
           rkeys w' = rkeys w \<and> tick w < tick w' \<and> positive_ids (store w') \<and> (\<forall>dt. dt \<noteq> (db, monT) \<longrightarrow> tables w' dt = tables w dt)"
proof -
  have new: "month_row uid aid m (with_id i (new_month_row uid aid m (acc_MonthCount acc) (acc_MonthCountSurplus acc) t))"
      "row_id (with_id i (new_month_row uid aid m (acc_MonthCount acc) (acc_MonthCountSurplus acc) t)) = i" for i t
    by (simp_all add: new_month_row_def month_row_def row_id_def)
  have L: "0 < row_id r" "month_row uid aid m r" "positive_ids (store w')" "rkeys w' = rkeys w" "tick w < tick w'"
    "case find (is_month uid aid m) (tables w (db, monT)) of
       Some r0 \<Rightarrow> r = r0 \<and> tables w' = tables w
     | None \<Rightarrow> \<exists>i t. r = with_id i (new_month_row uid aid m (acc_MonthCount acc) (acc_MonthCountSurplus acc) t) \<and>
         tables w' = (tables w)((db, monT) := tables w (db, monT) @ [r])"
    using load_or_init_ids [OF assms(1,2) new assms(3,4)] unfolding where_clauses by blast+
  obtain x where x: "r = RMonth x" using L(2) by (cases r) (simp_all add: month_row_def)
  then have "0 < mon_ID x" using L(1) by (simp add: row_id_def)
  with L x show ?thesis
    by (auto simp: month_opened_def new_month_row_def split: option.splits)
qed

lemma load_day:
  assumes "mysql_ok svc uniq" and "faults_ok svc" and "positive_ids (store w)"
    and "load_or_init svc db dayT (day_row uid aid m) (new_day_row uid aid m (acc_DayCount acc) (acc_DayCountSurplus acc)) w = (Ok r, w')"
  shows "\<exists>x. r = RDay x \<and> 0 < day_ID x \<and> day_opened uid aid m acc (tables w (db, dayT)) (tables w' (db, dayT)) x \<and>
           rkeys w' = rkeys w \<and> tick w < tick w' \<and> (\<forall>dt. dt \<noteq> (db, dayT) \<longrightarrow> tables w' dt = tables w dt)"
proof -
  have new: "day_row uid aid m (with_id i (new_day_row uid aid m (acc_DayCount acc) (acc_DayCountSurplus acc) t))"
      "row_id (with_id i (new_day_row uid aid m (acc_DayCount acc) (acc_DayCountSurplus acc) t)) = i" for i t
    by (simp_all add: new_day_row_def day_row_def row_id_def)
  have L: "0 < row_id r" "day_row uid aid m r" "rkeys w' = rkeys w" "tick w < tick w'"
    "case find (is_day uid aid m) (tables w (db, dayT)) of
       Some r0 \<Rightarrow> r = r0 \<and> tables w' = tables w
     | None \<Rightarrow> \<exists>i t. r = with_id i (new_day_row uid aid m (acc_DayCount acc) (acc_DayCountSurplus acc) t) \<and>
         tables w' = (tables w)((db, dayT) := tables w (db, dayT) @ [r])"
    using load_or_init_ids [OF assms(1,2) new assms(3,4)] unfolding where_clauses by blast+
  obtain x where x: "r = RDay x" using L(2) by (cases r) (simp_all add: day_row_def)
  then have "0 < day_ID x" using L(1) by (simp add: row_id_def)
  with L x show ?thesis
    by (auto simp: day_opened_def new_day_row_def split: option.splits)
qed

text \<open>The program's clock shows one date at all its readings from the \<open>i\<close>-th call to before the \<open>j\<close>-th.\<close>

definition on_date :: "services \<Rightarrow> nat \<Rightarrow> nat \<Rightarrow> string \<Rightarrow> string \<Rightarrow> bool" where
  "on_date svc i j day month \<longleftrightarrow>
     (\<forall>n. i \<le> n \<longrightarrow> n < j \<longrightarrow> fmt_day (svc_zone svc) (svc_clock svc n) = day \<and> fmt_month (svc_zone svc) (svc_clock svc n) = month)"

text \<open>The entity carries the total of the account row and the day and month surplus of their own
  tables, for the dates at which they were read.\<close>

definition entity_of :: "po_RaffleActivityAccount \<Rightarrow> po_RaffleActivityAccountDay \<Rightarrow> po_RaffleActivityAccountMonth \<Rightarrow> ActivityAccount" where
  "entity_of acc d m =
     \<lparr>aa_UserID = acc_UserID acc, aa_ActivityID = acc_ActivityID acc, aa_TotalCount = acc_TotalCount acc,
      aa_TotalCountSurplus = acc_TotalCountSurplus acc, aa_DayCount = day_DayCount d,
      aa_DayCountSurplus = day_DayCountSurplus d, aa_MonthCount = mon_MonthCount m,
      aa_MonthCountSurplus = mon_MonthCountSurplus m\<rparr>"

lemma QueryActivityAccountEntity_Ok:
  assumes "mysql_ok svc uniq" and "faults_ok svc" and "positive_ids (store w)"
    and "DBStrategy rt uid = Ok (Some db, suffix)" and "QueryActivityAccountEntity svc rt uid aid w = (Ok a, w')"
    and "tick w' \<le> j" and "on_date svc (tick w) j day month"
  shows "\<exists>acc m d. find (is_account uid aid) (tables w (db, accT)) = Some (RAccount acc) \<and>
           month_opened uid aid month acc (tables w (db, monT)) (tables w' (db, monT)) m \<and>
           day_opened uid aid day acc (tables w (db, dayT)) (tables w' (db, dayT)) d \<and>
           a = entity_of acc d m \<and> rkeys w' = rkeys w \<and> aa_UserID a = uid \<and> aa_ActivityID a = aid \<and> tick w < tick w' \<and>
           (\<forall>dt. dt \<notin> {(db, monT), (db, dayT)} \<longrightarrow> tables w' dt = tables w dt)"
proof -
  let ?z = "svc_zone svc"
  obtain r where r: "find (account_row uid aid) (tables w (db, accT)) = Some r" 
    using assms(4,5) by (auto simp: QueryActivityAccountEntity_def shard_def bindE_def caseE_First_Ok_iff [OF assms(1,2)]
        Let_def split: option.splits)
  then obtain acc where acc: "r = RAccount acc" "acc_UserID acc = uid" "acc_ActivityID acc = aid"
    using find_mem [OF r] by (cases r) (auto simp: account_row_def)
  let ?tm = "svc_clock svc (Suc (tick w))"
  obtain mr w1 dr where
    m: "load_or_init svc db monT (month_row uid aid (fmt_month ?z ?tm))
          (new_month_row uid aid (fmt_month ?z ?tm) (acc_MonthCount acc) (acc_MonthCountSurplus acc)) (bump (bump w)) = (Ok mr, w1)" and
    d: "load_or_init svc db dayT (day_row uid aid (fmt_day ?z (svc_clock svc (tick w1))))
          (new_day_row uid aid (fmt_day ?z (svc_clock svc (tick w1))) (acc_DayCount acc) (acc_DayCountSurplus acc)) (bump w1) = (Ok dr, w')" and
    a: "a = (if day_ID (the_day dr) > 0 then \<lambda>a. a\<lparr>aa_DayCount := day_DayCount (the_day dr), aa_DayCountSurplus := day_DayCountSurplus (the_day dr)\<rparr> else id)
           ((if mon_ID (the_month mr) > 0 then \<lambda>a. a\<lparr>aa_MonthCount := mon_MonthCount (the_month mr), aa_MonthCountSurplus := mon_MonthCountSurplus (the_month mr)\<rparr> else id)
            \<lparr>aa_UserID = uid, aa_ActivityID = aid, aa_TotalCount = acc_TotalCount acc, aa_TotalCountSurplus = acc_TotalCountSurplus acc,
             aa_DayCount = acc_DayCount acc, aa_DayCountSurplus = acc_DayCount acc,
             aa_MonthCount = acc_MonthCount acc, aa_MonthCountSurplus = acc_MonthCount acc\<rparr>)"
    using assms(4,5) r acc
    by (auto simp: QueryActivityAccountEntity_def shard_def bindE_Ok_iff caseE_First_Ok_iff [OF assms(1,2)] Let_def)
  obtain mm where mm: "mr = RMonth mm" "0 < mon_ID mm"
      "month_opened uid aid (fmt_month ?z ?tm) acc (tables w (db, monT)) (tables w1 (db, monT)) mm"
      "rkeys w1 = rkeys w" "Suc (Suc (tick w)) < tick w1" "positive_ids (store w1)" "\<forall>dt. dt \<noteq> (db, monT) \<longrightarrow> tables w1 dt = tables w dt"
    using load_month [OF assms(1,2) _ m] assms(3) by auto
  obtain dd where dd: "dr = RDay dd" "0 < day_ID dd"
      "day_opened uid aid (fmt_day ?z (svc_clock svc (tick w1))) acc (tables w1 (db, dayT)) (tables w' (db, dayT)) dd"
      "rkeys w' = rkeys w1" "Suc (tick w1) < tick w'" "\<forall>dt. dt \<noteq> (db, dayT) \<longrightarrow> tables w' dt = tables w1 dt"
    using load_day [OF assms(1,2) _ d] mm(6) by auto
  have dates: "fmt_month ?z ?tm = month" "fmt_day ?z (svc_clock svc (tick w1)) = day"
    using assms(6,7) mm(5) dd(5) by (simp_all add: on_date_def)
  have "a = entity_of acc dd mm" using a mm dd acc by (simp add: entity_of_def)
  then show ?thesis using r acc mm dd
    by (intro exI [of _ acc] exI [of _ mm] exI [of _ dd]) (simp add: entity_of_def where_clauses dates)
qed

section \<open>The snapshot loads the quota\<close>

lemma snapshot_quota:
  assumes "redis_ok svc" and "cacheActivityAccountSnapshot svc a w = (Ok u, w')" and "snapshot_current svc (tick w) t"
    and "hash_at (live t (rkeys w)) (GetPendingRaffleOrderKey (aa_ActivityID a) (aa_UserID a)) = Some h"
  shows "quota_abs (GetActivityAccountTotalSurplusKey (aa_ActivityID a) (aa_UserID a))
           (GetActivityAccountDaySurplusKey (aa_ActivityID a) (aa_UserID a) (fmt_day (svc_zone svc) (svc_clock svc (Suc (tick w)))))
           (GetActivityAccountMonthSurplusKey (aa_ActivityID a) (aa_UserID a) (fmt_month (svc_zone svc) (svc_clock svc (tick w))))
           (GetPendingRaffleOrderKey (aa_ActivityID a) (aa_UserID a)) t (rkeys w') =
         Some \<lparr>q_total = Some (aa_TotalCountSurplus a), q_day = Some (aa_DayCountSurplus a),
               q_month = Some (aa_MonthCountSurplus a), q_pending = h\<rparr>"
proof -
  from snapshot_keys [OF assms(1,2,3) refl refl refl refl] obtain b d0 d1 d2 d3 where k:
    "is_int64 (aa_TotalCountSurplus a)" "is_int64 (aa_MonthCountSurplus a)" "is_int64 (aa_DayCountSurplus a)"
    "live t (rkeys w') = (live t (rkeys w))
       (GetActivityAccountKey (aa_ActivityID a) (aa_UserID a) \<mapsto> (RStr b, d0),
        GetActivityAccountTotalSurplusKey (aa_ActivityID a) (aa_UserID a) \<mapsto> (RStr (FormatInt (aa_TotalCountSurplus a)), d1),
        GetActivityAccountMonthSurplusKey (aa_ActivityID a) (aa_UserID a) (fmt_month (svc_zone svc) (svc_clock svc (tick w))) \<mapsto>
          (RStr (FormatInt (aa_MonthCountSurplus a)), d3),
        GetActivityAccountDaySurplusKey (aa_ActivityID a) (aa_UserID a) (fmt_day (svc_zone svc) (svc_clock svc (Suc (tick w)))) \<mapsto>
          (RStr (FormatInt (aa_DayCountSurplus a)), d2))"
    by blast
  show ?thesis
    unfolding quota_abs_def Let_def k(4)
    using k(1-3) assms(4) by (simp add: activity_key_defs int_at_def hash_at_def)
qed

text \<open>
  C23. Loading a participant on some date: when \<open>AssembleActivityAccountByUserId\<close> returns nil, the user's
  shard holds an account for the user and the activity, and a month and a day account of that date, which
  either were there and are unchanged or were added with the count and the surplus of the account; no other
  row of any table changed. From then on, until an hour after the four writes to Redis, the
  quota that the participation scripts of that date read is exactly theirs: the total surplus of the
  account and the day and month surplus of the day and month rows. A pending order is left alone.
\<close>

theorem Assemble_loads_quota:
  assumes "redis_ok svc" and "mysql_ok svc uniq" and "faults_ok svc" and "positive_ids (store w)"
    and "DBStrategy (NewDBRouter dbs tbs) uid = Ok (Some db, suffix)"
    and "AssembleActivityAccountByUserId svc (NewDBRouter dbs tbs) uid aid w = (Ok (), w')"
    and "on_date svc (tick w) (tick w') day month"
  shows "\<exists>acc m d. find (is_account uid aid) (tables w (db, accT)) = Some (RAccount acc) \<and>
           month_opened uid aid month acc (tables w (db, monT)) (tables w' (db, monT)) m \<and>
           day_opened uid aid day acc (tables w (db, dayT)) (tables w' (db, dayT)) d \<and>
           (\<forall>dt. dt \<notin> {(db, monT), (db, dayT)} \<longrightarrow> tables w' dt = tables w dt) \<and>
           (\<forall>t h. (\<forall>n \<in> {tick w' - 3..tick w'}. svc_rtime svc n \<le> t \<and> t < svc_rtime svc n + hour) \<longrightarrow>
              hash_at (live t (rkeys w)) (GetPendingRaffleOrderKey aid uid) = Some h \<longrightarrow>
              quota_abs (GetActivityAccountTotalSurplusKey aid uid) (GetActivityAccountDaySurplusKey aid uid day)
                (GetActivityAccountMonthSurplusKey aid uid month) (GetPendingRaffleOrderKey aid uid) t (rkeys w') =
              Some \<lparr>q_total = Some (acc_TotalCountSurplus acc), q_day = Some (day_DayCountSurplus d),
                    q_month = Some (mon_MonthCountSurplus m), q_pending = h\<rparr>)"
proof -
  obtain a w1 where q: "QueryActivityAccountEntity svc (NewDBRouter dbs tbs) uid aid w = (Ok a, w1)"
    and s: "cacheActivityAccountSnapshot svc a w1 = (Ok (), w')"
    using assms(6) by (auto simp: AssembleActivityAccountByUserId_def)
  have t: "tick w' = 6 + tick w1" by (rule snapshot_ticks [OF assms(1) s])
  obtain acc m d where e: "find (is_account uid aid) (tables w (db, accT)) = Some (RAccount acc)"
      "month_opened uid aid month acc (tables w (db, monT)) (tables w1 (db, monT)) m"
      "day_opened uid aid day acc (tables w (db, dayT)) (tables w1 (db, dayT)) d" "a = entity_of acc d m" "rkeys w1 = rkeys w"
      "aa_UserID a = uid" "aa_ActivityID a = aid" "tick w < tick w1"
      "\<forall>dt. dt \<notin> {(db, monT), (db, dayT)} \<longrightarrow> tables w1 dt = tables w dt"
    using QueryActivityAccountEntity_Ok [OF assms(2,3,4,5) q _ assms(7)] t by auto
  have dates: "fmt_day (svc_zone svc) (svc_clock svc (Suc (tick w1))) = day" "fmt_month (svc_zone svc) (svc_clock svc (tick w1)) = month"
    using assms(7) e(8) t by (simp_all add: on_date_def)
  have k: "keeps tables (cacheActivityAccountSnapshot svc a)"
    unfolding cacheActivityAccountSnapshot_def Let_def cache_put_def Set_def
    by (intro keeps_rules tables_cache_set) (simp_all add: plain_item_def Item_value_def keeps_rules)
  have st: "tables w' = tables w1" using keepsD [OF k s] .
  have cur: "snapshot_current svc (tick w1) t"
    if "\<forall>n \<in> {tick w' - 3..tick w'}. svc_rtime svc n \<le> t \<and> t < svc_rtime svc n + hour" for t
    using that unfolding snapshot_current_def by (auto simp: t)
  show ?thesis
    using e st snapshot_quota [OF assms(1) s cur] dates
    by (intro exI [of _ acc] exI [of _ m] exI [of _ d]) (simp add: entity_of_def)
qed

definition account_world :: world where
  "account_world = empty_world\<lparr>store := empty_store\<lparr>tbls := (\<lambda>_. [])((''01'', accT) :=
     [RAccount \<lparr>acc_ID = 1, acc_UserID = ''e'', acc_ActivityID = 1, acc_TotalCount = 10, acc_TotalCountSurplus = 5,
                acc_DayCount = 3, acc_DayCountSurplus = 2, acc_MonthCount = 6, acc_MonthCountSurplus = 4,
                acc_CreateTime = 0, acc_UpdateTime = 0\<rparr>])\<rparr>\<rparr>"

lemma snapshot_served:
  assumes "redis_ok svc" and "no_faults svc" and "enc (js_ActivityAccount svc) a = Ok b"
    and "is_int64 (aa_TotalCountSurplus a)" and "is_int64 (aa_MonthCountSurplus a)" and "is_int64 (aa_DayCountSurplus a)"
  shows "\<exists>w'. cacheActivityAccountSnapshot svc a w = (Ok (), w')"
proof -
  have h: "second \<le> hour" by (simp add: hour_def second_def)
  have n: "svc_fault svc k = NoFault" for k using assms(2) by (simp add: no_faults_def)
  show ?thesis
    using assms(3-) by (simp add: cacheActivityAccountSnapshot_def Let_def bindE_def cache_put_served [OF assms(1) h n])
qed

lemma account_run:
  "\<exists>w'. AssembleActivityAccountByUserId warm_svc (NewDBRouter 2 4) ''e'' 1 account_world = (Ok (), w')"
proof -
  have nf: "no_faults warm_svc" by (simp add: no_faults_def)
  have e: "fst (QueryActivityAccountEntity warm_svc (NewDBRouter 2 4) ''e'' 1 account_world) = Ok sample_entity"
    by (simp add: QueryActivityAccountEntity_def shard_def sample_shard bindE_def Let_def caseE_def
        served [OF warm_svc_ok(2) nf] account_world_def account_row_def load_or_init_def month_row_def
        day_row_def new_month_row_def new_day_row_def sample_entity_def)
  have "\<exists>w'. cacheActivityAccountSnapshot warm_svc sample_entity w = (Ok (), w')" for w
    by (rule snapshot_served [where b = "''{}''"])
      (simp_all add: nf, simp_all add: warm_svc_def single_codec_def sample_entity_def is_int64_small)
  with e show ?thesis
    by (cases "QueryActivityAccountEntity warm_svc (NewDBRouter 2 4) ''e'' 1 account_world")
      (simp add: AssembleActivityAccountByUserId_def bindE_def)
qed

theorem Assemble_loads_quota_witness:
  "\<exists>w'. AssembleActivityAccountByUserId warm_svc (NewDBRouter 2 4) ''e'' 1 account_world = (Ok (), w') \<and>
     quota_abs (GetActivityAccountTotalSurplusKey 1 ''e'') (GetActivityAccountDaySurplusKey 1 ''e'' (fmt_day 0 (1700000000 * second)))
       (GetActivityAccountMonthSurplusKey 1 ''e'' (fmt_month 0 (1700000000 * second))) (GetPendingRaffleOrderKey 1 ''e'')
       (1700000000 * second) (rkeys w') = Some \<lparr>q_total = Some 5, q_day = Some 2, q_month = Some 4, q_pending = None\<rparr>"
proof -
  obtain w' where run: "AssembleActivityAccountByUserId warm_svc (NewDBRouter 2 4) ''e'' 1 account_world = (Ok (), w')"
    using account_run by blast
  have f: "faults_ok warm_svc" by (simp add: faults_ok_def fault_error_def)
  have p: "positive_ids (store account_world)" by (simp add: positive_ids_def account_world_def row_id_def)
  have z: "svc_zone warm_svc = 0" "svc_rtime warm_svc n = 1700000000 * second" for n
    by (simp_all add: warm_svc_def sample_svc_def)
  have d: "on_date warm_svc (tick account_world) (tick w') (fmt_day 0 (1700000000 * second)) (fmt_month 0 (1700000000 * second))"
    by (simp add: on_date_def z)
  have h: "hash_at (live t (rkeys account_world)) k = Some None" for t k
    by (simp add: hash_at_def live_def account_world_def)
  have t: "tables account_world (''01'', accT) = [RAccount (sample_account\<lparr>acc_ActivityID := 1\<rparr>)]"
      "tables account_world (''01'', monT) = []" "tables account_world (''01'', dayT) = []"
    by (simp_all add: account_world_def sample_account_def)
  from Assemble_loads_quota [OF warm_svc_ok(1,2) f p sample_shard run d] run h show ?thesis
    by (auto simp: t z month_opened_def day_opened_def sample_account_def is_account_def hour_def second_def)
qed

end
