(* ===== verification/Strategy_Repo.thy ===== *)
theory Strategy_Repo
  imports Snapshot
begin

text \<open>
  \<open>internal/data/strategy.go\<close>: the repository of the lottery strategies. Configuration is read
  through the cache; the award pool of a strategy is a Redis string with its size and a Redis hash
  from slot numbers to award ids; the stock of an award is a Redis counter with one lock per
  remaining unit. \<open>strategy_repo_of\<close> is what \<open>NewStrategyRepository\<close> provides for the interface
  \<open>Repo\<close> of \<open>biz/strategy/repo.go\<close>.
\<close>

section \<open>Configuration queries\<close>

definition QueryStrategyIdByActivityId :: "services \<Rightarrow> int \<Rightarrow> int M" where
  "QueryStrategyIdByActivityId svc aid =
     cached svc int_codec (''strategy_id_by_activity_'' @ FormatInt aid) days10
       (caseE (gorm_First svc ''default'' ''raffle_activity''
                 (\<lambda>r. is_RActivity r \<and> ra_ActivityID (the_activity r) = aid))
          or_nil (\<lambda>r. ret (Some (ra_StrategyID (the_activity r)))))"

definition QueryStrategyEntityByStrategyId :: "services \<Rightarrow> int \<Rightarrow> Strategy M" where
  "QueryStrategyEntityByStrategyId svc sid =
     cached svc (js_Strategy svc) (GetStrategyKey sid) days10
       (caseE (gorm_First svc ''default'' ''strategy''
                 (\<lambda>r. is_RStrategy r \<and> pst_StrategyID (the_strategy r) = sid))
          or_nil (\<lambda>r. ret (Some (Strategy_ToEntity (the_strategy r)))))"

definition strategy_awards_of :: "int \<Rightarrow> row \<Rightarrow> bool" where
  "strategy_awards_of sid r \<longleftrightarrow> is_RStrategyAward r \<and> psa_StrategyID (the_strategy_award r) = sid"

definition QueryStrategyAwardList :: "services \<Rightarrow> int \<Rightarrow> StrategyAward list M" where
  "QueryStrategyAwardList svc sid =
     cached svc (js_StrategyAwards svc) (GetStrategyAwardKey sid) days10
       (bindE (gorm_Find svc ''default'' ''strategy_award'' (strategy_awards_of sid))
          (\<lambda>rs. ret (Some (map (\<lambda>r. StrategyAward_ToEntity (the_strategy_award r)) rs))))"

definition strategy_rule_row :: "int \<Rightarrow> string \<Rightarrow> row \<Rightarrow> bool" where
  "strategy_rule_row sid m r \<longleftrightarrow>
     is_RStrategyRule r \<and> psr_StrategyID (the_strategy_rule r) = sid \<and> psr_RuleModel (the_strategy_rule r) = m"

text \<open>The result is nil when there is no such rule.\<close>

definition QueryStrategyRule :: "services \<Rightarrow> int \<Rightarrow> string \<Rightarrow> StrategyRule option M" where
  "QueryStrategyRule svc sid m =
     caseE (gorm_First svc ''default'' ''strategy_rule'' (strategy_rule_row sid m))
       or_nil (\<lambda>r. ret (Some (StrategyRule_ToEntity (the_strategy_rule r))))"

text \<open>\<open>Select("rule_value").Scan(&rv)\<close>: every row is scanned into the variable in turn, and no row
  leaves it empty.\<close>

definition scan_rule_value :: "services \<Rightarrow> int \<Rightarrow> string \<Rightarrow> string M" where
  "scan_rule_value svc sid m =
     bindE (gorm_Find svc ''default'' ''strategy_rule'' (strategy_rule_row sid m))
       (\<lambda>rs. ret (foldl (\<lambda>_ r. psr_RuleValue (the_strategy_rule r)) '''' rs))"

definition QueryStrategyValue :: "services \<Rightarrow> int \<Rightarrow> RuleChainName \<Rightarrow> string M" where
  "QueryStrategyValue svc sid m =
     cached svc (js_string svc) (GetStrategyRuleValueKey sid m) days10
       (caseE (scan_rule_value svc sid m)
          (\<lambda>e. if errors_Is e GormRecordNotFound then ret (Some '''') else fail e) (\<lambda>rv. ret (Some rv)))"

definition QueryStrategyRuleValue :: "services \<Rightarrow> int \<Rightarrow> RuleChainName \<Rightarrow> string M" where
  "QueryStrategyRuleValue svc sid m =
     cached svc (js_string svc) (GetStrategyRuleValueKey sid m) days10
       (caseE (scan_rule_value svc sid m)
          (\<lambda>e. if errors_Is e GormRecordNotFound then ret (Some '''') else fail e) (\<lambda>rv. ret (Some rv)))"

definition strategy_award_row :: "int \<Rightarrow> int \<Rightarrow> row \<Rightarrow> bool" where
  "strategy_award_row sid aid r \<longleftrightarrow> strategy_awards_of sid r \<and> psa_AwardID (the_strategy_award r) = aid"

definition QueryStrategyRuleModel :: "services \<Rightarrow> int \<Rightarrow> int \<Rightarrow> RuleTreeName M" where
  "QueryStrategyRuleModel svc sid aid =
     cached svc (js_string svc) (GetStrategyRuleModelKey sid aid) days10
       (caseE (gorm_First svc ''default'' ''strategy_award'' (strategy_award_row sid aid))
          (\<lambda>e. if errors_Is e GormRecordNotFound then ret (Some '''') else fail e)
          (\<lambda>r. ret (Some (psa_RuleModels (the_strategy_award r)))))"

definition QueryStrategyAward :: "services \<Rightarrow> int \<Rightarrow> int \<Rightarrow> StrategyAward M" where
  "QueryStrategyAward svc sid aid =
     cached svc (js_StrategyAward svc) (GetStrategyAwardKey sid @ '':'' @ FormatInt aid) days10
       (caseE (gorm_First svc ''default'' ''strategy_award'' (strategy_award_row sid aid))
          or_nil (\<lambda>r. ret (Some (StrategyAward_ToEntity (the_strategy_award r)))))"

subsection \<open>The rule tree\<close>

definition in_tree :: "string \<Rightarrow> row \<Rightarrow> bool" where
  "in_tree tid r \<longleftrightarrow>
     (case r of RTree t \<Rightarrow> ptr_TreeID t = tid | RTreeNode n \<Rightarrow> ptn_TreeID n = tid
      | RTreeLine l \<Rightarrow> ptl_TreeID l = tid | _ \<Rightarrow> False)"

text \<open>\<open>nodeLineMap\<close>: the lines by the node they start from, in the order of the rows.\<close>

definition nodeLineMap :: "po_RuleTreeNodeLine list \<Rightarrow> string \<rightharpoonup> RuleTreeNodeLine list" where
  "nodeLineMap ls =
     foldl (\<lambda>m l. m(ptl_RuleNodeFrom l \<mapsto>
                      (case m (ptl_RuleNodeFrom l) of None \<Rightarrow> [] | Some xs \<Rightarrow> xs) @ [RuleTreeNodeLine_ToEntity l]))
       Map.empty ls"

definition attach_lines :: "(string \<rightharpoonup> RuleTreeNodeLine list) \<Rightarrow> RuleTreeNode \<Rightarrow> RuleTreeNode" where
  "attach_lines lines n = (case lines (rn_RuleKey n) of None \<Rightarrow> n | Some ls \<Rightarrow> n\<lparr>rn_TreeNodeLine := ls\<rparr>)"

definition nodeMap :: "(string \<rightharpoonup> RuleTreeNodeLine list) \<Rightarrow> po_RuleTreeNode list \<Rightarrow> RuleTreeName \<rightharpoonup> RuleTreeNode" where
  "nodeMap lines ns =
     foldl (\<lambda>m p. let n = attach_lines lines (RuleTreeNode_ToEntity p) in m(rn_RuleKey n \<mapsto> n)) Map.empty ns"

definition load_tree :: "services \<Rightarrow> RuleTreeName \<Rightarrow> RuleTree option M" where
  "load_tree svc m =
     caseE (gorm_First svc ''default'' ''rule_tree'' (in_tree m)) or_nil (\<lambda>t.
     bindE (gorm_Find svc ''default'' ''rule_tree_node'' (in_tree m)) (\<lambda>ns.
     bindE (gorm_Find svc ''default'' ''rule_tree_node_line'' (in_tree m)) (\<lambda>ls.
     ret (Some ((RuleTree_ToEntity (the_tree t))
       \<lparr>rt_NodeMap := nodeMap (nodeLineMap (map the_tree_line ls)) (map the_tree_node ns)\<rparr>)))))"

definition QueryRuleTree :: "services \<Rightarrow> RuleTreeName \<Rightarrow> RuleTree M" where
  "QueryRuleTree svc m = cached svc (js_RuleTree svc) (GetRuleTreeKey m) days10 (load_tree svc m)"

subsection \<open>Weight buckets\<close>

text \<open>Award ids that are not numbers are skipped.\<close>

fun numbers_of :: "string list \<Rightarrow> int list" where
  "numbers_of [] = []"
| "numbers_of (s # ss) = (case ParseInt s of Ok n \<Rightarrow> n # numbers_of ss | _ \<Rightarrow> numbers_of ss)"

text \<open>One parsed group: its text, its weight and its awards.\<close>

type_synonym parsed_rule = "string \<times> int \<times> int list"

text \<open>Empty groups and groups that are not \<open>weight:ids\<close> are skipped, a weight that is not a
  number is an error.\<close>

fun parse_weight_groups :: "string list \<Rightarrow> parsed_rule list res" where
  "parse_weight_groups [] = Ok []"
| "parse_weight_groups (g # gs) =
     (if g = '''' then parse_weight_groups gs
      else case split COLON g of
             [weightStr, awardIDsStr] \<Rightarrow>
               bindR (ParseInt weightStr) (\<lambda>weight.
               bindR (parse_weight_groups gs) (\<lambda>rs.
               Ok ((g, weight, numbers_of (split SPLIT awardIDsStr)) # rs)))
           | _ \<Rightarrow> parse_weight_groups gs)"

definition awardTitleMap :: "row list \<Rightarrow> int \<rightharpoonup> string" where
  "awardTitleMap rs =
     foldl (\<lambda>m r. m(psa_AwardID (the_strategy_award r) \<mapsto> psa_AwardTitle (the_strategy_award r))) Map.empty rs"

definition weight_bucket :: "(int \<rightharpoonup> string) \<Rightarrow> parsed_rule \<Rightarrow> WeightBucket" where
  "weight_bucket titles r =
     (case r of (text, weight, ids) \<Rightarrow>
        \<lparr>wb_RuleValue = text, wb_Weight = weight, wb_AwardIds = ids,
         wb_AwardList = map (\<lambda>i. \<lparr>aw_AwardId = i, aw_AwardTitle = (case titles i of None \<Rightarrow> '''' | Some t \<Rightarrow> t)\<rparr>) ids\<rparr>)"

definition load_weight_buckets :: "services \<Rightarrow> int \<Rightarrow> WeightBucket list option M" where
  "load_weight_buckets svc sid =
     caseE (gorm_First svc ''default'' ''strategy_rule'' (strategy_rule_row sid ''rule_weight'')) or_nil (\<lambda>r.
     bindE (liftR (parse_weight_groups (split SPACE (psr_RuleValue (the_strategy_rule r))))) (\<lambda>rules.
     let ids = concat (map (\<lambda>(_, _, is). is) rules) in
     bindE (if ids = [] then ret []
            else gorm_Find svc ''default'' ''strategy_award''
                   (\<lambda>r. strategy_awards_of sid r \<and> psa_AwardID (the_strategy_award r) \<in> set ids)) (\<lambda>aws.
     ret (Some (map (weight_bucket (awardTitleMap aws)) rules)))))"

definition QueryAwardRuleWeight :: "services \<Rightarrow> int \<Rightarrow> WeightBucket list M" where
  "QueryAwardRuleWeight svc sid =
     cached svc (js_WeightBuckets svc) (GetStrategyRuleWeightKey sid) days10 (load_weight_buckets svc sid)"

subsection \<open>How often a user has taken part\<close>

definition load_account :: "services \<Rightarrow> DBRouter \<Rightarrow> string \<Rightarrow> int \<Rightarrow> ActivityAccount option M" where
  "load_account svc rt uid aid =
     bindE (shard rt uid) (\<lambda>(db, _).
     case db of
       None \<Rightarrow> fail (GoErr ''db router failed'')
     | Some db \<Rightarrow>
         caseE (gorm_First svc db ''raffle_activity_account'' (account_row uid aid)) or_nil
           (\<lambda>r. ret (Some (RaffleActivityAccount_ToEntity (the_account r)))))"

definition QueryActivityAccountTotalUseCount :: "services \<Rightarrow> DBRouter \<Rightarrow> string \<Rightarrow> int \<Rightarrow> int M" where
  "QueryActivityAccountTotalUseCount svc rt uid sid =
     bindE (cached svc (js_RaffleActivity svc) (''activity_by_strategy_'' @ FormatInt sid) days10
       (caseE (gorm_First svc ''default'' ''raffle_activity''
                 (\<lambda>r. is_RActivity r \<and> ra_StrategyID (the_activity r) = sid))
          or_nil (\<lambda>r. ret (Some (the_activity r))))) (\<lambda>act.
     if ra_ActivityID act = 0 then ret 0
     else
       caseE (cached svc (js_ActivityAccount svc) (GetActivityAccountKey (ra_ActivityID act) uid) days10
                (load_account svc rt uid (ra_ActivityID act)))
         (\<lambda>e. if errors_Is e GormRecordNotFound then ret 0 else fail e)
         (\<lambda>acc. ret (aa_TotalCount acc - aa_TotalCountSurplus acc)))"

section \<open>The award pool\<close>

definition StoreStrategyAwardPool :: "services \<Rightarrow> string \<Rightarrow> int \<Rightarrow> (int \<times> int) list \<Rightarrow> unit M" where
  "StoreStrategyAwardPool svc sid rateRange idxToAwardID =
     bindE (cache_put svc int_codec (GetStrategyRateRangeKey sid) rateRange days10) (\<lambda>_.
     HSetWithTTL svc myCache (GetStrategyRateTableKey sid)
       (map (\<lambda>(k, v). (FormatInt k, FormatInt v)) idxToAwardID) days10)"

definition GetRateRange :: "services \<Rightarrow> string \<Rightarrow> int M" where
  "GetRateRange svc sid = Get svc myCache (json_of int_codec) (GetStrategyRateRangeKey sid)"

definition GetStrategyAwardAssemble :: "services \<Rightarrow> string \<Rightarrow> int \<Rightarrow> int M" where
  "GetStrategyAwardAssemble svc sid randomVal =
     bindE (cache_HGet svc myCache (GetStrategyRateTableKey sid) (FormatInt randomVal)) (\<lambda>v.
     liftR (ParseInt v))"

section \<open>The stock of an award\<close>

definition SubtractionAwardStock :: "services \<Rightarrow> int \<Rightarrow> int \<Rightarrow> bool M" where
  "SubtractionAwardStock svc sid aid =
     (let cacheKey = GetStrategyAwardCountKey sid aid in
      bindE (Decr svc myCache cacheKey) (\<lambda>surplus.
      if surplus < 0 then ret False
      else cache_SetNX svc myCache (json_of (js_string svc)) (cacheKey @ ''_'' @ FormatInt surplus)
             (AStr ''locked'') (24 * hour)))"

definition AwardStockConsumeSendQueue :: "services \<Rightarrow> int \<Rightarrow> int \<Rightarrow> unit M" where
  "AwardStockConsumeSendQueue svc sid aid =
     bindE (liftR (enc (js_StockConsume svc) \<lparr>asm_StrategyID = sid, asm_AwardID = aid\<rparr>)) (\<lambda>payload.
     enqueue svc (TaskTypeStrategyAwardStockConsume, payload, ''critical'', second))"

text \<open>\<open>award_count_surplus - 1\<close>, and gorm's update time.\<close>

definition consume_award :: "time \<Rightarrow> row \<Rightarrow> row" where
  "consume_award t r =
     (case r of
        RStrategyAward a \<Rightarrow> RStrategyAward (a\<lparr>psa_AwardCountSurplus := psa_AwardCountSurplus a - 1, psa_UpdateTime := t\<rparr>)
      | _ \<Rightarrow> r)"

definition UpdateStrategyAwardStock :: "services \<Rightarrow> int \<Rightarrow> int \<Rightarrow> unit M" where
  "UpdateStrategyAwardStock svc sid aid =
     bindE (now svc) (\<lambda>t.
     bindE (gorm_Updates svc ''default'' ''strategy_award''
              (\<lambda>r. strategy_award_row sid aid r \<and> psa_AwardCountSurplus (the_strategy_award r) > 0)
              (consume_award t)) (\<lambda>n.
     if n = 0 then fail (GoErr ''no stock to consume or record not found'') else ret ()))"

definition NewAwardStockConsumeHandler :: "services \<Rightarrow> AwardStockConsumeMessage list \<Rightarrow> unit M" where
  "NewAwardStockConsumeHandler svc msgs =
     forE msgs (\<lambda>m. UpdateStrategyAwardStock svc (asm_StrategyID m) (asm_AwardID m))"

section \<open>The interface\<close>

record strategy_repo =
  s_QueryStrategyAwardList :: "int \<Rightarrow> StrategyAward list M"
  s_QueryStrategyEntity :: "int \<Rightarrow> Strategy M"
  s_QueryStrategyRule :: "int \<Rightarrow> string \<Rightarrow> StrategyRule option M"
  s_QueryStrategyRuleValue :: "int \<Rightarrow> RuleChainName \<Rightarrow> string M"
  s_QueryStrategyValue :: "int \<Rightarrow> RuleChainName \<Rightarrow> string M"
  s_QueryStrategyRuleModel :: "int \<Rightarrow> int \<Rightarrow> RuleTreeName M"
  s_QueryRuleTree :: "RuleTreeName \<Rightarrow> RuleTree M"
  s_QueryStrategyAward :: "int \<Rightarrow> int \<Rightarrow> StrategyAward M"
  s_UpdateStrategyAwardStock :: "int \<Rightarrow> int \<Rightarrow> unit M"
  s_QueryStrategyIdByActivityId :: "int \<Rightarrow> int M"
  s_QueryAwardRuleWeight :: "int \<Rightarrow> WeightBucket list M"
  s_QueryTotalUseCount :: "string \<Rightarrow> int \<Rightarrow> int M"
  s_StoreStrategyAwardPool :: "string \<Rightarrow> int \<Rightarrow> (int \<times> int) list \<Rightarrow> unit M"
  s_GetRateRange :: "string \<Rightarrow> int M"
  s_GetStrategyAwardAssemble :: "string \<Rightarrow> int \<Rightarrow> int M"
  s_SubtractionAwardStock :: "int \<Rightarrow> int \<Rightarrow> bool M"
  s_AwardStockConsumeSendQueue :: "int \<Rightarrow> int \<Rightarrow> unit M"

definition strategy_repo_of :: "services \<Rightarrow> DBRouter \<Rightarrow> strategy_repo" where
  "strategy_repo_of svc rt =
     \<lparr>s_QueryStrategyAwardList = QueryStrategyAwardList svc,
      s_QueryStrategyEntity = QueryStrategyEntityByStrategyId svc,
      s_QueryStrategyRule = QueryStrategyRule svc,
      s_QueryStrategyRuleValue = QueryStrategyRuleValue svc,
      s_QueryStrategyValue = QueryStrategyValue svc,
      s_QueryStrategyRuleModel = QueryStrategyRuleModel svc,
      s_QueryRuleTree = QueryRuleTree svc,
      s_QueryStrategyAward = QueryStrategyAward svc,
      s_UpdateStrategyAwardStock = UpdateStrategyAwardStock svc,
      s_QueryStrategyIdByActivityId = QueryStrategyIdByActivityId svc,
      s_QueryAwardRuleWeight = QueryAwardRuleWeight svc,
      s_QueryTotalUseCount = QueryActivityAccountTotalUseCount svc rt,
      s_StoreStrategyAwardPool = StoreStrategyAwardPool svc,
      s_GetRateRange = GetRateRange svc,
      s_GetStrategyAwardAssemble = GetStrategyAwardAssemble svc,
      s_SubtractionAwardStock = SubtractionAwardStock svc,
      s_AwardStockConsumeSendQueue = AwardStockConsumeSendQueue svc\<rparr>"

lemma strategy_repo_simps [simp]:
  "s_QueryStrategyAwardList (strategy_repo_of svc rt) = QueryStrategyAwardList svc"
  "s_QueryStrategyEntity (strategy_repo_of svc rt) = QueryStrategyEntityByStrategyId svc"
  "s_StoreStrategyAwardPool (strategy_repo_of svc rt) = StoreStrategyAwardPool svc"
  "s_GetRateRange (strategy_repo_of svc rt) = GetRateRange svc"
  "s_GetStrategyAwardAssemble (strategy_repo_of svc rt) = GetStrategyAwardAssemble svc"
  "s_SubtractionAwardStock (strategy_repo_of svc rt) = SubtractionAwardStock svc"
  "s_AwardStockConsumeSendQueue (strategy_repo_of svc rt) = AwardStockConsumeSendQueue svc"
  by (simp_all add: strategy_repo_of_def)

end
