(* ===== verification/Armory.thy ===== *)
theory Armory
  imports Strategy_Repo "HOL-Library.Multiset"
begin

text \<open>
  \<open>armoryDispatch\<close> of \<open>internal/biz/strategy/raffle_support.go\<close>: turning the rates of a strategy's
  awards into a shuffled pool of slots that is stored in Redis, and drawing a slot from it. The
  rates are \<open>float64\<close> values and the arithmetic is that of \<open>Float64\<close>. \<open>mrand.Shuffle\<close> is the
  Fisher-Yates loop of the library over draws that \<open>svc_shuffle\<close> supplies; the same draws decide
  the order in which Go iterates over a map.
\<close>

section \<open>Building a pool\<close>

definition swap :: "nat \<Rightarrow> nat \<Rightarrow> 'a list \<Rightarrow> 'a list" where
  "swap i j xs = xs[i := xs ! j, j := xs ! i]"

fun shuffle_loop :: "(nat \<Rightarrow> nat) \<Rightarrow> nat \<Rightarrow> 'a list \<Rightarrow> 'a list" where
  "shuffle_loop draw 0 xs = xs"
| "shuffle_loop draw (Suc i) xs = shuffle_loop draw i (swap (Suc i) (draw (Suc i) mod (i + 2)) xs)"

definition Shuffle :: "services \<Rightarrow> 'a list \<Rightarrow> 'a list M" where
  "Shuffle svc xs w = (Ok (shuffle_loop (svc_shuffle svc (tick w)) (length xs - 1) xs), bump w)"

definition totalRate :: "StrategyAward list \<Rightarrow> float64" where
  "totalRate awards = foldl fadd (Fin 0) (map sa_AwardRate awards)"

definition maxDecimalLen :: "StrategyAward list \<Rightarrow> nat" where
  "maxDecimalLen awards =
     foldl (\<lambda>m a. let n = decimal_len (sa_AwardRate a) in if m < n then n else m) 0 awards"

definition slot_count :: "float64 \<Rightarrow> float64 \<Rightarrow> StrategyAward \<Rightarrow> int" where
  "slot_count rateRange totalr a = to_int (fround (fmul (fdiv (sa_AwardRate a) totalr) rateRange))"

definition strategyAwardPool :: "StrategyAward list \<Rightarrow> int list" where
  "strategyAwardPool awards =
     (let totalr = totalRate awards; rateRange = pow10 (maxDecimalLen awards)
      in concat (map (\<lambda>a. replicate (nat (slot_count rateRange totalr a)) (sa_AwardID a)) awards))"

text \<open>\<open>make([]int64, 0, expectedCap)\<close> panics for a negative capacity and for one of more than
  \<open>2^48\<close> bytes.\<close>

definition cap_ok :: "int \<Rightarrow> bool" where
  "cap_ok c \<longleftrightarrow> 0 \<le> c \<and> 8 * c \<le> 2 ^ 48"

definition idxToAwardIDMap :: "int list \<Rightarrow> (int \<times> int) list" where
  "idxToAwardIDMap pool = map (\<lambda>(i, a). (int i, a)) (enumerate 0 pool)"

definition assembleLotteryStrategyWithAwards ::
    "services \<Rightarrow> strategy_repo \<Rightarrow> string \<Rightarrow> StrategyAward list \<Rightarrow> unit M" where
  "assembleLotteryStrategyWithAwards svc repo sid awards =
     (if \<not> cap_ok (to_int (pow10 (maxDecimalLen awards))) then panic ''makeslice: cap out of range''
      else bindE (Shuffle svc (strategyAwardPool awards)) (\<lambda>pool.
           s_StoreStrategyAwardPool repo sid (int (length pool)) (idxToAwardIDMap pool)))"

text \<open>The pools of the weights, one for each key of the map, in the order of the iteration.\<close>

fun assemble_weights ::
    "services \<Rightarrow> strategy_repo \<Rightarrow> string \<Rightarrow> StrategyAward list \<Rightarrow> (string \<times> int list) list \<Rightarrow> unit M" where
  "assemble_weights svc repo sid awards [] = ret ()"
| "assemble_weights svc repo sid awards ((key, v) # kvs) =
     bindE (assembleLotteryStrategyWithAwards svc repo (sid @ UNDERLINE @ key)
              (filter (\<lambda>a. sa_AwardID a \<in> set v) awards)) (\<lambda>_.
     assemble_weights svc repo sid awards kvs)"

definition assembleLotteryStrategy :: "services \<Rightarrow> strategy_repo \<Rightarrow> int \<Rightarrow> bool M" where
  "assembleLotteryStrategy svc repo sid =
     bindE (s_QueryStrategyEntity repo sid) (\<lambda>strategy.
     bindE (s_QueryStrategyAwardList repo sid) (\<lambda>awards.
     bindE (assembleLotteryStrategyWithAwards svc repo (FormatInt sid) awards) (\<lambda>_.
     if GetRuleWeight strategy = '''' then ret True
     else
       bindE (s_QueryStrategyRule repo sid (GetRuleWeight strategy)) (\<lambda>rule.
       bindE (deref rule) (\<lambda>rule.
       bindE (liftR (GetRuleWeightValues rule)) (\<lambda>ruleWeightMap.
       bindE (Shuffle svc ruleWeightMap) (\<lambda>kvs.
       bindE (assemble_weights svc repo (FormatInt sid) awards kvs) (\<lambda>_. ret True))))))))"

definition assembleLotteryStrategyByActivityId :: "services \<Rightarrow> strategy_repo \<Rightarrow> int \<Rightarrow> bool M" where
  "assembleLotteryStrategyByActivityId svc repo aid =
     bindE (s_QueryStrategyIdByActivityId repo aid) (assembleLotteryStrategy svc repo)"

section \<open>Drawing\<close>

definition getRandomAwardID :: "services \<Rightarrow> strategy_repo \<Rightarrow> string \<Rightarrow> int M" where
  "getRandomAwardID svc repo sid =
     caseE (s_GetRateRange repo sid) (\<lambda>e. fail (ErrStrategyRateRangeFailed e)) (\<lambda>rateRange.
     if rateRange \<le> 0 then fail ErrStrategyRateRangeInvalid
     else
       caseE (GetSecureRandomInt svc rateRange) (\<lambda>e. fail (ErrStrategyRandomValGenFailed e)) (\<lambda>randomVal.
       caseE (s_GetStrategyAwardAssemble repo sid randomVal) (\<lambda>e. fail (ErrStrategyAwardAssembleFailed e)) ret))"

definition getRandomAwardIDWithWeight :: "services \<Rightarrow> strategy_repo \<Rightarrow> int \<Rightarrow> string \<Rightarrow> int M" where
  "getRandomAwardIDWithWeight svc repo sid ruleWeight =
     getRandomAwardID svc repo
       (if ruleWeight \<noteq> '''' then FormatInt sid @ UNDERLINE @ ruleWeight else FormatInt sid)"

section \<open>Lemmas\<close>

subsection \<open>Shuffling\<close>

lemma mset_swap_self: "i < length xs \<Longrightarrow> j < length xs \<Longrightarrow> mset (swap i j xs) = mset xs"
  unfolding swap_def by (rule mset_swap)

lemma mset_shuffle_loop: "i < length xs \<Longrightarrow> mset (shuffle_loop draw i xs) = mset xs"
proof (induction draw i xs rule: shuffle_loop.induct)
  case (2 draw i xs)
  have "draw (Suc i) mod (i + 2) < i + 2" by (rule mod_less_divisor) simp
  then have "draw (Suc i) mod (i + 2) < length xs" using "2.prems" by linarith
  moreover from this have "mset (swap (Suc i) (draw (Suc i) mod (i + 2)) xs) = mset xs"
    using "2.prems" by (intro mset_swap_self) simp_all
  ultimately show ?case using "2.IH" "2.prems" by (simp add: swap_def)
qed simp

lemma shuffle_Ok_iff:
  "Shuffle svc xs w = (Ok ys, w') \<longleftrightarrow>
     ys = shuffle_loop (svc_shuffle svc (tick w)) (length xs - 1) xs \<and> w' = bump w"
  by (auto simp: Shuffle_def)

lemma mset_shuffled: "mset (shuffle_loop draw (length xs - 1) xs) = mset xs"
  by (cases "xs = []") (simp_all add: mset_shuffle_loop)

lemma length_shuffled [simp]: "length (shuffle_loop draw (length xs - 1) xs) = length xs"
  by (metis mset_shuffled size_mset)

lemma set_shuffled [simp]: "set (shuffle_loop draw (length xs - 1) xs) = set xs"
  by (metis mset_shuffled set_mset_mset)

subsection \<open>The pool in Redis\<close>

text \<open>What Redis holds for a strategy, as far as it has not expired, is this pool.\<close>

definition pool_held :: "string \<Rightarrow> int list \<Rightarrow> keyspace \<Rightarrow> bool" where
  "pool_held sid pool ks \<longleftrightarrow>
     (\<forall>v dl. ks (GetStrategyRateRangeKey sid) = Some (v, dl) \<longrightarrow> v = RStr (FormatInt (int (length pool)))) \<and>
     (\<forall>v dl. ks (GetStrategyRateTableKey sid) = Some (v, dl) \<longrightarrow>
        (\<exists>h. v = RHash h \<and> (\<forall>i < length pool. h (FormatInt (int i)) = Some (FormatInt (pool ! i)))))"

lemma pool_held_live: "pool_held sid pool ks \<Longrightarrow> pool_held sid pool (live t ks)"
  unfolding pool_held_def by (blast dest: live_SomeD)

lemma rate_keys_neq [simp]: "GetStrategyRateRangeKey sid \<noteq> GetStrategyRateTableKey sid'"
  by (simp add: strategy_key_defs)

lemma pool_fields:
  assumes "i < length pool"
  shows "map_of (rev (map (\<lambda>(k, v). (FormatInt k, FormatInt v)) (idxToAwardIDMap pool))) (FormatInt (int i)) =
         Some (FormatInt (pool ! i))"
proof -
  let ?fvs = "map (\<lambda>(k, v). (FormatInt k, FormatInt v)) (idxToAwardIDMap pool)"
  have keys: "map fst ?fvs = map (\<lambda>i. FormatInt (int i)) [0..<length pool]"
    by (rule nth_equalityI) (simp_all add: idxToAwardIDMap_def case_prod_unfold nth_enumerate_eq)
  have "distinct (map fst (rev ?fvs))" 
    unfolding rev_map [symmetric] distinct_rev keys by (simp add: distinct_map inj_on_def)
  moreover have "(i, pool ! i) \<in> set (enumerate 0 pool)" using assms by (simp add: in_set_enumerate_eq)
  then have "(int i, pool ! i) \<in> set (idxToAwardIDMap pool)" unfolding idxToAwardIDMap_def set_map by (rule rev_image_eqI) simp
  then have "(FormatInt (int i), FormatInt (pool ! i)) \<in> set (rev ?fvs)" unfolding set_rev set_map by (rule rev_image_eqI) simp
  ultimately show ?thesis by (rule map_of_is_SomeI)
qed

lemma pipe_HSET_EXPIRE:
  assumes "redis_ok svc" and "0 < ttl"
    and "pipe_run svc [HSET key fvs, EXPIRE key ttl] w = (Ok u, w')"
  shows "rkeys w' k = (if k = key then
      Some (RHash ((case live (svc_rtime svc (tick w)) (rkeys w) key of Some (RHash h, _) \<Rightarrow> h | _ \<Rightarrow> Map.empty)
                     ++ map_of (rev fvs)), Some (svc_rtime svc (tick w) + ttl))
    else live (svc_rtime svc (tick w)) (rkeys w) k)"
  using assms
  by (auto simp: caseE_def server_call_def redis_ok_def redis_doc_def Let_def live_upd bindE_def ignoreE_def
      dest!: live_alive split: if_splits option.splits prod.splits rval.splits)

lemma days10_second: "second \<le> days10" "0 < days10"
  by (simp_all add: days10_def hour_def second_def)

lemma StoreStrategyAwardPool_holds:
  assumes ok: "redis_ok svc"
    and run: "StoreStrategyAwardPool svc sid (int (length pool)) (idxToAwardIDMap pool) w = (Ok u, w')"
  shows "pool_held sid pool (rkeys w')"
proof -
  let ?fvs = "map (\<lambda>(k, v). (FormatInt k, FormatInt v)) (idxToAwardIDMap pool)"
  from run obtain w1 where
    put: "cache_put svc int_codec (GetStrategyRateRangeKey sid) (int (length pool)) days10 w = (Ok (), w1)"
    and hset: "HSetWithTTL svc myCache (GetStrategyRateTableKey sid) ?fvs days10 w1 = (Ok u, w')"
    by (auto simp: StoreStrategyAwardPool_def)
  from cache_put_Ok [OF ok days10_second(1) put]
  have r: "\<exists>dl. rkeys w1 (GetStrategyRateRangeKey sid) = Some (RStr (FormatInt (int (length pool))), Some dl)"
    by (auto simp: int_codec_def split: if_splits)
  from hset have "pipe_run svc [HSET (GetStrategyRateTableKey sid) ?fvs, EXPIRE (GetStrategyRateTableKey sid) days10] (bump w1) = (Ok u, w')"
    using days10_second by (simp add: HSetWithTTL_def remote_Ok_iff)
  from pipe_HSET_EXPIRE [OF ok days10_second(2) this] r show ?thesis
    by (auto simp: pool_held_def pool_fields map_add_Some_iff dest: live_SomeD)
qed

lemma GetRateRange_held:
  assumes "redis_ok svc" and "pool_held sid pool (rkeys w)" and "GetRateRange svc sid w = (Ok n, w')"
  shows "n = int (length pool)" and "pool_held sid pool (rkeys w')"
proof -
  obtain b where b: "redis_Get svc (GetStrategyRateRangeKey sid) w = (Ok b, w')" "dec int_codec b = Ok n"
    using assms(3) by (auto simp: GetRateRange_def Get_def cache_get_def getBytes_myCache caseE_def bindE_def split: prod.splits res.splits)
  have "b = FormatInt (int (length pool))"
    using redis_Get_Ok(1) [OF assms(1) b(1)] assms(2) by (auto simp: pool_held_def dest!: live_SomeD)
  then show "n = int (length pool)"
    using b(2) by (auto simp: int_codec_def FormatInt_not_null dest!: redis_int_SomeD split: option.splits)
  show "pool_held sid pool (rkeys w')"
    using redis_Get_Ok(2) [OF assms(1) b(1)] assms(2) by (simp add: pool_held_live)
qed

lemma GetStrategyAwardAssemble_held:
  assumes "redis_ok svc" and "pool_held sid pool (rkeys w)" and "0 \<le> i" and "i < int (length pool)"
    and "GetStrategyAwardAssemble svc sid i w = (Ok a, w')"
  shows "a = pool ! nat i"
proof -
  obtain v h dl where v: "live (rnow svc w) (rkeys w) (GetStrategyRateTableKey sid) = Some (RHash h, dl)"
      "h (FormatInt i) = Some v" "ParseInt v = Ok a"
    using assms(1,5)
    by (auto simp: GetStrategyAwardAssemble_def cache_HGet_def redis_def remote_def server_call_def redis_ok_def
        redis_doc_def bindE_def Let_def split: fault.splits option.splits rval.splits prod.splits)
  have "v = FormatInt (pool ! nat i)"
    using v(1,2) assms(2-4) by (auto simp: pool_held_def dest!: live_SomeD spec [of _ "nat i"])
  then show ?thesis using v(3) by (auto simp: ParseInt_FormatInt_iff split: if_splits)
qed

section \<open>The contract of the pool store\<close>

text \<open>
  What the armory needs of \<open>StoreStrategyAwardPool\<close>, \<open>GetRateRange\<close> and
  \<open>GetStrategyAwardAssemble\<close>: a pool that was stored is the one that is read, slot by slot.
\<close>

locale award_pool =
  fixes repo :: "'d \<Rightarrow> strategy_repo" and ok :: "'d \<Rightarrow> bool"
    and held :: "string \<Rightarrow> int list \<Rightarrow> world \<Rightarrow> bool"
  assumes store_holds: "ok d \<Longrightarrow>
      s_StoreStrategyAwardPool (repo d) sid (int (length pool)) (idxToAwardIDMap pool) w = (Ok u, w') \<Longrightarrow>
      held sid pool w'"
    and range_reads: "ok d \<Longrightarrow> held sid pool w \<Longrightarrow> s_GetRateRange (repo d) sid w = (Ok n, w') \<Longrightarrow>
      n = int (length pool) \<and> held sid pool w'"
    and slot_reads: "ok d \<Longrightarrow> held sid pool w \<Longrightarrow> 0 \<le> i \<Longrightarrow> i < int (length pool) \<Longrightarrow>
      s_GetStrategyAwardAssemble (repo d) sid i w = (Ok a, w') \<Longrightarrow> a = pool ! nat i"
    and held_bump: "held sid pool w \<Longrightarrow> held sid pool (bump w)"
begin

lemma draw_from_held:
  assumes "ok d" and "secure_int_ok svc" and "held sid pool w"
    and "getRandomAwardID svc (repo d) sid w = (Ok a, w')"
  shows "a \<in> set pool"
proof -
  from assms(4) obtain n w1 i w2 where
    n: "s_GetRateRange (repo d) sid w = (Ok n, w1)" "0 < n" and
    i: "GetSecureRandomInt svc n w1 = (Ok i, w2)" and
    a: "s_GetStrategyAwardAssemble (repo d) sid i w2 = (Ok a, w')"
    by (auto simp: getRandomAwardID_def caseE_def split: prod.splits res.splits if_splits)
  from range_reads [OF assms(1,3) n(1)] have len: "n = int (length pool)" and h: "held sid pool w1" by simp_all
  have ib: "0 \<le> i" "i < n" "w2 = bump w1"
    using i n(2) assms(2) by (auto simp: GetSecureRandomInt_def secure_int_ok_def)
  with slot_reads [OF assms(1) held_bump [OF h] ib(1)] len a have "a = pool ! nat i" by simp
  then show ?thesis using ib len by simp
qed

lemma assembled_held:
  assumes "ok d" and "assembleLotteryStrategyWithAwards svc (repo d) sid awards w = (Ok u, w')"
  shows "\<exists>pool. mset pool = mset (strategyAwardPool awards) \<and> held sid pool w'"
  using assms store_holds mset_shuffled
  by (fastforce simp: assembleLotteryStrategyWithAwards_def shuffle_Ok_iff split: if_splits)

end

interpretation ap: award_pool "\<lambda>(svc, rt). strategy_repo_of svc rt" "\<lambda>(svc, rt). redis_ok svc"
  "\<lambda>sid pool w. pool_held sid pool (rkeys w)"
proof (unfold_locales, goal_cases)
  case (1 d sid pool w u w')
  then show ?case by (auto intro: StoreStrategyAwardPool_holds)
next
  case (2 d sid pool w n w')
  then show ?case by (auto dest: GetRateRange_held)
next
  case (3 d sid pool w i a w')
  then show ?case by (auto dest: GetStrategyAwardAssemble_held)
qed simp

section \<open>Slots\<close>

lemma in_pool_iff:
  "a \<in> set (strategyAwardPool awards) \<longleftrightarrow>
     (\<exists>aw \<in> set awards. sa_AwardID aw = a \<and> 0 < slot_count (pow10 (maxDecimalLen awards)) (totalRate awards) aw)"
  by (auto simp: strategyAwardPool_def Let_def)

subsection \<open>Decimal rates\<close>

lemma maxDecimalLen_bounds:
  shows "\<forall>a \<in> set awards. decimal_len (sa_AwardRate a) \<le> k \<Longrightarrow> maxDecimalLen awards \<le> k"
    and "a \<in> set awards \<Longrightarrow> decimal_len (sa_AwardRate a) \<le> maxDecimalLen awards"
proof -
  let ?f = "\<lambda>m a. let n = decimal_len (sa_AwardRate a) in if m < n then n else m"
  have up: "\<forall>a \<in> set xs. decimal_len (sa_AwardRate a) \<le> k \<Longrightarrow> m \<le> k \<Longrightarrow> foldl ?f m xs \<le> k" for xs m
    by (induction xs arbitrary: m) (auto simp: Let_def)
  have mono: "m \<le> foldl ?f m xs" for xs m
    by (induction xs arbitrary: m) (auto simp: Let_def intro: order.trans less_imp_le)
  have low: "a \<in> set xs \<Longrightarrow> decimal_len (sa_AwardRate a) \<le> foldl ?f m xs" for xs m
  proof (induction xs arbitrary: m)
    case (Cons x xs)
    show ?case
    proof (cases "a = x")
      case True
      have "decimal_len (sa_AwardRate x) \<le> ?f m x" by (simp add: Let_def)
      also have "\<dots> \<le> foldl ?f (?f m x) xs" by (rule mono)
      finally show ?thesis using True by simp
    qed (use Cons in simp)
  qed simp
  show "\<forall>a \<in> set awards. decimal_len (sa_AwardRate a) \<le> k \<Longrightarrow> maxDecimalLen awards \<le> k"
    unfolding maxDecimalLen_def by (rule up) simp_all
  show "a \<in> set awards \<Longrightarrow> decimal_len (sa_AwardRate a) \<le> maxDecimalLen awards"
    unfolding maxDecimalLen_def by (rule low)
qed

text \<open>The rates of a strategy: decimal numbers of \<open>k\<close> digits after the point, one of them with a
  last digit other than 0, that add up to 1.\<close>

definition decimal_rates :: "nat \<Rightarrow> int list \<Rightarrow> StrategyAward list \<Rightarrow> bool" where
  "decimal_rates k ds awards \<longleftrightarrow>
     map sa_AwardRate awards = map (decimal k) ds \<and> (\<forall>d \<in> set ds. 0 \<le> d) \<and> sum_list ds = 10 ^ k \<and>
     k \<le> 9 \<and> (k = 0 \<or> (\<exists>d \<in> set ds. \<not> 10 dvd d)) \<and> length ds \<le> 2 ^ 11"

lemma decimal_rates_range:
  assumes "decimal_rates k ds awards"
  shows "maxDecimalLen awards = k" and "\<exists>t. totalRate awards = Fin t \<and> \<bar>t - 1\<bar> \<le> 1 / 2 ^ 40"
proof -
  have rates: "sa_AwardRate ` set awards = decimal k ` set ds"
    using assms by (metis decimal_rates_def list.set_map)
  have ds: "0 \<le> d" "d \<le> 10 ^ k" if "d \<in> set ds" for d
    using that assms member_le_sum_list [of d ds] by (auto simp: decimal_rates_def)
  have k: "k \<le> 9" using assms by (simp add: decimal_rates_def)
  have le: "\<forall>a \<in> set awards. decimal_len (sa_AwardRate a) \<le> k"
    using rates decimal_len_decimal(1) [OF k ds] by (metis (no_types, lifting) imageE imageI)
  show "maxDecimalLen awards = k"
  proof (rule antisym)
    show "maxDecimalLen awards \<le> k" using le by (rule maxDecimalLen_bounds)
    show "k \<le> maxDecimalLen awards"
    proof (cases "k = 0")
      case False
      then obtain d where d: "d \<in> set ds" "\<not> 10 dvd d" using assms by (auto simp: decimal_rates_def)
      then have "decimal k d \<in> sa_AwardRate ` set awards" using rates by simp
      then obtain a where "a \<in> set awards" "sa_AwardRate a = decimal k d" by (metis imageE)
      then show ?thesis
        using maxDecimalLen_bounds(2) [of a awards] decimal_len_decimal(2) [OF k ds [OF d(1)]] d(2) by simp
    qed simp
  qed
  have "\<exists>t. foldl fadd (Fin 0) (map (decimal k) ds) = Fin t \<and>
      \<bar>t - of_int (0 + sum_list ds) / 10 ^ k\<bar> \<le> of_nat (0 + length ds) / 2 ^ 51"
    using assms by (intro sum_of_decimals) (simp_all add: decimal_rates_def)
  then obtain t where t: "totalRate awards = Fin t" "\<bar>t - 1\<bar> \<le> of_nat (length ds) / 2 ^ 51"
    using assms by (auto simp: totalRate_def decimal_rates_def)
  have "(of_nat (length ds) :: rat) \<le> of_nat (2 ^ 11)" using assms by (simp only: of_nat_le_iff decimal_rates_def)
  then have "of_nat (length ds) / 2 ^ 51 \<le> (1 / 2 ^ 40 :: rat)" by simp
  with t show "\<exists>t. totalRate awards = Fin t \<and> \<bar>t - 1\<bar> \<le> 1 / 2 ^ 40" by (meson order_trans)
qed

lemma length_slots:
  "length as = length ds \<Longrightarrow> \<forall>d \<in> set ds. 0 \<le> d \<Longrightarrow>
   int (length (concat (map (\<lambda>(a, d). replicate (nat d) (f a)) (zip as ds)))) = sum_list ds"
  by (induction as ds rule: list_induct2) simp_all

lemma decimal_pool:
  assumes "decimal_rates k ds awards"
  shows "strategyAwardPool awards = concat (map (\<lambda>(a, d). replicate (nat d) (sa_AwardID a)) (zip awards ds))"
    and "length (strategyAwardPool awards) = 10 ^ k" and "cap_ok (to_int (pow10 (maxDecimalLen awards)))"
proof -
  note r = decimal_rates_range [OF assms]
  obtain t where t: "totalRate awards = Fin t" "\<bar>t - 1\<bar> \<le> 1 / 2 ^ 40" using r(2) by blast
  have k: "k \<le> 9" using assms by (simp add: decimal_rates_def)
  have p: "pow10 (maxDecimalLen awards) = Fin (10 ^ k)" using r(1) k pow10_exact by simp
  have rates: "map sa_AwardRate awards = map (decimal k) ds" using assms by (simp add: decimal_rates_def)
  then have len: "length awards = length ds" by (rule map_eq_imp_length_eq)
  have ds: "0 \<le> d" "d \<le> 10 ^ k" if "d \<in> set ds" for d
    using that assms member_le_sum_list [of d ds] by (auto simp: decimal_rates_def)
  have slot: "slot_count (Fin (10 ^ k)) (Fin t) (awards ! i) = ds ! i" if "i < length ds" for i
  proof -
    have "sa_AwardRate (awards ! i) = decimal k (ds ! i)"
      using arg_cong [OF rates, of "\<lambda>xs. xs ! i"] that len by simp
    then show ?thesis using slots_of_decimal [OF k ds t(2)] that by (simp add: slot_count_def)
  qed
  show pool: "strategyAwardPool awards = concat (map (\<lambda>(a, d). replicate (nat d) (sa_AwardID a)) (zip awards ds))"
    unfolding strategyAwardPool_def Let_def p t(1)
    by (rule arg_cong [of _ _ concat], rule nth_equalityI) (use len slot in simp_all)
  have "int (length (strategyAwardPool awards)) = sum_list ds"
    unfolding pool using len ds(1) by (intro length_slots) simp_all
  then have "int (length (strategyAwardPool awards)) = int (10 ^ k)"
    using assms by (simp add: decimal_rates_def)
  then show "length (strategyAwardPool awards) = 10 ^ k" by (simp only: of_nat_eq_iff)
  have "k \<in> {0, 1, 2, 3, 4, 5, 6, 7, 8, 9}" using k by auto
  then show "cap_ok (to_int (pow10 (maxDecimalLen awards)))"
    unfolding p by (auto simp: cap_ok_def to_int_def)
qed

end
