(* ===== verification/Rule_Chain.thy ===== *)
theory Rule_Chain
  imports Armory
begin

text \<open>
  \<open>internal/biz/strategy/rule_chain.go\<close>: the chain of responsibility before a draw. A chain is the
  list of its nodes: \<open>openLogicChain\<close> clones the nodes of \<open>logicChainGroup\<close> and links them, and
  \<open>next()\<close> of the last one is nil, so that asking it for its logic panics. The lemmas show that the
  chains \<open>openLogicChain\<close> builds end in the default node, so that none of them gets there.
\<close>

datatype logicNode = defaultChain | ruleBlackListLogic | ruleWeightLogic

record logicResult =
  lr_AwardID :: int
  lr_LogicModel :: RuleChainName

definition logicChainGroup :: "RuleChainName \<rightharpoonup> logicNode" where
  "logicChainGroup =
     [RuleBlacklist \<mapsto> ruleBlackListLogic, RuleWeight \<mapsto> ruleWeightLogic, RuleDefault \<mapsto> defaultChain]"

text \<open>The chain for a list of models: an unknown first model falls back to the default node alone,
  unknown later ones are left out, and a default node is always appended.\<close>

definition chain_of :: "RuleChainName list \<Rightarrow> logicNode list" where
  "chain_of ruleModels =
     (case ruleModels of
        [] \<Rightarrow> [defaultChain]
      | m # ms \<Rightarrow>
          (case logicChainGroup m of
             None \<Rightarrow> [defaultChain]
           | Some firstNode \<Rightarrow> firstNode # List.map_filter logicChainGroup ms @ [defaultChain]))"

definition openLogicChain :: "strategy_repo \<Rightarrow> int \<Rightarrow> logicNode list M" where
  "openLogicChain repo sid =
     bindE (s_QueryStrategyEntity repo sid) (\<lambda>strategy. ret (chain_of (GetRuleModels strategy)))"

section \<open>The nodes\<close>

definition default_logic :: "services \<Rightarrow> strategy_repo \<Rightarrow> int \<Rightarrow> logicResult M" where
  "default_logic svc repo sid =
     bindE (getRandomAwardIDWithWeight svc repo sid '''') (\<lambda>awardID.
     ret \<lparr>lr_AwardID = awardID, lr_LogicModel = RuleDefault\<rparr>)"

text \<open>\<open>award:user,user,...\<close>: a listed user gets the award, the others go on to the next node.\<close>

definition blacklist_logic :: "strategy_repo \<Rightarrow> logicResult M \<Rightarrow> string \<Rightarrow> int \<Rightarrow> logicResult M" where
  "blacklist_logic repo nxt uid sid =
     bindE (s_QueryStrategyRuleValue repo sid RuleBlacklist) (\<lambda>ruleValue.
     case split COLON ruleValue of
       award # users # _ \<Rightarrow>
         caseE (liftR (ParseInt award)) (\<lambda>e. fail (ErrBlackListConfigParseFailed e)) (\<lambda>awardID.
         if uid \<in> set (split SPLIT users) then ret \<lparr>lr_AwardID = awardID, lr_LogicModel = RuleBlacklist\<rparr>
         else nxt)
     | _ \<Rightarrow> fail ErrBlackListConfigInvalid)"

text \<open>\<open>getAnalyticalValue\<close>: the thresholds and the awards of \<open>4000:101,102 6000:103\<close>.\<close>

fun analytical_groups :: "string list \<Rightarrow> (int \<times> string) list \<Rightarrow> (int \<times> string) list res" where
  "analytical_groups [] m = Ok m"
| "analytical_groups (r # rs) m =
     (if r = '''' then analytical_groups rs m
      else case split COLON r of
             k # v # _ \<Rightarrow> bindR (Atoi k) (\<lambda>key. analytical_groups rs (put key v m))
           | _ \<Rightarrow> Err ErrRuleWeightConfigInvalid)"

definition getAnalyticalValue :: "string \<Rightarrow> (int \<times> string) list res" where
  "getAnalyticalValue ruleValue = analytical_groups (split SPACE ruleValue) []"

text \<open>\<open>for i := len(keys) - 1; i >= 0; i--\<close>: the first key from the end that the score reaches.\<close>

fun reached :: "int \<Rightarrow> int list \<Rightarrow> int option" where
  "reached userScore [] = None"
| "reached userScore (k # ks) = (if k \<le> userScore then Some k else reached userScore ks)"

definition weight_logic :: "services \<Rightarrow> strategy_repo \<Rightarrow> logicResult M \<Rightarrow> string \<Rightarrow> int \<Rightarrow> logicResult M" where
  "weight_logic svc repo nxt uid sid =
     bindE (s_QueryStrategyValue repo sid RuleWeight) (\<lambda>ruleValue.
     bindE (liftR (getAnalyticalValue ruleValue)) (\<lambda>groups.
     if groups = [] then nxt
     else
       let keys = sort (map fst groups) in
       bindE (s_QueryTotalUseCount repo uid sid) (\<lambda>userScore.
       case reached userScore (rev keys) of
         Some k \<Rightarrow>
           bindE (getRandomAwardIDWithWeight svc repo sid (FormatInt k)) (\<lambda>awardID.
           ret \<lparr>lr_AwardID = awardID, lr_LogicModel = RuleWeight\<rparr>)
       | None \<Rightarrow> nxt)))"

fun logic :: "services \<Rightarrow> strategy_repo \<Rightarrow> logicNode list \<Rightarrow> string \<Rightarrow> int \<Rightarrow> logicResult M" where
  "logic svc repo [] uid sid = panic ''runtime error: nil pointer dereference''"
| "logic svc repo (n # ns) uid sid =
     (case n of
        defaultChain \<Rightarrow> default_logic svc repo sid
      | ruleBlackListLogic \<Rightarrow> blacklist_logic repo (logic svc repo ns uid sid) uid sid
      | ruleWeightLogic \<Rightarrow> weight_logic svc repo (logic svc repo ns uid sid) uid sid)"

section \<open>Lemmas\<close>

subsection \<open>The greatest threshold\<close>

text \<open>The award group a score is entitled to: the greatest threshold it reaches.\<close>

definition entitled :: "int \<Rightarrow> int set \<Rightarrow> int option" where
  "entitled userScore ks =
     (let low = {k \<in> ks. k \<le> userScore} in if low = {} then None else Some (Max low))"

lemma reached_sorted_desc:
  assumes "sorted (rev ks)"
  shows "reached s ks = entitled s (set ks)"
  using assms
proof (induction ks)
  case (Cons k ks)
  have le: "\<forall>x \<in> set ks. x \<le> k" and sorted: "sorted (rev ks)" using Cons.prems by (auto simp: sorted_append)
  show ?case
  proof (cases "k \<le> s")
    case True
    have "Max {x \<in> set (k # ks). x \<le> s} = k"
      by (rule Max_eqI) (use le True in auto)
    then show ?thesis using True by (auto simp: entitled_def Let_def)
  next
    case False
    then have "{x \<in> set (k # ks). x \<le> s} = {x \<in> set ks. x \<le> s}" by auto
    then show ?thesis using False Cons.IH [OF sorted] by (simp add: entitled_def Let_def)
  qed
qed (simp add: entitled_def)

lemma reached_keys: "reached s (rev (sort ks)) = entitled s (set ks)"
  by (subst reached_sorted_desc) simp_all

subsection \<open>The chains that are built\<close>

lemma group_ne: "logicChainGroup m = Some n \<Longrightarrow> m \<in> {RuleBlacklist, RuleWeight, RuleDefault}"
  by (auto simp: logicChainGroup_def split: if_splits)

lemma chain_of_ends: "chain_of ms \<noteq> []" "last (chain_of ms) = defaultChain"
  by (auto simp: chain_of_def split: list.split option.split)

lemma default_no_panic:
  "(\<And>w. fst (getRandomAwardIDWithWeight svc repo sid '''' w) \<noteq> Panic s) \<Longrightarrow>
   fst (default_logic svc repo sid w) \<noteq> Panic s"
  by (auto simp: default_logic_def bindE_def split: prod.split res.split) (metis fst_conv)

end
