(* ===== verification/Draw.thy ===== *)
theory Draw
  imports Armory
begin

text \<open>
  The properties of assembling the award pool of a strategy and drawing from it: the number of
  slots, what a draw can give, and that assembling followed by a draw succeeds.
\<close>

section \<open>Assembling and drawing without faults\<close>

text \<open>All calls happen within the ten days that the pool lives.\<close>

definition within_ttl :: "services \<Rightarrow> bool" where
  "within_ttl svc \<longleftrightarrow> (\<forall>m n. svc_rtime svc m < svc_rtime svc n + days10)"

definition no_other_type :: "string \<Rightarrow> keyspace \<Rightarrow> bool" where
  "no_other_type key ks \<longleftrightarrow> (\<forall>v dl. ks key = Some (v, dl) \<longrightarrow> (\<exists>h. v = RHash h))"

lemma pipe_HSET_EXPIRE_served:
  assumes "redis_ok svc" and "0 < ttl" and "fvs \<noteq> []" and "no_other_type key (rkeys w)"
  shows "\<exists>w'. pipe_run svc [HSET key fvs, EXPIRE key ttl] w = (Ok (), w') \<and> tick w' = tick w"
  using assms
  by (auto simp: caseE_def server_call_def redis_ok_def redis_doc_def Let_def live_upd no_other_type_def
      split: option.split rval.split dest!: live_SomeD)

lemma within_live:
  assumes "within_ttl svc" and "rkeys w k = Some (v, Some (svc_rtime svc n + days10))"
  shows "live (svc_rtime svc m) (rkeys w) k = Some (v, Some (svc_rtime svc n + days10))"
  using assms by (simp add: live_def within_ttl_def)

lemma StoreStrategyAwardPool_served:
  assumes ok: "redis_ok svc" "no_faults svc" "within_ttl svc" and pool: "pool \<noteq> []" "is_int64 (int (length pool))"
    and ty: "no_other_type (GetStrategyRateTableKey sid) (rkeys w)"
  shows "\<exists>w' m n h. StoreStrategyAwardPool svc sid (int (length pool)) (idxToAwardIDMap pool) w = (Ok (), w') \<and>
      rkeys w' (GetStrategyRateRangeKey sid) = Some (RStr (FormatInt (int (length pool))), Some (svc_rtime svc m + days10)) \<and>
      rkeys w' (GetStrategyRateTableKey sid) = Some (RHash h, Some (svc_rtime svc n + days10))"
proof -
  let ?r = "GetStrategyRateRangeKey sid" and ?t = "GetStrategyRateTableKey sid"
  let ?fvs = "map (\<lambda>(k, v). (FormatInt k, FormatInt v)) (idxToAwardIDMap pool)"
  let ?v = "(RStr (FormatInt (int (length pool))), Some (rnow svc w + days10))"
  let ?w = "set_keys ((live (rnow svc w) (rkeys w))(?r \<mapsto> ?v)) (bump w)"
  have nf: "svc_fault svc n = NoFault" for n using ok(2) by (simp add: no_faults_def)
  have put: "cache_put svc int_codec ?r (int (length pool)) days10 w = (Ok (), ?w)"
    by (rule cache_put_served [OF ok(1) days10_second(1) nf]) (use pool(2) in simp)
  have ne: "?fvs \<noteq> []" using pool(1) by (cases pool) (simp_all add: idxToAwardIDMap_def)
  have "no_other_type ?t (rkeys (bump ?w))"
    using ty by (auto simp: no_other_type_def rate_keys_neq [symmetric] dest: live_SomeD)
  then obtain w' where w': "pipe_run svc [HSET ?t ?fvs, EXPIRE ?t days10] (bump ?w) = (Ok (), w')"
    using pipe_HSET_EXPIRE_served [OF ok(1) days10_second(2) ne] by blast
  note keys = pipe_HSET_EXPIRE [OF ok(1) days10_second(2) w']
  have "StoreStrategyAwardPool svc sid (int (length pool)) (idxToAwardIDMap pool) w = (Ok (), w')"
    using put w' days10_second(2)
    by (simp add: StoreStrategyAwardPool_def bindE_def HSetWithTTL_def remote_no_fault nf)
  moreover have "rkeys w' ?r = Some ?v"
    using keys [of ?r] within_live [OF ok(3), of ?w ?r] by simp
  moreover have "\<exists>h. rkeys w' ?t = Some (RHash h, Some (svc_rtime svc (Suc (Suc (tick w))) + days10))"
    using keys [of ?t] by simp
  ultimately show ?thesis by blast
qed

lemma GetRateRange_served:
  assumes "redis_ok svc" and "no_faults svc" and "within_ttl svc" and "is_int64 n"
    and "rkeys w (GetStrategyRateRangeKey sid) = Some (RStr (FormatInt n), Some (svc_rtime svc m + days10))"
  shows "GetRateRange svc sid w = (Ok n, touched svc w)"
proof -
  have "redis_Get svc (GetStrategyRateRangeKey sid) w = (Ok (FormatInt n), touched svc w)"
    using assms(1,2) within_live [OF assms(3,5)] by (intro redis_Get_hit) (simp_all add: no_faults_def)
  then show ?thesis
    using assms(4) by (simp add: GetRateRange_def Get_def cache_get_def getBytes_myCache caseE_def bindE_def int_codec_def FormatInt_not_null)
qed

lemma GetStrategyAwardAssemble_served:
  assumes "redis_ok svc" and "no_faults svc" and "within_ttl svc" and "is_int64 a"
    and "rkeys w (GetStrategyRateTableKey sid) = Some (RHash h, Some (svc_rtime svc m + days10))"
    and "h (FormatInt i) = Some (FormatInt a)"
  shows "GetStrategyAwardAssemble svc sid i w = (Ok a, touched svc w)"
  using assms(1,2,4,6) within_live [OF assms(3,5), of "Suc (tick w)"]
  by (simp add: GetStrategyAwardAssemble_def cache_HGet_def redis_served no_faults_def bindE_def touched_def
      ParseInt_FormatInt)

lemma draw_served:
  assumes ok: "redis_ok svc" "no_faults svc" "within_ttl svc" "secure_int_ok svc"
    and rnd: "\<And>n m. \<exists>x. svc_secure_int svc n m = Ok x"
    and pool: "pool \<noteq> []" "is_int64 (int (length pool))" "\<forall>a \<in> set pool. is_int64 a" "pool_held sid pool (rkeys w)"
    and r: "rkeys w (GetStrategyRateRangeKey sid) = Some (RStr (FormatInt (int (length pool))), Some (svc_rtime svc m + days10))"
    and t: "rkeys w (GetStrategyRateTableKey sid) = Some (RHash h, Some (svc_rtime svc n + days10))"
  shows "\<exists>a w'. getRandomAwardID svc (strategy_repo_of svc rt) sid w = (Ok a, w') \<and> a \<in> set pool"
proof -
  let ?w = "touched svc w"
  obtain i where i: "svc_secure_int svc (tick ?w) (int (length pool)) = Ok i" using rnd by blast
  have ib: "0 \<le> i" "i < int (length pool)" using i ok(4) pool(1) by (auto simp: secure_int_ok_def)
  have "rkeys (bump ?w) (GetStrategyRateTableKey sid) = Some (RHash h, Some (svc_rtime svc n + days10))"
    using within_live [OF ok(3) t] by simp
  moreover have "h (FormatInt i) = Some (FormatInt (pool ! nat i))"
    using pool(4) t ib by (auto simp: pool_held_def dest: spec [of _ "nat i"])
  moreover have "is_int64 (pool ! nat i)" using pool(3) ib by simp
  ultimately have "GetStrategyAwardAssemble svc sid i (bump ?w) = (Ok (pool ! nat i), touched svc (bump ?w))"
    by (intro GetStrategyAwardAssemble_served [OF ok(1-3)])
  moreover have "GetRateRange svc sid w = (Ok (int (length pool)), ?w)"
    by (rule GetRateRange_served [OF ok(1-3) pool(2) r])
  ultimately have "getRandomAwardID svc (strategy_repo_of svc rt) sid w = (Ok (pool ! nat i), touched svc (bump ?w))"
    using pool(1) i by (simp add: getRandomAwardID_def caseE_def GetSecureRandomInt_def)
  then show ?thesis using ib by (metis nat_less_iff nth_mem)
qed

lemma assemble_served:
  assumes "redis_ok svc" and "no_faults svc" and "within_ttl svc"
    and "cap_ok (to_int (pow10 (maxDecimalLen awards)))"
    and "strategyAwardPool awards \<noteq> []" and "is_int64 (int (length (strategyAwardPool awards)))"
    and "no_other_type (GetStrategyRateTableKey sid) (rkeys w)"
  shows "\<exists>w1 pool m n h. assembleLotteryStrategyWithAwards svc (strategy_repo_of svc rt) sid awards w = (Ok (), w1) \<and>
      length pool = length (strategyAwardPool awards) \<and> set pool = set (strategyAwardPool awards) \<and>
      pool_held sid pool (rkeys w1) \<and>
      rkeys w1 (GetStrategyRateRangeKey sid) = Some (RStr (FormatInt (int (length pool))), Some (svc_rtime svc m + days10)) \<and>
      rkeys w1 (GetStrategyRateTableKey sid) = Some (RHash h, Some (svc_rtime svc n + days10))"
proof -
  define pool where "pool = shuffle_loop (svc_shuffle svc (tick w)) (length (strategyAwardPool awards) - 1) (strategyAwardPool awards)"
  have len: "length pool = length (strategyAwardPool awards)" and set: "set pool = set (strategyAwardPool awards)"
    by (simp_all add: pool_def del: One_nat_def)
  obtain w1 m n h where st: "StoreStrategyAwardPool svc sid (int (length pool)) (idxToAwardIDMap pool) (bump w) = (Ok (), w1)"
    "rkeys w1 (GetStrategyRateRangeKey sid) = Some (RStr (FormatInt (int (length pool))), Some (svc_rtime svc m + days10))"
    "rkeys w1 (GetStrategyRateTableKey sid) = Some (RHash h, Some (svc_rtime svc n + days10))"
    using StoreStrategyAwardPool_served [OF assms(1-3), of pool sid "bump w"] assms(5-7) len by fastforce
  have "assembleLotteryStrategyWithAwards svc (strategy_repo_of svc rt) sid awards w = (Ok (), w1)"
    using assms(4) st(1) by (simp add: assembleLotteryStrategyWithAwards_def bindE_def Shuffle_def del: One_nat_def flip: pool_def)
  moreover have "pool_held sid pool (rkeys w1)" by (rule StoreStrategyAwardPool_holds [OF assms(1) st(1)])
  ultimately show ?thesis using len set st(2,3) by blast
qed

lemma assemble_draw_run:
  assumes "redis_ok svc" and "no_faults svc" and "within_ttl svc" and "secure_int_ok svc"
    and "\<And>n m. \<exists>x. svc_secure_int svc n m = Ok x"
    and "cap_ok (to_int (pow10 (maxDecimalLen awards)))"
    and "strategyAwardPool awards \<noteq> []" and "is_int64 (int (length (strategyAwardPool awards)))"
    and "\<forall>aw \<in> set awards. is_int64 (sa_AwardID aw)"
    and "no_other_type (GetStrategyRateTableKey sid) (rkeys w)"
  shows "\<exists>a w'. bindE (assembleLotteryStrategyWithAwards svc (strategy_repo_of svc rt) sid awards)
                  (\<lambda>_. getRandomAwardID svc (strategy_repo_of svc rt) sid) w = (Ok a, w') \<and>
               a \<in> sa_AwardID ` set awards"
proof -
  obtain w1 pool m n h where
    as: "assembleLotteryStrategyWithAwards svc (strategy_repo_of svc rt) sid awards w = (Ok (), w1)" and
    pool: "length pool = length (strategyAwardPool awards)" "set pool = set (strategyAwardPool awards)" and
    held: "pool_held sid pool (rkeys w1)" and
    st: "rkeys w1 (GetStrategyRateRangeKey sid) = Some (RStr (FormatInt (int (length pool))), Some (svc_rtime svc m + days10))"
      "rkeys w1 (GetStrategyRateTableKey sid) = Some (RHash h, Some (svc_rtime svc n + days10))"
    using assemble_served [OF assms(1-3,6-8,10), of rt] by blast
  have sub: "set pool \<subseteq> sa_AwardID ` set awards" unfolding pool(2) by (auto simp: in_pool_iff)
  obtain a w' where "getRandomAwardID svc (strategy_repo_of svc rt) sid w1 = (Ok a, w')" "a \<in> set pool"
    using draw_served [OF assms(1-5) _ _ _ _ st, of rt] held assms(7-9) pool(1) sub by fastforce
  then show ?thesis using as sub by (auto simp: bindE_def)
qed

text \<open>
  C27. The number of slots is exact: for at most 2048 awards whose rates are decimal numbers of at
  most nine digits that add up to 1, the \<open>float64\<close> arithmetic of the assembly gives every award
  exactly its rate times \<open>10^k\<close> slots out of \<open>10^k\<close>, as exact decimal arithmetic would: the rounding
  of the sum, of the quotient and of the product cancels, \<open>FormatFloat\<close> finds the \<open>k\<close> digits, and
  the allocation does not panic.
\<close>

theorem pool_of_decimal_rates:
  assumes "decimal_rates k ds awards"
  shows "strategyAwardPool awards = concat (map (\<lambda>(a, d). replicate (nat d) (sa_AwardID a)) (zip awards ds)) \<and>
         length (strategyAwardPool awards) = 10 ^ k \<and> cap_ok (to_int (pow10 (maxDecimalLen awards)))"
  using decimal_pool [OF assms] by simp

text \<open>Two awards with rates 0.8 and 0.2.\<close>

definition demo_award :: "int \<Rightarrow> int \<Rightarrow> StrategyAward" where
  "demo_award aid d =
     \<lparr>sa_StrategyID = 1, sa_AwardID = aid, sa_AwardTitle = ''award'', sa_AwardSubtitle = '''', sa_AwardCount = 10,
      sa_AwardCountSurplus = 10, sa_AwardRate = decimal 1 d, sa_Sort = 1, sa_RuleModels = ''''\<rparr>"

abbreviation demo_awards :: "StrategyAward list" where
  "demo_awards \<equiv> [demo_award 101 8, demo_award 102 2]"

abbreviation demo_svc :: services where
  "demo_svc \<equiv> sample_svc (\<lambda>_ _ _. False)"

abbreviation demo_repo :: strategy_repo where
  "demo_repo \<equiv> strategy_repo_of demo_svc (NewDBRouter 2 4)"

lemma demo_rates: "decimal_rates 1 [8, 2] demo_awards"
  by (simp add: decimal_rates_def demo_award_def)

theorem pool_of_decimal_rates_witness:
  "strategyAwardPool demo_awards = [101, 101, 101, 101, 101, 101, 101, 101, 102, 102]"
  using pool_of_decimal_rates [OF demo_rates] by (simp add: demo_award_def numeral_eq_Suc)

lemma demo_conditions:
  "no_faults demo_svc" "within_ttl demo_svc" "secure_int_ok demo_svc" "\<exists>x. svc_secure_int demo_svc n m = Ok x"
  by (auto simp: no_faults_def within_ttl_def secure_int_ok_def sample_svc_def days10_def hour_def second_def)

lemma demo_pool:
  "cap_ok (to_int (pow10 (maxDecimalLen demo_awards)))" "strategyAwardPool demo_awards \<noteq> []"
  "is_int64 (int (length (strategyAwardPool demo_awards)))" "\<forall>aw \<in> set demo_awards. is_int64 (sa_AwardID aw)"
  "no_other_type k (rkeys empty_world)"
  using decimal_pool(2,3) [OF demo_rates] by (auto simp: is_int64_small demo_award_def no_other_type_def)

text \<open>
  C28. Whatever the network does, a draw never gives an award that cannot be won: once the pool of a
  strategy has been assembled, every draw that returns an award returns one of the strategy's awards
  that got at least one slot, as long as nothing but expiry has touched the two Redis keys of the pool.
\<close>

theorem draw_is_an_award:
  assumes "redis_ok svc" and "secure_int_ok svc"
    and "assembleLotteryStrategyWithAwards svc (strategy_repo_of svc rt) sid awards w = (Ok u, w1)"
    and "rkeys w2 (GetStrategyRateRangeKey sid) \<in> {None, rkeys w1 (GetStrategyRateRangeKey sid)}"
    and "rkeys w2 (GetStrategyRateTableKey sid) \<in> {None, rkeys w1 (GetStrategyRateTableKey sid)}"
    and "getRandomAwardID svc (strategy_repo_of svc rt) sid w2 = (Ok a, w3)"
  shows "\<exists>aw \<in> set awards. sa_AwardID aw = a \<and>
           0 < slot_count (pow10 (maxDecimalLen awards)) (totalRate awards) aw"
proof -
  have ok: "(case (svc, rt) of (svc, rt) \<Rightarrow> redis_ok svc)" using assms(1) by simp
  obtain pool where pool: "mset pool = mset (strategyAwardPool awards)" "pool_held sid pool (rkeys w1)"
    using ap.assembled_held [OF ok, of svc sid awards w u w1] assms(3) by auto
  have "pool_held sid pool (rkeys w2)" using assms(4,5) pool(2)
    by (elim insertE emptyE) (simp_all add: pool_held_def)
  then have "a \<in> set pool" using ap.draw_from_held [OF ok assms(2)] assms(6) by simp
  then have "a \<in> set (strategyAwardPool awards)" using pool(1) by (metis set_mset_mset)
  then show ?thesis by (simp add: in_pool_iff)
qed

theorem draw_is_an_award_witness:
  "\<exists>a w1 w2. assembleLotteryStrategyWithAwards demo_svc demo_repo ''1'' demo_awards empty_world = (Ok (), w1) \<and>
     getRandomAwardID demo_svc demo_repo ''1'' w1 = (Ok a, w2) \<and>
     (\<exists>aw \<in> set demo_awards. sa_AwardID aw = a \<and>
        0 < slot_count (pow10 (maxDecimalLen demo_awards)) (totalRate demo_awards) aw)"
proof -
  obtain a w1 w2 where run: "assembleLotteryStrategyWithAwards demo_svc demo_repo ''1'' demo_awards empty_world = (Ok (), w1)"
      "getRandomAwardID demo_svc demo_repo ''1'' w1 = (Ok a, w2)"
    using assemble_draw_run [OF redis_ok_sample demo_conditions demo_pool, where sid = "''1''" and rt = "NewDBRouter 2 4"] by auto
  then show ?thesis
    using draw_is_an_award [OF redis_ok_sample demo_conditions(3) run(1) _ _ run(2)] by blast
qed

text \<open>
  C29. Assembling a strategy and drawing from it succeeds: when the services answer, within the ten
  days the pool lives, a strategy whose rates leave at least one slot can be assembled, and a draw
  then returns one of its awards. The allocation of the pool does not panic, the size that is
  read is positive, and the slot that is drawn exists.
\<close>

theorem assemble_then_draw:
  assumes "redis_ok svc" and "no_faults svc" and "within_ttl svc" and "secure_int_ok svc"
    and "\<And>n m. \<exists>x. svc_secure_int svc n m = Ok x"
    and "cap_ok (to_int (pow10 (maxDecimalLen awards)))"
    and "strategyAwardPool awards \<noteq> []" and "is_int64 (int (length (strategyAwardPool awards)))"
    and "\<forall>aw \<in> set awards. is_int64 (sa_AwardID aw)"
    and "no_other_type (GetStrategyRateTableKey sid) (rkeys w)"
  shows "\<exists>a w'. bindE (assembleLotteryStrategyWithAwards svc (strategy_repo_of svc rt) sid awards)
                  (\<lambda>_. getRandomAwardID svc (strategy_repo_of svc rt) sid) w = (Ok a, w') \<and>
               a \<in> sa_AwardID ` set awards"
  by (rule assemble_draw_run) (fact assms)+

theorem assemble_then_draw_witness:
  "\<exists>a w'. bindE (assembleLotteryStrategyWithAwards demo_svc demo_repo ''1'' demo_awards)
            (\<lambda>_. getRandomAwardID demo_svc demo_repo ''1'') empty_world = (Ok a, w') \<and> a \<in> sa_AwardID ` set demo_awards"
  by (rule assemble_then_draw [OF redis_ok_sample demo_conditions demo_pool])

end
