(* ===== verification/Weights.thy ===== *)
theory Weights
  imports Rule_Chain Draw
begin

text \<open>
  The award groups of a weight rule from the text of the rule to the draw: the armory stores a pool
  for every group under the text of its threshold, and the chain reads the same text as numbers, picks
  the greatest threshold that the user's score reaches and draws from the pool of its decimal
  representation. \<open>spares\<close> carries the argument that storing one pool leaves the others alone.
\<close>

section \<open>Keys that a computation spares\<close>

text \<open>Whatever happens, the key keeps its entry or has expired.\<close>

definition spares :: "string \<Rightarrow> 'a M \<Rightarrow> bool" where
  "spares k m \<longleftrightarrow> (\<forall>w. rkeys (snd (m w)) k \<in> {None, rkeys w k})"

lemma sparesD: "spares k m \<Longrightarrow> m w = (r, w') \<Longrightarrow> rkeys w' k \<in> {None, rkeys w k}"
  by (metis spares_def snd_conv)

lemma spares_ret: "spares k (ret x)"
  by (simp add: spares_def)

lemma spares_if: "spares k m \<Longrightarrow> spares k n \<Longrightarrow> spares k (if b then m else n)"
  by simp

lemma spares_basic: "spares k (fail e)" "spares k (panic s)" "spares k (liftR r)"
  by (simp_all add: spares_def)

lemma spares_caseE:
  assumes "spares k m" and "\<And>e. spares k (h e)" and "\<And>x. spares k (f x)"
  shows "spares k (caseE m h f)"
  unfolding spares_def
proof
  fix w
  obtain r w' where m: "m w = (r, w')" by fastforce
  have "rkeys w' k \<in> {None, rkeys w k}" using sparesD [OF assms(1) m] .
  moreover have "rkeys (snd (caseE m h f w)) k \<in> {None, rkeys w' k}"
    using assms(2,3) m by (cases r) (auto simp: caseE_def spares_def)
  ultimately show "rkeys (snd (caseE m h f w)) k \<in> {None, rkeys w k}" by auto
qed

lemma spares_bindE: "spares k m \<Longrightarrow> (\<And>x. spares k (f x)) \<Longrightarrow> spares k (bindE m f)"
  unfolding caseE_fail_is_bindE [symmetric] by (rule spares_caseE) (simp_all add: spares_basic)

lemma spares_ignoreE: "spares k m \<Longrightarrow> spares k (ignoreE m)"
  unfolding ignoreE_def by (intro spares_caseE spares_ret)

lemma spares_remote: "spares k m \<Longrightarrow> spares k (remote svc m)"
  unfolding spares_def remote_def
  by (auto split: fault.split)

fun cmd_key :: "rcmd \<Rightarrow> string" where
  "cmd_key (GET k) = k"
| "cmd_key (SET k _ _) = k"
| "cmd_key (SETNX k _ _) = k"
| "cmd_key (SETXX k _ _) = k"
| "cmd_key (INCRBY k _) = k"
| "cmd_key (DEL k) = k"
| "cmd_key (HSET k _) = k"
| "cmd_key (HGET k _) = k"
| "cmd_key (HMGET k _) = k"
| "cmd_key (EXPIRE k _) = k"
| "cmd_key (RPUSH k _) = k"

lemma redis_step_other: "k \<noteq> cmd_key c \<Longrightarrow> snd (redis_step t c ks) k = ks k"
  by (cases c) (auto split: option.split rval.split prod.split)

lemma spares_server_call:
  assumes "redis_ok svc" and "k \<noteq> cmd_key c"
  shows "spares k (server_call svc c)"
proof -
  have "rkeys (snd (server_call svc c w)) k = live (svc_rtime svc (tick w)) (rkeys w) k" for w
    using assms redis_step_other [of k c "svc_rtime svc (tick w)" "live (svc_rtime svc (tick w)) (rkeys w)"]
    by (simp add: server_call_def redis_ok_def redis_doc_def Let_def case_prod_unfold split: rreply.split)
  then show ?thesis by (auto simp: spares_def live_def split: option.split)
qed

lemma spares_pipe: "redis_ok svc \<Longrightarrow> \<forall>c \<in> set cs. k \<noteq> cmd_key c \<Longrightarrow> spares k (pipe_run svc cs)"
proof (induction cs)
  case (Cons c cs)
  then show ?case
    unfolding pipe_run.simps
    by (intro spares_caseE spares_bindE spares_ignoreE spares_basic spares_server_call) auto
qed (simp add: spares_ret)

lemma spares_redis: "redis_ok svc \<Longrightarrow> k \<noteq> cmd_key c \<Longrightarrow> spares k (redis svc c)"
  unfolding redis_def by (intro spares_remote spares_server_call)

lemma spares_store_item:
  assumes "redis_ok svc" and "k \<noteq> it_Key it"
  shows "spares k (store_item svc myCache it b)"
  unfolding store_item_def Let_def
  by (intro spares_if spares_ret spares_caseE spares_redis assms) (use assms in auto)

lemma spares_cache_put:
  assumes "redis_ok svc" and "k \<noteq> key"
  shows "spares k (cache_put svc c key v ttl)"
proof -
  have "spares k (store_item svc myCache (plain_item key v ttl) b)" for b
    by (rule spares_store_item) (use assms in \<open>auto simp: plain_item_def\<close>)
  then show ?thesis
    unfolding cache_put_def Set_def cache_set_def
    by (intro spares_bindE spares_caseE spares_ret) 
      (auto simp: plain_item_def Item_value_def spares_basic spares_ret split: option.split prod.split)
qed

subsection \<open>A cached query touches the key of its own entry only\<close>

lemma keeps_spares: "keeps rkeys m \<Longrightarrow> spares k m"
  by (simp add: keeps_def spares_def)

lemmas spares_intros = spares_ret spares_basic spares_if spares_caseE spares_bindE spares_ignoreE

lemma spares_cache_set:
  assumes "redis_ok svc" and "k \<noteq> it_Key it" and "spares k (Item_value it)"
  shows "spares k (cache_set svc myCache mc it)"
  unfolding cache_set_def local_none(2)
  by (intro spares_intros spares_store_item assms)

lemma spares_Once_depth:
  assumes "redis_ok svc" and "k \<noteq> it_Key it" and "spares k (Item_value it)"
  shows "spares k (Once_depth n svc myCache mc it)"
proof -
  have get: "spares k (redis_Get svc (it_Key it))"
    unfolding redis_Get_def
    by (intro spares_bindE spares_redis) (use assms in \<open>auto simp: spares_basic spares_ret split: rreply.split\<close>)
  have del: "spares k (Delete svc myCache (it_Key it))"
    unfolding Delete_def by (auto intro!: spares_intros spares_redis simp: assms)
  note set = spares_cache_set [OF assms, of mc]
  have once: "spares k (getSetItemBytesOnce svc myCache mc it)"
    by (auto intro!: spares_intros get set simp: getSetItemBytesOnce_def getBytes_myCache split: option.split)
  show ?thesis
  proof (induction n)
    case (Suc n)
    then show ?case by (auto intro!: spares_intros once del)
  qed (simp add: spares_def)
qed

lemma spares_cached:
  assumes "redis_ok svc" and "k \<noteq> key" and "spares k d"
  shows "spares k (cached svc c key ttl d)"
  unfolding cached_def Once_def by (intro spares_intros spares_Once_depth) (use assms in simp_all)

lemma spares_StoreStrategyAwardPool:
  assumes "redis_ok svc" and "k \<noteq> GetStrategyRateRangeKey sid" and "k \<noteq> GetStrategyRateTableKey sid"
  shows "spares k (StoreStrategyAwardPool svc sid n m)"
  unfolding StoreStrategyAwardPool_def HSetWithTTL_def
  by (intro spares_bindE spares_cache_put spares_if spares_basic spares_remote spares_pipe)
    (use assms in \<open>auto\<close>)

lemma pool_held_spared:
  assumes "pool_held sid pool ks" and "ks' (GetStrategyRateRangeKey sid) \<in> {None, ks (GetStrategyRateRangeKey sid)}"
    and "ks' (GetStrategyRateTableKey sid) \<in> {None, ks (GetStrategyRateTableKey sid)}"
  shows "pool_held sid pool ks'"
  using assms by (elim insertE emptyE) (simp_all add: pool_held_def)

section \<open>The pools of the groups\<close>

lemma rate_keys_inj [simp]:
  "GetStrategyRateRangeKey s = GetStrategyRateRangeKey s' \<longleftrightarrow> s = s'"
  "GetStrategyRateTableKey s = GetStrategyRateTableKey s' \<longleftrightarrow> s = s'"
  by (simp_all add: strategy_key_defs)

lemma spares_assemble_with:
  assumes "redis_ok svc" and "k \<noteq> GetStrategyRateRangeKey sid" and "k \<noteq> GetStrategyRateTableKey sid"
  shows "spares k (assembleLotteryStrategyWithAwards svc (strategy_repo_of svc rt) sid awards)"
proof -
  have "spares k (Shuffle svc xs)" for xs :: "int list" by (simp add: spares_def Shuffle_def)
  then show ?thesis
    unfolding assembleLotteryStrategyWithAwards_def
    by (intro spares_if spares_bindE spares_basic) (simp_all add: spares_StoreStrategyAwardPool [OF assms])
qed

lemma spares_assemble_weights:
  assumes "redis_ok svc"
    and "\<forall>(key, v) \<in> set kvs. k \<noteq> GetStrategyRateRangeKey (sid @ UNDERLINE @ key) \<and> k \<noteq> GetStrategyRateTableKey (sid @ UNDERLINE @ key)"
  shows "spares k (assemble_weights svc (strategy_repo_of svc rt) sid awards kvs)"
  using assms(2)
proof (induction kvs)
  case (Cons kv kvs)
  obtain key v where "kv = (key, v)" by fastforce
  then show ?case
    using Cons spares_assemble_with [OF assms(1)] by (auto intro!: spares_bindE)
qed (simp add: spares_ret)

lemma assemble_weights_held:
  assumes ok: "redis_ok svc" and "distinct (map fst kvs)" and "(key, v) \<in> set kvs"
    and "assemble_weights svc (strategy_repo_of svc rt) sid awards kvs w = (Ok u, w')"
  shows "\<exists>pool. mset pool = mset (strategyAwardPool (filter (\<lambda>a. sa_AwardID a \<in> set v) awards)) \<and>
           pool_held (sid @ UNDERLINE @ key) pool (rkeys w')"
  using assms(2-)
proof (induction kvs arbitrary: w)
  case (Cons kv kvs)
  obtain k1 v1 where kv: "kv = (k1, v1)" by fastforce
  from Cons.prems(3) kv obtain u1 w1 where
    first: "assembleLotteryStrategyWithAwards svc (strategy_repo_of svc rt) (sid @ UNDERLINE @ k1)
              (filter (\<lambda>a. sa_AwardID a \<in> set v1) awards) w = (Ok u1, w1)" and
    rest: "assemble_weights svc (strategy_repo_of svc rt) sid awards kvs w1 = (Ok u, w')"
    by auto
  show ?case
  proof (cases "key = k1")
    case True
    then have v: "v = v1" using Cons.prems(1,2) kv by (force simp: image_iff)
    have okd: "(case (svc, rt) of (svc, rt) \<Rightarrow> redis_ok svc)" using ok by simp
    obtain pool where pool: "mset pool = mset (strategyAwardPool (filter (\<lambda>a. sa_AwardID a \<in> set v1) awards))"
        "pool_held (sid @ UNDERLINE @ k1) pool (rkeys w1)"
      using ap.assembled_held [OF okd, of svc "sid @ UNDERLINE @ k1" "filter (\<lambda>a. sa_AwardID a \<in> set v1) awards" w u1 w1] first
      by auto
    have "\<forall>(key', v) \<in> set kvs. key' \<noteq> k1" using Cons.prems(1) kv by (force simp: image_iff)
    then have "spares (GetStrategyRateRangeKey (sid @ UNDERLINE @ k1)) (assemble_weights svc (strategy_repo_of svc rt) sid awards kvs)"
      and "spares (GetStrategyRateTableKey (sid @ UNDERLINE @ k1)) (assemble_weights svc (strategy_repo_of svc rt) sid awards kvs)"
      by (intro spares_assemble_weights [OF ok]; force simp: rate_keys_neq [symmetric])+
    from sparesD [OF this(1) rest] sparesD [OF this(2) rest] pool show ?thesis
      using True v pool_held_spared by blast
  next
    case False
    then have "(key, v) \<in> set kvs" using Cons.prems(2) kv by simp
    then show ?thesis using Cons.IH [OF _ _ rest] Cons.prems(1) by simp
  qed
qed simp

section \<open>The text of a weight rule\<close>

text \<open>The texts of the thresholds, in the order of the groups.\<close>

definition group_keys :: "string list \<Rightarrow> string set" where
  "group_keys gs = (\<lambda>g. hd (split COLON g)) ` (set gs - {''''})"

lemma group_keys_Cons: "group_keys (g # gs) = (if g = '''' then group_keys gs else insert (hd (split COLON g)) (group_keys gs))"
  by (simp add: group_keys_def insert_Diff_if)

lemma rule_weight_groups_keys:
  "rule_weight_groups gs m = Ok m' \<Longrightarrow>
   fst ` set m' = group_keys gs \<union> fst ` set m \<and> (distinct (map fst m) \<longrightarrow> distinct (map fst m'))"
proof (induction gs m rule: rule_weight_groups.induct)
  case (2 g gs m)
  show ?case
  proof (cases "g = ''''")
    case False
    then obtain key vs rest ids where k: "split COLON g = key # vs # rest" "parse_award_ids (split SPLIT vs) = Ok ids"
        "rule_weight_groups gs (put key ids m) = Ok m'"
      using "2.prems" by (auto split: list.splits res.splits elim!: bindR.elims)
    have "fst ` set m' = group_keys gs \<union> fst ` set (put key ids m) \<and>
        (distinct (map fst (put key ids m)) \<longrightarrow> distinct (map fst m'))"
      by (rule "2.IH"(2)) (use False k in auto)
    then show ?thesis using False k(1) by (simp add: set_put_keys group_keys_Cons)
  qed (use 2 in \<open>simp add: group_keys_Cons\<close>)
qed (simp add: group_keys_def)

lemma analytical_groups_keys:
  "analytical_groups gs m = Ok m' \<Longrightarrow> fst ` set m' = {n. \<exists>x \<in> group_keys gs. Atoi x = Ok n} \<union> fst ` set m"
proof (induction gs m rule: analytical_groups.induct)
  case (2 g gs m)
  show ?case
  proof (cases "g = ''''")
    case False
    then obtain k v rest n where k: "split COLON g = k # v # rest" "Atoi k = Ok n" "analytical_groups gs (put n v m) = Ok m'"
      using "2.prems" by (auto split: list.splits res.splits elim!: bindR.elims)
    have "fst ` set m' = {n. \<exists>x \<in> group_keys gs. Atoi x = Ok n} \<union> fst ` set (put n v m)"
      by (rule "2.IH"(2)) (use False k in auto)
    moreover have "{n. \<exists>x \<in> group_keys (g # gs). Atoi x = Ok n} = insert n {n. \<exists>x \<in> group_keys gs. Atoi x = Ok n}"
      using False k(1,2) by (auto simp: group_keys_Cons)
    ultimately show ?thesis by (simp add: set_put_keys)
  qed (use 2 in \<open>simp add: group_keys_Cons\<close>)
qed (simp add: group_keys_def)

text \<open>The armory and the chain read the same thresholds, if they are written canonically.\<close>

lemma thresholds_agree:
  assumes "rule_weight_groups gs [] = Ok m" and "analytical_groups gs [] = Ok g"
    and "\<forall>key \<in> fst ` set m. \<exists>n. is_int64 n \<and> key = FormatInt n"
  shows "FormatInt k \<in> fst ` set m \<longleftrightarrow> k \<in> fst ` set g"
proof -
  have m: "fst ` set m = group_keys gs" using rule_weight_groups_keys [OF assms(1)] by simp
  have g: "fst ` set g = {n. \<exists>x \<in> group_keys gs. Atoi x = Ok n}" using analytical_groups_keys [OF assms(2)] by simp
  have "Atoi x = Ok k \<longleftrightarrow> x = FormatInt k" if "x \<in> group_keys gs" for x
  proof -
    obtain n where "is_int64 n" "x = FormatInt n" using assms(3) \<open>x \<in> group_keys gs\<close> m by metis
    then show ?thesis by (auto simp: ParseInt_FormatInt)
  qed
  then show ?thesis unfolding m g by blast
qed

section \<open>What the chain reads before it draws\<close>

text \<open>The keys of the pool of a strategy or of one of its groups.\<close>

definition pool_keys :: "string \<Rightarrow> string set" where
  "pool_keys sid = {GetStrategyRateRangeKey sid, GetStrategyRateTableKey sid}"

lemma spares_QueryStrategyValue:
  assumes "redis_ok svc" and "k \<in> pool_keys s"
  shows "spares k (QueryStrategyValue svc sid m)"
proof -
  have "k \<noteq> GetStrategyRuleValueKey sid m" using assms(2) by (auto simp: pool_keys_def strategy_key_defs)
  then show ?thesis
    unfolding QueryStrategyValue_def scan_rule_value_def
    by (intro spares_cached [OF assms(1)] keeps_spares) (auto intro!: keeps_rules)
qed

lemma spares_QueryTotalUseCount:
  assumes "redis_ok svc" and "k \<in> pool_keys s"
  shows "spares k (QueryActivityAccountTotalUseCount svc rt uid sid)"
proof -
  have ne: "k \<noteq> ''activity_by_strategy_'' @ FormatInt sid" "k \<noteq> GetActivityAccountKey aid uid" for aid
    using assms(2) by (auto simp: pool_keys_def strategy_key_defs activity_key_defs)
  show ?thesis
    unfolding QueryActivityAccountTotalUseCount_def load_account_def
    by (intro spares_intros spares_cached [OF assms(1)] ne keeps_spares)
      (auto intro!: keeps_rules simp: or_nil_def shard_def split: option.split)
qed

lemma rule_thresholds:
  assumes "sr_RuleModel rule = RuleWeight" and "GetRuleWeightValues rule = Ok m" and "getAnalyticalValue (sr_RuleValue rule) = Ok g"
    and "\<forall>key \<in> fst ` set m. \<exists>n. is_int64 n \<and> key = FormatInt n"
  shows "FormatInt k \<in> fst ` set m \<longleftrightarrow> k \<in> fst ` set g" and "g = [] \<longleftrightarrow> m = []" and "distinct (map fst m)"
proof -
  have gm: "rule_weight_groups (split SPACE (sr_RuleValue rule)) [] = Ok m"
    using assms(1,2) by (simp add: GetRuleWeightValues_def rule_names)
  have gg: "analytical_groups (split SPACE (sr_RuleValue rule)) [] = Ok g"
    using assms(3) by (simp add: getAnalyticalValue_def)
  note agree = thresholds_agree [OF gm gg assms(4)]
  show "FormatInt k \<in> fst ` set m \<longleftrightarrow> k \<in> fst ` set g" by (rule agree)
  have "m = []" if "g = []"
  proof (cases m)
    case (Cons kv m')
    then have "fst kv \<in> fst ` set m" by simp
    then obtain n where "fst kv = FormatInt n" using assms(4) by blast
    then show ?thesis using agree [of n] \<open>fst kv \<in> fst ` set m\<close> that by simp
  qed
  moreover have "g = []" if "m = []"
  proof (cases g)
    case (Cons kv g')
    then show ?thesis using agree [of "fst kv"] that by simp
  qed
  ultimately show "g = [] \<longleftrightarrow> m = []" by blast
  show "distinct (map fst m)" using rule_weight_groups_keys [OF gm] by simp
qed

lemma reached_greatest:
  "reached score (rev (sort (map fst g))) = Some k \<Longrightarrow>
     k \<in> fst ` set g \<and> k \<le> score \<and> (\<forall>k' \<in> fst ` set g. k' \<le> score \<longrightarrow> k' \<le> k)"
  "reached score (rev (sort (map fst g))) = None \<longleftrightarrow> (\<forall>k \<in> fst ` set g. \<not> k \<le> score)"
proof -
  let ?low = "{x \<in> fst ` set g. x \<le> score}"
  assume "reached score (rev (sort (map fst g))) = Some k"
  then have "?low \<noteq> {}" "k = Max ?low" by (auto simp: reached_keys entitled_def Let_def split: if_splits)
  then have "k \<in> ?low" using Max_in [of ?low] by simp
  then show "k \<in> fst ` set g \<and> k \<le> score \<and> (\<forall>k' \<in> fst ` set g. k' \<le> score \<longrightarrow> k' \<le> k)"
    using \<open>k = Max ?low\<close> by simp
qed (auto simp: reached_keys entitled_def Let_def)

lemma draw_in_group:
  assumes "redis_ok svc" and "secure_int_ok svc" and "distinct (map fst kvs)" and "(key, ids) \<in> set kvs"
    and "assemble_weights svc (strategy_repo_of svc rt) (FormatInt sid) awards kvs w = (Ok u, w1)"
    and "\<forall>k \<in> pool_keys (FormatInt sid @ UNDERLINE @ key). rkeys w2 k \<in> {None, rkeys w1 k}"
    and "key \<noteq> ''''"
    and "getRandomAwardIDWithWeight svc (strategy_repo_of svc rt) sid key w2 = (Ok a, w3)"
  shows "a \<in> set ids \<and> a \<in> sa_AwardID ` set awards"
proof -
  let ?sid = "FormatInt sid @ UNDERLINE @ key"
  obtain pool where pool: "mset pool = mset (strategyAwardPool (filter (\<lambda>a. sa_AwardID a \<in> set ids) awards))"
      "pool_held ?sid pool (rkeys w1)"
    using assemble_weights_held [OF assms(1,3,4,5)] by blast
  have "pool_held ?sid pool (rkeys w2)"
    by (rule pool_held_spared [OF pool(2)]) (use assms(6) in \<open>simp_all add: pool_keys_def\<close>)
  moreover have "getRandomAwardID svc (case (svc, rt) of (svc, rt) \<Rightarrow> strategy_repo_of svc rt) ?sid w2 = (Ok a, w3)"
    using assms(7,8) by (simp add: getRandomAwardIDWithWeight_def)
  ultimately have "a \<in> set pool" using ap.draw_from_held [of "(svc, rt)" svc ?sid pool w2 a w3] assms(1,2) by simp
  then have "a \<in> set (strategyAwardPool (filter (\<lambda>a. sa_AwardID a \<in> set ids) awards))"
    using pool(1) by (metis set_mset_mset)
  then show ?thesis by (auto simp: in_pool_iff)
qed

lemma strategy_repo_queries [simp]:
  "s_QueryStrategyValue (strategy_repo_of svc rt) = QueryStrategyValue svc"
  "s_QueryTotalUseCount (strategy_repo_of svc rt) = QueryActivityAccountTotalUseCount svc rt"
  by (simp_all add: strategy_repo_of_def)

lemma pool_keys_spared:
  assumes "redis_ok svc" and "\<forall>k \<in> pool_keys s. rkeys w2 k \<in> {None, rkeys w1 k}"
    and "QueryStrategyValue svc sid m w2 = (r, w3)"
    and "QueryActivityAccountTotalUseCount svc rt uid sid w3 = (r', w4)"
  shows "\<forall>k \<in> pool_keys s. rkeys w4 k \<in> {None, rkeys w1 k}"
proof
  fix k assume k: "k \<in> pool_keys s"
  have "rkeys w3 k \<in> {None, rkeys w2 k}"
    by (rule sparesD [OF spares_QueryStrategyValue [OF assms(1) k] assms(3)])
  moreover have "rkeys w4 k \<in> {None, rkeys w3 k}"
    by (rule sparesD [OF spares_QueryTotalUseCount [OF assms(1) k] assms(4)])
  ultimately show "rkeys w4 k \<in> {None, rkeys w1 k}" using assms(2) k by fastforce
qed

section \<open>Properties\<close>

text \<open>
  C30. The weight node draws from the group that the score is entitled to: when the armory has
  assembled the groups of a weight rule (in any order, over any network), and \<open>ruleWeightLogic\<close> later
  reads the same rule text and the user's score and returns a result, then, if the score reaches a
  threshold of the rule, the result carries the model \<open>rule_weight\<close> and an award that is listed in the
  group of the greatest threshold the score reaches and is an award of the strategy; if the score
  reaches none, or the rule has no group, the node returns what the next node returns. Between the
  assembly and the node the keys of the pools may expire, but nobody else writes them. The
  thresholds have to be written as canonical decimal numbers: the armory files the pool under the
  text, the node looks it up under the number.
\<close>

theorem weighted_draw_in_group:
  assumes "redis_ok svc" and "secure_int_ok svc" and "sr_RuleModel rule = RuleWeight"
    and "GetRuleWeightValues rule = Ok m"
    and "\<forall>key \<in> fst ` set m. \<exists>n. is_int64 n \<and> key = FormatInt n"
    and "mset kvs = mset m"
    and "assemble_weights svc (strategy_repo_of svc rt) (FormatInt sid) awards kvs w = (Ok u, w1)"
    and "\<forall>key \<in> fst ` set m. \<forall>k \<in> pool_keys (FormatInt sid @ UNDERLINE @ key). rkeys w2 k \<in> {None, rkeys w1 k}"
    and "QueryStrategyValue svc sid RuleWeight w2 = (Ok (sr_RuleValue rule), w3)"
    and "QueryActivityAccountTotalUseCount svc rt uid sid w3 = (Ok score, w4)"
    and "weight_logic svc (strategy_repo_of svc rt) nxt uid sid w2 = (Ok res, w')"
  shows "if \<exists>k \<le> score. FormatInt k \<in> fst ` set m
         then \<exists>k ids. (FormatInt k, ids) \<in> set m \<and> k \<le> score \<and>
                (\<forall>k'. FormatInt k' \<in> fst ` set m \<longrightarrow> k' \<le> score \<longrightarrow> k' \<le> k) \<and>
                lr_LogicModel res = RuleWeight \<and> lr_AwardID res \<in> set ids \<and> lr_AwardID res \<in> sa_AwardID ` set awards
         else nxt (if m = [] then w3 else w4) = (Ok res, w')"
proof -
  obtain g where g: "getAnalyticalValue (sr_RuleValue rule) = Ok g"
    using assms(9,11) by (cases "getAnalyticalValue (sr_RuleValue rule)") (auto simp: weight_logic_def bindE_def)
  note th = rule_thresholds [OF assms(3,4) g assms(5)]
  show ?thesis
  proof (cases "reached score (rev (sort (map fst g)))")
    case None
    then have "\<not> (\<exists>k \<le> score. FormatInt k \<in> fst ` set m)" using reached_greatest(2) th(1) by metis
    moreover have "nxt (if m = [] then w3 else w4) = (Ok res, w')"
      using assms(9-11) g None th(2) by (auto simp: weight_logic_def bindE_def Let_def)
    ultimately show ?thesis by (simp only: if_False)
  next
    case (Some k)
    note gr = reached_greatest(1) [OF Some]
    then have "g \<noteq> []" by auto
    then obtain a where draw: "getRandomAwardIDWithWeight svc (strategy_repo_of svc rt) sid (FormatInt k) w4 = (Ok a, w')"
        and res: "res = \<lparr>lr_AwardID = a, lr_LogicModel = RuleWeight\<rparr>"
      using assms(9-11) g Some by (auto simp: weight_logic_def bindE_def Let_def split: prod.splits res.splits)
    have "FormatInt k \<in> fst ` set m" using gr th(1) by blast
    then obtain ids where ids: "(FormatInt k, ids) \<in> set m" by force
    have kvs: "distinct (map fst kvs)" "(FormatInt k, ids) \<in> set kvs"
      using th(3) ids assms(6) by (metis mset_eq_imp_distinct_iff mset_map, metis set_mset_mset)
    have spared: "\<forall>key \<in> pool_keys (FormatInt sid @ UNDERLINE @ FormatInt k). rkeys w4 key \<in> {None, rkeys w1 key}"
      by (rule pool_keys_spared [OF assms(1) _ assms(9,10)]) (use assms(8) \<open>FormatInt k \<in> fst ` set m\<close> in blast)
    have "a \<in> set ids \<and> a \<in> sa_AwardID ` set awards"
      by (rule draw_in_group [OF assms(1,2) kvs assms(7) spared FormatInt_ne draw])
    moreover have "\<exists>k \<le> score. FormatInt k \<in> fst ` set m" using gr \<open>FormatInt k \<in> fst ` set m\<close> by blast
    moreover have "\<forall>k'. FormatInt k' \<in> fst ` set m \<longrightarrow> k' \<le> score \<longrightarrow> k' \<le> k" using gr th(1) by blast
    ultimately show ?thesis using ids gr res by (simp only: if_True) (force intro: exI [of _ k] exI [of _ ids])
  qed
qed

text \<open>
  Two groups, a user who has taken part 12 times, and the three cached records that the node reads.
\<close>

definition demo_rule :: StrategyRule where
  "demo_rule =
     \<lparr>sr_StrategyID = 1, sr_AwardID = 0, sr_RuleType = 1, sr_RuleModel = RuleWeight,
      sr_RuleValue = ''10:101,102 20:101,102,103'', sr_RuleDesc = ''''\<rparr>"

definition demo_activity :: po_RaffleActivity where
  "demo_activity =
     \<lparr>ra_ID = 1, ra_ActivityID = 100, ra_ActivityName = '''', ra_ActivityDesc = '''', ra_BeginDateTime = 0,
      ra_EndDateTime = 0, ra_StrategyID = 1, ra_State = ''open'', ra_CreateTime = 0, ra_UpdateTime = 0\<rparr>"

definition weight_svc :: services where
  "weight_svc = demo_svc
     \<lparr>js_string := single_codec (sr_RuleValue demo_rule) '''',
      js_RaffleActivity := single_codec demo_activity demo_activity,
      js_ActivityAccount := single_codec (zero_ActivityAccount\<lparr>aa_TotalCount := 15, aa_TotalCountSurplus := 3\<rparr>) zero_ActivityAccount\<rparr>"

definition weight_cached :: "world \<Rightarrow> world" where
  "weight_cached w = set_keys
     ((rkeys w)(GetStrategyRuleValueKey 1 RuleWeight \<mapsto> (RStr ''{}'', None),
                ''activity_by_strategy_'' @ FormatInt 1 \<mapsto> (RStr ''{}'', None),
                GetActivityAccountKey 100 ''u1'' \<mapsto> (RStr ''{}'', None))) w"

lemma weight_svc_ok:
  "redis_ok weight_svc" "no_faults weight_svc" "within_ttl weight_svc" "secure_int_ok weight_svc"
  "\<exists>x. svc_secure_int weight_svc n m = Ok x"
  using redis_ok_sample [of "\<lambda>_ _ _. False"] demo_conditions
  by (simp_all add: weight_svc_def redis_ok_def no_faults_def within_ttl_def secure_int_ok_def)

lemma demo_rule_parsed:
  "GetRuleWeightValues demo_rule = Ok [(''20'', [101, 102, 103]), (''10'', [101, 102])]"
  "FormatInt 10 = ''10''" "FormatInt 20 = ''20''"
  "getAnalyticalValue (sr_RuleValue demo_rule) = Ok [(20, ''101,102,103''), (10, ''101,102'')]"
  by code_simp+

lemma weight_cached_keys:
  "k \<in> pool_keys s \<Longrightarrow> rkeys (weight_cached w) k = rkeys w k"
  by (auto simp: weight_cached_def pool_keys_def strategy_key_defs activity_key_defs)

lemma weight_cached_reads:
  "\<exists>w3 w4. QueryStrategyValue weight_svc 1 RuleWeight (weight_cached w) = (Ok (sr_RuleValue demo_rule), w3) \<and>
     QueryActivityAccountTotalUseCount weight_svc rt ''u1'' 1 w3 = (Ok 12, w4) \<and>
     (\<forall>k \<in> pool_keys s. \<forall>v m. rkeys w k = Some (v, Some (svc_rtime weight_svc m + days10)) \<longrightarrow> rkeys w4 k = rkeys w k)"
proof -
  let ?svc = weight_svc and ?w2 = "weight_cached w"
  let ?w3 = "touched ?svc ?w2" 
  let ?w4 = "touched ?svc (touched ?svc ?w3)"
  have nf: "svc_fault ?svc n = NoFault" for n using weight_svc_ok(2) by (simp add: no_faults_def)
  have d: "0 < svc_depth ?svc" by (simp add: weight_svc_def sample_svc_def)
  have "QueryStrategyValue ?svc 1 RuleWeight ?w2 = (Ok (sr_RuleValue demo_rule), ?w3)"
    unfolding QueryStrategyValue_def
    by (rule cached_hit [OF weight_svc_ok(1) d nf, where b = "''{}''" and dl = None])
      (simp_all add: weight_cached_def live_def weight_svc_def single_codec_def strategy_key_defs activity_key_defs)
  moreover have "cached ?svc (js_RaffleActivity ?svc) (''activity_by_strategy_'' @ FormatInt 1) days10 d' ?w3 = (Ok demo_activity, touched ?svc ?w3)" for d'
    by (rule cached_hit [OF weight_svc_ok(1) d nf, where b = "''{}''" and dl = None])
      (simp_all add: weight_cached_def live_def weight_svc_def single_codec_def strategy_key_defs activity_key_defs)
  moreover have "cached ?svc (js_ActivityAccount ?svc) (GetActivityAccountKey 100 ''u1'') days10 d' (touched ?svc ?w3) =
      (Ok (zero_ActivityAccount\<lparr>aa_TotalCount := 15, aa_TotalCountSurplus := 3\<rparr>), ?w4)" for d'
    by (rule cached_hit [OF weight_svc_ok(1) d nf, where b = "''{}''" and dl = None])
      (simp_all add: weight_cached_def live_def weight_svc_def single_codec_def strategy_key_defs activity_key_defs)
  moreover have "rkeys ?w4 k = rkeys w k" if "k \<in> pool_keys s" "rkeys w k = Some (v, Some (svc_rtime ?svc m + days10))" for k v m
    using weight_svc_ok(3) that by (simp add: weight_cached_keys live_def within_ttl_def)
  ultimately show ?thesis
    by (auto simp: QueryActivityAccountTotalUseCount_def bindE_def caseE_def demo_activity_def)
qed

lemma weight_pools_assembled:
  "\<exists>w1 pool m n h. assemble_weights weight_svc (strategy_repo_of weight_svc rt) (FormatInt 1) demo_awards
         [(''20'', [101, 102, 103]), (''10'', [101, 102])] empty_world = (Ok (), w1) \<and>
     length pool = length (strategyAwardPool demo_awards) \<and> set pool = set (strategyAwardPool demo_awards) \<and>
     pool_held (FormatInt 1 @ UNDERLINE @ ''10'') pool (rkeys w1) \<and>
     rkeys w1 (GetStrategyRateRangeKey (FormatInt 1 @ UNDERLINE @ ''10'')) =
       Some (RStr (FormatInt (int (length pool))), Some (svc_rtime weight_svc m + days10)) \<and>
     rkeys w1 (GetStrategyRateTableKey (FormatInt 1 @ UNDERLINE @ ''10'')) = Some (RHash h, Some (svc_rtime weight_svc n + days10))"
proof -
  let ?sid = "\<lambda>key. FormatInt 1 @ UNDERLINE @ key" and ?repo = "strategy_repo_of weight_svc rt"
  have all: "filter (\<lambda>a. sa_AwardID a \<in> set [101, 102, 103]) demo_awards = demo_awards"
    "filter (\<lambda>a. sa_AwardID a \<in> set [101, 102]) demo_awards = demo_awards" by (simp_all add: demo_award_def)
  obtain wa where a: "assembleLotteryStrategyWithAwards weight_svc ?repo (?sid ''20'') demo_awards empty_world = (Ok (), wa)"
    using assemble_served [OF weight_svc_ok(1-3) demo_pool(1-3,5)] by blast
  have "GetStrategyRateTableKey (?sid ''10'') \<noteq> GetStrategyRateRangeKey (?sid ''20'')"
    by (simp add: rate_keys_neq [symmetric])
  then have "spares (GetStrategyRateTableKey (?sid ''10'')) (assembleLotteryStrategyWithAwards weight_svc ?repo (?sid ''20'') demo_awards)"
    by (intro spares_assemble_with [OF weight_svc_ok(1)]) simp_all
  from sparesD [OF this a] have "no_other_type (GetStrategyRateTableKey (?sid ''10'')) (rkeys wa)"
    by (simp add: no_other_type_def)
  from assemble_served [OF weight_svc_ok(1-3) demo_pool(1-3) this, of rt]
  show ?thesis using a unfolding assemble_weights.simps all by (elim exE conjE, intro exI conjI) (simp add: bindE_def, assumption+)
qed

theorem weighted_draw_in_group_witness:
  "\<exists>w1 res w'.
     assemble_weights weight_svc (strategy_repo_of weight_svc (NewDBRouter 2 4)) (FormatInt 1) demo_awards
       [(''20'', [101, 102, 103]), (''10'', [101, 102])] empty_world = (Ok (), w1) \<and>
     weight_logic weight_svc (strategy_repo_of weight_svc (NewDBRouter 2 4)) (fail CtxCanceled) ''u1'' 1 (weight_cached w1) = (Ok res, w') \<and>
     lr_LogicModel res = RuleWeight \<and> lr_AwardID res \<in> {101, 102}"
proof -
  let ?rt = "NewDBRouter 2 4" and ?s = "FormatInt 1 @ UNDERLINE @ ''10''" and ?m = "[(''20'', [101, 102, 103]), (''10'', [101, 102 :: int])]"
  let ?repo = "strategy_repo_of weight_svc ?rt"
  obtain w1 pool m n h where as: "assemble_weights weight_svc ?repo (FormatInt 1) demo_awards ?m empty_world = (Ok (), w1)"
    and pool: "length pool = length (strategyAwardPool demo_awards)" "set pool = set (strategyAwardPool demo_awards)" "pool_held ?s pool (rkeys w1)"
    and st: "rkeys w1 (GetStrategyRateRangeKey ?s) = Some (RStr (FormatInt (int (length pool))), Some (svc_rtime weight_svc m + days10))"
      "rkeys w1 (GetStrategyRateTableKey ?s) = Some (RHash h, Some (svc_rtime weight_svc n + days10))"
    using weight_pools_assembled [of ?rt] by blast
  obtain w3 w4 where reads: "QueryStrategyValue weight_svc 1 RuleWeight (weight_cached w1) = (Ok (sr_RuleValue demo_rule), w3)"
      "QueryActivityAccountTotalUseCount weight_svc ?rt ''u1'' 1 w3 = (Ok 12, w4)"
      "\<forall>k \<in> pool_keys ?s. \<forall>v m. rkeys w1 k = Some (v, Some (svc_rtime weight_svc m + days10)) \<longrightarrow> rkeys w4 k = rkeys w1 k"
    using weight_cached_reads [of w1 ?rt ?s] by blast
  have same: "rkeys w4 (GetStrategyRateRangeKey ?s) = rkeys w1 (GetStrategyRateRangeKey ?s)"
    "rkeys w4 (GetStrategyRateTableKey ?s) = rkeys w1 (GetStrategyRateTableKey ?s)"
    using reads(3) st by (auto simp: pool_keys_def)
  have "pool_held ?s pool (rkeys w4)" by (rule pool_held_spared [OF pool(3)]) (simp_all add: same)
  moreover have "pool \<noteq> []" using pool(1) demo_pool(2) by fastforce
  moreover have "\<forall>a \<in> set pool. is_int64 a" using pool(2) demo_pool(4) by (auto simp: in_pool_iff)
  ultimately obtain a w' where "getRandomAwardID weight_svc ?repo ?s w4 = (Ok a, w')"
    using draw_served [OF weight_svc_ok, of pool ?s w4 m h n ?rt] same st pool(1) demo_pool(2,3) by auto
  then have run: "weight_logic weight_svc ?repo (fail CtxCanceled) ''u1'' 1 (weight_cached w1) = (Ok \<lparr>lr_AwardID = a, lr_LogicModel = RuleWeight\<rparr>, w')"
    using reads(1,2) demo_rule_parsed by (simp add: weight_logic_def bindE_def getRandomAwardIDWithWeight_def)
  have th: "FormatInt k \<in> fst ` set ?m \<longleftrightarrow> k \<in> {10, 20}" for k
    by (auto simp: demo_rule_parsed(2,3) [symmetric])
  have "if \<exists>k \<le> 12. FormatInt k \<in> fst ` set ?m
        then \<exists>k ids. (FormatInt k, ids) \<in> set ?m \<and> k \<le> 12 \<and>
               (\<forall>k'. FormatInt k' \<in> fst ` set ?m \<longrightarrow> k' \<le> 12 \<longrightarrow> k' \<le> k) \<and>
               lr_LogicModel \<lparr>lr_AwardID = a, lr_LogicModel = RuleWeight\<rparr> = RuleWeight \<and>
               lr_AwardID \<lparr>lr_AwardID = a, lr_LogicModel = RuleWeight\<rparr> \<in> set ids \<and>
               lr_AwardID \<lparr>lr_AwardID = a, lr_LogicModel = RuleWeight\<rparr> \<in> sa_AwardID ` set demo_awards
        else fail CtxCanceled (if ?m = [] then w3 else w4) = (Ok \<lparr>lr_AwardID = a, lr_LogicModel = RuleWeight\<rparr>, w')"
    by (rule weighted_draw_in_group [OF weight_svc_ok(1,4) _ demo_rule_parsed(1) _ refl as _ reads(1,2) run])
      (auto simp: demo_rule_def demo_rule_parsed(2,3) [symmetric] is_int64_small weight_cached_keys)
  then have "a \<in> {101, 102}" by (auto simp: th demo_award_def split: if_splits)
  then show ?thesis using as run by auto
qed

end
