(* ===== verification/Award_Stock.thy ===== *)
theory Award_Stock
  imports Weights
begin

text \<open>
  The stock of an award under \<open>SubtractionAwardStock\<close>: the counter says which unit a caller gets, and
  the lock of that unit, kept for a day, makes sure that it is handed out once, even when the counter
  is set again in between. \<open>award_run\<close> is the system of all its callers: any sequence of calls, with
  any faults, and of other actions that leave the locks alone and may set the counter to anything up
  to the stock.
\<close>

definition unit_lock :: "int \<Rightarrow> int \<Rightarrow> int \<Rightarrow> string" where
  "unit_lock sid aid n = GetStrategyAwardCountKey sid aid @ ''_'' @ FormatInt n"

lemma unit_lock_simps [simp]:
  "unit_lock sid aid m = unit_lock sid aid n \<longleftrightarrow> m = n"
  "unit_lock sid aid n \<noteq> GetStrategyAwardCountKey sid aid" "GetStrategyAwardCountKey sid aid \<noteq> unit_lock sid aid n"
  by (simp_all add: unit_lock_def)

text \<open>The counter never shows more than the stock.\<close>

definition counter_within :: "int \<Rightarrow> string \<Rightarrow> keyspace \<Rightarrow> bool" where
  "counter_within c key ks \<longleftrightarrow> (\<forall>s dl n. ks key = Some (RStr s, dl) \<longrightarrow> redis_int s = Some n \<longrightarrow> n \<le> c)"

inductive award_run :: "services \<Rightarrow> int \<Rightarrow> int \<Rightarrow> int \<Rightarrow> world \<Rightarrow> int list \<Rightarrow> bool"
  for svc sid aid c where
  start: "counter_within c (GetStrategyAwardCountKey sid aid) (rkeys w) \<Longrightarrow> award_run svc sid aid c w []"
| sold: "award_run svc sid aid c w units \<Longrightarrow> SubtractionAwardStock svc sid aid w = (Ok True, w') \<Longrightarrow>
    rkeys w' (GetStrategyAwardCountKey sid aid) = Some (RStr (FormatInt n), dl) \<Longrightarrow>
    award_run svc sid aid c w' (n # units)"
| refused: "award_run svc sid aid c w units \<Longrightarrow> SubtractionAwardStock svc sid aid w = (r, w') \<Longrightarrow> r \<noteq> Ok True \<Longrightarrow>
    award_run svc sid aid c w' units"
| other: "award_run svc sid aid c w units \<Longrightarrow> (\<And>n. rkeys w' (unit_lock sid aid n) = rkeys w (unit_lock sid aid n)) \<Longrightarrow>
    counter_within c (GetStrategyAwardCountKey sid aid) (rkeys w') \<Longrightarrow> award_run svc sid aid c w' units"

text \<open>All of it happens within the day that a lock lives.\<close>

definition within_day :: "services \<Rightarrow> bool" where
  "within_day svc \<longleftrightarrow> (\<forall>m n. svc_rtime svc m < svc_rtime svc n + 24 * hour)"

section \<open>Lemmas\<close>

definition locked :: "services \<Rightarrow> string \<Rightarrow> keyspace \<Rightarrow> bool" where
  "locked svc k ks \<longleftrightarrow> (\<exists>v n. ks k = Some (v, Some (svc_rtime svc n + 24 * hour)))"

lemma locked_live: "within_day svc \<Longrightarrow> locked svc k ks \<Longrightarrow> live (svc_rtime svc n) ks k = ks k"
  by (auto simp: locked_def live_def within_day_def)

lemma rkeys_server_call:
  "redis_ok svc \<Longrightarrow> rkeys (snd (server_call svc c w)) =
     snd (redis_step (svc_rtime svc (tick w)) c (live (svc_rtime svc (tick w)) (rkeys w)))"
  by (simp add: server_call_def redis_ok_def redis_doc_def Let_def case_prod_unfold split: rreply.split)

text \<open>A lock that is there stays there, whatever a call does.\<close>

lemma locked_server_call:
  assumes "redis_ok svc" and "within_day svc" and "locked svc k (rkeys w)"
    and "k \<noteq> cmd_key c \<or> (\<exists>v ttl. c = SETNX k v ttl)"
  shows "locked svc k (rkeys (snd (server_call svc c w)))"
proof -
  let ?ks = "live (svc_rtime svc (tick w)) (rkeys w)"
  have l: "?ks k = rkeys w k" by (rule locked_live [OF assms(2,3)])
  have "snd (redis_step (svc_rtime svc (tick w)) c ?ks) k = ?ks k"
  proof (cases "k = cmd_key c")
    case True
    then obtain v ttl where "c = SETNX k v ttl" using assms(4) by auto
    then show ?thesis using assms(3) l by (auto simp: locked_def)
  qed (simp add: redis_step_other)
  then show ?thesis using assms(3) l by (simp add: locked_def rkeys_server_call [OF assms(1)])
qed

lemma locked_remote:
  assumes "locked svc k (rkeys w)" and "\<And>w. locked svc k (rkeys w) \<Longrightarrow> locked svc k (rkeys (snd (m w)))"
  shows "locked svc k (rkeys (snd (remote svc m w)))"
  using assms by (auto simp: remote_def split: fault.split)

lemma Decr_locked:
  assumes "redis_ok svc" and "within_day svc" and "locked svc k (rkeys w)" and "k \<noteq> key" and "Decr svc myCache key w = (r, w')"
  shows "locked svc k (rkeys w')"
proof -
  have "locked svc k (rkeys (snd (redis svc (INCRBY key (- 1)) w)))"
    unfolding redis_def by (rule locked_remote [OF assms(3)]) (use assms in \<open>auto intro!: locked_server_call\<close>)
  then show ?thesis
    using assms(5) by (auto simp: Decr_def redis_int_result_def bindE_def split: prod.splits res.splits rreply.splits)
qed

lemma SetNX_locked:
  assumes "redis_ok svc" and "within_day svc" and "locked svc k (rkeys w)"
    and "cache_SetNX svc myCache mc key (AStr v) ttl w = (r, w')"
  shows "locked svc k (rkeys w')"
proof -
  have "locked svc k (rkeys (snd (redis svc (SETNX key v (expiry ttl)) w)))"
    unfolding redis_def by (rule locked_remote [OF assms(3)]) (cases "k = key"; use assms in \<open>auto intro!: locked_server_call\<close>)
  then show ?thesis
    using assms(4)
    by (auto simp: cache_SetNX_def redis_arg_def redis_int_result_def bindE_def split: prod.splits res.splits rreply.splits)
qed

lemma Subtraction_locked:
  assumes "redis_ok svc" and "within_day svc" and "locked svc (unit_lock sid aid n) (rkeys w)"
    and "SubtractionAwardStock svc sid aid w = (r, w')"
  shows "locked svc (unit_lock sid aid n) (rkeys w')"
proof -
  obtain d w1 where d: "Decr svc myCache (GetStrategyAwardCountKey sid aid) w = (d, w1)" by fastforce
  have l: "locked svc (unit_lock sid aid n) (rkeys w1)" by (rule Decr_locked [OF assms(1-3) _ d]) simp
  show ?thesis
    using assms(4) d l SetNX_locked [OF assms(1,2) l]
    by (cases d) (auto simp: SubtractionAwardStock_def Let_def bindE_def split: if_splits)
qed

text \<open>What a sale does: the counter showed one more unit, and the lock of the unit was free.\<close>

lemma Decr_Ok:
  assumes "redis_ok svc" and "Decr svc myCache key w = (Ok n, w')"
  shows "\<exists>dl. rkeys w' key = Some (RStr (FormatInt n), dl) \<and>
      (n = - 1 \<or> (\<exists>s dl'. rkeys w key = Some (RStr s, dl') \<and> redis_int s = Some (n + 1)))"
  using assms
  by (auto simp: Decr_def redis_int_result_def redis_def remote_def server_call_def redis_ok_def redis_doc_def
      bindE_def Let_def incr_value_def split: fault.splits option.splits rval.splits prod.splits if_splits dest!: live_SomeD)

lemma SetNX_Ok_True:
  assumes "redis_ok svc" and "cache_SetNX svc myCache mc key (AStr v) (24 * hour) w = (Ok True, w')" and "within_day svc"
  shows "\<not> locked svc key (rkeys w) \<and> locked svc key (rkeys w') \<and> (\<forall>k. k \<noteq> key \<longrightarrow> rkeys w' k \<in> {None, rkeys w k})"
proof -
  have free: "live (rnow svc w) (rkeys w) key = None" and
    w': "rkeys w' = (live (rnow svc w) (rkeys w))(key \<mapsto> (RStr v, Some (rnow svc w + 24 * hour)))"
    using assms(1,2)
    by (auto simp: cache_SetNX_def redis_arg_def redis_int_result_def redis_def remote_def server_call_def redis_ok_def
        redis_doc_def bindE_def Let_def expiry_def deadline_def hour_def second_def split: fault.splits if_splits)
  have "\<not> locked svc key (rkeys w)"
    using free locked_live [OF assms(3)] by (metis locked_def option.distinct(1))
  then show ?thesis using w' by (auto simp: locked_def live_def split: option.splits)
qed

lemma Subtraction_True:
  assumes "redis_ok svc" and "within_day svc" and "SubtractionAwardStock svc sid aid w = (Ok True, w')"
    and "rkeys w' (GetStrategyAwardCountKey sid aid) = Some (RStr (FormatInt n), dl)"
    and "counter_within c (GetStrategyAwardCountKey sid aid) (rkeys w)"
  shows "0 \<le> n \<and> n < c \<and> \<not> locked svc (unit_lock sid aid n) (rkeys w) \<and> locked svc (unit_lock sid aid n) (rkeys w')"
proof -
  let ?key = "GetStrategyAwardCountKey sid aid"
  from assms(3) obtain m w1 where d: "Decr svc myCache ?key w = (Ok m, w1)" "0 \<le> m" and
    nx: "cache_SetNX svc myCache (json_of (js_string svc)) (unit_lock sid aid m) (AStr ''locked'') (24 * hour) w1 = (Ok True, w')"
    by (auto simp: SubtractionAwardStock_def Let_def unit_lock_def split: if_splits)
  from SetNX_Ok_True [OF assms(1) nx assms(2)]
  have free: "\<not> locked svc (unit_lock sid aid m) (rkeys w1)" and now: "locked svc (unit_lock sid aid m) (rkeys w')"
    and "rkeys w' ?key \<in> {None, rkeys w1 ?key}" by auto
  moreover from Decr_Ok [OF assms(1) d(1)] obtain dl1 s dl2 where
    k: "rkeys w1 ?key = Some (RStr (FormatInt m), dl1)" "rkeys w ?key = Some (RStr s, dl2)" "redis_int s = Some (m + 1)"
    using d(2) by auto
  ultimately have "n = m" using assms(4) by auto
  moreover have "m + 1 \<le> c" using k(2,3) assms(5) by (auto simp: counter_within_def)
  moreover have "\<not> locked svc (unit_lock sid aid m) (rkeys w)"
    using free Decr_locked [OF assms(1,2) _ _ d(1)] by auto
  ultimately show ?thesis using d(2) now by simp
qed

lemma counter_within_INCRBY:
  assumes "counter_within c key ks" and "0 \<le> c"
  shows "counter_within c key (snd (redis_step t (INCRBY key (- 1)) (live t ks)))"
  using assms
  by (auto simp: counter_within_def incr_value_def split: option.split rval.split prod.split
      dest!: live_SomeD redis_int_SomeD split: if_splits option.splits)

lemma counter_within_spared:
  "counter_within c key (rkeys w) \<Longrightarrow> rkeys w' key \<in> {None, rkeys w key} \<Longrightarrow> counter_within c key (rkeys w')"
  by (elim insertE emptyE) (simp_all add: counter_within_def)

lemma Decr_counter:
  assumes "redis_ok svc" and "Decr svc myCache key w = (r, w')" and "counter_within c key (rkeys w)" and "0 \<le> c"
  shows "counter_within c key (rkeys w')"
proof -
  have "counter_within c key (rkeys (snd (redis svc (INCRBY key (- 1)) w)))"
    using assms(3) remote_world [of svc "server_call svc (INCRBY key (- 1))" w]
      counter_within_INCRBY [OF assms(3,4), of "svc_rtime svc (tick (bump w))"]
    by (auto simp: redis_def rkeys_server_call [OF assms(1)] simp del: redis_step.simps)
  then show ?thesis
    using assms(2) by (auto simp: Decr_def redis_int_result_def bindE_def split: prod.splits res.splits rreply.splits)
qed

lemma Subtraction_counter:
  assumes "redis_ok svc" and "SubtractionAwardStock svc sid aid w = (r, w')"
    and "counter_within c (GetStrategyAwardCountKey sid aid) (rkeys w)" and "0 \<le> c"
  shows "counter_within c (GetStrategyAwardCountKey sid aid) (rkeys w')"
proof -
  let ?key = "GetStrategyAwardCountKey sid aid"
  obtain d w1 where d: "Decr svc myCache ?key w = (d, w1)" by fastforce
  have w1: "counter_within c ?key (rkeys w1)" by (rule Decr_counter [OF assms(1) d assms(3,4)])
  have sp: "spares ?key (cache_SetNX svc myCache mc (unit_lock sid aid n) v ttl)" for mc :: "string marshaller" and n v ttl
    unfolding cache_SetNX_def redis_int_result_def redis_def
    by (intro spares_if spares_basic spares_bindE spares_ret spares_remote spares_server_call [OF assms(1)])
      (auto simp: spares_basic spares_ret split: rreply.split)
  have nx: "counter_within c ?key (rkeys w')"
    if "cache_SetNX svc myCache mc (unit_lock sid aid n) v ttl w1 = (r, w')" for mc :: "string marshaller" and n v ttl
    by (rule counter_within_spared [OF w1 sparesD [OF sp that]])
  show ?thesis
    using assms(2) d w1 nx
    by (cases d) (auto simp: SubtractionAwardStock_def Let_def bindE_def unit_lock_def split: if_splits)
qed

lemma award_run_inv:
  assumes "award_run svc sid aid c w units" and "redis_ok svc" and "within_day svc" and "0 \<le> c"
  shows "distinct units \<and> set units \<subseteq> {0..<c} \<and> (\<forall>n \<in> set units. locked svc (unit_lock sid aid n) (rkeys w)) \<and>
         counter_within c (GetStrategyAwardCountKey sid aid) (rkeys w)"
  using assms(1)
proof induction
  case (sold w units w' n dl)
  note s = Subtraction_True [OF assms(2,3) sold.hyps(2,3), of c]
  then show ?case
    using sold Subtraction_locked [OF assms(2,3) _ sold.hyps(2)] Subtraction_counter [OF assms(2) sold.hyps(2) _ assms(4)]
    by auto
next
  case (refused w units r w')
  then show ?case
    using Subtraction_locked [OF assms(2,3) _ refused.hyps(2)] Subtraction_counter [OF assms(2) refused.hyps(2) _ assms(4)]
    by auto
next
  case (other w units w')
  then show ?case by (auto simp: locked_def)
qed simp

section \<open>Property\<close>

text \<open>
  C31. No unit of an award is handed out twice and never more units than the stock: in every sequence
  of calls of \<open>SubtractionAwardStock\<close>, with any faults of the network, mixed with any other actions
  that leave the unit locks alone (in particular resetting the counter to any value up to the stock
  \<open>c\<close>, as often as one likes), all within the day that a lock lives, the calls that return true
  got different units, so that there are at most \<open>c\<close> of them.
\<close>

theorem award_units_sold_once:
  assumes "redis_ok svc" and "within_day svc" and "0 \<le> c" and "award_run svc sid aid c w units"
  shows "distinct units \<and> set units \<subseteq> {0..<c} \<and> int (length units) \<le> c"
proof -
  have inv: "distinct units" "set units \<subseteq> {0..<c}" using award_run_inv [OF assms(4,1,2,3)] by simp_all
  then have "length units \<le> card {0..<c}" by (metis card_mono distinct_card finite_atLeastLessThan_int)
  then show ?thesis using inv assms(3) by simp
qed

text \<open>Two units, one sold.\<close>

definition stocked_world :: world where
  "stocked_world = set_keys [GetStrategyAwardCountKey 1 101 \<mapsto> (RStr (FormatInt 2), None)] empty_world"

lemma sale_run:
  "\<exists>w'. SubtractionAwardStock demo_svc 1 101 stocked_world = (Ok True, w') \<and>
        rkeys w' (GetStrategyAwardCountKey 1 101) = Some (RStr (FormatInt 1), None)"
  by (simp add: SubtractionAwardStock_def Decr_def redis_int_result_def redis_served bindE_def stocked_world_def live_def
      incr_value_def is_int64_small cache_SetNX_def redis_arg_def Let_def)

theorem award_units_sold_once_witness:
  "\<exists>w. award_run demo_svc 1 101 2 w [1] \<and> int (length [1::int]) \<le> 2"
proof -
  obtain w' where s: "SubtractionAwardStock demo_svc 1 101 stocked_world = (Ok True, w')"
      "rkeys w' (GetStrategyAwardCountKey 1 101) = Some (RStr (FormatInt 1), None)"
    using sale_run by auto
  have "award_run demo_svc 1 101 2 stocked_world []"
    by (rule award_run.start) (simp add: stocked_world_def counter_within_def is_int64_small)
  then have run: "award_run demo_svc 1 101 2 w' [1]" using s by (rule award_run.sold)
  have "within_day demo_svc" by (simp add: within_day_def hour_def second_def)
  from award_units_sold_once [OF redis_ok_sample this _ run] run show ?thesis by auto
qed

end
