(* ===== verification/Recharge.thy ===== *)
theory Recharge
  imports Activity_Usecase
begin

text \<open>
  Recharging an account: what \<open>SaveOrder\<close> leaves in the tables of the user's shard, that an external
  business number is booked once, and what \<open>CreateRaffleActivityOrder\<close> makes of it through the
  contract of its repository.
\<close>

section \<open>Booking is exact and all or nothing\<close>

text \<open>
  The rows of an account table after an amount was added to the row of the account, or the account
  was opened with it. MySQL reports the rows an update changed, so an update that changes no
  matching row (adding nothing within the resolution of \<open>update_time\<close>) counts as no account.
\<close>

definition upserted :: "(row \<Rightarrow> bool) \<Rightarrow> (time \<Rightarrow> row \<Rightarrow> row) \<Rightarrow> (time \<Rightarrow> row) \<Rightarrow> row list \<Rightarrow> row list \<Rightarrow> bool" where
  "upserted p f new rows rows' \<longleftrightarrow>
     (\<exists>t. if \<exists>r \<in> set rows. p r \<and> f t r \<noteq> r then rows' = map (\<lambda>r. if p r then f t r else r) rows
          else \<exists>t' i. rows' = rows @ [with_id i (new t')])"

definition order_booked :: "int \<Rightarrow> string \<Rightarrow> string \<Rightarrow> CreateQuotaOrder \<Rightarrow> world \<Rightarrow> world \<Rightarrow> bool" where
  "order_booked zone db suffix q w w' \<longleftrightarrow>
     (let o1 = cq_ActivityOrder q; uid = cq_UserID q; aid = cq_ActivityID q;
          day = fmt_day zone (ao_OrderTime o1); month = fmt_month zone (ao_OrderTime o1)
      in (\<exists>t i. tables w' (db, quota_order_table suffix) =
                  tables w (db, quota_order_table suffix) @ [with_id i (quota_order_row o1 t)]) \<and>
         upserted (account_row uid aid) (\<lambda>t. on_account (credit_account q t)) (new_account_row q)
           (tables w (db, accT)) (tables w' (db, accT)) \<and>
         (if cq_DayCount q = 0 then tables w' (db, dayT) = tables w (db, dayT)
          else upserted (day_row uid aid day) (\<lambda>t. on_day (credit_day (cq_DayCount q) t))
                 (new_day_row uid aid day (cq_DayCount q) (cq_DayCount q))
                 (tables w (db, dayT)) (tables w' (db, dayT))) \<and>
         (if cq_MonthCount q = 0 then tables w' (db, monT) = tables w (db, monT)
          else upserted (month_row uid aid month) (\<lambda>t. on_month (credit_month (cq_MonthCount q) t))
                 (new_month_row uid aid month (cq_MonthCount q) (cq_MonthCount q))
                 (tables w (db, monT)) (tables w' (db, monT))) \<and>
         (\<forall>dt. dt \<notin> {(db, quota_order_table suffix), (db, accT), (db, dayT), (db, monT)} \<longrightarrow>
            tables w' dt = tables w dt))"

lemma upserted_find:
  assumes "upserted p f new rows rows'" and "find p rows = Some r" and "\<And>t r. p r \<Longrightarrow> f t r \<noteq> r \<and> p (f t r)"
  shows "\<exists>t. find p rows' = Some (f t r)"
proof -
  have "\<exists>r \<in> set rows. p r" using assms(2) by (metis find_SomeD find_Some_iff nth_mem)
  then obtain t where "rows' = map (\<lambda>r. if p r then f t r else r) rows"
    using assms(1,3) by (auto simp: upserted_def split: if_splits)
  then show ?thesis using find_map_if [of p "f t" rows] assms(2,3) by auto
qed

lemma update_or_create_Ok:
  assumes "mysql_ok svc uniq"
    and "update_or_create svc db tb p f new w = (Ok u, w')"
  shows "upserted p f new (tables w (db, tb)) (tables w' (db, tb)) \<and>
         (\<forall>dt. dt \<noteq> (db, tb) \<longrightarrow> tables w' dt = tables w dt)"
proof -
  obtain t where t: "t = svc_clock svc (tick w)" by simp
  let ?hit = "\<lambda>r. p r \<and> f t r \<noteq> r" and ?rows = "tables w (db, tb)"
  show ?thesis
  proof (cases "\<exists>r \<in> set ?rows. ?hit r")
    case True
    then have "filter ?hit ?rows \<noteq> []" by (simp add: filter_empty_conv)
    then show ?thesis
      using assms(2) t True
      by (auto simp: update_or_create_def gorm_Ok_iffs [OF assms(1)] upserted_def intro!: exI [of _ t])
  next
    case False
    then have "filter ?hit ?rows = []" "map (\<lambda>r. if p r then f t r else r) ?rows = ?rows"
      by (auto simp: filter_empty_conv intro: map_idI)
    then obtain t' i where "tables w' = (tables w)((db, tb) := ?rows @ [with_id i (new t')])"
      using assms(2) t
      by (auto simp: update_or_create_def gorm_Ok_iffs [OF assms(1)] caseE_Ok_iff)
    then show ?thesis unfolding upserted_def using False by (simp, intro exI [of _ t]) auto
  qed
qed

lemma quota_order_table_neqs [simp]:
  "quota_order_table s \<noteq> accT" "quota_order_table s \<noteq> monT" "quota_order_table s \<noteq> dayT"
  by (simp_all add: quota_order_table_def)

lemmas quota_order_table_neqs_sym [simp] = quota_order_table_neqs [symmetric]

lemma credit_account_changes:
  assumes "account_row uid aid r" and "cq_TotalCount q \<noteq> 0"
  shows "on_account (credit_account q t) r \<noteq> r \<and> account_row uid aid (on_account (credit_account q t) r)"
proof -
  from assms(1) obtain a where "r = RAccount a" by (cases r) (simp_all add: account_row_def)
  moreover have "credit_account q t a \<noteq> a"
  proof
    assume "credit_account q t a = a"
    then have "acc_TotalCount (credit_account q t a) = acc_TotalCount a" by simp
    with assms(2) show False by (simp add: credit_account_def)
  qed
  ultimately show ?thesis using assms(1) by (simp add: account_row_def credit_account_def)
qed

lemma book_order_Ok:
  assumes "mysql_ok svc uniq"
    and "book_order svc db suffix q w = (Ok u, w')"
  shows "order_booked (svc_zone svc) db suffix q w w'"
proof -
  let ?uid = "cq_UserID q" and ?aid = "cq_ActivityID q" and ?o = "cq_ActivityOrder q"
  let ?day = "fmt_day (svc_zone svc) (ao_OrderTime ?o)" and ?month = "fmt_month (svc_zone svc) (ao_OrderTime ?o)"
  let ?D = "update_or_create svc db dayT (day_row ?uid ?aid ?day) (\<lambda>t. on_day (credit_day (cq_DayCount q) t))
              (new_day_row ?uid ?aid ?day (cq_DayCount q) (cq_DayCount q))"
  let ?M = "update_or_create svc db monT (month_row ?uid ?aid ?month) (\<lambda>t. on_month (credit_month (cq_MonthCount q) t))
              (new_month_row ?uid ?aid ?month (cq_MonthCount q) (cq_MonthCount q))"
  obtain t i w1 w2 w3 where
    c: "w1 = insert_row (db, quota_order_table suffix) (with_id i (quota_order_row ?o t)) (bump (bump w))" and
    a: "update_or_create svc db accT (account_row ?uid ?aid) (\<lambda>t. on_account (credit_account q t)) (new_account_row q) w1 = (Ok (), w2)" and
    d: "(if cq_DayCount q \<noteq> 0 then ?D else ret ()) w2 = (Ok (), w3)" and
    m: "(if cq_MonthCount q \<noteq> 0 then ?M else ret ()) w3 = (Ok (), w')"
    using assms(2) by (auto simp: book_order_def Let_def caseE_Ok_iff gorm_Create_Ok_iff [OF assms(1)])
  note A = update_or_create_Ok [OF assms(1) a]
  have D: "(if cq_DayCount q = 0 then w3 = w2
            else upserted (day_row ?uid ?aid ?day) (\<lambda>t. on_day (credit_day (cq_DayCount q) t))
                 (new_day_row ?uid ?aid ?day (cq_DayCount q) (cq_DayCount q)) (tables w2 (db, dayT)) (tables w3 (db, dayT))) \<and>
          (\<forall>dt. dt \<noteq> (db, dayT) \<longrightarrow> tables w3 dt = tables w2 dt)"
  proof (cases "cq_DayCount q = 0")
    case True
    with d show ?thesis by simp
  next
    case False
    with d have "?D w2 = (Ok (), w3)" by simp
    from update_or_create_Ok [OF assms(1) this] False show ?thesis by simp
  qed
  have M: "(if cq_MonthCount q = 0 then w' = w3
            else upserted (month_row ?uid ?aid ?month) (\<lambda>t. on_month (credit_month (cq_MonthCount q) t))
                 (new_month_row ?uid ?aid ?month (cq_MonthCount q) (cq_MonthCount q)) (tables w3 (db, monT)) (tables w' (db, monT))) \<and>
          (\<forall>dt. dt \<noteq> (db, monT) \<longrightarrow> tables w' dt = tables w3 dt)"
  proof (cases "cq_MonthCount q = 0")
    case True
    with m show ?thesis by simp
  next
    case False
    with m have "?M w3 = (Ok (), w')" by simp
    from update_or_create_Ok [OF assms(1) this] False show ?thesis by simp
  qed
  have T: "tables w1 = (tables w)((db, quota_order_table suffix) :=
             tables w (db, quota_order_table suffix) @ [with_id i (quota_order_row ?o t)])"
    using c by simp
  have before: "tables w1 (db, accT) = tables w (db, accT)" "tables w2 (db, dayT) = tables w (db, dayT)"
    "tables w3 (db, monT) = tables w (db, monT)"
    using A D T by simp_all
  have after: "tables w' (db, accT) = tables w2 (db, accT)" "tables w' (db, dayT) = tables w3 (db, dayT)"
    "tables w' (db, quota_order_table suffix) = tables w1 (db, quota_order_table suffix)"
    using A D M by simp_all
  have others: "\<forall>dt. dt \<notin> {(db, quota_order_table suffix), (db, accT), (db, dayT), (db, monT)} \<longrightarrow> tables w' dt = tables w dt"
    using A D M T by simp
  have ord: "tables w' (db, quota_order_table suffix) =
      tables w (db, quota_order_table suffix) @ [with_id i (quota_order_row ?o t)]"
    using after T by simp
  have A': "upserted (account_row ?uid ?aid) (\<lambda>t. on_account (credit_account q t)) (new_account_row q)
      (tables w (db, accT)) (tables w' (db, accT))"
    using A before(1) after(1) by simp
  have D': "if cq_DayCount q = 0 then tables w' (db, dayT) = tables w (db, dayT)
      else upserted (day_row ?uid ?aid ?day) (\<lambda>t. on_day (credit_day (cq_DayCount q) t))
             (new_day_row ?uid ?aid ?day (cq_DayCount q) (cq_DayCount q)) (tables w (db, dayT)) (tables w' (db, dayT))"
    using D before(2) after(2) by (auto split: if_splits)
  have M': "if cq_MonthCount q = 0 then tables w' (db, monT) = tables w (db, monT)
      else upserted (month_row ?uid ?aid ?month) (\<lambda>t. on_month (credit_month (cq_MonthCount q) t))
             (new_month_row ?uid ?aid ?month (cq_MonthCount q) (cq_MonthCount q)) (tables w (db, monT)) (tables w' (db, monT))"
    using M before(3) by (auto split: if_splits)
  show ?thesis
    unfolding order_booked_def Let_def
    by (intro conjI) (use ord in blast, fact A', fact D', fact M', fact others)
qed

lemma order_booked_cong:
  "tables w' = tables w1 \<Longrightarrow> order_booked z db suffix q w w1 \<Longrightarrow> order_booked z db suffix q w w'"
  by (simp only: order_booked_def)

lemma order_booked_bump [simp]: "order_booked z db suffix q w (bump w') = order_booked z db suffix q w w'"
  using order_booked_cong [of "bump w'" w'] order_booked_cong [of w' "bump w'"] by auto

lemma SaveOrder_effect:
  assumes "mysql_ok svc uniq" and "DBStrategy rt (cq_UserID q) = Ok (Some db, suffix)"
    and "SaveOrder svc rt q w = (r, w')"
  shows "(tables w' = tables w \<or> order_booked (svc_zone svc) db suffix q w w') \<and>
         (r = Ok () \<longrightarrow> order_booked (svc_zone svc) db suffix q w w')"
proof -
  have t: "transaction svc (book_order svc db suffix q) w = (r, w')"
    using assms(2,3) by (simp add: SaveOrder_def shard_def bindE_def)
  from transaction_atomic [OF t] t show ?thesis
    by (auto simp: transaction_Ok_iff dest!: book_order_Ok [OF assms(1)] intro: order_booked_cong)
qed

text \<open>A second order with the same external number meets the unique index.\<close>

lemma SaveOrder_refused:
  assumes "mysql_ok svc uniq" and "DBStrategy rt (cq_UserID q) = Ok (Some db, suffix)"
    and "\<And>t. \<exists>x \<in> set (tables w (db, quota_order_table suffix)).
           uniq (quota_order_table suffix) x (quota_order_row (cq_ActivityOrder q) t)"
    and "SaveOrder svc rt q w = (r, w')"
  shows "tables w' = tables w \<and> r \<noteq> Ok () \<and>
         (svc_fault svc (Suc (tick w)) = NoFault \<longrightarrow> r = Err MySQLDuplicateEntry)"
proof -
  have t: "transaction svc (book_order svc db suffix q) w = (r, w')"
    using assms(2,4) by (simp add: SaveOrder_def shard_def bindE_def)
  have n: "\<not> (\<exists>x w1. book_order svc db suffix q w = (Ok x, w1))"
    using assms(3) by (auto simp: book_order_def Let_def caseE_Ok_iff gorm_Create_Ok_iff [OF assms(1)])
  obtain x where x: "x \<in> set (tables w (db, quota_order_table suffix))"
      "uniq (quota_order_table suffix) x (quota_order_row (cq_ActivityOrder q) (svc_clock svc (tick w)))"
    using assms(3) by blast
  have "svc_fault svc (Suc (tick w)) = NoFault \<Longrightarrow>
      book_order svc db suffix q w = (Err MySQLDuplicateEntry, bump (bump w))"
    using gorm_Create_duplicate [OF assms(1), of "bump w" x db "quota_order_table suffix"] x
    by (simp add: book_order_def Let_def caseE_def dup_index_def)
  then show ?thesis using t n by (auto simp: transaction_def split: prod.splits res.splits)
qed

text \<open>\<open>out_business_no\<close> carries a unique index (\<open>po/activity.go\<close>: the field that makes a recharge
  idempotent).\<close>

definition unique_business_no :: "(string \<Rightarrow> row \<Rightarrow> row \<Rightarrow> bool) \<Rightarrow> bool" where
  "unique_business_no uniq \<longleftrightarrow>
     (\<forall>s x y. ro_OutBusinessNo x = ro_OutBusinessNo y \<longrightarrow>
        uniq (quota_order_table s) (RQuotaOrder x) (RQuotaOrder y))"

lemma booked_then_refused:
  assumes "order_booked z db suffix q w w'" and "unique_business_no uniq"
    and "ao_OutBusinessNo (cq_ActivityOrder q2) = ao_OutBusinessNo (cq_ActivityOrder q)"
  shows "\<exists>x \<in> set (tables w' (db, quota_order_table suffix)).
           uniq (quota_order_table suffix) x (quota_order_row (cq_ActivityOrder q2) t)"
proof -
  obtain t1 i where row: "tables w' (db, quota_order_table suffix) =
      tables w (db, quota_order_table suffix) @ [with_id i (quota_order_row (cq_ActivityOrder q) t1)]"
    using assms(1) unfolding order_booked_def Let_def by blast
  have "uniq (quota_order_table suffix) (with_id i (quota_order_row (cq_ActivityOrder q) t1))
      (quota_order_row (cq_ActivityOrder q2) t)"
    using assms(2,3) by (simp add: unique_business_no_def quota_order_row_def)
  with row show ?thesis by auto
qed

section \<open>The contract of the repository\<close>

text \<open>The order that goes with a recharge.\<close>

definition order_for :: "SkuRecharge \<Rightarrow> CreateQuotaOrder \<Rightarrow> bool" where
  "order_for rech q \<longleftrightarrow>
     cq_UserID q = sk_UserID rech \<and> ao_UserID (cq_ActivityOrder q) = sk_UserID rech \<and>
     ao_Sku (cq_ActivityOrder q) = sk_Sku rech \<and>
     ao_OutBusinessNo (cq_ActivityOrder q) = sk_OutBusinessNo rech \<and>
     ao_TotalCount (cq_ActivityOrder q) = cq_TotalCount q \<and> ao_DayCount (cq_ActivityOrder q) = cq_DayCount q \<and>
     ao_MonthCount (cq_ActivityOrder q) = cq_MonthCount q"

locale recharge_contract =
  fixes repo :: "'c \<Rightarrow> quota_repo"
    and ok :: "'c \<Rightarrow> bool"
    and booked :: "'c \<Rightarrow> CreateQuotaOrder \<Rightarrow> world \<Rightarrow> world \<Rightarrow> bool"
  assumes query_sku: "ok c \<Longrightarrow> keeps tables (q_QueryActivitySku (repo c) s)"
    and query_activity: "ok c \<Longrightarrow> keeps tables (q_QueryRaffleActivityByActivityId (repo c) a)"
    and query_count: "ok c \<Longrightarrow> keeps tables (q_QueryRaffleActivityCount (repo c) n)"
    and save: "ok c \<Longrightarrow> q_SaveOrder (repo c) q w = (r, w') \<Longrightarrow>
          (tables w' = tables w \<or> booked c q w w') \<and> (r = Ok () \<longrightarrow> booked c q w w')"
begin

lemma build_order_for:
  "buildOrderAggregate svc rech sku act count w = (Ok q, w') \<Longrightarrow> order_for rech q"
  by (auto simp: buildOrderAggregate_def order_for_def)

lemma build_tables: "keeps tables (buildOrderAggregate svc rech sku act count)"
  unfolding buildOrderAggregate_def random_order_id_def by (intro keeps_rules tables_deref)

definition prepare :: "services \<Rightarrow> 'c \<Rightarrow> SkuRecharge \<Rightarrow> CreateQuotaOrder M" where
  "prepare svc c rech =
     (if sk_UserID rech = '''' \<or> sk_OutBusinessNo rech = '''' then fail ErrInvalidParams
      else
        bindE (q_QueryActivitySku (repo c) (sk_Sku rech)) (\<lambda>sku.
        bindE (deref sku) (\<lambda>sku.
        bindE (q_QueryRaffleActivityByActivityId (repo c) (as_ActivityID sku)) (\<lambda>act.
        bindE (q_QueryRaffleActivityCount (repo c) (as_ActivityCountID sku)) (\<lambda>count.
        buildOrderAggregate svc rech sku act count)))))"

lemma recharge_prepare:
  "CreateRaffleActivityOrder svc (repo c) rech =
     bindE (prepare svc c rech) (\<lambda>q. bindE (q_SaveOrder (repo c) q) (\<lambda>_. ret (ao_OrderID (cq_ActivityOrder q))))"
  by (rule ext) (simp add: CreateRaffleActivityOrder_def prepare_def bindE_def split: prod.split res.split)

lemma prepare_tables: "ok c \<Longrightarrow> keeps tables (prepare svc c rech)"
  unfolding prepare_def
  by (intro keeps_rules query_sku query_activity query_count build_tables tables_deref)

lemma prepare_order_for:
  "prepare svc c rech w = (Ok q, w') \<Longrightarrow> order_for rech q \<and> sk_UserID rech \<noteq> '''' \<and> sk_OutBusinessNo rech \<noteq> ''''"
  by (auto simp: prepare_def dest: build_order_for split: if_splits)

lemma recharge_books:
  assumes "ok c" and "CreateRaffleActivityOrder svc (repo c) rech w = (r, w')"
  shows "(tables w' = tables w \<or> (\<exists>q w1. tables w1 = tables w \<and> order_for rech q \<and> booked c q w1 w')) \<and>
         (\<forall>oid. r = Ok oid \<longrightarrow> (\<exists>q w1. tables w1 = tables w \<and> order_for rech q \<and> booked c q w1 w' \<and>
            ao_OrderID (cq_ActivityOrder q) = oid))"
proof -
  obtain rp w1 where p: "prepare svc c rech w = (rp, w1)" by fastforce
  have t: "tables w1 = tables w" using keepsD [OF prepare_tables [OF assms(1)] p] .
  show ?thesis
  proof (cases rp)
    case (Ok q)
    obtain rs w2 where s: "q_SaveOrder (repo c) q w1 = (rs, w2)" by fastforce
    from save [OF assms(1) s] prepare_order_for [of svc c rech w q w1] show ?thesis
      using assms(2) p Ok s t by (cases rs) (auto simp: recharge_prepare bindE_def)
  qed (use assms(2) p t in \<open>auto simp: recharge_prepare bindE_def\<close>)
qed

end

section \<open>The activity repository keeps the contract\<close>

definition deployed_quota_repo :: "topics \<times> deployment \<Rightarrow> quota_repo" where
  "deployed_quota_repo = (\<lambda>(tp, svc, dbs, tbs, uniq). quota_repo_of svc tp (NewDBRouter dbs tbs))"

definition recharge_booked :: "topics \<times> deployment \<Rightarrow> CreateQuotaOrder \<Rightarrow> world \<Rightarrow> world \<Rightarrow> bool" where
  "recharge_booked = (\<lambda>(tp, svc, dbs, tbs, uniq) q w w'.
     \<exists>db suffix. DBStrategy (NewDBRouter dbs tbs) (cq_UserID q) = Ok (Some db, suffix) \<and>
       order_booked (svc_zone svc) db suffix q w w')"

lemma quota_query_frames:
  assumes "mysql_ok svc uniq"
  shows "keeps tables (QueryActivitySku svc sku)" "keeps tables (QueryRaffleActivityByActivityId svc aid)"
    "keeps tables (QueryRaffleActivityCountByActivityCountId svc cid)"
  unfolding QueryActivitySku_def QueryRaffleActivityByActivityId_def QueryRaffleActivityCountByActivityCountId_def
  by (intro keeps_rules tables_gorm_query [OF assms])+

interpretation rr: recharge_contract deployed_quota_repo "\<lambda>(tp, d). deployment_ok d" recharge_booked
proof (unfold_locales, goal_cases)
  case (4 c q w r w')
  obtain tp svc dbs tbs uniq where c: "c = (tp, svc, dbs, tbs, uniq)" by (cases c)
  then have ok: "mysql_ok svc uniq" "0 < dbs" "0 < tbs" using 4 by (simp_all add: deployment_ok_def)
  obtain db suffix where "DBStrategy (NewDBRouter dbs tbs) (cq_UserID q) = Ok (Some db, suffix)"
    using DBStrategy_slot ok by fastforce
  with SaveOrder_effect [OF ok(1) this, of w r w'] 4 c show ?case
    by (auto simp: deployed_quota_repo_def quota_repo_of_def recharge_booked_def)
qed (auto simp: deployed_quota_repo_def quota_repo_of_def deployment_ok_def intro!: quota_query_frames)

section \<open>Properties\<close>

definition sample_quota_order :: CreateQuotaOrder where
  "sample_quota_order =
     \<lparr>cq_UserID = ''e'', cq_ActivityID = 1, cq_TotalCount = 10, cq_DayCount = 3, cq_MonthCount = 6,
      cq_ActivityOrder =
        \<lparr>ao_UserID = ''e'', ao_Sku = 9, ao_ActivityID = 1, ao_ActivityName = ''a'', ao_StrategyID = 5,
         ao_OrderID = ''000000000001'', ao_OrderTime = 1700000000 * second, ao_TotalCount = 10, ao_DayCount = 3,
         ao_MonthCount = 6, ao_State = ActivityOrderStateCompleted, ao_OutBusinessNo = ''b''\<rparr>\<rparr>"

definition business_index :: "string \<Rightarrow> row \<Rightarrow> row \<Rightarrow> bool" where
  "business_index t r r' \<longleftrightarrow>
     (case (r, r') of (RQuotaOrder x, RQuotaOrder y) \<Rightarrow> ro_OutBusinessNo x = ro_OutBusinessNo y | _ \<Rightarrow> False)"

lemma sample_recharge:
  "\<exists>w'. SaveOrder (sample_svc business_index) (NewDBRouter 2 4) sample_quota_order empty_world = (Ok (), w')"
  by (simp add: SaveOrder_def sample_quota_order_def shard_def sample_shard bindE_def sample_transaction
      book_order_def Let_def caseE_def update_or_create_def)

text \<open>
  C19. Booking a recharge is all or nothing and exact: whatever \<open>SaveOrder\<close> returns, the tables are
  as before or the order row was appended, the total account was credited with the order's counts (or
  opened with them), and the day and month accounts of the order's date likewise; nothing else
  changed. When it returns nil the booking is there, and an account that existed is the old one with
  exactly the counts of the order added.
\<close>

theorem SaveOrder_exact:
  assumes "mysql_ok svc uniq" and "DBStrategy (NewDBRouter dbs tbs) (cq_UserID q) = Ok (Some db, suffix)"
    and "SaveOrder svc (NewDBRouter dbs tbs) q w = (r, w')"
  shows "(tables w' = tables w \<or> order_booked (svc_zone svc) db suffix q w w') \<and>
         (r = Ok () \<longrightarrow> order_booked (svc_zone svc) db suffix q w w') \<and>
         (\<forall>a. r = Ok () \<longrightarrow> cq_TotalCount q \<noteq> 0 \<longrightarrow>
            find (account_row (cq_UserID q) (cq_ActivityID q)) (tables w (db, accT)) = Some (RAccount a) \<longrightarrow>
            (\<exists>t. find (account_row (cq_UserID q) (cq_ActivityID q)) (tables w' (db, accT)) =
                   Some (RAccount (credit_account q t a))))"
proof -
  let ?p = "account_row (cq_UserID q) (cq_ActivityID q)"
  have "order_booked (svc_zone svc) db suffix q w w' \<Longrightarrow> cq_TotalCount q \<noteq> 0 \<Longrightarrow>
      find ?p (tables w (db, accT)) = Some (RAccount a) \<Longrightarrow>
      \<exists>t. find ?p (tables w' (db, accT)) = Some (RAccount (credit_account q t a))" for a
    unfolding order_booked_def Let_def
    using upserted_find [where p = ?p and r = "RAccount a" and f = "\<lambda>t. on_account (credit_account q t)"
        and new = "new_account_row q" and rows = "tables w (db, accT)" and rows' = "tables w' (db, accT)"]
      credit_account_changes by simp
  with SaveOrder_effect [OF assms] show ?thesis by blast
qed

theorem SaveOrder_exact_witness:
  "\<exists>w'. SaveOrder (sample_svc business_index) (NewDBRouter 2 4) sample_quota_order empty_world = (Ok (), w') \<and>
     order_booked 0 ''01'' ''002'' sample_quota_order empty_world w'"
proof -
  obtain w' where run: "SaveOrder (sample_svc business_index) (NewDBRouter 2 4) sample_quota_order empty_world = (Ok (), w')"
    using sample_recharge by blast
  have "DBStrategy (NewDBRouter 2 4) (cq_UserID sample_quota_order) = Ok (Some ''01'', ''002'')"
    by (simp add: sample_quota_order_def sample_shard)
  from SaveOrder_exact [OF mysql_ok_sample this run] run show ?thesis by auto
qed

text \<open>
  C20. A recharge is booked once: after a successful \<open>SaveOrder\<close>, another order of the same user with
  the same external business number is refused by the unique index and changes no table, whatever the
  network does. The error is the driver's duplicate-entry error.
\<close>

theorem SaveOrder_once:
  assumes "mysql_ok svc uniq" and "unique_business_no uniq" and "0 < dbs" and "0 < tbs"
    and "SaveOrder svc (NewDBRouter dbs tbs) q w = (Ok (), w')"
    and "cq_UserID q2 = cq_UserID q"
    and "ao_OutBusinessNo (cq_ActivityOrder q2) = ao_OutBusinessNo (cq_ActivityOrder q)"
    and "SaveOrder svc (NewDBRouter dbs tbs) q2 w' = (r, w'')"
  shows "tables w'' = tables w' \<and> r \<noteq> Ok () \<and>
         (svc_fault svc (Suc (tick w')) = NoFault \<longrightarrow> r = Err MySQLDuplicateEntry)"
proof -
  obtain db suffix where s: "DBStrategy (NewDBRouter dbs tbs) (cq_UserID q) = Ok (Some db, suffix)"
    using DBStrategy_slot [OF assms(3,4)] by fastforce
  from SaveOrder_effect [OF assms(1) s assms(5)] have b: "order_booked (svc_zone svc) db suffix q w w'" by simp
  show ?thesis
    by (rule SaveOrder_refused [where uniq = uniq and q = q2 and rt = "NewDBRouter dbs tbs" and db = db and suffix = suffix])
      (use assms s booked_then_refused [OF b assms(2,7)] in simp_all)
qed

theorem SaveOrder_once_witness:
  "\<exists>w' r w''. SaveOrder (sample_svc business_index) (NewDBRouter 2 4) sample_quota_order empty_world = (Ok (), w') \<and>
     SaveOrder (sample_svc business_index) (NewDBRouter 2 4) sample_quota_order w' = (r, w'') \<and>
     tables w'' = tables w' \<and> r = Err MySQLDuplicateEntry"
proof -
  obtain w' where run: "SaveOrder (sample_svc business_index) (NewDBRouter 2 4) sample_quota_order empty_world = (Ok (), w')"
    using sample_recharge by blast
  obtain r w'' where again: "SaveOrder (sample_svc business_index) (NewDBRouter 2 4) sample_quota_order w' = (r, w'')"
    by fastforce
  have "unique_business_no business_index" by (simp add: unique_business_no_def business_index_def)
  from SaveOrder_once [OF mysql_ok_sample this _ _ run refl refl again] run again show ?thesis by simp
qed

section \<open>A recharge from end to end\<close>

definition sample_sku :: ActivitySku where
  "sample_sku = \<lparr>as_Sku = 9, as_ActivityID = 1, as_ActivityCountID = 7, as_StockCount = 5, as_StockCountSurplus = 5\<rparr>"

definition sample_count :: ActivityCount where
  "sample_count = \<lparr>ac_ActivityCountID = 7, ac_TotalCount = 10, ac_DayCount = 3, ac_MonthCount = 6\<rparr>"

definition recharge_svc :: services where
  "recharge_svc = (sample_svc business_index)
     \<lparr>js_ActivitySku := single_codec sample_sku zero_ActivitySku,
      js_Activity := single_codec sample_activity zero_Activity,
      js_ActivityCount := single_codec sample_count zero_ActivityCount\<rparr>"

definition recharge_world :: world where
  "recharge_world = empty_world
     \<lparr>rkeys := [GetActivitySkuKey 9 \<mapsto> (RStr ''{}'', None), GetActivityKey 1 \<mapsto> (RStr ''{}'', None),
               GetActivityCountKey 7 \<mapsto> (RStr ''{}'', None)]\<rparr>"

lemma recharge_svc_ok [simp]:
  "redis_ok recharge_svc" "mysql_ok recharge_svc business_index" "no_faults recharge_svc"
  "svc_fault recharge_svc n = NoFault" "svc_depth recharge_svc = 2" "svc_zone recharge_svc = 0"
  "svc_clock recharge_svc n = 1700000000 * second"
  by (simp_all add: recharge_svc_def redis_ok_def mysql_ok_def sample_svc_def no_faults_def)

lemma recharge_live [simp]: "live t (rkeys recharge_world) = rkeys recharge_world"
  by (rule ext) (simp add: live_def recharge_world_def split: option.split)

lemma recharge_queries:
  assumes "rkeys w = rkeys recharge_world"
  shows "QueryActivitySku recharge_svc 9 w = (Ok (Some sample_sku), touched recharge_svc w)"
    and "QueryRaffleActivityByActivityId recharge_svc 1 w = (Ok (Some sample_activity), touched recharge_svc w)"
    and "QueryRaffleActivityCountByActivityCountId recharge_svc 7 w = (Ok (Some sample_count), touched recharge_svc w)"
proof -
  show "QueryActivitySku recharge_svc 9 w = (Ok (Some sample_sku), touched recharge_svc w)"
    unfolding QueryActivitySku_def
    by (subst bindE_eval [OF cached_hit [where b = "''{}''" and dl = None and v = sample_sku]])
      (simp_all add: assms, simp_all add: recharge_world_def recharge_svc_def single_codec_def sample_sku_def)
  show "QueryRaffleActivityByActivityId recharge_svc 1 w = (Ok (Some sample_activity), touched recharge_svc w)"
    unfolding QueryRaffleActivityByActivityId_def
    by (subst bindE_eval [OF cached_hit [where b = "''{}''" and dl = None and v = sample_activity]])
      (simp_all add: assms, simp_all add: recharge_world_def recharge_svc_def single_codec_def sample_activity_def)
  show "QueryRaffleActivityCountByActivityCountId recharge_svc 7 w = (Ok (Some sample_count), touched recharge_svc w)"
    unfolding QueryRaffleActivityCountByActivityCountId_def
    by (subst bindE_eval [OF cached_hit [where b = "''{}''" and dl = None and v = sample_count]])
      (simp_all add: assms, simp_all add: recharge_world_def recharge_svc_def single_codec_def sample_count_def)
qed

definition sample_recharge_request :: SkuRecharge where
  "sample_recharge_request = \<lparr>sk_UserID = ''e'', sk_Sku = 9, sk_OutBusinessNo = ''b''\<rparr>"

lemma recharge_run:
  "\<exists>oid w'. CreateRaffleActivityOrder recharge_svc (quota_repo_of recharge_svc tp (NewDBRouter 2 4))
      sample_recharge_request recharge_world = (Ok oid, w')"
proof -
  have "tables w = (\<lambda>_. []) \<Longrightarrow> cq_UserID q = ''e'' \<Longrightarrow> fst (SaveOrder recharge_svc (NewDBRouter 2 4) q w) = Ok ()"
    for q w
    by (simp add: SaveOrder_def shard_def sample_shard bindE_def served [OF recharge_svc_ok(2,3)]
        book_order_def Let_def caseE_def update_or_create_def)
  moreover have "tables recharge_world = (\<lambda>_. [])" by (simp add: recharge_world_def empty_store_def)
  moreover have "as_ActivityID sample_sku = 1" "as_ActivityCountID sample_sku = 7" by (simp_all add: sample_sku_def)
  ultimately show ?thesis
    by (simp add: CreateRaffleActivityOrder_def sample_recharge_request_def quota_repo_of_def bindE_def
        recharge_queries buildOrderAggregate_def random_order_id_def prod.case_eq_if)
qed

text \<open>
  C21. A recharge through the use case: \<open>CreateRaffleActivityOrder\<close> books at most one order, for the
  user, sku and external number of the request and with the counts the sku is configured with; when
  it returns an order number, that order is booked in the user's shard, and when it does not, the
  tables hold that booking or are unchanged.
\<close>

theorem CreateRaffleActivityOrder_books:
  assumes "mysql_ok svc uniq" and "faults_ok svc" and "0 < dbs" and "0 < tbs"
    and "CreateRaffleActivityOrder svc (quota_repo_of svc tp (NewDBRouter dbs tbs)) rech w = (r, w')"
  shows "(tables w' = tables w \<or>
          (\<exists>q w1. tables w1 = tables w \<and> order_for rech q \<and> recharge_booked (tp, svc, dbs, tbs, uniq) q w1 w')) \<and>
         (\<forall>oid. r = Ok oid \<longrightarrow>
            (\<exists>q w1. tables w1 = tables w \<and> order_for rech q \<and> recharge_booked (tp, svc, dbs, tbs, uniq) q w1 w' \<and>
                    ao_OrderID (cq_ActivityOrder q) = oid))"
  using rr.recharge_books [of "(tp, svc, dbs, tbs, uniq)" svc rech w r w'] assms
  by (simp add: deployed_quota_repo_def deployment_ok_def)

theorem CreateRaffleActivityOrder_books_witness:
  "\<exists>oid w' q w1. CreateRaffleActivityOrder recharge_svc (quota_repo_of recharge_svc
        \<lparr>ActivitySkuStockZero = ''z'', SendRebate = ''r'', SendAward = ''a''\<rparr> (NewDBRouter 2 4))
      sample_recharge_request recharge_world = (Ok oid, w') \<and>
     order_for sample_recharge_request q \<and> ao_OrderID (cq_ActivityOrder q) = oid \<and>
     recharge_booked (\<lparr>ActivitySkuStockZero = ''z'', SendRebate = ''r'', SendAward = ''a''\<rparr>, recharge_svc, 2, 4, business_index) q w1 w'"
proof -
  let ?tp = "\<lparr>ActivitySkuStockZero = ''z'', SendRebate = ''r'', SendAward = ''a''\<rparr>"
  obtain oid w' where run: "CreateRaffleActivityOrder recharge_svc (quota_repo_of recharge_svc ?tp (NewDBRouter 2 4))
      sample_recharge_request recharge_world = (Ok oid, w')"
    using recharge_run by blast
  have "faults_ok recharge_svc" by (simp add: faults_ok_def fault_error_def)
  from CreateRaffleActivityOrder_books [OF recharge_svc_ok(2) this _ _ run] run show ?thesis by auto
qed

end
