(* ===== verification/Rule_Tree.thy ===== *)
theory Rule_Tree
  imports Strategy_Repo
begin

text \<open>
  \<open>internal/biz/strategy/rule_tree.go\<close>: the decision tree after a draw. \<open>process\<close> walks from the root
  along the lines of each node until a node has none (or a line leads to the empty name); nothing in
  the code bounds the walk, so it is a \<open>partial_function\<close> whose value \<open>None\<close> is a walk without an end.
  Panics are those of the code: a node without a line for its outcome, a node whose name has no logic,
  a rule value that does not parse.
\<close>

record treeStrategyAward =
  ts_AwardID :: int
  ts_AwardRuleValue :: string

record treeAction =
  ta_RuleLogicCheckType :: RuleLogicCheckType
  ta_Award :: treeStrategyAward

datatype ruleNode = ruleLockNode | ruleLuckAwardNode | ruleStockNode

definition TreeNodeGroup :: "RuleTreeName \<rightharpoonup> ruleNode" where
  "TreeNodeGroup = [RuleLock \<mapsto> ruleLockNode, RuleLuckAward \<mapsto> ruleLuckAwardNode, RuleStock \<mapsto> ruleStockNode]"

text \<open>The engine is its tree; the group of nodes is always the same.\<close>

definition newDecisionTreeEngine :: "RuleTree option \<Rightarrow> RuleTree M" where
  "newDecisionTreeEngine ruleTree =
     (case ruleTree of
        None \<Rightarrow> fail ErrRuleTreeInvalid
      | Some t \<Rightarrow> if rt_NodeMap t (rt_TreeRootRuleNode t) = None then fail ErrRuleTreeInvalid else ret t)"

section \<open>The nodes\<close>

definition action :: "RuleLogicCheckType \<Rightarrow> int \<Rightarrow> string \<Rightarrow> treeAction" where
  "action c aid v = \<lparr>ta_RuleLogicCheckType = c, ta_Award = \<lparr>ts_AwardID = aid, ts_AwardRuleValue = v\<rparr>\<rparr>"

text \<open>The number of raffles of the user is the constant 10.\<close>

definition lock_logic :: "int \<Rightarrow> string \<Rightarrow> treeAction M" where
  "lock_logic awardID ruleValue =
     (case Atoi ruleValue of
        Ok raffleCount \<Rightarrow>
          ret (action (if raffleCount \<le> 10 then RuleCheckAllow else RuleCheckTakeOver) awardID ruleValue)
      | _ \<Rightarrow> panic ''rule_lock: invalid rule value'')"

definition luck_award_logic :: "string \<Rightarrow> treeAction M" where
  "luck_award_logic ruleValue =
     (case split COLON ruleValue of
        [luckAwardID, awardRuleValue] \<Rightarrow>
          (case ParseInt luckAwardID of
             Ok aid \<Rightarrow> ret (action RuleCheckTakeOver aid awardRuleValue)
           | _ \<Rightarrow> panic ''rule_luck_award: invalid award id'')
      | _ \<Rightarrow> panic ''rule_luck_award: invalid rule value'')"

definition stock_logic :: "strategy_repo \<Rightarrow> int \<Rightarrow> int \<Rightarrow> string \<Rightarrow> treeAction M" where
  "stock_logic repo strategyID awardID ruleValue =
     bindE (s_SubtractionAwardStock repo strategyID awardID) (\<lambda>status.
     if status then
       bindE (s_AwardStockConsumeSendQueue repo strategyID awardID) (\<lambda>_.
       ret (action RuleCheckAllow awardID ruleValue))
     else ret (action RuleCheckTakeOver awardID ruleValue))"

definition node_logic :: "strategy_repo \<Rightarrow> ruleNode \<Rightarrow> int \<Rightarrow> int \<Rightarrow> string \<Rightarrow> treeAction M" where
  "node_logic repo n strategyID awardID ruleValue =
     (case n of
        ruleLockNode \<Rightarrow> lock_logic awardID ruleValue
      | ruleLuckAwardNode \<Rightarrow> luck_award_logic ruleValue
      | ruleStockNode \<Rightarrow> stock_logic repo strategyID awardID ruleValue)"

section \<open>The engine\<close>

text \<open>Only \<open>EQUAL\<close> is implemented; the other limit types never match.\<close>

definition decisionLogic :: "RuleLogicCheckType \<Rightarrow> RuleTreeNodeLine \<Rightarrow> bool" where
  "decisionLogic matterValue line =
     (case nl_RuleLimitType line of
        EQUAL \<Rightarrow> matterValue = nl_RuleLimitValue line | GT \<Rightarrow> False | LT \<Rightarrow> False | GE \<Rightarrow> False | LE \<Rightarrow> False)"

definition next_node :: "RuleLogicCheckType \<Rightarrow> RuleTreeNodeLine list \<Rightarrow> RuleTreeName res" where
  "next_node matterValue treeNodeLines =
     (if treeNodeLines = [] then Ok ''''
      else case find (decisionLogic matterValue) treeNodeLines of
             Some line \<Rightarrow> Ok (nl_RuleNodeTo line)
           | None \<Rightarrow> Panic ''no executable next node'')"

text \<open>One round of the loop: the next node and the award so far.\<close>

definition visit :: "strategy_repo \<Rightarrow> RuleTree \<Rightarrow> int \<Rightarrow> int \<Rightarrow> RuleTreeName \<Rightarrow> (RuleTreeName \<times> treeStrategyAward) M" where
  "visit repo t strategyID awardID node =
     (case (rt_NodeMap t node, TreeNodeGroup node) of
        (Some treeNode, Some logicNode) \<Rightarrow>
          bindE (node_logic repo logicNode strategyID awardID (rn_RuleValue treeNode)) (\<lambda>treeAction.
          bindE (liftR (next_node (ta_RuleLogicCheckType treeAction) (rn_TreeNodeLine treeNode))) (\<lambda>nxt.
          ret (nxt, ta_Award treeAction)))
      | _ \<Rightarrow> panic ''runtime error: nil pointer dereference'')"

partial_function (option) walk ::
    "strategy_repo \<Rightarrow> RuleTree \<Rightarrow> int \<Rightarrow> int \<Rightarrow> RuleTreeName \<Rightarrow> treeStrategyAward \<Rightarrow> world \<Rightarrow>
     (treeStrategyAward res \<times> world) option" where
  "walk repo t strategyID awardID node award w =
     (if node = '''' then Some (Ok award, w)
      else case visit repo t strategyID awardID node w of
             (Ok x, w') \<Rightarrow> walk repo t strategyID awardID (fst x) (snd x) w'
           | (Err e, w') \<Rightarrow> Some (Err e, w')
           | (Panic s, w') \<Rightarrow> Some (Panic s, w'))"

definition process :: "strategy_repo \<Rightarrow> RuleTree \<Rightarrow> int \<Rightarrow> int \<Rightarrow> world \<Rightarrow> (treeStrategyAward res \<times> world) option" where
  "process repo t strategyID awardID =
     walk repo t strategyID awardID (rt_TreeRootRuleNode t) \<lparr>ts_AwardID = 0, ts_AwardRuleValue = ''''\<rparr>"

section \<open>Lemmas\<close>

subsection \<open>Termination\<close>

text \<open>From a node to the nodes its lines lead to.\<close>

definition edges :: "RuleTree \<Rightarrow> (RuleTreeName \<times> RuleTreeName) set" where
  "edges t = {(to, from). \<exists>node. rt_NodeMap t from = Some node \<and> to \<in> nl_RuleNodeTo ` set (rn_TreeNodeLine node)}"

lemma edges_finite:
  assumes "finite (dom (rt_NodeMap t))"
  shows "finite (edges t)"
proof (rule finite_subset)
  show "edges t \<subseteq> (\<Union>from \<in> dom (rt_NodeMap t).
      (\<lambda>to. (to, from)) ` nl_RuleNodeTo ` set (rn_TreeNodeLine (the (rt_NodeMap t from))))"
    by (force simp: edges_def)
qed (use assms in simp)

lemma next_node_line:
  "next_node c ls = Ok n \<Longrightarrow> n = '''' \<or> n \<in> nl_RuleNodeTo ` set ls"
  by (auto simp: next_node_def find_Some_iff split: if_splits option.splits)

lemma visit_follows_edge:
  assumes "visit repo t sid aid n w = (Ok (n', a), w')"
  shows "n' = '''' \<or> (n', n) \<in> edges t"
proof -
  obtain node c where "rt_NodeMap t n = Some node" "next_node c (rn_TreeNodeLine node) = Ok n'"
    using assms by (auto simp: visit_def split: option.splits)
  then show ?thesis using next_node_line by (fastforce simp: edges_def)
qed

lemma walk_ends:
  assumes "wf (edges t)"
  shows "\<exists>r w'. walk repo t sid aid n a w = Some (r, w')"
  using assms
proof (induction n arbitrary: a w rule: wf_induct_rule)
  case (less n)
  show ?case
  proof (cases "n = ''''")
    case True
    then show ?thesis by (simp add: walk.simps)
  next
    case False
    obtain r w1 where v: "visit repo t sid aid n w = (r, w1)" by fastforce
    show ?thesis
    proof (cases r)
      case (Ok x)
      show ?thesis
      proof (cases "fst x = ''''")
        case True
        then show ?thesis using False v Ok by (simp add: walk.simps)
      next
        case ne: False
        have "(fst x, n) \<in> edges t" using visit_follows_edge v Ok ne by (metis prod.collapse)
        then show ?thesis using less.IH False v Ok by (subst walk.simps) simp
      qed
    qed (use False v in \<open>simp_all add: walk.simps\<close>)
  qed
qed

subsection \<open>What the walk can give\<close>

text \<open>The award of the consolation node.\<close>

definition luck_award :: "RuleTree \<Rightarrow> int \<Rightarrow> bool" where
  "luck_award t aid \<longleftrightarrow>
     (\<exists>node x y. rt_NodeMap t RuleLuckAward = Some node \<and> split COLON (rn_RuleValue node) = [x, y] \<and> ParseInt x = Ok aid)"

lemma visit_award:
  assumes "visit repo t sid aid n w = (Ok (n', a), w')"
  shows "ts_AwardID a = aid \<or> luck_award t (ts_AwardID a)"
proof -
  obtain node lg act w1 where n: "rt_NodeMap t n = Some node" "TreeNodeGroup n = Some lg"
      "node_logic repo lg sid aid (rn_RuleValue node) w = (Ok act, w1)" "a = ta_Award act"
    using assms by (auto simp: visit_def split: option.splits)
  show ?thesis
  proof (cases lg)
    case ruleLuckAwardNode
    then have "n = RuleLuckAward" using n(2) by (auto simp: TreeNodeGroup_def split: if_splits)
    moreover obtain x y where "split COLON (rn_RuleValue node) = [x, y]" "ParseInt x = Ok (ts_AwardID a)"
      using n(3,4) ruleLuckAwardNode
      by (auto simp: node_logic_def luck_award_logic_def action_def split: list.splits res.splits)
    ultimately show ?thesis using n(1) by (auto simp: luck_award_def)
  qed (use n(3,4) in \<open>auto simp: node_logic_def lock_logic_def stock_logic_def action_def split: res.splits if_splits\<close>)
qed

lemma walk_award:
  assumes "walk repo t sid aid n a w = Some r" and "n \<noteq> ''''" and "r = (Ok b, w')"
  shows "ts_AwardID b = aid \<or> luck_award t (ts_AwardID b)"
proof -
  let ?good = "\<lambda>aid t b. ts_AwardID b = aid \<or> luck_award t (ts_AwardID b)"
  have "\<forall>b w'. r = (Ok b, w') \<longrightarrow> (n = '''' \<and> b = a) \<or> ?good aid t b"
  proof (rule walk.raw_induct [where P = "\<lambda>repo t sid aid n a w r. \<forall>b w'. r = (Ok b, w') \<longrightarrow> (n = '''' \<and> b = a) \<or> ?good aid t b", OF _ assms(1)])
    fix walk repo t sid aid n a w r
    assume IH: "\<And>repo t sid aid n a w r. walk repo t sid aid n a w = Some r \<Longrightarrow>
        \<forall>b w'. r = (Ok b, w') \<longrightarrow> (n = '''' \<and> b = a) \<or> ?good aid t b"
      and step: "(if n = '''' then Some (Ok a, w)
        else case visit repo t sid aid n w of
          (Ok x, w') \<Rightarrow> walk repo t sid aid (fst x) (snd x) w'
        | (Err e, w') \<Rightarrow> Some (Err e, w') | (Panic s, w') \<Rightarrow> Some (Panic s, w')) = Some r"
    show "\<forall>b w'. r = (Ok b, w') \<longrightarrow> (n = '''' \<and> b = a) \<or> ?good aid t b"
    proof (intro allI impI)
      fix b w' assume r: "r = (Ok b, w')"
      show "(n = '''' \<and> b = a) \<or> ?good aid t b"
      proof (cases "n = ''''")
        case False
        then obtain x w1 where v: "visit repo t sid aid n w = (Ok x, w1)" "walk repo t sid aid (fst x) (snd x) w1 = Some r"
          using step r by (auto split: prod.splits res.splits)
        then show ?thesis using IH [OF v(2)] r visit_award [of repo t sid aid n w "fst x" "snd x"] by auto
      qed (use step r in simp)
    qed
  qed
  then show ?thesis using assms(2,3) by simp
qed

end
