(* ===== verification/Raffle.thy ===== *)
theory Raffle
  imports Rule_Chain Rule_Tree
begin

text \<open>
  \<open>raffleStrategy\<close> of \<open>internal/biz/strategy/raffle_support.go\<close> and
  \<open>internal/biz/strategy/strategy_usecase.go\<close>: a raffle runs the rule chain, and the rule tree of
  the drawn award when the default node drew it. The tree may be walked without an end, so a raffle
  is a computation whose value may be \<open>None\<close>. The deferred metrics run on every return and on a
  panic, when the named result \<open>err\<close> is still nil.
\<close>

type_synonym 'a D = "world \<Rightarrow> ('a res \<times> world) option"

text \<open>Sequencing a computation that returns with one that may not, and the other way round.\<close>

definition bindD :: "'a M \<Rightarrow> ('a \<Rightarrow> 'b D) \<Rightarrow> 'b D" where
  "bindD m f w =
     (case m w of (Ok x, w') \<Rightarrow> f x w' | (Err e, w') \<Rightarrow> Some (Err e, w') | (Panic s, w') \<Rightarrow> Some (Panic s, w'))"

definition thenD :: "'a D \<Rightarrow> ('a \<Rightarrow> 'b M) \<Rightarrow> 'b D" where
  "thenD d f w =
     (case d w of
        None \<Rightarrow> None
      | Some (Ok x, w') \<Rightarrow> Some (f x w')
      | Some (Err e, w') \<Rightarrow> Some (Err e, w')
      | Some (Panic s, w') \<Rightarrow> Some (Panic s, w'))"

definition always :: "'a M \<Rightarrow> 'a D" where
  "always m w = Some (m w)"

section \<open>raffleStrategy\<close>

definition raffleLogicChain :: "services \<Rightarrow> strategy_repo \<Rightarrow> RaffleFactor \<Rightarrow> logicResult M" where
  "raffleLogicChain svc repo factor =
     bindE (openLogicChain repo (rf_StrategyID factor)) (\<lambda>chain.
     logic svc repo chain (rf_UserID factor) (rf_StrategyID factor))"

text \<open>Any error of \<open>QueryRuleTree\<close> is turned into a panic.\<close>

definition rule_tree_or_panic :: "strategy_repo \<Rightarrow> RuleTreeName \<Rightarrow> RuleTree M" where
  "rule_tree_or_panic repo ruleModel =
     caseE (s_QueryRuleTree repo ruleModel) (\<lambda>_. panic (''rule tree not configured: '' @ ruleModel)) ret"

definition raffleRuleTree :: "strategy_repo \<Rightarrow> int \<Rightarrow> int \<Rightarrow> treeStrategyAward D" where
  "raffleRuleTree repo strategyID awardID =
     bindD (s_QueryStrategyRuleModel repo strategyID awardID) (\<lambda>ruleModel.
     if ruleModel = '''' then always (ret \<lparr>ts_AwardID = awardID, ts_AwardRuleValue = ''''\<rparr>)
     else
       bindD (rule_tree_or_panic repo ruleModel) (\<lambda>ruleTree.
       bindD (newDecisionTreeEngine (Some ruleTree)) (\<lambda>engine.
       process repo engine strategyID awardID)))"

definition queryStrategyAwardList :: "strategy_repo \<Rightarrow> int \<Rightarrow> StrategyAward list M" where
  "queryStrategyAwardList repo sid = s_QueryStrategyAwardList repo sid"

definition queryAwardRuleWeightByActivityId :: "strategy_repo \<Rightarrow> int \<Rightarrow> WeightBucket list M" where
  "queryAwardRuleWeightByActivityId repo aid =
     bindE (s_QueryStrategyIdByActivityId repo aid) (s_QueryAwardRuleWeight repo)"

section \<open>StrategyUsecase\<close>

definition buildRaffleAward :: "strategy_repo \<Rightarrow> int \<Rightarrow> int \<Rightarrow> RaffleAward M" where
  "buildRaffleAward repo strategyID awardID =
     bindE (s_QueryStrategyAward repo strategyID awardID) (\<lambda>sa.
     ret \<lparr>ra_AwardID = sa_AwardID sa, ra_AwardTitle = sa_AwardTitle sa, ra_Sort = sa_Sort sa\<rparr>)"

definition raffleResultFromErr :: "gerr option \<Rightarrow> string" where
  "raffleResultFromErr err =
     (case err of
        None \<Rightarrow> ''success''
      | Some e \<Rightarrow> if errors_Is e ErrBlackListUser then ''blacklist''
                 else if errors_Is e ErrRuleTreeInvalid then ''rule_invalid'' else ''error'')"

definition raffle_body :: "services \<Rightarrow> strategy_repo \<Rightarrow> RaffleFactor \<Rightarrow> RaffleAward D" where
  "raffle_body svc repo factor =
     bindD (raffleLogicChain svc repo factor) (\<lambda>before.
     if lr_LogicModel before \<noteq> RuleDefault then
       always (buildRaffleAward repo (rf_StrategyID factor) (lr_AwardID before))
     else
       thenD (raffleRuleTree repo (rf_StrategyID factor) (lr_AwardID before)) (\<lambda>after.
       buildRaffleAward repo (rf_StrategyID factor) (ts_AwardID after)))"

definition raffle_metrics :: "services \<Rightarrow> RaffleFactor \<Rightarrow> time \<Rightarrow> gerr option \<Rightarrow> unit M" where
  "raffle_metrics svc factor start err =
     bindE (IncRaffle (rf_ActivityID factor) (rf_StrategyID factor) (raffleResultFromErr err)) (\<lambda>_.
     bindE (now svc) (\<lambda>t. ObserveRaffleDuration (rf_ActivityID factor) (rf_StrategyID factor) (t - start)))"

definition PerformRaffle :: "services \<Rightarrow> strategy_repo \<Rightarrow> RaffleFactor \<Rightarrow> RaffleAward D" where
  "PerformRaffle svc repo factor w =
     (case raffle_body svc repo factor (bump w) of
        None \<Rightarrow> None
      | Some (r, w') \<Rightarrow>
          Some (r, snd (raffle_metrics svc factor (svc_clock svc (tick w))
                          (case r of Err e \<Rightarrow> Some e | _ \<Rightarrow> None) w')))"

definition AssembleLotteryStrategy :: "services \<Rightarrow> strategy_repo \<Rightarrow> int \<Rightarrow> bool M" where
  "AssembleLotteryStrategy svc repo sid = assembleLotteryStrategy svc repo sid"

definition AssembleLotteryStrategyByActivityId :: "services \<Rightarrow> strategy_repo \<Rightarrow> int \<Rightarrow> bool M" where
  "AssembleLotteryStrategyByActivityId svc repo aid =
     bindE (s_QueryStrategyIdByActivityId repo aid) (AssembleLotteryStrategy svc repo)"

definition usecase_QueryStrategyAwardList :: "strategy_repo \<Rightarrow> int \<Rightarrow> StrategyAward list M" where
  "usecase_QueryStrategyAwardList repo sid = queryStrategyAwardList repo sid"

definition usecase_QueryAwardRuleWeight :: "strategy_repo \<Rightarrow> int \<Rightarrow> WeightBucket list M" where
  "usecase_QueryAwardRuleWeight repo aid = queryAwardRuleWeightByActivityId repo aid"

definition usecase_UpdateStrategyAwardStock :: "strategy_repo \<Rightarrow> int \<Rightarrow> int \<Rightarrow> unit M" where
  "usecase_UpdateStrategyAwardStock repo sid aid = s_UpdateStrategyAwardStock repo sid aid"

section \<open>Lemmas\<close>



lemma bindD_Ok_iff:
  "bindD m f w = Some (Ok y, w'') \<longleftrightarrow> (\<exists>x w'. m w = (Ok x, w') \<and> f x w' = Some (Ok y, w''))"
  by (auto simp: bindD_def split: prod.splits res.splits)

lemma thenD_Ok_iff:
  "thenD d f w = Some (Ok y, w'') \<longleftrightarrow> (\<exists>x w'. d w = Some (Ok x, w') \<and> f x w' = (Ok y, w''))"
  by (auto simp: thenD_def split: option.splits prod.splits res.splits)


lemma engine_Ok: "newDecisionTreeEngine (Some t) w = (Ok e, w') \<longleftrightarrow>
    e = t \<and> w' = w \<and> rt_NodeMap t (rt_TreeRootRuleNode t) \<noteq> None"
  by (auto simp: newDecisionTreeEngine_def)

lemma rule_tree_or_panic_Ok:
  "rule_tree_or_panic repo m w = (Ok t, w') \<longleftrightarrow> s_QueryRuleTree repo m w = (Ok t, w')"
  by (auto simp: rule_tree_or_panic_def caseE_def split: prod.splits res.splits)


text \<open>
  How a decision about the drawn award \<open>aid\<close> comes about: without a rule model the award stands; otherwise
  the tree of that model is read and walked. A tree whose root has no name is left at once, with award 0.
\<close>

definition tree_decides :: "strategy_repo \<Rightarrow> int \<Rightarrow> int \<Rightarrow> world \<Rightarrow> int \<Rightarrow> world \<Rightarrow> bool" where
  "tree_decides repo sid aid w aid' w' \<longleftrightarrow>
     (\<exists>m w1. s_QueryStrategyRuleModel repo sid aid w = (Ok m, w1) \<and>
        (if m = '''' then aid' = aid \<and> w' = w1
         else \<exists>t w2 after. s_QueryRuleTree repo m w1 = (Ok t, w2) \<and>
                process repo t sid aid w2 = Some (Ok after, w') \<and> aid' = ts_AwardID after \<and>
                (aid' = aid \<or> luck_award t aid' \<or> rt_TreeRootRuleNode t = '''' \<and> aid' = 0)))"

lemma process_award:
  assumes "process repo t sid aid w = Some (Ok a, w')"
  shows "ts_AwardID a = aid \<or> luck_award t (ts_AwardID a) \<or> rt_TreeRootRuleNode t = '''' \<and> ts_AwardID a = 0"
proof (cases "rt_TreeRootRuleNode t = ''''")
  case True
  then show ?thesis using assms by (auto simp: process_def walk.simps)
next
  case False
  then show ?thesis using walk_award [OF assms [unfolded process_def] _ refl] by blast
qed

lemma raffleRuleTree_decides:
  assumes "raffleRuleTree repo sid aid w = Some (Ok a, w')"
  shows "tree_decides repo sid aid w (ts_AwardID a) w'"
proof -
  from assms obtain m w1 where m: "s_QueryStrategyRuleModel repo sid aid w = (Ok m, w1)"
      "(if m = '''' then always (ret \<lparr>ts_AwardID = aid, ts_AwardRuleValue = ''''\<rparr>)
        else bindD (rule_tree_or_panic repo m) (\<lambda>t. bindD (newDecisionTreeEngine (Some t)) (\<lambda>e. process repo e sid aid))) w1 =
       Some (Ok a, w')"
    by (auto simp: raffleRuleTree_def bindD_Ok_iff)
  show ?thesis
  proof (cases "m = ''''")
    case True
    then show ?thesis using m by (auto simp: tree_decides_def always_def)
  next
    case False
    then obtain t w2 where t: "s_QueryRuleTree repo m w1 = (Ok t, w2)" "process repo t sid aid w2 = Some (Ok a, w')"
      using m(2) by (auto simp: bindD_Ok_iff engine_Ok rule_tree_or_panic_Ok)
    then show ?thesis using m(1) False process_award [OF t(2)] unfolding tree_decides_def by auto
  qed
qed

lemma PerformRaffle_Ok:
  "PerformRaffle svc repo f w = Some (Ok ra, w') \<Longrightarrow>
   \<exists>w''. raffle_body svc repo f (bump w) = Some (Ok ra, w'') \<and> tables w' = tables w'' \<and> rkeys w' = rkeys w''"
  by (auto simp: PerformRaffle_def raffle_metrics_def metric_defs bindE_def split: option.splits)

section \<open>Properties\<close>

text \<open>A repository of constants: awards 101 and 102, every draw gives 101, whose tree checks the
  lock, then the stock, and ends in the consolation award 102.\<close>

definition demo_line :: "string \<Rightarrow> string \<Rightarrow> RuleLogicCheckType \<Rightarrow> RuleTreeNodeLine" where
  "demo_line from to c =
     \<lparr>nl_TreeID = ''tree_1'', nl_RuleNodeFrom = from, nl_RuleNodeTo = to, nl_RuleLimitType = EQUAL,
      nl_RuleLimitValue = c\<rparr>"

definition demo_node :: "string \<Rightarrow> string \<Rightarrow> RuleTreeNodeLine list \<Rightarrow> RuleTreeNode" where
  "demo_node key v ls =
     \<lparr>rn_TreeID = ''tree_1'', rn_RuleKey = key, rn_RuleDesc = '''', rn_RuleValue = v, rn_TreeNodeLine = ls\<rparr>"

definition demo_tree :: RuleTree where
  "demo_tree =
     \<lparr>rt_TreeID = ''tree_1'', rt_TreeName = '''', rt_TreeDesc = '''', rt_TreeRootRuleNode = RuleLock,
      rt_NodeMap =
        [RuleLock \<mapsto> demo_node RuleLock ''1''
           [demo_line RuleLock RuleStock RuleCheckAllow, demo_line RuleLock RuleLuckAward RuleCheckTakeOver],
         RuleStock \<mapsto> demo_node RuleStock '''' [demo_line RuleStock RuleLuckAward RuleCheckTakeOver,
           demo_line RuleStock '''' RuleCheckAllow],
         RuleLuckAward \<mapsto> demo_node RuleLuckAward ''102:1,100'' []]\<rparr>"

definition tree_repo :: "bool \<Rightarrow> strategy_repo" where
  "tree_repo stock =
     (strategy_repo_of (sample_svc (\<lambda>_ _ _. False)) (NewDBRouter 2 4))
       \<lparr>s_QueryStrategyEntity := \<lambda>sid. ret \<lparr>st_StrategyID = sid, st_StrategyDesc = '''', st_RuleModels = ''''\<rparr>,
        s_GetRateRange := \<lambda>_. ret 10, s_GetStrategyAwardAssemble := \<lambda>_ _. ret 101,
        s_QueryStrategyRuleModel := \<lambda>_ _. ret ''tree_1'', s_QueryRuleTree := \<lambda>_. ret demo_tree,
        s_SubtractionAwardStock := \<lambda>_ _. ret stock, s_AwardStockConsumeSendQueue := \<lambda>_ _. ret (),
        s_QueryStrategyAward := \<lambda>sid aid. ret
          \<lparr>sa_StrategyID = sid, sa_AwardID = aid, sa_AwardTitle = ''award'', sa_AwardSubtitle = '''', sa_AwardCount = 10,
           sa_AwardCountSurplus = 10, sa_AwardRate = Fin 0, sa_Sort = 1, sa_RuleModels = ''tree_1''\<rparr>\<rparr>"

definition demo_factor :: RaffleFactor where
  "demo_factor = \<lparr>rf_ActivityID = 1, rf_UserID = ''u'', rf_StrategyID = 1\<rparr>"

lemma tree_repo_simps [simp]:
  "s_QueryStrategyRuleModel (tree_repo b) = (\<lambda>_ _. ret ''tree_1'')"
  "s_QueryRuleTree (tree_repo b) = (\<lambda>_. ret demo_tree)"
  "rf_ActivityID demo_factor = 1" "rf_StrategyID demo_factor = 1"
  "rt_TreeRootRuleNode demo_tree = RuleLock" "rt_NodeMap demo_tree RuleLock \<noteq> None"
  by (simp_all add: tree_repo_def demo_factor_def demo_tree_def)





text \<open>
  C33. What a raffle can give: an award that \<open>PerformRaffle\<close> returns is the record of the strategy, read at
  the end of this run, of the award that the rule chain decided on; or, when the default node drew it, of
  the award that the drawn award's own rule tree decided on: the drawn award again or the consolation award of
  that tree (award 0 if the tree names no root). No other award is ever given, and after the record is
  read only the metrics change.
\<close>

theorem PerformRaffle_award:
  assumes "PerformRaffle svc repo f w = Some (Ok ra, w')"
  shows "\<exists>before w1 aid w2 sa w3.
     raffleLogicChain svc repo f (bump w) = (Ok before, w1) \<and>
     (if lr_LogicModel before \<noteq> RuleDefault then aid = lr_AwardID before \<and> w2 = w1
      else tree_decides repo (rf_StrategyID f) (lr_AwardID before) w1 aid w2) \<and>
     s_QueryStrategyAward repo (rf_StrategyID f) aid w2 = (Ok sa, w3) \<and>
     ra = \<lparr>ra_AwardID = sa_AwardID sa, ra_AwardTitle = sa_AwardTitle sa, ra_Sort = sa_Sort sa\<rparr> \<and>
     tables w' = tables w3 \<and> rkeys w' = rkeys w3"
proof -
  obtain w'' where "raffle_body svc repo f (bump w) = Some (Ok ra, w'')" and w': "tables w' = tables w''" "rkeys w' = rkeys w''"
    using PerformRaffle_Ok [OF assms] by blast
  then obtain before w1 where b: "raffleLogicChain svc repo f (bump w) = (Ok before, w1)"
      "(if lr_LogicModel before \<noteq> RuleDefault then always (buildRaffleAward repo (rf_StrategyID f) (lr_AwardID before))
        else thenD (raffleRuleTree repo (rf_StrategyID f) (lr_AwardID before))
               (\<lambda>after. buildRaffleAward repo (rf_StrategyID f) (ts_AwardID after))) w1 = Some (Ok ra, w'')"
    by (auto simp: raffle_body_def bindD_Ok_iff)
  obtain aid w2 where a: "buildRaffleAward repo (rf_StrategyID f) aid w2 = (Ok ra, w'')"
      "if lr_LogicModel before \<noteq> RuleDefault then aid = lr_AwardID before \<and> w2 = w1
       else tree_decides repo (rf_StrategyID f) (lr_AwardID before) w1 aid w2"
    using b(2) raffleRuleTree_decides by (fastforce simp: always_def thenD_Ok_iff split: if_splits)
  from a(1) obtain sa where "s_QueryStrategyAward repo (rf_StrategyID f) aid w2 = (Ok sa, w'')"
      "ra = \<lparr>ra_AwardID = sa_AwardID sa, ra_AwardTitle = sa_AwardTitle sa, ra_Sort = sa_Sort sa\<rparr>"
    by (auto simp: buildRaffleAward_def)
  with b(1) a(2) w' show ?thesis by blast
qed

lemma demo_chain:
  assumes "svc_secure_int svc = (\<lambda>_ m. Ok 0)"
  shows "raffleLogicChain svc (tree_repo b) f w = (Ok \<lparr>lr_AwardID = 101, lr_LogicModel = RuleDefault\<rparr>, bump w)"
  by (simp add: raffleLogicChain_def openLogicChain_def bindE_def GetRuleModels_def chain_of_def default_logic_def
      getRandomAwardIDWithWeight_def getRandomAwardID_def caseE_def GetSecureRandomInt_def tree_repo_def assms)

lemma demo_raffle:
  assumes "svc_secure_int svc = (\<lambda>_ m. Ok 0)"
  shows "\<exists>w'. PerformRaffle svc (tree_repo b) f w =
     Some (Ok \<lparr>ra_AwardID = if b then 101 else 102, ra_AwardTitle = ''award'', ra_Sort = 1\<rparr>, w')"
proof -
  let ?sid = "rf_StrategyID f"
  note chain = demo_chain [OF assms]
  have tree: "process (tree_repo b) demo_tree ?sid 101 w =
      Some (Ok \<lparr>ts_AwardID = if b then 101 else 102, ts_AwardRuleValue = if b then '''' else ''1,100''\<rparr>, w)" for w
    by (simp add: process_def walk.simps visit_def demo_tree_def demo_node_def demo_line_def TreeNodeGroup_def node_logic_def
        lock_logic_def stock_logic_def luck_award_logic_def next_node_def decisionLogic_def action_def rule_names
        bindE_def tree_repo_def ParseInt_def unsigned_val_def digit_val_def is_int64_small separators)
  have build: "buildRaffleAward (tree_repo b) ?sid aid w =
      (Ok \<lparr>ra_AwardID = aid, ra_AwardTitle = ''award'', ra_Sort = 1\<rparr>, w)" for aid w
    by (simp add: buildRaffleAward_def bindE_def tree_repo_def)
  show ?thesis
    using tree_repo_simps(6)
    by (simp add: PerformRaffle_def raffle_body_def bindD_def chain raffleRuleTree_def rule_tree_or_panic_def
        newDecisionTreeEngine_def thenD_def caseE_def build tree del: not_None_eq)
qed

theorem PerformRaffle_award_witness:
  "\<exists>ra w' before w1 aid w2.
     PerformRaffle (sample_svc (\<lambda>_ _ _. False)) (tree_repo False) demo_factor empty_world = Some (Ok ra, w') \<and> ra_AwardID ra = 102 \<and>
     raffleLogicChain (sample_svc (\<lambda>_ _ _. False)) (tree_repo False) demo_factor (bump empty_world) = (Ok before, w1) \<and>
     lr_LogicModel before = RuleDefault \<and> lr_AwardID before = 101 \<and>
     tree_decides (tree_repo False) 1 101 w1 aid w2 \<and> aid = 102"
proof -
  obtain w' where run: "PerformRaffle (sample_svc (\<lambda>_ _ _. False)) (tree_repo False) demo_factor empty_world =
      Some (Ok \<lparr>ra_AwardID = 102, ra_AwardTitle = ''award'', ra_Sort = 1\<rparr>, w')"
    using demo_raffle [of "sample_svc (\<lambda>_ _ _. False)" False] by (auto simp: sample_svc_def)
  have chain: "raffleLogicChain (sample_svc (\<lambda>_ _ _. False)) (tree_repo False) demo_factor (bump empty_world) =
      (Ok \<lparr>lr_AwardID = 101, lr_LogicModel = RuleDefault\<rparr>, bump (bump empty_world))"
    by (rule demo_chain) (simp add: sample_svc_def)
  from PerformRaffle_award [OF run] chain obtain aid w2 sa w3 where
    "tree_decides (tree_repo False) 1 101 (bump (bump empty_world)) aid w2"
    "s_QueryStrategyAward (tree_repo False) 1 aid w2 = (Ok sa, w3)" "sa_AwardID sa = 102"
    by auto
  moreover from this have "aid = 102" by (auto simp: tree_repo_def)
  ultimately show ?thesis using run chain by fastforce
qed

end
