(* ===== verification/Award_Ledger.thy ===== *)
theory Award_Ledger
  imports Partake_Usecase
begin

text \<open>
  \<open>internal/biz/award\<close> and \<open>internal/data/award.go\<close>: writing the award of a raffle order into the
  user's shard together with the outbox task that will send it, and marking the order used. The
  lemmas show that the three writes happen together or not at all, that success means that the
  award is in the table, and that an order whose award is already there changes nothing.
\<close>

section \<open>Rows\<close>

definition award_table :: "string \<Rightarrow> string" where
  "award_table suffix = ''user_award_record_'' @ suffix"

definition ErrorTaskPayloadMarshal :: "gerr \<Rightarrow> gerr" where
  "ErrorTaskPayloadMarshal cause = KErr 500 ''TASK_PAYLOAD_MARSHAL_ERROR'' (Some cause)"

text \<open>gorm writes the column default of a state that is the empty string.\<close>

definition state_or_default :: "string \<Rightarrow> string" where
  "state_or_default s = (if s = '''' then ''create'' else s)"

definition award_po :: "UserAwardRecord \<Rightarrow> time \<Rightarrow> time \<Rightarrow> po_UserAwardRecord" where
  "award_po r t1 t2 =
     \<lparr>uar_ID = 0, uar_UserID = ua_UserID r, uar_ActivityID = ua_ActivityID r,
      uar_StrategyID = ua_StrategyID r, uar_OrderID = ua_OrderID r, uar_AwardID = ua_AwardID r,
      uar_AwardTitle = ua_AwardTitle r, uar_AwardTime = ua_AwardTime r, uar_AwardState = ua_AwardState r,
      uar_CreateTime = t1, uar_UpdateTime = t2\<rparr>"

definition convertToUserAwardRecordPO :: "services \<Rightarrow> UserAwardRecord \<Rightarrow> po_UserAwardRecord M" where
  "convertToUserAwardRecordPO svc entity =
     bindE (now svc) (\<lambda>t1. bindE (now svc) (\<lambda>t2. ret (award_po entity t1 t2)))"

definition task_po :: "AwardTask \<Rightarrow> string \<Rightarrow> time \<Rightarrow> time \<Rightarrow> po_Task" where
  "task_po k msg t1 t2 =
     \<lparr>pt_ID = 0, pt_UserID = at_UserID k, pt_Topic = at_Topic k, pt_MessageID = at_MessageID k,
      pt_Message = msg, pt_State = at_State k, pt_CreateTime = t1, pt_UpdateTime = t2\<rparr>"

definition convertToTaskPO :: "services \<Rightarrow> AwardTask \<Rightarrow> po_Task M" where
  "convertToTaskPO svc entity =
     caseE (liftR (enc (js_SendAward svc) (at_Message entity)))
       (\<lambda>e. fail (ErrorTaskPayloadMarshal e))
       (\<lambda>msgBytes. bindE (now svc) (\<lambda>t1. bindE (now svc) (\<lambda>t2. ret (task_po entity msgBytes t1 t2))))"

definition award_row_of :: "po_UserAwardRecord \<Rightarrow> row" where
  "award_row_of p = RAward (p\<lparr>uar_AwardState := state_or_default (uar_AwardState p)\<rparr>)"

definition task_row_of :: "po_Task \<Rightarrow> row" where
  "task_row_of p = RTask (p\<lparr>pt_State := state_or_default (pt_State p)\<rparr>)"

text \<open>\<open>Where("order_id = ?", ...).Update("order_state", "used")\<close>; without a model gorm leaves
  \<open>update_time\<close> alone.\<close>

definition of_order :: "string \<Rightarrow> row \<Rightarrow> bool" where
  "of_order oid r \<longleftrightarrow> is_RRaffleOrder r \<and> uo_OrderID (the_raffle_order r) = oid"

definition use_order :: "po_UserRaffleOrder \<Rightarrow> po_UserRaffleOrder" where
  "use_order a = a\<lparr>uo_OrderState := UserRaffleOrderStateUsed\<rparr>"

section \<open>The repository\<close>

text \<open>The body of the transaction; the result is the captured variable \<open>duplicate\<close>.\<close>

definition award_tx :: "services \<Rightarrow> string \<Rightarrow> string \<Rightarrow> po_UserAwardRecord \<Rightarrow> po_Task \<Rightarrow> bool M" where
  "award_tx svc db suffix userAwardRecordPO taskPO =
     caseE (gorm_Create svc db (award_table suffix) (award_row_of userAwardRecordPO))
       (\<lambda>e. if errors_Is e GormDuplicatedKey \<or> is_duplicate_text e then ret True else fail e)
       (\<lambda>_. bindE (gorm_Create svc db ''task'' (task_row_of taskPO)) (\<lambda>_.
            bindE (gorm_Updates svc db (order_table suffix) (of_order (uar_OrderID userAwardRecordPO))
                     (on_order use_order)) (\<lambda>_. ret False)))"

text \<open>The function up to its deferred metric: the value of \<open>result\<close> and the error returned.\<close>

definition save_award :: "services \<Rightarrow> DBRouter \<Rightarrow> UserAwardTaskInfo \<Rightarrow> (string \<times> gerr option) M" where
  "save_award svc rt aggregate =
     (let r = ti_UserAwardRecord aggregate
      in bindE (convertToUserAwardRecordPO svc r) (\<lambda>userAwardRecordPO.
         caseE (convertToTaskPO svc (ti_Task aggregate))
           (\<lambda>taskErr. ret (''payload_marshal_error'', Some taskErr))
           (\<lambda>taskPO.
         bindE (shard rt (ua_UserID r)) (\<lambda>(db, suffix). bindE (deref db) (\<lambda>db.
         caseE (transaction svc (award_tx svc db suffix userAwardRecordPO taskPO))
           (\<lambda>txnErr. ret (''error'', Some txnErr))
           (\<lambda>duplicate.
         bindE (ignoreE (Delete svc myCache (GetPendingRaffleOrderKey (ua_ActivityID r) (ua_UserID r)))) (\<lambda>_.
         ret (if duplicate then ''duplicate'' else ''success'', None))))))))"

definition defer_award_metric :: "int \<Rightarrow> (string \<times> gerr option) M \<Rightarrow> unit M" where
  "defer_award_metric aid m w =
     (case m w of
        (Ok (result, None), w') \<Rightarrow> (Ok (), snd (IncAward aid result w'))
      | (Ok (result, Some e), w') \<Rightarrow> (Err e, snd (IncAward aid result w'))
      | (Err e, w') \<Rightarrow> (Err e, snd (IncAward aid ''success'' w'))
      | (Panic s, w') \<Rightarrow> (Panic s, snd (IncAward aid ''success'' w')))"

definition SaveUserAwardRecord :: "services \<Rightarrow> DBRouter \<Rightarrow> UserAwardTaskInfo \<Rightarrow> unit M" where
  "SaveUserAwardRecord svc rt aggregate =
     defer_award_metric (ua_AwardID (ti_UserAwardRecord aggregate)) (save_award svc rt aggregate)"

section \<open>The use case\<close>

definition award_aggregate :: "string \<Rightarrow> UserAwardRecord \<Rightarrow> UserAwardTaskInfo" where
  "award_aggregate messageID r =
     \<lparr>ti_UserAwardRecord = r,
      ti_Task = \<lparr>at_UserID = ua_UserID r, at_Topic = SendAwardTopic, at_MessageID = messageID,
        at_Message = \<lparr>sm_UserID = ua_UserID r, sm_AwardID = ua_AwardID r, sm_AwardTitle = ua_AwardTitle r\<rparr>,
        at_State = TaskStateCreate\<rparr>\<rparr>"

definition AwardUsecase_SaveUserAwardRecord ::
    "services \<Rightarrow> (UserAwardTaskInfo \<Rightarrow> unit M) \<Rightarrow> UserAwardRecord \<Rightarrow> unit M" where
  "AwardUsecase_SaveUserAwardRecord svc repo r =
     bindE (NewBaseEvent svc
              (EAward \<lparr>sm_UserID = ua_UserID r, sm_AwardID = ua_AwardID r, sm_AwardTitle = ua_AwardTitle r\<rparr>))
       (\<lambda>baseEvent. repo (award_aggregate (ev_ID baseEvent) r))"

section \<open>Lemmas\<close>

lemma award_table_neqs [simp]:
  "award_table s \<noteq> ''task''" "award_table s \<noteq> order_table s'"
  by (simp_all add: award_table_def order_table_def)

lemmas award_table_neqs_sym [simp] = award_table_neqs [symmetric]

lemma award_po_sel [simp]: "uar_OrderID (award_po r t1 t2) = ua_OrderID r"
  by (simp add: award_po_def)

text \<open>
  The tables after the award, its task and the state of the order were written: nothing else is
  different.
\<close>

definition award_recorded :: "services \<Rightarrow> string \<Rightarrow> string \<Rightarrow> UserAwardTaskInfo \<Rightarrow> world \<Rightarrow> world \<Rightarrow> bool" where
  "award_recorded svc db suffix agg w w' \<longleftrightarrow>
     (\<exists>i t1 t2 j msg t3 t4.
        enc (js_SendAward svc) (at_Message (ti_Task agg)) = Ok msg \<and>
        tables w' = (tables w)
          ((db, award_table suffix) := tables w (db, award_table suffix) @
             [with_id i (award_row_of (award_po (ti_UserAwardRecord agg) t1 t2))],
           (db, ''task'') := tables w (db, ''task'') @ [with_id j (task_row_of (task_po (ti_Task agg) msg t3 t4))],
           (db, order_table suffix) :=
             map (\<lambda>r. if of_order (ua_OrderID (ti_UserAwardRecord agg)) r then on_order use_order r else r)
               (tables w (db, order_table suffix))))"

text \<open>The unique index of the award table already holds the award of this order.\<close>

definition award_present ::
    "(string \<Rightarrow> row \<Rightarrow> row \<Rightarrow> bool) \<Rightarrow> string \<Rightarrow> string \<Rightarrow> UserAwardRecord \<Rightarrow> world \<Rightarrow> bool" where
  "award_present uniq db suffix r w \<longleftrightarrow>
     (\<exists>t1 t2. \<exists>x \<in> set (tables w (db, award_table suffix)). uniq (award_table suffix) x (award_row_of (award_po r t1 t2)))"

lemma award_bump [simp]:
  "award_recorded svc db suffix agg (bump w) w' = award_recorded svc db suffix agg w w'"
  "award_present uniq db suffix r (bump w) = award_present uniq db suffix r w"
  by (simp_all only: award_recorded_def award_present_def bump_simps)

lemma gorm_Create_ErrE:
  assumes "mysql_ok svc uniq" and "faults_ok svc" and "gorm_Create svc db t r w = (Err e, w')"
    and "errors_Is e GormDuplicatedKey \<or> is_duplicate_text e"
  shows "(\<exists>x \<in> set (tables w (db, t)). uniq t x r) \<and> tables w' = tables w"
proof -
  have "errors_Is e GormDuplicatedKey \<or> errors_Is e MySQLDuplicateEntry"
    using assms(4) by (auto elim!: is_duplicate_text.elims)
  then have "fault_error (svc_fault svc (tick w)) = Some e \<Longrightarrow> False"
    using assms(2) unfolding faults_ok_def by blast
  then show ?thesis
    using assms(1,3,4)
    by (auto simp: gorm_Create_def sql_def sql_run_def remote_def mysql_ok_def bindE_def Let_def fault_error_def
        split: fault.splits if_splits prod.splits)
qed

lemma award_tx_Ok:
  assumes "mysql_ok svc uniq" and "faults_ok svc"
    and "award_tx svc db suffix (award_po (ti_UserAwardRecord agg) t1 t2) (task_po (ti_Task agg) msg t3 t4) w = (Ok dup, w')"
    and "enc (js_SendAward svc) (at_Message (ti_Task agg)) = Ok msg"
  shows "if dup then tables w' = tables w \<and> award_present uniq db suffix (ti_UserAwardRecord agg) w
         else award_recorded svc db suffix agg w w'"
proof (cases dup)
  case True
  then obtain e where "gorm_Create svc db (award_table suffix) (award_row_of (award_po (ti_UserAwardRecord agg) t1 t2)) w = (Err e, w')"
      "errors_Is e GormDuplicatedKey \<or> is_duplicate_text e"
    using assms(3) by (auto simp: award_tx_def caseE_def split: prod.splits res.splits if_splits)
  from gorm_Create_ErrE [OF assms(1,2) this] True show ?thesis by (auto simp: award_present_def)
next
  case False
  then show ?thesis
    using assms(3)
    by (auto simp: award_tx_def caseE_def gorm_Ok_iffs [OF assms(1)] award_recorded_def assms(4)
        split: prod.splits res.splits if_splits) (intro exI, rule refl)
qed

lemma Delete_tables: "Delete svc myCache k w = (r, w') \<Longrightarrow> tables w' = tables w"
  by (rule keepsD [OF tables_Delete])

lemma IncAward_tables [simp]: "tables (snd (IncAward a l w)) = tables w" "rkeys (snd (IncAward a l w)) = rkeys w"
  by (simp_all add: metric_defs)

text \<open>The three writes happen together or not at all; success means that the award is in the table.\<close>

lemma SaveUserAwardRecord_effect:
  assumes ok: "mysql_ok svc uniq" "faults_ok svc"
    and db: "DBStrategy rt (ua_UserID (ti_UserAwardRecord agg)) = Ok (Some db, suffix)"
    and run: "SaveUserAwardRecord svc rt agg w = (r, w')"
  shows "(tables w' = tables w \<or> award_recorded svc db suffix agg w w') \<and>
         (r = Ok () \<longrightarrow> award_recorded svc db suffix agg w w' \<or>
            tables w' = tables w \<and> award_present uniq db suffix (ti_UserAwardRecord agg) w)"
proof -
  let ?rec = "ti_UserAwardRecord agg" and ?t = "svc_clock svc"
  let ?key = "GetPendingRaffleOrderKey (ua_ActivityID ?rec) (ua_UserID ?rec)"
  have cong: "award_recorded svc db suffix agg w1 w3"
    if "award_recorded svc db suffix agg w1 w2" "tables w3 = tables w2" for w1 w2 w3
    using that by (simp only: award_recorded_def)
  show ?thesis
  proof (cases "enc (js_SendAward svc) (at_Message (ti_Task agg))")
    case (Ok msg)
    let ?w1 = "bump (bump (bump (bump w)))"
    let ?body = "award_tx svc db suffix (award_po ?rec (?t (tick w)) (?t (Suc (tick w))))
      (task_po (ti_Task agg) msg (?t (Suc (Suc (tick w)))) (?t (Suc (Suc (Suc (tick w))))))"
    obtain rt' w2 where tx: "transaction svc ?body ?w1 = (rt', w2)" by fastforce
    have shape: "tables w' = tables w2 \<and> (r = Ok () \<longrightarrow> (\<exists>dup. rt' = Ok dup))"
      using run db Ok tx
      by (cases rt')
        (auto simp: SaveUserAwardRecord_def defer_award_metric_def save_award_def Let_def convertToUserAwardRecordPO_def
          convertToTaskPO_def shard_def bindE_def caseE_def ignoreE_def
          split: prod.splits res.splits option.splits dest: Delete_tables)
    have "tables w2 = tables w \<or> (\<exists>dup w3. ?body ?w1 = (Ok dup, w3) \<and> tables w2 = tables w3)"
      using transaction_atomic [OF tx] by auto
    moreover have "rt' = Ok dup \<Longrightarrow> \<exists>w3. ?body ?w1 = (Ok dup, w3) \<and> tables w2 = tables w3" for dup
      using tx by (auto simp: transaction_Ok_iff)
    moreover have "if dup then tables w3 = tables w \<and> award_present uniq db suffix ?rec w
        else award_recorded svc db suffix agg w w3" if "?body ?w1 = (Ok dup, w3)" for dup w3
      using award_tx_Ok [OF ok that Ok] by (auto split: if_splits)
    ultimately show ?thesis using shape by (metis cong)
  qed (use run db in \<open>auto simp: SaveUserAwardRecord_def defer_award_metric_def save_award_def Let_def
      convertToUserAwardRecordPO_def convertToTaskPO_def bindE_def caseE_def\<close>)
qed

section \<open>One award per order\<close>

text \<open>The column \<open>order_id\<close> of the award table is declared \<open>unique\<close> (\<open>po/award.go\<close>).\<close>

definition award_index :: "(string \<Rightarrow> row \<Rightarrow> row \<Rightarrow> bool) \<Rightarrow> bool" where
  "award_index uniq \<longleftrightarrow>
     (\<forall>s x y. uniq (award_table s) x y \<longleftrightarrow>
        is_RAward x \<and> is_RAward y \<and> uar_OrderID (the_award x) = uar_OrderID (the_award y))"

text \<open>The orders whose award a table holds.\<close>

definition awarded :: "row list \<Rightarrow> string list" where
  "awarded rows = map (\<lambda>r. uar_OrderID (the_award r)) (filter is_RAward rows)"

lemma award_row_of_sel [simp]:
  "is_RAward (award_row_of p)" "uar_OrderID (the_award (award_row_of p)) = uar_OrderID p"
  "is_RAward (with_id i (award_row_of p))" "uar_OrderID (the_award (with_id i (award_row_of p))) = uar_OrderID p"
  by (simp_all add: award_row_of_def)

lemma awarded_snoc [simp]: "awarded (rows @ [with_id i (award_row_of p)]) = awarded rows @ [uar_OrderID p]"
  by (simp add: awarded_def)

lemma award_present_iff:
  "award_index uniq \<Longrightarrow>
   award_present uniq db suffix r w \<longleftrightarrow> ua_OrderID r \<in> set (awarded (tables w (db, award_table suffix)))"
  by (auto simp: award_present_def award_index_def awarded_def image_iff)

lemma award_recorded_awarded:
  "award_recorded svc db suffix agg w w' \<Longrightarrow>
   awarded (tables w' (db, award_table suffix)) =
     awarded (tables w (db, award_table suffix)) @ [ua_OrderID (ti_UserAwardRecord agg)]"
  by (auto simp: award_recorded_def)

text \<open>An award is written only when its order has none.\<close>

lemma SaveUserAwardRecord_fresh:
  assumes ok: "mysql_ok svc uniq" "faults_ok svc" and "award_index uniq"
    and db: "DBStrategy rt (ua_UserID (ti_UserAwardRecord agg)) = Ok (Some db, suffix)"
    and run: "SaveUserAwardRecord svc rt agg w = (r, w')"
    and old: "ua_OrderID (ti_UserAwardRecord agg) \<in> set (awarded (tables w (db, award_table suffix)))"
  shows "tables w' = tables w"
proof -
  from old obtain x where x: "x \<in> set (tables w (db, award_table suffix))" "is_RAward x"
      "uar_OrderID (the_award x) = ua_OrderID (ti_UserAwardRecord agg)"
    by (auto simp: awarded_def)
  have tx: "tables w3 = tables w2" if "transaction svc (award_tx svc db suffix (award_po (ti_UserAwardRecord agg) t1 t2) k) w2 = (r, w3)"
      "tables w2 = tables w" for w2 r w3 k t1 t2
  proof -
    have "tables w4 = tables w2" if "award_tx svc db suffix (award_po (ti_UserAwardRecord agg) t1 t2) k w2 = (Ok dup, w4)" for dup w4
      using that x \<open>award_index uniq\<close> \<open>tables w2 = tables w\<close>
      by (auto simp: award_tx_def caseE_def gorm_Create_Ok_iff [OF ok(1)] award_index_def
          split: prod.splits res.splits if_splits dest: gorm_Create_ErrE [OF ok])
    then show ?thesis using transaction_atomic [OF that(1)] by auto
  qed
  show ?thesis
    using run db
    by (auto simp: SaveUserAwardRecord_def defer_award_metric_def save_award_def Let_def convertToUserAwardRecordPO_def
        convertToTaskPO_def shard_def bindE_def caseE_def ignoreE_def
        split: prod.splits res.splits option.splits dest!: tx Delete_tables)
qed

lemma SaveUserAwardRecord_awarded:
  assumes "mysql_ok svc uniq" and "faults_ok svc" and "award_index uniq"
    and "DBStrategy rt (ua_UserID (ti_UserAwardRecord agg)) = Ok (Some db, suffix)"
    and "SaveUserAwardRecord svc rt agg w = (Ok (), w')"
  shows "ua_OrderID (ti_UserAwardRecord agg) \<in> set (awarded (tables w' (db, award_table suffix)))"
  using SaveUserAwardRecord_effect [OF assms(1,2,4,5)] award_recorded_awarded [of svc db suffix agg w w']
    award_present_iff [OF assms(3), of db suffix "ti_UserAwardRecord agg" w] by auto

section \<open>The interface award.Repo\<close>

text \<open>
  What the use case relies on: a save that succeeds leaves the order awarded, and no save takes an
  award away.
\<close>

locale award_repo =
  fixes save :: "'c \<Rightarrow> UserAwardTaskInfo \<Rightarrow> unit M"
    and ok :: "'c \<Rightarrow> bool"
    and holds :: "'c \<Rightarrow> string \<Rightarrow> string \<Rightarrow> world \<Rightarrow> bool"
  assumes save_holds: "ok c \<Longrightarrow> save c agg w = (Ok (), w') \<Longrightarrow>
            holds c (ua_UserID (ti_UserAwardRecord agg)) (ua_OrderID (ti_UserAwardRecord agg)) w'"
    and save_keeps: "ok c \<Longrightarrow> holds c uid oid w \<Longrightarrow> save c agg w = (r, w') \<Longrightarrow> holds c uid oid w'"
    and holds_tables: "tables w' = tables w \<Longrightarrow> holds c uid oid w' = holds c uid oid w"
begin

lemma usecase_holds:
  assumes "ok c" and "AwardUsecase_SaveUserAwardRecord svc (save c) r w = (Ok (), w')"
  shows "holds c (ua_UserID r) (ua_OrderID r) w'"
proof -
  obtain i w1 where "save c (award_aggregate i r) w1 = (Ok (), w')"
    using assms(2) by (auto simp: AwardUsecase_SaveUserAwardRecord_def)
  from save_holds [OF assms(1) this] show ?thesis by (simp add: award_aggregate_def)
qed

lemma usecase_keeps:
  assumes "ok c" and "holds c uid oid w" and "AwardUsecase_SaveUserAwardRecord svc (save c) r w = (res, w')"
  shows "holds c uid oid w'"
proof -
  obtain i w1 where "NewBaseEvent svc (EAward \<lparr>sm_UserID = ua_UserID r, sm_AwardID = ua_AwardID r, sm_AwardTitle = ua_AwardTitle r\<rparr>) w = (Ok i, w1)"
      "tables w1 = tables w" "save c (award_aggregate (ev_ID i) r) w1 = (res, w')"
    using assms(3)
    by (auto simp: AwardUsecase_SaveUserAwardRecord_def NewBaseEvent_def generateShortID_def bindE_def split: option.splits)
  with save_keeps [OF assms(1) _ this(3)] holds_tables assms(2) show ?thesis by metis
qed

end

definition award_deployed :: "deployment \<Rightarrow> bool" where
  "award_deployed = (\<lambda>(svc, dbs, tbs, uniq). deployment_ok (svc, dbs, tbs, uniq) \<and> award_index uniq)"

definition award_repo_of :: "deployment \<Rightarrow> UserAwardTaskInfo \<Rightarrow> unit M" where
  "award_repo_of = (\<lambda>(svc, dbs, tbs, uniq). SaveUserAwardRecord svc (NewDBRouter dbs tbs))"

definition award_held :: "deployment \<Rightarrow> string \<Rightarrow> string \<Rightarrow> world \<Rightarrow> bool" where
  "award_held = (\<lambda>(svc, dbs, tbs, uniq) uid oid w.
     \<exists>db suffix. DBStrategy (NewDBRouter dbs tbs) uid = Ok (Some db, suffix) \<and>
       oid \<in> set (awarded (tables w (db, award_table suffix))))"

lemma SaveUserAwardRecord_keeps_awards:
  assumes "mysql_ok svc uniq" and "faults_ok svc"
    and "DBStrategy rt (ua_UserID (ti_UserAwardRecord agg)) = Ok (Some db, suffix)"
    and "SaveUserAwardRecord svc rt agg w = (r, w')"
  shows "set (awarded (tables w (db', award_table s))) \<subseteq> set (awarded (tables w' (db', award_table s)))"
  using SaveUserAwardRecord_effect [OF assms] by (auto simp: award_recorded_def)

interpretation al: award_repo award_repo_of award_deployed award_held
proof unfold_locales
  fix c :: deployment and agg w w'
  obtain svc dbs tbs uniq where c: "c = (svc, dbs, tbs, uniq)" by (cases c)
  assume "award_deployed c" "award_repo_of c agg w = (Ok (), w')"
  moreover obtain db suffix where "DBStrategy (NewDBRouter dbs tbs) (ua_UserID (ti_UserAwardRecord agg)) = Ok (Some db, suffix)"
    using DBStrategy_slot calculation(1) by (fastforce simp: c award_deployed_def deployment_ok_def)
  ultimately show "award_held c (ua_UserID (ti_UserAwardRecord agg)) (ua_OrderID (ti_UserAwardRecord agg)) w'"
    using SaveUserAwardRecord_awarded [of svc uniq "NewDBRouter dbs tbs" agg db suffix w w']
    by (simp add: c award_deployed_def deployment_ok_def award_repo_of_def award_held_def)
next
  fix c :: deployment and uid oid agg w r w'
  obtain svc dbs tbs uniq where c: "c = (svc, dbs, tbs, uniq)" by (cases c)
  assume a: "award_deployed c" "award_held c uid oid w" "award_repo_of c agg w = (r, w')"
  moreover obtain db suffix where "DBStrategy (NewDBRouter dbs tbs) (ua_UserID (ti_UserAwardRecord agg)) = Ok (Some db, suffix)"
    using DBStrategy_slot a(1) by (fastforce simp: c award_deployed_def deployment_ok_def)
  ultimately show "award_held c uid oid w'"
    using SaveUserAwardRecord_keeps_awards [of svc uniq "NewDBRouter dbs tbs" agg db suffix w r w']
    by (fastforce simp: c award_deployed_def deployment_ok_def award_repo_of_def award_held_def)
next
  fix c :: deployment and uid oid w w'
  assume "tables w' = tables w"
  then show "award_held c uid oid w' = award_held c uid oid w"
    by (cases c) (simp add: award_held_def)
qed

text \<open>
  C7. An award is written with its task and the new state of its order, or nothing is
  written, whatever fails on the way; a call that reports success leaves the order awarded; an order
  that has its award is not awarded again, so that no order is ever awarded twice.
\<close>

theorem award_saved_once:
  assumes "mysql_ok svc uniq" and "faults_ok svc" and "award_index uniq"
    and "DBStrategy rt (ua_UserID (ti_UserAwardRecord agg)) = Ok (Some db, suffix)"
    and "SaveUserAwardRecord svc rt agg w = (r, w')"
  defines "oid \<equiv> ua_OrderID (ti_UserAwardRecord agg)"
    and "orders \<equiv> \<lambda>w. awarded (tables w (db, award_table suffix))"
  shows "(tables w' = tables w \<or> award_recorded svc db suffix agg w w') \<and>
         (r = Ok () \<longrightarrow> oid \<in> set (orders w')) \<and>
         (oid \<in> set (orders w) \<longrightarrow> tables w' = tables w) \<and>
         (distinct (orders w) \<longrightarrow> distinct (orders w'))"
proof -
  have e: "(tables w' = tables w \<or> award_recorded svc db suffix agg w w') \<and>
         (r = Ok () \<longrightarrow> award_recorded svc db suffix agg w w' \<or>
            tables w' = tables w \<and> award_present uniq db suffix (ti_UserAwardRecord agg) w)"
    by (rule SaveUserAwardRecord_effect [OF assms(1,2,4,5)])
  have rec: "award_recorded svc db suffix agg w w' \<Longrightarrow> orders w' = orders w @ [oid]"
    unfolding oid_def orders_def by (rule award_recorded_awarded)
  have fresh: "oid \<in> set (orders w) \<Longrightarrow> tables w' = tables w"
    unfolding oid_def orders_def by (rule SaveUserAwardRecord_fresh [OF assms(1-5)])
  have "r = Ok () \<longrightarrow> oid \<in> set (orders w')"
    using SaveUserAwardRecord_awarded [OF assms(1-4)] assms(5) by (auto simp: oid_def orders_def)
  moreover have "distinct (orders w) \<longrightarrow> distinct (orders w')"
    using e rec fresh by (cases "oid \<in> set (orders w)") (auto simp: orders_def)
  ultimately show ?thesis using e fresh by blast
qed

definition sample_award :: UserAwardTaskInfo where
  "sample_award = award_aggregate ''m1''
     \<lparr>ua_UserID = ''e'', ua_ActivityID = 1, ua_StrategyID = 2, ua_OrderID = ''o1'', ua_AwardID = 3,
      ua_AwardTitle = ''t'', ua_AwardTime = 0, ua_AwardState = AwardStateCreate\<rparr>"

definition order_index :: "string \<Rightarrow> row \<Rightarrow> row \<Rightarrow> bool" where
  "order_index t x y \<longleftrightarrow> is_RAward x \<and> is_RAward y \<and> uar_OrderID (the_award x) = uar_OrderID (the_award y)"

definition award_svc :: services where
  "award_svc = (sample_svc order_index)
     \<lparr>js_SendAward := single_codec \<lparr>sm_UserID = ''e'', sm_AwardID = 3, sm_AwardTitle = ''t''\<rparr>
        \<lparr>sm_UserID = '''', sm_AwardID = 0, sm_AwardTitle = ''''\<rparr>\<rparr>"

lemma award_svc_ok [simp]:
  "redis_ok award_svc" "mysql_ok award_svc order_index" "no_faults award_svc" "faults_ok award_svc"
  "svc_fault award_svc n = NoFault" "award_index order_index"
  by (simp_all add: award_svc_def redis_ok_def mysql_ok_def sample_svc_def no_faults_def faults_ok_def
      fault_error_def award_index_def order_index_def)

lemma award_svc_enc [simp]:
  "enc (js_SendAward award_svc) \<lparr>sm_UserID = ''e'', sm_AwardID = 3, sm_AwardTitle = ''t''\<rparr> = Ok ''{}''"
  by (simp add: award_svc_def single_codec_def)

lemma sample_award_run:
  "\<exists>w'. SaveUserAwardRecord award_svc (NewDBRouter 2 4) sample_award empty_world = (Ok (), w')"
  by (simp add: SaveUserAwardRecord_def defer_award_metric_def save_award_def convertToUserAwardRecordPO_def
      convertToTaskPO_def shard_def bindE_def caseE_def ignoreE_def Let_def sample_award_def award_aggregate_def
      sample_shard served [OF award_svc_ok(2,3)] award_tx_def Delete_def local_Del_def myCache_def redis_served)

theorem award_saved_once_witness:
  "\<exists>w'. SaveUserAwardRecord award_svc (NewDBRouter 2 4) sample_award empty_world = (Ok (), w') \<and>
     ''o1'' \<in> set (awarded (tables w' (''01'', award_table ''002'')))"
proof -
  obtain w' where run: "SaveUserAwardRecord award_svc (NewDBRouter 2 4) sample_award empty_world = (Ok (), w')"
    using sample_award_run by blast
  have sel: "ua_UserID (ti_UserAwardRecord sample_award) = ''e''" "ua_OrderID (ti_UserAwardRecord sample_award) = ''o1''"
    by (simp_all add: sample_award_def award_aggregate_def)
  then have "DBStrategy (NewDBRouter 2 4) (ua_UserID (ti_UserAwardRecord sample_award)) = Ok (Some ''01'', ''002'')"
    by (simp add: sample_shard)
  from award_saved_once [OF award_svc_ok(2,4,6) this run] run sel show ?thesis by auto
qed

end
