(* ===== verification/Outbox.thy ===== *)
theory Outbox
  imports Award_Ledger "HOL-Library.Product_Lexorder" "HOL-Library.Multiset"
begin

text \<open>
  The outbox: \<open>internal/biz/task\<close>, \<open>internal/data/task.go\<close> and
  \<open>internal/job/send_award_message.go\<close>. The job scans the task table of every shard, starts one
  goroutine per task found and records the outcome in the task's row. The scan is shown equal to the
  single query it replaces; the goroutines are steps of an inductive relation, in any order, and a
  task becomes completed only if what it stands for was done.
\<close>

section \<open>data/task.go\<close>

definition task_state :: "string \<Rightarrow> row \<Rightarrow> bool" where
  "task_state s r \<longleftrightarrow> is_RTask r \<and> pt_State (the_task r) = s"

definition stale_task :: "time \<Rightarrow> row \<Rightarrow> bool" where
  "stale_task timeoutAt r \<longleftrightarrow> task_state ''create'' r \<and> pt_UpdateTime (the_task r) < timeoutAt"

text \<open>\<open>Select("user_id", "topic", "message_id", "message")\<close>: the other fields keep their zero value.\<close>

definition selected_task :: "row \<Rightarrow> po_Task" where
  "selected_task r =
     (let k = the_task r
      in \<lparr>pt_ID = 0, pt_UserID = pt_UserID k, pt_Topic = pt_Topic k, pt_MessageID = pt_MessageID k,
          pt_Message = pt_Message k, pt_State = '''', pt_CreateTime = zero_time, pt_UpdateTime = zero_time\<rparr>)"

definition task_updated :: "row \<Rightarrow> time" where
  "task_updated r = pt_UpdateTime (the_task r)"

text \<open>Rows are kept in the order of their primary key and \<open>FindBy\<close> sorts stably, which is
  \<open>Order("update_time ASC, id ASC")\<close>.\<close>

definition QueryNoSendMessageTaskList :: "services \<Rightarrow> DBRouter \<Rightarrow> int \<Rightarrow> Task list M" where
  "QueryNoSendMessageTaskList svc rt dbIdx =
     bindE (deref (GetDB rt dbIdx)) (\<lambda>db.
     bindE (now svc) (\<lambda>t.
     let timeoutAt = t - 6 * 60 * second
     in bindE (gorm_FindBy svc db ''task'' (task_state ''fail'') task_updated 10) (\<lambda>tasks.
        bindE (if length tasks < 10
               then bindE (gorm_FindBy svc db ''task'' (stale_task timeoutAt) task_updated (10 - length tasks))
                      (\<lambda>createTasks. ret (tasks @ createTasks))
               else ret tasks) (\<lambda>tasks.
        ret (map (\<lambda>r. Task_ToEntity (selected_task r)) tasks)))))"

definition on_task :: "(po_Task \<Rightarrow> po_Task) \<Rightarrow> row \<Rightarrow> row" where
  "on_task f r = (case r of RTask k \<Rightarrow> RTask (f k) | _ \<Rightarrow> r)"

definition task_of :: "string \<Rightarrow> string \<Rightarrow> row \<Rightarrow> bool" where
  "task_of uid mid r \<longleftrightarrow> is_RTask r \<and> pt_UserID (the_task r) = uid \<and> pt_MessageID (the_task r) = mid"

text \<open>\<open>Model(&po.Task{}).Where(...).Update("state", ...)\<close>: gorm sets \<open>update_time\<close> too.\<close>

definition update_task :: "services \<Rightarrow> DBRouter \<Rightarrow> string \<Rightarrow> string \<Rightarrow> string \<Rightarrow> unit M" where
  "update_task svc rt st uid mid =
     bindE (shard rt uid) (\<lambda>(db, _). bindE (deref db) (\<lambda>db.
     bindE (now svc) (\<lambda>t.
     bindE (gorm_Updates svc db ''task'' (task_of uid mid) (on_task (\<lambda>k. k\<lparr>pt_State := st, pt_UpdateTime := t\<rparr>)))
       (\<lambda>_. ret ()))))"

definition UpdateTaskSendMessageCompleted :: "services \<Rightarrow> DBRouter \<Rightarrow> string \<Rightarrow> string \<Rightarrow> unit M" where
  "UpdateTaskSendMessageCompleted svc rt uid mid = update_task svc rt ''completed'' uid mid"

definition UpdateTaskSendMessageFail :: "services \<Rightarrow> DBRouter \<Rightarrow> string \<Rightarrow> string \<Rightarrow> unit M" where
  "UpdateTaskSendMessageFail svc rt uid mid = update_task svc rt ''fail'' uid mid"

definition task_SendMessage :: "services \<Rightarrow> string \<Rightarrow> BaseEvent \<Rightarrow> unit M" where
  "task_SendMessage svc topic event = PublishTopic svc topic event"

section \<open>biz/task\<close>

record task_repo =
  t_QueryNoSendMessageTaskList :: "int \<Rightarrow> Task list M"
  t_UpdateTaskSendMessageCompleted :: "string \<Rightarrow> string \<Rightarrow> unit M"
  t_UpdateTaskSendMessageFail :: "string \<Rightarrow> string \<Rightarrow> unit M"
  t_SendMessage :: "string \<Rightarrow> BaseEvent \<Rightarrow> unit M"

definition task_repo_of :: "services \<Rightarrow> DBRouter \<Rightarrow> task_repo" where
  "task_repo_of svc rt =
     \<lparr>t_QueryNoSendMessageTaskList = QueryNoSendMessageTaskList svc rt,
      t_UpdateTaskSendMessageCompleted = UpdateTaskSendMessageCompleted svc rt,
      t_UpdateTaskSendMessageFail = UpdateTaskSendMessageFail svc rt,
      t_SendMessage = task_SendMessage svc\<rparr>"

text \<open>The message is sent as the JSON value it is, or as a string when it is none.\<close>

definition task_data :: "services \<Rightarrow> string \<Rightarrow> json_value res" where
  "task_data svc msg =
     (case dec (js_Any svc) msg of Ok v \<Rightarrow> Ok v | Err _ \<Rightarrow> Ok (JString msg) | Panic s \<Rightarrow> Panic s)"

definition TaskUsecase_SendMessage :: "services \<Rightarrow> task_repo \<Rightarrow> Task \<Rightarrow> unit M" where
  "TaskUsecase_SendMessage svc repo t =
     bindE (liftR (task_data svc (tk_Message t))) (\<lambda>data.
     bindE (now svc) (\<lambda>ts.
     t_SendMessage repo (tk_Topic t) \<lparr>ev_ID = tk_MessageID t, ev_Timestamp = ts, ev_Data = EJson data\<rparr>))"

section \<open>job/send\_award\_message.go\<close>

definition routeTaskByTopic :: "services \<Rightarrow> task_repo \<Rightarrow> partake_repo \<Rightarrow> Task \<Rightarrow> unit M" where
  "routeTaskByTopic svc trepo prepo t =
     (if tk_Topic t = SendAwardTopic then TaskUsecase_SendMessage svc trepo t
      else if tk_Topic t = SaveOrderRecordTopic then
        caseE (liftR (dec (js_SaveOrder svc) (tk_Message t)))
          (\<lambda>e. fail (Wrap ''unmarshal save order task failed'' e))
          (\<lambda>message. SaveOrderRecord prepo (ToCreatePartakeOrder message))
      else fail (GoErr (''unsupported task topic: '' @ tk_Topic t)))"

text \<open>What follows the routing in \<open>dispatchSingleTask\<close>, by its outcome.\<close>

definition mark_failed :: "task_repo \<Rightarrow> Task \<Rightarrow> unit M" where
  "mark_failed repo t = ignoreE (t_UpdateTaskSendMessageFail repo (tk_UserID t) (tk_MessageID t))"

definition mark_completed :: "task_repo \<Rightarrow> Task \<Rightarrow> unit M" where
  "mark_completed repo t =
     caseE (t_UpdateTaskSendMessageCompleted repo (tk_UserID t) (tk_MessageID t)) (\<lambda>_. mark_failed repo t) ret"

definition dispatchSingleTask :: "services \<Rightarrow> task_repo \<Rightarrow> partake_repo \<Rightarrow> Task \<Rightarrow> unit M" where
  "dispatchSingleTask svc trepo prepo t =
     caseE (routeTaskByTopic svc trepo prepo t) (\<lambda>_. mark_failed trepo t) (\<lambda>_. mark_completed trepo t)"

section \<open>The scan is one query\<close>

text \<open>
  The query the two statements replace: every task that failed or has been in state create for six
  minutes, the failed ones first, then the oldest, then the lowest primary key.
\<close>

definition pending_task :: "time \<Rightarrow> row \<Rightarrow> bool" where
  "pending_task timeoutAt r \<longleftrightarrow> task_state ''fail'' r \<or> stale_task timeoutAt r"

definition scan_key :: "row \<Rightarrow> bool \<times> time" where
  "scan_key r = (\<not> task_state ''fail'' r, task_updated r)"

definition pending_tasks :: "time \<Rightarrow> row list \<Rightarrow> row list" where
  "pending_tasks timeoutAt rows = take 10 (sort_key scan_key (filter (pending_task timeoutAt) rows))"

lemma sorted_map_cong: "(\<And>x y. x \<in> set xs \<Longrightarrow> y \<in> set xs \<Longrightarrow> f x \<le> f y \<Longrightarrow> g x \<le> g y) \<Longrightarrow> sorted (map f xs) \<Longrightarrow> sorted (map g xs)"
  by (induction xs) auto

text \<open>Sorting by a pair whose first component splits the list is sorting the two parts.\<close>

lemma sort_key_split:
  fixes k :: "'a \<Rightarrow> 'k :: linorder"
  assumes "\<And>x. x \<in> set xs \<Longrightarrow> q x \<longleftrightarrow> \<not> p x"
  shows "sort_key (\<lambda>x. (\<not> p x, k x)) xs = sort_key k (filter p xs) @ sort_key k (filter q xs)" (is "_ = ?l @ ?r")
proof (rule properties_for_sort_key)
  have fq: "filter q xs = filter (\<lambda>x. \<not> p x) xs" using assms by (rule filter_cong [OF refl])
  then show "mset (?l @ ?r) = mset xs" by simp
  show "sorted (map (\<lambda>x. (\<not> p x, k x)) (?l @ ?r))"
    unfolding map_append sorted_append
  proof (intro conjI)
    show "sorted (map (\<lambda>x. (\<not> p x, k x)) ?l)"
      by (rule sorted_map_cong [of _ k]) (auto simp: fq)
    show "sorted (map (\<lambda>x. (\<not> p x, k x)) ?r)"
      by (rule sorted_map_cong [of _ k]) (auto simp: fq)
  qed (auto simp: fq)
  show "filter (\<lambda>x. (\<not> p y, k y) = (\<not> p x, k x)) (?l @ ?r) = filter (\<lambda>x. (\<not> p y, k y) = (\<not> p x, k x)) xs" for y
  proof -
    have part: "filter (\<lambda>x. (\<not> p y, k y) = (\<not> p x, k x)) (sort_key k (filter r xs)) =
        (if r y then filter (\<lambda>x. (\<not> p y, k y) = (\<not> p x, k x)) xs else [])"
      if "r = p \<or> r = (\<lambda>x. \<not> p x)" for r
    proof -
      have "filter (\<lambda>x. (\<not> p y, k y) = (\<not> p x, k x)) (sort_key k (filter r xs)) =
          (if r y then filter (\<lambda>x. k x = k y) (sort_key k (filter r xs)) else [])"
        using that by (auto intro!: filter_cong simp: filter_empty_conv)
      also have "\<dots> = (if r y then filter (\<lambda>x. k x = k y) (filter r xs) else [])"
        by (simp only: sort_key_stable)
      also have "\<dots> = (if r y then filter (\<lambda>x. (\<not> p y, k y) = (\<not> p x, k x)) xs else [])"
        using that by (auto intro!: filter_cong)
      finally show ?thesis .
    qed
    show ?thesis unfolding filter_append fq using part [of p] part [of "\<lambda>x. \<not> p x"] by simp
  qed
qed

lemma pending_tasks_split:
  "pending_tasks timeoutAt rows =
     take 10 (sort_key task_updated (filter (task_state ''fail'') rows) @
              sort_key task_updated (filter (stale_task timeoutAt) rows))"
proof -
  let ?xs = "filter (pending_task timeoutAt) rows"
  have f: "filter (task_state ''fail'') ?xs = filter (task_state ''fail'') rows"
    unfolding filter_filter by (rule filter_cong) (auto simp: pending_task_def)
  have c: "filter (stale_task timeoutAt) ?xs = filter (stale_task timeoutAt) rows"
    unfolding filter_filter by (rule filter_cong) (auto simp: pending_task_def)
  have "\<not> (task_state ''create'' x \<and> task_state ''fail'' x)" for x
    by (simp add: task_state_def)
  then have part: "stale_task timeoutAt x \<longleftrightarrow> \<not> task_state ''fail'' x" if "x \<in> set ?xs" for x
    using that unfolding set_filter mem_Collect_eq pending_task_def stale_task_def by blast
  have "sort_key scan_key ?xs = sort_key task_updated (filter (task_state ''fail'') ?xs) @
      sort_key task_updated (filter (stale_task timeoutAt) ?xs)"
    unfolding scan_key_def [abs_def] by (rule sort_key_split) (rule part)
  then show ?thesis unfolding pending_tasks_def f c by simp
qed

text \<open>
  C10. The two statements of \<open>QueryNoSendMessageTaskList\<close> return exactly what the one query they
  were split from returns: the ten first of the failed and the timed-out tasks of the database, failed ones
  first, then by \<open>update_time\<close> and \<open>id\<close>; and they write nothing.
\<close>

theorem outbox_scan_is_one_query:
  assumes "mysql_ok svc uniq" and "GetDB rt i = Some db"
    and "QueryNoSendMessageTaskList svc rt i w = (Ok ts, w')"
  shows "ts = map (\<lambda>r. Task_ToEntity (selected_task r))
                (pending_tasks (svc_clock svc (tick w) - 6 * 60 * second) (tables w (db, ''task''))) \<and>
         tables w' = tables w"
  using assms(2,3)
  by (auto simp: QueryNoSendMessageTaskList_def Let_def gorm_FindBy_Ok_iff [OF assms(1)] pending_tasks_split
      split: if_splits)

definition outbox_task :: po_Task where
  "outbox_task = \<lparr>pt_ID = 1, pt_UserID = ''e'', pt_Topic = SendAwardTopic, pt_MessageID = ''m1'', pt_Message = ''{}'',
     pt_State = ''fail'', pt_CreateTime = 0, pt_UpdateTime = 0\<rparr>"

definition outbox_world :: world where
  "outbox_world = empty_world\<lparr>store := empty_store\<lparr>tbls := (\<lambda>_. [])((''01'', ''task'') := [RTask outbox_task])\<rparr>\<rparr>"

lemma outbox_world_tables [simp]: "tables outbox_world = (\<lambda>_. [])((''01'', ''task'') := [RTask outbox_task])"
  by (simp add: outbox_world_def)

lemma sample_GetDB: "GetDB (NewDBRouter 2 4) 1 = Some ''01''"
  by code_simp

definition backlog_world :: world where
  "backlog_world = empty_world\<lparr>store := empty_store\<lparr>tbls := (\<lambda>_. [])((''01'', ''task'') :=
     [RTask (outbox_task\<lparr>pt_State := ''create''\<rparr>), RTask (outbox_task\<lparr>pt_UpdateTime := 9, pt_MessageID := ''m2''\<rparr>),
      RTask (outbox_task\<lparr>pt_UpdateTime := 3, pt_MessageID := ''m3''\<rparr>)])\<rparr>\<rparr>"

theorem outbox_scan_is_one_query_witness:
  "\<exists>ts w'. QueryNoSendMessageTaskList (sample_svc (\<lambda>_ _ _. False)) (NewDBRouter 2 4) 1 backlog_world = (Ok ts, w') \<and>
     map tk_MessageID ts = [''m3'', ''m2'', ''m1''] \<and>
     ts = map (\<lambda>r. Task_ToEntity (selected_task r))
            (pending_tasks (1700000000 * second - 6 * 60 * second) (tables backlog_world (''01'', ''task'')))"
proof -
  let ?svc = "sample_svc (\<lambda>_ _ _. False)"
  have ok: "mysql_ok ?svc (\<lambda>_ _ _. False)" "no_faults ?svc" by (simp_all add: no_faults_def)
  obtain ts w' where run: "QueryNoSendMessageTaskList ?svc (NewDBRouter 2 4) 1 backlog_world = (Ok ts, w')"
    and ids: "map tk_MessageID ts = [''m3'', ''m2'', ''m1'']"
    by (simp add: QueryNoSendMessageTaskList_def sample_GetDB bindE_def served [OF ok] task_state_def second_def
        stale_task_def outbox_task_def Let_def backlog_world_def task_updated_def selected_task_def Task_ToEntity_def)
  from outbox_scan_is_one_query [OF ok(1) sample_GetDB run] run ids show ?thesis by simp
qed

section \<open>The goroutines of ProcessTask\<close>

text \<open>
  \<open>ProcessTask\<close> scans the shards one after the other and starts a goroutine for every task it
  finds, which runs beside the rest of the scan and the other goroutines. A goroutine is where it
  stands in \<open>dispatchSingleTask\<close>: before the routing, after a routing that succeeded, or on the way
  to mark the task as failed. One step is one call of the main loop or of a goroutine; the scheduler
  is free to choose. An error of the scan returns without waiting for the goroutines.
\<close>

datatype phase = Routing Task | Sent Task | Failed Task

datatype main_loop = Scanning int | Returned "unit res"

type_synonym job_state = "main_loop \<times> phase list \<times> world"

inductive send_step :: "services \<Rightarrow> task_repo \<Rightarrow> partake_repo \<Rightarrow> int \<Rightarrow> job_state \<Rightarrow> job_state \<Rightarrow> bool"
  for svc trepo prepo n where
  scan: "i \<le> n \<Longrightarrow> t_QueryNoSendMessageTaskList trepo i w = (Ok ts, w') \<Longrightarrow>
    send_step svc trepo prepo n (Scanning i, gs, w) (Scanning (i + 1), gs @ map Routing ts, w')"
| scan_error: "i \<le> n \<Longrightarrow> t_QueryNoSendMessageTaskList trepo i w = (Err e, w') \<Longrightarrow>
    send_step svc trepo prepo n (Scanning i, gs, w) (Returned (Err e), gs, w')"
| all_done: "n < i \<Longrightarrow> send_step svc trepo prepo n (Scanning i, [], w) (Returned (Ok ()), [], w)"
| routed: "routeTaskByTopic svc trepo prepo t w = (Ok (), w') \<Longrightarrow>
    send_step svc trepo prepo n (m, gs @ Routing t # hs, w) (m, gs @ Sent t # hs, w')"
| not_routed: "routeTaskByTopic svc trepo prepo t w = (Err e, w') \<Longrightarrow>
    send_step svc trepo prepo n (m, gs @ Routing t # hs, w) (m, gs @ Failed t # hs, w')"
| completed: "t_UpdateTaskSendMessageCompleted trepo (tk_UserID t) (tk_MessageID t) w = (Ok (), w') \<Longrightarrow>
    send_step svc trepo prepo n (m, gs @ Sent t # hs, w) (m, gs @ hs, w')"
| not_completed: "t_UpdateTaskSendMessageCompleted trepo (tk_UserID t) (tk_MessageID t) w = (Err e, w') \<Longrightarrow>
    send_step svc trepo prepo n (m, gs @ Sent t # hs, w) (m, gs @ Failed t # hs, w')"
| failed: "mark_failed trepo t w = (Ok (), w') \<Longrightarrow>
    send_step svc trepo prepo n (m, gs @ Failed t # hs, w) (m, gs @ hs, w')"

definition ProcessTask_run ::
    "services \<Rightarrow> task_repo \<Rightarrow> partake_repo \<Rightarrow> int \<Rightarrow> world \<Rightarrow> job_state \<Rightarrow> bool" where
  "ProcessTask_run svc trepo prepo n w s \<longleftrightarrow> (send_step svc trepo prepo n)\<^sup>*\<^sup>* (Scanning 1, [], w) s"

text \<open>A goroutine that is never interrupted is \<open>dispatchSingleTask\<close>.\<close>

lemma dispatch_is_steps:
  assumes "dispatchSingleTask svc trepo prepo t w = (Ok (), w')"
  shows "(send_step svc trepo prepo n)\<^sup>*\<^sup>* (m, gs @ Routing t # hs, w) (m, gs @ hs, w')"
proof -
  let ?run = "(send_step svc trepo prepo n)\<^sup>*\<^sup>*" and ?fin = "(m, gs @ hs, w')"
  note first = converse_rtranclp_into_rtranclp [of "send_step svc trepo prepo n"]
  have fl: "?run (m, gs @ Failed t # hs, w1) ?fin" if "mark_failed trepo t w1 = (Ok (), w')" for w1
    using send_step.failed [OF that] by blast
  have sent: "?run (m, gs @ Sent t # hs, w1) ?fin" if "mark_completed trepo t w1 = (Ok (), w')" for w1
    using that fl by (auto simp: mark_completed_def caseE_def split: prod.splits res.splits
        intro: send_step.completed first [OF send_step.not_completed])
  show ?thesis
    using assms fl sent by (auto simp: dispatchSingleTask_def caseE_def split: prod.splits res.splits
        intro: first [OF send_step.routed] first [OF send_step.not_routed])
qed

section \<open>Completed means delivered\<close>

text \<open>The users and message numbers of the completed tasks.\<close>

definition completed_in :: "world \<Rightarrow> (string \<times> string) set" where
  "completed_in w =
     {(pt_UserID k, pt_MessageID k) | k db. RTask k \<in> set (tables w (db, ''task'')) \<and> pt_State k = ''completed''}"

text \<open>The user, the message number, the topic and the message of every task in the tables, which nothing in
  the job changes.\<close>

definition task_columns :: "world \<Rightarrow> (string \<times> string \<times> string \<times> string) set" where
  "task_columns w =
     {(pt_UserID k, pt_MessageID k, pt_Topic k, pt_Message k) | k db. RTask k \<in> set (tables w (db, ''task''))}"

definition columns_of :: "Task \<Rightarrow> string \<times> string \<times> string \<times> string" where
  "columns_of t = (tk_UserID t, tk_MessageID t, tk_Topic t, tk_Message t)"

fun phase_task :: "phase \<Rightarrow> Task" where
  "phase_task (Routing t) = t"
| "phase_task (Sent t) = t"
| "phase_task (Failed t) = t"

text \<open>
  What the job relies on: the scan lists tasks of the tables; only \<open>UpdateTaskSendMessageCompleted\<close>
  completes a task, the one it is given; a routing that succeeds delivers the task, and nothing takes a
  delivery back or rewrites a task.
\<close>

locale outbox_contract =
  fixes svc :: "'c \<Rightarrow> services" and trepo :: "'c \<Rightarrow> task_repo" and prepo :: "'c \<Rightarrow> partake_repo"
    and ok :: "'c \<Rightarrow> bool" and delivered :: "'c \<Rightarrow> Task \<Rightarrow> world \<Rightarrow> bool"
  assumes route_delivers: "ok c \<Longrightarrow> routeTaskByTopic (svc c) (trepo c) (prepo c) t w = (Ok (), w') \<Longrightarrow> delivered c t w'"
    and scan_lists: "ok c \<Longrightarrow> t_QueryNoSendMessageTaskList (trepo c) i w = (Ok ts, w') \<Longrightarrow> t \<in> set ts \<Longrightarrow>
          columns_of t \<in> task_columns w"
    and route_frame: "ok c \<Longrightarrow> routeTaskByTopic (svc c) (trepo c) (prepo c) t w = (r, w') \<Longrightarrow>
          completed_in w' \<subseteq> completed_in w \<and> (delivered c t' w \<longrightarrow> delivered c t' w') \<and> task_columns w' = task_columns w"
    and scan_frame: "ok c \<Longrightarrow> t_QueryNoSendMessageTaskList (trepo c) i w = (r', w') \<Longrightarrow>
          completed_in w' \<subseteq> completed_in w \<and> (delivered c t' w \<longrightarrow> delivered c t' w') \<and> task_columns w' = task_columns w"
    and complete_frame: "ok c \<Longrightarrow> t_UpdateTaskSendMessageCompleted (trepo c) uid mid w = (r, w') \<Longrightarrow>
          completed_in w' \<subseteq> insert (uid, mid) (completed_in w) \<and> (delivered c t' w \<longrightarrow> delivered c t' w') \<and> task_columns w' = task_columns w"
    and fail_frame: "ok c \<Longrightarrow> t_UpdateTaskSendMessageFail (trepo c) uid mid w = (r, w') \<Longrightarrow>
          completed_in w' \<subseteq> completed_in w \<and> (delivered c t' w \<longrightarrow> delivered c t' w') \<and> task_columns w' = task_columns w"
begin

definition accounted :: "'c \<Rightarrow> (string \<times> string) set \<Rightarrow> (string \<times> string \<times> string \<times> string) set \<Rightarrow> job_state \<Rightarrow> bool" where
  "accounted c old cols s \<longleftrightarrow>
     (case s of (m, gs, w) \<Rightarrow>
        task_columns w = cols \<and> (\<forall>g \<in> set gs. columns_of (phase_task g) \<in> cols) \<and>
        (\<forall>t. Sent t \<in> set gs \<longrightarrow> delivered c t w) \<and>
        (\<forall>x \<in> completed_in w. x \<in> old \<or>
           (\<exists>t. delivered c t w \<and> columns_of t \<in> cols \<and> x = (tk_UserID t, tk_MessageID t))))"

lemma accounted_mono:
  assumes "accounted c old cols (m, gs, w)" and "\<And>t. Sent t \<in> set gs' \<Longrightarrow> Sent t \<in> set gs \<or> delivered c t w'"
    and "\<And>g. g \<in> set gs' \<Longrightarrow> columns_of (phase_task g) \<in> cols"
    and "\<And>t. completed_in w' \<subseteq> insert x (completed_in w) \<and> (delivered c t w \<longrightarrow> delivered c t w') \<and> task_columns w' = task_columns w"
    and "x \<in> completed_in w \<or> (\<exists>t. delivered c t w \<and> columns_of t \<in> cols \<and> x = (tk_UserID t, tk_MessageID t))"
  shows "accounted c old cols (m', gs', w')"
  using assms unfolding accounted_def prod.case by blast

lemma accounted_keep:
  assumes "accounted c old cols (m, gs, w)" and "\<And>t. Sent t \<in> set gs' \<Longrightarrow> Sent t \<in> set gs \<or> delivered c t w'"
    and "\<And>g. g \<in> set gs' \<Longrightarrow> columns_of (phase_task g) \<in> cols"
    and "\<And>t. completed_in w' \<subseteq> completed_in w \<and> (delivered c t w \<longrightarrow> delivered c t w') \<and> task_columns w' = task_columns w"
  shows "accounted c old cols (m', gs', w')"
  using assms unfolding accounted_def prod.case by blast

lemma accounted_columns: "accounted c old cols (m, gs, w) \<Longrightarrow> g \<in> set gs \<Longrightarrow> columns_of (phase_task g) \<in> cols"
  by (simp add: accounted_def)

lemma accounted_step:
  assumes "ok c" and "send_step (svc c) (trepo c) (prepo c) n s s'" and "accounted c old cols s"
  shows "accounted c old cols s'"
  using assms(2,3)
proof (induction rule: send_step.induct)
  case (completed t w w' m gs hs)
  then have "delivered c t w" "columns_of t \<in> cols" by (auto simp: accounted_def)
  then show ?case
    by (intro accounted_mono [OF completed(2) _ _ complete_frame [OF assms(1) completed(1)]])
      (auto intro: accounted_columns [OF completed(2)])
next
  case (not_completed t w e w' m gs hs)
  then have "delivered c t w" "columns_of t \<in> cols" by (auto simp: accounted_def)
  then show ?case
    by (intro accounted_mono [OF not_completed(2) _ _ complete_frame [OF assms(1) not_completed(1)]])
      (auto intro: accounted_columns [OF not_completed(2)])
next
  case (failed t w w' m gs hs)
  then obtain r where f: "t_UpdateTaskSendMessageFail (trepo c) (tk_UserID t) (tk_MessageID t) w = (r, w')"
    by (auto simp: mark_failed_def ignoreE_Ok_iff)
  show ?case
    by (rule accounted_keep [OF failed(2) _ _ fail_frame [OF assms(1) f]]) (auto intro: accounted_columns [OF failed(2)])
next
  case (routed t w w' m gs hs)
  then have "columns_of t \<in> cols" by (auto simp: accounted_def)
  then show ?case
    by (intro accounted_keep [OF routed(2) _ _ route_frame [OF assms(1) routed(1)]])
      (auto intro: route_delivers [OF assms(1) routed(1)] accounted_columns [OF routed(2)])
next
  case (not_routed t w e w' m gs hs)
  then have "columns_of t \<in> cols" by (auto simp: accounted_def)
  then show ?case
    by (intro accounted_keep [OF not_routed(2) _ _ route_frame [OF assms(1) not_routed(1)]])
      (auto intro: accounted_columns [OF not_routed(2)])
next
  case (scan i w ts w' gs)
  have "task_columns w = cols" using scan(3) by (simp add: accounted_def)
  then show ?case
    by (intro accounted_keep [OF scan(3) _ _ scan_frame [OF assms(1) scan(2)]])
      (auto intro: accounted_columns [OF scan(3)] dest: scan_lists [OF assms(1) scan(2)])
next
  case (scan_error i w e w' gs)
  then show ?case
    by (intro accounted_keep [OF scan_error(3) _ _ scan_frame [OF assms(1) scan_error(2)]])
      (auto intro: accounted_columns [OF scan_error(3)])
qed (simp add: accounted_def)

lemma completed_delivered:
  assumes "ok c" and "ProcessTask_run (svc c) (trepo c) (prepo c) n w (m, gs, w')"
  shows "task_columns w' = task_columns w \<and>
         (\<forall>x \<in> completed_in w'. x \<in> completed_in w \<or>
            (\<exists>t. delivered c t w' \<and> columns_of t \<in> task_columns w \<and> x = (tk_UserID t, tk_MessageID t)))"
proof -
  have "accounted c (completed_in w) (task_columns w) (m, gs, w')"
    using assms(2) unfolding ProcessTask_run_def
    by (induction rule: rtranclp_induct) (auto simp: accounted_def [of _ _ _ "(Scanning 1, [], w)"] intro: accounted_step [OF assms(1)])
  then show ?thesis by (auto simp: accounted_def)
qed

end

end
