(* ===== verification/Outbox_Run.thy ===== *)
theory Outbox_Run
  imports Outbox
begin

text \<open>
  The repository of \<open>data/task.go\<close> and the repository of taking part keep the contract of the outbox:
  a routed award message is in its exchange, a routed order is settled, and neither is undone.
\<close>

section \<open>What the calls leave alone\<close>

lemma mq_sql: "keeps mq (sql svc db s)"
  unfolding sql_def
  by (rule keeps_remote) (auto simp: keeps_def sql_run_def Let_def split: prod.split sreply.split)

lemma mq_now [keeps_rules]: "keeps mq (now svc)"
  by (simp add: keeps_now)

lemma mq_gorm [keeps_rules]:
  "keeps mq (gorm_First svc db t p)" "keeps mq (gorm_FindBy svc db t p key n)"
  "keeps mq (gorm_Updates svc db t p f)" "keeps mq (gorm_Create svc db t r)"
  unfolding gorm_First_def gorm_FindBy_def gorm_Updates_def gorm_Create_def
  by (auto intro!: keeps_bindE mq_sql keeps_ret keeps_fail split: sreply.split)

lemma mq_transaction [keeps_rules]: "keeps mq body \<Longrightarrow> keeps mq (transaction svc body)"
  by (auto simp: keeps_def transaction_def split: prod.split res.split fault.split) (metis snd_conv)+

lemma keeps_deref [keeps_rules]: "keeps obs (deref x)"
  by (cases x) (simp_all add: keeps_rules)

lemma keeps_shard [keeps_rules]: "keeps obs (shard rt uid)"
  by (simp add: shard_def keeps_rules)

lemma mq_errors [keeps_rules]: "keeps mq (not_found e)" "keeps mq (dup_index e)"
  by (simp_all add: not_found_def dup_index_def keeps_rules)

lemma mq_settle [keeps_rules]: "keeps mq (settle_month svc db uid aid m t a)" "keeps mq (settle_day svc db uid aid d t a)"
  unfolding settle_month_def settle_day_def by (auto intro!: keeps_rules)

lemma mq_SaveCreatePartakeOrderAggregate: "keeps mq (SaveCreatePartakeOrderAggregate svc rt agg)"
  unfolding SaveCreatePartakeOrderAggregate_def settle_order_def Let_def by (auto intro!: keeps_rules)

lemma mq_update_task: "keeps mq (update_task svc rt st uid mid)"
  unfolding update_task_def by (auto intro!: keeps_rules)

lemma mq_QueryNoSendMessageTaskList: "keeps mq (QueryNoSendMessageTaskList svc rt i)"
  unfolding QueryNoSendMessageTaskList_def Let_def by (auto intro!: keeps_rules)

lemma tables_QueryNoSendMessageTaskList:
  "mysql_ok svc uniq \<Longrightarrow> keeps tables (QueryNoSendMessageTaskList svc rt i)"
  unfolding QueryNoSendMessageTaskList_def Let_def by (auto intro!: keeps_rules tables_gorm_query)

section \<open>A settled order\<close>

definition order_synced :: "DBRouter \<Rightarrow> string \<Rightarrow> string \<Rightarrow> world \<Rightarrow> bool" where
  "order_synced rt uid oid w \<longleftrightarrow>
     (\<exists>db suffix r. DBStrategy rt uid = Ok (Some db, suffix) \<and>
        r \<in> set (tables w (db, order_table suffix)) \<and> order_row uid oid r \<and>
        uo_AccountSyncState (the_raffle_order r) = AccountSyncStateCompleted)"

lemma settle_order_rows:
  assumes "mysql_ok svc uniq" and "faults_ok svc" and "settle_order svc db suffix uid oid w = (Ok u, w1)"
  shows "(\<exists>r. find (order_row uid oid) (tables w (db, order_table suffix)) = Some r \<and>
            uo_AccountSyncState (the_raffle_order r) = AccountSyncStateCompleted \<and> tables w1 = tables w) \<or>
         (\<exists>t r. find (order_row uid oid) (tables w (db, order_table suffix)) = Some r \<and>
            tables w1 (db, order_table suffix) =
              map (\<lambda>r. if order_row uid oid r then on_order (complete_order t) r else r) (tables w (db, order_table suffix)) \<and>
            (\<forall>dt. dt \<notin> {(db, order_table suffix), (db, accT), (db, monT), (db, dayT)} \<longrightarrow> tables w1 dt = tables w dt))"
proof -
  let ?t = "svc_clock svc (Suc (tick w))"
  obtain r where r: "find (order_row uid oid) (tables w (db, order_table suffix)) = Some r"
    using assms(3) unfolding settle_order_def
    by (auto simp: caseE_First_Ok_iff [OF assms(1,2)] not_found_def split: option.splits)
  show ?thesis
  proof (cases "uo_AccountSyncState (the_raffle_order r) = AccountSyncStateCompleted")
    case True
    then have "tables w1 = tables w"
      using assms(3) r unfolding settle_order_def
      by (auto simp: caseE_First_Ok_iff [OF assms(1,2)] Let_def)
    with r True show ?thesis by blast
  next
    case False
    obtain ord where ord: "r = RRaffleOrder ord" using find_SomeD [OF r] by (cases r) (simp_all add: order_row_def)
    from settle_order_effect [OF assms r [unfolded ord]] False ord obtain t where
      "tables w1 (db, order_table suffix) =
         map (\<lambda>r. if order_row uid oid r then on_order (complete_order t) r else r) (tables w (db, order_table suffix))"
      "\<forall>dt. dt \<notin> {(db, order_table suffix), (db, accT), (db, monT), (db, dayT)} \<longrightarrow> tables w1 dt = tables w dt"
      by auto
    with r show ?thesis by blast
  qed
qed

text \<open>Settling an order leaves the task table alone and never takes a settlement back.\<close>

lemma order_synced_mono:
  assumes "\<And>db suffix. tables w' (db, order_table suffix) = tables w (db, order_table suffix) \<or>
     (\<exists>p t. tables w' (db, order_table suffix) =
        map (\<lambda>r. if p r then on_order (complete_order t) r else r) (tables w (db, order_table suffix)))"
    and "order_synced rt uid oid w"
  shows "order_synced rt uid oid w'"
proof -
  from assms(2) obtain db suffix r where r: "DBStrategy rt uid = Ok (Some db, suffix)"
      "r \<in> set (tables w (db, order_table suffix))" "order_row uid oid r"
      "uo_AccountSyncState (the_raffle_order r) = AccountSyncStateCompleted"
    by (auto simp: order_synced_def)
  have "order_row uid oid (on_order (complete_order t) r) \<and>
      uo_AccountSyncState (the_raffle_order (on_order (complete_order t) r)) = AccountSyncStateCompleted" for t
    using r(3) by (cases r) (simp_all add: order_row_def complete_order_def)
  note kept = this
  show ?thesis
  proof (cases "tables w' (db, order_table suffix) = tables w (db, order_table suffix)")
    case True
    with r show ?thesis by (auto simp: order_synced_def)
  next
    case False
    with assms(1) [of db suffix] obtain p t where
      "tables w' (db, order_table suffix) = map (\<lambda>r. if p r then on_order (complete_order t) r else r) (tables w (db, order_table suffix))"
      by blast
    then have "(if p r then on_order (complete_order t) r else r) \<in> set (tables w' (db, order_table suffix))"
      using r(2) by simp
    with r kept [of t] show ?thesis unfolding order_synced_def by (cases "p r") auto
  qed
qed

lemma SaveCreate_rows:
  assumes "mysql_ok svc uniq" and "faults_ok svc" and "SaveCreatePartakeOrderAggregate svc rt agg w = (r, w')"
  shows "tables w' = tables w \<or>
         (\<exists>order db suffix w1. DBStrategy rt (cp_UserID agg) = Ok (Some db, suffix) \<and> cp_UserRaffleOrder agg = Some order \<and>
            settle_order svc db suffix (cp_UserID agg) (ur_OrderID order) w = (Ok (), w1) \<and> tables w' = tables w1)"
proof -
  have tr: "tables w' = tables w \<or> (\<exists>w1. settle_order svc db suffix uid oid w = (Ok (), w1) \<and> tables w' = tables w1)"
    if "transaction svc (settle_order svc db suffix uid oid) w = (r, w')" for db suffix uid oid
    using transaction_atomic [OF that] by auto
  show ?thesis
    using assms(3)
    by (auto simp: SaveCreatePartakeOrderAggregate_def shard_def bindE_def
        split: option.splits res.splits if_splits prod.splits dest!: tr)
qed

lemma SaveCreate_frame:
  assumes "mysql_ok svc uniq" and "faults_ok svc" and "SaveCreatePartakeOrderAggregate svc rt agg w = (r, w')"
  shows "tables w' (db, ''task'') = tables w (db, ''task'') \<and> (order_synced rt uid oid w \<longrightarrow> order_synced rt uid oid w')"
proof (cases "tables w' = tables w")
  case True
  then show ?thesis by (simp add: order_synced_def)
next
  case False
  with SaveCreate_rows [OF assms] obtain order :: UserRaffleOrder and db' s w1 where
    s: "settle_order svc db' s (cp_UserID agg) (ur_OrderID order) w = (Ok (), w1)" and t: "tables w' = tables w1"
    by blast
  from settle_order_rows [OF assms(1,2) s] False t obtain time where
    rows: "tables w' (db', order_table s) =
        map (\<lambda>r. if order_row (cp_UserID agg) (ur_OrderID order) r then on_order (complete_order time) r else r)
          (tables w (db', order_table s))"
    and others: "\<forall>dt. dt \<notin> {(db', order_table s), (db', accT), (db', monT), (db', dayT)} \<longrightarrow> tables w' dt = tables w dt"
    by auto
  have "tables w' (d, order_table x) = tables w (d, order_table x)" if "(d, order_table x) \<noteq> (db', order_table s)" for d x
    using others that by simp
  with rows have "order_synced rt uid oid w \<Longrightarrow> order_synced rt uid oid w'"
    by (intro order_synced_mono [of w' w]) (metis, assumption)
  moreover have "tables w' (db, ''task'') = tables w (db, ''task'')" using others by simp
  ultimately show ?thesis by blast
qed

lemma SaveCreate_synced:
  assumes "mysql_ok svc uniq" and "faults_ok svc" and "SaveCreatePartakeOrderAggregate svc rt agg w = (Ok (), w')"
    and "cp_UserRaffleOrder agg = Some order"
  shows "order_synced rt (cp_UserID agg) (ur_OrderID order) w'"
proof -
  let ?p = "order_row (cp_UserID agg) (ur_OrderID order)"
  obtain db suffix where db: "DBStrategy rt (cp_UserID agg) = Ok (Some db, suffix)"
    using assms(3,4) by (auto simp: SaveCreatePartakeOrderAggregate_def shard_def bindE_def
        split: option.splits res.splits if_splits prod.splits)
  from Save_settles [OF db assms(4,3)] obtain w1 where
    w1: "settle_order svc db suffix (cp_UserID agg) (ur_OrderID order) w = (Ok (), w1)" "tables w' = tables w1"
    by auto
  from settle_order_rows [OF assms(1,2) w1(1)] obtain r where r: "find ?p (tables w (db, order_table suffix)) = Some r"
    by blast
  then have r': "?p r" "r \<in> set (tables w (db, order_table suffix))" by (auto simp: find_Some_iff)
  then have "?p (on_order (complete_order t) r) \<and>
      uo_AccountSyncState (the_raffle_order (on_order (complete_order t) r)) = AccountSyncStateCompleted" for t
    by (cases r) (simp_all add: order_row_def complete_order_def)
  note comp = this
  from settle_order_rows [OF assms(1,2) w1(1)] show ?thesis
  proof (elim disjE exE conjE)
    fix r1 assume "find ?p (tables w (db, order_table suffix)) = Some r1"
      "uo_AccountSyncState (the_raffle_order r1) = AccountSyncStateCompleted" "tables w1 = tables w"
    with r r' db w1(2) show ?thesis by (auto simp: order_synced_def)
  next
    fix t assume "tables w1 (db, order_table suffix) =
      map (\<lambda>r. if ?p r then on_order (complete_order t) r else r) (tables w (db, order_table suffix))"
    with r' have "on_order (complete_order t) r \<in> set (tables w' (db, order_table suffix))"
      using w1(2) by force
    with comp [of t] db show ?thesis unfolding order_synced_def by blast
  qed
qed

section \<open>Delivery\<close>

text \<open>
  An award task is delivered when its exchange holds an event with the number of the message and its
  data; an order task is delivered when the order it names is settled.
\<close>

definition task_delivered :: "deployment \<Rightarrow> Task \<Rightarrow> world \<Rightarrow> bool" where
  "task_delivered = (\<lambda>(svc, dbs, tbs, uniq) t w.
     (tk_Topic t = SendAwardTopic \<and>
        (\<exists>data ts body. task_data svc (tk_Message t) = Ok data \<and>
           js_Event svc \<lparr>ev_ID = tk_MessageID t, ev_Timestamp = ts, ev_Data = EJson data\<rparr> = Ok body \<and>
           (SendAwardTopic, body) \<in> set (mq w))) \<or>
     (tk_Topic t = SaveOrderRecordTopic \<and>
        (\<exists>m. dec (js_SaveOrder svc) (tk_Message t) = Ok m \<and>
           order_synced (NewDBRouter dbs tbs) (so_UserID m) (so_OrderID m) w)))"

definition deployed_svc :: "deployment \<Rightarrow> services" where
  "deployed_svc = (\<lambda>(svc, dbs, tbs, uniq). svc)"

definition deployed_task_repo :: "deployment \<Rightarrow> task_repo" where
  "deployed_task_repo = (\<lambda>(svc, dbs, tbs, uniq). task_repo_of svc (NewDBRouter dbs tbs))"

lemma task_delivered_mono:
  assumes "set (mq w) \<subseteq> set (mq w')"
    and "\<And>uid oid. order_synced (NewDBRouter dbs tbs) uid oid w \<Longrightarrow> order_synced (NewDBRouter dbs tbs) uid oid w'"
  shows "task_delivered (svc, dbs, tbs, uniq) t w \<longrightarrow> task_delivered (svc, dbs, tbs, uniq) t w'"
  using assms by (auto simp: task_delivered_def)

lemma order_synced_tables: "(\<And>db suffix. tables w' (db, order_table suffix) = tables w (db, order_table suffix)) \<Longrightarrow>
    order_synced rt uid oid w' = order_synced rt uid oid w"
  by (simp add: order_synced_def)

lemma completed_in_mono: "(\<And>db. tables w' (db, ''task'') = tables w (db, ''task'')) \<Longrightarrow> completed_in w' = completed_in w"
  by (simp add: completed_in_def)

text \<open>The same over the rows, for the columns that stay.\<close>

definition row_columns :: "row \<Rightarrow> (string \<times> string \<times> string \<times> string) option" where
  "row_columns r = (case r of RTask k \<Rightarrow> Some (pt_UserID k, pt_MessageID k, pt_Topic k, pt_Message k) | _ \<Rightarrow> None)"

lemma row_columns_Some:
  "row_columns r = Some x \<longleftrightarrow> (\<exists>k. r = RTask k \<and> x = (pt_UserID k, pt_MessageID k, pt_Topic k, pt_Message k))"
  by (cases r) (auto simp: row_columns_def)

lemma task_columns_rows: "x \<in> task_columns w \<longleftrightarrow> (\<exists>db. Some x \<in> set (map row_columns (tables w (db, ''task''))))"
proof -
  have "Some x \<in> set (map row_columns rows) \<longleftrightarrow>
      (\<exists>k. RTask k \<in> set rows \<and> x = (pt_UserID k, pt_MessageID k, pt_Topic k, pt_Message k))" for rows
    by (induction rows) (auto simp: row_columns_Some eq_commute [of "Some x"])
  then show ?thesis unfolding task_columns_def by blast
qed

lemma task_columns_same:
  "(\<And>db. map row_columns (tables w' (db, ''task'')) = map row_columns (tables w (db, ''task''))) \<Longrightarrow> task_columns w' = task_columns w"
  by (rule set_eqI) (simp only: task_columns_rows)

lemma scan_columns:
  assumes "mysql_ok svc uniq" and "QueryNoSendMessageTaskList svc rt i w = (Ok ts, w')" and "t \<in> set ts"
  shows "columns_of t \<in> task_columns w"
proof -
  obtain db where "GetDB rt i = Some db" using assms(2) by (auto simp: QueryNoSendMessageTaskList_def deref_def split: option.splits)
  then obtain r where "r \<in> set (tables w (db, ''task''))" "is_RTask r" "t = Task_ToEntity (selected_task r)"
    using assms(2,3)
    by (auto simp: QueryNoSendMessageTaskList_def Let_def gorm_FindBy_Ok_iff [OF assms(1)] task_state_def stale_task_def
        split: if_splits dest!: in_set_takeD)
  then show ?thesis
    by (auto simp: is_RTask_def task_columns_def columns_of_def Task_ToEntity_def selected_task_def Let_def)
qed

lemma Publish_mq: "Publish svc topic ev w = (r, w') \<Longrightarrow> store w' = store w \<and> set (mq w) \<subseteq> set (mq w')"
  using Publish_frame [of svc topic ev w r w'] by auto

lemma route_cases:
  assumes "routeTaskByTopic svc (task_repo_of svc rt) (activity_repo svc rt) t w = (r, w')"
  obtains (publish) data ts w1 where "tk_Topic t = SendAwardTopic" "task_data svc (tk_Message t) = Ok data"
      "Publish svc SendAwardTopic \<lparr>ev_ID = tk_MessageID t, ev_Timestamp = ts, ev_Data = EJson data\<rparr> w1 = (r, w')"
      "store w1 = store w" "mq w1 = mq w"
    | (settle) m where "tk_Topic t = SaveOrderRecordTopic" "dec (js_SaveOrder svc) (tk_Message t) = Ok m"
      "SaveCreatePartakeOrderAggregate svc rt (ToCreatePartakeOrder m) w = (r, w')"
    | (none) "w' = w" "r \<noteq> Ok ()"
  using assms
  by (auto simp: routeTaskByTopic_def TaskUsecase_SendMessage_def task_repo_of_def task_SendMessage_def
      PublishTopic_def activity_repo_def SaveOrderRecord_def bindE_def caseE_def
      split: if_splits res.splits)

lemma route_effect:
  assumes "mysql_ok svc uniq" and "faults_ok svc"
    and "routeTaskByTopic svc (task_repo_of svc rt) (activity_repo svc rt) t w = (r, w')"
  shows "completed_in w' = completed_in w \<and> task_columns w' = task_columns w \<and> set (mq w) \<subseteq> set (mq w') \<and>
         (order_synced rt uid oid w \<longrightarrow> order_synced rt uid oid w')"
  using assms(3)
proof (cases rule: route_cases)
  case (publish data ts w1)
  from Publish_mq [OF publish(3)] publish(4,5) have "store w' = store w" "set (mq w) \<subseteq> set (mq w')" by simp_all
  then show ?thesis using order_synced_tables [of w' w] by (simp add: completed_in_def task_columns_def)
next
  case (settle m)
  have "tables w' (db, ''task'') = tables w (db, ''task'')" for db
    using SaveCreate_frame [OF assms(1,2) settle(3)] by blast
  note tasks = this
  have "completed_in w' = completed_in w" by (rule completed_in_mono) (rule tasks)
  moreover have "task_columns w' = task_columns w" by (rule task_columns_same) (simp only: tasks)
  ultimately show ?thesis
    using SaveCreate_frame [OF assms(1,2) settle(3)] keepsD [OF mq_SaveCreatePartakeOrderAggregate settle(3)]
    by simp
qed simp

text \<open>An update changes its rows or nothing, whatever its outcome.\<close>

lemma gorm_Updates_rows:
  assumes "mysql_ok svc uniq" and "gorm_Updates svc db t p f w = (r, w')"
  shows "tables w' = tables w \<or> tables w' = (tables w)((db, t) := map (\<lambda>r. if p r then f r else r) (tables w (db, t)))"
  using assms
  by (auto simp: gorm_Updates_def sql_def sql_run_def remote_def mysql_ok_def bindE_def Let_def split: fault.splits)

definition marked :: "string \<Rightarrow> string \<Rightarrow> string \<Rightarrow> time \<Rightarrow> row \<Rightarrow> row" where
  "marked uid mid st t r =
     (if task_of uid mid r then on_task (\<lambda>k. k\<lparr>pt_State := st, pt_UpdateTime := t\<rparr>) r else r)"

lemma update_task_rows:
  assumes "mysql_ok svc uniq" and "update_task svc rt st uid mid w = (r, w')"
  shows "tables w' = tables w \<or>
         (\<exists>db t. tables w' = (tables w)((db, ''task'') := map (marked uid mid st t) (tables w (db, ''task''))))"
proof (cases "tables w' = tables w")
  case False
  let ?up = "\<lambda>db t. gorm_Updates svc db ''task'' (task_of uid mid) (on_task (\<lambda>k. k\<lparr>pt_State := st, pt_UpdateTime := t\<rparr>))"
  have step: "\<exists>r1 db t. ?up db t (bump w) = (r1, w')"
    using assms(2) False
    by (auto simp: update_task_def shard_def bindE_def deref_def split: res.splits option.splits prod.splits)
  then obtain r1 db t where "?up db t (bump w) = (r1, w')" by blast
  from gorm_Updates_rows [OF assms(1) this] False show ?thesis
    unfolding marked_def by (auto intro!: exI [of _ db] exI [of _ t])
qed simp

lemma update_task_frame:
  assumes "mysql_ok svc uniq" and "update_task svc rt st uid mid w = (r, w')"
  shows "completed_in w' \<subseteq> (if st = ''completed'' then {(uid, mid)} else {}) \<union> completed_in w \<and>
         task_columns w' = task_columns w \<and> mq w' = mq w \<and> order_synced rt' u o1 w' = order_synced rt' u o1 w"
proof -
  have hit: "RTask k = marked uid mid st t r \<Longrightarrow> RTask k = r \<or> pt_State k = st \<and> pt_UserID k = uid \<and> pt_MessageID k = mid" for k t r
    by (cases r) (auto simp: marked_def on_task_def task_of_def split: if_splits)
  have "completed_in w' \<subseteq> (if st = ''completed'' then {(uid, mid)} else {}) \<union> completed_in w"
  proof
    fix x assume "x \<in> completed_in w'"
    then obtain k db where k: "x = (pt_UserID k, pt_MessageID k)" "RTask k \<in> set (tables w' (db, ''task''))" "pt_State k = ''completed''"
      by (auto simp: completed_in_def)
    have "RTask k \<in> set (tables w (db, ''task'')) \<or> pt_State k = st \<and> pt_UserID k = uid \<and> pt_MessageID k = mid"
    proof (cases "tables w' (db, ''task'') = tables w (db, ''task'')")
      case False
      with update_task_rows [OF assms] obtain db' t where
        "tables w' = (tables w)((db', ''task'') := map (marked uid mid st t) (tables w (db', ''task'')))" "db' = db"
        by (auto split: if_splits)
      with k(2) obtain r0 where "r0 \<in> set (tables w (db, ''task''))" "RTask k = marked uid mid st t r0" by auto
      with hit [of k t r0] show ?thesis by auto
    qed (use k in simp)
    moreover have "RTask k \<in> set (tables w (db, ''task'')) \<Longrightarrow> x \<in> completed_in w"
      using k(1,3) unfolding completed_in_def by blast
    ultimately show "x \<in> (if st = ''completed'' then {(uid, mid)} else {}) \<union> completed_in w"
      using k(1,3) by auto
  qed
  moreover have "tables w' (db, order_table suffix) = tables w (db, order_table suffix)" for db suffix
    using update_task_rows [OF assms] by auto
  then have "order_synced rt' u o1 w' = order_synced rt' u o1 w" by (rule order_synced_tables)
  moreover have "row_columns (marked uid mid st t r) = row_columns r" for t r
    by (cases r) (simp_all add: marked_def on_task_def row_columns_def)
  then have "map row_columns (tables w' (db, ''task'')) = map row_columns (tables w (db, ''task''))" for db
    using update_task_rows [OF assms] by (auto simp: comp_def)
  then have "task_columns w' = task_columns w" by (rule task_columns_same)
  ultimately show ?thesis using keepsD [OF mq_update_task assms(2)] by (intro conjI) assumption+
qed

lemma route_delivers:
  assumes "mysql_ok svc uniq" and "faults_ok svc"
    and "routeTaskByTopic svc (task_repo_of svc (NewDBRouter dbs tbs)) (activity_repo svc (NewDBRouter dbs tbs)) t w = (Ok (), w')"
  shows "task_delivered (svc, dbs, tbs, uniq) t w'"
  using assms(3)
proof (cases rule: route_cases)
  case (publish data ts w1)
  from Publish_success [OF publish(3)] obtain body where
    "js_Event svc \<lparr>ev_ID = tk_MessageID t, ev_Timestamp = ts, ev_Data = EJson data\<rparr> = Ok body"
    "(SendAwardTopic, body) \<in> set (mq w')" by auto
  with publish(1,2) show ?thesis unfolding task_delivered_def prod.case by blast
next
  case (settle m)
  from SaveCreate_synced [OF assms(1,2) settle(3)] settle(1,2) show ?thesis
    by (simp add: task_delivered_def ToCreatePartakeOrder_def)
qed simp

interpretation ob: outbox_contract deployed_svc deployed_task_repo deployed_repo deployment_ok task_delivered
proof (unfold_locales, goal_cases)
  case (1 c t w w')
  then show ?case by (cases c) (auto simp: deployed_svc_def deployed_task_repo_def deployed_repo_def deployment_ok_def intro: route_delivers)
next
  case (2 c i w ts w' t)
  then show ?case
    using scan_columns by (cases c) (auto simp: deployed_task_repo_def task_repo_of_def deployment_ok_def)
next
  case (3 c t w r w' t')
  obtain svc dbs tbs uniq where c: "c = (svc, dbs, tbs, uniq)" by (cases c)
  have ok: "mysql_ok svc uniq" "faults_ok svc" using 3(1) by (simp_all add: c deployment_ok_def)
  have "routeTaskByTopic svc (task_repo_of svc (NewDBRouter dbs tbs)) (activity_repo svc (NewDBRouter dbs tbs)) t w = (r, w')"
    using 3(2) by (simp add: c deployed_svc_def deployed_task_repo_def deployed_repo_def)
  note route_effect [OF ok this]
  then show ?case unfolding c by (intro conjI task_delivered_mono) blast+
next
  case (4 c i w r w' t')
  obtain svc dbs tbs uniq where c: "c = (svc, dbs, tbs, uniq)" by (cases c)
  have ok: "mysql_ok svc uniq" using 4(1) by (simp add: c deployment_ok_def)
  have q: "QueryNoSendMessageTaskList svc (NewDBRouter dbs tbs) i w = (r, w')"
    using 4(2) by (simp add: c deployed_task_repo_def task_repo_of_def)
  from keepsD [OF tables_QueryNoSendMessageTaskList [OF ok] q] keepsD [OF mq_QueryNoSendMessageTaskList q]
  show ?case unfolding c
    by (intro conjI task_delivered_mono) (simp_all add: completed_in_def order_synced_def task_columns_def)
next
  case (5 c uid mid w r w' t')
  obtain svc dbs tbs uniq where c: "c = (svc, dbs, tbs, uniq)" by (cases c)
  have ok: "mysql_ok svc uniq" using 5(1) by (simp add: c deployment_ok_def)
  have u: "update_task svc (NewDBRouter dbs tbs) ''completed'' uid mid w = (r, w')"
    using 5(2) by (simp add: c deployed_task_repo_def task_repo_of_def UpdateTaskSendMessageCompleted_def)
  note update_task_frame [OF ok u]
  then show ?case unfolding c by (intro conjI task_delivered_mono) auto
next
  case (6 c uid mid w r w' t')
  obtain svc dbs tbs uniq where c: "c = (svc, dbs, tbs, uniq)" by (cases c)
  have ok: "mysql_ok svc uniq" using 6(1) by (simp add: c deployment_ok_def)
  have u: "update_task svc (NewDBRouter dbs tbs) ''fail'' uid mid w = (r, w')"
    using 6(2) by (simp add: c deployed_task_repo_def task_repo_of_def UpdateTaskSendMessageFail_def)
  note update_task_frame [OF ok u]
  then show ?case unfolding c by (intro conjI task_delivered_mono) auto
qed

text \<open>No two tasks with the same user and message number stand for different messages.\<close>

definition numbers_unique :: "world \<Rightarrow> bool" where
  "numbers_unique w \<longleftrightarrow>
     (\<forall>u m tp ms tp' ms'. (u, m, tp, ms) \<in> task_columns w \<longrightarrow> (u, m, tp', ms') \<in> task_columns w \<longrightarrow> tp = tp' \<and> ms = ms')"

text \<open>
  C9. In every interleaving of the scan and the goroutines of \<open>ProcessTask\<close>, with whatever
  calls fail: a row of a task table that is completed afterwards, and whose user and message number were
  not completed before, was delivered, by its own topic and message: an award row's event, with its message
  number and data, is in the award exchange, and the order that an order row's message names is settled.
  The rows themselves keep user, number, topic and message. Message numbers have to be unique per
  user, since a task is marked by them.
\<close>

theorem completed_tasks_were_delivered:
  assumes "mysql_ok svc uniq" and "faults_ok svc" and "0 < dbs" and "0 < tbs" and "numbers_unique w"
    and "ProcessTask_run svc (task_repo_of svc (NewDBRouter dbs tbs)) (activity_repo svc (NewDBRouter dbs tbs)) n w (m, gs, w')"
    and "RTask k \<in> set (tables w' (db, ''task''))" and "pt_State k = ''completed''"
    and "(pt_UserID k, pt_MessageID k) \<notin> completed_in w"
  shows "(pt_UserID k, pt_MessageID k, pt_Topic k, pt_Message k) \<in> task_columns w \<and>
         task_delivered (svc, dbs, tbs, uniq) (Task_ToEntity k) w'"
proof -
  let ?c = "(svc, dbs, tbs, uniq)"
  have "deployment_ok ?c" using assms(1-4) by (simp add: deployment_ok_def)
  from ob.completed_delivered [OF this, of n w m gs w'] assms(6) have
    cols: "task_columns w' = task_columns w" and
    comp: "\<forall>x \<in> completed_in w'. x \<in> completed_in w \<or>
      (\<exists>t. task_delivered ?c t w' \<and> columns_of t \<in> task_columns w \<and> x = (tk_UserID t, tk_MessageID t))"
    by (simp_all add: deployed_svc_def deployed_task_repo_def deployed_repo_def)
  have k: "(pt_UserID k, pt_MessageID k, pt_Topic k, pt_Message k) \<in> task_columns w"
    using assms(7) cols unfolding task_columns_def by blast
  have "(pt_UserID k, pt_MessageID k) \<in> completed_in w'" using assms(7,8) unfolding completed_in_def by blast
  with comp assms(9) obtain t where t: "task_delivered ?c t w'" "columns_of t \<in> task_columns w"
      "tk_UserID t = pt_UserID k" "tk_MessageID t = pt_MessageID k"
    by auto
  then have "tk_Topic t = pt_Topic k" "tk_Message t = pt_Message k"
    using k assms(5) unfolding numbers_unique_def columns_of_def by metis+
  then show ?thesis using t k by (simp add: task_delivered_def Task_ToEntity_def)
qed

lemma sample_Publish: "\<exists>w'. Publish (sample_svc uniq) topic ev w = (Ok (), w') \<and> tables w' = tables w"
proof -
  have ev: "js_Event (sample_svc uniq) ev = Ok ''{}''" by (simp add: sample_svc_def)
  show ?thesis
    by (simp add: Publish_def declare_exchange_def ExchangeDeclare_def channel_publish_def remote_def mark_declared_def
        metric_defs bindE_def caseE_def ev)
qed

lemma outbox_run:
  "\<exists>w'. ProcessTask_run (sample_svc (\<lambda>_ _ _. False)) (task_repo_of (sample_svc (\<lambda>_ _ _. False)) (NewDBRouter 2 4))
          (activity_repo (sample_svc (\<lambda>_ _ _. False)) (NewDBRouter 2 4)) 1 outbox_world (Scanning 2, [], w') \<and>
        tables w' (''01'', ''task'') = [RTask (outbox_task\<lparr>pt_State := ''completed'', pt_UpdateTime := 1700000000 * second\<rparr>)]"
proof -
  let ?svc = "sample_svc (\<lambda>_ _ _. False)" and ?rt = "NewDBRouter 2 4"
  let ?tr = "task_repo_of ?svc ?rt" and ?pr = "activity_repo ?svc ?rt" and ?t = "Task_ToEntity (selected_task (RTask outbox_task))"
  have ok: "mysql_ok ?svc (\<lambda>_ _ _. False)" "no_faults ?svc" by (simp_all add: no_faults_def)
  have sel: "tk_UserID ?t = ''e''" "tk_MessageID ?t = ''m1''" "tk_Topic ?t = SendAwardTopic" "tk_Message ?t = ''{}''"
    by (simp_all add: Task_ToEntity_def selected_task_def outbox_task_def Let_def)
  obtain w1 where scan: "t_QueryNoSendMessageTaskList ?tr 1 outbox_world = (Ok [?t], w1)" and w1: "tables w1 = tables outbox_world"
    by (simp add: task_repo_of_def QueryNoSendMessageTaskList_def sample_GetDB bindE_def served [OF ok] task_state_def
        stale_task_def outbox_task_def Let_def)
  have data: "task_data ?svc ''{}'' = Ok (JObject [])" by (simp add: task_data_def sample_svc_def single_codec_def)
  obtain w2 where route: "routeTaskByTopic ?svc ?tr ?pr ?t w1 = (Ok (), w2)" and w2: "tables w2 = tables w1"
    using sample_Publish [of "\<lambda>_ _ _. False" SendAwardTopic "\<lparr>ev_ID = ''m1'', ev_Timestamp = 1700000000 * second, ev_Data = EJson (JObject [])\<rparr>" "bump w1"]
    by (auto simp: routeTaskByTopic_def sel TaskUsecase_SendMessage_def task_repo_of_def task_SendMessage_def
        PublishTopic_def data bindE_def)
  obtain w3 where mark: "t_UpdateTaskSendMessageCompleted ?tr ''e'' ''m1'' w2 = (Ok (), w3)"
    and w3: "tables w3 (''01'', ''task'') = [RTask (outbox_task\<lparr>pt_State := ''completed'', pt_UpdateTime := 1700000000 * second\<rparr>)]"
    using w1 w2
    by (simp add: task_repo_of_def UpdateTaskSendMessageCompleted_def update_task_def shard_def sample_shard bindE_def
        served [OF ok] task_of_def on_task_def outbox_task_def)
  have "send_step ?svc ?tr ?pr 1 (Scanning 1, [], outbox_world) (Scanning 2, [Routing ?t], w1)"
    using send_step.scan [OF _ scan, of 1 ?svc ?pr "[]"] by simp
  moreover have "send_step ?svc ?tr ?pr 1 (Scanning 2, [Routing ?t], w1) (Scanning 2, [Sent ?t], w2)"
    using send_step.routed [OF route, of 1 "Scanning 2" "[]" "[]"] by simp
  moreover have "send_step ?svc ?tr ?pr 1 (Scanning 2, [Sent ?t], w2) (Scanning 2, [], w3)"
    using send_step.completed [of ?tr ?t w2 w3 ?svc ?pr 1 "Scanning 2" "[]" "[]"] mark sel by simp
  ultimately have "ProcessTask_run ?svc ?tr ?pr 1 outbox_world (Scanning 2, [], w3)"
    unfolding ProcessTask_run_def by (meson r_into_rtranclp rtranclp.rtrancl_into_rtrancl)
  with w3 show ?thesis by blast
qed

theorem completed_tasks_were_delivered_witness:
  "\<exists>w' body ts. RTask (outbox_task\<lparr>pt_State := ''completed'', pt_UpdateTime := 1700000000 * second\<rparr>) \<in> set (tables w' (''01'', ''task'')) \<and>
     js_Event (sample_svc (\<lambda>_ _ _. False)) \<lparr>ev_ID = ''m1'', ev_Timestamp = ts, ev_Data = EJson (JObject [])\<rparr> = Ok body \<and>
     (SendAwardTopic, body) \<in> set (mq w')"
proof -
  let ?svc = "sample_svc (\<lambda>_ _ _. False)" and ?k = "outbox_task\<lparr>pt_State := ''completed'', pt_UpdateTime := 1700000000 * second\<rparr>"
  obtain w' where run: "ProcessTask_run ?svc (task_repo_of ?svc (NewDBRouter 2 4))
      (activity_repo ?svc (NewDBRouter 2 4)) 1 outbox_world (Scanning 2, [], w')"
    and c: "tables w' (''01'', ''task'') = [RTask ?k]" using outbox_run by blast
  have k: "RTask ?k \<in> set (tables w' (''01'', ''task''))" "pt_State ?k = ''completed''" using c by simp_all
  have n: "(pt_UserID ?k, pt_MessageID ?k) \<notin> completed_in outbox_world"
    by (auto simp: completed_in_def outbox_task_def split: if_splits)
  have u: "numbers_unique outbox_world" by (auto simp: numbers_unique_def task_columns_def split: if_splits)
  have data: "task_data ?svc ''{}'' = Ok (JObject [])" by (simp add: task_data_def sample_svc_def single_codec_def)
  have t: "tk_Topic (Task_ToEntity ?k) = SendAwardTopic" "tk_Message (Task_ToEntity ?k) = ''{}''"
      "tk_MessageID (Task_ToEntity ?k) = ''m1''" "SendAwardTopic \<noteq> SaveOrderRecordTopic"
    by (simp_all add: Task_ToEntity_def outbox_task_def SendAwardTopic_def SaveOrderRecordTopic_def)
  from completed_tasks_were_delivered [OF mysql_ok_sample faults_ok_sample _ _ u run k n] k(1) data t
  show ?thesis by (auto simp: task_delivered_def)
qed

end
