(* ===== verification/Rebate.thy ===== *)
theory Rebate
  imports Outbox_Run
begin

text \<open>
  \<open>internal/biz/rebate\<close> and \<open>internal/data/rebate.go\<close>: the rebate orders of a user's behaviour, saved
  in one transaction on the user's shard and announced afterwards, and the query by which the sign-in
  of a day is looked up.
\<close>

section \<open>SQL LIKE\<close>

text \<open>\<open>%\<close> stands for any text, \<open>_\<close> for one character, a backslash takes the next character literally.\<close>

fun like :: "string \<Rightarrow> string \<Rightarrow> bool" where
  "like [] s = (s = [])"
| "like (p # ps) [] = (p = CHR 0x25 \<and> like ps [])"
| "like (p # ps) (c # cs) =
     (if p = CHR 0x25 then like ps (c # cs) \<or> like (p # ps) cs
      else if p = CHR 0x5C then (case ps of [] \<Rightarrow> c = p \<and> cs = [] | q # qs \<Rightarrow> c = q \<and> like qs cs)
      else (p = CHR ''_'' \<or> p = c) \<and> like ps cs)"

lemma like_any: "like [CHR 0x25] s"
  by (induction s) simp_all

text \<open>A pattern that ends in \<open>%\<close> and has no other special character is a prefix test.\<close>

lemma like_prefix:
  "set p \<inter> {CHR 0x25, CHR 0x5C, CHR ''_''} = {} \<Longrightarrow> like (p @ [CHR 0x25]) s \<longleftrightarrow> take (length p) s = p"
proof (induction p arbitrary: s)
  case Nil
  then show ?case by (simp add: like_any)
next
  case (Cons c p)
  then show ?case by (cases s) auto
qed

section \<open>data/rebate.go\<close>

definition ErrDBRouterNotFound :: gerr where
  "ErrDBRouterNotFound = GoErr ''db router not found''"

definition QueryDailyBehaviorRebateConfig :: "services \<Rightarrow> string \<Rightarrow> DailyBehaviorRebate list M" where
  "QueryDailyBehaviorRebateConfig svc behaviorType =
     bindE (gorm_Find svc ''default'' ''daily_behavior_rebate''
              (\<lambda>r. is_RRebateConf r \<and> dbr_BehaviorType (the_rebate_conf r) = behaviorType \<and>
                   dbr_State (the_rebate_conf r) = ''open''))
       (\<lambda>list. ret (map (\<lambda>r. DailyBehaviorRebate_ToEntity (the_rebate_conf r)) list))"

definition rebate_table :: "string \<Rightarrow> string" where
  "rebate_table suffix = ''user_behavior_rebate_order_'' @ suffix"

definition rebate_row :: "BehaviorRebateOrder \<Rightarrow> time \<Rightarrow> time \<Rightarrow> row" where
  "rebate_row order t1 t2 =
     RRebateOrder
       \<lparr>ubr_ID = 0, ubr_UserID = bo_UserID order, ubr_OrderID = bo_OrderID order,
        ubr_BehaviorType = bo_BehaviorType order, ubr_OutBusinessNo = bo_OutBusinessNo order,
        ubr_RebateDesc = bo_RebateDesc order, ubr_RebateType = bo_RebateType order,
        ubr_RebateConfig = bo_RebateConfig order, ubr_BizID = bo_BizID order,
        ubr_CreateTime = t1, ubr_UpdateTime = t2\<rparr>"

text \<open>The body of the transaction; a translated duplicate error ends the loop without an error.\<close>

fun save_rebate_orders :: "services \<Rightarrow> string \<Rightarrow> string \<Rightarrow> BehaviorRebateOrder list \<Rightarrow> unit M" where
  "save_rebate_orders svc db suffix [] = ret ()"
| "save_rebate_orders svc db suffix (order # orders) =
     bindE (now svc) (\<lambda>t1. bindE (now svc) (\<lambda>t2.
     caseE (gorm_Create svc db (rebate_table suffix) (rebate_row order t1 t2))
       (\<lambda>e. if errors_Is e GormDuplicatedKey then ret () else fail e)
       (\<lambda>_. save_rebate_orders svc db suffix orders)))"

definition rebate_message :: "BehaviorRebateOrder \<Rightarrow> RebateMessage" where
  "rebate_message order =
     \<lparr>rm_UserID = bo_UserID order, rm_RebateDesc = bo_RebateDesc order, rm_RebateType = bo_RebateType order,
      rm_RebateConfig = bo_RebateConfig order, rm_BizID = bo_BizID order\<rparr>"

text \<open>\<open>_ = r.publisher.PublishSendRebate(ctx, event)\<close> for every order\<close>

fun publish_rebates :: "services \<Rightarrow> topics \<Rightarrow> BehaviorRebateOrder list \<Rightarrow> unit M" where
  "publish_rebates svc tp [] = ret ()"
| "publish_rebates svc tp (order # orders) =
     bindE (NewBaseEvent svc (ERebate (rebate_message order))) (\<lambda>event.
     bindE (ignoreE (PublishSendRebate svc tp event)) (\<lambda>_. publish_rebates svc tp orders))"

definition SaveUserRebateOrder :: "services \<Rightarrow> topics \<Rightarrow> DBRouter \<Rightarrow> string \<Rightarrow> BehaviorRebate \<Rightarrow> unit M" where
  "SaveUserRebateOrder svc tp rt userId aggregate =
     bindE (shard rt userId) (\<lambda>(db, suffix).
     case db of
       None \<Rightarrow> fail ErrDBRouterNotFound
     | Some db \<Rightarrow>
         bindE (transaction svc (save_rebate_orders svc db suffix (br_BehaviorRebateOrders aggregate))) (\<lambda>_.
         publish_rebates svc tp (br_BehaviorRebateOrders aggregate)))"

definition rebate_of :: "string \<Rightarrow> string \<Rightarrow> row \<Rightarrow> bool" where
  "rebate_of userId outBusinessNo r \<longleftrightarrow>
     is_RRebateOrder r \<and> ubr_UserID (the_rebate_order r) = userId \<and>
     like (outBusinessNo @ [CHR 0x25]) (ubr_BizID (the_rebate_order r))"

definition QueryUserRebateOrder :: "services \<Rightarrow> DBRouter \<Rightarrow> string \<Rightarrow> string \<Rightarrow> BehaviorRebateOrder list M" where
  "QueryUserRebateOrder svc rt userId outBusinessNo =
     bindE (shard rt userId) (\<lambda>(db, suffix). bindE (deref db) (\<lambda>db.
     bindE (gorm_Find svc db (rebate_table suffix) (rebate_of userId outBusinessNo)) (\<lambda>list.
     ret (map (\<lambda>r. UserBehaviorRebateOrder_ToEntity (the_rebate_order r)) list))))"

section \<open>biz/rebate\<close>

record rebate_repo =
  b_QueryDailyBehaviorRebateConfig :: "string \<Rightarrow> DailyBehaviorRebate list M"
  b_SaveUserRebateOrder :: "string \<Rightarrow> BehaviorRebate \<Rightarrow> unit M"
  b_QueryUserRebateOrder :: "string \<Rightarrow> string \<Rightarrow> BehaviorRebateOrder list M"

definition rebate_repo_of :: "services \<Rightarrow> topics \<Rightarrow> DBRouter \<Rightarrow> rebate_repo" where
  "rebate_repo_of svc tp rt =
     \<lparr>b_QueryDailyBehaviorRebateConfig = QueryDailyBehaviorRebateConfig svc,
      b_SaveUserRebateOrder = SaveUserRebateOrder svc tp rt,
      b_QueryUserRebateOrder = QueryUserRebateOrder svc rt\<rparr>"

text \<open>\<open>xrand.RandomNumeric\<close>: the error of \<open>rand.Int\<close> is dropped and the nil number dereferenced.\<close>

fun RandomNumeric :: "services \<Rightarrow> nat \<Rightarrow> string M" where
  "RandomNumeric svc 0 = ret []"
| "RandomNumeric svc (Suc n) =
     caseE (GetSecureRandomInt svc 10) (\<lambda>_. panic ''runtime error: nil pointer dereference'')
       (\<lambda>d. bindE (RandomNumeric svc n) (\<lambda>ds. ret (char_of (48 + nat d) # ds)))"

definition biz_id :: "string \<Rightarrow> string \<Rightarrow> string \<Rightarrow> string" where
  "biz_id userId rebateType outBusinessNo = userId @ ''_'' @ rebateType @ ''_'' @ outBusinessNo"

definition rebate_order :: "Behavior \<Rightarrow> DailyBehaviorRebate \<Rightarrow> string \<Rightarrow> BehaviorRebateOrder" where
  "rebate_order behavior config orderId =
     \<lparr>bo_UserID = bh_UserID behavior, bo_OrderID = orderId, bo_BehaviorType = db_BehaviorType config,
      bo_RebateDesc = db_RebateDesc config, bo_RebateType = db_RebateType config,
      bo_OutBusinessNo = bh_OutBusinessNo behavior, bo_RebateConfig = db_RebateConfig config,
      bo_BizID = biz_id (bh_UserID behavior) (db_RebateType config) (bh_OutBusinessNo behavior)\<rparr>"

fun build_rebate_orders :: "services \<Rightarrow> Behavior \<Rightarrow> DailyBehaviorRebate list \<Rightarrow> BehaviorRebateOrder list M" where
  "build_rebate_orders svc behavior [] = ret []"
| "build_rebate_orders svc behavior (config # configs) =
     bindE (RandomNumeric svc 12) (\<lambda>orderId.
     bindE (build_rebate_orders svc behavior configs) (\<lambda>orders.
     ret (rebate_order behavior config orderId # orders)))"

definition Rebate_CreateOrder :: "services \<Rightarrow> rebate_repo \<Rightarrow> Behavior \<Rightarrow> string list M" where
  "Rebate_CreateOrder svc repo behavior =
     bindE (b_QueryDailyBehaviorRebateConfig repo (bh_BehaviorType behavior)) (\<lambda>rebateConfigs.
     if rebateConfigs = [] then ret []
     else
       bindE (build_rebate_orders svc behavior rebateConfigs) (\<lambda>orders.
       bindE (b_SaveUserRebateOrder repo (bh_UserID behavior)
                \<lparr>br_UserID = bh_UserID behavior, br_Behavior = behavior, br_BehaviorRebateOrders = orders\<rparr>) (\<lambda>_.
       ret (map bo_OrderID orders))))"

definition QueryOrderByOutBusinessNo :: "rebate_repo \<Rightarrow> string \<Rightarrow> string \<Rightarrow> BehaviorRebateOrder list M" where
  "QueryOrderByOutBusinessNo repo userID outBusinessNo = b_QueryUserRebateOrder repo userID outBusinessNo"

section \<open>Saved together, announced afterwards\<close>

text \<open>The rows of a table after the orders were appended.\<close>

definition rebates_saved :: "BehaviorRebateOrder list \<Rightarrow> row list \<Rightarrow> row list \<Rightarrow> bool" where
  "rebates_saved orders rows rows' \<longleftrightarrow>
     (\<exists>ps. length ps = length orders \<and>
        rows' = rows @ map2 (\<lambda>order (i, t1, t2). with_id i (rebate_row order t1 t2)) orders ps)"

lemma save_rebate_orders_Ok:
  assumes "mysql_ok svc uniq" and "faults_ok svc"
  shows "save_rebate_orders svc db suffix orders w = (Ok u, w') \<Longrightarrow>
     rebates_saved orders (tables w (db, rebate_table suffix)) (tables w' (db, rebate_table suffix)) \<and>
     (\<forall>dt. dt \<noteq> (db, rebate_table suffix) \<longrightarrow> tables w' dt = tables w dt)"
proof (induction orders arbitrary: w)
  case Nil
  then show ?case by (simp add: rebates_saved_def)
next
  case (Cons order orders)
  let ?T = "(db, rebate_table suffix)"
  have "\<not> errors_Is e GormDuplicatedKey" if "gorm_Create svc db (rebate_table suffix) r w1 = (Err e, w2)" for r w1 w2 e
    using Create_Err [OF assms(1) that] faults_okD [OF assms(2)] by fastforce
  with Cons.prems obtain i t1 t2 where
    rest: "save_rebate_orders svc db suffix orders (insert_row ?T (with_id i (rebate_row order t1 t2)) (bump (bump (bump w)))) = (Ok u, w')"
      (is "_ ?w1 = _")
    by (auto simp: caseE_def gorm_Create_Ok_iff [OF assms(1)] split: prod.splits res.splits if_splits)
  obtain w1 where rest: "save_rebate_orders svc db suffix orders w1 = (Ok u, w')"
    and w1: "tables w1 = (tables w)(?T := tables w ?T @ [with_id i (rebate_row order t1 t2)])"
    using rest by (metis bump_simps(2) insert_row_simps(1))
  from Cons.IH [OF rest] obtain ps where ps: "length ps = length orders"
      "tables w' ?T = tables w1 ?T @ map2 (\<lambda>order (i, t1, t2). with_id i (rebate_row order t1 t2)) orders ps"
      "\<forall>dt. dt \<noteq> ?T \<longrightarrow> tables w' dt = tables w1 dt"
    by (auto simp: rebates_saved_def)
  have "rebates_saved (order # orders) (tables w ?T) (tables w' ?T)"
    unfolding rebates_saved_def using ps w1 by (intro exI [of _ "(i, t1, t2) # ps"]) simp
  with ps(3) w1 show ?case by simp
qed

lemma Publish_store: "keeps store (Publish svc topic ev)"
  using Publish_frame by (metis keeps_def prod.collapse)

lemma NewBaseEvent_store: "keeps store (NewBaseEvent svc d)"
  using NewBaseEvent_Ok by (metis keeps_def snd_conv)

lemma publish_rebates_store: "keeps store (publish_rebates svc tp orders)"
proof (induction orders)
  case Nil
  show ?case unfolding publish_rebates.simps by (rule keeps_ret)
next
  case (Cons order orders)
  then show ?case unfolding publish_rebates.simps PublishSendRebate_def
    by (intro keeps_bindE keeps_ignoreE NewBaseEvent_store Publish_store)
qed

lemma SaveUserRebateOrder_effect:
  assumes "mysql_ok svc uniq" and "faults_ok svc" and "DBStrategy rt userId = Ok (Some db, suffix)"
    and "SaveUserRebateOrder svc tp rt userId agg w = (r, w')"
  defines "T \<equiv> (db, rebate_table suffix)" and "orders \<equiv> br_BehaviorRebateOrders agg"
  shows "(tables w' = tables w \<or>
          rebates_saved orders (tables w T) (tables w' T) \<and> (\<forall>dt. dt \<noteq> T \<longrightarrow> tables w' dt = tables w dt)) \<and>
         (r = Ok () \<longrightarrow> rebates_saved orders (tables w T) (tables w' T))"
proof -
  obtain r1 w1 where tx: "transaction svc (save_rebate_orders svc db suffix orders) w = (r1, w1)" by fastforce
  have st: "store w' = store w1 \<and> (r = Ok () \<longrightarrow> r1 = Ok ())"
    using assms(3,4) tx keepsD [OF publish_rebates_store, of svc tp orders w1]
    by (auto simp: SaveUserRebateOrder_def shard_def bindE_def orders_def split: res.splits)
  have "tables w1 = tables w \<or> (\<exists>w2. save_rebate_orders svc db suffix orders w = (Ok (), w2) \<and> tables w1 = tables w2)"
    using transaction_atomic [OF tx] by auto
  moreover have "r1 = Ok () \<Longrightarrow> \<exists>w2. save_rebate_orders svc db suffix orders w = (Ok (), w2) \<and> tables w1 = tables w2"
    using tx by (auto simp: transaction_Ok_iff)
  ultimately show ?thesis using st save_rebate_orders_Ok [OF assms(1,2), of db suffix orders w "()"] unfolding T_def
    by metis
qed

section \<open>The query by business number\<close>

text \<open>Every order carries the user's id, its rebate type and the business number in \<open>biz_id\<close>.\<close>

definition biz_ids_ok :: "world \<Rightarrow> bool" where
  "biz_ids_ok w \<longleftrightarrow>
     (\<forall>db suffix r. r \<in> set (tables w (db, rebate_table suffix)) \<longrightarrow> is_RRebateOrder r \<longrightarrow>
        (\<exists>ty no. ubr_BizID (the_rebate_order r) = biz_id (ubr_UserID (the_rebate_order r)) ty no))"

definition own_biz_id :: "BehaviorRebateOrder \<Rightarrow> bool" where
  "own_biz_id order \<longleftrightarrow> (\<exists>ty no. bo_BizID order = biz_id (bo_UserID order) ty no)"

lemma rebates_saved_biz_ids:
  assumes "rebates_saved orders rows rows'" and "\<forall>order \<in> set orders. own_biz_id order" and "r \<in> set rows'"
  shows "r \<in> set rows \<or> (\<exists>ty no. ubr_BizID (the_rebate_order r) = biz_id (ubr_UserID (the_rebate_order r)) ty no)"
  using assms by (auto simp: rebates_saved_def own_biz_id_def rebate_row_def dest!: set_zip_leftD) blast

lemma build_rebate_orders_own:
  "build_rebate_orders svc behavior configs w = (Ok orders, w') \<Longrightarrow> \<forall>order \<in> set orders. own_biz_id order"
  by (induction configs arbitrary: orders w w') (auto simp: rebate_order_def own_biz_id_def, blast)

lemma Rebate_CreateOrder_biz_ids:
  assumes "mysql_ok svc uniq" and "faults_ok svc" and "0 < dbs" and "0 < tbs"
    and "Rebate_CreateOrder svc (rebate_repo_of svc tp (NewDBRouter dbs tbs)) behavior w = (Ok ids, w')"
    and "biz_ids_ok w"
  shows "biz_ids_ok w'"
proof -
  let ?rt = "NewDBRouter dbs tbs" and ?uid = "bh_UserID behavior"
  obtain db suffix where db: "DBStrategy ?rt ?uid = Ok (Some db, suffix)"
    using DBStrategy_slot [OF assms(3,4)] by fastforce
  have keep_now: "keeps store (GetSecureRandomInt svc m)" for m
    by (simp add: keeps_def GetSecureRandomInt_def)
  have numeric: "keeps store (RandomNumeric svc n)" for n
    by (induction n) (auto intro!: keeps_rules keep_now simp del: ret_app)
  have build: "keeps store (build_rebate_orders svc behavior configs)" for configs
    by (induction configs) (auto intro!: keeps_rules numeric simp del: ret_app)
  from assms(5) obtain configs w1 where q: "QueryDailyBehaviorRebateConfig svc (bh_BehaviorType behavior) w = (Ok configs, w1)"
    and rest: "configs = [] \<and> w' = w1 \<or> (\<exists>orders w2. build_rebate_orders svc behavior configs w1 = (Ok orders, w2) \<and>
        SaveUserRebateOrder svc tp ?rt ?uid \<lparr>br_UserID = ?uid, br_Behavior = behavior, br_BehaviorRebateOrders = orders\<rparr> w2 = (Ok (), w'))"
    by (auto simp: Rebate_CreateOrder_def rebate_repo_of_def split: if_splits)
  have w1: "tables w1 = tables w"
    using q by (auto simp: QueryDailyBehaviorRebateConfig_def gorm_Find_Ok_iff [OF assms(1)])
  from rest show ?thesis
  proof (elim disjE exE conjE)
    assume "w' = w1"
    with w1 assms(6) show ?thesis by (simp add: biz_ids_ok_def)
  next
    fix orders w2
    assume b: "build_rebate_orders svc behavior configs w1 = (Ok orders, w2)"
      and s: "SaveUserRebateOrder svc tp ?rt ?uid \<lparr>br_UserID = ?uid, br_Behavior = behavior, br_BehaviorRebateOrders = orders\<rparr> w2 = (Ok (), w')"
    have w2: "tables w2 = tables w" using keepsD [OF build b] w1 by simp
    show ?thesis
      using SaveUserRebateOrder_effect [OF assms(1,2) db s] assms(6) w2
        rebates_saved_biz_ids [OF _ build_rebate_orders_own [OF b]]
      unfolding biz_ids_ok_def by simp metis
  qed
qed

text \<open>A text of digits starts such an id only if it starts the user's id.\<close>

lemma digits_prefix_biz_id:
  assumes "CHR ''_'' \<notin> set d"
  shows "take (length d) (biz_id uid ty no) = d \<longleftrightarrow> take (length d) uid = d"
proof (cases "length uid < length d")
  case True
  then obtain k where "length d - length uid = Suc k" by (metis Suc_diff_Suc)
  then have "CHR ''_'' \<in> set (take (length d) (biz_id uid ty no))" by (simp add: biz_id_def)
  then have "take (length d) (biz_id uid ty no) \<noteq> d" using assms by metis
  moreover have "take (length d) uid \<noteq> d" using True by (metis length_take min.strict_order_iff min.commute)
  ultimately show ?thesis by simp
qed (simp add: biz_id_def)

lemma QueryUserRebateOrder_none:
  assumes "mysql_ok svc uniq" and "biz_ids_ok w" and "set d \<inter> {CHR 0x25, CHR 0x5C, CHR ''_''} = {}"
    and "take (length d) uid \<noteq> d" and "QueryUserRebateOrder svc rt uid d w = (Ok orders, w')"
  shows "orders = []"
proof -
  have "\<not> rebate_of uid d r" if "r \<in> set (tables w (db, rebate_table suffix))" for r db suffix
  proof
    assume "rebate_of uid d r"
    then have r: "is_RRebateOrder r" "ubr_UserID (the_rebate_order r) = uid" "take (length d) (ubr_BizID (the_rebate_order r)) = d"
      by (auto simp: rebate_of_def like_prefix [OF assms(3)])
    with assms(2) that obtain ty no where "ubr_BizID (the_rebate_order r) = biz_id uid ty no"
      unfolding biz_ids_ok_def by blast
    with r(3) digits_prefix_biz_id [of d uid ty no] assms(3,4) show False by auto
  qed
  then show ?thesis
    using assms(5)
    by (auto simp: QueryUserRebateOrder_def gorm_Find_Ok_iff [OF assms(1)] filter_empty_conv shard_def deref_def
        split: option.splits)
qed

end
