(* ===== verification/Delivery.thy ===== *)
theory Delivery
  imports Recharge Raffle Rebate
begin

text \<open>
  What runs in the background: the listeners of \<open>internal/listener\<close> behind the consumer loop of
  \<open>internal/server/rabbitmq_server.go\<close>, and the stock jobs of \<open>internal/job\<close> behind the task
  server of \<open>internal/server/asynq.go\<close>. A listener returns the pair \<open>(retry, err)\<close>.
\<close>

type_synonym listener = "string \<Rightarrow> (bool \<times> gerr option) M"

section \<open>Listeners\<close>

text \<open>Both calls of \<open>ActivityStockListener.Handle\<close>; an error asks for a retry.\<close>

definition clear_stock :: "quota_repo \<Rightarrow> int \<Rightarrow> (bool \<times> gerr option) M" where
  "clear_stock repo sku =
     caseE (Quota_ClearActivitySkuStock repo sku) (\<lambda>e. ret (True, Some e)) (\<lambda>_.
     caseE (Quota_ClearQueueValue repo) (\<lambda>e. ret (True, Some e)) (\<lambda>_.
     ret (False, None)))"

definition ActivityStockListener :: "services \<Rightarrow> quota_repo \<Rightarrow> listener" where
  "ActivityStockListener svc repo body =
     caseE (liftR (js_Event_dec svc body))
       (\<lambda>e. ret (False, Some (Wrap ''unmarshal failed'' e)))
       (\<lambda>req. case ev_Data req of
                EJson (JNumber v) \<Rightarrow> clear_stock repo (to_int v)
              | EInt v \<Rightarrow> clear_stock repo v
              | _ \<Rightarrow> ret (False, Some (GoErr ''invalid data type for sku'')))"

definition AwardSendListener :: listener where
  "AwardSendListener body = ret (False, None)"

definition RebateListener :: "services \<Rightarrow> quota_repo \<Rightarrow> listener" where
  "RebateListener svc repo body =
     caseE (liftR (js_RebateEvent_dec svc body))
       (\<lambda>e. ret (False, Some (Wrap ''unmarshal failed'' e)))
       (\<lambda>rebateMsg.
          if rm_RebateType rebateMsg = RebateTypeSku then
            (case ParseInt (rm_RebateConfig rebateMsg) of
               Ok sku \<Rightarrow>
                 caseE (CreateRaffleActivityOrder svc repo
                          \<lparr>sk_UserID = rm_UserID rebateMsg, sk_Sku = sku, sk_OutBusinessNo = rm_BizID rebateMsg\<rparr>)
                   (\<lambda>e. if errors_Is e ErrDBIndexDuplicate then ret (False, None) else ret (True, Some e))
                   (\<lambda>orderID. ret (False, None))
             | _ \<Rightarrow> ret (False, None))
          else ret (False, None))"

text \<open>\<open>json.Marshal\<close> of the dynamic type of \<open>Data\<close>.\<close>

definition marshal_data :: "services \<Rightarrow> event_data \<Rightarrow> string res" where
  "marshal_data svc d =
     (case d of
        EInt n \<Rightarrow> enc int_codec n
      | EJson v \<Rightarrow> enc (js_Any svc) v
      | EPartake p \<Rightarrow> enc (js_Partake svc) p
      | ERebate m \<Rightarrow> enc (js_Rebate svc) m
      | ESaveOrder m \<Rightarrow> enc (js_SaveOrder svc) m
      | EAward m \<Rightarrow> enc (js_SendAward svc) m)"

definition SaveOrderListener :: "services \<Rightarrow> partake_repo \<Rightarrow> listener" where
  "SaveOrderListener svc repo body =
     caseE (liftR (js_Event_dec svc body))
       (\<lambda>e. ret (False, Some (Wrap ''unmarshal failed'' e))) (\<lambda>req.
     caseE (liftR (marshal_data svc (ev_Data req)))
       (\<lambda>e. ret (False, Some (Wrap ''marshal data failed'' e))) (\<lambda>dataBytes.
     caseE (liftR (dec (js_Partake svc) dataBytes))
       (\<lambda>e. ret (False, Some (Wrap ''unmarshal aggregate failed'' e))) (\<lambda>aggregate.
     caseE (SaveOrderRecord repo aggregate)
       (\<lambda>e. ret (True, Some e))
       (\<lambda>_. ret (False, None)))))"

section \<open>The consumer\<close>

text \<open>What \<open>handle\<close> answers the broker: \<open>Ack\<close>, \<open>Nack\<close> with requeue or \<open>Reject\<close>. A panic of the
  listener is recovered and the message goes back into the queue.\<close>

datatype verdict = Ack | NackRequeue | Reject

definition handle_delivery :: "listener \<Rightarrow> string \<Rightarrow> world \<Rightarrow> verdict \<times> world" where
  "handle_delivery l body w =
     (case l body w of
        (Ok (retry, Some e), w') \<Rightarrow> (if retry then NackRequeue else Reject, w')
      | (Ok (retry, None), w') \<Rightarrow> (Ack, w')
      | (Err e, w') \<Rightarrow> (Reject, w')
      | (Panic s, w') \<Rightarrow> (NackRequeue, w'))"

fun handle :: "listener \<Rightarrow> string list \<Rightarrow> world \<Rightarrow> verdict list \<times> world" where
  "handle l [] w = ([], w)"
| "handle l (d # ds) w =
     (let (v, w') = handle_delivery l d w; (vs, w'') = handle l ds w' in (v # vs, w''))"

definition RegisterListener :: "string \<Rightarrow> listener \<Rightarrow> (string \<rightharpoonup> listener) \<Rightarrow> (string \<rightharpoonup> listener)" where
  "RegisterListener topic l ls = ls(topic \<mapsto> l)"

definition NewRabbitMQServer :: "listener \<Rightarrow> listener \<Rightarrow> listener \<Rightarrow> (string \<rightharpoonup> listener)" where
  "NewRabbitMQServer stockListener rebateListener saveOrderListener =
     RegisterListener SaveOrderRecordTopic saveOrderListener
       (RegisterListener ActivityAwardSendTopic rebateListener
         (RegisterListener ActivitySkuStockZeroTopic stockListener Map.empty))"

section \<open>Jobs\<close>

definition ActivitySkuStockConsumeJob :: "services \<Rightarrow> quota_repo \<Rightarrow> string \<Rightarrow> unit M" where
  "ActivitySkuStockConsumeJob svc repo payload =
     caseE (liftR (dec (js_SkuStockKey svc) payload))
       (\<lambda>e. fail (Wrap ''failed to unmarshal payload'' e))
       (\<lambda>skuStockKey.
     caseE (Quota_UpdateActivitySkuStock repo (ssk_Sku skuStockKey))
       (\<lambda>e. fail (Wrap ''failed to update activity sku stock'' e)) ret)"

text \<open>\<open>fmt.Errorf("json.Unmarshal failed: %v: %w", err, asynq.SkipRetry)\<close>: only \<open>SkipRetry\<close> is wrapped.\<close>

definition StrategyAwardStockConsumeJob :: "services \<Rightarrow> strategy_repo \<Rightarrow> string \<Rightarrow> unit M" where
  "StrategyAwardStockConsumeJob svc repo payload =
     caseE (liftR (dec (js_StockConsume svc) payload))
       (\<lambda>_. fail (Wrap ''json.Unmarshal failed'' SkipRetry))
       (\<lambda>msg. usecase_UpdateStrategyAwardStock repo (asm_StrategyID msg) (asm_AwardID msg))"

section \<open>The task server\<close>

definition wrapAsynqHandler :: "services \<Rightarrow> string \<Rightarrow> (string \<Rightarrow> unit M) \<Rightarrow> string \<Rightarrow> unit M" where
  "wrapAsynqHandler svc taskType handler payload =
     bindE (now svc) (\<lambda>start.
     caseE (handler payload)
       (\<lambda>e. bindE (now svc) (\<lambda>t. bindE (ObserveAsynqTaskDuration taskType (t - start)) (\<lambda>_. fail e)))
       (\<lambda>_. bindE (now svc) (\<lambda>t. bindE (ObserveAsynqTaskDuration taskType (t - start)) (\<lambda>_.
            IncAsynqTask taskType ''success''))))"

definition asynqTaskResult :: "gerr \<Rightarrow> string" where
  "asynqTaskResult err = (if errors_Is err SkipRetry then ''skip_retry'' else ''error'')"

text \<open>The queues of \<open>asynq.Config\<close> with their weights.\<close>

definition asynq_queues :: "string \<rightharpoonup> nat" where
  "asynq_queues = [TaskTypeActivitySkuStockConsume \<mapsto> 6, ''default'' \<mapsto> 3, ''low'' \<mapsto> 1]"

section \<open>A recharge by rebate is booked once, but its second delivery is never acknowledged\<close>

text \<open>Recharging again under a business number that is booked already does not succeed.\<close>

lemma recharge_again:
  assumes ok: "mysql_ok svc uniq" "0 < dbs" "0 < tbs" and "unique_business_no uniq"
    and "recharge_booked (tp, svc, dbs, tbs, uniq) q w0 w" and "order_for rech q"
    and run: "CreateRaffleActivityOrder svc (quota_repo_of svc tp (NewDBRouter dbs tbs)) rech w1 = (r, w2)"
    and "tables w1 = tables w" and "faults_ok svc"
  shows "tables w2 = tables w1 \<and> (\<forall>oid. r \<noteq> Ok oid)"
proof -
  let ?c = "(tp, svc, dbs, tbs, uniq)" and ?rt = "NewDBRouter dbs tbs"
  have dep: "(\<lambda>(tp, d). deployment_ok d) ?c" using ok assms(9) by (simp add: deployment_ok_def)
  have eq: "CreateRaffleActivityOrder svc (quota_repo_of svc tp ?rt) rech =
      bindE (rr.prepare svc ?c rech) (\<lambda>q. bindE (SaveOrder svc ?rt q) (\<lambda>_. ret (ao_OrderID (cq_ActivityOrder q))))"
    using rr.recharge_prepare [of svc ?c rech] by (simp add: deployed_quota_repo_def quota_repo_of_def)
  obtain db suffix where db: "DBStrategy ?rt (cq_UserID q) = Ok (Some db, suffix)"
    and b: "order_booked (svc_zone svc) db suffix q w0 w"
    using assms(5) by (auto simp: recharge_booked_def)
  obtain rp w3 where p: "rr.prepare svc ?c rech w1 = (rp, w3)" by fastforce
  have t: "tables w3 = tables w1" by (rule keepsD [OF rr.prepare_tables [OF dep] p])
  show ?thesis
  proof (cases rp)
    case (Ok q2)
    obtain rs w4 where s: "SaveOrder svc ?rt q2 w3 = (rs, w4)" by fastforce
    have of: "order_for rech q2" using rr.prepare_order_for p Ok by blast
    then have same: "cq_UserID q2 = cq_UserID q" "ao_OutBusinessNo (cq_ActivityOrder q2) = ao_OutBusinessNo (cq_ActivityOrder q)"
      using assms(6) by (simp_all add: order_for_def)
    have "tables w4 = tables w3 \<and> rs \<noteq> Ok ()"
      using SaveOrder_refused [where uniq = uniq and q = q2 and rt = ?rt and db = db and suffix = suffix and w = w3,
          OF ok(1) _ _ s] db same booked_then_refused [OF b assms(4) same(2)] t assms(8) by simp
    then show ?thesis
      using run p Ok s t by (cases rs) (auto simp: eq bindE_def)
  qed (use run p t in \<open>auto simp: eq bindE_def\<close>)
qed

lemma RebateListener_runs:
  assumes "js_RebateEvent_dec svc body = Ok m" and "rm_RebateType m = RebateTypeSku" and "ParseInt (rm_RebateConfig m) = Ok sku"
    and "CreateRaffleActivityOrder svc repo
           \<lparr>sk_UserID = rm_UserID m, sk_Sku = sku, sk_OutBusinessNo = rm_BizID m\<rparr> w = (r, w')"
  shows "handle_delivery (RebateListener svc repo) body w =
     (case r of
        Ok oid \<Rightarrow> (Ack, w')
      | Err e \<Rightarrow> (if errors_Is e ErrDBIndexDuplicate then Ack else NackRequeue, w')
      | Panic s \<Rightarrow> (NackRequeue, w'))"
  using assms
  by (cases r) (auto simp: handle_delivery_def RebateListener_def caseE_def)

text \<open>The broker may deliver a message twice. The account is credited once; a second delivery changes
  no table and is put back into the queue unless the error is \<open>ErrDBIndexDuplicate\<close>, which \<open>SaveOrder\<close>
  does not return for the error of the driver.\<close>

lemma rebate_delivered_twice:
  assumes "mysql_ok svc uniq" and "faults_ok svc" and "0 < dbs" and "0 < tbs" and "unique_business_no uniq"
    and msg: "js_RebateEvent_dec svc body = Ok m" "rm_RebateType m = RebateTypeSku" "ParseInt (rm_RebateConfig m) = Ok sku"
    and l_def: "l = RebateListener svc (quota_repo_of svc tp (NewDBRouter dbs tbs))"
    and first: "CreateRaffleActivityOrder svc (quota_repo_of svc tp (NewDBRouter dbs tbs))
           \<lparr>sk_UserID = rm_UserID m, sk_Sku = sku, sk_OutBusinessNo = rm_BizID m\<rparr> w = (Ok oid, w1)"
    and second: "handle_delivery l body w1 = (v, w2)"
  shows "handle_delivery l body w = (Ack, w1) \<and> tables w2 = tables w1"
proof
  let ?c = "(tp, svc, dbs, tbs, uniq)" and ?rech = "\<lparr>sk_UserID = rm_UserID m, sk_Sku = sku, sk_OutBusinessNo = rm_BizID m\<rparr>"
  show "handle_delivery l body w = (Ack, w1)" unfolding l_def using RebateListener_runs [OF msg first] by simp
  from rr.recharge_books [of ?c svc ?rech w "Ok oid" w1] assms(1-4) first obtain q w0 where
    "order_for ?rech q" "recharge_booked ?c q w0 w1"
    by (auto simp: deployed_quota_repo_def deployment_ok_def)
  moreover obtain r w3 where run: "CreateRaffleActivityOrder svc (quota_repo_of svc tp (NewDBRouter dbs tbs)) ?rech w1 = (r, w3)"
    by fastforce
  ultimately have "tables w3 = tables w1"
    using recharge_again [OF assms(1,3,4,5), of tp q w0 w1 ?rech w1 r w3] assms(2) by simp
  moreover have "w2 = w3" using second RebateListener_runs [OF msg run] unfolding l_def by (auto split: res.splits)
  ultimately show "tables w2 = tables w1" by simp
qed

text \<open>
  The topics of \<open>configs/config.yaml\<close> to which the publisher writes, and the queues into which the
  stock tasks are put, have no consumer.
\<close>

lemma no_listener_for_configured_topics:
  "NewRabbitMQServer a b c ''send_rebate'' = None" "NewRabbitMQServer a b c ''send_award'' = None"
  "NewRabbitMQServer a b c ''activity_sku_stock_zero'' = None"
  by (simp_all add: NewRabbitMQServer_def RegisterListener_def SaveOrderRecordTopic_def ActivityAwardSendTopic_def
      ActivitySkuStockZeroTopic_def)

lemma no_server_for_stock_queues:
  "asynq_queues QueueNameSkuStock = None" "asynq_queues ''critical'' = None"
  by (simp_all add: asynq_queues_def QueueNameSkuStock_def TaskTypeActivitySkuStockConsume_def)

text \<open>A payload that cannot be decoded is not retried; every other failure of that job is.\<close>

lemma StrategyAwardStockConsumeJob_bad_payload:
  "dec (js_StockConsume svc) payload = Err e \<Longrightarrow>
   StrategyAwardStockConsumeJob svc repo payload w = (Err e', w') \<Longrightarrow> asynqTaskResult e' = ''skip_retry'' \<and> w' = w"
  by (auto simp: StrategyAwardStockConsumeJob_def caseE_def asynqTaskResult_def)

end
