(* ===== verification/Service.thy ===== *)
theory Service
  imports Delivery Draw
begin

text \<open>
  \<open>internal/service\<close>: the handlers of the API. They check their parameters, call the use cases and
  convert what these return. The draw composes the three use cases of a raffle: taking part, the
  raffle and the award ledger.
\<close>

unbundle bit_operations_syntax

definition BadRequest :: "string \<Rightarrow> gerr" where
  "BadRequest reason = KErr 400 reason None"

text \<open>\<open>int32(x)\<close> keeps the low 32 bits.\<close>

definition int32 :: "int \<Rightarrow> int" where
  "int32 n = signed_take_bit 31 n"

section \<open>service/activity.go\<close>

definition RaffleActivityArmory :: "services \<Rightarrow> quota_repo \<Rightarrow> strategy_repo \<Rightarrow> int \<Rightarrow> bool M" where
  "RaffleActivityArmory svc qrepo srepo aid =
     (if aid \<le> 0 then fail (BadRequest ''INVALID_ACTIVITY_ID'')
      else
        bindE (assembleActivitySkuByActivityId qrepo aid) (\<lambda>activityReady.
        if \<not> activityReady then ret False
        else AssembleLotteryStrategyByActivityId svc srepo aid))"

record DrawReply =
  dr_AwardId :: int
  dr_AwardTitle :: string
  dr_AwardIndex :: int

definition draw_reply :: "RaffleAward \<Rightarrow> DrawReply" where
  "draw_reply a = \<lparr>dr_AwardId = ra_AwardID a, dr_AwardTitle = ra_AwardTitle a, dr_AwardIndex = int32 (ra_Sort a)\<rparr>"

definition award_of_draw :: "string \<Rightarrow> int \<Rightarrow> UserRaffleOrder \<Rightarrow> RaffleAward \<Rightarrow> time \<Rightarrow> UserAwardRecord" where
  "award_of_draw uid aid order a t =
     \<lparr>ua_UserID = uid, ua_ActivityID = aid, ua_StrategyID = ur_StrategyID order, ua_OrderID = ur_OrderID order,
      ua_AwardID = ra_AwardID a, ua_AwardTitle = ra_AwardTitle a, ua_AwardTime = t, ua_AwardState = AwardStateCreate\<rparr>"

definition Service_Draw ::
    "services \<Rightarrow> partake_repo \<Rightarrow> strategy_repo \<Rightarrow> (UserAwardTaskInfo \<Rightarrow> unit M) \<Rightarrow> string \<Rightarrow> int \<Rightarrow> DrawReply D" where
  "Service_Draw svc prepo srepo arepo uid aid =
     (if uid = '''' \<or> aid \<le> 0 then always (fail (BadRequest ''INVALID_DRAW_PARAMS''))
      else
        bindD (CreateOrder svc prepo \<lparr>pr_UserID = uid, pr_ActivityID = aid\<rparr>) (\<lambda>agg.
        bindD (deref (cp_UserRaffleOrder agg)) (\<lambda>userRaffleOrder.
        thenD (PerformRaffle svc srepo
                 \<lparr>rf_ActivityID = aid, rf_UserID = uid, rf_StrategyID = ur_StrategyID userRaffleOrder\<rparr>) (\<lambda>raffleAward.
        bindE (now svc) (\<lambda>t.
        bindE (AwardUsecase_SaveUserAwardRecord svc arepo (award_of_draw uid aid userRaffleOrder raffleAward t)) (\<lambda>_.
        ret (draw_reply raffleAward)))))))"

definition CalendarSignRebate :: "services \<Rightarrow> rebate_repo \<Rightarrow> string \<Rightarrow> bool M" where
  "CalendarSignRebate svc repo uid =
     (if uid = '''' then fail (BadRequest ''INVALID_USER_ID'')
      else
        bindE (now svc) (\<lambda>t.
        bindE (Rebate_CreateOrder svc repo
                 \<lparr>bh_UserID = uid, bh_BehaviorType = BehaviorSign, bh_OutBusinessNo = fmt_compact_day (svc_zone svc) t\<rparr>) (\<lambda>_.
        ret True)))"

definition IsCalendarSignRebate :: "services \<Rightarrow> rebate_repo \<Rightarrow> string \<Rightarrow> bool M" where
  "IsCalendarSignRebate svc repo uid =
     (if uid = '''' then fail (BadRequest ''INVALID_USER_ID'')
      else
        bindE (now svc) (\<lambda>t.
        bindE (QueryOrderByOutBusinessNo repo uid (fmt_compact_day (svc_zone svc) t)) (\<lambda>orders.
        ret (orders \<noteq> []))))"

record AccountReply =
  ar_ActivityId :: int
  ar_TotalCount :: int
  ar_TotalCountSurplus :: int
  ar_DayCount :: int
  ar_DayCountSurplus :: int
  ar_MonthCount :: int
  ar_MonthCountSurplus :: int

definition QueryUserActivityAccount :: "quota_repo \<Rightarrow> string \<Rightarrow> int \<Rightarrow> AccountReply M" where
  "QueryUserActivityAccount repo uid aid =
     (if uid = '''' \<or> aid \<le> 0 then fail (BadRequest ''INVALID_ACCOUNT_QUERY_PARAMS'')
      else
        bindE (Quota_QueryActivityAccountEntity repo uid aid) (\<lambda>account.
        ret \<lparr>ar_ActivityId = aa_ActivityID account, ar_TotalCount = aa_TotalCount account,
             ar_TotalCountSurplus = aa_TotalCountSurplus account, ar_DayCount = aa_DayCount account,
             ar_DayCountSurplus = aa_DayCountSurplus account, ar_MonthCount = aa_MonthCount account,
             ar_MonthCountSurplus = aa_MonthCountSurplus account\<rparr>))"

definition LoadUserActivityAccount :: "quota_repo \<Rightarrow> string \<Rightarrow> int \<Rightarrow> bool M" where
  "LoadUserActivityAccount repo uid aid =
     (if uid = '''' \<or> aid \<le> 0 then fail (BadRequest ''INVALID_ACCOUNT_LOAD_PARAMS'')
      else bindE (Quota_AssembleAccountByUserId repo uid aid) (\<lambda>_. ret True))"

section \<open>service/strategy.go\<close>

definition StrategyArmory :: "services \<Rightarrow> strategy_repo \<Rightarrow> int \<Rightarrow> bool M" where
  "StrategyArmory svc repo sid =
     (if sid \<le> 0 then fail (BadRequest ''INVALID_STRATEGY_ID'') else AssembleLotteryStrategy svc repo sid)"

record RaffleAwardReply =
  rr_AwardId :: int
  rr_AwardTitle :: string
  rr_AwardSubtitle :: string
  rr_Sort :: int

definition QueryRaffleAwardList :: "strategy_repo \<Rightarrow> int \<Rightarrow> RaffleAwardReply list M" where
  "QueryRaffleAwardList repo sid =
     (if sid \<le> 0 then fail (BadRequest ''INVALID_STRATEGY_ID'')
      else
        bindE (usecase_QueryStrategyAwardList repo sid) (\<lambda>awards.
        ret (map (\<lambda>a. \<lparr>rr_AwardId = sa_AwardID a, rr_AwardTitle = sa_AwardTitle a,
                       rr_AwardSubtitle = sa_AwardSubtitle a, rr_Sort = int32 (sa_Sort a)\<rparr>) awards)))"

definition RandomRaffle :: "services \<Rightarrow> strategy_repo \<Rightarrow> int \<Rightarrow> string \<Rightarrow> DrawReply D" where
  "RandomRaffle svc repo sid uid =
     (if sid \<le> 0 \<or> uid = '''' then always (fail (BadRequest ''INVALID_RAFFLE_PARAMS''))
      else thenD (PerformRaffle svc repo \<lparr>rf_ActivityID = 0, rf_UserID = uid, rf_StrategyID = sid\<rparr>)
             (\<lambda>a. ret (draw_reply a)))"

record RuleWeightResponse =
  rw_RuleWeightCount :: int
  rw_TotalUseCount :: int
  rw_StrategyAwards :: "(int \<times> string) list"

definition QueryRaffleStrategyRuleWeight ::
    "strategy_repo \<Rightarrow> quota_repo \<Rightarrow> int \<Rightarrow> string \<Rightarrow> RuleWeightResponse list M" where
  "QueryRaffleStrategyRuleWeight srepo qrepo aid uid =
     (if aid \<le> 0 \<or> uid = '''' then fail (BadRequest ''INVALID_RULE_WEIGHT_PARAMS'')
      else
        bindE (usecase_QueryAwardRuleWeight srepo aid) (\<lambda>buckets.
        bindE (Quota_QueryPartakeCount qrepo uid aid) (\<lambda>totalUseCount.
        ret (map (\<lambda>b. \<lparr>rw_RuleWeightCount = wb_Weight b, rw_TotalUseCount = totalUseCount,
                       rw_StrategyAwards = map (\<lambda>a. (aw_AwardId a, aw_AwardTitle a)) (wb_AwardList b)\<rparr>) buckets))))"

section \<open>A draw is in the ledger\<close>

text \<open>
  C6. What a successful draw leaves behind, for any repositories of the activity and the
  strategy: the reply is the award of the raffle that was run for the order of \<open>CreateOrder\<close>, and the
  ledger of the user's shard has gained exactly this award for this order, with its task and the order
  marked used; unless the order had its award already, in which case the ledger is unchanged.
\<close>

theorem draw_is_recorded:
  assumes "mysql_ok asvc uniq" and "faults_ok asvc" and "award_index uniq"
    and "DBStrategy rt uid = Ok (Some db, suffix)"
    and "Service_Draw svc prepo srepo (SaveUserAwardRecord asvc rt) uid aid w = Some (Ok reply, w')"
  shows "\<exists>agg order w1 award w2 mid t w3.
     CreateOrder svc prepo \<lparr>pr_UserID = uid, pr_ActivityID = aid\<rparr> w = (Ok agg, w1) \<and>
     cp_UserRaffleOrder agg = Some order \<and>
     PerformRaffle svc srepo \<lparr>rf_ActivityID = aid, rf_UserID = uid, rf_StrategyID = ur_StrategyID order\<rparr> w1 = Some (Ok award, w2) \<and>
     reply = draw_reply award \<and> tables w3 = tables w2 \<and>
     (award_recorded asvc db suffix (award_aggregate mid (award_of_draw uid aid order award t)) w3 w' \<or>
      tables w' = tables w2 \<and> ur_OrderID order \<in> set (awarded (tables w2 (db, award_table suffix))))"
proof -
  from assms(5) obtain agg w1 order award w2 where
    c: "CreateOrder svc prepo \<lparr>pr_UserID = uid, pr_ActivityID = aid\<rparr> w = (Ok agg, w1)" "cp_UserRaffleOrder agg = Some order"
    and p: "PerformRaffle svc srepo \<lparr>rf_ActivityID = aid, rf_UserID = uid, rf_StrategyID = ur_StrategyID order\<rparr> w1 = Some (Ok award, w2)"
    and rest: "AwardUsecase_SaveUserAwardRecord svc (SaveUserAwardRecord asvc rt)
        (award_of_draw uid aid order award (svc_clock svc (tick w2))) (bump w2) = (Ok (), w')"
    and reply: "reply = draw_reply award"
    by (auto simp: Service_Draw_def always_def bindD_Ok_iff thenD_Ok_iff deref_def split: if_splits option.splits)
  let ?rec = "award_of_draw uid aid order award (svc_clock svc (tick w2))"
  from rest obtain ev w3 where e: "NewBaseEvent svc (EAward \<lparr>sm_UserID = ua_UserID ?rec, sm_AwardID = ua_AwardID ?rec,
        sm_AwardTitle = ua_AwardTitle ?rec\<rparr>) (bump w2) = (Ok ev, w3)"
    and s: "SaveUserAwardRecord asvc rt (award_aggregate (ev_ID ev) ?rec) w3 = (Ok (), w')"
    by (auto simp: AwardUsecase_SaveUserAwardRecord_def)
  have w3: "tables w3 = tables w2" using keepsD [OF NewBaseEvent_store e] by simp
  have rec: "ti_UserAwardRecord (award_aggregate (ev_ID ev) ?rec) = ?rec" "ua_UserID ?rec = uid" "ua_OrderID ?rec = ur_OrderID order"
    by (simp_all add: award_aggregate_def award_of_draw_def)
  have "award_recorded asvc db suffix (award_aggregate (ev_ID ev) ?rec) w3 w' \<or>
      tables w' = tables w2 \<and> ur_OrderID order \<in> set (awarded (tables w2 (db, award_table suffix)))"
    using SaveUserAwardRecord_effect [OF assms(1,2) _ s] assms(4) rec award_present_iff [OF assms(3)] w3 by auto
  with c p reply w3 show ?thesis by blast
qed

definition draw_svc :: services where
  "draw_svc = (sample_svc order_index)
     \<lparr>js_SendAward := single_codec \<lparr>sm_UserID = ''e'', sm_AwardID = 101, sm_AwardTitle = ''award''\<rparr>
        \<lparr>sm_UserID = '''', sm_AwardID = 0, sm_AwardTitle = ''''\<rparr>\<rparr>"

lemma draw_svc_ok [simp]:
  "redis_ok draw_svc" "mysql_ok draw_svc order_index" "no_faults draw_svc" "faults_ok draw_svc"
  "svc_fault draw_svc n = NoFault"
  "enc (js_SendAward draw_svc) \<lparr>sm_UserID = ''e'', sm_AwardID = 101, sm_AwardTitle = ''award''\<rparr> = Ok ''{}''"
  by (simp_all add: draw_svc_def redis_ok_def mysql_ok_def sample_svc_def no_faults_def faults_ok_def
      fault_error_def single_codec_def)

lemma order_index_task [simp]: "\<not> order_index t x (task_row_of k)"
  by (simp add: order_index_def task_row_of_def)

lemma draw_saves:
  "fst (SaveUserAwardRecord draw_svc (NewDBRouter 2 4) (award_aggregate mid
      (award_of_draw ''e'' 1 order \<lparr>ra_AwardID = 101, ra_AwardTitle = ''award'', ra_Sort = 1\<rparr> t)) w) = Ok ()"
  by (simp add: SaveUserAwardRecord_def defer_award_metric_def save_award_def convertToUserAwardRecordPO_def
      convertToTaskPO_def shard_def bindE_def caseE_def ignoreE_def Let_def award_of_draw_def award_aggregate_def
      sample_shard served [OF draw_svc_ok(2,3)] award_tx_def Delete_def local_Del_def myCache_def redis_served)

lemma draw_runs:
  "\<exists>w'. Service_Draw warm_svc (activity_repo warm_svc (NewDBRouter 2 4)) (tree_repo True)
      (SaveUserAwardRecord draw_svc (NewDBRouter 2 4)) ''e'' 1 warm_world =
    Some (Ok \<lparr>dr_AwardId = 101, dr_AwardTitle = ''award'', dr_AwardIndex = 1\<rparr>, w')"
proof -
  let ?rt = "NewDBRouter 2 4" and ?a = "\<lparr>ra_AwardID = 101, ra_AwardTitle = ''award'', ra_Sort = 1\<rparr>"
  obtain agg w1 where c: "CreateOrder warm_svc (activity_repo warm_svc ?rt) \<lparr>pr_UserID = ''e'', pr_ActivityID = 1\<rparr> warm_world = (Ok agg, w1)"
    using warm_run by blast
  obtain order where o: "cp_UserRaffleOrder agg = Some order"
    using ar.CreateOrder_owner [of warm_svc "(warm_svc, 2, 4, \<lambda>_ _ _. False)" _ warm_world agg w1] c by (auto simp: deployed_repo_def)
  have secure: "svc_secure_int warm_svc = (\<lambda>_ m. Ok 0)" by (simp add: warm_svc_def sample_svc_def)
  obtain w2 where p: "PerformRaffle warm_svc (tree_repo True) \<lparr>rf_ActivityID = 1, rf_UserID = ''e'', rf_StrategyID = ur_StrategyID order\<rparr> w1 = Some (Ok ?a, w2)"
    using demo_raffle [OF secure, of True] by auto
  obtain ev w3 where e: "NewBaseEvent warm_svc (EAward \<lparr>sm_UserID = ''e'', sm_AwardID = 101, sm_AwardTitle = ''award''\<rparr>) (bump w2) = (Ok ev, w3)"
    using NewBaseEvent_Ok by blast
  obtain w4 where s: "SaveUserAwardRecord draw_svc ?rt (award_aggregate (ev_ID ev)
      (award_of_draw ''e'' 1 order ?a (svc_clock warm_svc (tick w2)))) w3 = (Ok (), w4)"
    using draw_saves by (metis prod.collapse)
  have "AwardUsecase_SaveUserAwardRecord warm_svc (SaveUserAwardRecord draw_svc ?rt)
      (award_of_draw ''e'' 1 order ?a (svc_clock warm_svc (tick w2))) (bump w2) = (Ok (), w4)"
    unfolding AwardUsecase_SaveUserAwardRecord_def by (subst bindE_eval [where x = ev and w' = w3])
      (use e s in \<open>simp_all add: award_of_draw_def\<close>)
  then show ?thesis
    using c o p by (simp add: Service_Draw_def bindD_def thenD_def draw_reply_def int32_def bindE_def)
qed

theorem draw_is_recorded_witness:
  "\<exists>order award w' t. \<exists>w2 w3 mid. draw_reply award = \<lparr>dr_AwardId = 101, dr_AwardTitle = ''award'', dr_AwardIndex = 1\<rparr> \<and>
     (award_recorded draw_svc ''01'' ''002'' (award_aggregate mid (award_of_draw ''e'' 1 order award t)) w3 w' \<or>
      tables w' = tables w2 \<and> ur_OrderID (order :: UserRaffleOrder) \<in> set (awarded (tables w2 (''01'', award_table ''002''))))"
proof -
  obtain w' where run: "Service_Draw warm_svc (activity_repo warm_svc (NewDBRouter 2 4)) (tree_repo True)
      (SaveUserAwardRecord draw_svc (NewDBRouter 2 4)) ''e'' 1 warm_world =
    Some (Ok \<lparr>dr_AwardId = 101, dr_AwardTitle = ''award'', dr_AwardIndex = 1\<rparr>, w')"
    using draw_runs by blast
  from draw_is_recorded [OF draw_svc_ok(2,4) award_svc_ok(6) sample_shard run] show ?thesis by metis
qed

section \<open>The sign-in of today is never found\<close>

lemma digits_plain: "c \<in> set (fmt0 n k) \<Longrightarrow> c \<notin> {CHR 0x25, CHR 0x5C, CHR ''_''}"
  using digit_val_digits [of k c] digit_val_digits [of "- k" c]
  by (auto simp: fmt0_def pad0_def digit_val_def split: if_splits)

lemma day_plain: "set (fmt_compact_day z t) \<inter> {CHR 0x25, CHR 0x5C, CHR ''_''} = {}"
  using digits_plain by (fastforce simp: fmt_compact_day_def split: prod.splits)

text \<open>
  C22. \<open>IsCalendarSignRebate\<close> looks for orders whose \<open>biz_id\<close> starts with the date, but
  \<open>CreateOrder\<close> writes ids that start with the user: after a sign-in that succeeded, and from then on,
  it answers that the user has not signed in, for every user whose id does not itself start with the
  date.
\<close>

theorem sign_in_is_not_found:
  assumes "mysql_ok svc uniq" and "faults_ok svc" and "0 < dbs" and "0 < tbs" and "biz_ids_ok w"
    and "CalendarSignRebate svc (rebate_repo_of svc tp (NewDBRouter dbs tbs)) uid w = (Ok success, w1)"
    and "IsCalendarSignRebate svc (rebate_repo_of svc tp (NewDBRouter dbs tbs)) uid w1 = (Ok isSigned, w2)"
    and "\<forall>t. take (length (fmt_compact_day (svc_zone svc) t)) uid \<noteq> fmt_compact_day (svc_zone svc) t"
  shows "success \<and> \<not> isSigned"
proof -
  let ?rt = "NewDBRouter dbs tbs" and ?d = "fmt_compact_day (svc_zone svc) (svc_clock svc (tick w1))"
  obtain ids where c: "Rebate_CreateOrder svc (rebate_repo_of svc tp ?rt)
      \<lparr>bh_UserID = uid, bh_BehaviorType = BehaviorSign, bh_OutBusinessNo = fmt_compact_day (svc_zone svc) (svc_clock svc (tick w))\<rparr>
      (bump w) = (Ok ids, w1)" and success
    using assms(6) by (auto simp: CalendarSignRebate_def split: if_splits)
  have "biz_ids_ok (bump w)" using assms(5) by (simp add: biz_ids_ok_def)
  from Rebate_CreateOrder_biz_ids [OF assms(1-4) c this] have b: "biz_ids_ok (bump w1)" by (simp add: biz_ids_ok_def)
  obtain orders w3 where q: "QueryUserRebateOrder svc ?rt uid ?d (bump w1) = (Ok orders, w3)" "isSigned = (orders \<noteq> [])"
    using assms(7)
    by (auto simp: IsCalendarSignRebate_def QueryOrderByOutBusinessNo_def rebate_repo_of_def split: if_splits)
  have "take (length ?d) uid \<noteq> ?d" using assms(8) by blast
  from QueryUserRebateOrder_none [OF assms(1) b day_plain this q(1)] q(2) \<open>success\<close> show ?thesis by simp
qed

definition sign_conf :: po_DailyBehaviorRebate where
  "sign_conf = \<lparr>dbr_ID = 1, dbr_BehaviorType = ''sign'', dbr_RebateDesc = '''', dbr_RebateType = ''sku'', dbr_RebateConfig = ''9'',
     dbr_State = ''open'', dbr_CreateTime = 0, dbr_UpdateTime = 0\<rparr>"

definition sign_world :: world where
  "sign_world = empty_world\<lparr>store := empty_store\<lparr>tbls := (\<lambda>_. [])((''default'', ''daily_behavior_rebate'') := [RRebateConf sign_conf])\<rparr>\<rparr>"

lemma fmt0_length: "w \<le> length (fmt0 w n)"
  by (auto simp: fmt0_def pad0_def)

lemma short_id_no_day: "take (length (fmt_compact_day z t)) ''e'' \<noteq> fmt_compact_day z t"
proof -
  have "4 \<le> length (fmt_compact_day z t)"
    using fmt0_length [of 4] by (auto simp: fmt_compact_day_def split: prod.split intro: trans_le_add1)
  moreover have "length (take n ''e'') \<le> 1" for n by simp
  ultimately show ?thesis by (metis One_nat_def numeral_le_one_iff order_trans semiring_norm(69))
qed

lemma publish_rebates_sample: "fst (publish_rebates (sample_svc uniq) tp orders w) = Ok ()"
proof (induction orders arbitrary: w)
  case (Cons o1 orders)
  obtain ev w1 where e: "NewBaseEvent (sample_svc uniq) (ERebate (rebate_message o1)) w = (Ok ev, w1)"
    using NewBaseEvent_Ok by blast
  obtain w2 where p: "Publish (sample_svc uniq) (SendRebate tp) ev w1 = (Ok (), w2)" using sample_Publish by blast
  show ?case using Cons.IH [of w2] by (simp add: bindE_def e ignoreE_def caseE_def PublishSendRebate_def p)
qed simp

lemma sign_run:
  "\<exists>w1. CalendarSignRebate (sample_svc (\<lambda>_ _ _. False)) (rebate_repo_of (sample_svc (\<lambda>_ _ _. False)) tp (NewDBRouter 2 4)) ''e'' sign_world = (Ok True, w1)"
proof -
  let ?svc = "sample_svc (\<lambda>_ _ _. False)"
  have ok: "mysql_ok ?svc (\<lambda>_ _ _. False)" "no_faults ?svc" by (simp_all add: no_faults_def)
  have secure: "svc_secure_int ?svc = (\<lambda>_ m. Ok 0)" by (simp add: sample_svc_def)
  have numeric: "\<exists>s w'. RandomNumeric ?svc n w = (Ok s, w')" for n w
  proof (induction n arbitrary: w)
    case (Suc n)
    from Suc [of "bump w"] show ?case by (auto simp: caseE_def GetSecureRandomInt_def bindE_def secure)
  qed simp
  have save: "fst (save_rebate_orders ?svc db s orders w) = Ok ()" for db s orders w
    by (induction orders arbitrary: w) (simp_all add: caseE_def served [OF ok])
  obtain w1 where q: "QueryDailyBehaviorRebateConfig ?svc ''sign'' (bump sign_world) = (Ok [DailyBehaviorRebate_ToEntity sign_conf], w1)"
    by (simp add: QueryDailyBehaviorRebateConfig_def bindE_def served [OF ok] sign_world_def sign_conf_def)
  let ?b = "\<lparr>bh_UserID = ''e'', bh_BehaviorType = ''sign'', bh_OutBusinessNo = fmt_compact_day 0 (1700000000 * second)\<rparr>"
  obtain orders w2 where b: "build_rebate_orders ?svc ?b [DailyBehaviorRebate_ToEntity sign_conf] w1 = (Ok orders, w2)"
    using numeric [of 12 w1] by (auto simp: bindE_def simp del: RandomNumeric.simps)
  obtain w3 where t: "transaction ?svc (save_rebate_orders ?svc ''01'' ''002'' orders) w2 = (Ok (), w3)"
    using save [of "''01''" "''002''" orders w2]
    by (cases "save_rebate_orders ?svc ''01'' ''002'' orders w2") (simp add: sample_transaction)
  obtain w4 where p: "publish_rebates ?svc tp orders w3 = (Ok (), w4)"
    using publish_rebates_sample by (metis prod.collapse)
  have "SaveUserRebateOrder ?svc tp (NewDBRouter 2 4) ''e'' \<lparr>br_UserID = ''e'', br_Behavior = ?b, br_BehaviorRebateOrders = orders\<rparr> w2 = (Ok (), w4)"
    by (simp add: SaveUserRebateOrder_def shard_def sample_shard bindE_def t p)
  then show ?thesis
    by (simp add: CalendarSignRebate_def Rebate_CreateOrder_def rebate_repo_of_def bindE_def BehaviorSign_def q b
        del: build_rebate_orders.simps)
qed

theorem sign_in_is_not_found_witness:
  "\<exists>w1 w2. CalendarSignRebate (sample_svc (\<lambda>_ _ _. False)) (rebate_repo_of (sample_svc (\<lambda>_ _ _. False))
        \<lparr>ActivitySkuStockZero = ''z'', SendRebate = ''r'', SendAward = ''a''\<rparr> (NewDBRouter 2 4)) ''e'' sign_world = (Ok True, w1) \<and>
     IsCalendarSignRebate (sample_svc (\<lambda>_ _ _. False)) (rebate_repo_of (sample_svc (\<lambda>_ _ _. False))
        \<lparr>ActivitySkuStockZero = ''z'', SendRebate = ''r'', SendAward = ''a''\<rparr> (NewDBRouter 2 4)) ''e'' w1 = (Ok False, w2)"
proof -
  let ?svc = "sample_svc (\<lambda>_ _ _. False)" and ?tp = "\<lparr>ActivitySkuStockZero = ''z'', SendRebate = ''r'', SendAward = ''a''\<rparr>"
  have ok: "mysql_ok ?svc (\<lambda>_ _ _. False)" "no_faults ?svc" by (simp_all add: no_faults_def)
  obtain w1 where r1: "CalendarSignRebate ?svc (rebate_repo_of ?svc ?tp (NewDBRouter 2 4)) ''e'' sign_world = (Ok True, w1)"
    using sign_run by blast
  obtain b w2 where r2: "IsCalendarSignRebate ?svc (rebate_repo_of ?svc ?tp (NewDBRouter 2 4)) ''e'' w1 = (Ok b, w2)"
    by (simp add: IsCalendarSignRebate_def QueryOrderByOutBusinessNo_def rebate_repo_of_def QueryUserRebateOrder_def
        shard_def sample_shard bindE_def served [OF ok])
  have "biz_ids_ok sign_world" by (simp add: biz_ids_ok_def sign_world_def rebate_table_def)
  with sign_in_is_not_found [OF mysql_ok_sample faults_ok_sample _ _ _ r1 r2] short_id_no_day r1 r2 show ?thesis by auto
qed

end
