(* ===== verification/Spend.thy ===== *)
theory Spend
  imports Service
begin

text \<open>
  The award ledger and the quota together. Saving an award (\<open>data/award.go\<close>) deletes the pending order
  of the participant from Redis, where the script of \<open>CacheGetOrCreateNoUsedRaffleOrder\<close>
  (\<open>data/activity_partake.go\<close>) looks for it. Once the award is saved the order is spent: the next
  request takes a new unit of the quota. If the deletion is lost, which the repository only logs, the
  next request gets the spent order again, and its award is not recorded.
\<close>

section \<open>What saving an award leaves in Redis\<close>

lemma rkeys_award_tx [keeps_rules]: "keeps rkeys (award_tx svc db suffix a t)"
  unfolding award_tx_def by (auto intro!: keeps_rules keeps_caseE keeps_bindE keeps_ret keeps_fail)

lemma Delete_keys:
  assumes "redis_ok svc" and "Delete svc myCache k w = (r, w')"
  shows "tick w' = Suc (tick w) \<and>
    (rkeys w' = (live (svc_rtime svc (tick w')) (rkeys w))(k := None) \<or>
     (\<exists>e. svc_fault svc (tick w) = FailBefore e \<and> rkeys w' = rkeys w))"
  using assms(2)
  by (auto simp: Delete_def local_Del_def myCache_def bindE_def redis_def remote_def server_call_def
      assms(1) [unfolded redis_ok_def] redis_doc_def Let_def fun_upd_idem
      split: fault.splits prod.splits res.splits rreply.splits if_splits)

text \<open>
  After a save that succeeded the pending key is gone and every other key is as it was, unless the
  deletion never reached Redis.
\<close>

lemma SaveUserAwardRecord_keys:
  assumes "redis_ok svc" and "SaveUserAwardRecord svc rt agg w = (Ok (), w')"
  defines "rec \<equiv> ti_UserAwardRecord agg"
  shows "rkeys w' = (live (svc_rtime svc (tick w')) (rkeys w))
           (GetPendingRaffleOrderKey (ua_ActivityID rec) (ua_UserID rec) := None) \<or>
         (\<exists>n e. svc_fault svc n = FailBefore e \<and> rkeys w' = rkeys w)"
proof -
  let ?k = "GetPendingRaffleOrderKey (ua_ActivityID rec) (ua_UserID rec)"
  obtain x wd where sv: "save_award svc rt agg w = (Ok (x, None), wd)" and w': "rkeys w' = rkeys wd" "tick w' = tick wd"
    using assms(2)
    by (auto simp: SaveUserAwardRecord_def defer_award_metric_def metric_defs split: prod.splits res.splits option.splits)
  let ?body = "\<lambda>db suffix msg. award_tx svc db suffix (award_po rec (svc_clock svc (tick w)) (svc_clock svc (Suc (tick w))))
    (task_po (ti_Task agg) msg (svc_clock svc (Suc (Suc (tick w)))) (svc_clock svc (Suc (Suc (Suc (tick w))))))"
  obtain db suffix msg dup w1 r where
    tx: "transaction svc (?body db suffix msg) (bump (bump (bump (bump w)))) = (Ok dup, w1)" and
    d: "Delete svc myCache ?k w1 = (r, wd)"
    using sv unfolding save_award_def Let_def rec_def [symmetric]
    by (auto simp: caseE_Ok_iff convertToUserAwardRecordPO_def convertToTaskPO_def shard_def ignoreE_Ok_iff deref_def now_def
        split: option.splits)
  have "rkeys w1 = rkeys w" using keepsD [OF rkeys_transaction [OF rkeys_award_tx] tx] by simp
  with Delete_keys [OF assms(1) d] w' show ?thesis by metis
qed

section \<open>A spent order is not given out again\<close>

lemma quota_abs_spent:
  assumes "quota_abs k1 k2 k3 k4 t ks = Some q" and "distinct [k1, k2, k3, k4]" and "t0 \<le> t"
  shows "quota_abs k1 k2 k3 k4 t ((live t0 ks)(k4 := None)) = Some (q\<lparr>q_pending := None\<rparr>)"
  using quota_absE [OF assms(1)] assms(2)
  by (auto simp: quota_abs_def live_later [OF assms(3)] int_at_def hash_at_def)

text \<open>The answers of \<open>take_part\<close> when nothing is pending.\<close>

lemma take_part_fresh:
  assumes "take_part (q\<lparr>q_pending := None\<rparr>) oid sid = (oc, q')"
  shows "oc = Created \<and> (\<exists>a b c. q_total q = Some a \<and> q_day q = Some b \<and> q_month q = Some c \<and> 0 < a \<and> 0 < b \<and> 0 < c \<and>
             q_total q' = Some (a - 1) \<and> q_day q' = Some (b - 1) \<and> q_month q' = Some (c - 1)) \<or>
         oc \<in> {NotLoaded, NoTotal, NoDay, NoMonth} \<and> q' = q\<lparr>q_pending := None\<rparr>"
  using assms by (auto simp: take_part_def pending_of_def draw_quota_def split: option.splits if_splits)

text \<open>
  C8. A spent order is not given out again: when an award was saved and the deletion of the pending
  order was not lost, the order is in the ledger, and the next request of the participant (whatever was
  pending) gets its own new order, for which exactly one unit of each of the three counters is taken,
  or one of the quota errors, and then nothing is taken; it never gets a pending order.
\<close>

theorem spent_order_not_reused:
  assumes "redis_ok svc" and "mysql_ok svc uniq" and "faults_ok svc" and "award_index uniq"
    and "DBStrategy rt (ur_UserID order) = Ok (Some db, suffix)"
    and "SaveUserAwardRecord svc rt agg w = (Ok (), w1)"
    and "ua_UserID (ti_UserAwardRecord agg) = ur_UserID order" and "ua_ActivityID (ti_UserAwardRecord agg) = ur_ActivityID order"
    and "\<And>n e. svc_fault svc n \<noteq> FailBefore e" and "svc_fault svc (Suc (Suc (tick w1))) = NoFault"
    and "mono (svc_rtime svc)" and "is_int64 (ur_StrategyID order)"
    and "k1 = GetActivityAccountTotalSurplusKey (ur_ActivityID order) (ur_UserID order)"
    and "k2 = GetActivityAccountDaySurplusKey (ur_ActivityID order) (ur_UserID order)
                (fmt_day (svc_zone svc) (svc_clock svc (tick w1)))"
    and "k3 = GetActivityAccountMonthSurplusKey (ur_ActivityID order) (ur_UserID order)
                (fmt_month (svc_zone svc) (svc_clock svc (Suc (tick w1))))"
    and "k4 = GetPendingRaffleOrderKey (ur_ActivityID order) (ur_UserID order)"
    and "t = svc_rtime svc (Suc (Suc (Suc (tick w1))))"
    and "quota_abs k1 k2 k3 k4 t (rkeys w) = Some q"
  shows "ua_OrderID (ti_UserAwardRecord agg) \<in> set (awarded (tables w1 (db, award_table suffix))) \<and>
    (\<exists>r w2 q'. CacheGetOrCreateNoUsedRaffleOrder svc order w1 = (r, w2) \<and>
       quota_abs k1 k2 k3 k4 t (rkeys w2) = Some q' \<and> tables w2 = tables w1 \<and>
       (r = Ok (with_order order (ur_OrderID order) (ur_StrategyID order), False) \<and>
        (\<exists>a b c. q_total q = Some a \<and> q_day q = Some b \<and> q_month q = Some c \<and> 0 < a \<and> 0 < b \<and> 0 < c \<and>
           q_total q' = Some (a - 1) \<and> q_day q' = Some (b - 1) \<and> q_month q' = Some (c - 1)) \<or>
        r \<in> {Err ErrActivityQuotaError, Err ErrActivityAccountDayCountSurplusNotEnough,
             Err ErrActivityAccountMonthCountSurplusNotEnough} \<and> q' = q\<lparr>q_pending := None\<rparr>))"
proof -
  have d: "distinct [k1, k2, k3, k4]" using assms(13-16) by simp
  have "rkeys w1 = (live (svc_rtime svc (tick w1)) (rkeys w))(k4 := None)"
    using SaveUserAwardRecord_keys [OF assms(1,6)] assms(7-9,16) by auto
  moreover have "svc_rtime svc (tick w1) \<le> t" using assms(11,17) by (simp add: monoD)
  ultimately have q1: "quota_abs k1 k2 k3 k4 t (rkeys w1) = Some (q\<lparr>q_pending := None\<rparr>)"
    using quota_abs_spent [OF assms(18) d] by simp
  obtain oc q' where tp: "take_part (q\<lparr>q_pending := None\<rparr>) (ur_OrderID order) (FormatInt (ur_StrategyID order)) = (oc, q')"
    by fastforce
  obtain w2 where w2: "CacheGetOrCreateNoUsedRaffleOrder svc order w1 = (outcome_result order oc, w2)"
      "quota_abs k1 k2 k3 k4 t (rkeys w2) = Some q'" "store w2 = store w1"
    using CacheGetOrCreate_run [OF assms(1,12,10,13-17) q1 tp] by blast
  have "ua_OrderID (ti_UserAwardRecord agg) \<in> set (awarded (tables w1 (db, award_table suffix)))"
    using SaveUserAwardRecord_awarded [OF assms(2-4) _ assms(6)] assms(5,7) by simp
  moreover have "oc = Created \<Longrightarrow> outcome_result order oc = Ok (with_order order (ur_OrderID order) (ur_StrategyID order), False)"
    "oc \<in> {NotLoaded, NoTotal, NoDay, NoMonth} \<Longrightarrow> outcome_result order oc \<in>
       {Err ErrActivityQuotaError, Err ErrActivityAccountDayCountSurplusNotEnough, Err ErrActivityAccountMonthCountSurplusNotEnough}"
    by (auto simp: outcome_result_def)
  ultimately show ?thesis using w2 take_part_fresh [OF tp] by fastforce
qed

text \<open>A participant with a pending order \<open>o1\<close>, whose award is saved, and the next request.\<close>

definition spend_keys :: keyspace where
  "spend_keys =
     [GetActivityAccountTotalSurplusKey 1 ''e'' \<mapsto> (RStr (FormatInt 2), None),
      GetActivityAccountDaySurplusKey 1 ''e'' (fmt_day (svc_zone award_svc) (svc_clock award_svc 0)) \<mapsto> (RStr (FormatInt 2), None),
      GetActivityAccountMonthSurplusKey 1 ''e'' (fmt_month (svc_zone award_svc) (svc_clock award_svc 0)) \<mapsto> (RStr (FormatInt 2), None),
      GetPendingRaffleOrderKey 1 ''e'' \<mapsto> (RHash [''oid'' \<mapsto> ''o1'', ''sid'' \<mapsto> ''2'', ''st'' \<mapsto> ''0''], None)]"

definition spend_world :: world where
  "spend_world = set_keys spend_keys empty_world"

definition next_order :: UserRaffleOrder where
  "next_order = zero_UserRaffleOrder\<lparr>ur_UserID := ''e'', ur_ActivityID := 1, ur_OrderID := ''o2'', ur_StrategyID := 2\<rparr>"

lemma spend_sel [simp]:
  "ur_UserID next_order = ''e''" "ur_ActivityID next_order = 1" "ur_OrderID next_order = ''o2''" "ur_StrategyID next_order = 2"
  "ua_UserID (ti_UserAwardRecord sample_award) = ''e''" "ua_ActivityID (ti_UserAwardRecord sample_award) = 1"
  "ua_OrderID (ti_UserAwardRecord sample_award) = ''o1''"
  by (simp_all add: next_order_def sample_award_def award_aggregate_def)

lemma spend_clock: "svc_clock award_svc n = svc_clock award_svc 0" "mono (svc_rtime award_svc)"
  by (simp_all add: award_svc_def sample_svc_def mono_def)

lemma spend_quota:
  "quota_abs (GetActivityAccountTotalSurplusKey 1 ''e'')
     (GetActivityAccountDaySurplusKey 1 ''e'' (fmt_day (svc_zone award_svc) (svc_clock award_svc m)))
     (GetActivityAccountMonthSurplusKey 1 ''e'' (fmt_month (svc_zone award_svc) (svc_clock award_svc n)))
     (GetPendingRaffleOrderKey 1 ''e'') t (rkeys spend_world) =
   Some \<lparr>q_total = Some 2, q_day = Some 2, q_month = Some 2,
         q_pending = Some [''oid'' \<mapsto> ''o1'', ''sid'' \<mapsto> ''2'', ''st'' \<mapsto> ''0'']\<rparr>"
  by (simp add: spend_world_def spend_keys_def quota_abs_def live_def int_at_def hash_at_def is_int64_small
      spend_clock(1) [of m] spend_clock(1) [of n])

lemma spend_run: "\<exists>w'. SaveUserAwardRecord award_svc (NewDBRouter 2 4) sample_award spend_world = (Ok (), w')"
  by (simp add: SaveUserAwardRecord_def defer_award_metric_def save_award_def convertToUserAwardRecordPO_def
      convertToTaskPO_def shard_def bindE_def caseE_def ignoreE_def Let_def sample_award_def award_aggregate_def
      sample_shard served [OF award_svc_ok(2,3)] award_tx_def Delete_def local_Del_def myCache_def redis_served spend_world_def)

theorem spent_order_not_reused_witness:
  "\<exists>w1 r w2. SaveUserAwardRecord award_svc (NewDBRouter 2 4) sample_award spend_world = (Ok (), w1) \<and>
     ''o1'' \<in> set (awarded (tables w1 (''01'', award_table ''002''))) \<and>
     CacheGetOrCreateNoUsedRaffleOrder award_svc next_order w1 = (r, w2) \<and> r \<noteq> Ok (with_order next_order ''o1'' 2, True)"
proof -
  obtain w1 where run: "SaveUserAwardRecord award_svc (NewDBRouter 2 4) sample_award spend_world = (Ok (), w1)"
    using spend_run by blast
  have db: "DBStrategy (NewDBRouter 2 4) (ur_UserID next_order) = Ok (Some ''01'', ''002'')" by (simp add: sample_shard)
  from spent_order_not_reused [OF award_svc_ok(1,2,4,6) db run _ _ _ _ spend_clock(2) _ refl refl refl refl refl,
      unfolded spend_sel, OF _ _ _ _ _ spend_quota] run
  show ?thesis by (fastforce simp: is_int64_small)
qed

text \<open>
  When the deletion is lost the spent order stays pending, and the next request is answered with it:
  its award cannot be recorded any more, since the ledger holds the order already.
\<close>

lemma lost_deletion_reuses_order:
  assumes "redis_ok svc" and "mysql_ok svc uniq" and "faults_ok svc" and "award_index uniq"
    and "DBStrategy rt (ur_UserID order) = Ok (Some db, suffix)"
    and "SaveUserAwardRecord svc rt agg w = (Ok (), w1)" and "rkeys w1 = rkeys w"
    and "ua_UserID (ti_UserAwardRecord agg) = ur_UserID order"
    and "svc_fault svc (Suc (Suc (tick w1))) = NoFault" and "is_int64 (ur_StrategyID order)" and "is_int64 sid"
    and "k1 = GetActivityAccountTotalSurplusKey (ur_ActivityID order) (ur_UserID order)"
    and "k2 = GetActivityAccountDaySurplusKey (ur_ActivityID order) (ur_UserID order)
                (fmt_day (svc_zone svc) (svc_clock svc (tick w1)))"
    and "k3 = GetActivityAccountMonthSurplusKey (ur_ActivityID order) (ur_UserID order)
                (fmt_month (svc_zone svc) (svc_clock svc (Suc (tick w1))))"
    and "k4 = GetPendingRaffleOrderKey (ur_ActivityID order) (ur_UserID order)"
    and "t = svc_rtime svc (Suc (Suc (Suc (tick w1))))"
    and "quota_abs k1 k2 k3 k4 t (rkeys w) = Some q"
    and "pending_of (q_pending q) = Some (ua_OrderID (ti_UserAwardRecord agg), FormatInt sid, ''0'')"
  shows "\<exists>o' w2. CacheGetOrCreateNoUsedRaffleOrder svc order w1 = (Ok (o', True), w2) \<and>
    ur_OrderID o' \<in> set (awarded (tables w2 (db, award_table suffix)))"
proof -
  have tp: "take_part q (ur_OrderID order) (FormatInt (ur_StrategyID order)) =
      (Reused (ua_OrderID (ti_UserAwardRecord agg)) (FormatInt sid), q)"
    using assms(18) by (simp add: take_part_def)
  have "ua_OrderID (ti_UserAwardRecord agg) \<in> set (awarded (tables w1 (db, award_table suffix)))"
    using SaveUserAwardRecord_awarded [OF assms(2-4) _ assms(6)] assms(5,8) by simp
  then show ?thesis
    using CacheGetOrCreate_run [OF assms(1,10,9,12-16) _ tp] assms(7,11,17)
    by (auto simp: outcome_result_def ParseInt_FormatInt with_order_def)
qed

end
