(* ===== verification/Model_Names.thy ===== *)
theory Model_Names
  imports Service
begin

text \<open>
  The names the program gives to things: the states of its entities with their descriptions for people
  (\<open>Desc\<close> of \<open>biz/activity/model.go\<close> and \<open>biz/award/model.go\<close>, in UTF-8), and the tables of the gorm
  models (\<open>TableName\<close> of \<open>data/po\<close>), which the repositories extend by the suffix of a shard.
\<close>

section \<open>States\<close>

definition ActivityStateCreate :: string where "ActivityStateCreate = ''create''"
definition ActivityStateClose :: string where "ActivityStateClose = ''close''"
definition UserRaffleOrderStateCancel :: string where "UserRaffleOrderStateCancel = ''cancel''"
definition AccountSyncStateFail :: string where "AccountSyncStateFail = ''fail''"
definition AwardStateComplete :: string where "AwardStateComplete = ''complete''"
definition AwardStateFail :: string where "AwardStateFail = ''fail''"
definition TaskStateComplete :: string where "TaskStateComplete = ''complete''"
definition TaskStateFail :: string where "TaskStateFail = ''fail''"

text \<open>The text of the default branch of every \<open>Desc\<close>.\<close>

abbreviation unknown_state :: string where "unknown_state \<equiv> [CHR 0xE6, CHR 0x9C, CHR 0xAA, CHR 0xE7, CHR 0x9F, CHR 0xA5]"

definition ActivityState_Desc :: "string \<Rightarrow> string" where
  "ActivityState_Desc s =
     (if s = ActivityStateCreate then [CHR 0xE5, CHR 0x88, CHR 0x9B, CHR 0xE5, CHR 0xBB, CHR 0xBA]
      else if s = ActivityStateOpen then [CHR 0xE5, CHR 0xBC, CHR 0x80, CHR 0xE5, CHR 0x90, CHR 0xAF]
      else if s = ActivityStateClose then [CHR 0xE5, CHR 0x85, CHR 0xB3, CHR 0xE9, CHR 0x97, CHR 0xAD]
      else unknown_state)"

definition UserRaffleOrderState_Desc :: "string \<Rightarrow> string" where
  "UserRaffleOrderState_Desc s =
     (if s = UserRaffleOrderStateCreate then [CHR 0xE5, CHR 0x88, CHR 0x9B, CHR 0xE5, CHR 0xBB, CHR 0xBA]
      else if s = UserRaffleOrderStateUsed then [CHR 0xE5, CHR 0xB7, CHR 0xB2, CHR 0xE4, CHR 0xBD, CHR 0xBF, CHR 0xE7, CHR 0x94, CHR 0xA8]
      else if s = UserRaffleOrderStateCancel then [CHR 0xE5, CHR 0xB7, CHR 0xB2, CHR 0xE4, CHR 0xBD, CHR 0x9C, CHR 0xE5, CHR 0xBA, CHR 0x9F]
      else unknown_state)"

definition AwardState_Desc :: "string \<Rightarrow> string" where
  "AwardState_Desc s =
     (if s = AwardStateCreate then [CHR 0xE5, CHR 0x88, CHR 0x9B, CHR 0xE5, CHR 0xBB, CHR 0xBA]
      else if s = AwardStateComplete then [CHR 0xE5, CHR 0x8F, CHR 0x91, CHR 0xE5, CHR 0xA5, CHR 0x96, CHR 0xE5, CHR 0xAE, CHR 0x8C, CHR 0xE6, CHR 0x88, CHR 0x90]
      else if s = AwardStateFail then [CHR 0xE5, CHR 0x8F, CHR 0x91, CHR 0xE5, CHR 0xA5, CHR 0x96, CHR 0xE5, CHR 0xA4, CHR 0xB1, CHR 0xE8, CHR 0xB4, CHR 0xA5]
      else unknown_state)"

definition TaskState_Desc :: "string \<Rightarrow> string" where
  "TaskState_Desc s =
     (if s = TaskStateCreate then [CHR 0xE5, CHR 0x88, CHR 0x9B, CHR 0xE5, CHR 0xBB, CHR 0xBA]
      else if s = TaskStateComplete then [CHR 0xE5, CHR 0x8F, CHR 0x91, CHR 0xE9, CHR 0x80, CHR 0x81, CHR 0xE5, CHR 0xAE, CHR 0x8C, CHR 0xE6, CHR 0x88, CHR 0x90]
      else if s = TaskStateFail then [CHR 0xE5, CHR 0x8F, CHR 0x91, CHR 0xE9, CHR 0x80, CHR 0x81, CHR 0xE5, CHR 0xA4, CHR 0xB1, CHR 0xE8, CHR 0xB4, CHR 0xA5]
      else unknown_state)"

section \<open>Tables\<close>

definition TableName_RaffleActivity :: string where "TableName_RaffleActivity = ''raffle_activity''"
definition TableName_RaffleActivityCount :: string where "TableName_RaffleActivityCount = ''raffle_activity_count''"
definition TableName_RaffleActivitySku :: string where "TableName_RaffleActivitySku = ''raffle_activity_sku''"
definition TableName_RaffleActivityAccount :: string where "TableName_RaffleActivityAccount = ''raffle_activity_account''"
definition TableName_RaffleActivityOrder :: string where "TableName_RaffleActivityOrder = ''raffle_activity_order''"
definition TableName_RaffleActivityAccountDay :: string where "TableName_RaffleActivityAccountDay = ''raffle_activity_account_day''"
definition TableName_RaffleActivityAccountMonth :: string where "TableName_RaffleActivityAccountMonth = ''raffle_activity_account_month''"
definition TableName_UserRaffleOrder :: string where "TableName_UserRaffleOrder = ''user_raffle_order''"
definition TableName_UserAwardRecord :: string where "TableName_UserAwardRecord = ''user_award_record''"
definition TableName_DailyBehaviorRebate :: string where "TableName_DailyBehaviorRebate = ''daily_behavior_rebate''"
definition TableName_UserBehaviorRebateOrder :: string where "TableName_UserBehaviorRebateOrder = ''user_behavior_rebate_order''"
definition TableName_Strategy :: string where "TableName_Strategy = ''strategy''"
definition TableName_StrategyAward :: string where "TableName_StrategyAward = ''strategy_award''"
definition TableName_StrategyRule :: string where "TableName_StrategyRule = ''strategy_rule''"
definition TableName_RuleTree :: string where "TableName_RuleTree = ''rule_tree''"
definition TableName_RuleTreeNode :: string where "TableName_RuleTreeNode = ''rule_tree_node''"
definition TableName_RuleTreeNodeLine :: string where "TableName_RuleTreeNodeLine = ''rule_tree_node_line''"
definition TableName_Task :: string where "TableName_Task = ''task''"

section \<open>Lemmas\<close>

lemmas state_defs =
  ActivityStateCreate_def ActivityStateOpen_def ActivityStateClose_def UserRaffleOrderStateCreate_def
  UserRaffleOrderStateUsed_def UserRaffleOrderStateCancel_def AwardStateCreate_def AwardStateComplete_def
  AwardStateFail_def TaskStateCreate_def TaskStateComplete_def TaskStateFail_def

text \<open>Each declared state has a description of its own, and no other text has one.\<close>

lemma Desc_distinct:
  "distinct (unknown_state # map ActivityState_Desc [ActivityStateCreate, ActivityStateOpen, ActivityStateClose])"
  "distinct (unknown_state # map UserRaffleOrderState_Desc [UserRaffleOrderStateCreate, UserRaffleOrderStateUsed, UserRaffleOrderStateCancel])"
  "distinct (unknown_state # map AwardState_Desc [AwardStateCreate, AwardStateComplete, AwardStateFail])"
  "distinct (unknown_state # map TaskState_Desc [TaskStateCreate, TaskStateComplete, TaskStateFail])"
  by code_simp+

lemma Desc_unknown_iff:
  "ActivityState_Desc s = unknown_state \<longleftrightarrow> s \<notin> {ActivityStateCreate, ActivityStateOpen, ActivityStateClose}"
  "UserRaffleOrderState_Desc s = unknown_state \<longleftrightarrow>
     s \<notin> {UserRaffleOrderStateCreate, UserRaffleOrderStateUsed, UserRaffleOrderStateCancel}"
  "AwardState_Desc s = unknown_state \<longleftrightarrow> s \<notin> {AwardStateCreate, AwardStateComplete, AwardStateFail}"
  "TaskState_Desc s = unknown_state \<longleftrightarrow> s \<notin> {TaskStateCreate, TaskStateComplete, TaskStateFail}"
  by (auto simp: ActivityState_Desc_def UserRaffleOrderState_Desc_def AwardState_Desc_def TaskState_Desc_def)

text \<open>The state that the repository writes for a task that was sent (\<open>data/task.go\<close>) is none of the
  declared ones.\<close>

lemma sent_task_is_unknown: "TaskState_Desc ''completed'' = unknown_state"
  by (simp add: Desc_unknown_iff state_defs)

text \<open>The tables of the shards are named after the models.\<close>

lemma shard_table_names:
  "order_table suffix = TableName_UserRaffleOrder @ ''_'' @ suffix"
  "award_table suffix = TableName_UserAwardRecord @ ''_'' @ suffix"
  "quota_order_table suffix = TableName_RaffleActivityOrder @ ''_'' @ suffix"
  "rebate_table suffix = TableName_UserBehaviorRebateOrder @ ''_'' @ suffix"
  by (simp_all add: order_table_def award_table_def quota_order_table_def rebate_table_def
      TableName_UserBehaviorRebateOrder_def TableName_UserRaffleOrder_def
      TableName_UserAwardRecord_def TableName_RaffleActivityOrder_def)

lemma table_names_distinct:
  "distinct [TableName_RaffleActivity, TableName_RaffleActivityCount, TableName_RaffleActivitySku,
     TableName_RaffleActivityAccount, TableName_RaffleActivityOrder, TableName_RaffleActivityAccountDay,
     TableName_RaffleActivityAccountMonth, TableName_UserRaffleOrder, TableName_UserAwardRecord,
     TableName_DailyBehaviorRebate, TableName_UserBehaviorRebateOrder, TableName_Strategy,
     TableName_StrategyAward, TableName_StrategyRule, TableName_RuleTree,
     TableName_RuleTreeNode, TableName_RuleTreeNodeLine, TableName_Task]"
  by code_simp

end
