(* ===== verification/Chain_Heap.thy ===== *)
theory Chain_Heap
  imports Rule_Chain Activity_Usecase
begin

text \<open>
  The chains of responsibility as the code builds them: linked nodes on a heap. The factory of
  \<open>biz/strategy/rule_chain.go\<close> keeps one prototype of each rule, shared by all requests; a request clones
  the prototypes it needs and links the clones with \<open>appendNext\<close>. \<open>biz/activity/sku_chain.go\<close> allocates
  its two nodes for each request. Elsewhere a chain is the list of its nodes; here it is shown that the
  linked nodes are that list, and that building a chain writes to no node that existed before, so that
  the prototypes and the chains of other requests stay as they are.
\<close>

section \<open>Nodes on the heap\<close>

text \<open>The embedded struct \<open>baseLogicChain\<close> with the kind of the node around it; \<open>None\<close> is nil.\<close>

record 'k node =
  node_kind :: 'k
  nextChain :: "nat option"

record 'k heap =
  nodes :: "nat \<rightharpoonup> 'k node"
  brk :: nat

definition alloc :: "'k node \<Rightarrow> 'k heap \<Rightarrow> nat \<times> 'k heap" where
  "alloc n h = (brk h, h\<lparr>nodes := (nodes h)(brk h \<mapsto> n), brk := Suc (brk h)\<rparr>)"

text \<open>\<open>appendNext\<close> sets the field of its receiver and returns the argument.\<close>

definition appendNext :: "nat \<Rightarrow> nat \<Rightarrow> 'k heap \<Rightarrow> nat \<times> 'k heap" where
  "appendNext c nxt h =
     (nxt, case nodes h c of
             None \<Rightarrow> h
           | Some n \<Rightarrow> h\<lparr>nodes := (nodes h)(c \<mapsto> n\<lparr>nextChain := Some nxt\<rparr>)\<rparr>)"

definition chain_next :: "nat \<Rightarrow> 'k heap \<Rightarrow> nat option" where
  "chain_next c h = (case nodes h c of None \<Rightarrow> None | Some n \<Rightarrow> nextChain n)"

text \<open>\<open>clone\<close> copies the whole struct, with its link, into a new node.\<close>

definition clone :: "nat \<Rightarrow> 'k heap \<Rightarrow> nat \<times> 'k heap" where
  "clone d h = (case nodes h d of None \<Rightarrow> (d, h) | Some n \<Rightarrow> alloc n h)"

section \<open>The rule chain\<close>

definition newRuleDefaultLogic :: "logicNode heap \<Rightarrow> nat \<times> logicNode heap" where
  "newRuleDefaultLogic h = alloc \<lparr>node_kind = defaultChain, nextChain = None\<rparr> h"

definition newRuleBlackListLogic :: "logicNode heap \<Rightarrow> nat \<times> logicNode heap" where
  "newRuleBlackListLogic h = alloc \<lparr>node_kind = ruleBlackListLogic, nextChain = None\<rparr> h"

definition newRuleWeightLogic :: "logicNode heap \<Rightarrow> nat \<times> logicNode heap" where
  "newRuleWeightLogic h = alloc \<lparr>node_kind = ruleWeightLogic, nextChain = None\<rparr> h"

definition ruleModel :: "logicNode \<Rightarrow> RuleChainName" where
  "ruleModel n = (case n of defaultChain \<Rightarrow> RuleDefault | ruleBlackListLogic \<Rightarrow> RuleBlacklist | ruleWeightLogic \<Rightarrow> RuleWeight)"

definition newLogicFactory :: "logicNode heap \<Rightarrow> (RuleChainName \<rightharpoonup> nat) \<times> logicNode heap" where
  "newLogicFactory h =
     (let (b, h1) = newRuleBlackListLogic h;
          (w, h2) = newRuleWeightLogic h1;
          (d, h3) = newRuleDefaultLogic h2
      in ([RuleBlacklist \<mapsto> b, RuleWeight \<mapsto> w, RuleDefault \<mapsto> d], h3))"

text \<open>The loop over the remaining models: \<open>chain\<close> is the last node that was linked.\<close>

fun link_models :: "(RuleChainName \<rightharpoonup> nat) \<Rightarrow> RuleChainName list \<Rightarrow> nat \<Rightarrow> logicNode heap \<Rightarrow> nat \<times> logicNode heap" where
  "link_models protos [] chain h = (chain, h)"
| "link_models protos (m # ms) chain h =
     (case protos m of
        None \<Rightarrow> link_models protos ms chain h
      | Some node \<Rightarrow>
          (let (newNode, h1) = clone node h; (_, h2) = appendNext chain newNode h1
           in link_models protos ms newNode h2))"

text \<open>\<open>openLogicChain\<close> after the strategy was read: the head of the chain. The factory always has a
  prototype of the default rule.\<close>

definition open_chain :: "(RuleChainName \<rightharpoonup> nat) \<Rightarrow> RuleChainName list \<Rightarrow> logicNode heap \<Rightarrow> nat \<times> logicNode heap" where
  "open_chain protos ruleModels h =
     (let default = the (protos RuleDefault)
      in case ruleModels of
           [] \<Rightarrow> clone default h
         | m # ms \<Rightarrow>
             (case protos m of
                None \<Rightarrow> clone default h
              | Some firstNode \<Rightarrow>
                  (let (head, h1) = clone firstNode h;
                       (chain, h2) = link_models protos ms head h1;
                       (defaultNode, h3) = clone default h2;
                       (_, h4) = appendNext chain defaultNode h3
                   in (head, h4))))"

section \<open>The action chain\<close>

definition newBaseActionChain :: "action_node heap \<Rightarrow> nat \<times> action_node heap" where
  "newBaseActionChain h = alloc \<lparr>node_kind = BaseActionChain, nextChain = None\<rparr> h"

definition newSkuStockActionChain :: "action_node heap \<Rightarrow> nat \<times> action_node heap" where
  "newSkuStockActionChain h = alloc \<lparr>node_kind = SkuStockActionChain, nextChain = None\<rparr> h"

definition open_action_chain :: "action_node heap \<Rightarrow> nat \<times> action_node heap" where
  "open_action_chain h =
     (let (baseAction, h1) = newBaseActionChain h;
          (skuStockAction, h2) = newSkuStockActionChain h1;
          (_, h3) = appendNext baseAction skuStockAction h2
      in (baseAction, h3))"

section \<open>Chains and lists\<close>

text \<open>Following \<open>next\<close> from a pointer gives the kinds \<open>ks\<close> and ends with nil.\<close>

fun chain_at :: "'k heap \<Rightarrow> nat option \<Rightarrow> 'k list \<Rightarrow> bool" where
  "chain_at h p [] = (p = None)"
| "chain_at h p (k # ks) =
     (case p of
        None \<Rightarrow> False
      | Some a \<Rightarrow> (case nodes h a of None \<Rightarrow> False | Some n \<Rightarrow> node_kind n = k \<and> chain_at h (nextChain n) ks))"

text \<open>Everything at or above the break is free, so that new nodes are new.\<close>

definition heap_ok :: "'k heap \<Rightarrow> bool" where
  "heap_ok h \<longleftrightarrow> (\<forall>a \<ge> brk h. nodes h a = None)"

text \<open>The nodes below \<open>b\<close> are as they were.\<close>

definition untouched :: "nat \<Rightarrow> 'k heap \<Rightarrow> 'k heap \<Rightarrow> bool" where
  "untouched b h h' \<longleftrightarrow> (\<forall>a < b. nodes h' a = nodes h a) \<and> brk h \<le> brk h'"

lemma untouched_refl [simp]: "untouched b h h"
  by (simp add: untouched_def)

lemma untouched_trans: "untouched b h1 h2 \<Longrightarrow> untouched b h2 h3 \<Longrightarrow> untouched b h1 h3"
  by (simp add: untouched_def)

lemma alloc_props:
  assumes "alloc n h = (a, h')" and "heap_ok h"
  shows "a = brk h" "nodes h' = (nodes h)(a \<mapsto> n)" "brk h' = Suc (brk h)" "heap_ok h'" "b \<le> brk h \<Longrightarrow> untouched b h h'"
  using assms by (auto simp: alloc_def heap_ok_def untouched_def)

lemma appendNext_props:
  assumes "appendNext c nxt h = (x, h')" and "nodes h c = Some n" and "heap_ok h"
  shows "x = nxt" "nodes h' = (nodes h)(c \<mapsto> n\<lparr>nextChain := Some nxt\<rparr>)" "brk h' = brk h" "heap_ok h'"
    "b \<le> c \<Longrightarrow> untouched b h h'"
  using assms by (auto simp: appendNext_def heap_ok_def untouched_def)

text \<open>The prototypes of a factory: they exist, below \<open>b\<close>, have the kind of their rule and no link.\<close>

definition protos_ok :: "nat \<Rightarrow> (RuleChainName \<rightharpoonup> nat) \<Rightarrow> logicNode heap \<Rightarrow> bool" where
  "protos_ok b protos h \<longleftrightarrow>
     (\<forall>m. (case logicChainGroup m of
             None \<Rightarrow> protos m = None
           | Some k \<Rightarrow> \<exists>a. protos m = Some a \<and> a < b \<and> nodes h a = Some \<lparr>node_kind = k, nextChain = None\<rparr>))"

definition factory_ok :: "(RuleChainName \<rightharpoonup> nat) \<Rightarrow> logicNode heap \<Rightarrow> bool" where
  "factory_ok protos h \<longleftrightarrow> heap_ok h \<and> protos_ok (brk h) protos h"

lemma rule_names_neq [simp]:
  "RuleBlacklist \<noteq> RuleWeight" "RuleBlacklist \<noteq> RuleDefault" "RuleWeight \<noteq> RuleDefault"
  "RuleWeight \<noteq> RuleBlacklist" "RuleDefault \<noteq> RuleBlacklist" "RuleDefault \<noteq> RuleWeight"
  by (simp_all add: RuleBlacklist_def RuleWeight_def RuleDefault_def)

lemma newLogicFactory_ok:
  assumes "heap_ok h" and "newLogicFactory h = (protos, h')"
  shows "factory_ok protos h' \<and> untouched (brk h) h h'"
proof -
  let ?n = "\<lambda>k. \<lparr>node_kind = k, nextChain = None\<rparr>"
  have e: "protos = [RuleBlacklist \<mapsto> brk h, RuleWeight \<mapsto> Suc (brk h), RuleDefault \<mapsto> Suc (Suc (brk h))]"
    "nodes h' = (nodes h)(brk h \<mapsto> ?n ruleBlackListLogic, Suc (brk h) \<mapsto> ?n ruleWeightLogic, Suc (Suc (brk h)) \<mapsto> ?n defaultChain)"
    "brk h' = Suc (Suc (Suc (brk h)))"
    using assms(2)
    by (auto simp: newLogicFactory_def newRuleBlackListLogic_def newRuleWeightLogic_def newRuleDefaultLogic_def alloc_def)
  have "protos_ok (brk h') protos h'"
    unfolding protos_ok_def
  proof
    fix m
    consider "m = RuleBlacklist" | "m = RuleWeight" | "m = RuleDefault" | "m \<notin> {RuleBlacklist, RuleWeight, RuleDefault}" by blast
    then show "case logicChainGroup m of None \<Rightarrow> protos m = None
        | Some k \<Rightarrow> \<exists>a. protos m = Some a \<and> a < brk h' \<and> nodes h' a = Some (?n k)"
      by cases (simp_all add: logicChainGroup_def e)
  qed
  then show ?thesis using assms(1) by (simp add: factory_ok_def heap_ok_def untouched_def e)
qed

lemma protos_okD:
  assumes "protos_ok b protos h"
  shows "logicChainGroup m = None \<Longrightarrow> protos m = None"
    "logicChainGroup m = Some k \<Longrightarrow> \<exists>a. protos m = Some a \<and> a < b \<and> nodes h a = Some \<lparr>node_kind = k, nextChain = None\<rparr>"
  using assms [unfolded protos_ok_def, rule_format, of m] by simp_all

lemma protos_ok_untouched:
  assumes "protos_ok b protos h" and "untouched b h h'"
  shows "protos_ok b protos h'"
  unfolding protos_ok_def
proof
  fix m
  show "case logicChainGroup m of None \<Rightarrow> protos m = None
      | Some k \<Rightarrow> \<exists>a. protos m = Some a \<and> a < b \<and> nodes h' a = Some \<lparr>node_kind = k, nextChain = None\<rparr>"
    using protos_okD [OF assms(1), of m] assms(2) by (cases "logicChainGroup m") (auto simp: untouched_def)
qed

text \<open>The addresses of a chain with the kinds of its nodes.\<close>

fun linked :: "'k heap \<Rightarrow> nat list \<Rightarrow> 'k list \<Rightarrow> bool" where
  "linked h [] ks = (ks = [])"
| "linked h (a # as) ks =
     (case ks of
        [] \<Rightarrow> False
      | k # ks' \<Rightarrow>
          nodes h a = Some \<lparr>node_kind = k, nextChain = (case as of [] \<Rightarrow> None | b # _ \<Rightarrow> Some b)\<rparr> \<and> a \<notin> set as \<and> linked h as ks')"

lemma linked_chain: "linked h as ks \<Longrightarrow> chain_at h (case as of [] \<Rightarrow> None | a # _ \<Rightarrow> Some a) ks"
proof (induction as arbitrary: ks)
  case (Cons a as)
  then obtain k ks' where "ks = k # ks'" by (cases ks) auto
  with Cons show ?case by simp
qed simp

lemma linked_cong: "linked h as ks \<Longrightarrow> \<forall>a \<in> set as. nodes h' a = nodes h a \<Longrightarrow> linked h' as ks"
proof (induction as arbitrary: ks)
  case (Cons a as)
  then obtain k ks' where "ks = k # ks'" by (cases ks) auto
  with Cons show ?case by simp
qed simp

text \<open>Linking a new node to the last one of a chain.\<close>

lemma linked_snoc:
  assumes "linked h as ks" and "as \<noteq> []" and "new \<notin> set as" and "nodes h new = Some \<lparr>node_kind = k, nextChain = None\<rparr>"
    and "nodes h (last as) = Some n" and "nodes h' = (nodes h)(last as \<mapsto> n\<lparr>nextChain := Some new\<rparr>)"
  shows "linked h' (as @ [new]) (ks @ [k])"
  using assms
proof (induction h as ks rule: linked.induct)
  case (2 h a as ks)
  obtain k0 ks' where ks: "ks = k0 # ks'" using 2(2) by (cases ks) auto
  show ?case
  proof (cases as)
    case Nil
    then show ?thesis using 2 ks by auto
  next
    case (Cons a' as')
    then have "last as \<noteq> a" using 2(2) ks by (metis last_in_set linked.simps(2) list.case(2) list.distinct(1))
    moreover have "linked h' (as @ [new]) (ks' @ [k])" using 2 Cons ks by (intro "2.IH") auto
    ultimately show ?thesis using 2 Cons ks by (auto simp: linked_cong)
  qed
qed simp

lemma linked_last: "linked h as ks \<Longrightarrow> as \<noteq> [] \<Longrightarrow> \<exists>k. nodes h (last as) = Some \<lparr>node_kind = k, nextChain = None\<rparr>"
  by (induction h as ks rule: linked.induct) (auto split: list.splits if_splits)

text \<open>A chain that a request is building: its nodes are at or above \<open>b\<close>, the prototypes below.\<close>

definition growing :: "nat \<Rightarrow> (RuleChainName \<rightharpoonup> nat) \<Rightarrow> logicNode heap \<Rightarrow> nat list \<Rightarrow> logicNode list \<Rightarrow> bool" where
  "growing b protos h as ks \<longleftrightarrow>
     heap_ok h \<and> protos_ok b protos h \<and> b \<le> brk h \<and> linked h as ks \<and> as \<noteq> [] \<and> (\<forall>a \<in> set as. b \<le> a \<and> a < brk h)"

lemma clone_proto:
  assumes "protos_ok b protos h" and "heap_ok h" and "b \<le> brk h" and "logicChainGroup m = Some k"
    and "clone (the (protos m)) h = (a, h')"
  shows "a = brk h" "nodes h' = (nodes h)(a \<mapsto> \<lparr>node_kind = k, nextChain = None\<rparr>)" "brk h' = Suc (brk h)"
    "heap_ok h'" "untouched b h h'"
proof -
  have "nodes h (the (protos m)) = Some \<lparr>node_kind = k, nextChain = None\<rparr>"
    using protos_okD(2) [OF assms(1,4)] by auto
  then have "alloc \<lparr>node_kind = k, nextChain = None\<rparr> h = (a, h')" using assms(5) by (simp add: clone_def)
  from alloc_props [OF this assms(2)] assms(3)
  show "a = brk h" "nodes h' = (nodes h)(a \<mapsto> \<lparr>node_kind = k, nextChain = None\<rparr>)" "brk h' = Suc (brk h)"
    "heap_ok h'" "untouched b h h'" by auto
qed

lemma start_chain:
  assumes "protos_ok b protos h" and "heap_ok h" and "b \<le> brk h" and "logicChainGroup m = Some k"
    and "clone (the (protos m)) h = (a, h')"
  shows "growing b protos h' [a] [k]" "untouched b h h'"
  using clone_proto [OF assms] assms(1,3) protos_ok_untouched by (auto simp: growing_def)

lemma grow_chain:
  assumes "growing b protos h as ks" and "logicChainGroup m = Some k"
    and "clone (the (protos m)) h = (new, h1)" and "appendNext (last as) new h1 = (x, h2)"
  shows "growing b protos h2 (as @ [new]) (ks @ [k])" "untouched b h h2"
proof -
  have g: "heap_ok h" "protos_ok b protos h" "b \<le> brk h" "linked h as ks" "as \<noteq> []" "\<forall>a \<in> set as. b \<le> a \<and> a < brk h"
    using assms(1) by (auto simp: growing_def)
  note c = clone_proto [OF g(2,1,3) assms(2,3)]
  obtain k' where l: "nodes h (last as) = Some \<lparr>node_kind = k', nextChain = None\<rparr>" using linked_last [OF g(4,5)] by blast
  have last: "last as \<in> set as" using g(5) by simp
  then have lh: "nodes h1 (last as) = Some \<lparr>node_kind = k', nextChain = None\<rparr>" using l c(1,2) g(6) by auto
  note a = appendNext_props [OF assms(4) lh c(4)]
  have "linked h1 as ks" by (rule linked_cong [OF g(4)]) (use g(6) c(1,2) in auto)
  then have "linked h2 (as @ [new]) (ks @ [k])"
    by (rule linked_snoc [OF _ g(5) _ _ lh a(2)]) (use c(1,2) g(6) in auto)
  moreover have "untouched b h h2" using c(5) a(5) last g(6) by (blast intro: untouched_trans)
  ultimately show "growing b protos h2 (as @ [new]) (ks @ [k])" "untouched b h h2"
    using c(1,3) a(3,4) g protos_ok_untouched by (auto simp: growing_def)
qed

lemma link_models_grows:
  assumes "growing b protos h as ks" and "link_models protos ms (last as) h = (c, h')"
  shows "\<exists>as'. growing b protos h' (as @ as') (ks @ List.map_filter logicChainGroup ms) \<and> c = last (as @ as') \<and> untouched b h h'"
  using assms
proof (induction ms arbitrary: as ks h)
  case Nil
  then show ?case by (intro exI [of _ "[]"]) (simp add: List.map_filter_simps)
next
  case (Cons m ms)
  have po: "protos_ok b protos h" using Cons.prems(1) by (simp add: growing_def)
  show ?case
  proof (cases "logicChainGroup m")
    case None
    then have "protos m = None" by (rule protos_okD(1) [OF po])
    with Cons None show ?thesis by (simp add: List.map_filter_simps)
  next
    case (Some k)
    then obtain a where a: "protos m = Some a" using protos_okD(2) [OF po] by blast
    obtain new h1 where cl: "clone a h = (new, h1)" by fastforce
    obtain x h2 where ap: "appendNext (last as) new h1 = (x, h2)" by fastforce
    have g: "growing b protos h2 (as @ [new]) (ks @ [k])" "untouched b h h2"
      using grow_chain [OF Cons.prems(1) Some _ ap] cl a by simp_all
    have "link_models protos ms (last (as @ [new])) h2 = (c, h')" using Cons.prems(2) a cl ap by simp
    from Cons.IH [OF g(1) this] obtain as' where
      "growing b protos h' (as @ new # as') (ks @ k # List.map_filter logicChainGroup ms)"
      "c = last (as @ new # as')" "untouched b h2 h'" by auto
    then show ?thesis
      using g(2) Some by (intro exI [of _ "new # as'"]) (auto simp: List.map_filter_simps intro: untouched_trans)
  qed
qed

lemma ruleModel_group: "logicChainGroup (ruleModel n) = Some n"
  by (cases n) (simp_all add: ruleModel_def logicChainGroup_def)

lemma default_rule: "logicChainGroup RuleDefault = Some defaultChain"
  by (simp add: logicChainGroup_def)

lemma open_chain_grows:
  assumes "factory_ok protos h" and "open_chain protos ruleModels h = (p, h')"
  shows "\<exists>as. growing (brk h) protos h' as (chain_of ruleModels) \<and> hd as = p \<and> untouched (brk h) h h'"
proof -
  have ok: "protos_ok (brk h) protos h" "heap_ok h" "brk h \<le> brk h" using assms(1) by (simp_all add: factory_ok_def)
  have alone: ?thesis if "clone (the (protos RuleDefault)) h = (p, h')" "chain_of ruleModels = [defaultChain]"
    using start_chain [OF ok default_rule that(1)] that(2) by (intro exI [of _ "[p]"]) simp
  show ?thesis
  proof (cases ruleModels)
    case Nil
    with alone assms(2) show ?thesis by (simp add: open_chain_def chain_of_def)
  next
    case (Cons m ms)
    show ?thesis
    proof (cases "logicChainGroup m")
      case None
      with alone assms(2) Cons protos_okD(1) [OF ok(1)] show ?thesis by (simp add: open_chain_def chain_of_def)
    next
      case (Some k)
      then obtain a where a: "protos m = Some a" using protos_okD(2) [OF ok(1)] by blast
      obtain h1 chain h2 dn h3 x where
        cl: "clone a h = (p, h1)" and lk: "link_models protos ms p h1 = (chain, h2)" and
        cd: "clone (the (protos RuleDefault)) h2 = (dn, h3)" and ap: "appendNext chain dn h3 = (x, h')"
        using assms(2) by (auto simp: open_chain_def Cons a Let_def split: prod.splits)
      have s: "growing (brk h) protos h1 [p] [k]" "untouched (brk h) h h1"
        using start_chain [OF ok Some] cl a by simp_all
      from link_models_grows [OF s(1), of ms chain h2] lk obtain as' where
        l: "growing (brk h) protos h2 (p # as') (k # List.map_filter logicChainGroup ms)"
           "chain = last (p # as')" "untouched (brk h) h1 h2" by auto
      from grow_chain [OF l(1) default_rule cd] ap l(2)
      have "growing (brk h) protos h' (p # as' @ [dn]) (chain_of ruleModels)" "untouched (brk h) h2 h'"
        by (simp_all add: chain_of_def Cons Some)
      with s(2) l(3) show ?thesis by (intro exI [of _ "p # as' @ [dn]"]) (auto intro: untouched_trans)
    qed
  qed
qed

lemma chain_at_untouched:
  "heap_ok h \<Longrightarrow> untouched (brk h) h h' \<Longrightarrow> chain_at h q ks \<Longrightarrow> chain_at h' q ks"
proof (induction ks arbitrary: q)
  case (Cons k ks)
  then obtain a n where a: "q = Some a" "nodes h a = Some n" "node_kind n = k" "chain_at h (nextChain n) ks"
    by (auto split: option.splits)
  then have "a < brk h" using Cons.prems(1) by (metis heap_ok_def leI option.distinct(1))
  then have "nodes h' a = Some n" using Cons.prems(2) a(2) by (simp add: untouched_def)
  with a Cons.IH [OF Cons.prems(1,2) a(4)] show ?case by simp
qed simp

lemma protos_ok_mono: "protos_ok b protos h \<Longrightarrow> b \<le> b' \<Longrightarrow> protos_ok b' protos h"
  unfolding protos_ok_def by (fastforce split: option.split_asm option.split)

text \<open>
  C34. The chain of a request: whatever models the strategy names, the linked nodes that
  \<open>openLogicChain\<close> returns are exactly the chain \<open>chain_of\<close> that the raffle walks through, ending in nil;
  no node that existed before is written, so that the prototypes of the factory stay as they were (the
  next request finds the same factory) and so do the chains of all other requests.
\<close>

theorem open_chain_refines:
  assumes "factory_ok protos h" and "open_chain protos ruleModels h = (p, h')"
  shows "chain_at h' (Some p) (chain_of ruleModels) \<and> brk h \<le> p \<and> factory_ok protos h' \<and>
    (\<forall>a < brk h. nodes h' a = nodes h a) \<and> (\<forall>q ks. chain_at h q ks \<longrightarrow> chain_at h' q ks)"
proof -
  obtain as where g: "growing (brk h) protos h' as (chain_of ruleModels)" "hd as = p" "untouched (brk h) h h'"
    using open_chain_grows [OF assms] by blast
  then have p: "as = p # tl as" "p \<in> set as" by (auto simp: growing_def neq_Nil_conv)
  have "chain_at h' (Some p) (chain_of ruleModels)"
    using linked_chain [of h' as "chain_of ruleModels"] g(1) p(1) by (auto simp: growing_def split: list.splits)
  moreover have "factory_ok protos h'"
    using g(1,3) protos_ok_mono by (auto simp: growing_def factory_ok_def)
  moreover have "\<forall>q ks. chain_at h q ks \<longrightarrow> chain_at h' q ks"
    using chain_at_untouched [OF _ g(3)] assms(1) by (simp add: factory_ok_def)
  ultimately show ?thesis using g p(2) by (simp add: growing_def untouched_def)
qed

text \<open>A fresh factory, and a request whose strategy names two rules and one that does not exist.\<close>

definition demo_heap :: "logicNode heap" where
  "demo_heap = \<lparr>nodes = Map.empty, brk = 0\<rparr>"

theorem open_chain_refines_witness:
  "factory_ok (fst (newLogicFactory demo_heap)) (snd (newLogicFactory demo_heap)) \<and>
   chain_at (snd (open_chain (fst (newLogicFactory demo_heap)) [RuleBlacklist, ''rule_other'', RuleWeight] (snd (newLogicFactory demo_heap))))
     (Some 3) [ruleBlackListLogic, ruleWeightLogic, defaultChain]"
proof -
  let ?f = "fst (newLogicFactory demo_heap)" and ?h = "snd (newLogicFactory demo_heap)" and ?ms = "[RuleBlacklist, ''rule_other'', RuleWeight]"
  have ok: "factory_ok ?f ?h"
    using newLogicFactory_ok [of demo_heap ?f ?h] by (simp add: heap_ok_def demo_heap_def)
  obtain p h' where o: "open_chain ?f ?ms ?h = (p, h')" by fastforce
  have "fst (open_chain ?f ?ms ?h) = 3" by code_simp
  then have "p = 3" using o by simp
  moreover have "chain_of ?ms = [ruleBlackListLogic, ruleWeightLogic, defaultChain]" by code_simp
  ultimately show ?thesis using open_chain_refines [OF ok o] ok o by simp
qed

text \<open>The action chain is the list of its two nodes, newly allocated for each request.\<close>

lemma open_action_chain_refines:
  assumes "heap_ok h" and "open_action_chain h = (p, h')"
  shows "chain_at h' (Some p) OpenLogicChain \<and> untouched (brk h) h h' \<and> heap_ok h'"
  using assms
  by (auto simp: open_action_chain_def newBaseActionChain_def newSkuStockActionChain_def alloc_def appendNext_def
      OpenLogicChain_def untouched_def heap_ok_def)

end
