(* ===== verification/Sha256.thy ===== *)
theory Sha256
  imports Go_Text "HOL-Library.Word"
begin

text \<open>
  The parts of the standard library that \<open>internal/server/middleware/auth.go\<close> computes signatures with:
  \<open>crypto/sha256\<close>, \<open>crypto/hmac\<close>, \<open>encoding/hex\<close> and \<open>encoding/base64\<close>, on byte strings.
\<close>

unbundle bit_operations_syntax

section \<open>SHA-256\<close>

text \<open>
  The constants: the first 32 bits of the fractional parts of the cube roots of the first 64 primes
  (rounds) and of the square roots of the first eight (initial state). \<open>root_bits k b n r\<close> finds the
  integer \<open>k\<close>-th root of \<open>n\<close> bit by bit.
\<close>

fun root_bits :: "nat \<Rightarrow> nat \<Rightarrow> nat \<Rightarrow> nat \<Rightarrow> nat" where
  "root_bits k 0 n r = r"
| "root_bits k (Suc b) n r = root_bits k b n (if (r + 2 ^ b) ^ k \<le> n then r + 2 ^ b else r)"

definition small_primes :: "nat list" where
  "small_primes = filter (\<lambda>n. list_all (\<lambda>d. n mod d \<noteq> 0) [2..<n]) [2..<312]"

definition round_constants :: "32 word list" where
  "round_constants = map (\<lambda>p. of_nat (root_bits 3 36 (p * 2 ^ 96) 0)) small_primes"

definition initial_state :: "32 word list" where
  "initial_state = map (\<lambda>p. of_nat (root_bits 2 36 (p * 2 ^ 64) 0)) (take 8 small_primes)"

definition rotr :: "nat \<Rightarrow> 32 word \<Rightarrow> 32 word" where
  "rotr n x = drop_bit n x OR push_bit (32 - n) x"

definition big_endian :: "char list \<Rightarrow> 32 word" where
  "big_endian cs = foldl (\<lambda>a c. push_bit 8 a OR of_char c) 0 cs"

definition bytes_of_word :: "32 word \<Rightarrow> char list" where
  "bytes_of_word x = map (\<lambda>n. char_of (unat (drop_bit n x AND 0xff))) [24, 16, 8, 0]"

fun chunks :: "nat \<Rightarrow> 'a list \<Rightarrow> 'a list list" where
  "chunks n [] = []"
| "chunks n (x # xs) = take (Suc n) (x # xs) # chunks n (drop n xs)"

text \<open>The message schedule: sixteen words of the block, extended to sixty-four.\<close>

fun extend :: "nat \<Rightarrow> 32 word list \<Rightarrow> 32 word list" where
  "extend 0 ws = ws"
| "extend (Suc k) ws =
     (let n = length ws; w15 = ws ! (n - 15); w2 = ws ! (n - 2);
          s0 = rotr 7 w15 XOR rotr 18 w15 XOR drop_bit 3 w15;
          s1 = rotr 17 w2 XOR rotr 19 w2 XOR drop_bit 10 w2
      in extend k (ws @ [ws ! (n - 16) + s0 + ws ! (n - 7) + s1]))"

definition sha_round :: "32 word list \<Rightarrow> 32 word \<times> 32 word \<Rightarrow> 32 word list" where
  "sha_round st kw =
     (case (st, kw) of
        ([a, b, c, d, e, f, g, h], (k, w)) \<Rightarrow>
          let s1 = rotr 6 e XOR rotr 11 e XOR rotr 25 e;
              ch = (e AND f) XOR (NOT e AND g);
              t1 = h + s1 + ch + k + w;
              s0 = rotr 2 a XOR rotr 13 a XOR rotr 22 a;
              maj = (a AND b) XOR (a AND c) XOR (b AND c)
          in [t1 + (s0 + maj), a, b, c, d + t1, e, f, g]
      | _ \<Rightarrow> st)"

definition sha_block :: "32 word list \<Rightarrow> char list \<Rightarrow> 32 word list" where
  "sha_block st block =
     (let ws = extend 48 (map big_endian (chunks 3 block))
      in map2 (+) st (foldl sha_round st (zip round_constants ws)))"

definition sha_pad :: "char list \<Rightarrow> char list" where
  "sha_pad msg =
     (let n = length msg; bits = 8 * n
      in msg @ CHR 0x80 # replicate ((119 - n mod 64) mod 64) (CHR 0x00) @
         map (\<lambda>k. char_of (bits div 256 ^ k mod 256)) [7, 6, 5, 4, 3, 2, 1, 0])"

definition Sum256 :: "char list \<Rightarrow> char list" where
  "Sum256 msg = concat (map bytes_of_word (foldl sha_block initial_state (chunks 63 (sha_pad msg))))"

section \<open>HMAC\<close>

definition xor_byte :: "nat \<Rightarrow> char \<Rightarrow> char" where
  "xor_byte n c = char_of (n XOR of_char c)"

definition hmac :: "char list \<Rightarrow> char list \<Rightarrow> char list" where
  "hmac secret msg =
     (let k0 = (if length secret > 64 then Sum256 secret else secret);
          k = k0 @ replicate (64 - length k0) (CHR 0x00)
      in Sum256 (map (xor_byte 0x5c) k @ Sum256 (map (xor_byte 0x36) k @ msg)))"

section \<open>Hexadecimal and base 64\<close>

definition hex_val :: "char \<Rightarrow> nat option" where
  "hex_val c =
     (let n = of_char c :: nat
      in if 48 \<le> n \<and> n \<le> 57 then Some (n - 48)
         else if 97 \<le> n \<and> n \<le> 102 then Some (n - 87)
         else if 65 \<le> n \<and> n \<le> 70 then Some (n - 55) else None)"

fun hex_decode :: "string \<Rightarrow> string option" where
  "hex_decode [] = Some []"
| "hex_decode [c] = None"
| "hex_decode (c # d # cs) =
     (case (hex_val c, hex_val d, hex_decode cs) of
        (Some h, Some l, Some bs) \<Rightarrow> Some (char_of (16 * h + l) # bs)
      | _ \<Rightarrow> None)"

definition hex_digit :: "nat \<Rightarrow> char" where
  "hex_digit n = char_of (if n < 10 then 48 + n else 87 + n)"

definition hex_encode :: "string \<Rightarrow> string" where
  "hex_encode bs = concat (map (\<lambda>c. let n = of_char c :: nat in [hex_digit (n div 16), hex_digit (n mod 16)]) bs)"

definition base64_val :: "char \<Rightarrow> nat option" where
  "base64_val c =
     (let n = of_char c :: nat
      in if 65 \<le> n \<and> n \<le> 90 then Some (n - 65)
         else if 97 \<le> n \<and> n \<le> 122 then Some (n - 71)
         else if 48 \<le> n \<and> n \<le> 57 then Some (n + 4)
         else if n = 43 then Some 62 else if n = 47 then Some 63 else None)"

text \<open>\<open>base64.StdEncoding.DecodeString\<close>: line breaks are skipped, the last quantum is padded.\<close>

fun base64_quanta :: "string \<Rightarrow> string option" where
  "base64_quanta [] = Some []"
| "base64_quanta (a # b # c # d # cs) =
     (case (base64_val a, base64_val b, base64_val c, base64_val d) of
        (Some w, Some x, Some y, Some z) \<Rightarrow>
          map_option (\<lambda>bs. char_of (4 * w + x div 16) # char_of (16 * (x mod 16) + y div 4) # char_of (64 * (y mod 4) + z) # bs)
            (base64_quanta cs)
      | (Some w, Some x, Some y, None) \<Rightarrow>
          if d = CHR ''='' \<and> cs = [] then Some [char_of (4 * w + x div 16), char_of (16 * (x mod 16) + y div 4)] else None
      | (Some w, Some x, None, None) \<Rightarrow>
          if c = CHR ''='' \<and> d = CHR ''='' \<and> cs = [] then Some [char_of (4 * w + x div 16)] else None
      | _ \<Rightarrow> None)"
| "base64_quanta _ = None"

definition base64_decode :: "string \<Rightarrow> string option" where
  "base64_decode s = base64_quanta (filter (\<lambda>c. c \<noteq> CHR 0x0A \<and> c \<noteq> CHR 0x0D) s)"

section \<open>Lemmas\<close>

lemma length_sha_round [simp]: "length (sha_round st kw) = length st"
  by (auto simp: sha_round_def Let_def split: list.splits prod.splits)

lemma length_sha_rounds [simp]: "length (foldl sha_round st kws) = length st"
  by (induction kws arbitrary: st) simp_all

lemma length_sha_block [simp]: "length (sha_block st b) = length st"
  by (simp add: sha_block_def Let_def)

lemma length_sha_blocks [simp]: "length (foldl sha_block st bs) = length st"
  by (induction bs arbitrary: st) simp_all

lemma length_words [simp]: "length (concat (map bytes_of_word ws)) = 4 * length ws"
  by (induction ws) (simp_all add: bytes_of_word_def)

lemma length_initial_state [simp]: "length initial_state = 8"
proof -
  let ?prime = "\<lambda>n. list_all (\<lambda>d. n mod d \<noteq> 0) [2..<n :: nat]"
  have parts: "[2..<312] = [2..<20] @ [20..<312::nat]" using upt_add_eq_append [of 2 20 292] by (simp only: numeral_plus_numeral add_num_simps)
  have "length small_primes = length (filter ?prime [2..<20]) + length (filter ?prime [20..<312])"
    by (simp only: small_primes_def parts filter_append length_append)
  moreover have "length (filter ?prime [2..<20]) = 8" by simp
  ultimately have "8 \<le> length small_primes" by linarith
  then show ?thesis by (simp add: initial_state_def)
qed

lemma length_Sum256 [simp]: "length (Sum256 msg) = 32"
  by (simp add: Sum256_def)

lemma length_hmac [simp]: "length (hmac secret msg) = 32"
  by (simp add: hmac_def Let_def)

definition is_hex :: "char \<Rightarrow> bool" where
  "is_hex c \<longleftrightarrow> hex_val c \<noteq> None"

lemma of_char_less [simp]: "(of_char c :: nat) < 256"
  by (metis of_char_mod_256 mod_less_divisor zero_less_numeral)

lemma hex_val_digit: "n < 16 \<Longrightarrow> hex_val (hex_digit n) = Some n"
  by (auto simp: hex_val_def hex_digit_def Let_def)

lemma hex_roundtrip: "hex_decode (hex_encode bs) = Some bs"
proof (induction bs)
  case Nil
  then show ?case by (simp add: hex_encode_def)
next
  case (Cons c bs)
  let ?n = "of_char c :: nat"
  have "?n div 16 < 16" "?n mod 16 < 16" using of_char_less [of c] by (auto simp del: of_char_less)
  moreover have "char_of (16 * (?n div 16) + ?n mod 16) = c" by simp
  ultimately show ?case using Cons by (simp add: hex_encode_def Let_def hex_val_digit)
qed

lemma length_hex_encode [simp]: "length (hex_encode bs) = 2 * length bs"
  by (induction bs) (simp_all add: hex_encode_def Let_def)

lemma hex_encode_hex: "c \<in> set (hex_encode bs) \<Longrightarrow> is_hex c"
proof -
  assume "c \<in> set (hex_encode bs)"
  then obtain b where "c = hex_digit (of_char b div 16) \<or> c = hex_digit (of_char b mod 16)"
    by (auto simp: hex_encode_def Let_def)
  moreover have "(of_char b :: nat) div 16 < 16" using of_char_less [of b] by (simp del: of_char_less)
  ultimately show ?thesis by (auto simp: is_hex_def hex_val_digit)
qed

end
