(* ===== verification/Auth.thy ===== *)
theory Auth
  imports Sha256 Float64 Services "HOL-Library.List_Lexorder" "HOL-Library.Char_ord"
begin

text \<open>
  The authentication middleware of \<open>internal/server/middleware/auth.go\<close>: its options and their
  defaults, the three sources of an identity (gateway headers signed with HMAC-SHA-256, a JWT, a
  session), the checks each makes, and the middleware that lets a handler run only with an identity
  in its context. Strings are bytes. The JWT library, \<open>time.Parse(time.RFC3339, _)\<close>, the \<open>%v\<close> form
  of a float and \<open>unicode.ToLower\<close> are parameters (\<open>auth_env\<close>).
\<close>

section \<open>Data\<close>

datatype AuthSource = AuthSourceGateway | AuthSourceJWT | AuthSourceSession | OtherSource string

definition defaultAuthorizationHeader :: string where "defaultAuthorizationHeader = ''Authorization''"
definition defaultBearerPrefix :: string where "defaultBearerPrefix = ''Bearer ''"
definition defaultDeviceHeader :: string where "defaultDeviceHeader = ''X-Device-Id''"
definition defaultSessionHeader :: string where "defaultSessionHeader = ''X-Session-Id''"
definition defaultGatewayUserHeader :: string where "defaultGatewayUserHeader = ''X-User-Id''"
definition defaultGatewayIssuerHeader :: string where "defaultGatewayIssuerHeader = ''X-Auth-Issuer''"
definition defaultGatewayAudience :: string where "defaultGatewayAudience = ''X-Auth-Audience''"
definition defaultGatewayExpireHeader :: string where "defaultGatewayExpireHeader = ''X-Auth-Expires-At''"
definition defaultGatewaySignHeader :: string where "defaultGatewaySignHeader = ''X-Auth-Signature''"
definition defaultGatewayTimeHeader :: string where "defaultGatewayTimeHeader = ''X-Auth-Timestamp''"
definition defaultGatewayNonceHeader :: string where "defaultGatewayNonceHeader = ''X-Auth-Nonce''"

record AuthInfo =
  ai_UserID :: string
  ai_SessionID :: string
  ai_DeviceID :: string
  ai_Issuer :: string
  ai_Audience :: "string list"
  ai_Source :: AuthSource
  ai_Subject :: string
  ai_ExpiresAt :: time
  ai_TokenID :: string
  ai_RawToken :: string

text \<open>
  A kratos transport as the middleware reads it: \<open>RequestHeader().Get\<close>, \<open>Operation()\<close>, \<open>Kind()\<close> and, for an
  HTTP transport with a request, the value of a cookie (\<open>None\<close> is \<open>ErrNoCookie\<close>).
\<close>

record transport =
  tr_Get :: "string \<Rightarrow> string"
  tr_Operation :: string
  tr_Kind :: string
  tr_Cookie :: "(string \<Rightarrow> string option) option"

record SessionValidateRequest =
  sv_SessionID :: string
  sv_DeviceID :: string
  sv_Transport :: transport

record GatewaySignatureRequest =
  gs_Canonical :: string
  gs_Signature :: string
  gs_Header :: "string \<Rightarrow> string"
  gs_AuthInfo :: AuthInfo

text \<open>The context of a request: the transport kratos put there and the value under \<open>authContextKey\<close>.\<close>

record request_ctx =
  ctx_transport :: "transport option"
  ctx_auth :: "AuthInfo option"

type_synonym 'w SessionValidator = "request_ctx \<Rightarrow> SessionValidateRequest \<Rightarrow> (AuthInfo option, 'w) act"

type_synonym 'w GatewaySignatureValidator = "request_ctx \<Rightarrow> GatewaySignatureRequest \<Rightarrow> (unit, 'w) act"

text \<open>A claim of a token by its dynamic type: what JSON decoding stores, and the other types the
  code distinguishes.\<close>

datatype claim = CJson json_value | CInt64 int | CInt int | CStringer string | CStrings "string list"

type_synonym claims = "string \<rightharpoonup> claim"

record jwt_token =
  tok_Alg :: string
  tok_Valid :: bool

datatype ParserOption =
    WithTimeFunc time
  | WithValidMethods "string list"
  | WithIssuer string
  | WithAudience "string list"
  | WithLeeway int
  | WithExpirationRequired

record 'k JWTOptions =
  jo_Enabled :: bool
  jo_Header :: string
  jo_Prefix :: string
  jo_CookieNames :: "string list"
  jo_KeyFunc :: "(jwt_token \<Rightarrow> 'k res) option"
  jo_SigningKey :: "'k option"
  jo_SigningMethods :: "string list"
  jo_Issuer :: string
  jo_Audience :: "string list"
  jo_DeviceHeader :: string
  jo_DeviceClaim :: string
  jo_UserIDClaims :: "string list"
  jo_SessionIDClaim :: string
  jo_RequireExpiresAt :: bool
  jo_ClockSkew :: int

record 'w SessionOptions =
  so_Enabled :: bool
  so_HeaderNames :: "string list"
  so_CookieNames :: "string list"
  so_DeviceHeader :: string
  so_Validator :: "'w SessionValidator option"
  so_Issuer :: string
  so_Audience :: "string list"
  so_ClockSkew :: int
  so_RequireDevice :: bool
  so_RequireExpires :: bool

record 'w GatewayOptions =
  go_Enabled :: bool
  go_UserIDHeader :: string
  go_SessionHeader :: string
  go_DeviceHeader :: string
  go_IssuerHeader :: string
  go_AudienceHeader :: string
  go_ExpireHeader :: string
  go_SignatureHeader :: string
  go_TimestampHeader :: string
  go_NonceHeader :: string
  go_SignatureSecret :: string
  go_SignatureValidator :: "'w GatewaySignatureValidator option"
  go_Issuer :: string
  go_Audience :: "string list"
  go_ClockSkew :: int
  go_RequireDevice :: bool
  go_RequireExpires :: bool

record ('k, 'w) AuthOptions =
  ao_Skipper :: "(request_ctx \<Rightarrow> transport \<Rightarrow> bool) option"
  ao_Now :: "('w \<Rightarrow> time) option"
  ao_Sources :: "AuthSource list"
  ao_JWT :: "'k JWTOptions"
  ao_Session :: "'w SessionOptions"
  ao_Gateway :: "'w GatewayOptions"

text \<open>
  What the middleware calls: \<open>jwt.ParseWithClaims\<close>, which answers the token and the claims it
  decoded, \<open>time.Parse(time.RFC3339, _)\<close>, \<open>fmt.Sprint\<close> of a float, \<open>unicode.ToLower\<close> on a string
  that is not ASCII, and \<open>time.Now\<close>.
\<close>

record ('k, 'w) auth_env =
  env_ParseWithClaims :: "string \<Rightarrow> (jwt_token \<Rightarrow> 'k res) \<Rightarrow> ParserOption list \<Rightarrow> (jwt_token option \<times> claims) res"
  env_ParseRFC3339 :: "string \<Rightarrow> time option"
  env_SprintFloat :: "float64 \<Rightarrow> string"
  env_lower :: "string \<Rightarrow> string"
  env_Now :: "'w \<Rightarrow> time"

section \<open>Strings and times\<close>

text \<open>\<open>strings.ToLower\<close>: a fast path for ASCII.\<close>

definition ascii :: "string \<Rightarrow> bool" where
  "ascii s \<longleftrightarrow> list_all (\<lambda>c. (of_char c :: nat) < 128) s"

definition strings_ToLower :: "('k, 'w) auth_env \<Rightarrow> string \<Rightarrow> string" where
  "strings_ToLower env s = (if ascii s then ToLower s else env_lower env s)"

text \<open>\<open>time.Unix(sec, 0)\<close> counts the seconds from year 1 in an \<open>int64\<close>, which wraps.\<close>

definition wrap64 :: "int \<Rightarrow> int" where
  "wrap64 n = (n + 2 ^ 63) mod 2 ^ 64 - 2 ^ 63"

definition time_Unix :: "int \<Rightarrow> time" where
  "time_Unix sec = (wrap64 (sec + 62135596800) - 62135596800) * second"

definition parseHeaderTime :: "('k, 'w) auth_env \<Rightarrow> string \<Rightarrow> time" where
  "parseHeaderTime env value0 =
     (let value = TrimSpace value0
      in if value = '''' then zero_time
         else case ParseInt value of
                Ok unixSecond \<Rightarrow> time_Unix unixSecond
              | _ \<Rightarrow> (case env_ParseRFC3339 env value of Some parsed \<Rightarrow> parsed | None \<Rightarrow> zero_time))"

fun trimSlice :: "string list \<Rightarrow> string list" where
  "trimSlice [] = []"
| "trimSlice (item # items) =
     (let item = TrimSpace item in if item \<noteq> '''' then item # trimSlice items else trimSlice items)"

text \<open>\<open>sep\<close> is one byte in every call.\<close>

definition splitAndTrim :: "string \<Rightarrow> char \<Rightarrow> string list" where
  "splitAndTrim value sep = (if TrimSpace value = '''' then [] else trimSlice (split sep value))"

definition containsString :: "string list \<Rightarrow> string \<Rightarrow> bool" where
  "containsString items target \<longleftrightarrow> target \<in> set items"

definition isHexString :: "string \<Rightarrow> bool" where
  "isHexString value \<longleftrightarrow>
     \<not> (length value mod 2 \<noteq> 0 \<or> value = '''') \<and>
     list_all (\<lambda>r. \<not> ((r < 48 \<or> r > 57) \<and> (r < 97 \<or> r > 102) \<and> (r < 65 \<or> r > 70))) (runes value)"

definition errOrLast :: "gerr option \<Rightarrow> gerr option \<Rightarrow> gerr option" where
  "errOrLast current lastErr = (if current \<noteq> None then current else lastErr)"

text \<open>\<open>kerrors.Unauthorized\<close>: the code and the reason; the message of an error is not part of the model.\<close>

definition unauthorizedError :: "string \<Rightarrow> gerr" where
  "unauthorizedError message = KErr 401 ''UNAUTHORIZED'' None"

text \<open>\<open>fmt.Sprint\<close> of a decoded JSON value; maps are printed in the order of their keys.\<close>

fun json_Sprint :: "(float64 \<Rightarrow> string) \<Rightarrow> json_value \<Rightarrow> string" where
  "json_Sprint ff JNull = ''<nil>''"
| "json_Sprint ff (JBool b) = (if b then ''true'' else ''false'')"
| "json_Sprint ff (JNumber x) = ff x"
| "json_Sprint ff (JString s) = s"
| "json_Sprint ff (JArray vs) = ''['' @ join '' '' (map (json_Sprint ff) vs) @ '']''"
| "json_Sprint ff (JObject kvs) =
     ''map['' @ join '' '' (map (\<lambda>(k, s). k @ '':'' @ s) (sort_key fst (map (\<lambda>(k, v). (k, json_Sprint ff v)) kvs))) @ '']''"

section \<open>Claims\<close>

definition readStringClaim :: "('k, 'w) auth_env \<Rightarrow> claims \<Rightarrow> string \<Rightarrow> string" where
  "readStringClaim env cl key =
     (case cl key of
        None \<Rightarrow> ''''
      | Some (CJson (JString v)) \<Rightarrow> TrimSpace v
      | Some (CStringer v) \<Rightarrow> TrimSpace v
      | Some (CJson (JNumber v)) \<Rightarrow> FormatInt (to_int v)
      | Some (CInt64 v) \<Rightarrow> FormatInt v
      | Some (CInt v) \<Rightarrow> TrimSpace (FormatInt v)
      | Some (CStrings vs) \<Rightarrow> TrimSpace (''['' @ join '' '' vs @ '']'')
      | Some (CJson v) \<Rightarrow> TrimSpace (json_Sprint (env_SprintFloat env) v))"

fun extractUserIDClaim :: "('k, 'w) auth_env \<Rightarrow> claims \<Rightarrow> string list \<Rightarrow> string res" where
  "extractUserIDClaim env cl [] = Err (GoErr ''jwt user id claim is missing'')"
| "extractUserIDClaim env cl (key # claimKeys) =
     (let value = readStringClaim env cl key
      in if value \<noteq> '''' then Ok value else extractUserIDClaim env cl claimKeys)"

definition extractRequiredStringClaim :: "('k, 'w) auth_env \<Rightarrow> claims \<Rightarrow> string \<Rightarrow> string res" where
  "extractRequiredStringClaim env cl key =
     (let value = readStringClaim env cl key
      in if value = '''' then Err (GoErr (''jwt claim '' @ key @ '' is missing'')) else Ok value)"

definition readTimeClaim :: "('k, 'w) auth_env \<Rightarrow> claim option \<Rightarrow> time" where
  "readTimeClaim env raw =
     (case raw of
        Some (CJson (JNumber v)) \<Rightarrow> time_Unix (to_int v)
      | Some (CInt64 v) \<Rightarrow> time_Unix v
      | Some (CInt v) \<Rightarrow> time_Unix v
      | Some (CStringer v) \<Rightarrow> (case ParseInt v of Ok sec \<Rightarrow> time_Unix sec | _ \<Rightarrow> zero_time)
      | Some (CJson (JString v)) \<Rightarrow> parseHeaderTime env v
      | _ \<Rightarrow> zero_time)"

definition normalizeAudienceClaim :: "('k, 'w) auth_env \<Rightarrow> claim option \<Rightarrow> string list" where
  "normalizeAudienceClaim env raw =
     (case raw of
        Some (CStrings v) \<Rightarrow> trimSlice v
      | Some (CJson (JArray v)) \<Rightarrow>
          filter (\<lambda>text. text \<noteq> '''') (map (\<lambda>item. TrimSpace (json_Sprint (env_SprintFloat env) item)) v)
      | Some (CJson (JString v)) \<Rightarrow> splitAndTrim v (CHR '','')
      | _ \<Rightarrow> [])"

section \<open>Checks\<close>

text \<open>An \<open>error\<close> is \<open>None\<close> for nil.\<close>

definition validateDeviceHeader :: "(string \<Rightarrow> string) \<Rightarrow> string \<Rightarrow> string \<Rightarrow> gerr option" where
  "validateDeviceHeader header headerName expected =
     (let actual = TrimSpace (header headerName)
      in if actual = '''' then Some (GoErr (''request device header '' @ headerName @ '' is empty''))
         else if actual \<noteq> expected then Some (GoErr (''request device header '' @ headerName @ '' does not match token claim''))
         else None)"

definition validateOptionalDeviceHeader :: "(string \<Rightarrow> string) \<Rightarrow> string \<Rightarrow> string \<Rightarrow> gerr option" where
  "validateOptionalDeviceHeader header headerName expected =
     (if expected = '''' then None else validateDeviceHeader header headerName expected)"

definition validateIssuer :: "string \<Rightarrow> string \<Rightarrow> gerr option" where
  "validateIssuer actual expected =
     (if expected = '''' then None
      else if TrimSpace actual \<noteq> expected then Some (GoErr ''issuer does not match'') else None)"

definition validateAudience :: "string list \<Rightarrow> string list \<Rightarrow> gerr option" where
  "validateAudience actual expected =
     (if expected = [] then None
      else let actualSet = set (filter (\<lambda>item. item \<noteq> '''') actual)
           in if list_ex (\<lambda>item. item \<in> actualSet) expected then None
              else Some (GoErr ''audience does not match''))"

definition validateExpiration :: "time \<Rightarrow> bool \<Rightarrow> int \<Rightarrow> time \<Rightarrow> gerr option" where
  "validateExpiration expireAt required clockSkew tnow =
     (if expireAt = zero_time then (if required then Some (GoErr ''expiration time is missing'') else None)
      else if \<not> expireAt > tnow - clockSkew then Some (GoErr ''authentication credential is expired'')
      else None)"

definition buildGatewayCanonicalString :: "(string \<Rightarrow> string) \<Rightarrow> AuthInfo \<Rightarrow> 'w GatewayOptions \<Rightarrow> string" where
  "buildGatewayCanonicalString header info cfg =
     (let values =
        [''user_id='' @ ai_UserID info,
         ''session_id='' @ ai_SessionID info,
         ''device_id='' @ ai_DeviceID info,
         ''issuer='' @ ai_Issuer info,
         ''audience='' @ join '','' (ai_Audience info),
         ''expires_at='' @ header (go_ExpireHeader cfg),
         ''timestamp='' @ header (go_TimestampHeader cfg),
         ''nonce='' @ header (go_NonceHeader cfg)]
      in join [CHR 0x0A] values)"

definition verifyGatewayHMACSignature :: "string \<Rightarrow> string \<Rightarrow> string \<Rightarrow> gerr option" where
  "verifyGatewayHMACSignature canonical signature0 secret =
     (let expected = hmac secret canonical;
          signature = TrimSpace signature0
      in if isHexString signature then
           (case hex_decode signature of
              None \<Rightarrow> Some (GoErr ''gateway signature is not valid hex'')
            | Some actual \<Rightarrow> if actual \<noteq> expected then Some (GoErr ''gateway signature does not match'') else None)
         else
           (case base64_decode signature of
              None \<Rightarrow> Some (GoErr ''gateway signature must be hex or base64'')
            | Some actual \<Rightarrow> if actual \<noteq> expected then Some (GoErr ''gateway signature does not match'') else None))"

section \<open>Defaults\<close>

definition or_default :: "string \<Rightarrow> string \<Rightarrow> string" where
  "or_default s d = (if s = '''' then d else s)"

definition withDefaults_JWT :: "'k JWTOptions \<Rightarrow> 'k JWTOptions" where
  "withDefaults_JWT o0 = o0
     \<lparr>jo_Header := or_default (jo_Header o0) defaultAuthorizationHeader,
      jo_Prefix := or_default (jo_Prefix o0) defaultBearerPrefix,
      jo_DeviceHeader := or_default (jo_DeviceHeader o0) defaultDeviceHeader,
      jo_DeviceClaim := or_default (jo_DeviceClaim o0) ''device_id'',
      jo_UserIDClaims := (if jo_UserIDClaims o0 = [] then [''user_id'', ''uid'', ''sub''] else jo_UserIDClaims o0),
      jo_SessionIDClaim := or_default (jo_SessionIDClaim o0) ''sid''\<rparr>"

definition withDefaults_Session :: "'w SessionOptions \<Rightarrow> 'w SessionOptions" where
  "withDefaults_Session o0 = o0
     \<lparr>so_HeaderNames := (if so_HeaderNames o0 = [] then [defaultSessionHeader] else so_HeaderNames o0),
      so_DeviceHeader := or_default (so_DeviceHeader o0) defaultDeviceHeader,
      so_ClockSkew := (if so_ClockSkew o0 \<le> 0 then 30 * second else so_ClockSkew o0),
      so_RequireExpires := (if \<not> so_RequireExpires o0 then True else so_RequireExpires o0),
      so_RequireDevice := (if \<not> so_RequireDevice o0 then True else so_RequireDevice o0)\<rparr>"

definition withDefaults_Gateway :: "'w GatewayOptions \<Rightarrow> 'w GatewayOptions" where
  "withDefaults_Gateway o0 = o0
     \<lparr>go_UserIDHeader := or_default (go_UserIDHeader o0) defaultGatewayUserHeader,
      go_SessionHeader := or_default (go_SessionHeader o0) defaultSessionHeader,
      go_DeviceHeader := or_default (go_DeviceHeader o0) defaultDeviceHeader,
      go_IssuerHeader := or_default (go_IssuerHeader o0) defaultGatewayIssuerHeader,
      go_AudienceHeader := or_default (go_AudienceHeader o0) defaultGatewayAudience,
      go_ExpireHeader := or_default (go_ExpireHeader o0) defaultGatewayExpireHeader,
      go_SignatureHeader := or_default (go_SignatureHeader o0) defaultGatewaySignHeader,
      go_TimestampHeader := or_default (go_TimestampHeader o0) defaultGatewayTimeHeader,
      go_NonceHeader := or_default (go_NonceHeader o0) defaultGatewayNonceHeader,
      go_ClockSkew := (if go_ClockSkew o0 \<le> 0 then 30 * second else go_ClockSkew o0),
      go_RequireExpires := (if \<not> go_RequireExpires o0 then True else go_RequireExpires o0),
      go_RequireDevice := (if \<not> go_RequireDevice o0 then True else go_RequireDevice o0)\<rparr>"

definition withDefaults :: "('k, 'w) auth_env \<Rightarrow> ('k, 'w) AuthOptions \<Rightarrow> ('k, 'w) AuthOptions" where
  "withDefaults env o0 = o0
     \<lparr>ao_Now := (case ao_Now o0 of None \<Rightarrow> Some (env_Now env) | Some f \<Rightarrow> Some f),
      ao_Sources := (if ao_Sources o0 = [] then [AuthSourceGateway, AuthSourceJWT, AuthSourceSession] else ao_Sources o0),
      ao_JWT := withDefaults_JWT (ao_JWT o0),
      ao_Session := withDefaults_Session (ao_Session o0),
      ao_Gateway := withDefaults_Gateway (ao_Gateway o0)\<rparr>"

section \<open>Credentials of a request\<close>

text \<open>\<open>value[len(prefix):]\<close> is out of bounds when the prefix is longer than the value, which
  lower-casing beyond ASCII allows.\<close>

definition stripBearerPrefix :: "('k, 'w) auth_env \<Rightarrow> string \<Rightarrow> string \<Rightarrow> string res" where
  "stripBearerPrefix env value pre =
     (if \<not> has_prefix (strings_ToLower env pre) (strings_ToLower env value) then
        Err (GoErr (''authorization header must use '' @ TrimSpace pre))
      else if length pre > length value then Panic ''slice bounds out of range''
      else let token = TrimSpace (drop (length pre) value)
           in if token = '''' then Err (GoErr ''authorization token is empty'') else Ok token)"

definition transportHTTPRequest :: "transport \<Rightarrow> (string \<Rightarrow> string option) option" where
  "transportHTTPRequest tr = tr_Cookie tr"

fun first_cookie :: "(string \<Rightarrow> string option) \<Rightarrow> string list \<Rightarrow> string \<times> bool" where
  "first_cookie req [] = ('''', False)"
| "first_cookie req (name # names) =
     (case req name of
        None \<Rightarrow> first_cookie req names
      | Some v \<Rightarrow> if TrimSpace v = '''' then first_cookie req names else (TrimSpace v, True))"

definition extractJWTToken :: "('k, 'w) auth_env \<Rightarrow> transport \<Rightarrow> 'k JWTOptions \<Rightarrow> (string \<times> bool) res" where
  "extractJWTToken env tr cfg =
     (let headerValue = TrimSpace (tr_Get tr (jo_Header cfg))
      in if headerValue \<noteq> '''' then
           (case stripBearerPrefix env headerValue (jo_Prefix cfg) of
              Err e \<Rightarrow> Ok ('''', True)
            | Ok token \<Rightarrow> Ok (token, True)
            | Panic s \<Rightarrow> Panic s)
         else
           (case transportHTTPRequest tr of
              None \<Rightarrow> Ok ('''', False)
            | Some req \<Rightarrow> Ok (first_cookie req (jo_CookieNames cfg))))"

fun first_header :: "(string \<Rightarrow> string) \<Rightarrow> string list \<Rightarrow> string option" where
  "first_header header [] = None"
| "first_header header (headerName # names) =
     (let value = TrimSpace (header headerName)
      in if value \<noteq> '''' then Some value else first_header header names)"

definition extractSessionID :: "transport \<Rightarrow> 'w SessionOptions \<Rightarrow> string \<times> bool" where
  "extractSessionID tr cfg =
     (case first_header (tr_Get tr) (so_HeaderNames cfg) of
        Some value \<Rightarrow> (value, True)
      | None \<Rightarrow>
          (case transportHTTPRequest tr of
             None \<Rightarrow> ('''', False)
           | Some req \<Rightarrow> first_cookie req (so_CookieNames cfg)))"

section \<open>The three sources\<close>

text \<open>\<open>(info, attempted, err)\<close>\<close>

type_synonym attempt = "AuthInfo option \<times> bool \<times> gerr option"

definition not_attempted :: "(attempt, 'w) act" where
  "not_attempted = ret (None, False, None)"

definition refuse :: "gerr \<Rightarrow> (attempt, 'w) act" where
  "refuse e = ret (None, True, Some e)"

definition accept :: "AuthInfo \<Rightarrow> (attempt, 'w) act" where
  "accept info = ret (Some info, True, None)"

text \<open>\<open>if err := m; err != nil { return nil, true, err }\<close>\<close>

definition unless_err :: "gerr option \<Rightarrow> (attempt, 'w) act \<Rightarrow> (attempt, 'w) act" where
  "unless_err err m = (case err of Some e \<Rightarrow> refuse e | None \<Rightarrow> m)"

definition jwt_keyFunc :: "'k JWTOptions \<Rightarrow> (jwt_token \<Rightarrow> 'k res) option" where
  "jwt_keyFunc cfg =
     (case jo_KeyFunc cfg of
        Some f \<Rightarrow> Some f
      | None \<Rightarrow>
          (case jo_SigningKey cfg of
             None \<Rightarrow> None
           | Some key \<Rightarrow>
               Some (\<lambda>token.
                 if jo_SigningMethods cfg \<noteq> [] \<and> \<not> containsString (jo_SigningMethods cfg) (tok_Alg token)
                 then Err (GoErr (''jwt signing method '' @ tok_Alg token @ '' is not allowed''))
                 else Ok key)))"

definition jwt_parserOpts :: "'k JWTOptions \<Rightarrow> time \<Rightarrow> ParserOption list" where
  "jwt_parserOpts cfg tnow =
     [WithTimeFunc tnow] @
     (if jo_SigningMethods cfg \<noteq> [] then [WithValidMethods (jo_SigningMethods cfg)] else []) @
     (if jo_Issuer cfg \<noteq> '''' then [WithIssuer (jo_Issuer cfg)] else []) @
     (if jo_Audience cfg \<noteq> [] then [WithAudience (jo_Audience cfg)] else []) @
     (if jo_ClockSkew cfg > 0 then [WithLeeway (jo_ClockSkew cfg)] else []) @
     (if jo_RequireExpiresAt cfg then [WithExpirationRequired] else [])"

text \<open>\<open>opts.Now()\<close>, after the defaults never nil.\<close>

definition opts_Now :: "('k, 'w) auth_env \<Rightarrow> ('k, 'w) AuthOptions \<Rightarrow> 'w \<Rightarrow> time" where
  "opts_Now env opts = (case ao_Now opts of Some f \<Rightarrow> f | None \<Rightarrow> env_Now env)"

definition jwt_info :: "('k, 'w) auth_env \<Rightarrow> 'k JWTOptions \<Rightarrow> claims \<Rightarrow> string \<Rightarrow> string \<Rightarrow> string \<Rightarrow> AuthInfo" where
  "jwt_info env cfg cl rawToken userID deviceID =
     \<lparr>ai_UserID = userID,
      ai_SessionID = readStringClaim env cl (jo_SessionIDClaim cfg),
      ai_DeviceID = deviceID,
      ai_Issuer = readStringClaim env cl ''iss'',
      ai_Audience = normalizeAudienceClaim env (cl ''aud''),
      ai_Source = AuthSourceJWT,
      ai_Subject = readStringClaim env cl ''sub'',
      ai_ExpiresAt = readTimeClaim env (cl ''exp''),
      ai_TokenID = readStringClaim env cl ''jti'',
      ai_RawToken = rawToken\<rparr>"

text \<open>What follows a token the library accepted.\<close>

definition jwt_identity :: "('k, 'w) auth_env \<Rightarrow> 'k JWTOptions \<Rightarrow> transport \<Rightarrow> string \<Rightarrow> claims \<Rightarrow> AuthInfo res" where
  "jwt_identity env cfg tr rawToken cl =
     bindR (extractRequiredStringClaim env cl (jo_DeviceClaim cfg)) (\<lambda>deviceID.
     case validateDeviceHeader (tr_Get tr) (jo_DeviceHeader cfg) deviceID of
       Some e \<Rightarrow> Err e
     | None \<Rightarrow>
         bindR (extractUserIDClaim env cl (jo_UserIDClaims cfg)) (\<lambda>userID.
         Ok (jwt_info env cfg cl rawToken userID deviceID)))"

definition authenticateJWT :: "('k, 'w) auth_env \<Rightarrow> request_ctx \<Rightarrow> transport \<Rightarrow> ('k, 'w) AuthOptions \<Rightarrow> (attempt, 'w) act" where
  "authenticateJWT env ctx tr opts =
     (let cfg = ao_JWT opts
      in if \<not> jo_Enabled cfg then not_attempted
         else bindE (liftR (extractJWTToken env tr cfg)) (\<lambda>(rawToken, attempted).
              if \<not> attempted then not_attempted
              else case jwt_keyFunc cfg of
                     None \<Rightarrow> refuse (GoErr ''jwt signing key is not configured'')
                   | Some keyFunc \<Rightarrow>
                       (\<lambda>w. caseE (liftR (env_ParseWithClaims env rawToken keyFunc (jwt_parserOpts cfg (opts_Now env opts w))))
                         (\<lambda>err. refuse (Wrap ''jwt validation failed'' err))
                         (\<lambda>(token, cl).
                            if token = None \<or> \<not> tok_Valid (the token) then refuse (GoErr ''jwt token is invalid'')
                            else caseE (liftR (jwt_identity env cfg tr rawToken cl)) refuse accept) w)))"

definition authenticateSession :: "('k, 'w) auth_env \<Rightarrow> request_ctx \<Rightarrow> transport \<Rightarrow> ('k, 'w) AuthOptions \<Rightarrow> (attempt, 'w) act" where
  "authenticateSession env ctx tr opts =
     (let cfg = ao_Session opts
      in if \<not> so_Enabled cfg then not_attempted
         else case extractSessionID tr cfg of
                (sessionID, attempted) \<Rightarrow>
                  if \<not> attempted then not_attempted
                  else case so_Validator cfg of
                         None \<Rightarrow> refuse (GoErr ''session validator is not configured'')
                       | Some validator \<Rightarrow>
                           caseE (validator ctx \<lparr>sv_SessionID = sessionID, sv_DeviceID = TrimSpace (tr_Get tr (so_DeviceHeader cfg)), sv_Transport = tr\<rparr>)
                             (\<lambda>err. refuse (Wrap ''session validation failed'' err))
                             (\<lambda>r. case r of
                                None \<Rightarrow> refuse (GoErr ''session validation returned empty auth info'')
                              | Some info \<Rightarrow>
                                  if ai_UserID info = '''' then refuse (GoErr ''session user id is empty'')
                                  else if so_RequireDevice cfg \<and> TrimSpace (ai_DeviceID info) = '''' then
                                    refuse (GoErr ''session device information is missing'')
                                  else unless_err (validateOptionalDeviceHeader (tr_Get tr) (so_DeviceHeader cfg) (ai_DeviceID info))
                                    (unless_err (validateIssuer (ai_Issuer info) (so_Issuer cfg))
                                    (unless_err (validateAudience (ai_Audience info) (so_Audience cfg))
                                    (\<lambda>w. unless_err (validateExpiration (ai_ExpiresAt info) (so_RequireExpires cfg) (so_ClockSkew cfg) (opts_Now env opts w))
                                    (accept (info\<lparr>ai_Source := AuthSourceSession, ai_SessionID := sessionID\<rparr>)) w)))))"

definition gateway_info :: "('k, 'w) auth_env \<Rightarrow> 'w GatewayOptions \<Rightarrow> (string \<Rightarrow> string) \<Rightarrow> AuthInfo" where
  "gateway_info env cfg header =
     \<lparr>ai_UserID = TrimSpace (header (go_UserIDHeader cfg)),
      ai_SessionID = TrimSpace (header (go_SessionHeader cfg)),
      ai_DeviceID = TrimSpace (header (go_DeviceHeader cfg)),
      ai_Issuer = TrimSpace (header (go_IssuerHeader cfg)),
      ai_Audience = splitAndTrim (header (go_AudienceHeader cfg)) (CHR '',''),
      ai_Source = AuthSourceGateway,
      ai_Subject = '''',
      ai_ExpiresAt = parseHeaderTime env (header (go_ExpireHeader cfg)),
      ai_TokenID = '''',
      ai_RawToken = ''''\<rparr>"

definition gateway_signed :: "request_ctx \<Rightarrow> 'w GatewayOptions \<Rightarrow> GatewaySignatureRequest \<Rightarrow> (attempt, 'w) act" where
  "gateway_signed ctx cfg req =
     (case go_SignatureValidator cfg of
        Some validator \<Rightarrow>
          caseE (validator ctx req) (\<lambda>err. refuse (Wrap ''gateway signature validation failed'' err))
            (\<lambda>_. accept (gs_AuthInfo req))
      | None \<Rightarrow>
          if length (go_SignatureSecret cfg) = 0 then refuse (GoErr ''gateway signature secret is not configured'')
          else unless_err (verifyGatewayHMACSignature (gs_Canonical req) (gs_Signature req) (go_SignatureSecret cfg))
                 (accept (gs_AuthInfo req)))"

definition authenticateGateway :: "('k, 'w) auth_env \<Rightarrow> request_ctx \<Rightarrow> transport \<Rightarrow> ('k, 'w) AuthOptions \<Rightarrow> (attempt, 'w) act" where
  "authenticateGateway env ctx tr opts =
     (let cfg = ao_Gateway opts; header = tr_Get tr
      in if \<not> go_Enabled cfg then not_attempted
         else let userID = TrimSpace (header (go_UserIDHeader cfg));
                  signature = TrimSpace (header (go_SignatureHeader cfg))
              in if userID = '''' \<and> signature = '''' then not_attempted
                 else if userID = '''' then refuse (GoErr ''gateway user id header is empty'')
                 else if signature = '''' then refuse (GoErr ''gateway signature header is empty'')
                 else let info = gateway_info env cfg header
                      in if go_RequireDevice cfg \<and> ai_DeviceID info = '''' then refuse (GoErr ''gateway device header is empty'')
                         else unless_err (validateIssuer (ai_Issuer info) (go_Issuer cfg))
                           (unless_err (validateAudience (ai_Audience info) (go_Audience cfg))
                           (\<lambda>w. unless_err (validateExpiration (ai_ExpiresAt info) (go_RequireExpires cfg) (go_ClockSkew cfg) (opts_Now env opts w))
                           (gateway_signed ctx cfg
                              \<lparr>gs_Canonical = buildGatewayCanonicalString header info cfg, gs_Signature = signature,
                               gs_Header = header, gs_AuthInfo = info\<rparr>) w)))"

section \<open>The middleware\<close>

text \<open>\<open>authenticate\<close>: the first source that is attempted decides.\<close>

definition try_source :: "('k, 'w) auth_env \<Rightarrow> request_ctx \<Rightarrow> transport \<Rightarrow> ('k, 'w) AuthOptions \<Rightarrow> AuthSource \<Rightarrow> (attempt, 'w) act" where
  "try_source env ctx tr opts source =
     (case source of
        AuthSourceGateway \<Rightarrow> authenticateGateway env ctx tr opts
      | AuthSourceJWT \<Rightarrow> authenticateJWT env ctx tr opts
      | AuthSourceSession \<Rightarrow> authenticateSession env ctx tr opts
      | OtherSource s \<Rightarrow> not_attempted)"

fun authenticate_from ::
  "('k, 'w) auth_env \<Rightarrow> request_ctx \<Rightarrow> transport \<Rightarrow> ('k, 'w) AuthOptions \<Rightarrow> AuthSource list \<Rightarrow> gerr option \<Rightarrow> (AuthInfo option, 'w) act" where
  "authenticate_from env ctx tr opts [] lastErr =
     (case lastErr of Some e \<Rightarrow> fail e | None \<Rightarrow> fail (GoErr ''missing authentication credentials''))"
| "authenticate_from env ctx tr opts (source # sources) lastErr =
     bindE (try_source env ctx tr opts source) (\<lambda>(info, attempted, err).
       if attempted then (case err of Some e \<Rightarrow> fail e | None \<Rightarrow> ret info)
       else authenticate_from env ctx tr opts sources (errOrLast err lastErr))"

definition authenticate :: "('k, 'w) auth_env \<Rightarrow> request_ctx \<Rightarrow> transport \<Rightarrow> ('k, 'w) AuthOptions \<Rightarrow> (AuthInfo option, 'w) act" where
  "authenticate env ctx tr opts = authenticate_from env ctx tr opts (ao_Sources opts) None"

definition NewAuthContext :: "request_ctx \<Rightarrow> AuthInfo \<Rightarrow> request_ctx" where
  "NewAuthContext ctx info = ctx\<lparr>ctx_auth := Some info\<rparr>"

definition zero_AuthInfo :: AuthInfo where
  "zero_AuthInfo =
     \<lparr>ai_UserID = '''', ai_SessionID = '''', ai_DeviceID = '''', ai_Issuer = '''', ai_Audience = [],
      ai_Source = OtherSource '''', ai_Subject = '''', ai_ExpiresAt = zero_time, ai_TokenID = '''', ai_RawToken = ''''\<rparr>"

definition AuthInfoFromContext :: "request_ctx \<Rightarrow> AuthInfo \<times> bool" where
  "AuthInfoFromContext ctx =
     (case ctx_auth ctx of Some info \<Rightarrow> (info, True) | None \<Rightarrow> (zero_AuthInfo, False))"

definition MatchOperationSkipper :: "string list \<Rightarrow> request_ctx \<Rightarrow> transport \<Rightarrow> bool" where
  "MatchOperationSkipper operations ctx tr =
     (let allowed = set (filter (\<lambda>operation. operation \<noteq> '''') operations)
      in tr_Operation tr \<in> allowed)"

type_synonym ('req, 'rep, 'w) handler = "request_ctx \<Rightarrow> 'req \<Rightarrow> ('rep, 'w) act"

definition AuthMiddleware ::
  "('k, 'w) auth_env \<Rightarrow> ('k, 'w) AuthOptions \<Rightarrow> ('req, 'rep, 'w) handler \<Rightarrow> ('req, 'rep, 'w) handler" where
  "AuthMiddleware env opts0 handler ctx req =
     (let opts = withDefaults env opts0
      in case ctx_transport ctx of
           None \<Rightarrow> fail (unauthorizedError ''missing transport context'')
         | Some tr \<Rightarrow>
             if (case ao_Skipper opts of None \<Rightarrow> False | Some skipper \<Rightarrow> skipper ctx tr) then handler ctx req
             else caseE (authenticate env ctx tr opts)
                    (\<lambda>err. fail (unauthorizedError ''authentication failed''))
                    (\<lambda>authInfo. case authInfo of
                       None \<Rightarrow> panic ''runtime error: nil pointer dereference''
                     | Some info \<Rightarrow> handler (NewAuthContext ctx info) req))"

end
