(* ===== verification/Identity.thy ===== *)
theory Identity
  imports Auth
begin

text \<open>
  What the authentication middleware guarantees: the handler runs for a skipped operation or with an
  identity that one of the sources verified, and everything else is answered 401. The definitions of
  the first section say what verified means for each source.
\<close>

section \<open>Verified identities\<close>

definition issuer_ok :: "string \<Rightarrow> string \<Rightarrow> bool" where
  "issuer_ok actual expected \<longleftrightarrow> expected = '''' \<or> TrimSpace actual = expected"

definition audience_ok :: "string list \<Rightarrow> string list \<Rightarrow> bool" where
  "audience_ok actual expected \<longleftrightarrow> expected = [] \<or> (\<exists>a. a \<noteq> '''' \<and> a \<in> set actual \<and> a \<in> set expected)"

definition signed_by :: "string \<Rightarrow> string \<Rightarrow> string \<Rightarrow> bool" where
  "signed_by secret txt sig \<longleftrightarrow> Some (hmac secret txt) \<in> {hex_decode sig, base64_decode sig}"

definition gateway_verified ::
  "('k, 'w) auth_env \<Rightarrow> request_ctx \<Rightarrow> transport \<Rightarrow> ('k, 'w) AuthOptions \<Rightarrow> AuthInfo \<Rightarrow> 'w \<Rightarrow> 'w \<Rightarrow> bool" where
  "gateway_verified env ctx tr opts info w w' \<longleftrightarrow>
     (let cfg = ao_Gateway opts; header = tr_Get tr;
          signature = TrimSpace (header (go_SignatureHeader cfg));
          canonical = buildGatewayCanonicalString header info cfg
      in go_Enabled cfg \<and> info = gateway_info env cfg header \<and>
         ai_UserID info \<noteq> '''' \<and> (go_RequireDevice cfg \<longrightarrow> ai_DeviceID info \<noteq> '''') \<and>
         issuer_ok (ai_Issuer info) (go_Issuer cfg) \<and> audience_ok (ai_Audience info) (go_Audience cfg) \<and>
         (go_RequireExpires cfg \<longrightarrow> ai_ExpiresAt info > opts_Now env opts w - go_ClockSkew cfg) \<and>
         (case go_SignatureValidator cfg of
            None \<Rightarrow> go_SignatureSecret cfg \<noteq> '''' \<and> signed_by (go_SignatureSecret cfg) canonical signature \<and> w' = w
          | Some v \<Rightarrow>
              v ctx \<lparr>gs_Canonical = canonical, gs_Signature = signature, gs_Header = header, gs_AuthInfo = info\<rparr> w = (Ok (), w')))"

definition session_verified ::
  "('k, 'w) auth_env \<Rightarrow> request_ctx \<Rightarrow> transport \<Rightarrow> ('k, 'w) AuthOptions \<Rightarrow> AuthInfo \<Rightarrow> 'w \<Rightarrow> 'w \<Rightarrow> bool" where
  "session_verified env ctx tr opts info w w' \<longleftrightarrow>
     (let cfg = ao_Session opts; device = TrimSpace (tr_Get tr (so_DeviceHeader cfg))
      in so_Enabled cfg \<and>
         (\<exists>v info0. so_Validator cfg = Some v \<and> extractSessionID tr cfg = (ai_SessionID info, True) \<and>
            v ctx \<lparr>sv_SessionID = ai_SessionID info, sv_DeviceID = device, sv_Transport = tr\<rparr> w = (Ok (Some info0), w') \<and>
            info = info0\<lparr>ai_Source := AuthSourceSession, ai_SessionID := ai_SessionID info\<rparr>) \<and>
         ai_UserID info \<noteq> '''' \<and> (so_RequireDevice cfg \<longrightarrow> ai_DeviceID info \<noteq> '''') \<and>
         (ai_DeviceID info \<noteq> '''' \<longrightarrow> device = ai_DeviceID info) \<and>
         issuer_ok (ai_Issuer info) (so_Issuer cfg) \<and> audience_ok (ai_Audience info) (so_Audience cfg) \<and>
         (so_RequireExpires cfg \<longrightarrow> ai_ExpiresAt info > opts_Now env opts w' - so_ClockSkew cfg))"

definition jwt_verified ::
  "('k, 'w) auth_env \<Rightarrow> transport \<Rightarrow> ('k, 'w) AuthOptions \<Rightarrow> AuthInfo \<Rightarrow> 'w \<Rightarrow> bool" where
  "jwt_verified env tr opts info w \<longleftrightarrow>
     (let cfg = ao_JWT opts
      in jo_Enabled cfg \<and> extractJWTToken env tr cfg = Ok (ai_RawToken info, True) \<and>
         (\<exists>keyFunc token cl. jwt_keyFunc cfg = Some keyFunc \<and>
            env_ParseWithClaims env (ai_RawToken info) keyFunc (jwt_parserOpts cfg (opts_Now env opts w)) = Ok (Some token, cl) \<and>
            tok_Valid token \<and>
            info = jwt_info env cfg cl (ai_RawToken info) (ai_UserID info) (ai_DeviceID info) \<and>
            (\<exists>key \<in> set (jo_UserIDClaims cfg). readStringClaim env cl key = ai_UserID info) \<and>
            readStringClaim env cl (jo_DeviceClaim cfg) = ai_DeviceID info) \<and>
         ai_UserID info \<noteq> '''' \<and> ai_DeviceID info \<noteq> '''' \<and>
         TrimSpace (tr_Get tr (jo_DeviceHeader cfg)) = ai_DeviceID info)"

definition verified ::
  "('k, 'w) auth_env \<Rightarrow> request_ctx \<Rightarrow> transport \<Rightarrow> ('k, 'w) AuthOptions \<Rightarrow> AuthInfo \<Rightarrow> 'w \<Rightarrow> 'w \<Rightarrow> bool" where
  "verified env ctx tr opts info w w' \<longleftrightarrow>
     (AuthSourceGateway \<in> set (ao_Sources opts) \<and> ai_Source info = AuthSourceGateway \<and> gateway_verified env ctx tr opts info w w') \<or>
     (AuthSourceJWT \<in> set (ao_Sources opts) \<and> ai_Source info = AuthSourceJWT \<and> jwt_verified env tr opts info w \<and> w' = w) \<or>
     (AuthSourceSession \<in> set (ao_Sources opts) \<and> ai_Source info = AuthSourceSession \<and> session_verified env ctx tr opts info w w')"

section \<open>Trimming\<close>

abbreviation starts :: "string list \<Rightarrow> string \<Rightarrow> bool" where
  "starts pats s \<equiv> \<exists>p \<in> set pats. p \<noteq> [] \<and> has_prefix p s"

lemma strip_step:
  obtains (stop) "\<not> starts pats s" and "strip pats s = s"
    | (more) p where "has_prefix p s" and "find (\<lambda>p. p \<noteq> [] \<and> has_prefix p s) pats = Some p" and "s \<noteq> []"
        and "strip pats s = strip pats (drop (length p) s)"
proof (cases "find (\<lambda>p. p \<noteq> [] \<and> has_prefix p s) pats")
  case None
  then show ?thesis using stop by (simp add: strip.simps [of pats s]) (simp add: find_None_iff)
next
  case (Some p)
  then have "p \<noteq> []" "has_prefix p s" by (auto simp: find_Some_iff)
  with Some show ?thesis using more by (auto simp: strip.simps [of pats s] has_prefix_iff)
qed

lemma strip_id: "\<not> starts pats s \<Longrightarrow> strip pats s = s"
  by (rule strip_step [of pats s]) (auto simp: find_Some_iff)

lemma strip_stops: "\<not> starts pats (strip pats s)"
proof (induction pats s rule: strip.induct)
  case (1 pats s)
  then show ?case by (cases rule: strip_step [of pats s]) auto
qed

lemma strip_rest: "\<exists>t. s = t @ strip pats s"
proof (induction pats s rule: strip.induct)
  case (1 pats s)
  show ?case
  proof (cases rule: strip_step [of pats s])
    case stop
    then show ?thesis by simp
  next
    case (more p)
    with 1 obtain t where "drop (length p) s = t @ strip pats (drop (length p) s)" by blast
    moreover obtain u where "s = p @ u" using more(1) by (auto simp: has_prefix_iff)
    ultimately have "s = (p @ t) @ strip pats s" using more(4) by simp
    then show ?thesis by blast
  qed
qed

lemma TrimSpace_idem [simp]: "TrimSpace (TrimSpace s) = TrimSpace s"
proof -
  let ?l = "strip space_encodings s"
  let ?r = "strip (map rev space_encodings) (rev ?l)"
  obtain t where t: "rev ?l = t @ ?r" using strip_rest by blast
  then have "?l = rev ?r @ rev t" by (metis rev_append rev_rev_ident)
  moreover have "\<not> starts space_encodings ?l" by (rule strip_stops)
  ultimately have "\<not> starts space_encodings (rev ?r)" by (fastforce simp: has_prefix_iff)
  then have "strip space_encodings (rev ?r) = rev ?r" by (rule strip_id)
  then show ?thesis
    using strip_id [OF strip_stops] by (simp add: TrimSpace_def)
qed

lemma set_TrimSpace: "set (TrimSpace s) \<subseteq> set s"
proof -
  have sub: "set (strip ps t) \<subseteq> set t" for ps t
    by (metis strip_rest set_append Un_upper2)
  show ?thesis using sub [of "map rev space_encodings" "rev (strip space_encodings s)"] sub [of space_encodings s]
    by (auto simp: TrimSpace_def)
qed

section \<open>The checks\<close>

lemma validateIssuer_None: "validateIssuer a e = None \<longleftrightarrow> issuer_ok a e"
  by (simp add: validateIssuer_def issuer_ok_def)

lemma validateAudience_None: "validateAudience a e = None \<longleftrightarrow> audience_ok a e"
  by (auto simp: validateAudience_def audience_ok_def list_ex_iff)

lemma validateExpiration_None:
  "validateExpiration t req skew n = None \<Longrightarrow> req \<Longrightarrow> t > n - skew"
  by (simp add: validateExpiration_def split: if_splits)

lemma verify_signature_None:
  "verifyGatewayHMACSignature txt (TrimSpace sig) secret = None \<Longrightarrow>
   signed_by secret txt (TrimSpace sig)"
  by (auto simp: verifyGatewayHMACSignature_def signed_by_def Let_def split: if_splits option.splits)

lemma validateDeviceHeader_None:
  "validateDeviceHeader h n e = None \<longleftrightarrow> e \<noteq> '''' \<and> TrimSpace (h n) = e"
  by (auto simp: validateDeviceHeader_def Let_def)

lemma validateOptionalDeviceHeader_None:
  "validateOptionalDeviceHeader h n e = None \<longleftrightarrow> (e \<noteq> '''' \<longrightarrow> TrimSpace (h n) = e)"
  by (auto simp: validateOptionalDeviceHeader_def validateDeviceHeader_None)

lemma extractUserIDClaim_Ok:
  "extractUserIDClaim env cl ks = Ok u \<Longrightarrow> u \<noteq> '''' \<and> (\<exists>k \<in> set ks. readStringClaim env cl k = u)"
  by (induction ks) (auto simp: Let_def split: if_splits)

lemma unless_err_Ok:
  "unless_err err m w = (Ok (i, True, None), w') \<longleftrightarrow> err = None \<and> m w = (Ok (i, True, None), w')"
  by (auto simp: unless_err_def refuse_def split: option.splits)

lemma unless_err_attempts:
  "unless_err err m w = (Ok (i, False, e), w') \<longleftrightarrow> err = None \<and> m w = (Ok (i, False, e), w')"
  by (auto simp: unless_err_def refuse_def split: option.splits)


section \<open>The sources\<close>

lemmas attempt_defs = not_attempted_def refuse_def accept_def

lemma gateway_signed_Ok:
  assumes "gateway_signed ctx cfg req w = (Ok (i, True, None), w')"
  shows "i = Some (gs_AuthInfo req) \<and>
    (case go_SignatureValidator cfg of
       None \<Rightarrow> go_SignatureSecret cfg \<noteq> '''' \<and> w' = w \<and>
         verifyGatewayHMACSignature (gs_Canonical req) (gs_Signature req) (go_SignatureSecret cfg) = None
     | Some v \<Rightarrow> v ctx req w = (Ok (), w'))"
  using assms
  by (auto simp: gateway_signed_def attempt_defs caseE_def unless_err_Ok split: option.splits if_splits prod.splits res.splits)

lemma gateway_attempt:
  assumes "authenticateGateway env ctx tr opts w = (Ok (i, True, None), w')"
  shows "\<exists>info. i = Some info \<and> ai_Source info = AuthSourceGateway \<and> gateway_verified env ctx tr opts info w w'"
proof -
  define cfg where "cfg = ao_Gateway opts"
  define info where "info = gateway_info env cfg (tr_Get tr)"
  define sig where "sig = TrimSpace (tr_Get tr (go_SignatureHeader cfg))"
  define req where "req = \<lparr>gs_Canonical = buildGatewayCanonicalString (tr_Get tr) info cfg, gs_Signature = sig,
                           gs_Header = tr_Get tr, gs_AuthInfo = info\<rparr>"
  have user: "ai_UserID info = TrimSpace (tr_Get tr (go_UserIDHeader cfg))" by (simp add: info_def gateway_info_def)
  have checks: "go_Enabled cfg" "ai_UserID info \<noteq> ''''" "go_RequireDevice cfg \<longrightarrow> ai_DeviceID info \<noteq> ''''"
    "validateIssuer (ai_Issuer info) (go_Issuer cfg) = None" "validateAudience (ai_Audience info) (go_Audience cfg) = None"
    "validateExpiration (ai_ExpiresAt info) (go_RequireExpires cfg) (go_ClockSkew cfg) (opts_Now env opts w) = None"
    "gateway_signed ctx cfg req w = (Ok (i, True, None), w')"
    using assms
    by (simp_all add: authenticateGateway_def Let_def cfg_def [symmetric] info_def [symmetric] sig_def [symmetric] req_def [symmetric]
        user attempt_defs unless_err_Ok split: if_splits)
  have "ai_Source info = AuthSourceGateway" by (simp add: info_def gateway_info_def)
  moreover have "gateway_verified env ctx tr opts info w w'"
    using checks gateway_signed_Ok [OF checks(7)] verify_signature_None validateExpiration_None
    unfolding gateway_verified_def Let_def
    by (auto simp: cfg_def [symmetric] info_def [symmetric] req_def sig_def validateIssuer_None validateAudience_None
        split: option.splits)
  ultimately show ?thesis using gateway_signed_Ok [OF checks(7)] by (simp add: req_def)
qed

lemma gateway_not_attempted:
  assumes "authenticateGateway env ctx tr opts w = (Ok (i, False, e), w')"
  shows "e = None \<and> w' = w"
  using assms
  by (auto simp: authenticateGateway_def gateway_signed_def Let_def attempt_defs caseE_def unless_err_attempts
      split: if_splits option.splits prod.splits res.splits)

lemma jwt_identity_Ok:
  assumes "jwt_identity env cfg tr raw cl = Ok info"
  shows "info = jwt_info env cfg cl raw (ai_UserID info) (ai_DeviceID info) \<and> ai_RawToken info = raw \<and>
    ai_UserID info \<noteq> '''' \<and> ai_DeviceID info \<noteq> '''' \<and>
    (\<exists>key \<in> set (jo_UserIDClaims cfg). readStringClaim env cl key = ai_UserID info) \<and>
    readStringClaim env cl (jo_DeviceClaim cfg) = ai_DeviceID info \<and>
    TrimSpace (tr_Get tr (jo_DeviceHeader cfg)) = ai_DeviceID info"
proof -
  obtain dev where dev: "extractRequiredStringClaim env cl (jo_DeviceClaim cfg) = Ok dev"
    and hdr: "validateDeviceHeader (tr_Get tr) (jo_DeviceHeader cfg) dev = None"
    and usr: "bindR (extractUserIDClaim env cl (jo_UserIDClaims cfg)) (\<lambda>u. Ok (jwt_info env cfg cl raw u dev)) = Ok info"
    using assms by (cases "extractRequiredStringClaim env cl (jo_DeviceClaim cfg)")
      (auto simp: jwt_identity_def split: option.splits)
  obtain u where u: "extractUserIDClaim env cl (jo_UserIDClaims cfg) = Ok u" and info: "info = jwt_info env cfg cl raw u dev"
    using usr by (cases "extractUserIDClaim env cl (jo_UserIDClaims cfg)") auto
  have "dev \<noteq> '''' \<and> readStringClaim env cl (jo_DeviceClaim cfg) = dev"
    using dev by (auto simp: extractRequiredStringClaim_def Let_def split: if_splits)
  with hdr extractUserIDClaim_Ok [OF u] show ?thesis
    by (simp add: info validateDeviceHeader_None) (simp add: jwt_info_def)
qed

lemma jwt_attempt:
  assumes "authenticateJWT env ctx tr opts w = (Ok (i, True, None), w')"
  shows "\<exists>info. i = Some info \<and> ai_Source info = AuthSourceJWT \<and> jwt_verified env tr opts info w \<and> w' = w"
proof -
  define cfg where "cfg = ao_JWT opts"
  define po where "po = jwt_parserOpts cfg (opts_Now env opts w)"
  obtain raw where en: "jo_Enabled cfg" and raw: "extractJWTToken env tr cfg = Ok (raw, True)"
    using assms by (auto simp: authenticateJWT_def Let_def cfg_def attempt_defs bindE_def split: if_splits res.splits)
  obtain kf where kf: "jwt_keyFunc cfg = Some kf"
    using assms en raw by (auto simp: authenticateJWT_def Let_def cfg_def attempt_defs bindE_def split: option.splits)
  obtain tok cl where tok: "env_ParseWithClaims env raw kf po = Ok (Some tok, cl)" "tok_Valid tok"
    and acc: "caseE (liftR (jwt_identity env cfg tr raw cl)) refuse accept w = (Ok (i, True, None), w')"
    using assms en raw kf
    by (auto simp: authenticateJWT_def Let_def cfg_def po_def attempt_defs bindE_def caseE_liftR split: res.splits if_splits)
  obtain info where info: "jwt_identity env cfg tr raw cl = Ok info" "i = Some info" "w' = w"
    using acc by (auto simp: caseE_liftR attempt_defs split: res.splits)
  note id = jwt_identity_Ok [OF info(1)]
  then have "ai_Source info = AuthSourceJWT" by (metis (no_types, lifting) AuthInfo.select_convs(6) jwt_info_def)
  moreover have "jwt_verified env tr opts info w"
    using en raw kf tok id unfolding jwt_verified_def Let_def cfg_def [symmetric] po_def by blast
  ultimately show ?thesis using info by blast
qed

lemma jwt_not_attempted:
  assumes "authenticateJWT env ctx tr opts w = (Ok (i, False, e), w')"
  shows "e = None \<and> w' = w"
  using assms
  by (auto simp: authenticateJWT_def Let_def attempt_defs bindE_def caseE_liftR
      split: if_splits option.splits prod.splits res.splits)

lemma session_attempt:
  assumes "authenticateSession env ctx tr opts w = (Ok (i, True, None), w')"
  shows "\<exists>info. i = Some info \<and> ai_Source info = AuthSourceSession \<and> session_verified env ctx tr opts info w w'"
proof -
  define cfg where "cfg = ao_Session opts"
  define dev where "dev = TrimSpace (tr_Get tr (so_DeviceHeader cfg))"
  obtain sid v where en: "so_Enabled cfg" and sid: "extractSessionID tr cfg = (sid, True)" and v: "so_Validator cfg = Some v"
    using assms by (auto simp: authenticateSession_def Let_def cfg_def attempt_defs split: if_splits prod.splits option.splits)
  define req where "req = \<lparr>sv_SessionID = sid, sv_DeviceID = dev, sv_Transport = tr\<rparr>"
  obtain info0 w1 where ran: "v ctx req w = (Ok (Some info0), w1)"
    using assms en sid v
    by (auto simp: authenticateSession_def Let_def cfg_def [symmetric] dev_def [symmetric] req_def [symmetric] attempt_defs caseE_def
        split: prod.splits option.splits res.splits)
  have checks: "ai_UserID info0 \<noteq> ''''" "so_RequireDevice cfg \<longrightarrow> TrimSpace (ai_DeviceID info0) \<noteq> ''''"
    "validateOptionalDeviceHeader (tr_Get tr) (so_DeviceHeader cfg) (ai_DeviceID info0) = None"
    "validateIssuer (ai_Issuer info0) (so_Issuer cfg) = None" "validateAudience (ai_Audience info0) (so_Audience cfg) = None"
    "validateExpiration (ai_ExpiresAt info0) (so_RequireExpires cfg) (so_ClockSkew cfg) (opts_Now env opts w1) = None"
    and res: "i = Some (info0\<lparr>ai_Source := AuthSourceSession, ai_SessionID := sid\<rparr>)" "w' = w1"
    using assms en sid v ran
    by (auto simp: authenticateSession_def Let_def cfg_def [symmetric] dev_def [symmetric] req_def [symmetric] attempt_defs
        caseE_eval unless_err_Ok split: if_splits)
  have trim0: "TrimSpace '''' = ''''" by code_simp
  have "session_verified env ctx tr opts (info0\<lparr>ai_Source := AuthSourceSession, ai_SessionID := sid\<rparr>) w w1"
    using en sid v ran checks validateExpiration_None [OF checks(6)] trim0
    unfolding session_verified_def Let_def cfg_def [symmetric] dev_def [symmetric]
    by (auto simp: req_def validateIssuer_None validateAudience_None validateOptionalDeviceHeader_None dev_def)
  with res show ?thesis by simp
qed

lemma session_not_attempted:
  assumes "authenticateSession env ctx tr opts w = (Ok (i, False, e), w')"
  shows "e = None \<and> w' = w"
  using assms
  by (auto simp: authenticateSession_def Let_def attempt_defs caseE_def unless_err_attempts
      split: if_splits option.splits prod.splits res.splits)

text \<open>A claim that is JSON \<open>null\<close> is printed, not missed: such a token is the user \<open><nil>\<close>.\<close>

lemma null_claim_is_an_identity:
  assumes "cl ''user_id'' = Some (CJson JNull)"
  shows "extractUserIDClaim env cl (jo_UserIDClaims (withDefaults_JWT (o0\<lparr>jo_UserIDClaims := []\<rparr>))) = Ok ''<nil>''"
proof -
  have "TrimSpace ''<nil>'' = ''<nil>''" by code_simp
  with assms show ?thesis by (simp add: withDefaults_JWT_def readStringClaim_def)
qed

text \<open>The defaults force the two switches of the session and the gateway, whatever was configured.\<close>

lemma required_switches_are_forced:
  "so_RequireDevice (withDefaults_Session so)" "so_RequireExpires (withDefaults_Session so)"
  "go_RequireDevice (withDefaults_Gateway go)" "go_RequireExpires (withDefaults_Gateway go)"
  by (simp_all add: withDefaults_Session_def withDefaults_Gateway_def)

section \<open>The middleware\<close>

lemma try_source_verified:
  assumes "try_source env ctx tr opts source w = (Ok (i, True, None), w')" and "source \<in> set (ao_Sources opts)"
  shows "\<exists>info. i = Some info \<and> verified env ctx tr opts info w w'"
  using assms gateway_attempt [of env ctx tr opts w i w'] jwt_attempt [of env ctx tr opts w i w'] session_attempt [of env ctx tr opts w i w']
  by (cases source) (auto simp: try_source_def verified_def not_attempted_def)

lemma try_source_not_attempted:
  "try_source env ctx tr opts source w = (Ok (i, False, e), w') \<Longrightarrow> e = None \<and> w' = w"
  by (cases source) (auto simp: try_source_def not_attempted_def
      dest: gateway_not_attempted jwt_not_attempted session_not_attempted)

lemma authenticate_from_verified:
  assumes "authenticate_from env ctx tr opts ss lastErr w = (Ok i, w')" and "set ss \<subseteq> set (ao_Sources opts)"
  shows "\<exists>info. i = Some info \<and> verified env ctx tr opts info w w'"
  using assms
proof (induction ss arbitrary: lastErr)
  case Nil
  then show ?case by (simp split: option.splits)
next
  case (Cons source ss)
  obtain i1 att e w1 where t: "try_source env ctx tr opts source w = (Ok (i1, att, e), w1)"
    and k: "(if att then (case e of Some e \<Rightarrow> fail e | None \<Rightarrow> ret i1)
       else authenticate_from env ctx tr opts ss (errOrLast e lastErr)) w1 = (Ok i, w')"
    using Cons.prems(1) by auto
  show ?case
  proof (cases att)
    case True
    with k have "e = None" "i = i1" "w' = w1" by (auto split: option.splits)
    with t True Cons.prems(2) show ?thesis using try_source_verified by fastforce
  next
    case False
    with t have "w1 = w" using try_source_not_attempted by fastforce
    with k False Cons show ?thesis by auto
  qed
qed

text \<open>
  C13. The handler behind the authentication middleware runs for a skipped operation, or with an
  identity in its context that one of the configured sources verified: gateway headers under a
  valid signature (or accepted by the configured validator), a token the JWT library accepted for
  the device of the request, or a session the validator knows. In every other case the request is
  answered 401 UNAUTHORIZED, or the process panics in a function it was given, and the handler does
  not run, whatever it is.
\<close>

theorem auth_guards_handler:
  fixes env :: "('k, 'w) auth_env" and opts :: "('k, 'w) AuthOptions"
  shows
    "(\<exists>w' m. \<forall>h :: ('req, 'rep, 'w) handler. \<forall>req. AuthMiddleware env opts h ctx req w = (Err (unauthorizedError m), w')) \<or>
     (\<exists>w' p. \<forall>h :: ('req, 'rep, 'w) handler. \<forall>req. AuthMiddleware env opts h ctx req w = (Panic p, w')) \<or>
     (\<exists>tr skipper. ctx_transport ctx = Some tr \<and> ao_Skipper opts = Some skipper \<and> skipper ctx tr \<and>
        (\<forall>h :: ('req, 'rep, 'w) handler. \<forall>req. AuthMiddleware env opts h ctx req w = h ctx req w)) \<or>
     (\<exists>tr info w'. ctx_transport ctx = Some tr \<and> verified env ctx tr (withDefaults env opts) info w w' \<and>
        (\<forall>h :: ('req, 'rep, 'w) handler. \<forall>req.
           AuthMiddleware env opts h ctx req w = h (NewAuthContext ctx info) req w' \<and>
           AuthInfoFromContext (NewAuthContext ctx info) = (info, True)))"
proof (cases "ctx_transport ctx")
  case None
  then show ?thesis by (auto simp: AuthMiddleware_def)
next
  case (Some tr)
  define o1 where "o1 = withDefaults env opts"
  have sk: "ao_Skipper o1 = ao_Skipper opts" by (simp add: o1_def withDefaults_def)
  show ?thesis
  proof (cases "case ao_Skipper opts of None \<Rightarrow> False | Some skipper \<Rightarrow> skipper ctx tr")
    case True
    with Some show ?thesis by (auto simp: AuthMiddleware_def Let_def o1_def [symmetric] sk split: option.splits)
  next
    case False
    obtain r w' where auth: "authenticate env ctx tr o1 w = (r, w')" by fastforce
    have run: "AuthMiddleware env opts h ctx req w =
        (case r of Ok i \<Rightarrow> (case i of None \<Rightarrow> panic ''runtime error: nil pointer dereference'' w'
           | Some info \<Rightarrow> h (NewAuthContext ctx info) req w')
         | Err e \<Rightarrow> (Err (unauthorizedError ''authentication failed''), w') | Panic p \<Rightarrow> (Panic p, w'))"
      for h :: "('req, 'rep, 'w) handler" and req
      using False Some auth by (simp add: AuthMiddleware_def Let_def o1_def [symmetric] sk caseE_def split: res.split option.split)
    have ctx': "AuthInfoFromContext (NewAuthContext ctx info) = (info, True)" for info
      by (simp add: AuthInfoFromContext_def NewAuthContext_def)
    show ?thesis
    proof (cases r)
      case (Ok i)
      with auth authenticate_from_verified [of env ctx tr o1 "ao_Sources o1" None w i w'] obtain info
        where "i = Some info" "verified env ctx tr o1 info w w'" by (auto simp: authenticate_def)
      with Some run Ok ctx' show ?thesis by (fastforce simp: o1_def)
    qed (use run in auto)
  qed
qed

end
