(* ===== verification/Signature.thy ===== *)
theory Signature
  imports Identity
begin

text \<open>
  What a gateway signature stands for: the signed text determines the identity the middleware
  builds from the headers, so one signature is good for one identity, unless it is a collision of
  the MAC.
\<close>

section \<open>The signed text\<close>

text \<open>The headers of a gateway request hold no line break, as the transports guarantee.\<close>

definition one_line :: "'w GatewayOptions \<Rightarrow> (string \<Rightarrow> string) \<Rightarrow> bool" where
  "one_line cfg header \<longleftrightarrow>
     list_all (\<lambda>k. CHR 0x0A \<notin> set (header k))
       [go_UserIDHeader cfg, go_SessionHeader cfg, go_DeviceHeader cfg, go_IssuerHeader cfg, go_AudienceHeader cfg,
        go_ExpireHeader cfg, go_TimestampHeader cfg, go_NonceHeader cfg]"

lemma trimSlice_items:
  "x \<in> set (trimSlice xs) \<Longrightarrow> x \<noteq> '''' \<and> (\<exists>y \<in> set xs. set x \<subseteq> set y)"
  by (induction xs) (use set_TrimSpace in \<open>auto simp: Let_def split: if_splits\<close>)

lemma split_set: "p \<in> set (split c s) \<Longrightarrow> set p \<subseteq> set s"
proof (induction s arbitrary: p)
  case (Cons x s)
  obtain q qs where "split c s = q # qs" by (cases "split c s") auto
  with Cons show ?case by (cases "x = c") fastforce+
qed simp

lemma splitAndTrim_items:
  assumes "x \<in> set (splitAndTrim v c)"
  shows "x \<noteq> ''''" and "c \<notin> set x" and "set x \<subseteq> set v"
proof -
  obtain y where y: "y \<in> set (split c v)" "set x \<subseteq> set y" and "x \<noteq> ''''"
    using assms trimSlice_items by (fastforce simp: splitAndTrim_def split: if_splits)
  then show "x \<noteq> ''''" by blast
  show "c \<notin> set x" using y split_no_sep by blast
  show "set x \<subseteq> set v" using y split_set by blast
qed

lemma join_Nil_iff: "\<forall>x \<in> set xs. x \<noteq> '''' \<Longrightarrow> join sep xs = '''' \<longleftrightarrow> xs = []"
  by (induction sep xs rule: join.induct) auto

lemma join_inj:
  assumes "join [c] xs = join [c] ys" and "\<forall>x \<in> set xs. x \<noteq> '''' \<and> c \<notin> set x" and "\<forall>y \<in> set ys. y \<noteq> '''' \<and> c \<notin> set y"
  shows "xs = ys"
proof (cases "xs = []")
  case True
  with assms join_Nil_iff [of ys "[c]"] show ?thesis by auto
next
  case False
  with assms join_Nil_iff [of xs "[c]"] join_Nil_iff [of ys "[c]"] have "ys \<noteq> []" by fastforce
  with False assms split_join [of xs c] split_join [of ys c] show ?thesis by metis
qed

lemma set_join: "set (join sep xs) \<subseteq> \<Union> (set ` set xs) \<union> set sep"
  by (induction sep xs rule: join.induct) auto

lemma canonical_lines:
  assumes "one_line cfg h"
  shows "split (CHR 0x0A) (buildGatewayCanonicalString h (gateway_info env cfg h) cfg) =
    [''user_id='' @ ai_UserID (gateway_info env cfg h),
     ''session_id='' @ ai_SessionID (gateway_info env cfg h),
     ''device_id='' @ ai_DeviceID (gateway_info env cfg h),
     ''issuer='' @ ai_Issuer (gateway_info env cfg h),
     ''audience='' @ join '','' (ai_Audience (gateway_info env cfg h)),
     ''expires_at='' @ h (go_ExpireHeader cfg),
     ''timestamp='' @ h (go_TimestampHeader cfg),
     ''nonce='' @ h (go_NonceHeader cfg)]" (is "_ = ?lines")
proof -
  have trim: "CHR 0x0A \<notin> set (TrimSpace (h k))" if "CHR 0x0A \<notin> set (h k)" for k
    using that set_TrimSpace by blast
  have "CHR 0x0A \<notin> set (join '','' (splitAndTrim (h (go_AudienceHeader cfg)) (CHR '','')))"
    using assms set_join [of "'',''" "splitAndTrim (h (go_AudienceHeader cfg)) (CHR '','')"] splitAndTrim_items(3)
    by (fastforce simp: one_line_def)
  then have "\<forall>l \<in> set ?lines. CHR 0x0A \<notin> set l"
    using assms trim by (simp add: one_line_def gateway_info_def)
  then show ?thesis unfolding buildGatewayCanonicalString_def Let_def by (intro split_join) simp_all
qed

lemma canonical_inj:
  assumes "one_line cfg h" and "one_line cfg h'"
    and "buildGatewayCanonicalString h (gateway_info env cfg h) cfg = buildGatewayCanonicalString h' (gateway_info env cfg h') cfg"
  shows "gateway_info env cfg h = gateway_info env cfg h'"
    and "h (go_TimestampHeader cfg) = h' (go_TimestampHeader cfg)" and "h (go_NonceHeader cfg) = h' (go_NonceHeader cfg)"
proof -
  note eq = canonical_lines [OF assms(1), of env, unfolded assms(3) canonical_lines [OF assms(2)]]
  have "join '','' (ai_Audience (gateway_info env cfg h)) = join '','' (ai_Audience (gateway_info env cfg h'))"
    using eq by simp
  then have "ai_Audience (gateway_info env cfg h) = ai_Audience (gateway_info env cfg h')"
    by (rule join_inj) (auto simp: gateway_info_def dest: splitAndTrim_items)
  with eq show "gateway_info env cfg h = gateway_info env cfg h'" by (simp add: gateway_info_def)
  show "h (go_TimestampHeader cfg) = h' (go_TimestampHeader cfg)" "h (go_NonceHeader cfg) = h' (go_NonceHeader cfg)"
    using eq by simp_all
qed

lemma verify_same_signature:
  assumes "verifyGatewayHMACSignature c sig secret = None" and "verifyGatewayHMACSignature c' sig secret = None"
  shows "hmac secret c = hmac secret c'"
  using assms by (auto simp: verifyGatewayHMACSignature_def Let_def split: if_splits option.splits)

lemma gateway_accepts:
  assumes "authenticateGateway env ctx tr opts w = (Ok (Some info, True, None), w')"
    and "go_SignatureValidator (ao_Gateway opts) = None"
  shows "info = gateway_info env (ao_Gateway opts) (tr_Get tr)"
    and "verifyGatewayHMACSignature (buildGatewayCanonicalString (tr_Get tr) info (ao_Gateway opts))
           (TrimSpace (tr_Get tr (go_SignatureHeader (ao_Gateway opts)))) (go_SignatureSecret (ao_Gateway opts)) = None"
  using assms
  by (auto simp: authenticateGateway_def gateway_signed_def Let_def attempt_defs unless_err_Ok split: if_splits)

text \<open>
  C14. One gateway signature stands for one identity. When the middleware accepts two requests under
  the configured secret that carry the same signature, it gives both the same user, session, device,
  issuer, audience and expiry, and both carry the same timestamp and nonce, unless the two signed
  texts are a collision of HMAC-SHA-256 under that secret. (Nothing limits how often the pair may be
  used: the timestamp and the nonce are signed but never checked.)
\<close>

theorem signature_binds_identity:
  assumes "authenticateGateway env ctx tr opts w = (Ok (Some info, True, None), w1)"
    and "authenticateGateway env ctx' tr' opts w' = (Ok (Some info', True, None), w2)"
    and "go_SignatureValidator (ao_Gateway opts) = None"
    and "tr_Get tr (go_SignatureHeader (ao_Gateway opts)) = tr_Get tr' (go_SignatureHeader (ao_Gateway opts))"
    and "one_line (ao_Gateway opts) (tr_Get tr)" and "one_line (ao_Gateway opts) (tr_Get tr')"
  shows "info = info' \<and>
         tr_Get tr (go_TimestampHeader (ao_Gateway opts)) = tr_Get tr' (go_TimestampHeader (ao_Gateway opts)) \<and>
         tr_Get tr (go_NonceHeader (ao_Gateway opts)) = tr_Get tr' (go_NonceHeader (ao_Gateway opts)) \<or>
         (let c = buildGatewayCanonicalString (tr_Get tr) info (ao_Gateway opts);
              c' = buildGatewayCanonicalString (tr_Get tr') info' (ao_Gateway opts)
          in c \<noteq> c' \<and> hmac (go_SignatureSecret (ao_Gateway opts)) c = hmac (go_SignatureSecret (ao_Gateway opts)) c')"
proof -
  note a = gateway_accepts [OF assms(1,3)] and b = gateway_accepts [OF assms(2,3)]
  have "hmac (go_SignatureSecret (ao_Gateway opts)) (buildGatewayCanonicalString (tr_Get tr) info (ao_Gateway opts)) =
        hmac (go_SignatureSecret (ao_Gateway opts)) (buildGatewayCanonicalString (tr_Get tr') info' (ao_Gateway opts))"
    using a(2) b(2) assms(4) verify_same_signature by metis
  then show ?thesis using canonical_inj [OF assms(5,6), of env] a(1) b(1) unfolding Let_def by metis
qed

section \<open>A signed request\<close>

text \<open>An environment without tokens, a gateway with a secret, and a request signed for it.\<close>

definition demo_env :: "(unit, unit) auth_env" where
  "demo_env =
     \<lparr>env_ParseWithClaims = \<lambda>raw kf po. Err (GoErr ''token is malformed''), env_ParseRFC3339 = \<lambda>s. None,
      env_SprintFloat = \<lambda>x. ''0'', env_lower = \<lambda>s. s, env_Now = \<lambda>w. 1700000000 * second\<rparr>"

definition no_jwt :: "unit JWTOptions" where
  "no_jwt =
     \<lparr>jo_Enabled = False, jo_Header = '''', jo_Prefix = '''', jo_CookieNames = [], jo_KeyFunc = None, jo_SigningKey = None,
      jo_SigningMethods = [], jo_Issuer = '''', jo_Audience = [], jo_DeviceHeader = '''', jo_DeviceClaim = '''',
      jo_UserIDClaims = [], jo_SessionIDClaim = '''', jo_RequireExpiresAt = False, jo_ClockSkew = 0\<rparr>"

definition no_session :: "unit SessionOptions" where
  "no_session =
     \<lparr>so_Enabled = False, so_HeaderNames = [], so_CookieNames = [], so_DeviceHeader = '''', so_Validator = None,
      so_Issuer = '''', so_Audience = [], so_ClockSkew = 0, so_RequireDevice = False, so_RequireExpires = False\<rparr>"

definition demo_gateway :: "unit GatewayOptions" where
  "demo_gateway =
     \<lparr>go_Enabled = True, go_UserIDHeader = '''', go_SessionHeader = '''', go_DeviceHeader = '''', go_IssuerHeader = '''',
      go_AudienceHeader = '''', go_ExpireHeader = '''', go_SignatureHeader = '''', go_TimestampHeader = '''', go_NonceHeader = '''',
      go_SignatureSecret = ''gateway-secret'', go_SignatureValidator = None, go_Issuer = ''big-market-gateway'',
      go_Audience = [''big-market''], go_ClockSkew = 0, go_RequireDevice = False, go_RequireExpires = False\<rparr>"

definition demo_opts :: "(unit, unit) AuthOptions" where
  "demo_opts = withDefaults demo_env
     \<lparr>ao_Skipper = None, ao_Now = None, ao_Sources = [], ao_JWT = no_jwt, ao_Session = no_session, ao_Gateway = demo_gateway\<rparr>"

fun demo_headers :: "string \<Rightarrow> string \<Rightarrow> string \<Rightarrow> string" where
  "demo_headers user sig k =
     (if k = ''X-User-Id'' then user
      else if k = ''X-Session-Id'' then ''session-2''
      else if k = ''X-Device-Id'' then ''android''
      else if k = ''X-Auth-Issuer'' then ''big-market-gateway''
      else if k = ''X-Auth-Audience'' then ''big-market''
      else if k = ''X-Auth-Expires-At'' then ''1700000300''
      else if k = ''X-Auth-Timestamp'' then ''1700000000''
      else if k = ''X-Auth-Nonce'' then ''nonce-1''
      else if k = ''X-Auth-Signature'' then sig
      else '''')"

definition demo_signature :: string where
  "demo_signature =
     hex_encode (hmac ''gateway-secret''
       (buildGatewayCanonicalString (demo_headers ''user-2'' '''')
          (gateway_info demo_env (ao_Gateway demo_opts) (demo_headers ''user-2'' '''')) (ao_Gateway demo_opts)))"

definition demo_request :: "string \<Rightarrow> transport" where
  "demo_request user = \<lparr>tr_Get = demo_headers user demo_signature, tr_Operation = ''/test.Operation'', tr_Kind = ''http'', tr_Cookie = None\<rparr>"

abbreviation demo_ctx :: request_ctx where
  "demo_ctx \<equiv> \<lparr>ctx_transport = None, ctx_auth = None\<rparr>"

lemma hex_starts:
  assumes "\<forall>c \<in> set s. is_hex c" and "\<forall>p \<in> set pats. \<not> is_hex (hd p)"
  shows "\<not> starts pats s"
proof (rule notI)
  assume "starts pats s"
  then obtain p t where "p \<in> set pats" "p \<noteq> []" "s = p @ t" by (auto simp: has_prefix_iff)
  with assms show False by auto
qed

lemma hex_trim:
  assumes "\<forall>c \<in> set s. is_hex c"
  shows "TrimSpace s = s"
proof -
  have "\<forall>p \<in> set space_encodings. \<not> is_hex (hd p)" "\<forall>p \<in> set (map rev space_encodings). \<not> is_hex (hd p)"
    by (simp_all add: space_encodings_def is_hex_def hex_val_def)
  then have "\<not> starts space_encodings s" "\<not> starts (map rev space_encodings) (rev s)"
    using hex_starts assms by (blast, metis set_rev hex_starts)
  then show ?thesis using strip_id unfolding TrimSpace_def by (metis rev_rev_ident)
qed

lemma rune_list_ascii: "\<forall>b \<in> set bs. 0 \<le> b \<and> b < 128 \<Longrightarrow> rune_list bs = bs"
  by (induction bs) (simp_all add: rune_width_def rune_value_def)

lemma is_hex_range:
  assumes "is_hex c"
  shows "(48 \<le> int (of_char c) \<and> int (of_char c) \<le> 57) \<or> (97 \<le> int (of_char c) \<and> int (of_char c) \<le> 102) \<or>
         (65 \<le> int (of_char c) \<and> int (of_char c) \<le> 70)"
proof -
  have "(48 \<le> (of_char c :: nat) \<and> (of_char c :: nat) \<le> 57) \<or> (97 \<le> (of_char c :: nat) \<and> (of_char c :: nat) \<le> 102) \<or>
        (65 \<le> (of_char c :: nat) \<and> (of_char c :: nat) \<le> 70)"
    using assms unfolding is_hex_def hex_val_def Let_def by presburger
  then show ?thesis by linarith
qed

lemma isHexString_encoded: "bs \<noteq> '''' \<Longrightarrow> isHexString (hex_encode bs)"
proof -
  assume ne: "bs \<noteq> ''''"
  have r: "\<forall>b \<in> set (map (\<lambda>c. int (of_char c)) (hex_encode bs)). (48 \<le> b \<and> b \<le> 57) \<or> (97 \<le> b \<and> b \<le> 102) \<or> (65 \<le> b \<and> b \<le> 70)"
    using is_hex_range [OF hex_encode_hex] by (metis (no_types, lifting) imageE set_map)
  then have "runes (hex_encode bs) = map (\<lambda>c. int (of_char c)) (hex_encode bs)"
    unfolding runes_def by (intro rune_list_ascii) fastforce
  moreover have "hex_encode bs \<noteq> ''''" using ne length_hex_encode [of bs] by (metis length_0_conv mult_eq_0_iff zero_neq_numeral)
  ultimately show ?thesis using r by (auto simp: isHexString_def list_all_iff simp del: set_map)
qed

lemma verify_encoded: "verifyGatewayHMACSignature c (hex_encode (hmac secret c)) secret = None"
proof -
  have "hmac secret c \<noteq> ''''" using length_hmac [of secret c] by (metis list.size(3) zero_neq_numeral)
  moreover have "TrimSpace (hex_encode (hmac secret c)) = hex_encode (hmac secret c)"
    using hex_trim hex_encode_hex by blast
  ultimately show ?thesis
    by (simp add: verifyGatewayHMACSignature_def Let_def isHexString_encoded hex_roundtrip)
qed

definition demo_info :: AuthInfo where
  "demo_info =
     \<lparr>ai_UserID = ''user-2'', ai_SessionID = ''session-2'', ai_DeviceID = ''android'', ai_Issuer = ''big-market-gateway'',
      ai_Audience = [''big-market''], ai_Source = AuthSourceGateway, ai_Subject = '''', ai_ExpiresAt = 1700000300 * second,
      ai_TokenID = '''', ai_RawToken = ''''\<rparr>"

lemma demo_cfg:
  "ao_Gateway demo_opts = demo_gateway
     \<lparr>go_UserIDHeader := ''X-User-Id'', go_SessionHeader := ''X-Session-Id'', go_DeviceHeader := ''X-Device-Id'',
      go_IssuerHeader := ''X-Auth-Issuer'', go_AudienceHeader := ''X-Auth-Audience'', go_ExpireHeader := ''X-Auth-Expires-At'',
      go_SignatureHeader := ''X-Auth-Signature'', go_TimestampHeader := ''X-Auth-Timestamp'', go_NonceHeader := ''X-Auth-Nonce'',
      go_ClockSkew := 30 * second, go_RequireExpires := True, go_RequireDevice := True\<rparr>"
  by (simp add: demo_opts_def withDefaults_def withDefaults_Gateway_def demo_gateway_def or_default_def
      defaultGatewayUserHeader_def defaultSessionHeader_def defaultDeviceHeader_def defaultGatewayIssuerHeader_def
      defaultGatewayAudience_def defaultGatewayExpireHeader_def defaultGatewaySignHeader_def defaultGatewayTimeHeader_def
      defaultGatewayNonceHeader_def)

lemma demo_trims:
  "TrimSpace ''session-2'' = ''session-2''" "TrimSpace ''android'' = ''android''"
  "TrimSpace ''big-market-gateway'' = ''big-market-gateway''" "splitAndTrim ''big-market'' (CHR '','') = [''big-market'']"
  "parseHeaderTime demo_env ''1700000300'' = 1700000300 * second"
  "TrimSpace ''user-2'' = ''user-2''" "TrimSpace '' user-2 '' = ''user-2''"
  by code_simp+

lemma demo_gateway_info:
  "TrimSpace u = ''user-2'' \<Longrightarrow> gateway_info demo_env (ao_Gateway demo_opts) (demo_headers u sig) = demo_info"
  by (simp add: gateway_info_def demo_cfg demo_trims demo_info_def)

lemma demo_canonical:
  "buildGatewayCanonicalString (demo_headers u sig) i (ao_Gateway demo_opts) =
   buildGatewayCanonicalString (demo_headers u' sig') i (ao_Gateway demo_opts)"
  by (simp add: buildGatewayCanonicalString_def demo_cfg)

lemma demo_sig:
  "demo_signature = hex_encode (hmac ''gateway-secret'' (buildGatewayCanonicalString (demo_headers u sig) demo_info (ao_Gateway demo_opts)))"
  unfolding demo_signature_def
  by (simp only: demo_gateway_info [OF demo_trims(6)] demo_canonical [of "''user-2''" "''''" demo_info u sig])

lemma demo_signature_text: "TrimSpace demo_signature = demo_signature" "demo_signature \<noteq> ''''"
proof -
  show "TrimSpace demo_signature = demo_signature"
    unfolding demo_signature_def using hex_trim hex_encode_hex by blast
  have "length demo_signature = 64" by (simp add: demo_signature_def)
  then show "demo_signature \<noteq> ''''" by auto
qed

lemma demo_checks:
  "validateIssuer ''big-market-gateway'' ''big-market-gateway'' = None" "validateAudience [''big-market''] [''big-market''] = None"
  "validateExpiration (1700000300 * second) True (30 * second) (1700000000 * second) = None"
  by (code_simp, code_simp, simp add: validateExpiration_def zero_time_def second_def)

lemma demo_accepts:
  assumes "TrimSpace u = ''user-2''"
  shows "authenticateGateway demo_env demo_ctx (demo_request u) demo_opts () = (Ok (Some demo_info, True, None), ())"
proof -
  let ?cfg = "ao_Gateway demo_opts"
  have hdr: "tr_Get (demo_request u) = demo_headers u demo_signature" by (simp add: demo_request_def)
  have info: "gateway_info demo_env ?cfg (demo_headers u demo_signature) = demo_info"
    using assms by (rule demo_gateway_info)
  have now': "opts_Now demo_env demo_opts () = 1700000000 * second"
    by (simp add: opts_Now_def demo_opts_def withDefaults_def demo_env_def)
  have sig: "verifyGatewayHMACSignature (buildGatewayCanonicalString (demo_headers u demo_signature) demo_info ?cfg)
      demo_signature ''gateway-secret'' = None"
    by (subst (2) demo_sig [of u demo_signature]) (rule verify_encoded)
  have cfg: "go_Enabled ?cfg" "demo_headers u demo_signature (go_UserIDHeader ?cfg) = u"
    "demo_headers u demo_signature (go_SignatureHeader ?cfg) = demo_signature" "go_RequireDevice ?cfg" "go_RequireExpires ?cfg"
    "go_Issuer ?cfg = ''big-market-gateway''" "go_Audience ?cfg = [''big-market'']" "go_ClockSkew ?cfg = 30 * second"
    "go_SignatureValidator ?cfg = None" "go_SignatureSecret ?cfg = ''gateway-secret''"
    by (simp_all add: demo_cfg demo_gateway_def)
  have sel: "ai_DeviceID demo_info = ''android''" "ai_Issuer demo_info = ''big-market-gateway''"
    "ai_Audience demo_info = [''big-market'']" "ai_ExpiresAt demo_info = 1700000300 * second"
    by (simp_all add: demo_info_def)
  show ?thesis
    using assms sig
    by (simp add: authenticateGateway_def Let_def hdr cfg info sel now' demo_signature_text demo_checks unless_err_def
        gateway_signed_def accept_def del: demo_headers.simps)
qed

lemma demo_one_line: "CHR 0x0A \<notin> set u \<Longrightarrow> one_line (ao_Gateway demo_opts) (tr_Get (demo_request u))"
  by (simp add: one_line_def demo_cfg demo_gateway_def demo_request_def)

theorem signature_binds_identity_witness:
  "demo_info = demo_info \<and>
   tr_Get (demo_request ''user-2'') (go_TimestampHeader (ao_Gateway demo_opts)) =
     tr_Get (demo_request '' user-2 '') (go_TimestampHeader (ao_Gateway demo_opts)) \<and>
   tr_Get (demo_request ''user-2'') (go_NonceHeader (ao_Gateway demo_opts)) =
     tr_Get (demo_request '' user-2 '') (go_NonceHeader (ao_Gateway demo_opts)) \<or>
   (let c = buildGatewayCanonicalString (tr_Get (demo_request ''user-2'')) demo_info (ao_Gateway demo_opts);
        c' = buildGatewayCanonicalString (tr_Get (demo_request '' user-2 '')) demo_info (ao_Gateway demo_opts)
    in c \<noteq> c' \<and> hmac (go_SignatureSecret (ao_Gateway demo_opts)) c = hmac (go_SignatureSecret (ao_Gateway demo_opts)) c')"
proof (rule signature_binds_identity [OF demo_accepts [OF demo_trims(6)] demo_accepts [OF demo_trims(7)]])
  show "go_SignatureValidator (ao_Gateway demo_opts) = None" by (simp add: demo_cfg demo_gateway_def)
  show "tr_Get (demo_request ''user-2'') (go_SignatureHeader (ao_Gateway demo_opts)) =
    tr_Get (demo_request '' user-2 '') (go_SignatureHeader (ao_Gateway demo_opts))"
    by (simp add: demo_cfg demo_request_def)
qed (rule demo_one_line; simp)+

end
