(* ===== verification/Sha1.thy ===== *)
theory Sha1
  imports Sha256
begin

text \<open>
  \<open>crypto/sha1\<close> on byte strings, with the words, blocks and padding of SHA-256.
\<close>

unbundle bit_operations_syntax

definition rotl :: "nat \<Rightarrow> 32 word \<Rightarrow> 32 word" where
  "rotl n x = push_bit n x OR drop_bit (32 - n) x"

definition sha1_state :: "32 word list" where
  "sha1_state = [0x67452301, 0xefcdab89, 0x98badcfe, 0x10325476, 0xc3d2e1f0]"

fun sha1_extend :: "nat \<Rightarrow> 32 word list \<Rightarrow> 32 word list" where
  "sha1_extend 0 ws = ws"
| "sha1_extend (Suc k) ws =
     (let n = length ws
      in sha1_extend k (ws @ [rotl 1 (ws ! (n - 3) XOR ws ! (n - 8) XOR ws ! (n - 14) XOR ws ! (n - 16))]))"

definition sha1_f :: "nat \<Rightarrow> 32 word \<Rightarrow> 32 word \<Rightarrow> 32 word \<Rightarrow> 32 word" where
  "sha1_f t b c d =
     (if t < 20 then (b AND c) OR (NOT b AND d)
      else if t < 40 then b XOR c XOR d
      else if t < 60 then (b AND c) OR (b AND d) OR (c AND d)
      else b XOR c XOR d)"

definition sha1_k :: "nat \<Rightarrow> 32 word" where
  "sha1_k t = (if t < 20 then 0x5a827999 else if t < 40 then 0x6ed9eba1 else if t < 60 then 0x8f1bbcdc else 0xca62c1d6)"

definition sha1_round :: "32 word list \<Rightarrow> nat \<times> 32 word \<Rightarrow> 32 word list" where
  "sha1_round st tw =
     (case (st, tw) of
        ([a, b, c, d, e], (t, w)) \<Rightarrow> [rotl 5 a + sha1_f t b c d + e + sha1_k t + w, a, rotl 30 b, c, d]
      | _ \<Rightarrow> st)"

definition sha1_block :: "32 word list \<Rightarrow> char list \<Rightarrow> 32 word list" where
  "sha1_block st block =
     map2 (+) st (foldl sha1_round st (zip [0..<80] (sha1_extend 64 (map big_endian (chunks 3 block)))))"

definition Sum1 :: "char list \<Rightarrow> char list" where
  "Sum1 msg = concat (map bytes_of_word (foldl sha1_block sha1_state (chunks 63 (sha_pad msg))))"

lemma length_sha1_rounds [simp]: "length (foldl sha1_round st tws) = length st"
proof (induction tws arbitrary: st)
  case (Cons tw tws)
  have "length (sha1_round st tw) = length st"
    by (auto simp: sha1_round_def split: list.splits prod.splits)
  with Cons show ?case by simp
qed simp

lemma length_sha1_blocks [simp]: "length (foldl sha1_block st bs) = length st"
  by (induction bs arbitrary: st) (simp_all add: sha1_block_def)

lemma length_Sum1 [simp]: "length (Sum1 msg) = 20"
  by (simp add: Sum1_def sha1_state_def)

end
