(* ===== verification/Cdc.thy ===== *)
theory Cdc
  imports Sha1 Float64
begin

text \<open>
  Change data capture (\<open>internal/cdc\<close>): the configuration read from the environment, the writer
  that puts and deletes Elasticsearch documents over HTTP, and the handler that turns the row events
  of the binlog into such requests. The HTTP client, the canal library's \<open>GetPKValues\<close>, \<open>json.Marshal\<close>,
  the parsing of URLs, the \<open>%v\<close> form of a float and lower-casing beyond ASCII are parameters
  (\<open>cdc_env\<close>). Strings are bytes.
\<close>

section \<open>The environment\<close>

text \<open>The value of a column by its dynamic type.\<close>

datatype cell = CellNil | CellInt int | CellFloat float64 | CellString string | CellBytes string | CellTime time

type_synonym table_row = "cell list"

record table =
  tb_Schema :: string
  tb_Name :: string
  tb_Columns :: "string list"

type_synonym document = "(string \<times> cell) list"

record http_request =
  rq_Method :: string
  rq_URL :: string
  rq_Body :: string

record 'w cdc_env =
  ce_Do :: "http_request \<Rightarrow> (nat \<times> string, 'w) act"
  ce_ParseURL :: "string \<Rightarrow> gerr option"
  ce_GetPKValues :: "table \<Rightarrow> table_row \<Rightarrow> cell list res"
  ce_MarshalDoc :: "document \<Rightarrow> string res"
  ce_MarshalRow :: "table_row \<Rightarrow> string res"
  ce_SprintFloat :: "float64 \<Rightarrow> string"
  ce_lower :: "string \<Rightarrow> string"
  ce_Now :: "'w \<Rightarrow> time"

definition cdc_ToLower :: "'w cdc_env \<Rightarrow> string \<Rightarrow> string" where
  "cdc_ToLower env s = (if list_all (\<lambda>c. (of_char c :: nat) < 128) s then ToLower s else ce_lower env s)"

section \<open>Configuration\<close>

definition defaultMySQLFlavor :: string where "defaultMySQLFlavor = ''mysql''"
definition defaultMySQLCharset :: string where "defaultMySQLCharset = ''utf8mb4''"
definition defaultServerID :: int where "defaultServerID = 2001"
definition defaultReadTimeout :: string where "defaultReadTimeout = ''30s''"
definition defaultESIndexPrefx :: string where "defaultESIndexPrefx = ''bm''"

record Config =
  cf_MySQLAddr :: string
  cf_MySQLUser :: string
  cf_MySQLPassword :: string
  cf_MySQLFlavor :: string
  cf_MySQLCharset :: string
  cf_MySQLReadTimeout :: string
  cf_MySQLServerID :: int
  cf_IncludeTableRegex :: "string list"
  cf_ESAddr :: string
  cf_ESIndexPrefix :: string

definition getenvDefault :: "(string \<Rightarrow> string) \<Rightarrow> string \<Rightarrow> string \<Rightarrow> string" where
  "getenvDefault getenv key defaultValue =
     (let value = TrimSpace (getenv key) in if value = '''' then defaultValue else value)"

text \<open>\<open>strconv.ParseUint(s, 10, 32)\<close>: digits only.\<close>

definition ParseUint32 :: "string \<Rightarrow> int res" where
  "ParseUint32 s =
     (case unsigned_val s of
        None \<Rightarrow> Err ErrSyntax
      | Some n \<Rightarrow> if n < 2 ^ 32 then Ok n else Err ErrRange)"

definition parseUint32Env :: "(string \<Rightarrow> string) \<Rightarrow> string \<Rightarrow> int \<Rightarrow> int res" where
  "parseUint32Env getenv key defaultValue =
     (let value = TrimSpace (getenv key)
      in if value = '''' then Ok defaultValue
         else case ParseUint32 value of
                Ok parsed \<Rightarrow> Ok parsed
              | Err e \<Rightarrow> Err (Wrap (''parse '' @ key) e)
              | Panic s \<Rightarrow> Panic s)"

definition splitCSV :: "string \<Rightarrow> string list" where
  "splitCSV value =
     (if TrimSpace value = '''' then []
      else filter (\<lambda>trimmed. trimmed \<noteq> '''') (map TrimSpace (split (CHR '','') value)))"

text \<open>\<open>strings.TrimRight(s, "/")\<close>\<close>

definition trim_slashes :: "string \<Rightarrow> string" where
  "trim_slashes s = rev (dropWhile (\<lambda>c. c = CHR ''/'') (rev s))"

definition Validate :: "Config \<Rightarrow> unit res" where
  "Validate c =
     (if cf_MySQLAddr c = '''' then Err (GoErr ''CDC_MYSQL_ADDR is required'')
      else if cf_MySQLUser c = '''' then Err (GoErr ''CDC_MYSQL_USER is required'')
      else if cf_ESAddr c = '''' then Err (GoErr ''CDC_ES_ADDR is required'')
      else if length (cf_IncludeTableRegex c) = 0 then Err (GoErr ''CDC_INCLUDE_TABLE_REGEX must contain at least one regex'')
      else if cf_MySQLServerID c = 0 then Err (GoErr ''CDC_MYSQL_SERVER_ID must be greater than 0'')
      else Ok ())"

definition LoadConfigFromEnv :: "'w cdc_env \<Rightarrow> (string \<Rightarrow> string) \<Rightarrow> Config res" where
  "LoadConfigFromEnv env getenv =
     bindR (parseUint32Env getenv ''CDC_MYSQL_SERVER_ID'' defaultServerID) (\<lambda>serverID.
     let cfg =
       \<lparr>cf_MySQLAddr = TrimSpace (getenv ''CDC_MYSQL_ADDR''),
        cf_MySQLUser = TrimSpace (getenv ''CDC_MYSQL_USER''),
        cf_MySQLPassword = getenv ''CDC_MYSQL_PASSWORD'',
        cf_MySQLFlavor = getenvDefault getenv ''CDC_MYSQL_FLAVOR'' defaultMySQLFlavor,
        cf_MySQLCharset = getenvDefault getenv ''CDC_MYSQL_CHARSET'' defaultMySQLCharset,
        cf_MySQLReadTimeout = getenvDefault getenv ''CDC_MYSQL_READ_TIMEOUT'' defaultReadTimeout,
        cf_MySQLServerID = serverID,
        cf_IncludeTableRegex =
          splitCSV (getenvDefault getenv ''CDC_INCLUDE_TABLE_REGEX''
            (''big_market_01'' @ [CHR 0x5C] @ ''..*,big_market_02'' @ [CHR 0x5C] @ ''..*'')),
        cf_ESAddr = trim_slashes (TrimSpace (getenv ''CDC_ES_ADDR'')),
        cf_ESIndexPrefix = cdc_ToLower env (getenvDefault getenv ''CDC_ES_INDEX_PREFIX'' defaultESIndexPrefx)\<rparr>
     in bindR (Validate cfg) (\<lambda>_. Ok cfg))"

text \<open>\<open>_\d{3}$\<close>: a match is at the end of the text, so that there is at most one.\<close>

definition is_digit :: "char \<Rightarrow> bool" where
  "is_digit c \<longleftrightarrow> digit_val c \<noteq> None"

definition drop_suffix :: "string \<Rightarrow> string" where
  "drop_suffix name =
     (case rev name of
        d3 # d2 # d1 # u # rest \<Rightarrow>
          if u = CHR ''_'' \<and> is_digit d1 \<and> is_digit d2 \<and> is_digit d3 then rev rest else name
      | _ \<Rightarrow> name)"

definition trimShardSuffix :: "'w cdc_env \<Rightarrow> string \<Rightarrow> string" where
  "trimShardSuffix env name = drop_suffix (cdc_ToLower env name)"

definition LogicalIndexName :: "'w cdc_env \<Rightarrow> Config \<Rightarrow> string \<Rightarrow> string" where
  "LogicalIndexName env c tableName =
     (let logicalTableName = trimShardSuffix env tableName;
          pre = TrimSpace (cf_ESIndexPrefix c)
      in if pre = '''' then cdc_ToLower env logicalTableName
         else cdc_ToLower env (pre @ ''_'' @ logicalTableName))"

section \<open>The Elasticsearch writer\<close>

record ESWriter =
  ew_baseURL :: string

definition NewESWriter :: "Config \<Rightarrow> ESWriter" where
  "NewESWriter cfg = \<lparr>ew_baseURL = cf_ESAddr cfg\<rparr>"

text \<open>\<open>url.PathEscape\<close>: letters, digits and \<open>-_.~$&+=:@\<close> stand for themselves.\<close>

definition path_plain :: "char \<Rightarrow> bool" where
  "path_plain c \<longleftrightarrow>
     (let n = of_char c :: nat in (48 \<le> n \<and> n \<le> 57) \<or> (65 \<le> n \<and> n \<le> 90) \<or> (97 \<le> n \<and> n \<le> 122)) \<or>
     c \<in> set ''-_.~$&+=:@''"

definition upper_hex :: "nat \<Rightarrow> char" where
  "upper_hex n = char_of (if n < 10 then 48 + n else 55 + n)"

definition escape_char :: "char \<Rightarrow> string" where
  "escape_char c =
     (if path_plain c then [c]
      else let n = of_char c :: nat in [CHR ''%'', upper_hex (n div 16), upper_hex (n mod 16)])"

definition PathEscape :: "string \<Rightarrow> string" where
  "PathEscape s = concat (map escape_char s)"

definition documentURL :: "ESWriter \<Rightarrow> string \<Rightarrow> string \<Rightarrow> string" where
  "documentURL wr index id0 = ew_baseURL wr @ ''/'' @ PathEscape index @ ''/_doc/'' @ PathEscape id0"

text \<open>\<open>http.NewRequestWithContext\<close> fails on a URL that does not parse.\<close>

definition NewRequest :: "'w cdc_env \<Rightarrow> string \<Rightarrow> string \<Rightarrow> string \<Rightarrow> http_request res" where
  "NewRequest env meth url body =
     (case ce_ParseURL env url of
        Some e \<Rightarrow> Err e
      | None \<Rightarrow> Ok \<lparr>rq_Method = meth, rq_URL = url, rq_Body = body\<rparr>)"

definition Ping :: "'w cdc_env \<Rightarrow> ESWriter \<Rightarrow> (unit, 'w) act" where
  "Ping env wr =
     caseE (liftR (NewRequest env ''GET'' (ew_baseURL wr) ''''))
       (\<lambda>err. fail (Wrap ''build es ping request'' err))
       (\<lambda>req. caseE (ce_Do env req)
          (\<lambda>err. fail (Wrap ''ping elasticsearch'' err))
          (\<lambda>(status, body).
             if status \<ge> 400 then fail (GoErr (''ping elasticsearch status'' @ TrimSpace body)) else ret ()))"

definition es_do :: "'w cdc_env \<Rightarrow> http_request \<Rightarrow> (unit, 'w) act" where
  "es_do env req =
     bindE (ce_Do env req) (\<lambda>(status, body).
       if status = 404 \<and> rq_Method req = ''DELETE'' then ret ()
       else if status \<ge> 400 then fail (GoErr (''status'' @ TrimSpace body))
       else ret ())"

definition Upsert :: "'w cdc_env \<Rightarrow> ESWriter \<Rightarrow> string \<Rightarrow> string \<Rightarrow> document \<Rightarrow> (unit, 'w) act" where
  "Upsert env wr index id0 doc =
     caseE (liftR (ce_MarshalDoc env doc))
       (\<lambda>err. fail (Wrap ''marshal es document'' err))
       (\<lambda>payload. caseE (liftR (NewRequest env ''PUT'' (documentURL wr index id0) payload))
          (\<lambda>err. fail (Wrap ''build es upsert request'' err))
          (\<lambda>req. caseE (es_do env req)
             (\<lambda>err. fail (Wrap ''upsert elasticsearch document'' err))
             (\<lambda>_. ret ())))"

definition es_Delete :: "'w cdc_env \<Rightarrow> ESWriter \<Rightarrow> string \<Rightarrow> string \<Rightarrow> (unit, 'w) act" where
  "es_Delete env wr index id0 =
     caseE (liftR (NewRequest env ''DELETE'' (documentURL wr index id0) ''''))
       (\<lambda>err. fail (Wrap ''build es delete request'' err))
       (\<lambda>req. caseE (es_do env req)
          (\<lambda>err. fail (Wrap ''delete elasticsearch document'' err))
          (\<lambda>_. ret ()))"

section \<open>Rows and documents\<close>

text \<open>\<open>t.UTC().Format(time.RFC3339)\<close> and, with the fraction and without its trailing zeros,
  \<open>time.RFC3339Nano\<close>.\<close>

definition rfc3339_seconds :: "time \<Rightarrow> string" where
  "rfc3339_seconds t =
     (let s = t div second mod 86400
      in fmt_day 0 t @ ''T'' @ fmt0 2 (s div 3600) @ '':'' @ fmt0 2 (s div 60 mod 60) @ '':'' @ fmt0 2 (s mod 60))"

definition rfc3339 :: "time \<Rightarrow> string" where
  "rfc3339 t = rfc3339_seconds t @ ''Z''"

definition rfc3339_nano :: "time \<Rightarrow> string" where
  "rfc3339_nano t =
     (let frac = rev (dropWhile (\<lambda>c. c = CHR ''0'') (rev (fmt0 9 (t mod second))))
      in rfc3339_seconds t @ (if frac = '''' then '''' else ''.'' @ frac) @ ''Z'')"

definition normalizeValue :: "cell \<Rightarrow> cell" where
  "normalizeValue value =
     (case value of
        CellBytes v \<Rightarrow> CellString v
      | CellTime v \<Rightarrow> CellString (rfc3339_nano v)
      | v \<Rightarrow> v)"

text \<open>\<open>fmt.Sprintf("%v", v)\<close> of a normalised value; the other two types have been normalised away.\<close>

definition cell_text :: "'w cdc_env \<Rightarrow> cell \<Rightarrow> string" where
  "cell_text env v =
     (case v of
        CellNil \<Rightarrow> ''<nil>''
      | CellInt n \<Rightarrow> FormatInt n
      | CellFloat x \<Rightarrow> ce_SprintFloat env x
      | CellString s \<Rightarrow> s
      | CellBytes s \<Rightarrow> ''['' @ join '' '' (map (\<lambda>c. FormatInt (of_char c)) s) @ '']''
      | CellTime t \<Rightarrow> rfc3339_nano t)"

definition documentID :: "'w cdc_env \<Rightarrow> table \<Rightarrow> table_row \<Rightarrow> string" where
  "documentID env tbl row =
     (case ce_GetPKValues env tbl row of
        Ok pkValues \<Rightarrow>
          if length pkValues > 0 then join '':'' (map (\<lambda>value. cell_text env (normalizeValue value)) pkValues)
          else hex_encode (Sum1 (tb_Schema tbl @ ''.'' @ tb_Name tbl @ '':'' @ (case ce_MarshalRow env row of Ok b \<Rightarrow> b | _ \<Rightarrow> '''')))
      | _ \<Rightarrow> hex_encode (Sum1 (tb_Schema tbl @ ''.'' @ tb_Name tbl @ '':'' @ (case ce_MarshalRow env row of Ok b \<Rightarrow> b | _ \<Rightarrow> ''''))))"

text \<open>A Go map as an association list with one entry for each key.\<close>

definition put_field :: "string \<Rightarrow> cell \<Rightarrow> document \<Rightarrow> document" where
  "put_field k v doc = filter (\<lambda>e. fst e \<noteq> k) doc @ [(k, v)]"

definition rowToDocument :: "'w cdc_env \<Rightarrow> table \<Rightarrow> table_row \<Rightarrow> time \<Rightarrow> document" where
  "rowToDocument env tbl row tnow =
     (let doc = foldl (\<lambda>doc (name, v). put_field name (normalizeValue v) doc) [] (zip (tb_Columns tbl) row)
      in put_field ''_synced_at'' (CellString (rfc3339 tnow))
         (put_field ''_logical_table'' (CellString (trimShardSuffix env (tb_Name tbl)))
         (put_field ''_physical_table'' (CellString (tb_Name tbl))
         (put_field ''_schema'' (CellString (tb_Schema tbl)) doc))))"

section \<open>The event handler\<close>

record RowsEvent =
  re_Table :: "table option"
  re_Action :: string
  re_Rows :: "table_row list"

definition InsertAction :: string where "InsertAction = ''insert''"
definition DeleteAction :: string where "DeleteAction = ''delete''"
definition UpdateAction :: string where "UpdateAction = ''update''"

text \<open>The name of the table in an error text.\<close>

definition sync_error :: "string \<Rightarrow> table \<Rightarrow> gerr \<Rightarrow> ('a, 'w) act" where
  "sync_error what tbl err = fail (Wrap (what @ tb_Schema tbl @ ''.'' @ tb_Name tbl) err)"

definition upsert_row :: "'w cdc_env \<Rightarrow> ESWriter \<Rightarrow> string \<Rightarrow> table \<Rightarrow> string \<Rightarrow> table_row \<Rightarrow> (unit, 'w) act" where
  "upsert_row env wr indexName tbl what row w =
     caseE (Upsert env wr indexName (documentID env tbl row) (rowToDocument env tbl row (ce_Now env w)))
       (sync_error what tbl) ret w"

fun insert_rows :: "'w cdc_env \<Rightarrow> ESWriter \<Rightarrow> string \<Rightarrow> table \<Rightarrow> table_row list \<Rightarrow> (unit, 'w) act" where
  "insert_rows env wr indexName tbl [] = ret ()"
| "insert_rows env wr indexName tbl (row # rows) =
     bindE (upsert_row env wr indexName tbl ''insert sync '' row) (\<lambda>_. insert_rows env wr indexName tbl rows)"

definition delete_row :: "'w cdc_env \<Rightarrow> ESWriter \<Rightarrow> string \<Rightarrow> table \<Rightarrow> string \<Rightarrow> table_row \<Rightarrow> (unit, 'w) act" where
  "delete_row env wr indexName tbl what row =
     caseE (es_Delete env wr indexName (documentID env tbl row)) (sync_error what tbl) ret"

fun delete_rows :: "'w cdc_env \<Rightarrow> ESWriter \<Rightarrow> string \<Rightarrow> table \<Rightarrow> table_row list \<Rightarrow> (unit, 'w) act" where
  "delete_rows env wr indexName tbl [] = ret ()"
| "delete_rows env wr indexName tbl (row # rows) =
     bindE (delete_row env wr indexName tbl ''delete sync '' row) (\<lambda>_. delete_rows env wr indexName tbl rows)"

text \<open>\<open>for i := 0; i+1 < len(e.Rows); i += 2\<close>\<close>

fun sync_updates :: "'w cdc_env \<Rightarrow> ESWriter \<Rightarrow> string \<Rightarrow> table \<Rightarrow> table_row list \<Rightarrow> (unit, 'w) act" where
  "sync_updates env wr indexName tbl (oldRow # newRow # rows) =
     bindE (if documentID env tbl oldRow \<noteq> documentID env tbl newRow
            then delete_row env wr indexName tbl ''delete stale document '' oldRow else ret ())
       (\<lambda>_. bindE (upsert_row env wr indexName tbl ''update sync '' newRow)
       (\<lambda>_. sync_updates env wr indexName tbl rows))"
| "sync_updates env wr indexName tbl _ = ret ()"

definition OnRow :: "'w cdc_env \<Rightarrow> Config \<Rightarrow> ESWriter \<Rightarrow> RowsEvent option \<Rightarrow> (unit, 'w) act" where
  "OnRow env cfg wr ev =
     (case ev of
        None \<Rightarrow> ret ()
      | Some e \<Rightarrow>
          (case re_Table e of
             None \<Rightarrow> ret ()
           | Some tbl \<Rightarrow>
               let indexName = LogicalIndexName env cfg (tb_Name tbl)
               in if re_Action e = InsertAction then insert_rows env wr indexName tbl (re_Rows e)
                  else if re_Action e = DeleteAction then delete_rows env wr indexName tbl (re_Rows e)
                  else if re_Action e = UpdateAction then sync_updates env wr indexName tbl (re_Rows e)
                  else ret ()))"

section \<open>The shape of a document\<close>

text \<open>A value that \<open>json.Marshal\<close> writes as a JSON scalar: no raw bytes, no times.\<close>

definition json_scalar :: "cell \<Rightarrow> bool" where
  "json_scalar v = (case v of CellBytes b \<Rightarrow> False | CellTime t \<Rightarrow> False | _ \<Rightarrow> True)"

definition well_typed :: "document \<Rightarrow> bool" where
  "well_typed doc \<longleftrightarrow> distinct (map fst doc) \<and> list_all json_scalar (map snd doc)"

lemma json_scalar_normal [simp]: "json_scalar (normalizeValue v)" "json_scalar (CellString s)"
  by (simp_all add: json_scalar_def normalizeValue_def split: cell.split)

lemma well_typed_put: "well_typed doc \<Longrightarrow> json_scalar v \<Longrightarrow> well_typed (put_field k v doc)"
  by (auto simp: well_typed_def put_field_def list_all_iff distinct_map inj_on_def)

lemma fields_put [simp]: "fst ` set (put_field k v doc) = insert k (fst ` set doc)"
  by (auto simp: put_field_def)

lemma map_of_put_field [simp]: "map_of (put_field k v doc) = (map_of doc)(k \<mapsto> v)"
proof (rule ext)
  fix x
  have "map_of (filter (\<lambda>e. fst e \<noteq> k) doc) x = (if x = k then None else map_of doc x)"
    by (induction doc) auto
  then show "map_of (put_field k v doc) x = ((map_of doc)(k \<mapsto> v)) x"
    by (simp add: put_field_def map_add_def split: option.split)
qed

abbreviation columns_of :: "(string \<times> cell) list \<Rightarrow> document \<Rightarrow> document" where
  "columns_of cs doc \<equiv> foldl (\<lambda>doc (name, v). put_field name (normalizeValue v) doc) doc cs"

lemma columns_well_typed: "well_typed doc \<Longrightarrow> well_typed (columns_of cs doc)"
  by (induction cs arbitrary: doc) (auto simp: well_typed_put)

lemma columns_fields: "fst ` set (columns_of cs doc) = fst ` set cs \<union> fst ` set doc"
proof (induction cs arbitrary: doc)
  case (Cons c cs)
  obtain n v where c: "c = (n, v)" by (cases c)
  have "fst ` set (columns_of (c # cs) doc) = fst ` set cs \<union> fst ` set (put_field n (normalizeValue v) doc)"
    using Cons.IH [of "put_field n (normalizeValue v) doc"] by (simp add: c)
  then show ?case unfolding fields_put by (simp add: c)
qed simp

lemma fst_set_zip: "fst ` set (zip xs ys) = set (take (length ys) xs)"
  by (metis list.set_map map_fst_zip_take min.commute take_all_iff take_take nle_le length_take)

text \<open>
  C16. Every document the handler builds is well typed: it has one entry for each field, every value
  is a JSON scalar (bytes have become text and times RFC 3339 strings), its fields are the columns
  the row has a value for and the four fields of the synchronisation, and these four hold the
  schema, the physical table, the logical table and the time, whatever the columns are called.
\<close>

theorem document_well_typed:
  "well_typed (rowToDocument env tbl row t) \<and>
   fst ` set (rowToDocument env tbl row t) =
     set (take (length row) (tb_Columns tbl)) \<union> {''_schema'', ''_physical_table'', ''_logical_table'', ''_synced_at''} \<and>
   map (map_of (rowToDocument env tbl row t)) [''_schema'', ''_physical_table'', ''_logical_table'', ''_synced_at''] =
     map (Some \<circ> CellString) [tb_Schema tbl, tb_Name tbl, trimShardSuffix env (tb_Name tbl), rfc3339 t]"
proof -
  have "well_typed []" by (simp add: well_typed_def)
  then have "well_typed (columns_of (zip (tb_Columns tbl) row) [])" by (rule columns_well_typed)
  then show ?thesis
    by (auto simp: rowToDocument_def Let_def well_typed_put columns_fields fst_set_zip)
qed

end
