(* ===== verification/Cdc_Sync.thy ===== *)
theory Cdc_Sync
  imports Cdc
begin

text \<open>
  What the change data capture keeps: under the documented behaviour of Elasticsearch's document
  API, delivering the row events at least once, with failures, repetitions and restarts from an
  older position, leaves exactly the documents of the last writes; and what it does not keep: rows
  of different shards that have the same primary key are one document.
\<close>

section \<open>Last write wins\<close>

type_synonym ('m, 'k, 'd) op = "'m \<times> 'k \<times> 'd option"

definition apply_writes :: "('m, 'k, 'd) op list \<Rightarrow> ('k \<rightharpoonup> 'd) \<Rightarrow> ('k \<rightharpoonup> 'd)" where
  "apply_writes ops M = foldl (\<lambda>M (_, k, v). M(k := v)) M ops"

lemma apply_writes_simps [simp]:
  "apply_writes [] M = M" "apply_writes ((m, k, v) # ops) M = apply_writes ops (M(k := v))"
  "apply_writes (xs @ ys) M = apply_writes ys (apply_writes xs M)"
  by (simp_all add: apply_writes_def)

abbreviation written :: "('m, 'k, 'd) op list \<Rightarrow> 'k set" where
  "written ops \<equiv> (fst \<circ> snd) ` set ops"

lemma apply_writes_other: "k \<notin> written ops \<Longrightarrow> apply_writes ops M k = M k"
  by (induction ops arbitrary: M) auto

lemma apply_writes_same: "k \<in> written ops \<Longrightarrow> apply_writes ops M k = apply_writes ops M' k"
proof (induction ops arbitrary: M M')
  case (Cons x ops)
  obtain m k' v where x: "x = (m, k', v)" by (cases x)
  show ?case
  proof (cases "k \<in> written ops")
    case True
    then show ?thesis using Cons.IH x by simp
  next
    case False
    with Cons.prems x show ?thesis by (simp add: apply_writes_other)
  qed
qed simp

text \<open>Writing a part first changes nothing, and neither does writing again what came before.\<close>

lemma apply_writes_absorb: "written xs \<subseteq> written ys \<Longrightarrow> apply_writes ys (apply_writes xs M) = apply_writes ys M"
proof (rule ext)
  fix k
  assume sub: "written xs \<subseteq> written ys"
  show "apply_writes ys (apply_writes xs M) k = apply_writes ys M k"
  proof (cases "k \<in> written ys")
    case True
    then show ?thesis by (rule apply_writes_same)
  next
    case False
    with sub have "k \<notin> written xs" by blast
    with False show ?thesis by (simp add: apply_writes_other)
  qed
qed

lemma apply_writes_again:
  assumes "apply_writes ts C = apply_writes (ps @ ss @ ts) M"
  shows "apply_writes (ss @ ts) C = apply_writes (ps @ ss @ ts) M"
proof (rule ext)
  fix k
  have c: "apply_writes ts C k = apply_writes (ps @ ss @ ts) M k" using assms by simp
  show "apply_writes (ss @ ts) C k = apply_writes (ps @ ss @ ts) M k"
  proof (cases "k \<in> written (ss @ ts)")
    case True
    then have "apply_writes (ss @ ts) C k = apply_writes (ss @ ts) (apply_writes ps M) k" by (rule apply_writes_same)
    then show ?thesis by simp
  next
    case False
    then have "k \<notin> written ss" "k \<notin> written ts" by auto
    then have "apply_writes (ss @ ts) C k = apply_writes ts C k" by (simp add: apply_writes_other)
    with c show ?thesis by simp
  qed
qed

section \<open>The contract of a document store\<close>

locale document_store =
  fixes ok :: "'c \<Rightarrow> bool" and put :: "'c \<Rightarrow> 'm \<times> 'k \<times> 'd option \<Rightarrow> (unit, 'w) act"
    and holds :: "'c \<Rightarrow> 'w \<Rightarrow> ('k \<rightharpoonup> 'd) \<Rightarrow> bool"
  assumes put_Ok: "ok c \<Longrightarrow> holds c w M \<Longrightarrow> put c (m, k, v) w = (Ok (), w') \<Longrightarrow> holds c w' (M(k := v))"
    and put_Err: "ok c \<Longrightarrow> holds c w M \<Longrightarrow> put c (m, k, v) w = (Err e, w') \<Longrightarrow>
          holds c w' M \<or> holds c w' (M(k := v))"
begin

lemma run_Ok:
  "ok c \<Longrightarrow> holds c w M \<Longrightarrow> forE ops (put c) w = (Ok (), w') \<Longrightarrow> holds c w' (apply_writes ops M)"
proof (induction ops arbitrary: w M)
  case (Cons x ops)
  obtain m k v where x: "x = (m, k, v)" by (cases x)
  obtain w1 where "put c x w = (Ok (), w1)" "forE ops (put c) w1 = (Ok (), w')"
    using Cons.prems(3) by (auto simp: forE_def)
  with Cons.prems(1,2) Cons.IH [of w1] put_Ok x show ?case by simp
qed (simp add: forE_def)

lemma run_Err:
  "ok c \<Longrightarrow> holds c w M \<Longrightarrow> forE ops (put c) w = (Err e, w') \<Longrightarrow>
   \<exists>n. holds c w' (apply_writes (take n ops) M)"
proof (induction ops arbitrary: w M)
  case (Cons x ops)
  obtain m k v where x: "x = (m, k, v)" by (cases x)
  have "bindE (put c x) (\<lambda>_. forE ops (put c)) w = (Err e, w')" using Cons.prems(3) by (simp add: forE_def)
  then show ?case
  proof (cases rule: bindE_ErrE)
    case stop
    with Cons.prems(1,2) put_Err x have "holds c w' M \<or> holds c w' (M(k := v))" by blast
    moreover have "apply_writes (take 0 (x # ops)) M = M" "apply_writes (take 1 (x # ops)) M = M(k := v)" by (simp_all add: x)
    ultimately show ?thesis by metis
  next
    case (later u w1)
    then have "holds c w1 (M(k := v))" using Cons.prems(1,2) put_Ok x by simp
    with later Cons.IH [of w1 "M(k := v)"] Cons.prems(1) obtain n where "holds c w' (apply_writes (take n ops) (M(k := v)))" by blast
    then have "holds c w' (apply_writes (take (Suc n) (x # ops)) M)" by (simp add: x)
    then show ?thesis by blast
  qed
qed (simp add: forE_def)

end

section \<open>Addresses of documents\<close>

lemma of_char_upper_hex: "n < 16 \<Longrightarrow> (of_char (upper_hex n) :: nat) = (if n < 10 then 48 + n else 55 + n)"
  by (simp add: upper_hex_def)

lemma upper_hex_inj:
  assumes "m < 16" and "n < 16" and "upper_hex m = upper_hex n"
  shows "m = n"
proof -
  have "(if m < 10 then 48 + m else 55 + m) = (if n < 10 then 48 + n else 55 + n)"
    using of_char_upper_hex [OF assms(1)] of_char_upper_hex [OF assms(2)] assms(3) by metis
  then show ?thesis by presburger
qed

lemma nibbles: "(of_char c :: nat) div 16 < 16" "(of_char c :: nat) mod 16 < 16"
  using of_char_less [of c] by (simp_all del: of_char_less)

lemma not_plain: "\<not> path_plain (CHR ''%'')" "\<not> path_plain (CHR ''/'')"
  by (simp_all add: path_plain_def)

lemma escape_char_prefix:
  assumes "escape_char c @ x = escape_char d @ y"
  shows "c = d \<and> x = y"
proof (cases "path_plain c \<or> path_plain d")
  case True
  with assms not_plain show ?thesis by (auto simp: escape_char_def Let_def split: if_splits)
next
  case False
  let ?m = "of_char c :: nat" and ?n = "of_char d :: nat"
  have "upper_hex (?m div 16) = upper_hex (?n div 16)" "upper_hex (?m mod 16) = upper_hex (?n mod 16)" "x = y"
    using assms False by (simp_all add: escape_char_def Let_def)
  then have "?m div 16 = ?n div 16" "?m mod 16 = ?n mod 16" using nibbles upper_hex_inj by blast+
  then have "?m = ?n" by (metis div_mult_mod_eq)
  with \<open>x = y\<close> show ?thesis by simp
qed

lemma PathEscape_inj: "PathEscape s = PathEscape t \<Longrightarrow> s = t"
proof (induction s arbitrary: t)
  case Nil
  have "escape_char d \<noteq> ''''" for d by (simp add: escape_char_def Let_def)
  with Nil show ?case by (cases t) (auto simp: PathEscape_def)
next
  case (Cons c s)
  have ne: "escape_char c \<noteq> ''''" by (simp add: escape_char_def Let_def)
  then obtain d u where t: "t = d # u" using Cons.prems by (cases t) (auto simp: PathEscape_def)
  with Cons.prems have "escape_char c @ PathEscape s = escape_char d @ PathEscape u" by (simp add: PathEscape_def)
  with Cons.IH t show ?case using escape_char_prefix by blast
qed

lemma escape_no_slash: "CHR ''/'' \<notin> set (PathEscape s)"
proof -
  have hex: "upper_hex n \<noteq> CHR ''/''" if "n < 16" for n
  proof (rule notI)
    assume "upper_hex n = CHR ''/''"
    then show False using of_char_upper_hex [OF that] that by (simp split: if_splits)
  qed
  have "CHR ''/'' \<notin> set (escape_char c)" for c
    using not_plain hex [OF nibbles(1), of c, symmetric] hex [OF nibbles(2), of c, symmetric] by (auto simp: escape_char_def Let_def)
  then show ?thesis by (auto simp: PathEscape_def)
qed

lemma documentURL_inj:
  assumes "documentURL wr i k = documentURL wr i' k'"
  shows "i = i' \<and> k = k'"
proof -
  have eq: "PathEscape i @ CHR ''/'' # (''_doc/'' @ PathEscape k) = PathEscape i' @ CHR ''/'' # (''_doc/'' @ PathEscape k')"
    using assms by (simp add: documentURL_def)
  have "PathEscape i = PathEscape i' \<and> ''_doc/'' @ PathEscape k = ''_doc/'' @ PathEscape k'"
    using split_append_sep [OF escape_no_slash] join_split eq by (metis list.inject)
  then show ?thesis using PathEscape_inj by auto
qed

section \<open>Elasticsearch\<close>

text \<open>
  The documented behaviour of the document API, on an observation \<open>docs\<close> of the documents by their
  URL: a request that is answered without an error status has been carried out, and so has the
  deletion of a document that is not there; any other request may or may not have been.
\<close>

definition es_effect :: "http_request \<Rightarrow> (string \<rightharpoonup> string) \<Rightarrow> (string \<rightharpoonup> string)" where
  "es_effect req m =
     (if rq_Method req = ''PUT'' then m(rq_URL req \<mapsto> rq_Body req)
      else if rq_Method req = ''DELETE'' then m(rq_URL req := None)
      else m)"

definition es_ok :: "'w cdc_env \<Rightarrow> ('w \<Rightarrow> string \<rightharpoonup> string) \<Rightarrow> bool" where
  "es_ok env docs \<longleftrightarrow>
     (\<forall>req w r w'. ce_Do env req w = (r, w') \<longrightarrow>
        (case r of
           Ok (status, body) \<Rightarrow>
             if status < 400 \<or> (status = 404 \<and> rq_Method req = ''DELETE'') then docs w' = es_effect req (docs w)
             else docs w' \<in> {docs w, es_effect req (docs w)}
         | _ \<Rightarrow> docs w' \<in> {docs w, es_effect req (docs w)}))"

text \<open>The store holds, for every index and id, a document of the given row as it was synchronised at
  some time, or none.\<close>

definition doc_of :: "'w cdc_env \<Rightarrow> table \<times> table_row \<Rightarrow> string \<Rightarrow> bool" where
  "doc_of env d p \<longleftrightarrow> (\<exists>t. ce_MarshalDoc env (rowToDocument env (fst d) (snd d) t) = Ok p)"

definition holds :: "'w cdc_env \<times> ('w \<Rightarrow> string \<rightharpoonup> string) \<times> ESWriter \<Rightarrow> 'w \<Rightarrow> (string \<times> string \<rightharpoonup> table \<times> table_row) \<Rightarrow> bool" where
  "holds c w M \<longleftrightarrow>
     (case c of (env, docs, wr) \<Rightarrow>
        \<forall>i k. (case M (i, k) of
           None \<Rightarrow> docs w (documentURL wr i k) = None
         | Some d \<Rightarrow> (\<exists>p. docs w (documentURL wr i k) = Some p \<and> doc_of env d p)))"

definition store_ok :: "'w cdc_env \<times> ('w \<Rightarrow> string \<rightharpoonup> string) \<times> ESWriter \<Rightarrow> bool" where
  "store_ok c \<longleftrightarrow> (case c of (env, docs, wr) \<Rightarrow> es_ok env docs)"

text \<open>One write of the handler: the text and the table of its error, the document, the row.\<close>

definition cdc_put ::
  "'w cdc_env \<times> ('w \<Rightarrow> string \<rightharpoonup> string) \<times> ESWriter \<Rightarrow> (string \<times> table) \<times> (string \<times> string) \<times> (table \<times> table_row) option \<Rightarrow> (unit, 'w) act" where
  "cdc_put c op w =
     (case c of (env, docs, wr) \<Rightarrow> case op of ((what, tbl), (i, k), v) \<Rightarrow>
        (case v of
           None \<Rightarrow> caseE (es_Delete env wr i k) (sync_error what tbl) ret w
         | Some d \<Rightarrow> caseE (Upsert env wr i k (rowToDocument env (fst d) (snd d) (ce_Now env w))) (sync_error what tbl) ret w))"

lemma es_do_effect:
  assumes "es_ok env docs" and "es_do env req w = (r, w')"
  shows "r = Ok () \<Longrightarrow> docs w' = es_effect req (docs w)" and "docs w' \<in> {docs w, es_effect req (docs w)}"
proof -
  obtain r0 w0 where d: "ce_Do env req w = (r0, w0)" by fastforce
  note e = assms(1) [unfolded es_ok_def, rule_format, OF d]
  have w0: "w0 = w'" using assms(2) d by (auto simp: es_do_def bindE_def split: res.splits prod.splits if_splits)
  show "docs w' = es_effect req (docs w)" if "r = Ok ()"
    using assms(2) d e that by (auto simp: es_do_def bindE_def split: res.splits prod.splits if_splits)
  show "docs w' \<in> {docs w, es_effect req (docs w)}"
    using e w0 by (auto split: res.splits prod.splits if_splits)
qed

lemma holds_update:
  assumes "holds (env, docs, wr) w M" and "docs w' = (docs w)(documentURL wr i k := x)"
    and "case v of None \<Rightarrow> x = None | Some d \<Rightarrow> \<exists>p. x = Some p \<and> doc_of env d p"
  shows "holds (env, docs, wr) w' (M((i, k) := v))"
proof -
  have other: "docs w' (documentURL wr i' k') = docs w (documentURL wr i' k')" if "(i', k') \<noteq> (i, k)" for i' k'
    using assms(2) that documentURL_inj [of wr i' k' i k] by auto
  have here: "docs w' (documentURL wr i k) = x" using assms(2) by simp
  have "case (M((i, k) := v)) (i', k') of None \<Rightarrow> docs w' (documentURL wr i' k') = None
      | Some d \<Rightarrow> \<exists>p. docs w' (documentURL wr i' k') = Some p \<and> doc_of env d p" for i' k'
  proof (cases "(i', k') = (i, k)")
    case True
    then show ?thesis using here assms(3) by (cases v) auto
  next
    case False
    then have eq: "(M((i, k) := v)) (i', k') = M (i', k')" by (metis fun_upd_other)
    have "case M (i', k') of None \<Rightarrow> docs w (documentURL wr i' k') = None
      | Some d \<Rightarrow> \<exists>p. docs w (documentURL wr i' k') = Some p \<and> doc_of env d p"
      using assms(1) by (simp only: holds_def prod.case)
    then show ?thesis by (simp only: eq other [OF False])
  qed
  then show ?thesis unfolding holds_def by simp
qed

lemma Upsert_effect:
  assumes "es_ok env docs" and "Upsert env wr i k doc w = (r, w')"
  shows "r = Ok () \<Longrightarrow> \<exists>p. ce_MarshalDoc env doc = Ok p \<and> docs w' = (docs w)(documentURL wr i k \<mapsto> p)"
    and "docs w' = docs w \<or> (\<exists>p. ce_MarshalDoc env doc = Ok p \<and> docs w' = (docs w)(documentURL wr i k \<mapsto> p))"
proof -
  define req where "req p = \<lparr>rq_Method = ''PUT'', rq_URL = documentURL wr i k, rq_Body = p\<rparr>" for p
  have eff: "es_effect (req p) m = m(documentURL wr i k \<mapsto> p)" for p m by (simp add: es_effect_def req_def)
  have cases: "(docs w' = docs w \<and> r \<noteq> Ok ()) \<or>
      (\<exists>p r1. ce_MarshalDoc env doc = Ok p \<and> es_do env (req p) w = (r1, w') \<and> (r = Ok () \<longrightarrow> r1 = Ok ()))"
    using assms(2)
    by (auto simp: Upsert_def caseE_def NewRequest_def req_def split: res.splits option.splits prod.splits)
  then show "\<exists>p. ce_MarshalDoc env doc = Ok p \<and> docs w' = (docs w)(documentURL wr i k \<mapsto> p)" if "r = Ok ()"
    using that es_do_effect(1) [OF assms(1)] eff by metis
  show "docs w' = docs w \<or> (\<exists>p. ce_MarshalDoc env doc = Ok p \<and> docs w' = (docs w)(documentURL wr i k \<mapsto> p))"
    using cases es_do_effect(2) [OF assms(1)] eff by (metis insertE singletonD)
qed

lemma es_Delete_effect:
  assumes "es_ok env docs" and "es_Delete env wr i k w = (r, w')"
  shows "r = Ok () \<Longrightarrow> docs w' = (docs w)(documentURL wr i k := None)"
    and "docs w' = docs w \<or> docs w' = (docs w)(documentURL wr i k := None)"
proof -
  define req where "req = \<lparr>rq_Method = ''DELETE'', rq_URL = documentURL wr i k, rq_Body = ''''\<rparr>"
  have eff: "es_effect req m = m(documentURL wr i k := None)" for m by (simp add: es_effect_def req_def)
  have cases: "(docs w' = docs w \<and> r \<noteq> Ok ()) \<or> (\<exists>r1. es_do env req w = (r1, w') \<and> (r = Ok () \<longrightarrow> r1 = Ok ()))"
    using assms(2)
    by (auto simp: es_Delete_def caseE_def NewRequest_def req_def split: res.splits option.splits prod.splits)
  then show "docs w' = (docs w)(documentURL wr i k := None)" if "r = Ok ()"
    using that es_do_effect(1) [OF assms(1)] eff by metis
  show "docs w' = docs w \<or> docs w' = (docs w)(documentURL wr i k := None)"
    using cases es_do_effect(2) [OF assms(1)] eff by (metis insertE singletonD)
qed

lemma caseE_sync_error:
  assumes "caseE m (sync_error what tbl) ret w = (r, w')"
  obtains r0 where "m w = (r0, w')" and "r = Ok () \<longrightarrow> r0 = Ok ()"
  using assms by (auto simp: caseE_def sync_error_def split: res.splits prod.splits)

lemma cdc_put_effect:
  assumes "store_ok (env, docs, wr)" and "holds (env, docs, wr) w M" and "cdc_put (env, docs, wr) (m, (i, k), v) w = (r, w')"
  shows "holds (env, docs, wr) w' (M((i, k) := v)) \<or> (r \<noteq> Ok () \<and> holds (env, docs, wr) w' M)"
proof -
  obtain what tbl where m: "m = (what, tbl)" by (cases m)
  have es: "es_ok env docs" using assms(1) by (simp add: store_ok_def)
  have same: "holds (env, docs, wr) w' M" if "docs w' = docs w"
    using assms(2) unfolding holds_def by (simp only: that prod.case simp_thms)
  show ?thesis
  proof (cases v)
    case None
    with assms(3) m have "caseE (es_Delete env wr i k) (sync_error what tbl) ret w = (r, w')" by (simp add: cdc_put_def)
    then obtain r0 where "es_Delete env wr i k w = (r0, w')" "r = Ok () \<longrightarrow> r0 = Ok ()" by (rule caseE_sync_error)
    then have "docs w' = (docs w)(documentURL wr i k := None) \<or> (r \<noteq> Ok () \<and> docs w' = docs w)"
      using es_Delete_effect [OF es] by blast
    then show ?thesis using holds_update [OF assms(2), of w' i k None None] None same by auto
  next
    case (Some d)
    with assms(3) m have "caseE (Upsert env wr i k (rowToDocument env (fst d) (snd d) (ce_Now env w))) (sync_error what tbl) ret w = (r, w')"
      by (simp add: cdc_put_def)
    then obtain r0 where "Upsert env wr i k (rowToDocument env (fst d) (snd d) (ce_Now env w)) w = (r0, w')" "r = Ok () \<longrightarrow> r0 = Ok ()"
      by (rule caseE_sync_error)
    then have "(\<exists>p. ce_MarshalDoc env (rowToDocument env (fst d) (snd d) (ce_Now env w)) = Ok p \<and> docs w' = (docs w)(documentURL wr i k \<mapsto> p)) \<or>
        (r \<noteq> Ok () \<and> docs w' = docs w)"
      using Upsert_effect [OF es] by blast
    then show ?thesis
    proof (elim disjE exE conjE)
      fix p
      assume "ce_MarshalDoc env (rowToDocument env (fst d) (snd d) (ce_Now env w)) = Ok p" "docs w' = (docs w)(documentURL wr i k \<mapsto> p)"
      then show ?thesis using holds_update [OF assms(2), of w' i k "Some p" "Some d"] Some by (auto simp: doc_of_def)
    qed (use same in blast)
  qed
qed

interpretation es: document_store store_ok cdc_put holds
proof (unfold_locales, goal_cases)
  case (1 c w M m k v w')
  obtain env docs wr i k0 where c: "c = (env, docs, wr)" and k: "k = (i, k0)" by (cases c; cases k)
  show ?case using cdc_put_effect [OF 1 [unfolded c k]] by (simp add: c k)
next
  case (2 c w M m k v e w')
  obtain env docs wr i k0 where c: "c = (env, docs, wr)" and k: "k = (i, k0)" by (cases c; cases k)
  show ?case using cdc_put_effect [OF 2 [unfolded c k]] unfolding c k by blast
qed

section \<open>The writes of an event\<close>

fun update_writes ::
  "'w cdc_env \<Rightarrow> string \<Rightarrow> table \<Rightarrow> table_row list \<Rightarrow> ((string \<times> table) \<times> (string \<times> string) \<times> (table \<times> table_row) option) list" where
  "update_writes env index tbl (oldRow # newRow # rows) =
     (if documentID env tbl oldRow \<noteq> documentID env tbl newRow
      then [((''delete stale document '', tbl), (index, documentID env tbl oldRow), None)] else []) @
     ((''update sync '', tbl), (index, documentID env tbl newRow), Some (tbl, newRow)) # update_writes env index tbl rows"
| "update_writes env index tbl _ = []"

definition event_writes ::
  "'w cdc_env \<Rightarrow> Config \<Rightarrow> RowsEvent option \<Rightarrow> ((string \<times> table) \<times> (string \<times> string) \<times> (table \<times> table_row) option) list" where
  "event_writes env cfg ev =
     (case ev of
        None \<Rightarrow> []
      | Some e \<Rightarrow>
          (case re_Table e of
             None \<Rightarrow> []
           | Some tbl \<Rightarrow>
               let index = LogicalIndexName env cfg (tb_Name tbl)
               in if re_Action e = InsertAction
                  then map (\<lambda>r. ((''insert sync '', tbl), (index, documentID env tbl r), Some (tbl, r))) (re_Rows e)
                  else if re_Action e = DeleteAction
                  then map (\<lambda>r. ((''delete sync '', tbl), (index, documentID env tbl r), None)) (re_Rows e)
                  else if re_Action e = UpdateAction then update_writes env index tbl (re_Rows e)
                  else []))"

lemma forE_simps [simp]:
  "forE [] f = ret ()" "forE (x # xs) f = bindE (f x) (\<lambda>_. forE xs f)"
  by (simp_all add: forE_def fun_eq_iff)

lemma cdc_put_delete: "cdc_put (env, docs, wr) ((what, tbl), (i, documentID env tbl r), None) = delete_row env wr i tbl what r"
  by (rule ext) (simp add: cdc_put_def delete_row_def)

lemma cdc_put_upsert: "cdc_put (env, docs, wr) ((what, tbl), (i, documentID env tbl r), Some (tbl, r)) = upsert_row env wr i tbl what r"
  by (rule ext) (simp add: cdc_put_def upsert_row_def)

lemma insert_rows_writes:
  "insert_rows env wr i tbl rows =
   forE (map (\<lambda>r. ((''insert sync '', tbl), (i, documentID env tbl r), Some (tbl, r))) rows) (cdc_put (env, docs, wr))"
  by (induction rows) (simp_all add: cdc_put_upsert)

lemma delete_rows_writes:
  "delete_rows env wr i tbl rows =
   forE (map (\<lambda>r. ((''delete sync '', tbl), (i, documentID env tbl r), None)) rows) (cdc_put (env, docs, wr))"
  by (induction rows) (simp_all add: cdc_put_delete)

lemma sync_updates_writes:
  "sync_updates env wr i tbl rows = forE (update_writes env i tbl rows) (cdc_put (env, docs, wr))"
  by (induction env i tbl rows rule: update_writes.induct) (simp_all add: cdc_put_delete cdc_put_upsert)

lemma OnRow_writes: "OnRow env cfg wr ev = forE (event_writes env cfg ev) (cdc_put (env, docs, wr))"
  by (simp add: OnRow_def event_writes_def Let_def insert_rows_writes [of _ _ _ _ _ docs] delete_rows_writes [of _ _ _ _ _ docs]
      sync_updates_writes [of _ _ _ _ _ docs] split: option.split)

section \<open>At least once\<close>

text \<open>
  The events of the binlog from a position: the next event is handled and the position moves on, or
  it fails and is handled again, or the process starts again from an older position.
\<close>

inductive replica_step ::
  "'w cdc_env \<Rightarrow> Config \<Rightarrow> ESWriter \<Rightarrow> RowsEvent option list \<Rightarrow> nat \<times> 'w \<Rightarrow> nat \<times> 'w \<Rightarrow> bool"
  for env cfg wr evs where
    handled: "n < length evs \<Longrightarrow> OnRow env cfg wr (evs ! n) w = (Ok (), w') \<Longrightarrow> replica_step env cfg wr evs (n, w) (Suc n, w')"
  | failed: "n < length evs \<Longrightarrow> OnRow env cfg wr (evs ! n) w = (Err e, w') \<Longrightarrow> replica_step env cfg wr evs (n, w) (n, w')"
  | restarted: "n' \<le> n \<Longrightarrow> replica_step env cfg wr evs (n, w) (n', w)"

definition all_writes :: "'w cdc_env \<Rightarrow> Config \<Rightarrow> RowsEvent option list \<Rightarrow> ((string \<times> table) \<times> (string \<times> string) \<times> (table \<times> table_row) option) list" where
  "all_writes env cfg evs = concat (map (event_writes env cfg) evs)"

text \<open>What the store holds, with the events from the position on, comes to the same as all events.\<close>

definition on_course ::
  "'w cdc_env \<Rightarrow> ('w \<Rightarrow> string \<rightharpoonup> string) \<Rightarrow> Config \<Rightarrow> ESWriter \<Rightarrow> RowsEvent option list \<Rightarrow> (string \<times> string \<rightharpoonup> table \<times> table_row) \<Rightarrow> nat \<times> 'w \<Rightarrow> bool" where
  "on_course env docs cfg wr evs M s \<longleftrightarrow>
     fst s \<le> length evs \<and>
     (\<exists>C. holds (env, docs, wr) (snd s) C \<and>
          apply_writes (all_writes env cfg (drop (fst s) evs)) C = apply_writes (all_writes env cfg evs) M)"

lemma all_writes_append [simp]: "all_writes env cfg (xs @ ys) = all_writes env cfg xs @ all_writes env cfg ys"
  by (simp add: all_writes_def)

lemma all_writes_drop:
  "n < length evs \<Longrightarrow> all_writes env cfg (drop n evs) = event_writes env cfg (evs ! n) @ all_writes env cfg (drop (Suc n) evs)"
  by (simp add: all_writes_def Cons_nth_drop_Suc [symmetric])

lemma on_course_step:
  assumes es: "es_ok env docs" and step: "replica_step env cfg wr evs s s'" and inv: "on_course env docs cfg wr evs M s"
  shows "on_course env docs cfg wr evs M s'"
proof -
  have ok: "store_ok (env, docs, wr)" using es by (simp add: store_ok_def)
  obtain C where len: "fst s \<le> length evs" and C: "holds (env, docs, wr) (snd s) C"
    and eq: "apply_writes (all_writes env cfg (drop (fst s) evs)) C = apply_writes (all_writes env cfg evs) M"
    using inv by (auto simp: on_course_def)
  from step show ?thesis
  proof (cases rule: replica_step.cases)
    case (handled n w w')
    then have "holds (env, docs, wr) w' (apply_writes (event_writes env cfg (evs ! n)) C)"
      using es.run_Ok [OF ok] C OnRow_writes [of env cfg wr _ docs] by simp
    with eq handled show ?thesis by (auto simp: on_course_def all_writes_drop)
  next
    case (failed n w e w')
    define ops where "ops = event_writes env cfg (evs ! n)"
    obtain k where k: "holds (env, docs, wr) w' (apply_writes (take k ops) C)"
      using es.run_Err [OF ok] C failed OnRow_writes [of env cfg wr _ docs] unfolding ops_def by (metis snd_conv)
    have "written (take k ops) \<subseteq> written (ops @ all_writes env cfg (drop (Suc n) evs))"
      by (auto dest: in_set_takeD)
    then have "apply_writes (all_writes env cfg (drop n evs)) (apply_writes (take k ops) C) = apply_writes (all_writes env cfg (drop n evs)) C"
      using failed(3) by (simp only: all_writes_drop ops_def apply_writes_absorb)
    with k eq failed show ?thesis by (auto simp: on_course_def)
  next
    case (restarted n' n w)
    define ss where "ss = take (n - n') (drop n' evs)"
    have split: "drop n' evs = ss @ drop n evs" "evs = take n' evs @ ss @ drop n evs"
      using restarted(3) by (simp_all add: ss_def) (metis append_take_drop_id drop_drop le_add_diff_inverse2)+
    have "apply_writes (all_writes env cfg ss @ all_writes env cfg (drop n evs)) C =
        apply_writes (all_writes env cfg (take n' evs) @ all_writes env cfg ss @ all_writes env cfg (drop n evs)) M"
      by (rule apply_writes_again) (use eq split(2) restarted in \<open>metis all_writes_append fst_conv\<close>)
    then have "apply_writes (all_writes env cfg (drop n' evs)) C = apply_writes (all_writes env cfg evs) M"
      using split by (metis all_writes_append)
    with C len restarted show ?thesis by (auto simp: on_course_def)
  qed
qed

text \<open>
  C11. The change data capture converges. Start from a store that holds the documents \<open>M\<close>, and let the
  handler work through the row events of the binlog with any number of failures, repetitions and
  restarts from older positions, requests that failed having been carried out or not. Once it has
  handled the last event, the store holds for every index and id exactly what the last write of the
  events left there (a document of the row's last image, or none), and outside the written ids what
  it held before.
\<close>

theorem cdc_converges:
  assumes "es_ok env docs" and "holds (env, docs, wr) w M"
    and "(replica_step env cfg wr evs)\<^sup>*\<^sup>* (0, w) (length evs, w')"
  shows "holds (env, docs, wr) w' (apply_writes (all_writes env cfg evs) M)"
proof -
  have "on_course env docs cfg wr evs M (0, w)" using assms(2) by (auto simp: on_course_def)
  with assms(3) have "on_course env docs cfg wr evs M (length evs, w')"
    by (induction rule: rtranclp_induct) (use on_course_step [OF assms(1)] in blast)+
  then show ?thesis by (auto simp: on_course_def all_writes_def)
qed

text \<open>A store that answers the first request with an error although it carried it out.\<close>

definition demo_cdc :: "(nat \<times> (string \<rightharpoonup> string)) cdc_env" where
  "demo_cdc =
     \<lparr>ce_Do = \<lambda>req (n, m). (if n = 0 then Err CtxDeadlineExceeded else Ok (200, ''''), (Suc n, es_effect req m)),
      ce_ParseURL = \<lambda>u. None, ce_GetPKValues = \<lambda>tbl r. Ok (take 1 r), ce_MarshalDoc = \<lambda>d. Ok ''doc'',
      ce_MarshalRow = \<lambda>r. Ok ''row'', ce_SprintFloat = \<lambda>x. ''0'', ce_lower = \<lambda>s. s, ce_Now = \<lambda>w. 0\<rparr>"

definition demo_config :: Config where
  "demo_config =
     \<lparr>cf_MySQLAddr = ''mysql:3306'', cf_MySQLUser = ''canal'', cf_MySQLPassword = '''', cf_MySQLFlavor = ''mysql'',
      cf_MySQLCharset = ''utf8mb4'', cf_MySQLReadTimeout = ''30s'', cf_MySQLServerID = 2001, cf_IncludeTableRegex = [''.*''],
      cf_ESAddr = ''http://elasticsearch:9200'', cf_ESIndexPrefix = ''bm''\<rparr>"

definition demo_shard :: "string \<Rightarrow> table" where
  "demo_shard n = \<lparr>tb_Schema = ''big_market_01'', tb_Name = ''user_raffle_order_'' @ n, tb_Columns = [''id'', ''user_id'']\<rparr>"

definition row_event :: "string \<Rightarrow> table \<Rightarrow> table_row list \<Rightarrow> RowsEvent option" where
  "row_event action tbl rows = Some \<lparr>re_Table = Some tbl, re_Action = action, re_Rows = rows\<rparr>"

definition demo_events :: "RowsEvent option list" where
  "demo_events = [row_event InsertAction (demo_shard ''001'') [[CellInt 7, CellString ''xiaofuge'']]]"

lemma demo_es_ok: "es_ok demo_cdc snd"
  by (auto simp: es_ok_def demo_cdc_def)

lemma demo_cdc_simps:
  "ce_Do demo_cdc req (n, m) = (if n = 0 then Err CtxDeadlineExceeded else Ok (200, ''''), (Suc n, es_effect req m))"
  "ce_ParseURL demo_cdc u = None" "ce_MarshalDoc demo_cdc d = Ok ''doc''"
  by (simp_all add: demo_cdc_def)

lemma demo_put:
  "OnRow demo_cdc demo_config wr (demo_events ! 0) (n, m) =
   (if n = 0 then Err (Wrap (''insert sync '' @ ''big_market_01'' @ ''.'' @ ''user_raffle_order_001'')
        (Wrap ''upsert elasticsearch document'' CtxDeadlineExceeded)) else Ok (),
    (Suc n, m(documentURL wr (LogicalIndexName demo_cdc demo_config ''user_raffle_order_001'')
        (documentID demo_cdc (demo_shard ''001'') [CellInt 7, CellString ''xiaofuge'']) \<mapsto> ''doc'')))"
  by (simp add: OnRow_def demo_events_def row_event_def demo_shard_def InsertAction_def upsert_row_def Upsert_def es_do_def NewRequest_def
      caseE_def bindE_def sync_error_def es_effect_def demo_cdc_simps)

lemma demo_steps:
  "\<exists>w'. (replica_step demo_cdc demo_config wr demo_events)\<^sup>*\<^sup>* (0, (0, Map.empty)) (length demo_events, w')"
proof -
  let ?s = "replica_step demo_cdc demo_config wr demo_events"
  have len: "length demo_events = 1" by (simp add: demo_events_def)
  obtain e m where "?s (0, (0, Map.empty)) (0, (1, m))"
    using replica_step.failed [of 0 demo_events demo_cdc demo_config wr "(0, Map.empty)"] demo_put [of wr 0 Map.empty] len by auto
  moreover obtain m' where "?s (0, (1, m)) (1, (2, m'))"
    using replica_step.handled [of 0 demo_events demo_cdc demo_config wr "(1, m)"] demo_put [of wr 1 m] len by (auto simp: numeral_2_eq_2)
  ultimately have "?s\<^sup>*\<^sup>* (0, (0, Map.empty)) (length demo_events, (2, m'))" using len by auto
  then show ?thesis by blast
qed

theorem cdc_converges_witness:
  "\<exists>w'. (replica_step demo_cdc demo_config \<lparr>ew_baseURL = ''http://elasticsearch:9200''\<rparr> demo_events)\<^sup>*\<^sup>* (0, (0, Map.empty)) (length demo_events, w') \<and>
        holds (demo_cdc, snd, \<lparr>ew_baseURL = ''http://elasticsearch:9200''\<rparr>) w' (apply_writes (all_writes demo_cdc demo_config demo_events) Map.empty)"
proof -
  have "holds (demo_cdc, snd, \<lparr>ew_baseURL = ''http://elasticsearch:9200''\<rparr>) (0, Map.empty) Map.empty" by (simp add: holds_def)
  then show ?thesis using cdc_converges [OF demo_es_ok] demo_steps by blast
qed

section \<open>Shards\<close>

lemma lower_suffix_char: "is_digit c \<Longrightarrow> lower_char c = c" "lower_char (CHR ''_'') = CHR ''_''"
proof -
  assume "is_digit c"
  then have "(of_char c :: int) \<le> 57" by (auto simp: is_digit_def digit_val_def Let_def split: if_splits)
  then have "(of_char c :: nat) \<le> 57" by (metis of_nat_of_char of_nat_le_iff of_nat_numeral)
  then show "lower_char c = c" by (simp add: lower_char_def Let_def)
qed (simp add: lower_char_def)

lemma digit_ascii: "is_digit c \<Longrightarrow> (of_char c :: nat) < 128"
proof -
  assume "is_digit c"
  then have "(of_char c :: int) \<le> 57" by (auto simp: is_digit_def digit_val_def Let_def split: if_splits)
  then have "(of_char c :: nat) \<le> 57" by (metis of_nat_of_char of_nat_le_iff of_nat_numeral)
  then show ?thesis by simp
qed

definition ascii_name :: "string \<Rightarrow> bool" where
  "ascii_name s \<longleftrightarrow> list_all (\<lambda>c. (of_char c :: nat) < 128) s"

lemma trimShardSuffix_shard:
  assumes "ascii_name base" and "is_digit a" and "is_digit b" and "is_digit c"
  shows "trimShardSuffix env (base @ [CHR ''_'', a, b, c]) = ToLower base"
  using assms digit_ascii [of a] digit_ascii [of b] digit_ascii [of c]
  by (simp add: trimShardSuffix_def cdc_ToLower_def ascii_name_def drop_suffix_def ToLower_def lower_suffix_char)

lemma OnRow_insert:
  assumes "es_ok env docs" and "OnRow env cfg wr (row_event InsertAction tbl [r]) w = (Ok (), w')"
  shows "\<exists>p. docs w' = (docs w)(documentURL wr (LogicalIndexName env cfg (tb_Name tbl)) (documentID env tbl r) \<mapsto> p) \<and>
           doc_of env (tbl, r) p"
proof -
  have "caseE (Upsert env wr (LogicalIndexName env cfg (tb_Name tbl)) (documentID env tbl r) (rowToDocument env tbl r (ce_Now env w)))
      (sync_error ''insert sync '' tbl) ret w = (Ok (), w')"
    using assms(2) by (auto simp: OnRow_def row_event_def upsert_row_def InsertAction_def bindE_def split: prod.splits res.splits)
  then obtain r0 where "Upsert env wr (LogicalIndexName env cfg (tb_Name tbl)) (documentID env tbl r)
      (rowToDocument env tbl r (ce_Now env w)) w = (r0, w')" "r0 = Ok ()"
    by (rule caseE_sync_error) simp
  from Upsert_effect(1) [OF assms(1) this(1) this(2)] show ?thesis by (auto simp: doc_of_def)
qed

lemma OnRow_delete:
  assumes "es_ok env docs" and "OnRow env cfg wr (row_event DeleteAction tbl [r]) w = (Ok (), w')"
  shows "docs w' = (docs w)(documentURL wr (LogicalIndexName env cfg (tb_Name tbl)) (documentID env tbl r) := None)"
proof -
  have "caseE (es_Delete env wr (LogicalIndexName env cfg (tb_Name tbl)) (documentID env tbl r)) (sync_error ''delete sync '' tbl) ret w = (Ok (), w')"
    using assms(2) by (auto simp: OnRow_def row_event_def delete_row_def InsertAction_def DeleteAction_def bindE_def split: prod.splits res.splits)
  then obtain r0 where "es_Delete env wr (LogicalIndexName env cfg (tb_Name tbl)) (documentID env tbl r) w = (r0, w')" "r0 = Ok ()"
    by (rule caseE_sync_error) simp
  from es_Delete_effect(1) [OF assms(1) this(1) this(2)] show ?thesis .
qed

text \<open>
  C12. Rows of different shards share a document. Let two physical tables be shards of one logical
  table, and a row of each have the same primary key, as the rows of tables with an auto-increment
  key do. Let \<open>OnRow\<close> handle the insertion of both rows and then the deletion of the second, each without an
  error. After the first event the store has a document of the first row; after the second the
  same address holds a document of the second row instead; after the third it holds none,
  although the database still has the first row.
\<close>

theorem shards_share_documents:
  assumes "es_ok env docs"
    and "tb_Name tbl = base @ [CHR ''_'', a, b, c]" and "tb_Name tbl' = base @ [CHR ''_'', a', b', c']"
    and "ascii_name base" and "list_all is_digit [a, b, c, a', b', c']"
    and "ce_GetPKValues env tbl r = Ok pk" and "ce_GetPKValues env tbl' r' = Ok pk" and "pk \<noteq> []"
    and "OnRow env cfg wr (row_event InsertAction tbl [r]) w = (Ok (), w1)"
    and "OnRow env cfg wr (row_event InsertAction tbl' [r']) w1 = (Ok (), w2)"
    and "OnRow env cfg wr (row_event DeleteAction tbl' [r']) w2 = (Ok (), w3)"
    and "url = documentURL wr (LogicalIndexName env cfg (tb_Name tbl)) (documentID env tbl r)"
  shows "(\<exists>p. docs w1 url = Some p \<and> doc_of env (tbl, r) p) \<and>
         (\<exists>p. docs w2 url = Some p \<and> doc_of env (tbl', r') p) \<and> docs w3 url = None"
proof -
  have "trimShardSuffix env (tb_Name tbl) = trimShardSuffix env (tb_Name tbl')"
    using assms(2-5) by (simp add: trimShardSuffix_shard)
  then have i: "LogicalIndexName env cfg (tb_Name tbl') = LogicalIndexName env cfg (tb_Name tbl)"
    by (simp add: LogicalIndexName_def)
  have d: "documentID env tbl' r' = documentID env tbl r" using assms(6-8) by (simp add: documentID_def)
  show ?thesis
    using OnRow_insert [OF assms(1,9)] OnRow_insert [OF assms(1,10)] OnRow_delete [OF assms(1,11)] assms(12)
    unfolding i d by auto
qed

lemma demo_handled:
  "OnRow demo_cdc demo_config wr (row_event InsertAction (demo_shard s) [r]) (Suc n, m) =
     (Ok (), (Suc (Suc n), m(documentURL wr (LogicalIndexName demo_cdc demo_config (tb_Name (demo_shard s)))
        (documentID demo_cdc (demo_shard s) r) \<mapsto> ''doc'')))"
  "OnRow demo_cdc demo_config wr (row_event DeleteAction (demo_shard s) [r]) (Suc n, m) =
     (Ok (), (Suc (Suc n), m(documentURL wr (LogicalIndexName demo_cdc demo_config (tb_Name (demo_shard s)))
        (documentID demo_cdc (demo_shard s) r) := None)))"
  by (simp_all add: OnRow_def row_event_def InsertAction_def DeleteAction_def upsert_row_def delete_row_def Upsert_def es_Delete_def
      es_do_def NewRequest_def caseE_def bindE_def es_effect_def demo_cdc_simps)

theorem shards_share_documents_witness:
  "\<exists>w3. OnRow demo_cdc demo_config \<lparr>ew_baseURL = ''http://elasticsearch:9200''\<rparr>
        (row_event DeleteAction (demo_shard ''001'') [[CellInt 7, CellString ''user001'']])
        (snd (OnRow demo_cdc demo_config \<lparr>ew_baseURL = ''http://elasticsearch:9200''\<rparr>
          (row_event InsertAction (demo_shard ''001'') [[CellInt 7, CellString ''user001'']])
        (snd (OnRow demo_cdc demo_config \<lparr>ew_baseURL = ''http://elasticsearch:9200''\<rparr>
          (row_event InsertAction (demo_shard ''000'') [[CellInt 7, CellString ''xiaofuge'']]) (1, Map.empty))))) = (Ok (), w3) \<and>
     snd w3 (documentURL \<lparr>ew_baseURL = ''http://elasticsearch:9200''\<rparr>
        (LogicalIndexName demo_cdc demo_config (tb_Name (demo_shard ''000'')))
        (documentID demo_cdc (demo_shard ''000'') [CellInt 7, CellString ''xiaofuge''])) = None"
proof -
  let ?wr = "\<lparr>ew_baseURL = ''http://elasticsearch:9200''\<rparr>"
  let ?r = "[CellInt 7, CellString ''xiaofuge'']" and ?r' = "[CellInt 7, CellString ''user001'']"
  obtain m1 m2 m3 where run:
    "OnRow demo_cdc demo_config ?wr (row_event InsertAction (demo_shard ''000'') [?r]) (1, Map.empty) = (Ok (), (2, m1))"
    "OnRow demo_cdc demo_config ?wr (row_event InsertAction (demo_shard ''001'') [?r']) (2, m1) = (Ok (), (3, m2))"
    "OnRow demo_cdc demo_config ?wr (row_event DeleteAction (demo_shard ''001'') [?r']) (3, m2) = (Ok (), (4, m3))"
    using demo_handled(1) [of ?wr "''000''" ?r 0] demo_handled(1) [of ?wr "''001''" ?r' 1] demo_handled(2) [of ?wr "''001''" ?r' 2]
    by (simp add: numeral_eq_Suc)
  have "snd (4, m3) (documentURL ?wr (LogicalIndexName demo_cdc demo_config (tb_Name (demo_shard ''000''))) (documentID demo_cdc (demo_shard ''000'') ?r)) = None"
    using shards_share_documents [OF demo_es_ok _ _ _ _ _ _ _ run refl, of "''user_raffle_order''" "CHR ''0''" "CHR ''0''" "CHR ''0''"
        "CHR ''0''" "CHR ''0''" "CHR ''1''" "[CellInt 7]"]
    by (simp add: demo_shard_def ascii_name_def is_digit_def digit_val_def) (simp add: demo_cdc_def)
  then show ?thesis using run by simp
qed

end
