(* ===== verification/Config_Center.thy ===== *)
theory Config_Center
  imports Services
begin

text \<open>
  The dynamic configuration (\<open>internal/dcc\<close>): the manager that keeps the current configuration in
  memory, and the snapshot on disk it falls back to. The file system may fail in every call, may
  leave a file half written, and the process may be killed in the middle of a call. The remote
  source and \<open>json.MarshalIndent\<close>/\<open>Unmarshal\<close> are parameters.
\<close>

section \<open>The file system\<close>

text \<open>
  What happens to a call: it succeeds, it fails after \<open>n\<close> bytes have reached the file, or the process
  is killed after \<open>n\<close> bytes (\<open>Killed True n\<close>: once the call had its effect).
\<close>

datatype disk_fault = DiskOk | DiskErr nat gerr | Killed bool nat

record disk =
  files :: "string \<rightharpoonup> string"
  calls :: nat

definition fs_call :: "(nat \<Rightarrow> disk_fault) \<Rightarrow> (disk \<Rightarrow> disk) \<Rightarrow> (nat \<Rightarrow> disk \<Rightarrow> disk) \<Rightarrow> (unit, disk) act" where
  "fs_call fault effect partial d0 =
     (let d = d0\<lparr>calls := Suc (calls d0)\<rparr>
      in case fault (calls d0) of
           DiskOk \<Rightarrow> (Ok (), effect d)
         | DiskErr n e \<Rightarrow> (Err e, partial n d)
         | Killed b n \<Rightarrow> (Panic ''killed'', if b then effect d else partial n d))"

text \<open>\<open>os.MkdirAll\<close> (directories are not part of the state), \<open>os.WriteFile\<close>, and \<open>os.Rename\<close>, which
  replaces the target in one step.\<close>

definition MkdirAll :: "(nat \<Rightarrow> disk_fault) \<Rightarrow> string \<Rightarrow> (unit, disk) act" where
  "MkdirAll fault dir = fs_call fault (\<lambda>d. d) (\<lambda>n d. d)"

definition WriteFile :: "(nat \<Rightarrow> disk_fault) \<Rightarrow> string \<Rightarrow> string \<Rightarrow> (unit, disk) act" where
  "WriteFile fault path bytes =
     fs_call fault (\<lambda>d. d\<lparr>files := (files d)(path \<mapsto> bytes)\<rparr>) (\<lambda>n d. d\<lparr>files := (files d)(path \<mapsto> take n bytes)\<rparr>)"

definition Rename :: "(nat \<Rightarrow> disk_fault) \<Rightarrow> string \<Rightarrow> string \<Rightarrow> (unit, disk) act" where
  "Rename fault old new d =
     (case files d old of
        None \<Rightarrow> (Err (GoErr ''rename: no such file or directory''), d)
      | Some b \<Rightarrow> fs_call fault (\<lambda>d. d\<lparr>files := (files d)(new \<mapsto> b, old := None)\<rparr>) (\<lambda>n d. d) d)"

text \<open>\<open>os.ReadFile\<close>\<close>

definition ReadFile :: "(nat \<Rightarrow> disk_fault) \<Rightarrow> string \<Rightarrow> (string, disk) act" where
  "ReadFile fault path =
     bindE (fs_call fault (\<lambda>d. d) (\<lambda>n d. d)) (\<lambda>_ d.
       (case files d path of None \<Rightarrow> (Err (GoErr ''open: no such file or directory''), d) | Some b \<Rightarrow> (Ok b, d)))"

section \<open>The snapshot\<close>

record Dcc =
  dcc_RateLimit :: int
  dcc_EnableDegrade :: bool
  dcc_BlackList :: string

definition zero_Dcc :: Dcc where
  "zero_Dcc = \<lparr>dcc_RateLimit = 0, dcc_EnableDegrade = False, dcc_BlackList = ''''\<rparr>"

text \<open>\<open>filepath.Dir\<close> only names the directory for \<open>MkdirAll\<close>.\<close>

definition dir_of :: "string \<Rightarrow> string" where
  "dir_of path = rev (dropWhile (\<lambda>c. c \<noteq> CHR ''/'') (rev path))"

definition SaveSnapshot :: "(nat \<Rightarrow> disk_fault) \<Rightarrow> Dcc codec \<Rightarrow> string \<Rightarrow> Dcc \<Rightarrow> (unit, disk) act" where
  "SaveSnapshot fault js filePath cfg =
     caseE (MkdirAll fault (dir_of filePath)) (\<lambda>err. ret ()) (\<lambda>_.
     caseE (liftR (enc js cfg)) (\<lambda>err. ret ()) (\<lambda>bytes.
     caseE (WriteFile fault (filePath @ ''.tmp'') bytes) (\<lambda>err. ret ()) (\<lambda>_.
     caseE (Rename fault (filePath @ ''.tmp'') filePath) (\<lambda>err. ret ()) (\<lambda>_. ret ()))))"

definition LoadSnapshot :: "(nat \<Rightarrow> disk_fault) \<Rightarrow> Dcc codec \<Rightarrow> string \<Rightarrow> (Dcc, disk) act" where
  "LoadSnapshot fault js filePath d =
     (if files d filePath = None then fail (GoErr ''fallback file does not exist'') d
      else caseE (ReadFile fault filePath) (\<lambda>err. fail (GoErr ''reading the fallback file failed''))
             (\<lambda>bytes. caseE (liftR (dec js bytes)) (\<lambda>err. fail (GoErr ''parsing the fallback file failed'')) ret) d)"

section \<open>The manager\<close>

text \<open>
  The manager and the process around it: the value in memory (\<open>None\<close> before the first \<open>Store\<close>), the
  goroutines of \<open>SaveSnapshot\<close> that have been started and have not got the mutex yet, whether the
  watch is running, and the disk.
\<close>

record manager =
  mg_value :: "Dcc option"
  mg_saving :: "Dcc list"
  mg_watching :: bool
  mg_disk :: disk

definition on_disk :: "('a, disk) act \<Rightarrow> ('a, manager) act" where
  "on_disk m s = (case m (mg_disk s) of (r, d) \<Rightarrow> (r, s\<lparr>mg_disk := d\<rparr>))"

definition Store :: "Dcc \<Rightarrow> (unit, manager) act" where
  "Store cfg s = (Ok (), s\<lparr>mg_value := Some cfg\<rparr>)"

definition go_SaveSnapshot :: "Dcc \<Rightarrow> (unit, manager) act" where
  "go_SaveSnapshot cfg s = (Ok (), s\<lparr>mg_saving := mg_saving s @ [cfg]\<rparr>)"

definition go_watch :: "(unit, manager) act" where
  "go_watch s = (Ok (), s\<lparr>mg_watching := True\<rparr>)"

text \<open>\<open>load\<close> and \<open>scan\<close> are what \<open>source.Load\<close> and \<open>source.Value(watchKey).Scan\<close> answer.\<close>

definition Init :: "(nat \<Rightarrow> disk_fault) \<Rightarrow> Dcc codec \<Rightarrow> string \<Rightarrow> unit res \<Rightarrow> Dcc res \<Rightarrow> (unit, manager) act" where
  "Init fault js filePath load scan =
     caseE (liftR load)
       (\<lambda>err. caseE (on_disk (LoadSnapshot fault js filePath))
          (\<lambda>fbErr. fail (GoErr ''remote configuration and local snapshot are both unavailable''))
          (\<lambda>fallbackCfg. Store fallbackCfg))
       (\<lambda>_. caseE (liftR scan)
          (\<lambda>err. fail (GoErr ''parsing the remote configuration failed''))
          (\<lambda>cfg. bindE (Store cfg) (\<lambda>_. bindE (go_SaveSnapshot cfg) (\<lambda>_. go_watch))))"

text \<open>The callback of \<open>watch\<close>.\<close>

definition on_change :: "Dcc res \<Rightarrow> (unit, manager) act" where
  "on_change scan =
     caseE (liftR scan) (\<lambda>err. ret ()) (\<lambda>newCfg. bindE (Store newCfg) (\<lambda>_. go_SaveSnapshot newCfg))"

definition dcc_Get :: "manager \<Rightarrow> Dcc" where
  "dcc_Get s = (case mg_value s of None \<Rightarrow> zero_Dcc | Some v \<Rightarrow> v)"

text \<open>
  The steps of the process: the watch reports a change, a goroutine gets the mutex and saves (in any
  order), and the process is killed or stopped and starts again, with nothing but the disk left.
  \<open>offered\<close> are the configurations the remote source delivers.
\<close>

fun remove_nth :: "nat \<Rightarrow> 'a list \<Rightarrow> 'a list" where
  "remove_nth n xs = take n xs @ drop (Suc n) xs"

definition restart :: "manager \<Rightarrow> manager" where
  "restart s = \<lparr>mg_value = None, mg_saving = [], mg_watching = False, mg_disk = mg_disk s\<rparr>"

inductive dcc_step :: "(nat \<Rightarrow> disk_fault) \<Rightarrow> Dcc codec \<Rightarrow> string \<Rightarrow> Dcc set \<Rightarrow> manager \<Rightarrow> manager \<Rightarrow> bool"
  for fault js path offered where
    change: "mg_watching s \<Longrightarrow> (\<And>c. scan = Ok c \<Longrightarrow> c \<in> offered) \<Longrightarrow> on_change scan s = (r, s') \<Longrightarrow>
      dcc_step fault js path offered s s'"
  | save: "n < length (mg_saving s) \<Longrightarrow> SaveSnapshot fault js path (mg_saving s ! n) (mg_disk s) = (r, d) \<Longrightarrow>
      dcc_step fault js path offered s
        (case r of Panic p \<Rightarrow> restart (s\<lparr>mg_disk := d\<rparr>)
         | _ \<Rightarrow> s\<lparr>mg_disk := d, mg_saving := remove_nth n (mg_saving s)\<rparr>)"
  | start: "mg_value s = None \<Longrightarrow> (\<And>c. scan = Ok c \<Longrightarrow> c \<in> offered) \<Longrightarrow> Init fault js path load scan s = (r, s') \<Longrightarrow>
      dcc_step fault js path offered s s'"
  | stop: "dcc_step fault js path offered s (restart s)"

section \<open>What the disk holds\<close>

definition file_ok :: "Dcc codec \<Rightarrow> Dcc set \<Rightarrow> string option \<Rightarrow> bool" where
  "file_ok js offered f \<longleftrightarrow> (case f of None \<Rightarrow> True | Some b \<Rightarrow> \<exists>c \<in> offered. enc js c = Ok b)"

lemma tmp_ne [simp]: "path @ ''.tmp'' \<noteq> path" "path \<noteq> path @ ''.tmp''"
  by simp_all

lemma fs_call_frame:
  assumes "fs_call fault f g d = (r, d')"
  shows "\<exists>d1. files d1 = files d \<and> ((d' = f d1) \<or> (\<exists>n. r \<noteq> Ok () \<and> d' = g n d1))"
  using assms by (intro exI [of _ "d\<lparr>calls := Suc (calls d)\<rparr>"]) (auto simp: fs_call_def Let_def split: disk_fault.splits if_splits)

text \<open>Saving leaves the snapshot as it was or replaces it by the whole new one.\<close>

lemma MkdirAll_files: "MkdirAll fault dir d = (r, d') \<Longrightarrow> files d' = files d"
  unfolding MkdirAll_def by (drule fs_call_frame) auto

lemma WriteFile_other:
  assumes "WriteFile fault q b d = (r, d')"
  shows "p \<noteq> q \<Longrightarrow> files d' p = files d p" and "r = Ok () \<Longrightarrow> files d' q = Some b"
proof -
  show "files d' p = files d p" if "p \<noteq> q"
    using fs_call_frame [OF assms [unfolded WriteFile_def]] that by auto
  show "files d' q = Some b" if "r = Ok ()"
    using fs_call_frame [OF assms [unfolded WriteFile_def]] that by auto
qed

lemma Rename_target:
  assumes "Rename fault old new d = (r, d')" and "old \<noteq> new"
  shows "files d' new = files d new \<or> (files d old \<noteq> None \<and> files d' new = files d old)"
proof (cases "files d old")
  case None
  with assms show ?thesis by (simp add: Rename_def)
next
  case (Some b)
  with assms(1) have "fs_call fault (\<lambda>d. d\<lparr>files := (files d)(new \<mapsto> b, old := None)\<rparr>) (\<lambda>n d. d) d = (r, d')"
    by (simp add: Rename_def)
  then show ?thesis using fs_call_frame Some assms(2) by fastforce
qed

lemma snapshot_atomic:
  assumes "SaveSnapshot fault js path cfg d = (r, d')"
  shows "files d' path = files d path \<or> (\<exists>b. enc js cfg = Ok b \<and> files d' path = Some b)"
proof -
  obtain r1 d1 where m: "MkdirAll fault (dir_of path) d = (r1, d1)" by fastforce
  note f1 = MkdirAll_files [OF m]
  show ?thesis
  proof (cases "r1 = Ok () \<and> (\<exists>b. enc js cfg = Ok b)")
    case False
    with assms m f1 show ?thesis
      by (auto simp: SaveSnapshot_def caseE_def split: res.splits)
  next
    case True
    then obtain b where b: "enc js cfg = Ok b" and r1: "r1 = Ok ()" by blast
    obtain r2 d2 where w: "WriteFile fault (path @ ''.tmp'') b d1 = (r2, d2)" by fastforce
    have f2: "files d2 path = files d path" using WriteFile_other(1) [OF w] f1 by simp
    obtain r3 d3 where rn: "Rename fault (path @ ''.tmp'') path d2 = (r3, d3)" by fastforce
    show ?thesis
    proof (cases "r2 = Ok ()")
      case False
      then have "d' = d2" using assms m w b r1 by (cases r2) (auto simp: SaveSnapshot_def caseE_def)
      with f2 show ?thesis by simp
    next
      case r2: True
      then have "d' = d3" using assms m w b r1 rn by (cases r3) (auto simp: SaveSnapshot_def caseE_def)
      with Rename_target [OF rn] WriteFile_other(2) [OF w r2] f2 b show ?thesis by auto
    qed
  qed
qed

lemma LoadSnapshot_files: "LoadSnapshot fault js path d = (r, d') \<Longrightarrow> files d' = files d"
  by (auto simp: LoadSnapshot_def ReadFile_def caseE_def bindE_def fs_call_def Let_def
      split: if_splits disk_fault.splits option.splits res.splits)

lemma LoadSnapshot_offered:
  assumes "codec_ok js" and "file_ok js offered (files d path)" and "LoadSnapshot fault js path d = (Ok c, d')"
  shows "c \<in> offered"
proof -
  obtain b where b: "files d path = Some b" using assms(3) by (cases "files d path") (auto simp: LoadSnapshot_def)
  obtain c0 where c0: "c0 \<in> offered" "enc js c0 = Ok b" using assms(2) b by (auto simp: file_ok_def)
  then have "dec js b = Ok c0" using assms(1) by (auto simp: codec_ok_def)
  with assms(3) b have "c = c0"
    by (auto simp: LoadSnapshot_def ReadFile_def caseE_def bindE_def fs_call_def Let_def
        split: if_splits disk_fault.splits option.splits res.splits)
  with c0 show ?thesis by simp
qed

section \<open>What the manager holds\<close>

definition dcc_inv :: "Dcc codec \<Rightarrow> string \<Rightarrow> Dcc set \<Rightarrow> manager \<Rightarrow> bool" where
  "dcc_inv js path offered s \<longleftrightarrow>
     set_option (mg_value s) \<subseteq> offered \<and> set (mg_saving s) \<subseteq> offered \<and> file_ok js offered (files (mg_disk s) path)"

lemma dcc_inv_restart: "dcc_inv js path offered s \<Longrightarrow> dcc_inv js path offered (restart s)"
  by (simp add: dcc_inv_def restart_def)

lemma dcc_inv_store:
  "dcc_inv js path offered s \<Longrightarrow> c \<in> offered \<Longrightarrow> dcc_inv js path offered (s\<lparr>mg_value := Some c, mg_saving := mg_saving s @ [c]\<rparr>)"
  by (simp add: dcc_inv_def)

lemma dcc_inv_Init:
  assumes "codec_ok js" and inv: "dcc_inv js path offered s" and off: "\<And>c. scan = Ok c \<Longrightarrow> c \<in> offered"
    and run: "Init fault js path load scan s = (r, s')"
  shows "dcc_inv js path offered s'"
proof (cases load)
  case (Ok u)
  with run off inv show ?thesis
    by (cases scan) (auto simp: Init_def caseE_def bindE_def Store_def go_SaveSnapshot_def go_watch_def dcc_inv_def)
next
  case (Panic p)
  with run inv show ?thesis by (auto simp: Init_def caseE_def)
next
  case (Err e)
  obtain q d where l: "LoadSnapshot fault js path (mg_disk s) = (q, d)" by fastforce
  have d: "dcc_inv js path offered (s\<lparr>mg_disk := d\<rparr>)"
    using inv LoadSnapshot_files [OF l] by (simp add: dcc_inv_def)
  show ?thesis
  proof (cases q)
    case (Ok c)
    with l inv have "c \<in> offered" using LoadSnapshot_offered [OF assms(1)] by (auto simp: dcc_inv_def)
    with d Ok l run Err show ?thesis by (auto simp: Init_def caseE_def on_disk_def Store_def dcc_inv_def)
  qed (use d l run Err in \<open>auto simp: Init_def caseE_def on_disk_def\<close>)
qed

lemma dcc_inv_step:
  assumes "codec_ok js" and "dcc_step fault js path offered s s'" and "dcc_inv js path offered s"
  shows "dcc_inv js path offered s'"
  using assms(2,3)
proof (cases rule: dcc_step.cases)
  case (change scan r)
  then show ?thesis using assms(3)
    by (cases scan) (auto simp: on_change_def caseE_def bindE_def Store_def go_SaveSnapshot_def dcc_inv_def)
next
  case (save n r d)
  have "mg_saving s ! n \<in> offered" using save assms(3) by (auto simp: dcc_inv_def dest: nth_mem)
  then have "file_ok js offered (files d path)"
    using snapshot_atomic [OF save(3)] assms(3) by (auto simp: dcc_inv_def file_ok_def)
  with assms(3) have "dcc_inv js path offered (s\<lparr>mg_disk := d, mg_saving := remove_nth n (mg_saving s)\<rparr>)"
    "dcc_inv js path offered (s\<lparr>mg_disk := d\<rparr>)"
    by (auto simp: dcc_inv_def dest: in_set_takeD in_set_dropD)
  then show ?thesis using save(1) dcc_inv_restart by (auto split: res.splits)
next
  case (start scan load r)
  then show ?thesis using dcc_inv_Init [OF assms(1,3)] by blast
next
  case stop
  then show ?thesis using dcc_inv_restart [OF assms(3)] by simp
qed

text \<open>
  C15. The local snapshot is never corrupt and never invented. From a machine without a snapshot,
  whatever calls of the file system fail, write half a file or are cut off by the death of the
  process, and in whatever order the goroutines save: the configuration in memory is one the remote
  source delivered, and reading the snapshot gives such a configuration or reports that there is no
  file; it never fails to parse.
\<close>

theorem snapshot_never_corrupt:
  assumes "codec_ok js" and "files (mg_disk s0) path = None" and "mg_value s0 = None" and "mg_saving s0 = []"
    and "(dcc_step fault js path offered)\<^sup>*\<^sup>* s0 s"
  shows "(mg_value s = None \<or> dcc_Get s \<in> offered) \<and>
         (fst (LoadSnapshot (\<lambda>_. DiskOk) js path (mg_disk s)) = Err (GoErr ''fallback file does not exist'') \<or>
          fst (LoadSnapshot (\<lambda>_. DiskOk) js path (mg_disk s)) \<in> Ok ` offered)"
proof -
  have "dcc_inv js path offered s0" using assms(2-4) by (simp add: dcc_inv_def file_ok_def)
  with assms(5) have inv: "dcc_inv js path offered s"
    by (induction rule: rtranclp_induct) (use dcc_inv_step [OF assms(1)] in blast)+
  then have "mg_value s = None \<or> dcc_Get s \<in> offered" by (auto simp: dcc_inv_def dcc_Get_def split: option.splits)
  moreover have "fst (LoadSnapshot (\<lambda>_. DiskOk) js path (mg_disk s)) = Err (GoErr ''fallback file does not exist'') \<or>
      fst (LoadSnapshot (\<lambda>_. DiskOk) js path (mg_disk s)) \<in> Ok ` offered"
  proof (cases "files (mg_disk s) path")
    case None
    then show ?thesis by (simp add: LoadSnapshot_def)
  next
    case (Some b)
    then obtain c where "c \<in> offered" "dec js b = Ok c"
      using inv assms(1) by (auto simp: dcc_inv_def file_ok_def codec_ok_def)
    with Some show ?thesis
      by (auto simp: LoadSnapshot_def ReadFile_def caseE_def bindE_def fs_call_def)
  qed
  ultimately show ?thesis by blast
qed

section \<open>A run\<close>

definition dcc1 :: Dcc where "dcc1 = zero_Dcc\<lparr>dcc_RateLimit := 1\<rparr>"
definition dcc2 :: Dcc where "dcc2 = zero_Dcc\<lparr>dcc_RateLimit := 2\<rparr>"

definition demo_js :: "Dcc codec" where
  "demo_js =
     \<lparr>enc = \<lambda>c. if c = dcc1 then Ok ''{1}'' else if c = dcc2 then Ok ''{2}'' else Err (GoErr ''marshal''),
      dec = \<lambda>b. if b = ''{1}'' then Ok dcc1 else if b = ''{2}'' then Ok dcc2 else if b = ''null'' then Ok zero_Dcc else Err (GoErr ''unmarshal''),
      zero = zero_Dcc\<rparr>"

lemma dcc_distinct [simp]: "dcc1 \<noteq> dcc2" "dcc2 \<noteq> dcc1"
  by (simp_all add: dcc1_def dcc2_def zero_Dcc_def)

lemma demo_js_ok: "codec_ok demo_js"
  by (auto simp: codec_ok_def demo_js_def split: if_splits)

text \<open>The process is killed while it writes the first snapshot.\<close>

definition demo_fault :: "nat \<Rightarrow> disk_fault" where
  "demo_fault n = (if n = 1 then Killed False 2 else DiskOk)"

definition demo_manager :: "Dcc option \<Rightarrow> Dcc list \<Rightarrow> bool \<Rightarrow> (string \<rightharpoonup> string) \<Rightarrow> nat \<Rightarrow> manager" where
  "demo_manager v sv wt f n = \<lparr>mg_value = v, mg_saving = sv, mg_watching = wt, mg_disk = \<lparr>files = f, calls = n\<rparr>\<rparr>"

lemma demo_start:
  "c \<in> {dcc1, dcc2} \<Longrightarrow> dcc_step demo_fault demo_js ''snap'' {dcc1, dcc2} (demo_manager None [] False f n) (demo_manager (Some c) [c] True f n)"
  by (rule dcc_step.start [where scan = "Ok c" and load = "Ok ()" and r = "Ok ()"])
    (auto simp: demo_manager_def Init_def caseE_def bindE_def Store_def go_SaveSnapshot_def go_watch_def)

lemma demo_killed:
  "dcc_step demo_fault demo_js ''snap'' {dcc1, dcc2} (demo_manager (Some dcc1) [dcc1] True Map.empty 0)
     (demo_manager None [] False [''snap.tmp'' \<mapsto> ''{1''] 2)"
proof -
  have "SaveSnapshot demo_fault demo_js ''snap'' dcc1 \<lparr>files = Map.empty, calls = 0\<rparr> =
      (Panic ''killed'', \<lparr>files = [''snap.tmp'' \<mapsto> ''{1''], calls = 2\<rparr>)"
    by (simp add: SaveSnapshot_def MkdirAll_def WriteFile_def caseE_def fs_call_def demo_fault_def demo_js_def)
  then show ?thesis
    using dcc_step.save [of 0 "demo_manager (Some dcc1) [dcc1] True Map.empty 0" demo_fault demo_js "''snap''"
        "Panic ''killed''" "\<lparr>files = [''snap.tmp'' \<mapsto> ''{1''], calls = 2\<rparr>" "{dcc1, dcc2}"]
    by (simp add: demo_manager_def restart_def)
qed

lemma demo_saved:
  "dcc_step demo_fault demo_js ''snap'' {dcc1, dcc2} (demo_manager (Some dcc2) [dcc2] True [''snap.tmp'' \<mapsto> ''{1''] 2)
     (demo_manager (Some dcc2) [] True [''snap'' \<mapsto> ''{2}''] 5)"
proof -
  have "SaveSnapshot demo_fault demo_js ''snap'' dcc2 \<lparr>files = [''snap.tmp'' \<mapsto> ''{1''], calls = 2\<rparr> =
      (Ok (), \<lparr>files = [''snap'' \<mapsto> ''{2}''], calls = 5\<rparr>)"
    by (simp add: SaveSnapshot_def MkdirAll_def WriteFile_def Rename_def caseE_def fs_call_def demo_fault_def demo_js_def fun_eq_iff)
  then show ?thesis
    using dcc_step.save [of 0 "demo_manager (Some dcc2) [dcc2] True [''snap.tmp'' \<mapsto> ''{1''] 2" demo_fault demo_js "''snap''"
        "Ok ()" "\<lparr>files = [''snap'' \<mapsto> ''{2}''], calls = 5\<rparr>" "{dcc1, dcc2}"]
    by (simp add: demo_manager_def)
qed

theorem snapshot_never_corrupt_witness:
  "fst (LoadSnapshot (\<lambda>_. DiskOk) demo_js ''snap'' \<lparr>files = [''snap'' \<mapsto> ''{2}''], calls = 5\<rparr>) = Err (GoErr ''fallback file does not exist'') \<or>
   fst (LoadSnapshot (\<lambda>_. DiskOk) demo_js ''snap'' \<lparr>files = [''snap'' \<mapsto> ''{2}''], calls = 5\<rparr>) \<in> Ok ` {dcc1, dcc2}"
proof -
  let ?step = "dcc_step demo_fault demo_js ''snap'' {dcc1, dcc2}"
  have "?step\<^sup>*\<^sup>* (demo_manager None [] False Map.empty 0) (demo_manager (Some dcc2) [] True [''snap'' \<mapsto> ''{2}''] 5)"
    using demo_start [of dcc1 Map.empty 0] demo_killed demo_start [of dcc2 "[''snap.tmp'' \<mapsto> ''{1'']" 2] demo_saved
    by (meson converse_rtranclp_into_rtranclp insertI1 insertI2 rtranclp.rtrancl_refl)
  then have "fst (LoadSnapshot (\<lambda>_. DiskOk) demo_js ''snap'' (mg_disk (demo_manager (Some dcc2) [] True [''snap'' \<mapsto> ''{2}''] 5))) =
        Err (GoErr ''fallback file does not exist'') \<or>
      fst (LoadSnapshot (\<lambda>_. DiskOk) demo_js ''snap'' (mg_disk (demo_manager (Some dcc2) [] True [''snap'' \<mapsto> ''{2}''] 5))) \<in> Ok ` {dcc1, dcc2}"
    by (intro snapshot_never_corrupt [OF demo_js_ok, THEN conjunct2]) (auto simp: demo_manager_def)
  then show ?thesis by (simp add: demo_manager_def)
qed

text \<open>
  The goroutines take the mutex in any order: after two changes the older one may be written last,
  and the snapshot stays behind the configuration in memory.
\<close>

lemma snapshot_may_be_stale:
  assumes "codec_ok js" and "enc js c1 = Ok b1" and "enc js c2 = Ok b2" and "c1 \<in> offered" and "c2 \<in> offered"
    and "mg_watching s" and "mg_saving s = []"
  shows "\<exists>s'. (dcc_step (\<lambda>_. DiskOk) js path offered)\<^sup>*\<^sup>* s s' \<and>
           dcc_Get s' = c2 \<and> mg_saving s' = [] \<and> fst (LoadSnapshot (\<lambda>_. DiskOk) js path (mg_disk s')) = Ok c1"
proof -
  let ?step = "dcc_step (\<lambda>_. DiskOk) js path offered"
  define s1 where "s1 = s\<lparr>mg_value := Some c1, mg_saving := [c1]\<rparr>"
  define s2 where "s2 = s\<lparr>mg_value := Some c2, mg_saving := [c1, c2]\<rparr>"
  have saved: "\<exists>d'. SaveSnapshot (\<lambda>_. DiskOk) js path c d = (Ok (), d') \<and> files d' path = Some b"
    if "enc js c = Ok b" for c b d
    using that by (simp add: SaveSnapshot_def MkdirAll_def WriteFile_def Rename_def caseE_def fs_call_def)
  obtain d1 where d1: "SaveSnapshot (\<lambda>_. DiskOk) js path c2 (mg_disk s) = (Ok (), d1)" using saved assms(3) by blast
  obtain d2 where d2: "SaveSnapshot (\<lambda>_. DiskOk) js path c1 d1 = (Ok (), d2)" "files d2 path = Some b1" using saved assms(2) by blast
  have "?step s s1" by (rule dcc_step.change [where scan = "Ok c1" and r = "Ok ()"])
      (use assms in \<open>auto simp: s1_def on_change_def caseE_def bindE_def Store_def go_SaveSnapshot_def\<close>)
  moreover have "?step s1 s2" by (rule dcc_step.change [where scan = "Ok c2" and r = "Ok ()"])
      (use assms in \<open>auto simp: s1_def s2_def on_change_def caseE_def bindE_def Store_def go_SaveSnapshot_def\<close>)
  moreover have "?step s2 (s2\<lparr>mg_disk := d1, mg_saving := [c1]\<rparr>)"
    using dcc_step.save [of 1 s2 "\<lambda>_. DiskOk" js path "Ok ()" d1 offered] d1 by (simp add: s2_def)
  moreover have "?step (s2\<lparr>mg_disk := d1, mg_saving := [c1]\<rparr>) (s2\<lparr>mg_disk := d2, mg_saving := []\<rparr>)"
    using dcc_step.save [of 0 "s2\<lparr>mg_disk := d1, mg_saving := [c1]\<rparr>" "\<lambda>_. DiskOk" js path "Ok ()" d2 offered] d2 by (simp add: s2_def)
  ultimately have "?step\<^sup>*\<^sup>* s (s2\<lparr>mg_disk := d2, mg_saving := []\<rparr>)" by (meson converse_rtranclp_into_rtranclp rtranclp.rtrancl_refl)
  moreover have "fst (LoadSnapshot (\<lambda>_. DiskOk) js path d2) = Ok c1"
    using d2(2) assms(1,2) by (auto simp: LoadSnapshot_def ReadFile_def caseE_def bindE_def fs_call_def codec_ok_def)
  ultimately show ?thesis by (intro exI [of _ "s2\<lparr>mg_disk := d2, mg_saving := []\<rparr>"]) (simp add: s2_def dcc_Get_def)
qed

end
