(* ===== verification/Servers.thy ===== *)
theory Servers
  imports Auth Delivery
begin

text \<open>
  The servers around the handlers: the remaining middleware (\<open>degrade.go\<close>, \<open>middleware.go\<close>,
  \<open>prometheus.go\<close>) and the CORS filter of \<open>http.go\<close>, the consumers of \<open>rabbitmq_server.go\<close>, the queue
  gauges and the handlers of \<open>asynq.go\<close>, the metrics hook of the Redis client, the database gauges, the
  local cache's randomised TTL and the logger's adapter. The AMQP client, asynq's inspector and the
  TinyLFU table are parameters.
\<close>

section \<open>Middleware\<close>

text \<open>\<open>dcc\<close> is nil (\<open>None\<close>) or a getter, by what \<open>Get().GetEnableDegrade()\<close> answers.\<close>

definition DegradeMiddleware :: "('w \<Rightarrow> bool) option \<Rightarrow> ('req, 'rep, 'w) handler \<Rightarrow> ('req, 'rep, 'w) handler" where
  "DegradeMiddleware dcc handler ctx req =
     (case dcc of
        None \<Rightarrow> handler ctx req
      | Some getEnableDegrade \<Rightarrow>
          (\<lambda>w. let enableDegrade = getEnableDegrade w
               in if enableDegrade then fail (KErr 503 ''DEGRADED'' None) w else handler ctx req w))"

text \<open>A request with a method \<open>GetUId\<close> (\<open>None\<close>: it has none).\<close>

definition extractUIdFromReq :: "('req \<Rightarrow> string option) \<Rightarrow> 'req \<Rightarrow> string" where
  "extractUIdFromReq getUId req = (case getUId req of Some u \<Rightarrow> u | None \<Rightarrow> '''')"

definition RateLimiterMiddleware ::
  "('req \<Rightarrow> string option) \<Rightarrow> int option \<Rightarrow> ('req, 'rep, 'w) handler \<Rightarrow> ('req, 'rep, 'w) handler" where
  "RateLimiterMiddleware getUId rateLimit handler ctx req =
     (if rateLimit = None \<or> rateLimit = Some 0 then handler ctx req
      else let uId = extractUIdFromReq getUId req
           in if uId = '''' then handler ctx req else fail (GoErr ''rate limit exceeded''))"

text \<open>The counter and the histogram of \<open>prometheus.go\<close>; a panic of the handler passes by.\<close>

definition MetricsMiddleware :: "services \<Rightarrow> ('req, 'rep, world) handler \<Rightarrow> ('req, 'rep, world) handler" where
  "MetricsMiddleware svc handler ctx req =
     bindE (now svc) (\<lambda>start w0.
       (case handler ctx req w0 of
          (Panic s, w1) \<Rightarrow> (Panic s, w1)
        | (r, w1) \<Rightarrow>
            (let code = (case r of Err e \<Rightarrow> ''error'' | _ \<Rightarrow> ''ok'');
                 (op, meth) = (case ctx_transport ctx of Some tr \<Rightarrow> (tr_Operation tr, tr_Kind tr) | None \<Rightarrow> (''unknown'', ''unknown''))
             in bindE (Inc HTTPRequestsTotal [meth, op, code]) (\<lambda>_.
                bindE (now svc) (\<lambda>t.
                bindE (Observe HTTPRequestDuration [meth, op] (t - start)) (\<lambda>_.
                liftR r))) w1)))"

text \<open>\<open>corsFilter\<close>: the response headers that are set, and whether the next handler runs.\<close>

definition corsFilter :: "string \<Rightarrow> string \<Rightarrow> (string \<times> string) list \<times> bool" where
  "corsFilter origin meth =
     ((if origin \<noteq> ''''
       then [(''Access-Control-Allow-Origin'', origin), (''Access-Control-Allow-Credentials'', ''true'')]
       else [(''Access-Control-Allow-Origin'', ''*'')]) @
      [(''Access-Control-Allow-Methods'', ''GET, POST, PUT, PATCH, DELETE, OPTIONS''),
       (''Access-Control-Allow-Headers'', ''Content-Type, Authorization, X-Requested-With, Accept, Origin''),
       (''Access-Control-Expose-Headers'', ''Content-Length, Content-Type'')],
      meth \<noteq> ''OPTIONS'')"

section \<open>The metrics hook of the Redis client\<close>

text \<open>A command by its \<open>FullName()\<close>; \<open>None\<close> is nil.\<close>

definition redisCmdName :: "string option \<Rightarrow> string" where
  "redisCmdName cmd = (case cmd of None \<Rightarrow> ''unknown'' | Some n \<Rightarrow> n)"

definition redisCmdResult :: "gerr option \<Rightarrow> string" where
  "redisCmdResult err =
     (case err of
        None \<Rightarrow> ''success''
      | Some e \<Rightarrow> if errors_Is e RedisNil then ''nil'' else ''error'')"

definition redis_hook :: "services \<Rightarrow> string \<Rightarrow> unit M \<Rightarrow> unit M" where
  "redis_hook svc cmdName next =
     bindE (now svc) (\<lambda>start.
     caseE next
       (\<lambda>err. bindE (IncRedisOp cmdName (redisCmdResult (Some err))) (\<lambda>_. bindE (now svc) (\<lambda>t.
              bindE (ObserveRedisOpDuration cmdName (t - start)) (\<lambda>_. fail err))))
       (\<lambda>_. bindE (IncRedisOp cmdName (redisCmdResult None)) (\<lambda>_. bindE (now svc) (\<lambda>t.
            ObserveRedisOpDuration cmdName (t - start)))))"

definition ProcessHook :: "services \<Rightarrow> (string option \<Rightarrow> unit M) \<Rightarrow> string option \<Rightarrow> unit M" where
  "ProcessHook svc next cmd = redis_hook svc (redisCmdName cmd) (next cmd)"

definition ProcessPipelineHook :: "services \<Rightarrow> (string option list \<Rightarrow> unit M) \<Rightarrow> string option list \<Rightarrow> unit M" where
  "ProcessPipelineHook svc next cmds =
     redis_hook svc (if length cmds = 1 then redisCmdName (cmds ! 0) else ''pipeline'') (next cmds)"

section \<open>The local cache\<close>

text \<open>
  \<open>TinyLFU\<close>: the table of the library is the parameter \<open>'t\<close> with its three operations, of which
  \<open>Set\<close> takes the key, the value and the time of expiry.
\<close>

record 't lfu =
  lfu_Set :: "string \<Rightarrow> string \<Rightarrow> time \<Rightarrow> 't \<Rightarrow> 't"
  lfu_Get :: "string \<Rightarrow> 't \<Rightarrow> string option \<times> 't"
  lfu_Del :: "string \<Rightarrow> 't \<Rightarrow> 't"

record 't TinyLFU =
  tl_lfu :: 't
  tl_ttl :: int
  tl_offset :: int

definition NewTinyLFU :: "'t \<Rightarrow> int \<Rightarrow> 't TinyLFU" where
  "NewTinyLFU table ttl =
     (let maxOffset = 10 * second;
          offset = (if 0 \<le> ttl then ttl div 10 else - (- ttl div 10));
          offset = (if offset > maxOffset then maxOffset else offset)
      in \<lparr>tl_lfu = table, tl_ttl = ttl, tl_offset = offset\<rparr>)"

definition UseRandomizedTTL :: "int \<Rightarrow> 't TinyLFU \<Rightarrow> 't TinyLFU" where
  "UseRandomizedTTL offset c = c\<lparr>tl_offset := offset\<rparr>"

text \<open>\<open>rand\<close> is what \<open>c.rand.Int63n\<close> answers for a bound, \<open>tnow\<close> the time of the call.\<close>

definition TinyLFU_Set :: "'t lfu \<Rightarrow> (int \<Rightarrow> int) \<Rightarrow> time \<Rightarrow> string \<Rightarrow> string \<Rightarrow> 't TinyLFU \<Rightarrow> 't TinyLFU" where
  "TinyLFU_Set ops rand tnow key b c =
     (let ttl = tl_ttl c;
          ttl = (if tl_offset c > 0 then ttl + rand (tl_offset c) else ttl)
      in c\<lparr>tl_lfu := lfu_Set ops key b (tnow + ttl) (tl_lfu c)\<rparr>)"

definition TinyLFU_Get :: "'t lfu \<Rightarrow> string \<Rightarrow> 't TinyLFU \<Rightarrow> string option \<times> 't TinyLFU" where
  "TinyLFU_Get ops key c =
     (case lfu_Get ops key (tl_lfu c) of (v, t) \<Rightarrow> (v, c\<lparr>tl_lfu := t\<rparr>))"

definition TinyLFU_Del :: "'t lfu \<Rightarrow> string \<Rightarrow> 't TinyLFU \<Rightarrow> 't TinyLFU" where
  "TinyLFU_Del ops key c = c\<lparr>tl_lfu := lfu_Del ops key (tl_lfu c)\<rparr>"

section \<open>The message server\<close>

datatype amqp_call =
    ConnChannel
  | ExchangeDeclare string string string
  | QueueDeclare string string
  | QueueBind string string string string
  | ChannelQos string nat nat
  | Consume string string bool
  | ChannelClose string
  | ConnClose

text \<open>
  The calls of the AMQP client, the first argument naming the channel: \<open>ConnChannel\<close> answers a
  channel and \<open>QueueDeclare\<close> the name of the queue. All exchanges and queues are durable.
\<close>

record 'w amqp_state =
  am_broker :: 'w
  am_channels :: "string list"
  am_consumers :: "(string \<times> string) list"

text \<open>The errors, as \<open>WithCause\<close> makes them.\<close>

definition ErrRabbitMQChannelOpen :: "gerr \<Rightarrow> gerr" where
  "ErrRabbitMQChannelOpen cause = KErr 500 ''RABBITMQ_CHANNEL_OPEN'' (Some cause)"

definition ErrRabbitMQExchangeDeclare :: "gerr \<Rightarrow> gerr" where
  "ErrRabbitMQExchangeDeclare cause = KErr 500 ''RABBITMQ_EXCHANGE_DECLARE'' (Some cause)"

definition ErrRabbitMQQueueDeclare :: "gerr \<Rightarrow> gerr" where
  "ErrRabbitMQQueueDeclare cause = KErr 500 ''RABBITMQ_QUEUE_DECLARE'' (Some cause)"

definition ErrRabbitMQQueueBind :: "gerr \<Rightarrow> gerr" where
  "ErrRabbitMQQueueBind cause = KErr 500 ''RABBITMQ_QUEUE_BIND'' (Some cause)"

definition ErrRabbitMQQosSet :: "gerr \<Rightarrow> gerr" where
  "ErrRabbitMQQosSet cause = KErr 500 ''RABBITMQ_QOS_SET'' (Some cause)"

definition ErrRabbitMQConsumerRegister :: "gerr \<Rightarrow> gerr" where
  "ErrRabbitMQConsumerRegister cause = KErr 500 ''RABBITMQ_CONSUMER_REGISTER'' (Some cause)"

definition amqp :: "(amqp_call \<Rightarrow> (string, 'w) act) \<Rightarrow> (gerr \<Rightarrow> gerr) \<Rightarrow> amqp_call \<Rightarrow> (string, 'w amqp_state) act" where
  "amqp client err call s =
     (case client call (am_broker s) of (r, b) \<Rightarrow>
        ((case r of Ok v \<Rightarrow> Ok v | Err e \<Rightarrow> Err (err e) | Panic p \<Rightarrow> Panic p), s\<lparr>am_broker := b\<rparr>))"

definition startConsumer :: "(amqp_call \<Rightarrow> (string, 'w) act) \<Rightarrow> string \<Rightarrow> (unit, 'w amqp_state) act" where
  "startConsumer client topic =
     bindE (amqp client ErrRabbitMQChannelOpen ConnChannel) (\<lambda>channel.
     bindE (amqp client ErrRabbitMQExchangeDeclare (ExchangeDeclare channel topic ''fanout'')) (\<lambda>_.
     bindE (amqp client ErrRabbitMQQueueDeclare (QueueDeclare channel (topic @ ''_queue''))) (\<lambda>q.
     bindE (amqp client ErrRabbitMQQueueBind (QueueBind channel q '''' topic)) (\<lambda>_.
     bindE (amqp client ErrRabbitMQQosSet (ChannelQos channel 1 0)) (\<lambda>_.
     bindE (amqp client ErrRabbitMQConsumerRegister (Consume channel q False)) (\<lambda>_ s.
       (Ok (), s\<lparr>am_consumers := am_consumers s @ [(q, topic)], am_channels := am_channels s @ [channel]\<rparr>)))))))"

text \<open>\<open>topics\<close> is the order in which the range over the map of listeners meets them.\<close>

definition Start :: "(amqp_call \<Rightarrow> (string, 'w) act) \<Rightarrow> string list \<Rightarrow> (unit, 'w amqp_state) act" where
  "Start client topics = forE topics (startConsumer client)"

definition Stop :: "(amqp_call \<Rightarrow> (string, 'w) act) \<Rightarrow> bool \<Rightarrow> (unit, 'w amqp_state) act" where
  "Stop client hasConn s =
     bindE (forE (am_channels s) (\<lambda>ch. ignoreE (amqp client id (ChannelClose ch)))) (\<lambda>_.
     if hasConn then ignoreE (amqp client id ConnClose) else ret ()) s"

section \<open>The queue gauges\<close>

abbreviation ErrQueueNotFound :: gerr where "ErrQueueNotFound \<equiv> GoErr ''asynq: queue not found''"

text \<open>The inspector answers its queues and, for a queue, the three sizes; the set of names is
  visited in some order, here the order of first mention.\<close>

definition collectQueueMetrics ::
  "(string list res \<times> (string \<Rightarrow> (int \<times> int \<times> int) res)) option \<Rightarrow> string list \<Rightarrow> unit M" where
  "collectQueueMetrics inspector queues =
     (case inspector of
        None \<Rightarrow> ret ()
      | Some (known, info) \<Rightarrow>
          let queueSet = remdups (queues @ (case known of Ok qs \<Rightarrow> qs | _ \<Rightarrow> []))
          in forE queueSet (\<lambda>q.
               case info q of
                 Ok (size0, retry, scheduled) \<Rightarrow> SetAsynqQueueStats q size0 retry scheduled
               | Err e \<Rightarrow> if errors_Is e ErrQueueNotFound then SetAsynqQueueStats q 0 0 0 else ret ()
               | Panic p \<Rightarrow> panic p))"

section \<open>The task server\<close>

text \<open>The server's queues, the handlers of its mux by task type, and the scheduled tasks.\<close>

record asynq_server =
  as_queues :: "string list"
  as_handlers :: "string \<rightharpoonup> (string \<Rightarrow> unit M)"
  as_schedule :: "(string \<times> string) list"

definition NewAsynqServer ::
  "services \<Rightarrow> (string \<Rightarrow> unit M) \<Rightarrow> (string \<Rightarrow> unit M) \<Rightarrow> (string \<Rightarrow> unit M) \<Rightarrow> asynq_server" where
  "NewAsynqServer svc skuStockJob stateSyncJob strategyAwardStockJob =
     \<lparr>as_queues = [TaskTypeActivitySkuStockConsume, ''default'', ''low''],
      as_handlers =
        [TaskTypeActivitySkuStockConsume \<mapsto> wrapAsynqHandler svc TaskTypeActivitySkuStockConsume skuStockJob,
         TaskTypeActivityStateSync \<mapsto> wrapAsynqHandler svc TaskTypeActivityStateSync stateSyncJob,
         TaskTypeStrategyAwardStockConsume \<mapsto> wrapAsynqHandler svc TaskTypeStrategyAwardStockConsume strategyAwardStockJob],
      as_schedule = [(''@every 5s'', TaskTypeActivityStateSync)]\<rparr>"

text \<open>\<open>scheduler.Start\<close> and \<open>server.Start\<close> by what they answer.\<close>

definition AsynqServer_Start :: "unit res \<Rightarrow> unit res \<Rightarrow> unit res" where
  "AsynqServer_Start schedulerStart serverStart =
     (case schedulerStart of
        Err e \<Rightarrow> Err (Wrap ''scheduler start failed'' e)
      | Panic p \<Rightarrow> Panic p
      | Ok _ \<Rightarrow>
          (case serverStart of
             Err e \<Rightarrow> Err (Wrap ''asynq server start failed'' e)
           | Panic p \<Rightarrow> Panic p
           | Ok _ \<Rightarrow> Ok ()))"

text \<open>The \<open>ErrorHandler\<close> of the server's configuration, and a task as the library runs it: the mux
  finds the handler, and an error it returns goes to the error handler.\<close>

definition asynq_ErrorHandler :: "string \<Rightarrow> gerr \<Rightarrow> unit M" where
  "asynq_ErrorHandler taskType err = IncAsynqTask taskType (asynqTaskResult err)"

definition run_task :: "asynq_server \<Rightarrow> string \<Rightarrow> string \<Rightarrow> unit M" where
  "run_task srv taskType payload =
     caseE (case as_handlers srv taskType of
              Some h \<Rightarrow> h payload
            | None \<Rightarrow> fail (GoErr ''handler not found for task''))
       (\<lambda>err. bindE (asynq_ErrorHandler taskType err) (\<lambda>_. fail err))
       ret"

section \<open>The database gauges\<close>

definition collectMySQLStats :: "DBStats option \<Rightarrow> string \<Rightarrow> string \<Rightarrow> unit M" where
  "collectMySQLStats sqlDB dbName role =
     (case sqlDB of None \<Rightarrow> ret () | Some stats \<Rightarrow> SetMySQLStats dbName role stats)"

section \<open>The logger\<close>

datatype log_level = DebugLevel | InfoLevel | WarnLevel | ErrorLevel | FatalLevel

definition parseLevel :: "string \<Rightarrow> log_level" where
  "parseLevel lvl =
     (if lvl = ''debug'' then DebugLevel
      else if lvl = ''warn'' then WarnLevel
      else if lvl = ''error'' then ErrorLevel
      else InfoLevel)"

text \<open>
  \<open>KratosLogger.Log\<close> on the lines written so far: a level, a message and its fields; the texts of
  the key values are given by \<open>fmt.Sprint\<close>. A fatal line ends the process.
\<close>

type_synonym log_line = "log_level \<times> string \<times> (string \<times> string) list"

fun log_fields :: "string list \<Rightarrow> (string \<times> string) list" where
  "log_fields (k # v # kvs) = (k, v) # log_fields kvs"
| "log_fields _ = []"

definition KratosLogger_Log :: "log_level option \<Rightarrow> string list \<Rightarrow> (unit, log_line list) act" where
  "KratosLogger_Log level keyvals lines =
     (if length keyvals = 0 \<or> length keyvals mod 2 \<noteq> 0
      then (Ok (), lines @ [(WarnLevel, ''Keyvalues must appear in pairs: '' @ ''['' @ join '' '' keyvals @ '']'', [])])
      else case level of
             None \<Rightarrow> (Ok (), lines)
           | Some FatalLevel \<Rightarrow> (Panic ''os.Exit(1)'', lines @ [(FatalLevel, '''', log_fields keyvals)])
           | Some l \<Rightarrow> (Ok (), lines @ [(l, '''', log_fields keyvals)]))"

section \<open>Lemmas\<close>

text \<open>With a rate limit configured, every request that names a user is refused: nothing counts.\<close>

lemma rate_limit_refuses_users:
  assumes "rateLimit \<noteq> None" and "rateLimit \<noteq> Some 0" and "getUId req = Some u" and "u \<noteq> ''''"
  shows "RateLimiterMiddleware getUId rateLimit handler ctx req w = (Err (GoErr ''rate limit exceeded''), w)"
  using assms by (auto simp: RateLimiterMiddleware_def extractUIdFromReq_def)

text \<open>The expiry of a local entry: at least the TTL, less than a tenth and ten seconds more.\<close>

lemma local_ttl_bounds:
  assumes "0 < ttl" and "\<And>n. 0 < n \<Longrightarrow> 0 \<le> rand n \<and> rand n < n"
  shows "\<exists>e. TinyLFU_Set ops rand t k b (NewTinyLFU table ttl) = (NewTinyLFU table ttl)\<lparr>tl_lfu := lfu_Set ops k b e table\<rparr> \<and>
             t + ttl \<le> e \<and> e \<le> t + ttl + min (ttl div 10) (10 * second)"
proof -
  have off: "tl_offset (NewTinyLFU table ttl) = min (ttl div 10) (10 * second)"
    using assms(1) by (simp add: NewTinyLFU_def Let_def)
  have sel: "tl_ttl (NewTinyLFU table ttl) = ttl" "tl_lfu (NewTinyLFU table ttl) = table" by (simp_all add: NewTinyLFU_def Let_def)
  show ?thesis
  proof (cases "0 < min (ttl div 10) (10 * second)")
    case True
    with assms(2) [OF True] off sel show ?thesis
      by (intro exI [of _ "t + (ttl + rand (min (ttl div 10) (10 * second)))"]) (simp add: TinyLFU_Set_def Let_def)
  next
    case False
    with off sel assms(1) show ?thesis
      by (intro exI [of _ "t + ttl"]) (simp add: TinyLFU_Set_def Let_def second_def)
  qed
qed

text \<open>
  A started server has one consumer and one channel for each listener, on the durable queue named
  after its topic, provided the broker declares the queue it is asked for.
\<close>

lemma startConsumer_Ok:
  assumes "startConsumer client topic s = (Ok (), s')"
    and "\<And>ch q b v b'. client (QueueDeclare ch q) b = (Ok v, b') \<Longrightarrow> v = q"
  shows "am_consumers s' = am_consumers s @ [(topic @ ''_queue'', topic)] \<and> length (am_channels s') = Suc (length (am_channels s))"
  using assms(1)
  by (auto simp: startConsumer_def bindE_def amqp_def split: prod.splits res.splits dest: assms(2))

lemma Start_consumers:
  assumes "Start client topics s = (Ok (), s')"
    and "\<And>ch q b v b'. client (QueueDeclare ch q) b = (Ok v, b') \<Longrightarrow> v = q"
  shows "am_consumers s' = am_consumers s @ map (\<lambda>t. (t @ ''_queue'', t)) topics \<and>
         length (am_channels s') = length (am_channels s) + length topics"
  using assms(1) unfolding Start_def
proof (induction topics arbitrary: s)
  case (Cons t ts)
  then obtain s1 where "startConsumer client t s = (Ok (), s1)" "forE ts (startConsumer client) s1 = (Ok (), s')"
    by (auto simp: forE_def)
  with Cons.IH [of s1] startConsumer_Ok [of client t s s1, OF _ assms(2)] show ?case by simp
qed (simp add: forE_def)

text \<open>A consumer that fails half way leaves its channel open: \<open>Stop\<close> does not know it.\<close>

lemma failed_consumer_leaks_channel:
  assumes "client ConnChannel (am_broker s) = (Ok ch, b)" and "client (ExchangeDeclare ch topic ''fanout'') b = (Err e, b')"
  shows "\<exists>e'. startConsumer client topic s = (Err e', s\<lparr>am_broker := b'\<rparr>)"
  using assms by (simp add: startConsumer_def bindE_def amqp_def)

text \<open>
  A task of a type the server has a handler for is counted once, as a success or with the kind of
  its error; the scheduled task has a handler.
\<close>

lemma task_counted_once:
  assumes "as_handlers (NewAsynqServer svc j1 j2 j3) t = Some h" and "run_task (NewAsynqServer svc j1 j2 j3) t payload w = (r, w')"
    and "\<And>j w r w'. j \<in> {j1, j2, j3} \<Longrightarrow> j payload w = (r, w') \<Longrightarrow> metrics w' = metrics w"
    and "\<nexists>p. r = Panic p"
  shows "\<exists>d. metrics w' = metrics w @ [[fqName AsynqTaskDuration, normalizeLabel t, d],
           [fqName AsynqTaskTotal, normalizeLabel t, (case r of Err e \<Rightarrow> asynqTaskResult e | _ \<Rightarrow> ''success'')]]"
proof -
  obtain j where j: "j \<in> {j1, j2, j3}" and h: "h = wrapAsynqHandler svc t j"
    using assms(1) by (auto simp: NewAsynqServer_def split: if_splits)
  obtain q w1 where run: "j payload (bump w) = (q, w1)" by fastforce
  have m: "metrics w1 = metrics w" using assms(3) [OF j run] by simp
  have ne: "normalizeLabel (asynqTaskResult e) = asynqTaskResult e" "normalizeLabel ''success'' = ''success''" for e
    by (simp_all add: normalizeLabel_def asynqTaskResult_def)
  show ?thesis
    using assms(1,2,4) run m
    by (cases q) (auto simp: run_task_def h wrapAsynqHandler_def caseE_def bindE_def now_def asynq_ErrorHandler_def IncAsynqTask_def
        ObserveAsynqTaskDuration_def ne)
qed

lemma scheduled_tasks_are_handled:
  "(c, t) \<in> set (as_schedule (NewAsynqServer svc j1 j2 j3)) \<Longrightarrow> as_handlers (NewAsynqServer svc j1 j2 j3) t \<noteq> None"
  by (auto simp: NewAsynqServer_def)

text \<open>An even, non-empty list of key values becomes half as many fields, in order.\<close>

lemma log_fields_pairs: "length kvs mod 2 = 0 \<Longrightarrow> concat (map (\<lambda>(k, v). [k, v]) (log_fields kvs)) = kvs"
  by (induction kvs rule: log_fields.induct) simp_all

end
