(* ===== verification/Connections.thy ===== *)
theory Connections
  imports Router
begin

text \<open>
  How \<open>internal/data/data.go\<close> opens its connections: the DSN of the default database and of every
  shard from one template, the pool settings, the options of the Redis client and of asynq, the URL
  of the broker. \<open>gorm.Open\<close> and the other library calls are parameters, by what they answer. The
  router of \<open>Router\<close> identifies a connection by its key; here the key gets its connection, and it is
  shown that every key stands for a database of its own.
\<close>

section \<open>fmt.Sprintf\<close>

text \<open>
  The verbs \<open>%s\<close>, \<open>%d\<close> and \<open>%%\<close> without flags, on strings and \<open>int32\<close> values, with what the library
  prints for a verb of the wrong type, a missing operand, a trailing percent sign and operands that
  are left over. \<open>None\<close>: the format has a directive that is not modelled.
\<close>

datatype operand = StrOp string | Int32Op int

fun show_operand :: "operand \<Rightarrow> string" where
  "show_operand (StrOp s) = ''string='' @ s"
| "show_operand (Int32Op n) = ''int32='' @ FormatInt n"

definition fmt_extra :: "operand list \<Rightarrow> string" where
  "fmt_extra args = (if args = [] then '''' else ''%!(EXTRA '' @ join '', '' (map show_operand args) @ '')'')"

definition fmt_verb :: "char \<Rightarrow> operand \<Rightarrow> string" where
  "fmt_verb v a =
     (case a of
        StrOp s \<Rightarrow> if v = CHR ''s'' then s else ''%!'' @ [v] @ ''('' @ show_operand a @ '')''
      | Int32Op n \<Rightarrow> if v = CHR ''d'' then FormatInt n else ''%!'' @ [v] @ ''('' @ show_operand a @ '')'')"

fun Sprintf :: "string \<Rightarrow> operand list \<Rightarrow> string option" where
  "Sprintf [] args = Some (fmt_extra args)"
| "Sprintf (c # cs) args =
     (if c \<noteq> CHR 0x25 then map_option ((#) c) (Sprintf cs args)
      else case cs of
             [] \<Rightarrow> Some (''%!(NOVERB)'' @ fmt_extra args)
           | v # cs' \<Rightarrow>
               if v = CHR 0x25 then map_option ((#) v) (Sprintf cs' args)
               else if v = CHR ''s'' \<or> v = CHR ''d''
               then (case args of
                       [] \<Rightarrow> map_option ((@) (''%!'' @ [v] @ ''(MISSING)'')) (Sprintf cs' [])
                     | a # args' \<Rightarrow> map_option ((@) (fmt_verb v a)) (Sprintf cs' args'))
               else None)"

section \<open>Databases\<close>

text \<open>\<open>conf.Data_Mysql\<close>; a duration that is not configured is \<open>None\<close>.\<close>

record Data_Mysql =
  my_Dsn :: string
  my_MaxOpenConns :: int
  my_MaxIdleConns :: int
  my_MaxLifeTime :: "int option"
  my_MaxIdleTime :: "int option"
  my_DbCount :: int
  my_TbCount :: int

text \<open>An open database with the pool settings that were made; \<open>None\<close> is the library's default.\<close>

record gorm_db =
  gd_dsn :: string
  gd_MaxIdleConns :: "int option"
  gd_MaxOpenConns :: "int option"
  gd_ConnMaxLifetime :: "int option"
  gd_ConnMaxIdleTime :: "int option"

text \<open>\<open>gorm.Open(mysql.Open(dsn))\<close> and \<open>db.DB()\<close> by what they answer for a DSN.\<close>

record gorm_lib =
  lib_Open :: "string \<Rightarrow> gerr option"
  lib_DB :: "string \<Rightarrow> gerr option"

definition openMySQLDB :: "gorm_lib \<Rightarrow> Data_Mysql \<Rightarrow> gorm_db res option" where
  "openMySQLDB lib conf =
     map_option (\<lambda>dsn.
        case lib_Open lib dsn of
          Some e \<Rightarrow> Panic ''failed to connect database''
        | None \<Rightarrow>
            (case lib_DB lib dsn of
               Some e \<Rightarrow> Panic ''failed to get sql.DB instance''
             | None \<Rightarrow>
                 Ok \<lparr>gd_dsn = dsn,
                     gd_MaxIdleConns = (if my_MaxIdleConns conf > 0 then Some (my_MaxIdleConns conf) else None),
                     gd_MaxOpenConns = (if my_MaxOpenConns conf > 0 then Some (my_MaxOpenConns conf) else None),
                     gd_ConnMaxLifetime = my_MaxLifeTime conf,
                     gd_ConnMaxIdleTime = my_MaxIdleTime conf\<rparr>))
       (if contains (my_Dsn conf) ''%s'' then Sprintf (my_Dsn conf) [StrOp ''''] else Some (my_Dsn conf))"

text \<open>\<open>NewDB\<close>: the database, and the name and role under which its statistics are collected.\<close>

definition NewDB :: "gorm_lib \<Rightarrow> Data_Mysql \<Rightarrow> (gorm_db \<times> string \<times> string) res option" where
  "NewDB lib conf =
     map_option (\<lambda>r. bindR r (\<lambda>db. Ok (db, ''default'', ''primary''))) (openMySQLDB lib conf)"

text \<open>The loop of \<open>NewDBRouter\<close> with the map it fills and the lines it prints.\<close>

definition shard_conf :: "Data_Mysql \<Rightarrow> string \<Rightarrow> Data_Mysql" where
  "shard_conf conf dsn =
     \<lparr>my_Dsn = dsn, my_MaxOpenConns = my_MaxOpenConns conf, my_MaxIdleConns = my_MaxIdleConns conf,
      my_MaxLifeTime = my_MaxLifeTime conf, my_MaxIdleTime = my_MaxIdleTime conf,
      my_DbCount = my_DbCount conf, my_TbCount = my_TbCount conf\<rparr>"

fun open_shards ::
  "gorm_lib \<Rightarrow> Data_Mysql \<Rightarrow> int list \<Rightarrow> (string \<rightharpoonup> gorm_db) \<Rightarrow> string list \<Rightarrow> ((string \<rightharpoonup> gorm_db) \<times> string list) res option" where
  "open_shards lib conf [] dbs printed = Some (Ok (dbs, printed))"
| "open_shards lib conf (i # is) dbs printed =
     (case Sprintf (my_Dsn conf) [StrOp (''_'' @ fmt0 2 i)] of
        None \<Rightarrow> None
      | Some dsn \<Rightarrow>
          (case openMySQLDB lib (shard_conf conf dsn) of
             None \<Rightarrow> None
           | Some (Ok db) \<Rightarrow> open_shards lib conf is (dbs(fmt0 2 i \<mapsto> db)) (printed @ [''DBRouter: '' @ dsn])
           | Some (Err e) \<Rightarrow> Some (Err e)
           | Some (Panic p) \<Rightarrow> Some (Panic p)))"

definition open_router :: "gorm_lib \<Rightarrow> Data_Mysql \<Rightarrow> ((string \<rightharpoonup> gorm_db) \<times> string list) res option" where
  "open_router lib conf = open_shards lib conf [1..my_DbCount conf] Map.empty []"

section \<open>Redis, the broker and asynq\<close>

text \<open>\<open>conf.Data_Redis\<close> and \<open>conf.Asynq_Redis\<close>, the fields the program reads; times are milliseconds.\<close>

record Conf_Redis =
  cr_Host :: string
  cr_Port :: int
  cr_Db :: int
  cr_PoolSize :: int
  cr_MinIdleSize :: int
  cr_IdleTimeout :: int
  cr_ConnectTimeout :: int
  cr_RetryAttempts :: int
  cr_RetryInterval :: int

record redis_Options =
  ro_Addr :: string
  ro_DB :: int
  ro_PoolSize :: int
  ro_MinIdleConns :: int
  ro_DialTimeout :: int
  ro_ConnMaxIdleTime :: int
  ro_MaxRetries :: int
  ro_MinRetryBackoff :: int

definition Millisecond :: int where
  "Millisecond = 1000000"

definition redis_addr :: "Conf_Redis \<Rightarrow> string" where
  "redis_addr cfg = the (Sprintf ''%s:%d'' [StrOp (cr_Host cfg), Int32Op (cr_Port cfg)])"

definition redis_options :: "Conf_Redis \<Rightarrow> redis_Options" where
  "redis_options cfg =
     \<lparr>ro_Addr = redis_addr cfg, ro_DB = cr_Db cfg, ro_PoolSize = cr_PoolSize cfg,
      ro_MinIdleConns = cr_MinIdleSize cfg, ro_DialTimeout = cr_ConnectTimeout cfg * Millisecond,
      ro_ConnMaxIdleTime = cr_IdleTimeout cfg * Millisecond, ro_MaxRetries = cr_RetryAttempts cfg,
      ro_MinRetryBackoff = cr_RetryInterval cfg * Millisecond\<rparr>"

text \<open>\<open>ping\<close> is what the first \<open>PING\<close> answers; the client is its options.\<close>

definition NewRedisClient :: "(redis_Options \<Rightarrow> gerr option) \<Rightarrow> Conf_Redis \<Rightarrow> redis_Options res" where
  "NewRedisClient ping cfg =
     (let opts = redis_options cfg
      in case ping opts of Some e \<Rightarrow> Panic ''failed to connect to redis'' | None \<Rightarrow> Ok opts)"

record Conf_RabbitMQ =
  cm_Addresses :: string
  cm_Port :: int
  cm_Username :: string
  cm_Password :: string

definition connStr :: "Conf_RabbitMQ \<Rightarrow> string" where
  "connStr conf =
     the (Sprintf ''amqp://%s:%s@%s:%d/''
            [StrOp (cm_Username conf), StrOp (cm_Password conf), StrOp (cm_Addresses conf), Int32Op (cm_Port conf)])"

text \<open>\<open>dial\<close> is \<open>amqp.Dial\<close>: a connection, here its URL, or an error.\<close>

definition NewConnection :: "(string \<Rightarrow> gerr option) \<Rightarrow> Conf_RabbitMQ \<Rightarrow> string res" where
  "NewConnection dial conf =
     (case dial (connStr conf) of Some e \<Rightarrow> Err e | None \<Rightarrow> Ok (connStr conf))"

record RedisClientOpt =
  rc_Addr :: string
  rc_DB :: int
  rc_PoolSize :: int

definition NewAsynqClient :: "Conf_Redis \<Rightarrow> RedisClientOpt" where
  "NewAsynqClient cfg = \<lparr>rc_Addr = redis_addr cfg, rc_DB = cr_Db cfg, rc_PoolSize = cr_PoolSize cfg\<rparr>"

definition NewAsynqInspector :: "Conf_Redis \<Rightarrow> RedisClientOpt" where
  "NewAsynqInspector cfg = \<lparr>rc_Addr = redis_addr cfg, rc_DB = cr_Db cfg, rc_PoolSize = cr_PoolSize cfg\<rparr>"

definition NewTBCount :: int where
  "NewTBCount = 2"

section \<open>Formatting\<close>

lemma Sprintf_append:
  "CHR 0x25 \<notin> set pre \<Longrightarrow> Sprintf (pre @ cs) args = map_option ((@) pre) (Sprintf cs args)"
  by (induction pre; cases "Sprintf cs args") auto

lemma Sprintf_plain: "CHR 0x25 \<notin> set s \<Longrightarrow> Sprintf s args = Some (s @ fmt_extra args)"
  using Sprintf_append [of s "[]" args] by simp

lemma Sprintf_one:
  assumes "CHR 0x25 \<notin> set pre" and "CHR 0x25 \<notin> set post"
  shows "Sprintf (pre @ ''%s'' @ post) [StrOp x] = Some (pre @ x @ post)"
  using assms by (simp add: Sprintf_append Sprintf_plain fmt_verb_def fmt_extra_def)

lemma no_verb: "CHR 0x25 \<notin> set s \<Longrightarrow> \<not> contains s ''%s''"
  by (induction s) auto

lemma contains_middle: "contains (pre @ p @ post) p"
  by (induction pre) (cases p; cases post; simp add: has_prefix_iff; force simp: has_prefix_iff)+

section \<open>Every shard is a database of its own\<close>

lemma fmt0_no_percent: "0 \<le> n \<Longrightarrow> CHR 0x25 \<notin> set (fmt0 w n)"
  using digit_val_digits [of n "CHR 0x25"] by (auto simp: fmt0_def pad0_def digit_val_def)

text \<open>The settings every database of a configuration gets.\<close>

definition db_of :: "Data_Mysql \<Rightarrow> string \<Rightarrow> gorm_db" where
  "db_of conf dsn =
     \<lparr>gd_dsn = dsn,
      gd_MaxIdleConns = (if my_MaxIdleConns conf > 0 then Some (my_MaxIdleConns conf) else None),
      gd_MaxOpenConns = (if my_MaxOpenConns conf > 0 then Some (my_MaxOpenConns conf) else None),
      gd_ConnMaxLifetime = my_MaxLifeTime conf, gd_ConnMaxIdleTime = my_MaxIdleTime conf\<rparr>"

definition lib_ok :: "gorm_lib \<Rightarrow> bool" where
  "lib_ok lib \<longleftrightarrow> (\<forall>dsn. lib_Open lib dsn = None \<and> lib_DB lib dsn = None)"

definition template :: "Data_Mysql \<Rightarrow> string \<Rightarrow> string \<Rightarrow> bool" where
  "template conf pre post \<longleftrightarrow>
     my_Dsn conf = pre @ ''%s'' @ post \<and> CHR 0x25 \<notin> set pre \<and> CHR 0x25 \<notin> set post"

lemma open_plain:
  "lib_ok lib \<Longrightarrow> CHR 0x25 \<notin> set dsn \<Longrightarrow> openMySQLDB lib (shard_conf conf dsn) = Some (Ok (db_of conf dsn))"
  by (simp add: openMySQLDB_def shard_conf_def no_verb lib_ok_def db_of_def)

lemma open_template:
  assumes "lib_ok lib" and "template conf pre post"
  shows "openMySQLDB lib conf = Some (Ok (db_of conf (pre @ post)))"
  using assms Sprintf_one [of pre post "''''"] contains_middle [of pre "''%s''" post]
  by (simp add: openMySQLDB_def template_def lib_ok_def db_of_def)

definition shard_dsn :: "string \<Rightarrow> string \<Rightarrow> string \<Rightarrow> string" where
  "shard_dsn pre post key = pre @ ''_'' @ key @ post"

lemma open_shards_template:
  assumes "lib_ok lib" and "template conf pre post" and "\<forall>i \<in> set is. 0 \<le> i"
  shows "open_shards lib conf is dbs printed =
    Some (Ok (\<lambda>k. if k \<in> fmt0 2 ` set is then Some (db_of conf (shard_dsn pre post k)) else dbs k,
              printed @ map (\<lambda>i. ''DBRouter: '' @ shard_dsn pre post (fmt0 2 i)) is))"
  using assms(3)
proof (induction "is" arbitrary: dbs printed)
  case (Cons i "is")
  let ?k = "fmt0 2 i"
  have "Sprintf (my_Dsn conf) [StrOp (''_'' @ ?k)] = Some (shard_dsn pre post ?k)"
    using assms(2) Sprintf_one [of pre post "''_'' @ ?k"] by (simp add: template_def shard_dsn_def)
  moreover have "CHR 0x25 \<notin> set (shard_dsn pre post ?k)"
    using assms(2) Cons.prems fmt0_no_percent [of i 2] by (simp add: template_def shard_dsn_def)
  ultimately show ?case
    using Cons by (simp add: open_plain [OF assms(1)]) (auto simp: fun_eq_iff)
qed simp

lemma open_router_template:
  assumes "lib_ok lib" and "template conf pre post"
  shows "open_router lib conf =
    Some (Ok (\<lambda>k. if k \<in> fmt0 2 ` {1..my_DbCount conf} then Some (db_of conf (shard_dsn pre post k)) else None,
              map (\<lambda>i. ''DBRouter: '' @ shard_dsn pre post (fmt0 2 i)) [1..my_DbCount conf]))"
  using open_shards_template [OF assms, of "[1..my_DbCount conf]" Map.empty "[]"] by (simp add: open_router_def)

lemma shard_dsn_inj: "shard_dsn pre post k = shard_dsn pre post k' \<longleftrightarrow> k = k'"
  by (simp add: shard_dsn_def)

lemma shard_dsn_not_default: "shard_dsn pre post k \<noteq> pre @ post"
  by (auto simp: shard_dsn_def dest: arg_cong [where f = length])

text \<open>
  C37. The connections behind the router: when every database can be opened and the DSN is a template
  with one \<open>%s\<close> (and no other percent sign), \<open>NewDBRouter\<close> opens exactly the databases \<open>_01\<close> up to
  \<open>_NN\<close>, under the keys \<open>01\<close> up to \<open>NN\<close> of the abstract router; different keys are different databases,
  none of them the default database that \<open>NewDB\<close> opens; and every shard key is routed to a key that
  has its connection, the database whose name ends in that key.
\<close>

theorem router_connections:
  assumes "lib_ok lib" and "template conf pre post" and "0 < my_DbCount conf" and "0 < my_TbCount conf"
  shows "\<exists>dbs printed d.
    open_router lib conf = Some (Ok (dbs, printed)) \<and>
    NewDB lib conf = Some (Ok (d, ''default'', ''primary'')) \<and> gd_dsn d = pre @ post \<and>
    dom dbs = dom (dbMap (NewDBRouter (my_DbCount conf) (my_TbCount conf))) \<and>
    (\<forall>k db. dbs k = Some db \<longrightarrow> gd_dsn db = pre @ ''_'' @ k @ post \<and> gd_dsn db \<noteq> gd_dsn d) \<and>
    (\<forall>k k' db. dbs k = Some db \<longrightarrow> dbs k' = Some db \<longrightarrow> k = k') \<and>
    (\<forall>uid. \<exists>k suffix db. DBStrategy (NewDBRouter (my_DbCount conf) (my_TbCount conf)) uid = Ok (Some k, suffix) \<and>
       dbs k = Some db)"
proof -
  let ?dbs = "\<lambda>k. if k \<in> fmt0 2 ` {1..my_DbCount conf} then Some (db_of conf (shard_dsn pre post k)) else None"
  have new: "NewDB lib conf = Some (Ok (db_of conf (pre @ post), ''default'', ''primary''))"
    using open_template [OF assms(1,2)] by (simp add: NewDB_def)
  have dom: "dom ?dbs = dom (dbMap (NewDBRouter (my_DbCount conf) (my_TbCount conf)))"
    by (auto simp: NewDBRouter_def open_dbs_lookup dom_def split: if_splits)
  have route: "\<exists>k suffix db. DBStrategy (NewDBRouter (my_DbCount conf) (my_TbCount conf)) uid = Ok (Some k, suffix) \<and>
       ?dbs k = Some db" for uid
    using slot_div_bounds [OF assms(3,4), of uid] by (auto simp: DBStrategy_slot [OF assms(3,4)])
  show ?thesis
    by (intro exI [of _ ?dbs] exI [of _ "map (\<lambda>i. ''DBRouter: '' @ shard_dsn pre post (fmt0 2 i)) [1..my_DbCount conf]"]
          exI [of _ "db_of conf (pre @ post)"] conjI)
       (use open_router_template [OF assms(1,2)] new dom route in
         \<open>auto simp: db_of_def shard_dsn_def dest: arg_cong [where f = length] split: if_splits\<close>)
qed

definition demo_conf :: Data_Mysql where
  "demo_conf =
     \<lparr>my_Dsn = ''root@tcp(127.0.0.1:3306)/big_market%s?charset=utf8mb4'', my_MaxOpenConns = 25, my_MaxIdleConns = 15,
      my_MaxLifeTime = Some 1800, my_MaxIdleTime = Some 180, my_DbCount = 2, my_TbCount = 4\<rparr>"

definition demo_lib :: gorm_lib where
  "demo_lib = \<lparr>lib_Open = \<lambda>_. None, lib_DB = \<lambda>_. None\<rparr>"

theorem router_connections_witness:
  "\<exists>dbs printed. open_router demo_lib demo_conf = Some (Ok (dbs, printed)) \<and>
     dom dbs = dom (dbMap (NewDBRouter 2 4)) \<and>
     (\<forall>k db. dbs k = Some db \<longrightarrow> gd_dsn db = ''root@tcp(127.0.0.1:3306)/big_market'' @ ''_'' @ k @ ''?charset=utf8mb4'')"
proof -
  have "lib_ok demo_lib" by (simp add: lib_ok_def demo_lib_def)
  moreover have "template demo_conf ''root@tcp(127.0.0.1:3306)/big_market'' ''?charset=utf8mb4''"
    by (simp add: template_def demo_conf_def)
  moreover have "my_DbCount demo_conf = 2" "my_TbCount demo_conf = 4" by (simp_all add: demo_conf_def)
  ultimately show ?thesis
    using router_connections [of demo_lib demo_conf "''root@tcp(127.0.0.1:3306)/big_market''" "''?charset=utf8mb4''"] by auto
qed

text \<open>A shard that cannot be opened stops the process: no router has a shard missing.\<close>

lemma open_shards_fails:
  assumes "template conf pre post" and "i \<in> set is" and "\<forall>i \<in> set is. 0 \<le> i"
    and "lib_Open lib (shard_dsn pre post (fmt0 2 i)) = Some e"
  shows "\<exists>p. open_shards lib conf is dbs printed = Some (Panic p)"
  using assms(2,3)
proof (induction "is" arbitrary: dbs printed)
  case (Cons j "is")
  let ?k = "fmt0 2 j"
  have sp: "Sprintf (my_Dsn conf) [StrOp (''_'' @ ?k)] = Some (shard_dsn pre post ?k)"
    using assms(1) Sprintf_one [of pre post "''_'' @ ?k"] by (simp add: template_def shard_dsn_def)
  have nv: "\<not> contains (shard_dsn pre post ?k) ''%s''"
    using assms(1) Cons.prems fmt0_no_percent [of j 2] by (intro no_verb) (simp add: template_def shard_dsn_def)
  show ?case
  proof (cases "lib_Open lib (shard_dsn pre post ?k) = None \<and> lib_DB lib (shard_dsn pre post ?k) = None")
    case True
    then have "i \<in> set is" using Cons.prems(1) assms(4) by auto
    then show ?thesis using Cons True sp nv by (simp add: openMySQLDB_def shard_conf_def)
  next
    case False
    then show ?thesis using sp nv by (auto simp: openMySQLDB_def shard_conf_def split: option.split)
  qed
qed simp

text \<open>
  A DSN without a verb serves \<open>NewDB\<close>, which looks for one before it formats; \<open>NewDBRouter\<close> formats
  always and asks for a database whose name has the complaint of the library in it.
\<close>

lemma shard_dsn_without_verb:
  "CHR 0x25 \<notin> set dsn \<Longrightarrow> Sprintf dsn [StrOp ''_01''] = Some (dsn @ ''%!(EXTRA string=_01)'')"
  by (simp add: Sprintf_plain fmt_extra_def)

text \<open>The credentials are not escaped: two accounts can have one URL.\<close>

lemma connStr_ambiguous:
  "connStr (c\<lparr>cm_Username := ''a:b'', cm_Password := ''c''\<rparr>) = connStr (c\<lparr>cm_Username := ''a'', cm_Password := ''b:c''\<rparr>)"
  by (simp add: connStr_def fmt_verb_def)

lemma redis_addr_text: "redis_addr cfg = cr_Host cfg @ '':'' @ FormatInt (cr_Port cfg)"
  by (simp add: redis_addr_def fmt_verb_def fmt_extra_def)

text \<open>Times of 32 bits in milliseconds are durations that fit 64 bits in nanoseconds.\<close>

lemma redis_options_bounds:
  assumes "\<bar>cr_ConnectTimeout cfg\<bar> \<le> 2 ^ 31" and "\<bar>cr_IdleTimeout cfg\<bar> \<le> 2 ^ 31" and "\<bar>cr_RetryInterval cfg\<bar> \<le> 2 ^ 31"
  shows "is_int64 (ro_DialTimeout (redis_options cfg))" "is_int64 (ro_ConnMaxIdleTime (redis_options cfg))"
    "is_int64 (ro_MinRetryBackoff (redis_options cfg))"
  using assms by (auto intro!: is_int64_small simp: redis_options_def Millisecond_def)

end
