(* ===== verification/Application.thy ===== *)
theory Application
  imports Servers Connections Config_Center Cdc
begin

text \<open>
  How the two processes are put together: the HTTP and gRPC servers with their middleware
  (\<open>server/http.go\<close>, \<open>server/grpc.go\<close>), the metrics server (\<open>server/mertrics.go\<close>), the loops that sample
  the gauges, the wiring and the start of the market (\<open>cmd/big-market-kratos\<close>) and of the
  synchronisation (\<open>cmd/cdc-sync\<close>, \<open>cdc/syncer.go\<close>). The libraries (kratos, gorm, redis, amqp, etcd,
  canal) are parameters, by what their calls answer; what is modelled is which calls the program
  makes, in which order, and what it does with a failure.
\<close>

section \<open>The HTTP and gRPC servers\<close>

text \<open>\<open>conf.Server_HTTP\<close> and \<open>conf.Server_GRPC\<close>.\<close>

record Conf_Listen =
  li_Network :: string
  li_Addr :: string
  li_Timeout :: "int option"

record Conf_Server =
  sv_Http :: "Conf_Listen option"
  sv_Grpc :: "Conf_Listen option"

text \<open>The options the constructor passes on; \<open>None\<close> leaves the default of the library.\<close>

record server_options =
  so_Network :: "string option"
  so_Address :: "string option"
  so_Timeout :: "int option"

definition listen_options :: "Conf_Listen option \<Rightarrow> server_options res" where
  "listen_options c =
     (case c of
        None \<Rightarrow> Panic ''runtime error: nil pointer dereference''
      | Some l \<Rightarrow>
          Ok \<lparr>so_Network = (if li_Network l \<noteq> '''' then Some (li_Network l) else None),
              so_Address = (if li_Addr l \<noteq> '''' then Some (li_Addr l) else None),
              so_Timeout = li_Timeout l\<rparr>)"

text \<open>The middleware in the order in which a request passes through it.\<close>

datatype middleware = Recovery | Metrics_MW

record kratos_server =
  sr_options :: server_options
  sr_filters :: "string list"
  sr_middleware :: "middleware list"
  sr_services :: "string list"

definition NewHTTPServer :: "Conf_Server \<Rightarrow> kratos_server res" where
  "NewHTTPServer c =
     bindR (listen_options (sv_Http c)) (\<lambda>opts.
     Ok \<lparr>sr_options = opts, sr_filters = [''cors''], sr_middleware = [Recovery, Metrics_MW],
         sr_services = [''Strategy'', ''Activity'']\<rparr>)"

definition NewGRPCServer :: "Conf_Server \<Rightarrow> kratos_server res" where
  "NewGRPCServer c =
     bindR (listen_options (sv_Grpc c)) (\<lambda>opts.
     Ok \<lparr>sr_options = opts, sr_filters = [], sr_middleware = [Recovery],
         sr_services = [''Strategy'', ''Activity'']\<rparr>)"

text \<open>A handler behind the middleware of a server; \<open>recovery\<close> is the library's, which turns a panic
  into an error and passes everything else on.\<close>

definition apply_middleware ::
  "(('req, 'rep, world) handler \<Rightarrow> ('req, 'rep, world) handler) \<Rightarrow> services \<Rightarrow> middleware \<Rightarrow>
   ('req, 'rep, world) handler \<Rightarrow> ('req, 'rep, world) handler" where
  "apply_middleware recovery svc m h = (case m of Recovery \<Rightarrow> recovery h | Metrics_MW \<Rightarrow> MetricsMiddleware svc h)"

definition serve ::
  "(('req, 'rep, world) handler \<Rightarrow> ('req, 'rep, world) handler) \<Rightarrow> services \<Rightarrow> kratos_server \<Rightarrow>
   ('req, 'rep, world) handler \<Rightarrow> ('req, 'rep, world) handler" where
  "serve recovery svc srv h = foldr (apply_middleware recovery svc) (sr_middleware srv) h"

section \<open>The metrics server\<close>

record Conf_Monitor =
  mo_Enable :: bool
  mo_Addr :: string
  mo_Path :: string

text \<open>The server behind \<open>MetricsServer\<close>, if there is one: its address and the path it serves.\<close>

definition NewMetricsServer :: "Conf_Monitor option \<Rightarrow> (string \<times> string) option" where
  "NewMetricsServer c =
     (case c of
        None \<Rightarrow> None
      | Some m \<Rightarrow>
          if \<not> mo_Enable m then None
          else Some (mo_Addr m, if mo_Path m = '''' then ''/metrics'' else mo_Path m))"

text \<open>\<open>Start\<close> never fails: the goroutine it starts logs what \<open>ListenAndServe\<close> answers. The result is the
  error that is logged.\<close>

definition ErrServerClosed :: gerr where
  "ErrServerClosed = GoErr ''http: Server closed''"

definition MetricsServer_Start :: "(string \<times> string) option \<Rightarrow> (string \<Rightarrow> gerr) \<Rightarrow> gerr option res" where
  "MetricsServer_Start srv listenAndServe =
     (case srv of
        None \<Rightarrow> Ok None
      | Some (addr, path) \<Rightarrow>
          Ok (if listenAndServe addr \<noteq> ErrServerClosed then Some (listenAndServe addr) else None))"

definition MetricsServer_Stop :: "(string \<times> string) option \<Rightarrow> unit res \<Rightarrow> unit res" where
  "MetricsServer_Stop srv shutdown = (case srv of None \<Rightarrow> Ok () | Some _ \<Rightarrow> shutdown)"

section \<open>Sampling the gauges\<close>

text \<open>What the loop of \<open>startQueueMetricsCollector\<close> receives: a tick of ten seconds, or the end of the
  context. A ticker that was stopped gives nothing more.\<close>

datatype signal = Tick | CtxDone

fun collector_loop :: "unit M \<Rightarrow> signal list \<Rightarrow> unit M" where
  "collector_loop collect [] = ret ()"
| "collector_loop collect (Tick # ss) = bindE collect (\<lambda>_. collector_loop collect ss)"
| "collector_loop collect (CtxDone # ss) = ret ()"

definition startQueueMetricsCollector ::
  "(string list res \<times> (string \<Rightarrow> (int \<times> int \<times> int) res)) option \<Rightarrow> string list \<Rightarrow> signal list \<Rightarrow> unit M" where
  "startQueueMetricsCollector inspector queues ss =
     bindE (collectQueueMetrics inspector queues) (\<lambda>_. collector_loop (collectQueueMetrics inspector queues) ss)"

text \<open>The statistics of the pool at the start and at each tick; this loop has no end.\<close>

definition startMySQLStatsCollector :: "DBStats option list \<Rightarrow> string \<Rightarrow> string \<Rightarrow> unit M" where
  "startMySQLStatsCollector samples dbName role = forE samples (\<lambda>st. collectMySQLStats st dbName role)"

section \<open>The logger\<close>

text \<open>The levels are ordered by their severity.\<close>

fun severity :: "log_level \<Rightarrow> nat" where
  "severity DebugLevel = 0"
| "severity InfoLevel = 1"
| "severity WarnLevel = 2"
| "severity ErrorLevel = 3"
| "severity FatalLevel = 4"

lemma severity_inj: "severity a = severity b \<Longrightarrow> a = b"
  by (cases a; cases b) simp_all

instantiation log_level :: linorder
begin

definition less_eq_log_level :: "log_level \<Rightarrow> log_level \<Rightarrow> bool" where
  "less_eq_log_level a b \<longleftrightarrow> severity a \<le> severity b"

definition less_log_level :: "log_level \<Rightarrow> log_level \<Rightarrow> bool" where
  "less_log_level a b \<longleftrightarrow> severity a < severity b"

instance
  by standard (auto simp: less_eq_log_level_def less_log_level_def severity_inj)

end

record Conf_Log =
  lc_Filename :: string
  lc_MaxSize :: int
  lc_MaxBackups :: int
  lc_MaxAge :: int
  lc_Level :: string
  lc_Compress :: bool

text \<open>The global logger: the settings of the rotated file and the level from which it writes.\<close>

record logger =
  lg_Filename :: string
  lg_MaxSize :: int
  lg_MaxBackups :: int
  lg_MaxAge :: int
  lg_Compress :: bool
  lg_level :: log_level

definition logger_Init :: "Conf_Log \<Rightarrow> logger" where
  "logger_Init cfg =
     \<lparr>lg_Filename = lc_Filename cfg, lg_MaxSize = lc_MaxSize cfg, lg_MaxBackups = lc_MaxBackups cfg,
      lg_MaxAge = lc_MaxAge cfg, lg_Compress = lc_Compress cfg, lg_level = parseLevel (lc_Level cfg)\<rparr>"

text \<open>A call of the sugared logger on the lines written so far; before \<open>Init\<close> the global is nil.\<close>

definition sugared :: "logger option \<Rightarrow> log_level \<Rightarrow> string \<Rightarrow> string list \<Rightarrow> (unit, (log_level \<times> string \<times> string list) list) act" where
  "sugared lg level msg args written =
     (case lg of
        None \<Rightarrow> (Panic ''runtime error: nil pointer dereference'', written)
      | Some l \<Rightarrow> (Ok (), if lg_level l \<le> level then written @ [(level, msg, args)] else written))"

definition logger_Info where "logger_Info lg msg args = sugared lg InfoLevel msg args"
definition logger_Warn where "logger_Warn lg msg args = sugared lg WarnLevel msg args"
definition logger_Error where "logger_Error lg msg args = sugared lg ErrorLevel msg args"
definition logger_Debug where "logger_Debug lg msg args = sugared lg DebugLevel msg args"

text \<open>The variants with a context ignore it.\<close>

definition InfoContext where "InfoContext lg ctx msg args = sugared lg InfoLevel msg args"
definition WarnContext where "WarnContext lg ctx msg args = sugared lg WarnLevel msg args"
definition ErrorContext where "ErrorContext lg ctx msg args = sugared lg ErrorLevel msg args"

section \<open>The wiring of the market\<close>

record Conf_Asynq =
  ca_Redis :: Conf_Redis
  ca_Concurrency :: int

record Conf_Data =
  cd_Mysql :: Data_Mysql
  cd_Redis :: Conf_Redis

text \<open>\<open>conf.Bootstrap\<close>; a part that a configuration may leave out is an option.\<close>

record Bootstrap =
  bc_Server :: Conf_Server
  bc_Data :: Conf_Data
  bc_Rabbitmq :: Conf_RabbitMQ
  bc_Topics :: topics
  bc_Asynq :: Conf_Asynq
  bc_Monitor :: "Conf_Monitor option"
  bc_Log :: "Conf_Log option"

definition NewMysqlConfig :: "Conf_Data \<Rightarrow> Data_Mysql" where "NewMysqlConfig c = cd_Mysql c"

definition NewRedisConfig :: "Conf_Data \<Rightarrow> Conf_Redis" where "NewRedisConfig c = cd_Redis c"

text \<open>What the outside answers while the application is put together.\<close>

record backends =
  be_gorm :: gorm_lib
  be_ping :: "redis_Options \<Rightarrow> gerr option"
  be_dial :: "string \<Rightarrow> gerr option"
  be_channel :: "string \<Rightarrow> gerr option"

text \<open>\<open>NewRabbitMQPublisher\<close> opens a channel; nothing is declared yet. \<open>NewPublisher\<close> adds the topics.\<close>

record publisher =
  pb_connection :: string
  pb_declared :: "string set"
  pb_topic :: topics

definition NewRabbitMQPublisher :: "(string \<Rightarrow> gerr option) \<Rightarrow> string \<Rightarrow> (string \<times> string set) res" where
  "NewRabbitMQPublisher channel conn =
     (case channel conn of Some e \<Rightarrow> Err e | None \<Rightarrow> Ok (conn, {}))"

definition NewPublisher :: "string \<times> string set \<Rightarrow> topics \<Rightarrow> publisher" where
  "NewPublisher client tp = \<lparr>pb_connection = fst client, pb_declared = snd client, pb_topic = tp\<rparr>"

text \<open>The application: its connections, and the servers in the order in which kratos starts them.\<close>

record app =
  ap_db :: gorm_db
  ap_dbs :: "string \<rightharpoonup> gorm_db"
  ap_router :: DBRouter
  ap_redis :: redis_Options
  ap_asynq :: RedisClientOpt
  ap_publisher :: publisher
  ap_grpc :: kratos_server
  ap_http :: kratos_server
  ap_metrics :: "(string \<times> string) option"
  ap_queues :: "string list"
  ap_topics :: "string set"

text \<open>A computation in which the libraries' formatting may meet a directive that is not modelled.\<close>

definition bindO :: "'a res option \<Rightarrow> ('a \<Rightarrow> 'b res option) \<Rightarrow> 'b res option" where
  "bindO m f =
     (case m of
        None \<Rightarrow> None
      | Some (Ok x) \<Rightarrow> f x
      | Some (Err e) \<Rightarrow> Some (Err e)
      | Some (Panic p) \<Rightarrow> Some (Panic p))"

definition wireApp :: "backends \<Rightarrow> Bootstrap \<Rightarrow> app res option" where
  "wireApp be bc =
     (let mysql = NewMysqlConfig (bc_Data bc)
      in bindO (NewDB (be_gorm be) mysql) (\<lambda>(db, _).
         bindO (Some (NewRedisClient (be_ping be) (NewRedisConfig (bc_Data bc)))) (\<lambda>cache.
         let client = NewAsynqClient (ca_Redis (bc_Asynq bc))
         in bindO (open_router (be_gorm be) mysql) (\<lambda>(dbs, _).
         bindO (Some (NewConnection (be_dial be) (bc_Rabbitmq bc))) (\<lambda>connection.
         bindO (Some (NewRabbitMQPublisher (be_channel be) connection)) (\<lambda>rabbitMQPublisher.
         bindO (Some (NewGRPCServer (bc_Server bc))) (\<lambda>grpcServer.
         bindO (Some (NewHTTPServer (bc_Server bc))) (\<lambda>httpServer.
         Some (Ok \<lparr>ap_db = db, ap_dbs = dbs, ap_router = NewDBRouter (my_DbCount mysql) (my_TbCount mysql),
                   ap_redis = cache, ap_asynq = client, ap_publisher = NewPublisher rabbitMQPublisher (bc_Topics bc),
                   ap_grpc = grpcServer, ap_http = httpServer, ap_metrics = NewMetricsServer (bc_Monitor bc),
                   ap_queues = [TaskTypeActivitySkuStockConsume, ''default'', ''low''],
                   ap_topics = {ActivitySkuStockZeroTopic, ActivityAwardSendTopic, SaveOrderRecordTopic}\<rparr>)))))))))"

section \<open>The start of the market\<close>

text \<open>
  What the libraries answer to \<open>main\<close>: the etcd client and its source, the first \<open>Load\<close> of the
  configuration, its scan, and for \<open>dccManager.Init\<close> the second \<open>Load\<close> and the scan of its key; \<open>run\<close> is
  what \<open>app.Run\<close> answers. The process starts with no value in memory and what the disk holds.
\<close>

record startup =
  su_client :: "gerr option"
  su_source :: "gerr option"
  su_load :: "gerr option"
  su_scan :: "Bootstrap res"
  su_dcc_load :: "unit res"
  su_dcc_scan :: "Dcc res"
  su_run :: "app \<Rightarrow> gerr option"

definition snapshot_path :: string where
  "snapshot_path = ''./data/fallback_snapshot.json''"

definition panic_if :: "string \<Rightarrow> gerr option \<Rightarrow> (unit, 'w) act" where
  "panic_if s err = (case err of None \<Rightarrow> ret () | Some e \<Rightarrow> panic s)"

text \<open>The result is the application that ran, \<open>None\<close> for a format that is not modelled.\<close>

definition market_main ::
  "backends \<Rightarrow> startup \<Rightarrow> (nat \<Rightarrow> disk_fault) \<Rightarrow> Dcc codec \<Rightarrow> (app option, manager) act" where
  "market_main be su fault js =
     bindE (panic_if ''etcd client'' (su_client su)) (\<lambda>_.
     bindE (panic_if ''etcd source'' (su_source su)) (\<lambda>_.
     bindE (panic_if ''config load'' (su_load su)) (\<lambda>_.
     caseE (liftR (su_scan su)) (\<lambda>_. panic ''config scan'') (\<lambda>bc.
     case bc_Log bc of
       None \<Rightarrow> panic ''runtime error: nil pointer dereference''
     | Some logCfg \<Rightarrow>
     caseE (Init fault js snapshot_path (su_dcc_load su) (su_dcc_scan su)) (\<lambda>_. panic ''DCC'') (\<lambda>_.
     case wireApp be bc of
       None \<Rightarrow> ret None
     | Some r \<Rightarrow>
         caseE (liftR r) (\<lambda>_. panic ''wireApp'') (\<lambda>app.
         bindE (panic_if ''run'' (su_run su app)) (\<lambda>_. ret (Some app))))))))"

section \<open>The start of the synchronisation\<close>

record canal_config =
  cc_Addr :: string
  cc_User :: string
  cc_Password :: string
  cc_Charset :: string
  cc_Flavor :: string
  cc_ServerID :: int
  cc_ReadTimeout :: int
  cc_ParseTime :: bool
  cc_IncludeTableRegex :: "string list"
  cc_ExecutionPath :: string

text \<open>\<open>parse\<close> is \<open>time.ParseDuration\<close>, \<open>canal\<close> what \<open>canal.NewCanal\<close> answers; \<open>base\<close> is the library's default
  configuration.\<close>

definition NewSyncer ::
  "(string \<Rightarrow> int res) \<Rightarrow> (canal_config \<Rightarrow> gerr option) \<Rightarrow> canal_config \<Rightarrow> Config \<Rightarrow> canal_config res" where
  "NewSyncer parse canal base cfg =
     (case parse (cf_MySQLReadTimeout cfg) of
        Err e \<Rightarrow> Err (Wrap ''parse CDC_MYSQL_READ_TIMEOUT'' e)
      | Panic p \<Rightarrow> Panic p
      | Ok readTimeout \<Rightarrow>
          (let canalCfg = base\<lparr>cc_Addr := cf_MySQLAddr cfg, cc_User := cf_MySQLUser cfg,
                 cc_Password := cf_MySQLPassword cfg, cc_Charset := cf_MySQLCharset cfg,
                 cc_Flavor := cf_MySQLFlavor cfg, cc_ServerID := cf_MySQLServerID cfg, cc_ReadTimeout := readTimeout,
                 cc_ParseTime := True, cc_IncludeTableRegex := cf_IncludeTableRegex cfg, cc_ExecutionPath := ''''\<rparr>
           in case canal canalCfg of Some e \<Rightarrow> Err (Wrap ''new canal'' e) | None \<Rightarrow> Ok canalCfg))"

text \<open>\<open>log.Fatalf\<close> ends the process, here as a panic; \<open>run\<close> is what the synchronisation loop returns.\<close>

definition cdc_main ::
  "'w cdc_env \<Rightarrow> (string \<Rightarrow> string) \<Rightarrow> (string \<Rightarrow> int res) \<Rightarrow> (canal_config \<Rightarrow> gerr option) \<Rightarrow> canal_config \<Rightarrow>
   (canal_config \<Rightarrow> (unit, 'w) act) \<Rightarrow> (unit, 'w) act" where
  "cdc_main env getenv parse canal base run =
     caseE (liftR (LoadConfigFromEnv env getenv)) (\<lambda>_. panic ''load cdc config'') (\<lambda>cfg.
     let writer = NewESWriter cfg
     in caseE (Ping env writer) (\<lambda>_. panic ''ping elasticsearch'') (\<lambda>_.
        caseE (liftR (NewSyncer parse canal base cfg)) (\<lambda>_. panic ''new cdc syncer'') (\<lambda>syncInstance.
        caseE (run syncInstance) (\<lambda>_. panic ''run cdc syncer'') ret)))"

section \<open>What the servers ask of a request\<close>

definition recovery_ok :: "(('req, 'rep, 'w) handler \<Rightarrow> ('req, 'rep, 'w) handler) \<Rightarrow> bool" where
  "recovery_ok recovery \<longleftrightarrow>
     (\<forall>h ctx req w r w'. h ctx req w = (r, w') \<longrightarrow> (\<forall>p. r \<noteq> Panic p) \<longrightarrow> recovery h ctx req w = (r, w'))"

lemma MetricsMiddleware_run:
  assumes "h ctx req (bump w) = (r, w')" and "\<forall>p. r \<noteq> Panic p"
  shows "\<exists>calls. MetricsMiddleware svc h ctx req w = (r, (bump w')\<lparr>metrics := metrics w' @ calls\<rparr>) \<and>
           (\<exists>a b. calls = [a, b] \<and> typed_call HTTPRequestsTotal a \<and> typed_call HTTPRequestDuration b)"
proof (cases r)
  case (Panic p)
  with assms(2) show ?thesis by simp
qed (use assms(1) in \<open>auto simp: MetricsMiddleware_def bindE_def now_def bump_def typed_call_def HTTPRequestsTotal_def
      HTTPRequestDuration_def Let_def split: option.splits prod.splits\<close>)

text \<open>
  The middleware of the HTTP server asks for no identity and changes no answer: whatever the request
  carries, the handler runs and its answer is the reply; two metrics are added. The gRPC server adds
  nothing at all. Neither of them has the authentication middleware, the rate limiter or the degrade
  switch in its chain.
\<close>

lemma http_asks_no_identity:
  assumes "NewHTTPServer c = Ok srv" and "recovery_ok recovery"
    and "h ctx req (bump w) = (r, w')" and "\<forall>p. r \<noteq> Panic p"
  shows "\<exists>calls. serve recovery svc srv h ctx req w = (r, (bump w')\<lparr>metrics := metrics w' @ calls\<rparr>)"
proof -
  have mw: "sr_middleware srv = [Recovery, Metrics_MW]"
    using assms(1) by (cases "listen_options (sv_Http c)") (auto simp: NewHTTPServer_def)
  obtain calls where "MetricsMiddleware svc h ctx req w = (r, (bump w')\<lparr>metrics := metrics w' @ calls\<rparr>)"
    using MetricsMiddleware_run [of h ctx req w r w' svc] assms(3,4) by blast
  then have "recovery (MetricsMiddleware svc h) ctx req w = (r, (bump w')\<lparr>metrics := metrics w' @ calls\<rparr>)"
    using assms(2,4) unfolding recovery_ok_def by blast
  then show ?thesis by (auto simp: serve_def mw apply_middleware_def)
qed

lemma grpc_asks_no_identity:
  assumes "NewGRPCServer c = Ok srv" and "recovery_ok recovery"
    and "h ctx req w = (r, w')" and "\<forall>p. r \<noteq> Panic p"
  shows "serve recovery svc srv h ctx req w = (r, w')"
proof -
  have "sr_middleware srv = [Recovery]"
    using assms(1) by (cases "listen_options (sv_Grpc c)") (auto simp: NewGRPCServer_def)
  then show ?thesis using assms(2-4) by (auto simp: serve_def apply_middleware_def recovery_ok_def)
qed

section \<open>The gauges and the logger\<close>

lemma collectMySQLStats_typed: "calls_typed all_collectors (collectMySQLStats st dbName role)"
proof (cases st)
  case None
  then show ?thesis by (simp add: collectMySQLStats_def calls_typed_ret)
next
  case (Some stats)
  then show ?thesis using business_calls_typed by (simp add: collectMySQLStats_def)
qed

lemma calls_typed_forE: "(\<And>x. x \<in> set xs \<Longrightarrow> calls_typed cs (f x)) \<Longrightarrow> calls_typed cs (forE xs f)"
proof (induction xs)
  case Nil
  have "forE [] f = ret ()" by (rule ext) (simp add: forE_def)
  then show ?case by (simp only: calls_typed_ret)
next
  case (Cons x xs)
  have "forE (x # xs) f = bindE (f x) (\<lambda>_. forE xs f)" by (simp add: forE_def)
  with Cons show ?case by (simp add: calls_typed_bindE)
qed

lemma startMySQLStatsCollector_typed: "calls_typed all_collectors (startMySQLStatsCollector samples dbName role)"
  by (simp add: startMySQLStatsCollector_def calls_typed_forE collectMySQLStats_typed)

text \<open>The sampling of the queues only calls collectors, with their labels, and never fails: an error of
  the inspector skips the queue. It ends with the context.\<close>

lemma collectQueueMetrics_typed:
  assumes "\<And>known info q p. inspector = Some (known, info) \<Longrightarrow> info q \<noteq> Panic p"
  shows "calls_typed all_collectors (collectQueueMetrics inspector queues)"
proof (cases inspector)
  case None
  then show ?thesis by (simp add: collectQueueMetrics_def calls_typed_ret)
next
  case (Some ki)
  obtain known info where ki: "ki = (known, info)" by fastforce
  have "calls_typed all_collectors
      (case info q of
         Ok (size0, retry, scheduled) \<Rightarrow> SetAsynqQueueStats q size0 retry scheduled
       | Err e \<Rightarrow> if errors_Is e ErrQueueNotFound then SetAsynqQueueStats q 0 0 0 else ret ()
       | Panic p \<Rightarrow> panic p)" for q
    using assms [of known info q] Some ki business_calls_typed
    by (cases "info q") (auto simp: calls_typed_ret split: prod.split)
  then show ?thesis
    by (simp add: collectQueueMetrics_def Some ki Let_def calls_typed_forE)
qed

lemma collector_loop_typed: "calls_typed cs collect \<Longrightarrow> calls_typed cs (collector_loop collect ss)"
  by (induction collect ss rule: collector_loop.induct) (simp_all add: calls_typed_ret calls_typed_bindE)

lemma startQueueMetricsCollector_typed:
  assumes "\<And>known info q p. inspector = Some (known, info) \<Longrightarrow> info q \<noteq> Panic p"
  shows "calls_typed all_collectors (startQueueMetricsCollector inspector queues ss)"
proof -
  have "calls_typed all_collectors (collectQueueMetrics inspector queues)"
    by (rule collectQueueMetrics_typed) (use assms in blast)
  then show ?thesis
    unfolding startQueueMetricsCollector_def by (intro calls_typed_bindE collector_loop_typed)
qed

lemma collector_loop_stops: "collector_loop collect (ss @ CtxDone # ss') = collector_loop collect (ss @ [CtxDone])"
proof (induction ss)
  case (Cons s ss)
  then show ?case by (cases s) simp_all
qed simp

text \<open>A line is written exactly when its level is at least the configured one.\<close>

lemma sugared_writes:
  "sugared (Some (logger_Init cfg)) level msg args written =
     (Ok (), if parseLevel (lc_Level cfg) \<le> level then written @ [(level, msg, args)] else written)"
  by (simp add: sugared_def logger_Init_def)

section \<open>The market serves only when everything answered\<close>

lemma bindO_Ok_iff: "bindO m f = Some (Ok y) \<longleftrightarrow> (\<exists>x. m = Some (Ok x) \<and> f x = Some (Ok y))"
  by (auto simp: bindO_def split: option.splits res.splits)

lemma openMySQLDB_Ok:
  "openMySQLDB lib conf = Some (Ok db) \<Longrightarrow> lib_Open lib (gd_dsn db) = None \<and> lib_DB lib (gd_dsn db) = None"
  by (auto simp: openMySQLDB_def split: option.splits if_splits)

lemma open_shards_Ok:
  assumes "open_shards lib conf is dbs printed = Some (Ok (dbs', printed'))"
  shows "dom dbs' = dom dbs \<union> fmt0 2 ` set is \<and>
    (\<forall>k db. dbs' k = Some db \<longrightarrow> dbs k = Some db \<or> lib_Open lib (gd_dsn db) = None)"
  using assms
proof (induction "is" arbitrary: dbs printed)
  case (Cons i "is")
  from Cons.prems obtain dsn db where
    o: "openMySQLDB lib (shard_conf conf dsn) = Some (Ok db)" and
    rec: "open_shards lib conf is (dbs(fmt0 2 i \<mapsto> db)) (printed @ [''DBRouter: '' @ dsn]) = Some (Ok (dbs', printed'))"
    by (auto split: option.splits res.splits)
  have "dbs k = Some d \<or> lib_Open lib (gd_dsn d) = None" if "dbs' k = Some d" for k d
    using conjunct2 [OF Cons.IH [OF rec]] that openMySQLDB_Ok [OF o] by (metis fun_upd_apply option.inject)
  with Cons.IH [OF rec] show ?case by auto
qed simp

definition connected :: "backends \<Rightarrow> app \<Rightarrow> bool" where
  "connected be app \<longleftrightarrow>
     lib_Open (be_gorm be) (gd_dsn (ap_db app)) = None \<and>
     (\<forall>k db. ap_dbs app k = Some db \<longrightarrow> lib_Open (be_gorm be) (gd_dsn db) = None) \<and>
     dom (ap_dbs app) = dom (dbMap (ap_router app)) \<and>
     be_ping be (ap_redis app) = None \<and>
     be_dial be (pb_connection (ap_publisher app)) = None \<and>
     be_channel be (pb_connection (ap_publisher app)) = None"

lemma wireApp_connected:
  assumes "wireApp be bc = Some (Ok app)"
  shows "connected be app"
proof -
  let ?my = "NewMysqlConfig (bc_Data bc)"
  from assms obtain db x cache dbs y conn pub g h where
    db: "NewDB (be_gorm be) ?my = Some (Ok (db, x))" and
    cache: "NewRedisClient (be_ping be) (NewRedisConfig (bc_Data bc)) = Ok cache" and
    dbs: "open_router (be_gorm be) ?my = Some (Ok (dbs, y))" and
    conn: "NewConnection (be_dial be) (bc_Rabbitmq bc) = Ok conn" and
    pub: "NewRabbitMQPublisher (be_channel be) conn = Ok pub" and
    app: "ap_db app = db" "ap_dbs app = dbs" "ap_router app = NewDBRouter (my_DbCount ?my) (my_TbCount ?my)"
      "ap_redis app = cache" "ap_publisher app = NewPublisher pub (bc_Topics bc)"
    by (auto simp: wireApp_def Let_def bindO_Ok_iff split: prod.splits)
  have "lib_Open (be_gorm be) (gd_dsn db) = None"
  proof -
    obtain d where "openMySQLDB (be_gorm be) ?my = Some (Ok d)" and "d = db"
      using db by (cases "openMySQLDB (be_gorm be) ?my" rule: option.exhaust)
         (auto simp: NewDB_def elim!: bindR.elims)
    then show ?thesis using openMySQLDB_Ok by blast
  qed
  moreover have "be_ping be cache = None" using cache by (auto simp: NewRedisClient_def Let_def split: option.splits)
  moreover have "be_dial be conn = None" using conn by (auto simp: NewConnection_def split: option.splits)
  moreover have "be_channel be conn = None" "fst pub = conn" using pub by (auto simp: NewRabbitMQPublisher_def split: option.splits)
  moreover have "dom dbs = dom (dbMap (ap_router app))"
    using open_shards_Ok [OF dbs [unfolded open_router_def]]
    by (auto simp: app NewDBRouter_def open_dbs_lookup dom_def split: if_splits)
  moreover have "\<forall>k d. dbs k = Some d \<longrightarrow> lib_Open (be_gorm be) (gd_dsn d) = None"
    using open_shards_Ok [OF dbs [unfolded open_router_def]] by auto
  ultimately show ?thesis by (simp add: connected_def app NewPublisher_def)
qed

lemma panic_if_Ok [simp]: "panic_if s e w = (Ok u, w') \<longleftrightarrow> e = None \<and> w' = w"
  by (auto simp: panic_if_def split: option.splits)

lemma Init_Ok_value:
  assumes "Init fault js path load scan m = (Ok u, m')"
  shows "mg_value m' \<noteq> None"
  using assms
  by (auto simp: Init_def caseE_def bindE_def on_disk_def Store_def go_SaveSnapshot_def go_watch_def
      split: res.splits prod.splits)

text \<open>
  The market serves only when everything answered: if \<open>main\<close> gets to the end of \<open>app.Run\<close>, the
  configuration was loaded, the dynamic configuration has a value, and the default database, every
  shard of the router, Redis and the broker had been reached.
\<close>

theorem market_serves_connected:
  assumes "market_main be su fault js m = (Ok (Some app), m')"
  shows "su_load su = None \<and> mg_value m' \<noteq> None \<and> connected be app \<and> su_run su app = None"
proof -
  obtain bc m1 where load: "su_load su = None" and init: "\<exists>u. Init fault js snapshot_path (su_dcc_load su) (su_dcc_scan su) m = (Ok u, m1)"
    and wire: "wireApp be bc = Some (Ok app)" and run: "su_run su app = None" and m': "m' = m1"
    using assms
    by (auto simp: market_main_def bindE_Ok_iff caseE_def panic_if_def split: option.splits res.splits prod.splits)
  with wireApp_connected [OF wire] Init_Ok_value show ?thesis by blast
qed

text \<open>
  When the first \<open>Load\<close> fails, because the configuration centre is down, the process ends before the
  snapshot on the disk is looked at: the fallback of \<open>dccManager.Init\<close> serves only a failure of the
  second \<open>Load\<close> of the same sources.
\<close>

lemma load_failure_ignores_snapshot:
  assumes "su_load su = Some e"
  shows "\<exists>p. market_main be su fault js m = (Panic p, m)"
  using assms by (auto simp: market_main_def bindE_def panic_if_def split: option.splits)

text \<open>
  With every backend answering, one \<open>%s\<close> in the DSN and both listeners configured the market starts.
\<close>

definition all_answer :: "backends \<Rightarrow> bool" where
  "all_answer be \<longleftrightarrow> lib_ok (be_gorm be) \<and> (\<forall>x. be_ping be x = None) \<and> (\<forall>x. be_dial be x = None) \<and> (\<forall>x. be_channel be x = None)"

lemma wireApp_starts:
  assumes "all_answer be" and "template (cd_Mysql (bc_Data bc)) pre post"
    and "sv_Http (bc_Server bc) \<noteq> None" and "sv_Grpc (bc_Server bc) \<noteq> None"
  shows "\<exists>app. wireApp be bc = Some (Ok app)"
proof -
  have ok: "lib_ok (be_gorm be)" "\<And>x. be_ping be x = None" "\<And>x. be_dial be x = None" "\<And>x. be_channel be x = None"
    using assms(1) by (auto simp: all_answer_def)
  show ?thesis
    using assms(3,4)
    by (auto simp: wireApp_def Let_def bindO_def NewMysqlConfig_def NewDB_def open_template [OF ok(1) assms(2)]
        open_router_template [OF ok(1) assms(2)] NewRedisClient_def NewConnection_def NewRabbitMQPublisher_def
        NewGRPCServer_def NewHTTPServer_def listen_options_def ok)
qed

lemma market_starts:
  assumes "all_answer be" and "su_client su = None" and "su_source su = None" and "su_load su = None"
    and "su_scan su = Ok bc" and "bc_Log bc \<noteq> None" and "su_dcc_load su = Ok ()" and "su_dcc_scan su = Ok cfg"
    and "template (cd_Mysql (bc_Data bc)) pre post" and "sv_Http (bc_Server bc) \<noteq> None" and "sv_Grpc (bc_Server bc) \<noteq> None"
    and "\<And>app. su_run su app = None"
  shows "\<exists>app m'. market_main be su fault js m = (Ok (Some app), m') \<and> mg_value m' = Some cfg \<and> mg_watching m'"
proof -
  obtain app where app: "wireApp be bc = Some (Ok app)" using wireApp_starts [OF assms(1,9-11)] by blast
  show ?thesis
    using assms(2-8,12) app
    by (auto simp: market_main_def bindE_def caseE_def panic_if_def Init_def Store_def go_SaveSnapshot_def go_watch_def)
qed

end
